(* ===== verification/Prelude.thy ===== *)
theory Prelude
  imports Main "HOL-Library.Word" "HOL-Library.Multiset"
begin

text \<open>
  Vocabulary and generic facts shared by the component theories: the types the code takes
  from its platform, the collections of simplification rules the components fill, and the
  list facts several components need.
\<close>

subsection \<open>Platform types\<close>

text \<open>\<open>ACE_UINT32\<close> and \<open>diameter_unsigned32_t\<close> are 32-bit machine words.\<close>

type_synonym u32 = "32 word"

subsection \<open>Rule collections\<close>

text \<open>
  \<open>fsm_simps\<close> holds the equations that run a state machine, \<open>frame_simps\<close> the fields an
  operation leaves alone.
\<close>

named_theorems fsm_simps \<open>equations that run a state machine\<close>
named_theorems frame_simps \<open>fields an operation leaves unchanged\<close>

subsection \<open>Lists\<close>

lemma count_list_filter_neq: "count_list (filter (\<lambda>x. x \<noteq> d) xs) d = 0"
  by (induction xs) auto

lemma count_list_pos_iff: "0 < count_list xs x \<longleftrightarrow> x \<in> set xs"
  by (induction xs) auto

lemma sum_list_update_nat:
  fixes f :: "'a \<Rightarrow> nat"
  assumes "i < length xs"
  shows "sum_list (map f (xs[i := y])) + f (xs ! i) = sum_list (map f xs) + f y"
  using assms
proof (induction xs arbitrary: i)
  case Nil
  then show ?case by simp
next
  case (Cons x xs)
  then show ?case by (cases i) (auto simp: add.commute add.left_commute)
qed

lemma sum_mset_list_update:
  assumes "i < length xs"
  shows "sum_list (map mset (xs[i := y])) + mset (xs ! i) = sum_list (map mset xs) + mset y"
  using assms
proof (induction xs arbitrary: i)
  case Nil
  then show ?case by simp
next
  case (Cons x xs)
  then show ?case by (cases i) (auto simp: add.assoc add.left_commute)
qed

lemma sum_list_nat_pos:
  assumes "0 < sum_list (map f xs)"
  obtains i where "i < length xs" and "0 < (f (xs ! i) :: nat)"
proof -
  from assms have "\<exists>x \<in> set xs. 0 < f x"
    by (induction xs) auto
  then show ?thesis using that by (metis in_set_conv_nth)
qed

lemma size_sum_list_mset: "size (sum_list (map mset xs)) = sum_list (map length xs)"
  by (induction xs) auto

end
