(* ===== verification/Framework_Fsm.thy ===== *)
theory Framework_Fsm
  imports Prelude
begin

text \<open>
  The protocol state machine framework of \<open>include/framework.h\<close>: state table entries, the
  state table with its duplicate check, the state machine with its \<open>Event\<close> dispatch, and the
  timer map of \<open>AAA_StateMachineWithTimer\<close>. A machine of a protocol is a record that extends
  \<open>fsm\<close>, as the C++ class derives from the template. The reactor is the ACE library: a timer
  that is in the map is one the reactor will fire, again and again until it is cancelled.
\<close>

subsection \<open>Errors and table entries\<close>

datatype AAA_Error =
    NoInitialState
  | FoundDuplicateStateTableEntry
  | ActivationFailure
  | TaskNotRunning
  | NoData

text \<open>An entry whose event is \<open>None\<close> is a wildcard entry (\<open>isWildcardEvent\<close>).\<close>

datatype ('s, 'e, 'a) fsm_entry =
  FsmEntry (prevState: 's) (entryEvent: "'e option") (nextState: 's) (entryAction: 'a)

subsection \<open>Looking an entry up\<close>

text \<open>
  \<open>FindStateTableEntry(st, ev, entry)\<close>: a specific entry is returned at once, a wildcard entry
  is remembered and the scan goes on. The last argument is the entry remembered so far.
\<close>

fun find_entry_from ::
  "'s \<Rightarrow> 'e \<Rightarrow> ('s, 'e, 'a) fsm_entry list \<Rightarrow> ('s, 'e, 'a) fsm_entry option
   \<Rightarrow> ('s, 'e, 'a) fsm_entry option" where
  "find_entry_from st ev [] found = found"
| "find_entry_from st ev (e # es) found =
     (if prevState e \<noteq> st then find_entry_from st ev es found
      else case entryEvent e of
             None \<Rightarrow> find_entry_from st ev es (Some e)
           | Some ev' \<Rightarrow> if ev' = ev then Some e else find_entry_from st ev es found)"

definition FindStateTableEntry ::
  "('s, 'e, 'a) fsm_entry list \<Rightarrow> 's \<Rightarrow> 'e \<Rightarrow> ('s, 'e, 'a) fsm_entry option" where
  "FindStateTableEntry tbl st ev = find_entry_from st ev tbl None"

text \<open>\<open>FindStateTableEntry(st, entry)\<close>: is there a wildcard entry for the state?\<close>

fun FindWildcardEntry :: "('s, 'e, 'a) fsm_entry list \<Rightarrow> 's \<Rightarrow> bool" where
  "FindWildcardEntry [] st = False"
| "FindWildcardEntry (e # es) st =
     (if prevState e \<noteq> st then FindWildcardEntry es st
      else if entryEvent e = None then True
      else FindWildcardEntry es st)"

subsection \<open>Building a table\<close>

definition AddStateTableEntry ::
  "'s \<Rightarrow> 'e \<Rightarrow> 's \<Rightarrow> 'a \<Rightarrow> ('s, 'e, 'a) fsm_entry list
   \<Rightarrow> AAA_Error + ('s, 'e, 'a) fsm_entry list" where
  "AddStateTableEntry pSt ev nSt ac tbl =
     (case FindStateTableEntry tbl pSt ev of
        Some _ \<Rightarrow> Inl FoundDuplicateStateTableEntry
      | None \<Rightarrow> Inr (tbl @ [FsmEntry pSt (Some ev) nSt ac]))"

definition AddWildcardStateTableEntry ::
  "'s \<Rightarrow> 's \<Rightarrow> 'a \<Rightarrow> ('s, 'e, 'a) fsm_entry list
   \<Rightarrow> AAA_Error + ('s, 'e, 'a) fsm_entry list" where
  "AddWildcardStateTableEntry pSt nSt ac tbl =
     (if FindWildcardEntry tbl pSt then Inl FoundDuplicateStateTableEntry
      else Inr (tbl @ [FsmEntry pSt None nSt ac]))"

text \<open>
  The constructor of a table is a sequence of these two calls; an exception of one of them
  ends it. A call is written as the entry it would add.
\<close>

fun build_from ::
  "('s, 'e, 'a) fsm_entry list \<Rightarrow> ('s, 'e, 'a) fsm_entry list
   \<Rightarrow> AAA_Error + ('s, 'e, 'a) fsm_entry list" where
  "build_from tbl [] = Inr tbl"
| "build_from tbl (FsmEntry pSt evo nSt ac # cs) =
     (case (case evo of
              Some ev \<Rightarrow> AddStateTableEntry pSt ev nSt ac tbl
            | None \<Rightarrow> AddWildcardStateTableEntry pSt nSt ac tbl) of
        Inl err \<Rightarrow> Inl err
      | Inr tbl' \<Rightarrow> build_from tbl' cs)"

subsection \<open>The machine\<close>

text \<open>
  \<open>AAA_StateMachine\<close> and \<open>AAA_StateMachineWithTimer\<close>: the state, the running flag, and the
  timer map from a timer type to the event the timer raises and its period in seconds.
\<close>

record ('s, 'e) fsm =
  fsm_state :: 's
  fsm_running :: bool
  fsm_timers :: "int \<Rightarrow> ('e \<times> nat) option"

definition fsm_Start :: "'s \<Rightarrow> ('s, 'e, 'b) fsm_scheme \<Rightarrow> ('s, 'e, 'b) fsm_scheme" where
  "fsm_Start initial m = m\<lparr>fsm_state := initial, fsm_running := True\<rparr>"

definition fsm_Stop :: "('s, 'e, 'b) fsm_scheme \<Rightarrow> ('s, 'e, 'b) fsm_scheme" where
  "fsm_Stop m = m\<lparr>fsm_running := False\<rparr>"

text \<open>\<open>Event\<close>: the state changes before the action runs, so an action sees the new state.\<close>

definition fsm_Event ::
  "('s, 'e, 'a) fsm_entry list
   \<Rightarrow> ('a \<Rightarrow> ('s, 'e, 'b) fsm_scheme \<Rightarrow> ('s, 'e, 'b) fsm_scheme)
   \<Rightarrow> ('s, 'e, 'b) fsm_scheme \<Rightarrow> 'e \<Rightarrow> ('s, 'e, 'b) fsm_scheme" where
  "fsm_Event tbl act m ev =
     (if \<not> fsm_running m then m
      else case FindStateTableEntry tbl (fsm_state m) ev of
             None \<Rightarrow> m
           | Some e \<Rightarrow> act (entryAction e) (m\<lparr>fsm_state := nextState e\<rparr>))"

definition CancelTimer ::
  "int \<Rightarrow> ('s, 'e, 'b) fsm_scheme \<Rightarrow> ('s, 'e, 'b) fsm_scheme" where
  "CancelTimer ty m = m\<lparr>fsm_timers := (fsm_timers m)(ty := None)\<rparr>"

definition ScheduleTimer ::
  "'e \<Rightarrow> nat \<Rightarrow> int \<Rightarrow> ('s, 'e, 'b) fsm_scheme \<Rightarrow> ('s, 'e, 'b) fsm_scheme" where
  "ScheduleTimer ev sec ty m =
     (let m' = CancelTimer ty m
      in m'\<lparr>fsm_timers := (fsm_timers m')(ty \<mapsto> (ev, sec))\<rparr>)"

definition CancelAllTimer :: "('s, 'e, 'b) fsm_scheme \<Rightarrow> ('s, 'e, 'b) fsm_scheme" where
  "CancelAllTimer m = m\<lparr>fsm_timers := Map.empty\<rparr>"


subsection \<open>Looking up in any list of entries\<close>

lemma find_entry_from_memD:
  "find_entry_from st ev es found = Some e \<Longrightarrow>
     found = Some e \<or> e \<in> set es \<and> prevState e = st \<and> (entryEvent e = Some ev \<or> entryEvent e = None)"
proof (induction es arbitrary: found)
  case Nil
  then show ?case by simp
next
  case (Cons x xs)
  show ?case
    using Cons.IH [of found] Cons.IH [of "Some x"] Cons.prems
    by (cases "prevState x = st"; cases "entryEvent x"; auto split: if_splits)
qed

lemma find_entry_from_None_iff:
  "find_entry_from st ev es found = None \<longleftrightarrow>
     found = None \<and> (\<forall>e \<in> set es. prevState e = st \<longrightarrow> entryEvent e \<noteq> Some ev \<and> entryEvent e \<noteq> None)"
proof (induction es arbitrary: found)
  case Nil
  then show ?case by simp
next
  case (Cons x xs)
  then show ?case by (auto split: option.splits)
qed

lemma find_entry_from_specific:
  assumes "e \<in> set es" "prevState e = st" "entryEvent e = Some ev"
  shows "\<exists>e'. find_entry_from st ev es found = Some e' \<and> e' \<in> set es \<and> prevState e' = st \<and> entryEvent e' = Some ev"
  using assms
proof (induction es arbitrary: found)
  case Nil
  then show ?case by simp
next
  case (Cons x xs)
  then show ?case
  proof (cases "x = e \<or> prevState x = st \<and> entryEvent x = Some ev")
    case True
    with Cons.prems show ?thesis by auto
  next
    case False
    with Cons.prems have "e \<in> set xs" by auto
    note IH = Cons.IH [OF this Cons.prems(2,3)]
    show ?thesis
      using IH [of found] IH [of "Some x"] False by (auto split: option.splits)
  qed
qed

lemma FindWildcardEntry_iff:
  "FindWildcardEntry es st \<longleftrightarrow> (\<exists>e \<in> set es. prevState e = st \<and> entryEvent e = None)"
  by (induction es) auto

lemma FindStateTableEntry_None_iff:
  "FindStateTableEntry es st ev = None \<longleftrightarrow>
     (\<forall>e \<in> set es. prevState e = st \<longrightarrow> entryEvent e \<noteq> Some ev \<and> entryEvent e \<noteq> None)"
  by (simp add: FindStateTableEntry_def find_entry_from_None_iff)

subsection \<open>The contract of a table that was built\<close>

text \<open>The keys of a table: no two entries of a built table have the same one.\<close>

definition entry_key :: "('s, 'e, 'a) fsm_entry \<Rightarrow> 's \<times> 'e option" where
  "entry_key e = (prevState e, entryEvent e)"

lemma build_from_extends: "build_from tbl cs = Inr tbl' \<Longrightarrow> tbl' = tbl @ cs"
proof (induction cs arbitrary: tbl)
  case Nil
  then show ?case by simp
next
  case (Cons c cs)
  obtain p ev n a where [simp]: "c = FsmEntry p ev n a" by (cases c)
  from Cons.prems obtain t where t: "t = tbl @ [c]" and "build_from t cs = Inr tbl'"
    by (auto simp: AddStateTableEntry_def AddWildcardStateTableEntry_def
        split: option.splits if_splits sum.splits)
  with Cons.IH [of t] show ?case by simp
qed

lemma build_from_distinct_keys:
  "build_from tbl cs = Inr tbl' \<Longrightarrow> distinct (List.map entry_key tbl) \<Longrightarrow> distinct (List.map entry_key tbl')"
proof (induction cs arbitrary: tbl)
  case Nil
  then show ?case by simp
next
  case (Cons c cs)
  obtain p ev n a where c [simp]: "c = FsmEntry p ev n a" by (cases c)
  from Cons.prems(1) have t: "build_from (tbl @ [c]) cs = Inr tbl'"
    by (auto simp: AddStateTableEntry_def AddWildcardStateTableEntry_def
        split: option.splits if_splits sum.splits)
  have "entry_key c \<notin> entry_key ` set tbl"
  proof (cases ev)
    case None
    with Cons.prems(1) have "\<not> FindWildcardEntry tbl p"
      by (auto simp: AddWildcardStateTableEntry_def split: if_splits)
    with None show ?thesis by (auto simp: FindWildcardEntry_iff entry_key_def)
  next
    case (Some e)
    with Cons.prems(1) have "FindStateTableEntry tbl p e = None"
      by (auto simp: AddStateTableEntry_def split: option.splits sum.splits)
    with Some show ?thesis by (auto simp: FindStateTableEntry_None_iff entry_key_def)
  qed
  with Cons.prems(2) have "distinct (List.map entry_key (tbl @ [c]))" by simp
  with Cons.IH [OF t] show ?case by simp
qed

text \<open>
  A machine asks one thing of its table: that the constructor finished, that is, that the
  sequence of calls raised no \<open>FoundDuplicateStateTableEntry\<close>. Everything a lookup promises
  follows.
\<close>

locale state_table =
  fixes cmds :: "('s, 'e, 'a) fsm_entry list"
    and tbl :: "('s, 'e, 'a) fsm_entry list"
  assumes built: "build_from [] cmds = Inr tbl"
begin

lemma entries_are_calls: "tbl = cmds"
  using build_from_extends [OF built] by simp

lemma keys_distinct: "distinct (List.map entry_key tbl)"
  using build_from_distinct_keys [OF built] by simp

lemma key_unique:
  assumes "e \<in> set tbl" "e' \<in> set tbl" "prevState e = prevState e'" "entryEvent e = entryEvent e'"
  shows "e = e'"
  using keys_distinct assms by (auto simp: distinct_map inj_on_def entry_key_def)

lemma specific_wins:
  assumes "e \<in> set tbl" "entryEvent e = Some ev"
  shows "FindStateTableEntry tbl (prevState e) ev = Some e"
  using find_entry_from_specific [OF assms(1) refl assms(2), of None] key_unique assms
  by (fastforce simp: FindStateTableEntry_def)

lemma lookup_iff:
  "FindStateTableEntry tbl st ev = Some e \<longleftrightarrow>
     e \<in> set tbl \<and> prevState e = st \<and>
     (entryEvent e = Some ev \<or>
      entryEvent e = None \<and> (st, Some ev) \<notin> entry_key ` set tbl)"
  (is "?l \<longleftrightarrow> ?r")
proof
  assume l: ?l
  then have e: "e \<in> set tbl" "prevState e = st" "entryEvent e = Some ev \<or> entryEvent e = None"
    using find_entry_from_memD [of st ev tbl None e] by (auto simp: FindStateTableEntry_def)
  moreover have "(st, Some ev) \<notin> entry_key ` set tbl" if "entryEvent e = None"
  proof
    assume "(st, Some ev) \<in> entry_key ` set tbl"
    then obtain e' where "e' \<in> set tbl" "prevState e' = st" "entryEvent e' = Some ev"
      by (auto simp: entry_key_def)
    with specific_wins have "FindStateTableEntry tbl st ev = Some e'" by blast
    with l that \<open>entryEvent e' = Some ev\<close> show False by simp
  qed
  ultimately show ?r by (elim disjE) simp_all
next
  assume r: ?r
  show ?l
  proof (cases "entryEvent e = Some ev")
    case True
    with r specific_wins show ?thesis by blast
  next
    case False
    with r have n: "entryEvent e = None" "(st, Some ev) \<notin> entry_key ` set tbl" by auto
    then have "FindStateTableEntry tbl st ev \<noteq> None"
      using r by (auto simp: FindStateTableEntry_None_iff)
    then obtain e' where f: "FindStateTableEntry tbl st ev = Some e'" by blast
    then have "e' \<in> set tbl" "prevState e' = st" "entryEvent e' = Some ev \<or> entryEvent e' = None"
      using find_entry_from_memD [of st ev tbl None e'] by (auto simp: FindStateTableEntry_def)
    with n r key_unique [of e' e] f show ?thesis by (auto simp: entry_key_def image_iff)
  qed
qed

lemma lookup_deterministic_of_keys:
  assumes "e \<in> set tbl" "entryEvent e = None" "(prevState e, Some ev) \<notin> entry_key ` set tbl"
  shows "FindStateTableEntry tbl (prevState e) ev = Some e"
  using assms lookup_iff by blast

end

subsection \<open>Invariants of a machine\<close>

text \<open>
  The contract between a table and its actions: an action that runs on a machine which has
  just changed state along the entry the table has for the event establishes the invariant again.
  \<open>enabled\<close> is what the sender of the event promises. Then a machine that is fed events whose
  promise is kept stays in the invariant.
\<close>

locale machine_invariant =
  fixes tbl :: "('s, 'e, 'a) fsm_entry list"
    and act :: "'a \<Rightarrow> ('s, 'e, 'b) fsm_scheme \<Rightarrow> ('s, 'e, 'b) fsm_scheme"
    and enabled :: "'e \<Rightarrow> ('s, 'e, 'b) fsm_scheme \<Rightarrow> bool"
    and inv :: "('s, 'e, 'b) fsm_scheme \<Rightarrow> bool"
  assumes action_keeps:
    "inv m \<Longrightarrow> enabled ev m \<Longrightarrow> fsm_running m \<Longrightarrow> e \<in> set tbl \<Longrightarrow> prevState e = fsm_state m
     \<Longrightarrow> entryEvent e = Some ev \<or> entryEvent e = None
     \<Longrightarrow> inv (act (entryAction e) (m\<lparr>fsm_state := nextState e\<rparr>))"
begin

lemma event_keeps:
  assumes "inv m" "enabled ev m"
  shows "inv (fsm_Event tbl act m ev)"
proof (cases "fsm_running m")
  case False
  with assms show ?thesis by (simp add: fsm_Event_def)
next
  case True
  show ?thesis
  proof (cases "FindStateTableEntry tbl (fsm_state m) ev")
    case None
    with assms True show ?thesis by (simp add: fsm_Event_def)
  next
    case (Some e)
    then have "e \<in> set tbl" "prevState e = fsm_state m" "entryEvent e = Some ev \<or> entryEvent e = None"
      using find_entry_from_memD [of "fsm_state m" ev tbl None e]
      by (auto simp: FindStateTableEntry_def)
    from action_keeps [OF assms True this] True Some show ?thesis by (simp add: fsm_Event_def)
  qed
qed

lemma run_keeps:
  "(\<And>m ev. inv m \<Longrightarrow> ev \<in> set evs \<Longrightarrow> enabled ev m) \<Longrightarrow> inv m \<Longrightarrow> inv (foldl (fsm_Event tbl act) m evs)"
proof (induction evs arbitrary: m)
  case Nil
  then show ?case by simp
next
  case (Cons ev evs)
  then have "inv (fsm_Event tbl act m ev)" by (intro event_keeps) auto
  with Cons show ?case by simp
qed

end

subsection \<open>Timers\<close>

lemma ScheduleTimer_replaces [fsm_simps]:
  "fsm_timers (ScheduleTimer ev sec ty m) = (fsm_timers m)(ty \<mapsto> (ev, sec))"
  by (simp add: ScheduleTimer_def CancelTimer_def Let_def)

lemma CancelTimer_timers [fsm_simps]:
  "fsm_timers (CancelTimer ty m) = (fsm_timers m)(ty := None)"
  by (simp add: CancelTimer_def)

lemma CancelAllTimer_timers [fsm_simps]: "fsm_timers (CancelAllTimer m) = Map.empty"
  by (simp add: CancelAllTimer_def)

lemma timer_frames [frame_simps]:
  "fsm_state (ScheduleTimer ev sec ty m) = fsm_state m"
  "fsm_state (CancelTimer ty m) = fsm_state m"
  "fsm_state (CancelAllTimer m) = fsm_state m"
  "fsm_running (ScheduleTimer ev sec ty m) = fsm_running m"
  "fsm_running (CancelTimer ty m) = fsm_running m"
  "fsm_running (CancelAllTimer m) = fsm_running m"
  by (simp_all add: ScheduleTimer_def CancelTimer_def CancelAllTimer_def Let_def)

end
