(* ===== verification/Framework_Queue.thy ===== *)
theory Framework_Queue
  imports Prelude
begin

text \<open>
  \<open>AAA_QueueJob\<close> of \<open>include/framework.h\<close>: the weighted priority queue every job of the framework
  is built on. Per priority there is an index queue, per priority and weight a data queue; an
  index stands for the right to be served once. \<open>None\<close> as the result of an operation is an access
  outside the two arrays or a \<open>front()\<close> of an empty list, which C++ leaves undefined. A thread that
  would sleep on the condition variable gets a \<open>Wait\<close> result and the queue as it was.
\<close>

subsection \<open>State\<close>

record 'a qjob =
  numPriority :: nat
  maxWeight :: nat
  indexQueue :: "nat list list"
  dataQueue :: "'a list list"
  qtotal :: nat
  signaled :: bool

definition maxNumPriority :: nat where "maxNumPriority = 3"

definition maxMaxWeight :: nat where "maxMaxWeight = 3"

text \<open>\<open>(size_t)-1\<close> on a machine with 64-bit sizes. \<open>total\<close> is an \<open>unsigned\<close> of 32 bits and wraps
  around, so that the comparison of \<open>Enqueue\<close> with this bound never holds there.\<close>

definition MaxSize :: nat where "MaxSize = 2 ^ 64 - 1"

text \<open>The constructor throws 1 when an argument is too large.\<close>

definition QueueJob :: "nat \<Rightarrow> nat \<Rightarrow> int + 'a qjob" where
  "QueueJob np mw =
     (if maxNumPriority < np then Inl 1
      else if maxMaxWeight < mw then Inl 1
      else Inr \<lparr>numPriority = np, maxWeight = mw, indexQueue = replicate np [],
                dataQueue = replicate (np * mw) [], qtotal = 0, signaled = False\<rparr>)"

definition ExistBacklog :: "'a qjob \<Rightarrow> bool" where
  "ExistBacklog q \<longleftrightarrow> 0 < qtotal q"

subsection \<open>Indices\<close>

text \<open>Both are \<open>unsigned\<close>: priority or weight 0 wraps around.\<close>

definition PriorityIndex :: "nat \<Rightarrow> nat" where
  "PriorityIndex p = (min p maxNumPriority + 2 ^ 32 - 1) mod 2 ^ 32"

definition DataIndex :: "'a qjob \<Rightarrow> nat \<Rightarrow> nat \<Rightarrow> nat" where
  "DataIndex q p w =
     (PriorityIndex p * maxWeight q + (min w maxMaxWeight + 2 ^ 32 - 1)) mod 2 ^ 32"

subsection \<open>Operations\<close>

datatype enqueue_result = EnqRejected | EnqWait | EnqSignaled | Enqueued nat

definition Enqueue ::
  "'a \<Rightarrow> bool \<Rightarrow> nat \<Rightarrow> nat \<Rightarrow> 'a qjob \<Rightarrow> (enqueue_result \<times> 'a qjob) option" where
  "Enqueue x blocking priority weight q =
     (if \<not> signaled q \<and> qtotal q = MaxSize
      then Some (if blocking then EnqWait else EnqRejected, q)
      else if signaled q \<and> blocking then Some (EnqSignaled, q)
      else let p = PriorityIndex priority; d = DataIndex q priority weight in
        if length (indexQueue q) \<le> p \<or> length (dataQueue q) \<le> d then None
        else let iq = (if length (dataQueue q ! d) < weight
                       then (indexQueue q)[p := indexQueue q ! p @ [d]]
                       else indexQueue q);
                 t = (qtotal q + 1) mod 2 ^ 32
             in Some (Enqueued t,
                      q\<lparr>indexQueue := iq,
                        dataQueue := (dataQueue q)[d := dataQueue q ! d @ [x]],
                        qtotal := t\<rparr>))"

text \<open>The scan for the first priority whose index queue is not empty, from priority \<open>p\<close> on.\<close>

fun first_backlog :: "nat \<Rightarrow> nat list list \<Rightarrow> (nat \<times> nat) option" where
  "first_backlog p [] = None"
| "first_backlog p ([] # rows) = first_backlog (Suc p) rows"
| "first_backlog p ((d # ds) # rows) = Some (p, d)"

datatype 'a dequeue_result = DeqEmpty | DeqWait | DeqSignaled | DeqBug | Dequeued 'a

definition Dequeue :: "bool \<Rightarrow> 'a qjob \<Rightarrow> ('a dequeue_result \<times> 'a qjob) option" where
  "Dequeue blocking q =
     (if \<not> signaled q \<and> qtotal q = 0
      then Some (if blocking then DeqWait else DeqEmpty, q)
      else if signaled q \<and> blocking then Some (DeqSignaled, q)
      else case first_backlog 0 (indexQueue q) of
          None \<Rightarrow> Some (DeqBug, q)
        | Some (p, d) \<Rightarrow>
            if length (dataQueue q) \<le> d \<or> dataQueue q ! d = [] then None
            else let row = tl (indexQueue q ! p);
                     x = hd (dataQueue q ! d);
                     dq = tl (dataQueue q ! d);
                     row' = (if d mod maxWeight q + 1 \<le> length dq then row @ [d] else row)
                 in Some (Dequeued x,
                          q\<lparr>indexQueue := (indexQueue q)[p := row'],
                            dataQueue := (dataQueue q)[d := dq],
                            qtotal := (qtotal q + 2 ^ 32 - 1) mod 2 ^ 32\<rparr>))"

text \<open>
  \<open>AdjustIndexQueue\<close> over the index queue of one priority: \<open>n\<close> is the length of the data queue and
  \<open>j\<close> the counter. The assignment \<open>i = i++\<close> of the branch that keeps an occurrence leaves the
  iterator where it is, so the same element is looked at again with a larger counter.
\<close>

function AdjustIndexQueue :: "nat \<Rightarrow> nat \<Rightarrow> nat \<Rightarrow> nat list \<Rightarrow> nat list" where
  "AdjustIndexQueue d n j [] = []"
| "AdjustIndexQueue d n j (x # xs) =
     (if x = d
      then if n < Suc j then AdjustIndexQueue d n (Suc j) xs
           else AdjustIndexQueue d n (Suc j) (x # xs)
      else x # AdjustIndexQueue d n j xs)"
  by pat_completeness auto
termination
  by (relation "measures [\<lambda>(d, n, j, xs). length xs, \<lambda>(d, n, j, xs). n - j]") auto

text \<open>One step of the loop of \<open>Remove\<close>, for priority \<open>i\<close> and data queue \<open>j\<close>; the result of the call
  is \<open>totalRemove\<close>, which \<open>=+\<close> assigns.\<close>

definition remove_step :: "'a \<Rightarrow> nat \<times> nat \<Rightarrow> nat \<times> 'a qjob \<Rightarrow> nat \<times> 'a qjob" where
  "remove_step x ij r =
     (let (i, j) = ij; (n, q) = r;
          kept = filter (\<lambda>y. y \<noteq> x) (dataQueue q ! j);
          gone = length (dataQueue q ! j) - length kept
      in if gone = 0 then (n, q)
         else (gone,
               q\<lparr>dataQueue := (dataQueue q)[j := kept],
                 qtotal := qtotal q - gone,
                 indexQueue := (indexQueue q)
                   [i := AdjustIndexQueue j (length kept) 0 (indexQueue q ! i)]\<rparr>))"

definition Remove :: "'a \<Rightarrow> 'a qjob \<Rightarrow> nat \<times> 'a qjob" where
  "Remove x q =
     fold (remove_step x)
       (concat (List.map (\<lambda>i. List.map (Pair i) [i * maxWeight q ..< (i + 1) * maxWeight q])
                  [0 ..< numPriority q]))
       (0, q)"

definition Flush :: "'a qjob \<Rightarrow> 'a qjob" where
  "Flush q = q\<lparr>indexQueue := replicate (length (indexQueue q)) [],
               dataQueue := replicate (length (dataQueue q)) [], qtotal := 0\<rparr>"

definition Signal :: "'a qjob \<Rightarrow> 'a qjob" where
  "Signal q = q\<lparr>signaled := True\<rparr>"


subsection \<open>The invariant of the two arrays\<close>

text \<open>
  Every data queue holds as many rights to be served in the index queue of its priority as it
  has entries, up to its weight, and an index queue holds indices of its own priority only.
\<close>

definition credits_ok :: "nat \<Rightarrow> nat \<Rightarrow> nat list list \<Rightarrow> 'a list list \<Rightarrow> bool" where
  "credits_ok np mw iq dq \<longleftrightarrow>
     length iq = np \<and> length dq = np * mw \<and>
     (\<forall>p < np. \<forall>d \<in> set (iq ! p). d < np * mw \<and> d div mw = p) \<and>
     (\<forall>d < np * mw. count_list (iq ! (d div mw)) d = min (length (dq ! d)) (d mod mw + 1))"

text \<open>The largest number \<open>total\<close> can hold.\<close>

definition maxTotal :: nat where "maxTotal = 2 ^ 32 - 1"

definition qinv :: "'a qjob \<Rightarrow> bool" where
  "qinv q \<longleftrightarrow>
     numPriority q \<le> maxNumPriority \<and> maxWeight q \<le> maxMaxWeight \<and>
     credits_ok (numPriority q) (maxWeight q) (indexQueue q) (dataQueue q) \<and>
     qtotal q = sum_list (List.map length (dataQueue q)) \<and> qtotal q \<le> maxTotal"

text \<open>Everything that is queued, and the position a priority and weight denote.\<close>

definition pending :: "'a qjob \<Rightarrow> 'a multiset" where
  "pending q = sum_list (List.map mset (dataQueue q))"

definition slot :: "'a qjob \<Rightarrow> nat \<Rightarrow> nat \<Rightarrow> nat" where
  "slot q p w = (p - 1) * maxWeight q + (w - 1)"

lemma size_pending: "qinv q \<Longrightarrow> size (pending q) = qtotal q"
  by (simp add: qinv_def pending_def size_sum_list_mset)

lemma PriorityIndex_eq: "1 \<le> p \<Longrightarrow> p \<le> maxNumPriority \<Longrightarrow> PriorityIndex p = p - 1"
  by (cases p) (auto simp: PriorityIndex_def maxNumPriority_def)

lemma slot_bounds:
  fixes p np w mw :: nat
  assumes "1 \<le> p" "p \<le> np" "1 \<le> w" "w \<le> mw"
  shows "(p - 1) * mw + (w - 1) < np * mw"
    and "((p - 1) * mw + (w - 1)) div mw = p - 1"
    and "((p - 1) * mw + (w - 1)) mod mw + 1 = w"
proof -
  have "w - 1 < mw" using assms by linarith
  then have "(p - 1) * mw + (w - 1) < (p - 1) * mw + mw" by simp
  also have "\<dots> = p * mw" using assms by (simp add: diff_mult_distrib)
  also have "\<dots> \<le> np * mw" using assms by simp
  finally show "(p - 1) * mw + (w - 1) < np * mw" .
  show "((p - 1) * mw + (w - 1)) div mw = p - 1"
    using div_mult_self3 [of mw "p - 1" "w - 1"] \<open>w - 1 < mw\<close> by auto
  show "((p - 1) * mw + (w - 1)) mod mw + 1 = w"
    using mod_mult_self3 [of "p - 1" mw "w - 1"] \<open>w - 1 < mw\<close> assms by auto
qed

lemma DataIndex_eq:
  assumes "qinv q" "1 \<le> p" "p \<le> numPriority q" "1 \<le> w" "w \<le> maxWeight q"
  shows "DataIndex q p w = slot q p w"
proof -
  have b: "p \<le> 3" "w \<le> 3" "maxWeight q \<le> 3"
    using assms by (auto simp: qinv_def maxNumPriority_def maxMaxWeight_def)
  then have "(p - 1) * maxWeight q \<le> 2 * 3" using mult_le_mono [of "p - 1" 2 "maxWeight q" 3] by simp
  then have "slot q p w < 2 ^ 32" using b by (simp add: slot_def)
  moreover have "PriorityIndex p = p - 1"
    using b assms by (simp add: PriorityIndex_eq maxNumPriority_def)
  moreover have "(p - 1) * maxWeight q + (min w maxMaxWeight + 2 ^ 32 - 1) = slot q p w + 2 ^ 32"
    using b assms by (simp add: slot_def maxMaxWeight_def)
  ultimately have "DataIndex q p w = (slot q p w + 2 ^ 32) mod 2 ^ 32"
    unfolding DataIndex_def by presburger
  with \<open>slot q p w < 2 ^ 32\<close> show ?thesis by simp
qed

lemma credits_ok_enqueue:
  assumes ok: "credits_ok np mw iq dq" and d: "d < np * mw"
  shows "credits_ok np mw
           (if length (dq ! d) < d mod mw + 1 then iq[d div mw := iq ! (d div mw) @ [d]] else iq)
           (dq[d := dq ! d @ [x]])"
proof -
  have p: "d div mw < np" using d by (simp add: less_mult_imp_div_less)
  have "count_list (iq[d div mw := iq ! (d div mw) @ [d]] ! (e div mw)) e =
        count_list (iq ! (e div mw)) e + (if e = d then 1 else 0)" if "e < np * mw" for e
    using ok p by (cases "e div mw = d div mw") (auto simp: credits_ok_def)
  moreover have "e \<in> set (iq ! p) \<Longrightarrow> e < np * mw \<and> e div mw = p" if "p < np" for e p
    using ok that by (auto simp: credits_ok_def)
  ultimately show ?thesis
    using ok d p by (auto simp: credits_ok_def nth_list_update min_def)
qed

lemma credits_ok_dequeue:
  assumes ok: "credits_ok np mw iq dq" and row: "p < np" "iq ! p = d # ds"
  shows "d < np * mw" and "dq ! d \<noteq> []"
    and "credits_ok np mw
           (iq[p := (if d mod mw + 1 \<le> length (tl (dq ! d)) then ds @ [d] else ds)])
           (dq[d := tl (dq ! d)])"
proof -
  have d: "d < np * mw" "d div mw = p" using ok row by (auto simp: credits_ok_def)
  show "d < np * mw" by (rule d)
  have cnt: "Suc (count_list ds d) = min (length (dq ! d)) (d mod mw + 1)"
    using ok row d unfolding credits_ok_def by (metis count_list.simps(2) Suc_eq_plus1)
  then show ne: "dq ! d \<noteq> []" by auto
  define ds' where "ds' = (if d mod mw + 1 \<le> length (tl (dq ! d)) then ds @ [d] else ds)"
  have mine: "count_list ds' d = min (length (tl (dq ! d))) (d mod mw + 1)"
    using cnt ne by (auto simp: ds'_def min_def split: if_splits)
  have other: "count_list (iq[p := ds'] ! (e div mw)) e = count_list (iq ! (e div mw)) e"
    if "e < np * mw" "e \<noteq> d" for e
    using ok row that d by (cases "e div mw = p") (auto simp: credits_ok_def ds'_def)
  have sub: "set ds' \<subseteq> set (iq ! p)" using row by (auto simp: ds'_def)
  show "credits_ok np mw (iq[p := ds']) (dq[d := tl (dq ! d)])"
    unfolding credits_ok_def
  proof (intro conjI allI impI ballI)
    show "length (iq[p := ds']) = np" "length (dq[d := tl (dq ! d)]) = np * mw"
      using ok by (auto simp: credits_ok_def)
  next
    fix p' e assume "p' < np" "e \<in> set (iq[p := ds'] ! p')"
    then have "e \<in> set (iq ! p')" using sub ok by (cases "p' = p") (auto simp: credits_ok_def)
    then show "e < np * mw" "e div mw = p'" using ok \<open>p' < np\<close> by (auto simp: credits_ok_def)
  next
    fix e assume e: "e < np * mw"
    show "count_list (iq[p := ds'] ! (e div mw)) e = min (length (dq[d := tl (dq ! d)] ! e)) (e mod mw + 1)"
    proof (cases "e = d")
      case True
      then show ?thesis using mine d ok row by (simp add: credits_ok_def)
    next
      case False
      then show ?thesis using other [OF e False] ok e by (simp add: credits_ok_def)
    qed
  qed
qed

lemma first_backlog_SomeD:
  "first_backlog k iq = Some (p, d) \<Longrightarrow>
     k \<le> p \<and> p - k < length iq \<and> iq ! (p - k) = d # tl (iq ! (p - k)) \<and> (\<forall>i < p - k. iq ! i = [])"
proof (induction k iq rule: first_backlog.induct)
  case (2 k rows)
  then have IH: "Suc k \<le> p" "p - Suc k < length rows" "rows ! (p - Suc k) = d # tl (rows ! (p - Suc k))"
    "\<forall>i < p - Suc k. rows ! i = []" by auto
  moreover from IH(1) have "p - k = Suc (p - Suc k)" by simp
  ultimately show ?case by (auto simp: less_Suc_eq_0_disj)
qed auto

lemma first_backlog_None_iff: "first_backlog k iq = None \<longleftrightarrow> (\<forall>r \<in> set iq. r = [])"
  by (induction k iq rule: first_backlog.induct) auto


subsection \<open>Enqueue and dequeue keep the invariant\<close>

lemma sum_list_replicate_empty: "sum_list (replicate n {#}) = {#}"
  by (induction n) auto

lemma sum_lengths_update:
  assumes "d < length dq"
  shows "sum_list (List.map length (dq[d := xs])) + length (dq ! d)
         = sum_list (List.map length dq) + length xs"
  using sum_list_update_nat [OF assms, of length xs] .

lemma Enqueue_eq:
  assumes q: "qinv q" and p: "1 \<le> p" "p \<le> numPriority q" and w: "1 \<le> w" "w \<le> maxWeight q"
    and room: "qtotal q < maxTotal" and live: "\<not> (signaled q \<and> blocking)"
  shows "Enqueue x blocking p w q =
    Some (Enqueued (qtotal q + 1),
      q\<lparr>indexQueue := (if length (dataQueue q ! slot q p w) < w
                       then (indexQueue q)[p - 1 := indexQueue q ! (p - 1) @ [slot q p w]]
                       else indexQueue q),
        dataQueue := (dataQueue q)[slot q p w := dataQueue q ! slot q p w @ [x]],
        qtotal := qtotal q + 1\<rparr>)"
proof -
  have "PriorityIndex p = p - 1" using q p by (simp add: PriorityIndex_eq qinv_def)
  moreover have "DataIndex q p w = slot q p w" using DataIndex_eq [OF q p w] .
  moreover have "p - 1 < length (indexQueue q)" "slot q p w < length (dataQueue q)"
    using q p w slot_bounds [OF p w] by (auto simp: qinv_def credits_ok_def slot_def)
  ultimately show ?thesis
    using room live unfolding Enqueue_def Let_def by (auto simp: maxTotal_def MaxSize_def)
qed

lemma qinv_Enqueue:
  assumes q: "qinv q" and p: "1 \<le> p" "p \<le> numPriority q" and w: "1 \<le> w" "w \<le> maxWeight q"
    and room: "qtotal q < maxTotal" and live: "\<not> (signaled q \<and> blocking)"
    and q': "Enqueue x blocking p w q = Some (r, q')"
  shows "qinv q'" and "pending q' = add_mset x (pending q)"
proof -
  let ?d = "slot q p w"
  note eq = Enqueue_eq [OF q p w room live, of x]
  note b = slot_bounds [OF p w, folded slot_def]
  have d: "?d < length (dataQueue q)" using b q by (simp add: qinv_def credits_ok_def)
  have c: "credits_ok (numPriority q) (maxWeight q) (indexQueue q) (dataQueue q)"
    using q by (simp add: qinv_def)
  show "qinv q'"
    using credits_ok_enqueue [OF c b(1), of x] sum_lengths_update [OF d, of "dataQueue q ! ?d @ [x]"]
      q q' eq room unfolding b(2,3) by (auto simp: qinv_def)
  show "pending q' = add_mset x (pending q)"
    using sum_mset_list_update [OF d, of "dataQueue q ! ?d @ [x]"] q' eq
    by (auto simp: pending_def)
qed

lemma Dequeue_cases:
  assumes q: "qinv q" and some: "0 < qtotal q" and live: "\<not> (signaled q \<and> blocking)"
  obtains p d x xs where
    "p < numPriority q" "\<forall>i < p. indexQueue q ! i = []"
    "d < length (dataQueue q)" "d div maxWeight q = p" "dataQueue q ! d = x # xs"
    "hd (indexQueue q ! p) = d"
    "Dequeue blocking q =
       Some (Dequeued x,
         q\<lparr>indexQueue := (indexQueue q)[p :=
             (if d mod maxWeight q + 1 \<le> length xs then tl (indexQueue q ! p) @ [d]
              else tl (indexQueue q ! p))],
           dataQueue := (dataQueue q)[d := xs], qtotal := qtotal q - 1\<rparr>)"
    "credits_ok (numPriority q) (maxWeight q)
       ((indexQueue q)[p :=
             (if d mod maxWeight q + 1 \<le> length xs then tl (indexQueue q ! p) @ [d]
              else tl (indexQueue q ! p))]) ((dataQueue q)[d := xs])"
proof -
  have c: "credits_ok (numPriority q) (maxWeight q) (indexQueue q) (dataQueue q)"
    using q by (simp add: qinv_def)
  have "first_backlog 0 (indexQueue q) \<noteq> None"
  proof
    assume "first_backlog 0 (indexQueue q) = None"
    then have rows: "\<forall>i < numPriority q. indexQueue q ! i = []"
      using c by (auto simp: first_backlog_None_iff credits_ok_def)
    from some q obtain d where d: "d < length (dataQueue q)" "0 < length (dataQueue q ! d)"
      by (auto simp: qinv_def elim: sum_list_nat_pos)
    then have "d < numPriority q * maxWeight q" using c by (simp add: credits_ok_def)
    moreover from this have "d div maxWeight q < numPriority q"
      by (simp add: less_mult_imp_div_less)
    ultimately show False using c rows d unfolding credits_ok_def
      by (metis count_list.simps(1) min_def Suc_eq_plus1 less_nat_zero_code not_gr_zero nat.distinct(1))
  qed
  then obtain p d where f: "first_backlog 0 (indexQueue q) = Some (p, d)" by auto
  note fb = first_backlog_SomeD [OF f, simplified]
  have p: "p < numPriority q" using fb c by (simp add: credits_ok_def)
  note dq = credits_ok_dequeue [OF c p fb [THEN conjunct2, THEN conjunct1]]
  obtain x xs where x: "dataQueue q ! d = x # xs" using dq(2) by (cases "dataQueue q ! d") auto
  have d: "d < length (dataQueue q)" using dq(1) c by (simp add: credits_ok_def)
  have dp: "d div maxWeight q = p"
    using c p fb by (metis credits_ok_def list.set_intros(1))
  have t: "(4294967295 + qtotal q) mod 4294967296 = qtotal q - 1"
  proof -
    have "4294967295 + qtotal q = (qtotal q - 1) + 4294967296" using some by simp
    moreover have "qtotal q - 1 < 4294967296" using q by (auto simp: qinv_def maxTotal_def)
    ultimately show ?thesis by (metis mod_add_self2 mod_less)
  qed
  show thesis
  proof (rule that [OF p _ d dp x])
    show "\<forall>i < p. indexQueue q ! i = []" using fb by simp
    show "hd (indexQueue q ! p) = d" using fb by (metis list.sel(1))
    show "Dequeue blocking q =
       Some (Dequeued x,
         q\<lparr>indexQueue := (indexQueue q)[p :=
             (if d mod maxWeight q + 1 \<le> length xs then tl (indexQueue q ! p) @ [d]
              else tl (indexQueue q ! p))],
           dataQueue := (dataQueue q)[d := xs], qtotal := qtotal q - 1\<rparr>)"
      using some live f x d t by (auto simp: Dequeue_def Let_def)
    show "credits_ok (numPriority q) (maxWeight q)
       ((indexQueue q)[p :=
             (if d mod maxWeight q + 1 \<le> length xs then tl (indexQueue q ! p) @ [d]
              else tl (indexQueue q ! p))]) ((dataQueue q)[d := xs])"
      using dq(3) x by simp
  qed
qed

lemma qinv_Dequeue:
  assumes q: "qinv q" and some: "0 < qtotal q" and live: "\<not> (signaled q \<and> blocking)"
  obtains x q' where "Dequeue blocking q = Some (Dequeued x, q')" "qinv q'"
    "pending q = add_mset x (pending q')" "qtotal q' = qtotal q - 1"
proof (rule Dequeue_cases [OF q some live])
  fix p d x xs
  let ?q = "q\<lparr>indexQueue := (indexQueue q)[p :=
             (if d mod maxWeight q + 1 \<le> length xs then tl (indexQueue q ! p) @ [d]
              else tl (indexQueue q ! p))],
           dataQueue := (dataQueue q)[d := xs], qtotal := qtotal q - 1\<rparr>"
  assume d: "d < length (dataQueue q)" and x: "dataQueue q ! d = x # xs"
    and eq: "Dequeue blocking q = Some (Dequeued x, ?q)"
    and c: "credits_ok (numPriority q) (maxWeight q)
       ((indexQueue q)[p :=
             (if d mod maxWeight q + 1 \<le> length xs then tl (indexQueue q ! p) @ [d]
              else tl (indexQueue q ! p))]) ((dataQueue q)[d := xs])"
  show thesis
  proof (rule that [OF eq])
    show "qinv ?q"
      using q c sum_lengths_update [OF d, of xs] x some by (auto simp: qinv_def)
    show "pending q = add_mset x (pending ?q)"
      using sum_mset_list_update [OF d, of xs] x by (simp add: pending_def)
  qed simp
qed

lemma qinv_QueueJob: "QueueJob np mw = Inr q \<Longrightarrow> qinv q \<and> pending q = {#}"
proof -
  assume "QueueJob np mw = Inr q"
  then have q: "np \<le> maxNumPriority" "mw \<le> maxMaxWeight"
    "q = \<lparr>numPriority = np, maxWeight = mw, indexQueue = replicate np [],
          dataQueue = replicate (np * mw) [], qtotal = 0, signaled = False\<rparr>"
    by (auto simp: QueueJob_def split: if_splits)
  from q have "credits_ok np mw (replicate np []) (replicate (np * mw) [])"
    by (auto simp: credits_ok_def less_mult_imp_div_less)
  with q show ?thesis by (auto simp: qinv_def pending_def maxTotal_def sum_list_replicate sum_list_replicate_empty)
qed

lemma qinv_Flush: "qinv q \<Longrightarrow> qinv (Flush q) \<and> pending (Flush q) = {#}"
  by (auto simp: qinv_def Flush_def credits_ok_def pending_def sum_list_replicate sum_list_replicate_empty
      less_mult_imp_div_less)


subsection \<open>Removal\<close>

lemma AdjustIndexQueue_eq: "AdjustIndexQueue d n j xs = filter (\<lambda>y. y \<noteq> d) xs"
  by (induction d n j xs rule: AdjustIndexQueue.induct) auto

lemma remove_step_absent:
  "x \<notin> set (dataQueue q ! j) \<Longrightarrow> remove_step x (i, j) (n, q) = (n, q)"
  by (subgoal_tac "filter (\<lambda>y. y \<noteq> x) (dataQueue q ! j) = dataQueue q ! j")
    (auto simp: remove_step_def Let_def filter_id_conv)

lemma remove_step_fields:
  "dataQueue (snd (remove_step x (i, j) r))
     = (dataQueue (snd r))[j := filter (\<lambda>y. y \<noteq> x) (dataQueue (snd r) ! j)]"
  "length (indexQueue (snd (remove_step x (i, j) r))) = length (indexQueue (snd r))"
  "numPriority (snd (remove_step x (i, j) r)) = numPriority (snd r)"
  "maxWeight (snd (remove_step x (i, j) r)) = maxWeight (snd r)"
proof -
  have "filter (\<lambda>y. y \<noteq> x) ys = ys" if "length ys \<le> length (filter (\<lambda>y. y \<noteq> x) ys)" for ys :: "'a list"
    using that length_filter_less [of _ ys "\<lambda>y. y \<noteq> x"] by (auto simp: filter_id_conv)
  then show "dataQueue (snd (remove_step x (i, j) r))
     = (dataQueue (snd r))[j := filter (\<lambda>y. y \<noteq> x) (dataQueue (snd r) ! j)]"
    by (cases r) (auto simp: remove_step_def Let_def, metis list_update_id)
qed (cases r; simp add: remove_step_def Let_def)+

lemma remove_step_total:
  assumes "j < length (dataQueue (snd r))"
    and "qtotal (snd r) = sum_list (List.map length (dataQueue (snd r)))"
  shows "qtotal (snd (remove_step x (i, j) r))
           = sum_list (List.map length (dataQueue (snd (remove_step x (i, j) r))))"
proof -
  obtain n q where r: "r = (n, q)" by (cases r)
  let ?k = "filter (\<lambda>y. y \<noteq> x) (dataQueue q ! j)"
  have "length ?k \<le> length (dataQueue q ! j)" by simp
  then show ?thesis
    using sum_lengths_update [of j "dataQueue q" ?k] assms r
    by (auto simp: remove_step_def Let_def)
qed

lemma fold_remove_step_data:
  "dataQueue (snd (fold (remove_step x) ijs r)) ! j =
     (if j \<in> snd ` set ijs \<and> j < length (dataQueue (snd r))
      then filter (\<lambda>y. y \<noteq> x) (dataQueue (snd r) ! j) else dataQueue (snd r) ! j) \<and>
   length (dataQueue (snd (fold (remove_step x) ijs r))) = length (dataQueue (snd r))"
proof (induction ijs arbitrary: r)
  case Nil
  then show ?case by simp
next
  case (Cons ij ijs)
  obtain i k where ij: "ij = (i, k)" by (cases ij)
  show ?case
    using Cons.IH [of "remove_step x ij r"] ij
    by (cases "k = j"; cases "k < length (dataQueue (snd r))")
      (auto simp: remove_step_fields list_update_beyond)
qed

lemma fold_remove_step_total:
  "\<forall>(i, j) \<in> set ijs. j < length (dataQueue (snd r)) \<Longrightarrow>
   qtotal (snd r) = sum_list (List.map length (dataQueue (snd r))) \<Longrightarrow>
   qtotal (snd (fold (remove_step x) ijs r))
     = sum_list (List.map length (dataQueue (snd (fold (remove_step x) ijs r))))"
proof (induction ijs arbitrary: r)
  case Nil
  then show ?case by simp
next
  case (Cons ij ijs)
  obtain i k where ij: "ij = (i, k)" by (cases ij)
  from Cons.prems ij have "qtotal (snd (remove_step x ij r))
      = sum_list (List.map length (dataQueue (snd (remove_step x ij r))))"
    by (auto intro: remove_step_total)
  with Cons.IH [of "remove_step x ij r"] Cons.prems ij show ?case
    by (simp add: remove_step_fields)
qed

lemma Remove_data:
  assumes q: "qinv q"
  shows "dataQueue (snd (Remove x q)) = List.map (filter (\<lambda>y. y \<noteq> x)) (dataQueue q)"
    and "qtotal (snd (Remove x q)) = sum_list (List.map length (dataQueue (snd (Remove x q))))"
proof -
  let ?ijs = "concat (List.map (\<lambda>i. List.map (Pair i) [i * maxWeight q ..< (i + 1) * maxWeight q])
                        [0 ..< numPriority q])"
  have len: "length (dataQueue q) = numPriority q * maxWeight q"
    using q by (simp add: qinv_def credits_ok_def)
  have all: "j \<in> snd ` set ?ijs" if "j < length (dataQueue q)" for j
  proof -
    have "j div maxWeight q < numPriority q" using that len by (simp add: less_mult_imp_div_less)
    moreover have "0 < maxWeight q" using that len by (cases "maxWeight q") auto
    then have "j div maxWeight q * maxWeight q \<le> j" "j < (j div maxWeight q + 1) * maxWeight q"
      using dividend_less_div_times [of "maxWeight q" j] by (auto simp: add.commute)
    ultimately show ?thesis by (force simp: image_iff)
  qed
  have ok: "\<forall>(i, j) \<in> set ?ijs. j < length (dataQueue q)"
  proof clarsimp
    fix i j assume "i < numPriority q" "j < maxWeight q + i * maxWeight q"
    then show "j < length (dataQueue q)"
      using mult_le_mono1 [of "Suc i" "numPriority q" "maxWeight q"] len by simp
  qed
  show "dataQueue (snd (Remove x q)) = List.map (filter (\<lambda>y. y \<noteq> x)) (dataQueue q)"
    unfolding Remove_def using all
    by (intro nth_equalityI) (auto simp: fold_remove_step_data)
  show "qtotal (snd (Remove x q)) = sum_list (List.map length (dataQueue (snd (Remove x q))))"
    unfolding Remove_def using ok q by (intro fold_remove_step_total) (auto simp: qinv_def)
qed


subsection \<open>First in, first out\<close>

text \<open>Dequeuing \<open>n\<close> times in a row, collecting what comes out.\<close>

primrec deq_many :: "('q \<Rightarrow> ('a \<times> 'q) option) \<Rightarrow> nat \<Rightarrow> 'q \<Rightarrow> ('a list \<times> 'q) option" where
  "deq_many deq 0 q = Some ([], q)"
| "deq_many deq (Suc n) q =
     (case deq q of
        None \<Rightarrow> None
      | Some (x, q') \<Rightarrow>
          (case deq_many deq n q' of None \<Rightarrow> None | Some (xs, q'') \<Rightarrow> Some (x # xs, q'')))"

text \<open>
  What the users of a queue of the framework rely on: an entry goes to the end while there is
  room, and the head comes out first.
\<close>

locale fifo_queue =
  fixes enq :: "'a \<Rightarrow> 'q \<Rightarrow> 'q"
    and deq :: "'q \<Rightarrow> ('a \<times> 'q) option"
    and contents :: "'q \<Rightarrow> 'a list"
    and ok :: "'q \<Rightarrow> bool"
    and room :: "nat \<Rightarrow> 'q \<Rightarrow> bool"
  assumes enq_ok: "ok q \<Longrightarrow> room (Suc n) q \<Longrightarrow> ok (enq x q)"
    and enq_room: "ok q \<Longrightarrow> room (Suc n) q \<Longrightarrow> room n (enq x q)"
    and enq_contents: "ok q \<Longrightarrow> room (Suc n) q \<Longrightarrow> contents (enq x q) = contents q @ [x]"
    and deq_empty: "ok q \<Longrightarrow> contents q = [] \<Longrightarrow> deq q = None"
    and deq_head: "ok q \<Longrightarrow> contents q = x # xs \<Longrightarrow> \<exists>q'. deq q = Some (x, q') \<and> ok q' \<and> contents q' = xs"
begin

lemma enq_list:
  "ok q \<Longrightarrow> room (length xs) q \<Longrightarrow> ok (fold enq xs q) \<and> contents (fold enq xs q) = contents q @ xs"
proof (induction xs arbitrary: q)
  case Nil
  then show ?case by simp
next
  case (Cons x xs)
  then have "ok (enq x q)" "room (length xs) (enq x q)" "contents (enq x q) = contents q @ [x]"
    by (auto intro: enq_ok enq_room enq_contents)
  with Cons.IH [of "enq x q"] show ?case by simp
qed

lemma deq_list:
  "ok q \<Longrightarrow> contents q = xs @ ys \<Longrightarrow>
     \<exists>q'. deq_many deq (length xs) q = Some (xs, q') \<and> ok q' \<and> contents q' = ys"
proof (induction xs arbitrary: q)
  case Nil
  then show ?case by simp
next
  case (Cons x xs)
  from Cons.prems deq_head [of q x "xs @ ys"] obtain q1
    where q1: "deq q = Some (x, q1)" "ok q1" "contents q1 = xs @ ys" by auto
  from Cons.IH [OF q1(2,3)] q1 show ?case by auto
qed

lemma in_order:
  assumes "ok q" "contents q = []" "room (length xs) q"
  shows "\<exists>q'. deq_many deq (length xs) (fold enq xs q) = Some (xs, q') \<and> deq q' = None"
  using enq_list [OF assms(1,3)] deq_list [of "fold enq xs q" xs "[]"] assms(2)
  by (auto intro: deq_empty)

end

text \<open>A queue job with one priority and one weight, used without blocking.\<close>

definition enq11 :: "'a \<Rightarrow> 'a qjob \<Rightarrow> 'a qjob" where
  "enq11 x q = (case Enqueue x False 1 1 q of None \<Rightarrow> q | Some (_, q') \<Rightarrow> q')"

definition deq11 :: "'a qjob \<Rightarrow> ('a \<times> 'a qjob) option" where
  "deq11 q = (case Dequeue False q of Some (Dequeued x, q') \<Rightarrow> Some (x, q') | _ \<Rightarrow> None)"

definition qok11 :: "'a qjob \<Rightarrow> bool" where
  "qok11 q \<longleftrightarrow> qinv q \<and> numPriority q = 1 \<and> maxWeight q = 1 \<and> \<not> signaled q"

definition contents11 :: "'a qjob \<Rightarrow> 'a list" where
  "contents11 q = dataQueue q ! 0"

lemma qok11_total: "qok11 q \<Longrightarrow> qtotal q = length (contents11 q)"
  by (cases "dataQueue q") (auto simp: qok11_def qinv_def credits_ok_def contents11_def)

lemma qok11_dataQueue: "qok11 q \<Longrightarrow> dataQueue q = [contents11 q]"
  by (cases "dataQueue q") (auto simp: qok11_def qinv_def credits_ok_def contents11_def)

lemma enq11_facts:
  assumes "qok11 q" "qtotal q < maxTotal"
  shows "qok11 (enq11 x q)" "contents11 (enq11 x q) = contents11 q @ [x]" "qtotal (enq11 x q) = Suc (qtotal q)"
proof -
  have q: "qinv q" "numPriority q = 1" "maxWeight q = 1" "\<not> signaled q" using assms by (auto simp: qok11_def)
  have p: "(1::nat) \<le> 1" "1 \<le> numPriority q" "1 \<le> maxWeight q" "\<not> (signaled q \<and> False)" using q by auto
  note eq = Enqueue_eq [OF q(1) p(1,2) p(1,3) assms(2) p(4), of x]
  have "slot q 1 1 = 0" by (simp add: slot_def)
  moreover have "0 < length (dataQueue q)" using q by (simp add: qinv_def credits_ok_def)
  ultimately show "contents11 (enq11 x q) = contents11 q @ [x]" "qtotal (enq11 x q) = Suc (qtotal q)"
    using eq by (auto simp: enq11_def contents11_def)
  have "qinv (enq11 x q)" using qinv_Enqueue(1) [OF q(1) p(1,2) p(1,3) assms(2) p(4) eq] eq
    by (simp add: enq11_def)
  then show "qok11 (enq11 x q)" using eq q by (auto simp: qok11_def enq11_def)
qed

lemma deq11_head:
  assumes "qok11 q" "contents11 q = x # xs"
  shows "\<exists>q'. deq11 q = Some (x, q') \<and> qok11 q' \<and> contents11 q' = xs"
proof -
  have q: "qinv q" "numPriority q = 1" "maxWeight q = 1" "\<not> signaled q" using assms by (auto simp: qok11_def)
  have t: "0 < qtotal q" using qok11_total [OF assms(1)] assms(2) by simp
  have l: "\<not> (signaled q \<and> False)" by simp
  from qinv_Dequeue [OF q(1) t l] obtain y q1 where y: "Dequeue False q = Some (Dequeued y, q1)" "qinv q1" .
  from Dequeue_cases [OF q(1) t l] obtain p d z zs m where z: "p < numPriority q"
    "d div maxWeight q = p" "dataQueue q ! d = z # zs"
    "Dequeue False q = Some (Dequeued z, q\<lparr>indexQueue := m, dataQueue := (dataQueue q)[d := zs],
       qtotal := qtotal q - 1\<rparr>)" by metis
  then have d: "d = 0" using q by simp
  then have "z = x" "zs = xs" using z assms by (auto simp: contents11_def)
  with y z d have q1: "q1 = q\<lparr>indexQueue := m, dataQueue := (dataQueue q)[0 := xs], qtotal := qtotal q - 1\<rparr>" "y = x"
    by auto
  moreover have "0 < length (dataQueue q)" using q by (simp add: qinv_def credits_ok_def)
  ultimately have "qok11 q1" "contents11 q1 = xs" using q y by (auto simp: qok11_def contents11_def)
  then show ?thesis using y q1 by (simp add: deq11_def)
qed

lemma deq11_empty: "qok11 q \<Longrightarrow> contents11 q = [] \<Longrightarrow> deq11 q = None"
  using qok11_total [of q] by (simp add: deq11_def Dequeue_def qok11_def)

interpretation qjob11: fifo_queue enq11 deq11 contents11 qok11 "\<lambda>n q. qtotal q + n \<le> maxTotal"
  by unfold_locales (auto simp: enq11_facts deq11_head deq11_empty)

text \<open>\<open>AAA_ProtectedQueue\<close>: \<open>Dequeue\<close> of an empty one is \<open>front()\<close> of an empty list.\<close>

definition PQ_Enqueue :: "'a \<Rightarrow> 'a list \<Rightarrow> 'a list" where
  "PQ_Enqueue x q = q @ [x]"

definition PQ_Dequeue :: "'a list \<Rightarrow> ('a \<times> 'a list) option" where
  "PQ_Dequeue q = (case q of [] \<Rightarrow> None | x # xs \<Rightarrow> Some (x, xs))"

definition PQ_IsEmpty :: "'a list \<Rightarrow> bool" where
  "PQ_IsEmpty q \<longleftrightarrow> q = []"

interpretation protected_queue: fifo_queue PQ_Enqueue PQ_Dequeue "\<lambda>q. q" "\<lambda>q. True" "\<lambda>n q. True"
  by unfold_locales (auto simp: PQ_Enqueue_def PQ_Dequeue_def)

subsection \<open>Properties\<close>


text \<open>C31: the entries of a one-priority job queue, the kind every job of the library is built
  with, come out in the order they were put in, all of them, and then the queue is empty, as long
  as they are no more than \<open>total\<close> can count.\<close>

theorem QueueJob_in_order:
  fixes xs :: "'a list"
  assumes "length xs \<le> maxTotal"
  shows "\<exists>q q'. QueueJob 1 1 = Inr q \<and>
           deq_many deq11 (length xs) (fold enq11 xs q) = Some (xs, q') \<and> deq11 q' = None"
proof -
  obtain q :: "'a qjob" where q: "QueueJob 1 1 = Inr q"
    by (simp add: QueueJob_def maxNumPriority_def maxMaxWeight_def)
  then have "qok11 q \<and> contents11 q = [] \<and> qtotal q = 0"
    using qinv_QueueJob [OF q] by (auto simp: QueueJob_def qok11_def contents11_def split: if_splits)
  with assms q qjob11.in_order [of q xs] show ?thesis by simp
qed

text \<open>\<open>Remove\<close> takes every entry equal to its argument out of the data queues and keeps the
  total right, whatever the priorities and weights.\<close>

theorem Remove_takes_all:
  assumes "qinv q"
  shows "dataQueue (snd (Remove x q)) = List.map (filter (\<lambda>y. y \<noteq> x)) (dataQueue q) \<and>
         qtotal (snd (Remove x q)) = size (filter_mset (\<lambda>y. y \<noteq> x) (pending q))"
proof -
  have "sum_list (List.map (mset \<circ> filter (\<lambda>y. y \<noteq> x)) dq) = filter_mset (\<lambda>y. y \<noteq> x) (sum_list (List.map mset dq))" for dq
    by (induction dq) auto
  moreover have "sum_list (List.map (length \<circ> filter (\<lambda>y. y \<noteq> x)) dq)
      = size (sum_list (List.map (mset \<circ> filter (\<lambda>y. y \<noteq> x)) dq))" for dq
    by (induction dq) (auto simp flip: mset_filter)
  ultimately show ?thesis
    using Remove_data [OF assms, of x] by (simp add: pending_def)
qed

text \<open>\<open>Remove\<close> on a one-priority queue that also holds other entries leaves these in the data
  queue without a right to be served: the total is positive, and \<open>Dequeue\<close> reports its own bug
  and returns none of them.\<close>

theorem Remove_strands_the_others:
  assumes "qok11 q" "x \<in> set (contents11 q)" "filter (\<lambda>y. y \<noteq> x) (contents11 q) \<noteq> []"
  shows "ExistBacklog (snd (Remove x q)) \<and>
         Dequeue False (snd (Remove x q)) = Some (DeqBug, snd (Remove x q))"
proof -
  obtain row where row1: "indexQueue q = [row]"
    using assms(1) by (cases "indexQueue q") (auto simp: qok11_def qinv_def credits_ok_def)
  have "\<forall>d \<in> set (indexQueue q ! 0). d < numPriority q * maxWeight q"
    using assms(1) unfolding qok11_def qinv_def credits_ok_def by (metis zero_less_one)
  with assms(1) row1 have "set row \<subseteq> {0}" by (simp add: qok11_def subset_iff)
  note row = row1 this
  let ?k = "filter (\<lambda>y. y \<noteq> x) (contents11 q)"
  have lt: "length ?k < length (contents11 q)" using length_filter_less [OF assms(2), of "\<lambda>y. y \<noteq> x"] by simp
  have f: "filter (\<lambda>y. y \<noteq> 0) row = []" using row(2) by (auto simp: filter_empty_conv)
  have "Remove x q = remove_step x (0, 0) (0, q)"
    using assms(1) by (simp add: Remove_def qok11_def)
  moreover have d0: "dataQueue q ! 0 = contents11 q" by (simp add: contents11_def)
  moreover have "length (contents11 q) - length ?k \<noteq> 0" using lt by simp
  ultimately have "snd (Remove x q) = q\<lparr>dataQueue := (dataQueue q)[0 := ?k],
      qtotal := qtotal q - (length (contents11 q) - length ?k),
      indexQueue := (indexQueue q)[0 := filter (\<lambda>y. y \<noteq> 0) (indexQueue q ! 0)]\<rparr>"
    by (simp only: remove_step_def Let_def prod.case AdjustIndexQueue_eq if_False snd_conv)
  then have "snd (Remove x q) = q\<lparr>dataQueue := [?k], qtotal := length ?k, indexQueue := [[]]\<rparr>"
    using qok11_dataQueue [OF assms(1)] qok11_total [OF assms(1)] row1 f lt
    by simp
  then show ?thesis using assms by (simp add: ExistBacklog_def Dequeue_def)
qed

text \<open>Concrete queues on which the properties apply.\<close>

definition demo_queue :: "nat qjob" where
  "demo_queue = \<lparr>numPriority = 1, maxWeight = 1, indexQueue = [[0]], dataQueue = [[7, 8, 7]],
                 qtotal = 3, signaled = False\<rparr>"

lemma qok11_demo: "qok11 demo_queue"
  by (simp add: demo_queue_def qok11_def qinv_def credits_ok_def maxNumPriority_def
      maxMaxWeight_def maxTotal_def)

lemma qinv_demo: "qinv demo_queue"
  using qok11_demo by (simp add: qok11_def)


theorem QueueJob_in_order_witness:
  "\<exists>q q'. QueueJob 1 1 = Inr q \<and>
     deq_many deq11 (length [4, 9, 4 :: nat]) (fold enq11 [4, 9, 4 :: nat] q) = Some ([4, 9, 4], q') \<and>
     deq11 q' = None"
  by (rule QueueJob_in_order) (simp add: maxTotal_def)

theorem Remove_takes_all_witness:
  "dataQueue (snd (Remove 7 demo_queue)) = [[8]] \<and> qtotal (snd (Remove 7 demo_queue)) = 1"
  using Remove_takes_all [OF qinv_demo, of 7] by (simp add: demo_queue_def pending_def)

theorem Remove_strands_the_others_witness:
  "ExistBacklog (snd (Remove 7 demo_queue)) \<and>
   Dequeue False (snd (Remove 7 demo_queue)) = Some (DeqBug, snd (Remove 7 demo_queue))"
  by (rule Remove_strands_the_others [OF qok11_demo]) (simp_all add: demo_queue_def contents11_def)

end
