(* ===== verification/Framework_Containers.thy ===== *)
theory Framework_Containers
  imports Prelude
begin

text \<open>
  The keyed containers of \<open>include/framework.h\<close>: \<open>AAA_ProtectedMap\<close> over \<open>std::map\<close>, the
  iteration with a predicate that says which entries go, and \<open>AAA_RangedValue\<close>. The locales state
  what a client may assume of a store by key; the stores of the other theories (AVP containers,
  pending requests, message identifiers) interpret them.
\<close>

subsection \<open>Stores by key\<close>

text \<open>
  A store with a lookup and a removal. \<open>wf\<close> is the condition under which a removal takes the whole
  key away, such as keys that occur once.
\<close>

locale keyed_lookup =
  fixes get :: "'s \<Rightarrow> 'k \<Rightarrow> 'v option"
    and del :: "'k \<Rightarrow> 's \<Rightarrow> 's"
    and wf :: "'s \<Rightarrow> bool"
  assumes del_wf: "wf s \<Longrightarrow> wf (del k s)"
    and get_del_same: "wf s \<Longrightarrow> get (del k s) k = None"
    and get_del_other: "j \<noteq> k \<Longrightarrow> get (del k s) j = get s j"
begin

lemma fold_del_other: "j \<notin> set ks \<Longrightarrow> get (fold del ks s) j = get s j"
  by (induction ks arbitrary: s) (auto simp: get_del_other)

lemma fold_del_wf: "wf s \<Longrightarrow> wf (fold del ks s)"
  by (induction ks arbitrary: s) (auto simp: del_wf)

lemma fold_del_same: "wf s \<Longrightarrow> j \<in> set ks \<Longrightarrow> get (fold del ks s) j = None"
proof (induction ks arbitrary: s)
  case Nil
  then show ?case by simp
next
  case (Cons k ks)
  then show ?case
    by (cases "j \<in> set ks") (auto simp: del_wf fold_del_other get_del_same)
qed

end

text \<open>A store whose insertion replaces what the key had.\<close>

locale overwrite_store = keyed_lookup get del wf
  for get :: "'s \<Rightarrow> 'k \<Rightarrow> 'v option" and del :: "'k \<Rightarrow> 's \<Rightarrow> 's" and wf :: "'s \<Rightarrow> bool" +
  fixes put :: "'k \<Rightarrow> 'v \<Rightarrow> 's \<Rightarrow> 's"
  assumes put_wf: "wf s \<Longrightarrow> wf (put k v s)"
    and get_put_same: "get (put k v s) k = Some v"
    and get_put_other: "j \<noteq> k \<Longrightarrow> get (put k v s) j = get s j"
begin

lemma fold_put_other:
  "j \<notin> fst ` set kvs \<Longrightarrow> get (fold (\<lambda>(k, v). put k v) kvs s) j = get s j"
  by (induction kvs arbitrary: s) (auto simp: get_put_other)

lemma fold_put_same:
  "distinct (List.map fst kvs) \<Longrightarrow> (k, v) \<in> set kvs \<Longrightarrow>
     get (fold (\<lambda>(k, v). put k v) kvs s) k = Some v"
proof (induction kvs arbitrary: s)
  case Nil
  then show ?case by simp
next
  case (Cons kv kvs)
  show ?case
  proof (cases "kv = (k, v)")
    case True
    with Cons.prems show ?thesis by (simp add: fold_put_other get_put_same)
  next
    case False
    with Cons show ?thesis by auto
  qed
qed

end

text \<open>A store whose insertion leaves a key that is there as it is, like \<open>std::map::insert\<close>.\<close>

locale insert_store = keyed_lookup get del wf
  for get :: "'s \<Rightarrow> 'k \<Rightarrow> 'v option" and del :: "'k \<Rightarrow> 's \<Rightarrow> 's" and wf :: "'s \<Rightarrow> bool" +
  fixes ins :: "'k \<Rightarrow> 'v \<Rightarrow> 's \<Rightarrow> 's"
  assumes ins_wf: "wf s \<Longrightarrow> wf (ins k v s)"
    and get_ins_new: "get s k = None \<Longrightarrow> get (ins k v s) k = Some v"
    and get_ins_old: "wf s \<Longrightarrow> get s k = Some w \<Longrightarrow> get (ins k v s) k = Some w"
    and get_ins_other: "j \<noteq> k \<Longrightarrow> get (ins k v s) j = get s j"
begin

text \<open>The idiom of a store with this insertion that wants to replace: remove first.\<close>

lemma replace_same: "wf s \<Longrightarrow> get (ins k v (del k s)) k = Some v"
  by (simp add: get_del_same get_ins_new)

lemma replace_other: "j \<noteq> k \<Longrightarrow> get (ins k v (del k s)) j = get s j"
  by (simp add: get_ins_other get_del_other)

end

subsection \<open>AAA_ProtectedMap\<close>

definition PM_Add :: "'k \<Rightarrow> 'v \<Rightarrow> ('k \<rightharpoonup> 'v) \<Rightarrow> ('k \<rightharpoonup> 'v)" where
  "PM_Add k v m = (case m k of None \<Rightarrow> m(k \<mapsto> v) | Some _ \<Rightarrow> m)"

definition PM_Lookup :: "('k \<rightharpoonup> 'v) \<Rightarrow> 'k \<Rightarrow> 'v option" where
  "PM_Lookup m k = m k"

text \<open>The result says whether the key was there.\<close>

definition PM_Remove :: "'k \<Rightarrow> ('k \<rightharpoonup> 'v) \<Rightarrow> bool \<times> ('k \<rightharpoonup> 'v)" where
  "PM_Remove k m = (case m k of None \<Rightarrow> (False, m) | Some _ \<Rightarrow> (True, m(k := None)))"

interpretation protected_map:
  insert_store PM_Lookup "\<lambda>k m. snd (PM_Remove k m)" "\<lambda>m. True" PM_Add
  by unfold_locales
    (auto simp: PM_Lookup_def PM_Remove_def PM_Add_def split: option.splits)

lemma PM_Remove_found [simp]: "m k = Some v \<Longrightarrow> PM_Remove k m = (True, m(k := None))"
  by (simp add: PM_Remove_def)

lemma PM_Remove_absent [simp]: "m k = None \<Longrightarrow> PM_Remove k m = (False, m)"
  by (simp add: PM_Remove_def)

text \<open>A \<open>std::map\<close> whose order matters is the list of its entries in key order; \<open>Iterate\<close> visits them in
  that order, and an entry goes when the functor returns true.\<close>

fun PM_Iterate :: "('v \<Rightarrow> 'w \<Rightarrow> bool \<times> 'v \<times> 'w) \<Rightarrow> ('k \<times> 'v) list \<Rightarrow> 'w \<Rightarrow> ('k \<times> 'v) list \<times> 'w" where
  "PM_Iterate f [] w = ([], w)"
| "PM_Iterate f ((k, v) # kvs) w =
     (let (gone, v', w') = f v w; (rest, w'') = PM_Iterate f kvs w'
      in (if gone then rest else (k, v') # rest, w''))"

subsection \<open>AAA_RangedValue\<close>

record ranged =
  m_CurrentLevel :: int
  m_LowThreshold :: int
  m_HighThreshold :: int

definition RV_Reset :: "int \<Rightarrow> int \<Rightarrow> int \<Rightarrow> ranged" where
  "RV_Reset level low high =
     \<lparr>m_CurrentLevel = level, m_LowThreshold = low, m_HighThreshold = high\<rparr>"

text \<open>\<open>operator++\<close> returns whether the new level is above the high threshold.\<close>

definition RV_inc :: "ranged \<Rightarrow> bool \<times> ranged" where
  "RV_inc r = (let r' = r\<lparr>m_CurrentLevel := m_CurrentLevel r + 1\<rparr>
               in (m_CurrentLevel r' > m_HighThreshold r', r'))"

definition RV_dec :: "ranged \<Rightarrow> bool \<times> ranged" where
  "RV_dec r = (let r' = r\<lparr>m_CurrentLevel := m_CurrentLevel r - 1\<rparr>
               in (m_CurrentLevel r' < m_LowThreshold r', r'))"

definition RV_InRange :: "ranged \<Rightarrow> bool" where
  "RV_InRange r \<longleftrightarrow> m_CurrentLevel r > m_LowThreshold r \<and> m_CurrentLevel r < m_HighThreshold r"

end
