(* ===== verification/Diameter_Msg.thy ===== *)
theory Diameter_Msg
  imports Framework_Containers
begin

text \<open>
  Messages as the library passes them around: the header of \<open>libdiamparser/include/diameter_parser.h\<close>,
  the AVP container list of \<open>include/aaa_parser_api.h\<close> with the widgets that read and write it, the
  interpretation of a Result-Code, and the queries and the error answer of
  \<open>libdiameter/include/aaa_data_defs.h\<close>. The value of an AVP is tagged with its type, and a getter that
  asks for another type finds nothing: the dictionary gives a name one type, so the C++ cast, which
  would reinterpret the bytes, is not exercised.
\<close>

subsection \<open>Names and codes\<close>

abbreviation AVPNAME_SESSIONID :: string where "AVPNAME_SESSIONID \<equiv> ''Session-Id''"
abbreviation AVPNAME_RESULTCODE :: string where "AVPNAME_RESULTCODE \<equiv> ''Result-Code''"
abbreviation AVPNAME_ORIGINHOST :: string where "AVPNAME_ORIGINHOST \<equiv> ''Origin-Host''"
abbreviation AVPNAME_ORIGINREALM :: string where "AVPNAME_ORIGINREALM \<equiv> ''Origin-Realm''"
abbreviation AVPNAME_ORIGINSTATEID :: string where "AVPNAME_ORIGINSTATEID \<equiv> ''Origin-State-Id''"
abbreviation AVPNAME_DESTHOST :: string where "AVPNAME_DESTHOST \<equiv> ''Destination-Host''"
abbreviation AVPNAME_DESTREALM :: string where "AVPNAME_DESTREALM \<equiv> ''Destination-Realm''"
abbreviation AVPNAME_AUTHSESSIONSTATE :: string where "AVPNAME_AUTHSESSIONSTATE \<equiv> ''Auth-Session-State''"
abbreviation AVPNAME_AUTHAPPID :: string where "AVPNAME_AUTHAPPID \<equiv> ''Auth-Application-Id''"
abbreviation AVPNAME_ACCTAPPID :: string where "AVPNAME_ACCTAPPID \<equiv> ''Acct-Application-Id''"
abbreviation AVPNAME_VENDORAPPID :: string where "AVPNAME_VENDORAPPID \<equiv> ''Vendor-Specific-Application-Id''"
abbreviation AVPNAME_REAUTHREQTYPE :: string where "AVPNAME_REAUTHREQTYPE \<equiv> ''Re-Auth-Request-Type''"
abbreviation AVPNAME_TERMINATION :: string where "AVPNAME_TERMINATION \<equiv> ''Termination-Cause''"
abbreviation AVPNAME_AUTHLIFETIME :: string where "AVPNAME_AUTHLIFETIME \<equiv> ''Authorization-Lifetime''"
abbreviation AVPNAME_AUTHGRACE :: string where "AVPNAME_AUTHGRACE \<equiv> ''Auth-Grace-Period''"
abbreviation AVPNAME_SESSIONTIMEOUT :: string where "AVPNAME_SESSIONTIMEOUT \<equiv> ''Session-Timeout''"
abbreviation AVPNAME_HOSTIP :: string where "AVPNAME_HOSTIP \<equiv> ''Host-IP-Address''"
abbreviation AVPNAME_VENDORID :: string where "AVPNAME_VENDORID \<equiv> ''Vendor-Id''"
abbreviation AVPNAME_PRODUCTNAME :: string where "AVPNAME_PRODUCTNAME \<equiv> ''Product-Name''"
abbreviation AVPNAME_ROUTERECORD :: string where "AVPNAME_ROUTERECORD \<equiv> ''Route-Record''"
abbreviation AVPNAME_REDIRECTHOST :: string where "AVPNAME_REDIRECTHOST \<equiv> ''Redirect-Host''"
abbreviation AVPNAME_REDIRECTHOSTUSAGE :: string where "AVPNAME_REDIRECTHOSTUSAGE \<equiv> ''Redirect-Host-Usage''"
abbreviation AVPNAME_USERNAME :: string where "AVPNAME_USERNAME \<equiv> ''User-Name''"
abbreviation AVPNAME_FIRMWAREREV :: string where "AVPNAME_FIRMWAREREV \<equiv> ''Firmware-Revision''"
abbreviation AVPNAME_INBANDSECID :: string where "AVPNAME_INBANDSECID \<equiv> ''Inband-Security-Id''"
abbreviation AVPNAME_SUPPORTEDVENDORID :: string where "AVPNAME_SUPPORTEDVENDORID \<equiv> ''Supported-Vendor-Id''"
abbreviation AVPNAME_ERRORMESSAGE :: string where "AVPNAME_ERRORMESSAGE \<equiv> ''Error-Message''"
abbreviation AVPNAME_ERRORREPORTINGHOST :: string where "AVPNAME_ERRORREPORTINGHOST \<equiv> ''Error-Reporting-Host''"
abbreviation AVPNAME_DISCONNECT_CAUSE :: string where "AVPNAME_DISCONNECT_CAUSE \<equiv> ''Disconnect-Cause''"
abbreviation AVPNAME_CLASS :: string where "AVPNAME_CLASS \<equiv> ''Class''"
abbreviation AVPNAME_PROXYINFO :: string where "AVPNAME_PROXYINFO \<equiv> ''Proxy-Info''"
abbreviation AVPNAME_PROXYHOST :: string where "AVPNAME_PROXYHOST \<equiv> ''Proxy-Host''"
abbreviation AVPNAME_PROXYSTATE :: string where "AVPNAME_PROXYSTATE \<equiv> ''Proxy-State''"

abbreviation MSGCODE_CAPABILITIES_EXCHG :: u32 where "MSGCODE_CAPABILITIES_EXCHG \<equiv> 257"
abbreviation MSGCODE_REAUTH :: u32 where "MSGCODE_REAUTH \<equiv> 258"
abbreviation MSGCODE_ACCOUNTING :: u32 where "MSGCODE_ACCOUNTING \<equiv> 271"
abbreviation MSGCODE_ABORTSESSION :: u32 where "MSGCODE_ABORTSESSION \<equiv> 274"
abbreviation MSGCODE_SESSIONTERMINATION :: u32 where "MSGCODE_SESSIONTERMINATION \<equiv> 275"
abbreviation MSGCODE_WATCHDOG :: u32 where "MSGCODE_WATCHDOG \<equiv> 280"
abbreviation MSGCODE_DISCONNECT_PEER :: u32 where "MSGCODE_DISCONNECT_PEER \<equiv> 282"

abbreviation BASE_APPLICATION_ID :: u32 where "BASE_APPLICATION_ID \<equiv> 0"
abbreviation RELAY_APPLICATION_ID :: u32 where "RELAY_APPLICATION_ID \<equiv> 0xffffffff"

abbreviation AAA_MULTI_ROUND_AUTH :: u32 where "AAA_MULTI_ROUND_AUTH \<equiv> 1001"
abbreviation AAA_SUCCESS :: u32 where "AAA_SUCCESS \<equiv> 2001"
abbreviation AAA_LIMITED_SUCCESS :: u32 where "AAA_LIMITED_SUCCESS \<equiv> 2002"
abbreviation AAA_COMMAND_UNSUPPORTED :: u32 where "AAA_COMMAND_UNSUPPORTED \<equiv> 3001"
abbreviation AAA_UNABLE_TO_DELIVER :: u32 where "AAA_UNABLE_TO_DELIVER \<equiv> 3002"
abbreviation AAA_REALM_NOT_SERVED :: u32 where "AAA_REALM_NOT_SERVED \<equiv> 3003"
abbreviation AAA_LOOP_DETECTED :: u32 where "AAA_LOOP_DETECTED \<equiv> 3005"
abbreviation AAA_REDIRECT_INDICATION :: u32 where "AAA_REDIRECT_INDICATION \<equiv> 3006"
abbreviation AAA_INVALID_HDR_BITS :: u32 where "AAA_INVALID_HDR_BITS \<equiv> 3008"
abbreviation AAA_INVALID_AVP_BITS :: u32 where "AAA_INVALID_AVP_BITS \<equiv> 3009"
abbreviation AAA_OUT_OF_SPACE :: u32 where "AAA_OUT_OF_SPACE \<equiv> 4002"
abbreviation AAA_AVP_UNSUPPORTED :: u32 where "AAA_AVP_UNSUPPORTED \<equiv> 5001"
abbreviation AAA_UNKNOWN_SESSION_ID :: u32 where "AAA_UNKNOWN_SESSION_ID \<equiv> 5002"
abbreviation AAA_INVALID_AVP_VALUE :: u32 where "AAA_INVALID_AVP_VALUE \<equiv> 5004"
abbreviation AAA_MISSING_AVP :: u32 where "AAA_MISSING_AVP \<equiv> 5005"
abbreviation AAA_AVP_OCCURS_TOO_MANY_TIMES :: u32 where "AAA_AVP_OCCURS_TOO_MANY_TIMES \<equiv> 5009"
abbreviation AAA_NO_COMMON_APPLICATION :: u32 where "AAA_NO_COMMON_APPLICATION \<equiv> 5010"
abbreviation AAA_UNABLE_TO_COMPLY :: u32 where "AAA_UNABLE_TO_COMPLY \<equiv> 5012"
abbreviation AAA_INVALID_BIT_IN_HEADER :: u32 where "AAA_INVALID_BIT_IN_HEADER \<equiv> 5013"
abbreviation AAA_INVALID_MESSAGE_LENGTH :: u32 where "AAA_INVALID_MESSAGE_LENGTH \<equiv> 5015"
abbreviation AAA_NO_COMMON_SECURITY :: u32 where "AAA_NO_COMMON_SECURITY \<equiv> 5017"

subsection \<open>Messages\<close>

datatype avp_value =
    AvpU32 u32
  | AvpU64 "64 word"
  | AvpStr string
  | AvpAddr int string
  | AvpEnum int
  | AvpUri string
  | AvpGroup "(string \<times> avp_value list) list"

text \<open>An \<open>AAAAvpContainerList\<close>: containers in order, each a name with its entries.\<close>

type_synonym acl = "(string \<times> avp_value list) list"

text \<open>\<open>length\<close> and \<open>code\<close> are 24-bit fields, the flags one-bit fields.\<close>

record msg_hdr =
  h_ver :: u32
  h_length :: u32
  h_r :: bool
  h_p :: bool
  h_e :: bool
  h_t :: bool
  h_code :: u32
  h_appId :: u32
  h_hh :: u32
  h_ee :: u32

record msg =
  m_hdr :: msg_hdr
  m_acl :: acl

definition zero_hdr :: msg_hdr where
  "zero_hdr = \<lparr>h_ver = 0, h_length = 0, h_r = False, h_p = False, h_e = False, h_t = False,
               h_code = 0, h_appId = 0, h_hh = 0, h_ee = 0\<rparr>"

text \<open>\<open>DiameterMsgWidget(code, request, appId)\<close>.\<close>

definition MsgWidget :: "u32 \<Rightarrow> bool \<Rightarrow> u32 \<Rightarrow> msg" where
  "MsgWidget cd request app =
     \<lparr>m_hdr = zero_hdr\<lparr>h_ver := 1, h_r := request, h_code := cd, h_appId := app\<rparr>, m_acl = []\<rparr>"

subsection \<open>The container list\<close>

fun search :: "acl \<Rightarrow> string \<Rightarrow> avp_value list option" where
  "search [] name = None"
| "search ((n, es) # cs) name = (if n = name then Some es else search cs name)"

text \<open>\<open>add\<close> appends the container a widget holds.\<close>

definition add_avp :: "string \<Rightarrow> avp_value list \<Rightarrow> acl \<Rightarrow> acl" where
  "add_avp name es cs = cs @ [(name, es)]"

definition GetAvp :: "acl \<Rightarrow> string \<Rightarrow> nat \<Rightarrow> avp_value option" where
  "GetAvp cs name i =
     (case search cs name of
        None \<Rightarrow> None
      | Some es \<Rightarrow> if i < length es then Some (es ! i) else None)"

fun update_first :: "string \<Rightarrow> (avp_value list \<Rightarrow> avp_value list) \<Rightarrow> acl \<Rightarrow> acl" where
  "update_first name f [] = []"
| "update_first name f ((n, es) # cs) =
     (if n = name then (n, f es) # cs else (n, es) # update_first name f cs)"

text \<open>\<open>AddAvp(name, append)\<close> with the assignment through the reference it returns.\<close>

definition AddAvp :: "string \<Rightarrow> bool \<Rightarrow> avp_value \<Rightarrow> acl \<Rightarrow> acl" where
  "AddAvp name app v cs =
     (case search cs name of
        None \<Rightarrow> add_avp name [v] cs
      | Some es \<Rightarrow> if es = [] \<or> app then update_first name (\<lambda>es. es @ [v]) cs
                   else update_first name (\<lambda>es. es[0 := v]) cs)"

text \<open>\<open>DelAvp\<close> stops after the first container of the name.\<close>

fun DelAvp :: "string \<Rightarrow> acl \<Rightarrow> acl" where
  "DelAvp name [] = []"
| "DelAvp name ((n, es) # cs) = (if n = name then cs else (n, es) # DelAvp name cs)"

definition GetAvpCount :: "acl \<Rightarrow> string \<Rightarrow> nat" where
  "GetAvpCount cs name = (case search cs name of None \<Rightarrow> 0 | Some es \<Rightarrow> length es)"

subsection \<open>Typed access\<close>

fun as_u32 :: "avp_value \<Rightarrow> u32 option" where
  "as_u32 (AvpU32 w) = Some w" | "as_u32 _ = None"

fun as_str :: "avp_value \<Rightarrow> string option" where
  "as_str (AvpStr s) = Some s" | "as_str _ = None"

fun as_addr :: "avp_value \<Rightarrow> (int \<times> string) option" where
  "as_addr (AvpAddr t s) = Some (t, s)" | "as_addr _ = None"

text \<open>Of a Diameter URI the code reads the host name.\<close>

fun as_enum :: "avp_value \<Rightarrow> int option" where
  "as_enum (AvpEnum i) = Some i" | "as_enum _ = None"

fun as_uri :: "avp_value \<Rightarrow> string option" where
  "as_uri (AvpUri s) = Some s" | "as_uri _ = None"

fun as_group :: "avp_value \<Rightarrow> acl option" where
  "as_group (AvpGroup g) = Some g" | "as_group _ = None"

definition GetU32 :: "acl \<Rightarrow> string \<Rightarrow> u32 option" where
  "GetU32 cs name = Option.bind (GetAvp cs name 0) as_u32"

definition GetStr :: "acl \<Rightarrow> string \<Rightarrow> string option" where
  "GetStr cs name = Option.bind (GetAvp cs name 0) as_str"

definition GetEnum :: "acl \<Rightarrow> string \<Rightarrow> int option" where
  "GetEnum cs name = Option.bind (GetAvp cs name 0) as_enum"

definition GetGroup :: "acl \<Rightarrow> string \<Rightarrow> acl option" where
  "GetGroup cs name = Option.bind (GetAvp cs name 0) as_group"

text \<open>The loops \<open>for (ndx = 1; p; ndx++) { ...; p = GetAvp(name, ndx); }\<close>: every entry of the
  container, up to the first one that is not of the type.\<close>

fun take_some :: "('a \<Rightarrow> 'b option) \<Rightarrow> 'a list \<Rightarrow> 'b list" where
  "take_some f [] = []"
| "take_some f (x # xs) = (case f x of None \<Rightarrow> [] | Some y \<Rightarrow> y # take_some f xs)"

definition GetAll :: "(avp_value \<Rightarrow> 'b option) \<Rightarrow> acl \<Rightarrow> string \<Rightarrow> 'b list" where
  "GetAll f cs name = (case search cs name of None \<Rightarrow> [] | Some es \<Rightarrow> take_some f es)"

subsection \<open>Result codes\<close>

datatype rcode_class =
    RCODE_NOT_PRESENT
  | RCODE_INFORMATIONAL
  | RCODE_SUCCESS
  | RCODE_PROTOCOL_ERROR
  | RCODE_TRANSIENT_FAILURE
  | RCODE_PERMANENT_FAILURE

text \<open>The loop over the classes: the subtraction is one of \<open>diameter_unsigned32_t\<close>.\<close>

fun interpret_from :: "rcode_class list \<Rightarrow> u32 \<Rightarrow> rcode_class" where
  "interpret_from [] cd = RCODE_PERMANENT_FAILURE"
| "interpret_from (r # rs) cd =
     (if (cd - 1000) div 1000 = 0 then r else interpret_from rs (cd - 1000))"

definition InterpretedResultCode :: "u32 \<Rightarrow> rcode_class" where
  "InterpretedResultCode cd =
     interpret_from [RCODE_INFORMATIONAL, RCODE_SUCCESS, RCODE_PROTOCOL_ERROR,
                     RCODE_TRANSIENT_FAILURE, RCODE_PERMANENT_FAILURE] cd"

definition ResultCode :: "msg \<Rightarrow> u32" where
  "ResultCode m = (case GetU32 (m_acl m) AVPNAME_RESULTCODE of None \<Rightarrow> 0 | Some c \<Rightarrow> c)"

definition SetResultCode :: "u32 \<Rightarrow> msg \<Rightarrow> msg" where
  "SetResultCode c m = m\<lparr>m_acl := AddAvp AVPNAME_RESULTCODE False (AvpU32 c) (m_acl m)\<rparr>"

definition MsgResult :: "msg \<Rightarrow> rcode_class" where
  "MsgResult m = (if ResultCode m \<noteq> 0 then InterpretedResultCode (ResultCode m) else RCODE_NOT_PRESENT)"

subsection \<open>Queries\<close>

definition IsRequest :: "msg \<Rightarrow> bool" where
  "IsRequest m = h_r (m_hdr m)"

definition IsCapabilities :: "msg \<Rightarrow> bool" where
  "IsCapabilities m \<longleftrightarrow> h_code (m_hdr m) = MSGCODE_CAPABILITIES_EXCHG"

definition IsBaseProtocol :: "msg \<Rightarrow> bool" where
  "IsBaseProtocol m \<longleftrightarrow>
     h_code (m_hdr m) \<in> set [MSGCODE_ABORTSESSION, MSGCODE_SESSIONTERMINATION,
       MSGCODE_CAPABILITIES_EXCHG, MSGCODE_WATCHDOG, MSGCODE_DISCONNECT_PEER,
       MSGCODE_ACCOUNTING, MSGCODE_REAUTH]"

subsection \<open>The error answer\<close>

text \<open>
  \<open>DiameterErrorMsg::Generate(request, rcode)\<close> for the identity and realm of the configuration. A
  Proxy-Info without Proxy-Host or Proxy-State makes the code read through a null pointer: \<open>None\<close>.
\<close>

definition proxy_copy :: "acl \<Rightarrow> acl option" where
  "proxy_copy pinfo =
     (case (GetStr pinfo AVPNAME_PROXYHOST, GetStr pinfo AVPNAME_PROXYSTATE) of
        (Some h, Some s) \<Rightarrow> Some [(AVPNAME_PROXYHOST, [AvpStr h]), (AVPNAME_PROXYSTATE, [AvpStr s])]
      | _ \<Rightarrow> None)"

definition ErrorAnswer :: "string \<Rightarrow> string \<Rightarrow> msg \<Rightarrow> u32 \<Rightarrow> msg option" where
  "ErrorAnswer identity realm request rcode =
     (let hdr = (m_hdr request)\<lparr>h_e := True, h_r := False\<rparr>;
          a0 = [];
          a1 = (case GetStr (m_acl request) AVPNAME_SESSIONID of
                  None \<Rightarrow> a0 | Some sid \<Rightarrow> AddAvp AVPNAME_SESSIONID False (AvpStr sid) a0);
          a2 = (case GetU32 (m_acl request) AVPNAME_ORIGINSTATEID of
                  None \<Rightarrow> a1 | Some st \<Rightarrow> add_avp AVPNAME_ORIGINSTATEID [AvpU32 st] a1)
      in case (case GetGroup (m_acl request) AVPNAME_PROXYINFO of
                 None \<Rightarrow> Some a2
               | Some p \<Rightarrow> Option.bind (proxy_copy p)
                             (\<lambda>g. Some (AddAvp AVPNAME_PROXYINFO False (AvpGroup g) a2))) of
           None \<Rightarrow> None
         | Some a3 \<Rightarrow> Some \<lparr>m_hdr = hdr, m_acl =
             add_avp AVPNAME_ERRORREPORTINGHOST [AvpStr identity]
             (add_avp AVPNAME_RESULTCODE [AvpU32 rcode]
             (add_avp AVPNAME_ORIGINREALM [AvpStr realm]
             (add_avp AVPNAME_ORIGINHOST [AvpStr identity] a3)))\<rparr>)"


subsection \<open>The container list as a store\<close>

lemma search_update_first:
  "search (update_first name f cs) n =
     (if n = name then map_option f (search cs n) else search cs n)"
  by (induction name f cs rule: update_first.induct) auto

lemma search_add_avp:
  "search (add_avp name es cs) n =
     (case search cs n of None \<Rightarrow> if n = name then Some es else None | Some es' \<Rightarrow> Some es')"
  by (induction cs n rule: search.induct) (auto simp: add_avp_def)

lemma search_DelAvp_other: "n \<noteq> name \<Longrightarrow> search (DelAvp name cs) n = search cs n"
  by (induction name cs rule: DelAvp.induct) auto

lemma search_None_iff: "search cs n = None \<longleftrightarrow> n \<notin> fst ` set cs"
  by (induction cs n rule: search.induct) auto

lemma names_update_first: "List.map fst (update_first name f cs) = List.map fst cs"
  by (induction name f cs rule: update_first.induct) auto

lemma names_DelAvp: "set (List.map fst (DelAvp name cs)) \<subseteq> set (List.map fst cs)"
  by (induction name cs rule: DelAvp.induct) auto

lemma distinct_DelAvp: "distinct (List.map fst cs) \<Longrightarrow> distinct (List.map fst (DelAvp name cs))"
proof (induction name cs rule: DelAvp.induct)
  case (2 name n es cs)
  then show ?case using names_DelAvp [of name cs] by auto
qed simp

lemma search_DelAvp_same: "distinct (List.map fst cs) \<Longrightarrow> search (DelAvp name cs) name = None"
  by (induction name cs rule: DelAvp.induct) (auto simp: search_None_iff)

lemma distinct_AddAvp: "distinct (List.map fst cs) \<Longrightarrow> distinct (List.map fst (AddAvp name app v cs))"
  by (auto simp: AddAvp_def names_update_first add_avp_def search_None_iff split: option.splits)

lemma GetAvp_AddAvp_same: "GetAvp (AddAvp name False v cs) name 0 = Some v"
  by (auto simp: GetAvp_def AddAvp_def search_update_first search_add_avp split: option.splits)

lemma GetAvp_AddAvp_other: "n \<noteq> name \<Longrightarrow> GetAvp (AddAvp name app v cs) n i = GetAvp cs n i"
  by (auto simp: GetAvp_def AddAvp_def search_update_first search_add_avp split: option.splits)

lemma GetAvp_add_avp_other: "n \<noteq> name \<Longrightarrow> GetAvp (add_avp name es cs) n i = GetAvp cs n i"
  by (auto simp: GetAvp_def search_add_avp split: option.splits)

lemma GetAvp_add_avp_new: "search cs name = None \<Longrightarrow> GetAvp (add_avp name (e # es) cs) name 0 = Some e"
  by (auto simp: GetAvp_def search_add_avp)

lemma GetAvp_DelAvp_same: "distinct (List.map fst cs) \<Longrightarrow> GetAvp (DelAvp name cs) name i = None"
  by (simp add: GetAvp_def search_DelAvp_same)

lemma GetAvp_DelAvp_other: "n \<noteq> name \<Longrightarrow> GetAvp (DelAvp name cs) n i = GetAvp cs n i"
  by (simp add: GetAvp_def search_DelAvp_other)

text \<open>With names that occur once, the container list is a store whose assignment overwrites.\<close>

interpretation avp_store:
  overwrite_store "\<lambda>cs n. GetAvp cs n 0" DelAvp "\<lambda>cs. distinct (List.map fst cs)" "\<lambda>n v. AddAvp n False v"
  by unfold_locales
    (auto simp: GetAvp_AddAvp_same GetAvp_AddAvp_other distinct_AddAvp distinct_DelAvp
      GetAvp_DelAvp_same GetAvp_DelAvp_other)

lemmas get_simps = GetU32_def GetStr_def GetGroup_def GetAvp_AddAvp_same GetAvp_AddAvp_other
  GetAvp_add_avp_other

subsection \<open>Properties\<close>

text \<open>Writing AVPs of different names one after the other with \<open>AddAvp\<close>, each is read back with the
  value written last, and an AVP of any other name is as it was.\<close>

theorem AddAvp_GetAvp_roundtrip:
  assumes "distinct (List.map fst kvs)" "(name, v) \<in> set kvs" "other \<notin> fst ` set kvs"
  shows "GetAvp (fold (\<lambda>(n, v). AddAvp n False v) kvs cs) name 0 = Some v \<and>
         GetAvp (fold (\<lambda>(n, v). AddAvp n False v) kvs cs) other 0 = GetAvp cs other 0"
  using avp_store.fold_put_same [OF assms(1,2), of cs] avp_store.fold_put_other [OF assms(3), of cs]
  by simp

theorem AddAvp_GetAvp_roundtrip_witness:
  "GetAvp (fold (\<lambda>(n, v). AddAvp n False v)
             [(AVPNAME_RESULTCODE, AvpU32 2001), (AVPNAME_ORIGINHOST, AvpStr ''a.b'')]
             [(AVPNAME_RESULTCODE, [AvpU32 5])]) AVPNAME_RESULTCODE 0 = Some (AvpU32 2001) \<and>
   GetAvp (fold (\<lambda>(n, v). AddAvp n False v)
             [(AVPNAME_RESULTCODE, AvpU32 2001), (AVPNAME_ORIGINHOST, AvpStr ''a.b'')]
             [(AVPNAME_RESULTCODE, [AvpU32 5])]) AVPNAME_USERNAME 0
     = GetAvp [(AVPNAME_RESULTCODE, [AvpU32 5])] AVPNAME_USERNAME 0"
  by (rule AddAvp_GetAvp_roundtrip) simp_all

text \<open>The class of a Result-Code is its thousands for the codes 1000 to 5999, and
  \<open>PERMANENT_FAILURE\<close> for every other 32-bit value, 1 to 999 included.\<close>

theorem InterpretedResultCode_spec:
  "InterpretedResultCode c =
     (if 1000 \<le> unat c \<and> unat c < 6000
      then [RCODE_INFORMATIONAL, RCODE_SUCCESS, RCODE_PROTOCOL_ERROR,
            RCODE_TRANSIENT_FAILURE, RCODE_PERMANENT_FAILURE] ! (unat c div 1000 - 1)
      else RCODE_PERMANENT_FAILURE)"
proof -
  have d: "(x div 1000 = 0) = (unat x < 1000)" for x :: u32
    by (simp add: word_unat_eq_iff unat_div div_eq_0_iff)
  have b: "unat c < 4294967296" using unsigned_less [of c] by simp
  have s: "unat (c - 1000) = (if 1000 \<le> unat c then unat c - 1000 else unat c + 4294966296)"
    "unat (c - 2000) = (if 2000 \<le> unat c then unat c - 2000 else unat c + 4294965296)"
    "unat (c - 3000) = (if 3000 \<le> unat c then unat c - 3000 else unat c + 4294964296)"
    "unat (c - 4000) = (if 4000 \<le> unat c then unat c - 4000 else unat c + 4294963296)"
    "unat (c - 5000) = (if 5000 \<le> unat c then unat c - 5000 else unat c + 4294962296)"
    by (simp_all add: unat_sub_if' word_le_nat_alt)
  have m: "InterpretedResultCode c =
    (if unat (c - 1000) < 1000 then RCODE_INFORMATIONAL
     else if unat (c - 2000) < 1000 then RCODE_SUCCESS
     else if unat (c - 3000) < 1000 then RCODE_PROTOCOL_ERROR
     else if unat (c - 4000) < 1000 then RCODE_TRANSIENT_FAILURE
     else RCODE_PERMANENT_FAILURE)"
    by (simp add: InterpretedResultCode_def d)
  consider "unat c < 1000" | "1000 \<le> unat c" "unat c < 2000" "unat c div 1000 = 1"
    | "2000 \<le> unat c" "unat c < 3000" "unat c div 1000 = 2"
    | "3000 \<le> unat c" "unat c < 4000" "unat c div 1000 = 3"
    | "4000 \<le> unat c" "unat c < 5000" "unat c div 1000 = 4"
    | "5000 \<le> unat c" "unat c < 6000" "unat c div 1000 = 5" | "6000 \<le> unat c"
    by (cases "unat c < 6000") linarith+
  then show ?thesis
    unfolding m s by cases (simp_all, linarith+)
qed

text \<open>When an error answer is generated, it carries the identifiers, the code, the application and
  the proxiable bit of the request, has the error bit set and the request bit clear, and its first
  Result-Code is the one asked for; it is generated whenever the request has no Proxy-Info.\<close>

theorem ErrorAnswer_answers:
  "GetGroup (m_acl req) AVPNAME_PROXYINFO = None \<Longrightarrow>
   \<exists>a. ErrorAnswer identity realm req rcode = Some a \<and> \<not> IsRequest a \<and> h_e (m_hdr a) \<and>
       h_code (m_hdr a) = h_code (m_hdr req) \<and> h_appId (m_hdr a) = h_appId (m_hdr req) \<and>
       h_hh (m_hdr a) = h_hh (m_hdr req) \<and> h_ee (m_hdr a) = h_ee (m_hdr req) \<and>
       h_p (m_hdr a) = h_p (m_hdr req) \<and> ResultCode a = rcode \<and>
       GetStr (m_acl a) AVPNAME_ORIGINHOST = Some identity \<and>
       GetStr (m_acl a) AVPNAME_SESSIONID = GetStr (m_acl req) AVPNAME_SESSIONID"
  by (auto simp: ErrorAnswer_def Let_def IsRequest_def ResultCode_def GetU32_def GetStr_def GetAvp_def
      search_add_avp AddAvp_def split: option.splits)

definition sample_request :: msg where
  "sample_request =
     \<lparr>m_hdr = zero_hdr\<lparr>h_ver := 1, h_r := True, h_p := True, h_code := 265, h_appId := 1, h_hh := 7, h_ee := 9\<rparr>,
      m_acl = [(AVPNAME_SESSIONID, [AvpStr ''h;1;2'']), (AVPNAME_ORIGINHOST, [AvpStr ''client''])]\<rparr>"

theorem ErrorAnswer_answers_witness:
  "\<exists>a. ErrorAnswer ''server'' ''realm'' sample_request AAA_LOOP_DETECTED = Some a \<and> \<not> IsRequest a \<and> h_e (m_hdr a) \<and>
       h_code (m_hdr a) = h_code (m_hdr sample_request) \<and> h_appId (m_hdr a) = h_appId (m_hdr sample_request) \<and>
       h_hh (m_hdr a) = h_hh (m_hdr sample_request) \<and> h_ee (m_hdr a) = h_ee (m_hdr sample_request) \<and>
       h_p (m_hdr a) = h_p (m_hdr sample_request) \<and> ResultCode a = AAA_LOOP_DETECTED \<and>
       GetStr (m_acl a) AVPNAME_ORIGINHOST = Some ''server'' \<and>
       GetStr (m_acl a) AVPNAME_SESSIONID = GetStr (m_acl sample_request) AVPNAME_SESSIONID"
  by (rule ErrorAnswer_answers) (simp add: sample_request_def GetGroup_def GetAvp_def)

end
