(* ===== verification/Parser_Headers.thy ===== *)
theory Parser_Headers
  imports Diameter_Msg
begin

unbundle bit_operations_syntax

text \<open>
  The byte level of \<open>libdiamparser\<close>: network byte order, the header of a message in both directions
  with the checks against the command dictionary (\<open>aaa_parser.cxx\<close>, \<open>aaa_comlist.h\<close>), and the list of
  AVP headers of a payload (\<open>aaa_avp_header.cxx\<close>, \<open>aaa_parser_avp.cxx\<close>). A buffer is the list of its bytes.
  \<open>None\<close> is a read past its end.
\<close>

subsection \<open>Network byte order\<close>

type_synonym byte = "8 word"

definition be32 :: "byte \<Rightarrow> byte \<Rightarrow> byte \<Rightarrow> byte \<Rightarrow> u32" where
  "be32 a b c d =
     push_bit 24 (ucast a) OR push_bit 16 (ucast b) OR push_bit 8 (ucast c) OR ucast d"

definition byte_of :: "nat \<Rightarrow> u32 \<Rightarrow> byte" where
  "byte_of n w = ucast (drop_bit n w)"

definition bytes_of32 :: "u32 \<Rightarrow> byte list" where
  "bytes_of32 w = [byte_of 24 w, byte_of 16 w, byte_of 8 w, byte_of 0 w]"

definition read32 :: "byte list \<Rightarrow> u32" where
  "read32 bs = be32 (bs ! 0) (bs ! 1) (bs ! 2) (bs ! 3)"

lemma bit_be32:
  "bit (be32 a b c d) n \<longleftrightarrow>
     (if n < 8 then bit d n else if n < 16 then bit c (n - 8)
      else if n < 24 then bit b (n - 16) else bit a (n - 24))"
proof -
  have "\<not> bit a (n - 24)" if "32 \<le> n" using bit_imp_le_length [of a "n - 24"] that by auto
  moreover have "\<not> bit b (n - 16)" if "24 \<le> n" using bit_imp_le_length [of b "n - 16"] that by auto
  moreover have "\<not> bit c (n - 8)" if "16 \<le> n" using bit_imp_le_length [of c "n - 8"] that by auto
  moreover have "\<not> bit d n" if "8 \<le> n" using bit_imp_le_length [of d n] that by auto
  moreover have "n < 32 \<or> 32 \<le> n" by linarith
  ultimately show ?thesis
    by (auto simp: be32_def bit_simps)
qed

lemma bit_byte_of: "bit (byte_of k w) n \<longleftrightarrow> n < 8 \<and> bit w (k + n)"
  by (simp add: byte_of_def bit_simps)

lemma be32_byte_of: "be32 (byte_of 24 w) (byte_of 16 w) (byte_of 8 w) (byte_of 0 w) = w"
proof (rule bit_word_eqI)
  fix n assume "n < LENGTH(32)"
  then show "bit (be32 (byte_of 24 w) (byte_of 16 w) (byte_of 8 w) (byte_of 0 w)) n = bit w n"
    by (auto simp: bit_be32 bit_byte_of)
qed

lemma read32_bytes_of32 [simp]: "read32 (bytes_of32 w @ rest) = w"
  by (simp add: read32_def bytes_of32_def be32_byte_of)

lemma length_bytes_of32 [simp]: "length (bytes_of32 w) = 4"
  by (simp add: bytes_of32_def)

text \<open>A 24-bit field shares its word with the byte in front of it.\<close>

definition mask24 :: "u32 \<Rightarrow> u32" where
  "mask24 w = w AND 0x00ffffff"

lemma mask24_take_bit: "mask24 w = take_bit 24 w"
  by (simp add: mask24_def take_bit_eq_mask mask_eq_exp_minus_1)

lemma mask24_first_byte:
  "mask24 (be32 a (byte_of 16 w) (byte_of 8 w) (byte_of 0 w)) = mask24 w"
proof (rule bit_word_eqI)
  fix n assume "n < LENGTH(32)"
  then show "bit (mask24 (be32 a (byte_of 16 w) (byte_of 8 w) (byte_of 0 w))) n = bit (mask24 w) n"
    by (auto simp: mask24_take_bit bit_take_bit_iff bit_be32 bit_byte_of)
qed

lemma take_bit_small:
  "w < 2 ^ 24 \<Longrightarrow> take_bit 24 w = (w :: u32)"
  "w < 2 ^ 8 \<Longrightarrow> take_bit 8 w = (w :: u32)"
  by (simp_all add: word_unat_eq_iff unsigned_take_bit_eq take_bit_nat_eq_self_iff word_less_nat_alt)

lemma mask24_id: "w < 2 ^ 24 \<Longrightarrow> mask24 w = w"
  using take_bit_small(1) [of w] by (simp add: mask24_take_bit)

subsection \<open>The command dictionary\<close>

record command =
  c_name :: string
  c_code :: u32
  c_appId :: u32
  c_r :: bool
  c_p :: bool

fun find_command :: "command list \<Rightarrow> u32 \<Rightarrow> u32 \<Rightarrow> bool \<Rightarrow> command option" where
  "find_command [] cd app req = None"
| "find_command (c # cs) cd app req =
     (if c_code c = cd \<and> c_appId c = app \<and> c_r c = req then Some c
      else find_command cs cd app req)"

fun find_command_name :: "command list \<Rightarrow> string \<Rightarrow> command option" where
  "find_command_name [] n = None"
| "find_command_name (c # cs) n = (if c_name c = n then Some c else find_command_name cs n)"

subsection \<open>The header of a message\<close>

datatype parse_option = PARSE_LOOSE | PARSE_STRICT

text \<open>The checks both directions make; they differ in the code of a wrong flag bit.\<close>

definition check_command :: "u32 \<Rightarrow> command list \<Rightarrow> msg_hdr \<Rightarrow> u32 + command" where
  "check_command bad cmds h =
     (case find_command cmds (h_code h) (h_appId h) (h_r h) of
        None \<Rightarrow> Inl AAA_COMMAND_UNSUPPORTED
      | Some com \<Rightarrow>
          if c_r com \<and> h_e h then Inl bad
          else if \<not> c_p com \<and> h_p h then Inl bad
          else if \<not> c_r com \<and> h_e h
          then (case find_command_name cmds (if h_p h then ''PROXYABLE-ERROR-Answer''
                                             else ''NON-PROXYABLE-ERROR-Answer'') of
                  None \<Rightarrow> Inl AAA_COMMAND_UNSUPPORTED
                | Some com' \<Rightarrow> Inr com')
          else Inr com)"

definition read_header :: "byte list \<Rightarrow> msg_hdr" where
  "read_header bs =
     \<lparr>h_ver = ucast (bs ! 0), h_length = mask24 (read32 bs),
      h_r = bit (bs ! 4) 7, h_p = bit (bs ! 4) 6, h_e = bit (bs ! 4) 5, h_t = bit (bs ! 4) 4,
      h_code = mask24 (read32 (drop 4 bs)), h_appId = read32 (drop 8 bs),
      h_hh = read32 (drop 12 bs), h_ee = read32 (drop 16 bs)\<rparr>"

text \<open>\<open>DiameterMsgHeaderParser::parseRawToApp\<close>: the header is filled in before the checks, so a caller
  that catches the error still sees it. The handle is the command found.\<close>

definition header_parseRawToApp ::
  "parse_option \<Rightarrow> command list \<Rightarrow> byte list \<Rightarrow> (msg_hdr \<times> (u32 + command option)) option" where
  "header_parseRawToApp opt cmds bs =
     (if length bs < 20 then None
      else let h = read_header bs in
        Some (h, case opt of
                   PARSE_LOOSE \<Rightarrow> Inr None
                 | PARSE_STRICT \<Rightarrow>
                     (case check_command AAA_INVALID_BIT_IN_HEADER cmds h of
                        Inl e \<Rightarrow> Inl e | Inr com \<Rightarrow> Inr (Some com))))"

definition flag_byte :: "msg_hdr \<Rightarrow> byte" where
  "flag_byte h =
     (if h_r h then push_bit 7 1 else 0) OR (if h_p h then push_bit 6 1 else 0) OR
     (if h_e h then push_bit 5 1 else 0) OR (if h_t h then push_bit 4 1 else 0)"

definition write_header :: "msg_hdr \<Rightarrow> byte list" where
  "write_header h =
     (bytes_of32 (h_length h))[0 := ucast (h_ver h)] @
     (bytes_of32 (h_code h))[0 := flag_byte h] @
     bytes_of32 (h_appId h) @ bytes_of32 (h_hh h) @ bytes_of32 (h_ee h)"

definition header_parseAppToRaw ::
  "parse_option \<Rightarrow> command list \<Rightarrow> msg_hdr \<Rightarrow> u32 + (byte list \<times> command option)" where
  "header_parseAppToRaw opt cmds h =
     (case opt of
        PARSE_LOOSE \<Rightarrow> Inr (write_header h, None)
      | PARSE_STRICT \<Rightarrow>
          (case check_command AAA_INVALID_HDR_BITS cmds h of
             Inl e \<Rightarrow> Inl e | Inr com \<Rightarrow> Inr (write_header h, Some com)))"

text \<open>What fits the fields of the C++ structure.\<close>

definition hdr_fits :: "msg_hdr \<Rightarrow> bool" where
  "hdr_fits h \<longleftrightarrow> h_ver h < 2 ^ 8 \<and> h_length h < 2 ^ 24 \<and> h_code h < 2 ^ 24"

lemma length_write_header [simp]: "length (write_header h) = 20"
  by (simp add: write_header_def)

lemma flag_byte_bits:
  "bit (flag_byte h) 7 = h_r h" "bit (flag_byte h) 6 = h_p h"
  "bit (flag_byte h) 5 = h_e h" "bit (flag_byte h) 4 = h_t h"
  by (auto simp: flag_byte_def bit_simps)

lemma ucast_ucast_small: "w < 2 ^ 8 \<Longrightarrow> ucast (ucast w :: byte) = (w :: u32)"
proof -
  assume "w < 2 ^ 8"
  then have "take_bit 8 w = w" using take_bit_small(2) [of w] by simp
  moreover have "ucast (ucast w :: byte) = take_bit 8 w"
    by (rule bit_word_eqI) (auto simp: bit_simps)
  ultimately show ?thesis by simp
qed

lemma read_write_header: "hdr_fits h \<Longrightarrow> read_header (write_header h @ rest) = h"
  by (cases h)
    (simp add: hdr_fits_def read_header_def write_header_def bytes_of32_def read32_def be32_byte_of
      mask24_first_byte mask24_id flag_byte_bits ucast_ucast_small)

subsection \<open>AVP headers\<close>

definition adjust_word_boundary :: "u32 \<Rightarrow> u32" where
  "adjust_word_boundary len = push_bit 2 (drop_bit 2 (len - 1) + 1)"

text \<open>\<open>a_off\<close> is the position of the header in the payload (\<open>value_p\<close>).\<close>

record avp_hdr =
  a_code :: u32
  a_v :: bool
  a_m :: bool
  a_p :: bool
  a_length :: u32
  a_vendor :: u32
  a_off :: nat

lemma adjust_word_boundary_unat:
  assumes "0 < unat len" "unat len < 2 ^ 24"
  shows "unat (adjust_word_boundary len) = ((unat len - 1) div 4 + 1) * 4"
proof -
  have s: "unat (len - 1) = unat len - 1"
    using assms by (simp add: unat_sub_if' word_le_nat_alt)
  then have d: "unat (drop_bit 2 (len - 1)) = (unat len - 1) div 4"
    by (simp add: drop_bit_eq_div unat_div)
  have "(unat len - 1) div 4 < 2 ^ 24" using assms by (simp add: div_le_dividend le_less_trans)
  then have u: "unat (drop_bit 2 (len - 1) + 1) = (unat len - 1) div 4 + 1"
    using d by (simp add: unat_word_ariths)
  have "unat (adjust_word_boundary len) = (unat (drop_bit 2 (len - 1) + 1) * 4) mod 2 ^ 32"
    by (simp only: adjust_word_boundary_def push_bit_eq_mult unat_word_ariths) simp
  with u \<open>(unat len - 1) div 4 < 2 ^ 24\<close> show ?thesis by simp
qed

text \<open>
  \<open>DiameterAvpHeaderList::create\<close> from offset \<open>off\<close> of the payload: the inner sum is the error code or
  the list of headers. The end of the loop is a position at or past the end of the payload.
\<close>

definition avp_hdr_at :: "nat \<Rightarrow> byte list \<Rightarrow> avp_hdr" where
  "avp_hdr_at off bs =
     \<lparr>a_code = read32 (drop off bs), a_v = bit (bs ! (off + 4)) 7, a_m = bit (bs ! (off + 4)) 6,
      a_p = bit (bs ! (off + 4)) 5, a_length = mask24 (read32 (drop (off + 4) bs)),
      a_vendor = (if bit (bs ! (off + 4)) 7 then read32 (drop (off + 8) bs) else 0), a_off = off\<rparr>"

lemma unat_mask24: "unat (mask24 w) < 2 ^ 24"
  using take_bit_nat_less_exp [of 24 "unat w"] by (simp add: mask24_take_bit unsigned_take_bit_eq)

lemma adjust_pos:
  assumes "mask24 w \<noteq> 0"
  shows "unat (mask24 w) \<le> unat (adjust_word_boundary (mask24 w))"
    and "0 < unat (adjust_word_boundary (mask24 w))"
proof -
  have "0 < unat (mask24 w)" using assms by (simp add: unat_gt_0)
  with adjust_word_boundary_unat [OF this unat_mask24]
  show "unat (mask24 w) \<le> unat (adjust_word_boundary (mask24 w))"
    "0 < unat (adjust_word_boundary (mask24 w))" by presburger+
qed

function avp_headers :: "nat \<Rightarrow> byte list \<Rightarrow> (u32 + avp_hdr list) option" where
  "avp_headers off bs =
     (if length bs \<le> off then Some (Inr [])
      else if length bs < off + 8 then None
      else let h = avp_hdr_at off bs in
        if a_length h = 0 \<or> length bs - off < unat (a_length h)
        then Some (Inl AAA_INVALID_MESSAGE_LENGTH)
        else if a_v h \<and> length bs < off + 12 then None
        else case avp_headers (off + unat (adjust_word_boundary (a_length h))) bs of
               None \<Rightarrow> None
             | Some (Inl e) \<Rightarrow> Some (Inl e)
             | Some (Inr hs) \<Rightarrow> Some (Inr (h # hs)))"
  by pat_completeness auto
termination
  by (relation "measure (\<lambda>(off, bs). length bs - off)")
    (auto simp: avp_hdr_at_def Let_def intro!: diff_less_mono2 dest!: adjust_pos(2))


declare avp_headers.simps [simp del]

text \<open>The header of an AVP as \<open>DiameterAvpHeaderParser::parseAppToRaw\<close> writes it.\<close>

definition avp_flag_byte :: "avp_hdr \<Rightarrow> byte" where
  "avp_flag_byte h =
     (if a_v h then push_bit 7 1 else 0) OR (if a_m h then push_bit 6 1 else 0) OR
     (if a_p h then push_bit 5 1 else 0)"

definition write_avp_hdr :: "avp_hdr \<Rightarrow> byte list" where
  "write_avp_hdr h =
     bytes_of32 (a_code h) @
     (bytes_of32 (mask24 (a_length h)))[0 := avp_flag_byte h] @
     (if a_v h then bytes_of32 (a_vendor h) else [])"

text \<open>The size of a header, and an AVP whose length counts the header and the value; the value is
  padded to the word boundary.\<close>

definition avp_hdr_size :: "avp_hdr \<Rightarrow> nat" where
  "avp_hdr_size h = (if a_v h then 12 else 8)"

definition avp_fits :: "avp_hdr \<Rightarrow> byte list \<Rightarrow> bool" where
  "avp_fits h v \<longleftrightarrow> avp_hdr_size h + length v = unat (a_length h) \<and> unat (a_length h) < 2 ^ 24 \<and>
     (a_v h \<or> a_vendor h = 0)"

definition pad_len :: "nat \<Rightarrow> nat" where
  "pad_len n = ((n - 1) div 4 + 1) * 4 - n"

fun write_avps :: "(avp_hdr \<times> byte list) list \<Rightarrow> byte list" where
  "write_avps [] = []"
| "write_avps ((h, v) # avps) =
     write_avp_hdr h @ v @ replicate (pad_len (unat (a_length h))) 0 @ write_avps avps"

fun at_offsets :: "nat \<Rightarrow> (avp_hdr \<times> byte list) list \<Rightarrow> avp_hdr list" where
  "at_offsets off [] = []"
| "at_offsets off ((h, v) # avps) =
     h\<lparr>a_off := off\<rparr> # at_offsets (off + unat (a_length h) + pad_len (unat (a_length h))) avps"

lemma length_write_avp_hdr [simp]: "length (write_avp_hdr h) = avp_hdr_size h"
  by (simp add: write_avp_hdr_def avp_hdr_size_def)

lemma avp_flag_byte_bits:
  "bit (avp_flag_byte h) 7 = a_v h" "bit (avp_flag_byte h) 6 = a_m h" "bit (avp_flag_byte h) 5 = a_p h"
  by (auto simp: avp_flag_byte_def bit_simps)

lemma drop_append_plus: "drop (length pre + k) (pre @ xs) = drop k xs"
  by simp

lemma avp_hdr_at_append:
  "avp_hdr_at (length pre) (pre @ xs) = (avp_hdr_at 0 xs)\<lparr>a_off := length pre\<rparr>"
  by (simp add: avp_hdr_at_def nth_append)

lemma avp_hdr_at_write:
  assumes "avp_fits h v"
  shows "avp_hdr_at 0 (write_avp_hdr h @ rest) = h\<lparr>a_off := 0\<rparr>"
proof -
  have "mask24 (mask24 (a_length h)) = a_length h"
  proof -
    have "a_length h < 2 ^ 24" using assms by (simp add: avp_fits_def word_less_nat_alt)
    then show ?thesis by (simp add: mask24_id)
  qed
  then show ?thesis
    using assms
    by (cases h; cases "a_v h")
      (auto simp: avp_hdr_at_def write_avp_hdr_def bytes_of32_def read32_def be32_byte_of
        mask24_first_byte avp_flag_byte_bits avp_fits_def)
qed

lemma pad_len_total:
  assumes "avp_fits h v"
  shows "unat (adjust_word_boundary (a_length h)) = unat (a_length h) + pad_len (unat (a_length h))"
proof -
  have "0 < unat (a_length h)" "unat (a_length h) < 2 ^ 24"
    using assms by (auto simp: avp_fits_def avp_hdr_size_def split: if_splits)
  moreover have "n \<le> ((n - 1) div 4 + 1) * 4" for n :: nat by presburger
  ultimately show ?thesis by (simp add: adjust_word_boundary_unat pad_len_def)
qed

lemma avp_headers_write:
  assumes "\<forall>(h, v) \<in> set avps. avp_fits h v"
  shows "avp_headers (length pre) (pre @ write_avps avps) = Some (Inr (at_offsets (length pre) avps))"
  using assms
proof (induction avps arbitrary: pre)
  case Nil
  then show ?case by (simp add: avp_headers.simps)
next
  case (Cons hv avps)
  obtain h v where hv: "hv = (h, v)" by (cases hv)
  with Cons.prems have fits: "avp_fits h v" by simp
  let ?n = "unat (a_length h)"
  let ?blk = "write_avp_hdr h @ v @ replicate (pad_len ?n) 0"
  have n: "avp_hdr_size h + length v = ?n" "?n < 2 ^ 24" using fits by (auto simp: avp_fits_def)
  have size: "8 \<le> avp_hdr_size h" "a_v h \<Longrightarrow> avp_hdr_size h = 12" by (auto simp: avp_hdr_size_def)
  have blk: "length (pre @ ?blk) = length pre + unat (adjust_word_boundary (a_length h))"
    using n by (simp add: pad_len_total [OF fits])
  have hd: "avp_hdr_at (length pre) (pre @ write_avps (hv # avps)) = h\<lparr>a_off := length pre\<rparr>"
    using avp_hdr_at_write [OF fits] by (simp add: avp_hdr_at_append hv)
  have IH: "avp_headers (length (pre @ ?blk)) ((pre @ ?blk) @ write_avps avps)
      = Some (Inr (at_offsets (length (pre @ ?blk)) avps))"
    using Cons.prems by (intro Cons.IH) auto
  have whole: "pre @ write_avps (hv # avps) = (pre @ ?blk) @ write_avps avps" by (simp add: hv)
  have len: "length (pre @ write_avps (hv # avps)) = length pre + ?n + pad_len ?n + length (write_avps avps)"
    using n by (simp add: hv)
  have nz: "a_length h \<noteq> 0" using n size by auto
  have "avp_headers (length pre) (pre @ write_avps (hv # avps)) =
     (case avp_headers (length (pre @ ?blk)) (pre @ write_avps (hv # avps)) of
        None \<Rightarrow> None | Some (Inl e) \<Rightarrow> Some (Inl e)
      | Some (Inr hs) \<Rightarrow> Some (Inr (h\<lparr>a_off := length pre\<rparr> # hs)))"
    using n size nz hd len blk by (subst avp_headers.simps) (auto simp: Let_def)
  also have "\<dots> = Some (Inr (h\<lparr>a_off := length pre\<rparr> # at_offsets (length (pre @ ?blk)) avps))"
    using IH by (simp only: whole) simp
  also have "length (pre @ ?blk) = length pre + ?n + pad_len ?n" using n by simp
  finally show ?case by (simp add: hv)
qed


subsection \<open>Selecting the header of a dictionary entry\<close>

text \<open>
  \<open>DiameterAvpHeaderParser::parseRawToApp\<close>: the entry of the dictionary takes the first header of its
  code, vendor and V flag out of the list; a fixed entry takes the first header only, and looks at
  its code alone; code 0 is the wildcard. The value of a header starts after the header as the
  dictionary entry has it. \<open>d_mand\<close>, \<open>d_vend\<close> and \<open>d_encr\<close> are bits of the entry's flags.
\<close>

record dict_entry =
  d_code :: u32
  d_vendor :: u32
  d_mand :: bool
  d_vend :: bool
  d_encr :: bool

datatype avp_parse_type = TYPE_FIXED_HEAD | TYPE_REQUIRED | TYPE_OPTIONAL

datatype avp_parse_error = AvpMissing | AvpInvalidBits | AvpParserBug

definition checkFlags :: "avp_hdr \<Rightarrow> 'z dict_entry_scheme \<Rightarrow> bool" where
  "checkFlags h d \<longleftrightarrow>
     \<not> (\<not> a_m h \<and> d_mand d) \<and> \<not> (a_m h \<and> \<not> d_mand d) \<and>
     \<not> (\<not> a_v h \<and> d_vend d) \<and> \<not> (a_v h \<and> \<not> d_vend d) \<and>
     \<not> (a_p h \<and> \<not> d_encr d)"

text \<open>\<open>DIAMETER_AVP_HEADER_LEN\<close>: of the wildcard the header is part of the value.\<close>

definition dict_hdr_len :: "'z dict_entry_scheme \<Rightarrow> nat" where
  "dict_hdr_len d = (if d_code d = 0 then 0 else if d_vend d then 12 else 8)"

fun take_first :: "('a \<Rightarrow> bool) \<Rightarrow> 'a list \<Rightarrow> ('a \<times> 'a list) option" where
  "take_first P [] = None"
| "take_first P (x # xs) =
     (if P x then Some (x, xs)
      else case take_first P xs of None \<Rightarrow> None | Some (y, ys) \<Rightarrow> Some (y, x # ys))"

definition dict_match :: "'z dict_entry_scheme \<Rightarrow> avp_hdr \<Rightarrow> bool" where
  "dict_match d h \<longleftrightarrow> d_code d = 0 \<or> a_v h = d_vend d \<and> a_vendor h = d_vendor d \<and> a_code h = d_code d"

definition avp_header_parseRawToApp ::
  "avp_parse_type \<Rightarrow> 'z dict_entry_scheme \<Rightarrow> avp_hdr list \<Rightarrow> (avp_parse_error + avp_hdr) \<times> avp_hdr list" where
  "avp_header_parseRawToApp ty d ahl =
     (case ahl of
        [] \<Rightarrow> (Inl AvpMissing, ahl)
      | h0 # rest \<Rightarrow>
          if ty = TYPE_FIXED_HEAD
          then if d_code d = 0 then (Inl AvpParserBug, ahl)
               else if a_code h0 = d_code d
               then (Inr (h0\<lparr>a_off := a_off h0 + dict_hdr_len d\<rparr>), rest)
               else (Inl AvpMissing, ahl)
          else (case take_first (dict_match d) ahl of
                  None \<Rightarrow> (Inl AvpMissing, ahl)
                | Some (h, ahl') \<Rightarrow>
                    if 0 < d_code d \<and> \<not> checkFlags h d then (Inl AvpInvalidBits, ahl')
                    else (Inr (h\<lparr>a_off := a_off h + dict_hdr_len d\<rparr>), ahl')))"

lemma take_first_SomeD:
  "take_first P xs = Some (y, ys) \<Longrightarrow>
     \<exists>us vs. xs = us @ y # vs \<and> ys = us @ vs \<and> P y \<and> (\<forall>u \<in> set us. \<not> P u)"
proof (induction xs arbitrary: ys)
  case Nil
  then show ?case by simp
next
  case (Cons x xs)
  show ?case
  proof (cases "P x")
    case True
    with Cons.prems show ?thesis by (intro exI [of _ "[]"] exI [of _ xs]) auto
  next
    case False
    with Cons.prems obtain zs where zs: "take_first P xs = Some (y, zs)" "ys = x # zs"
      by (auto split: option.splits)
    from Cons.IH [OF zs(1)] obtain us vs where
      "xs = us @ y # vs" "zs = us @ vs" "P y" "\<forall>u \<in> set us. \<not> P u" by blast
    with zs False show ?thesis by (intro exI [of _ "x # us"] exI [of _ vs]) auto
  qed
qed

lemma take_first_None_iff: "take_first P xs = None \<longleftrightarrow> (\<forall>x \<in> set xs. \<not> P x)"
  by (induction xs) (auto split: option.splits)

subsection \<open>Properties\<close>

lemma check_command_Inr: "check_command bad cmds h = Inr c \<Longrightarrow> check_command bad' cmds h = Inr c"
  by (auto simp: check_command_def Let_def split: option.splits if_splits)

text \<open>C23: a header that is written is read back as it was, with the same command, whatever follows
  it in the buffer and for both parse options.\<close>

theorem header_roundtrip:
  assumes "hdr_fits h" "header_parseAppToRaw opt cmds h = Inr (bs, com)"
  shows "header_parseRawToApp opt cmds (bs @ payload) = Some (h, Inr com)"
proof (cases opt)
  case PARSE_LOOSE
  with assms show ?thesis
    by (auto simp: header_parseAppToRaw_def header_parseRawToApp_def read_write_header)
next
  case PARSE_STRICT
  with assms obtain c where c: "check_command AAA_INVALID_HDR_BITS cmds h = Inr c"
    "bs = write_header h" "com = Some c"
    by (auto simp: header_parseAppToRaw_def split: sum.splits)
  from check_command_Inr [OF c(1)] c(2,3) PARSE_STRICT assms(1) show ?thesis
    by (simp add: header_parseRawToApp_def read_write_header)
qed

definition demo_cmds :: "command list" where
  "demo_cmds = [\<lparr>c_name = ''CER'', c_code = 257, c_appId = 0, c_r = True, c_p = False\<rparr>]"

definition demo_hdr :: msg_hdr where
  "demo_hdr = zero_hdr\<lparr>h_ver := 1, h_length := 0x1234, h_r := True, h_code := 257, h_hh := 0xdeadbeef, h_ee := 42\<rparr>"

theorem header_roundtrip_witness:
  "header_parseRawToApp PARSE_STRICT demo_cmds (write_header demo_hdr @ [1, 2, 3])
     = Some (demo_hdr, Inr (Some (hd demo_cmds)))"
  by (rule header_roundtrip)
    (simp_all add: demo_hdr_def demo_cmds_def zero_hdr_def hdr_fits_def header_parseAppToRaw_def
      check_command_def)

text \<open>The AVPs of a payload written with their padding are found again by the header scan, in
  order, each at the offset it was written to.\<close>

theorem avp_headers_roundtrip:
  assumes "\<forall>(h, v) \<in> set avps. avp_fits h v"
  shows "avp_headers 0 (write_avps avps) = Some (Inr (at_offsets 0 avps))"
  using avp_headers_write [OF assms, of "[]"] by simp

definition demo_avps :: "(avp_hdr \<times> byte list) list" where
  "demo_avps =
     [(\<lparr>a_code = 264, a_v = False, a_m = True, a_p = False, a_length = 11, a_vendor = 0, a_off = 0\<rparr>, [65, 66, 67]),
      (\<lparr>a_code = 5, a_v = True, a_m = False, a_p = False, a_length = 12, a_vendor = 77, a_off = 0\<rparr>, [])]"

theorem avp_headers_roundtrip_witness:
  "avp_headers 0 (write_avps demo_avps) = Some (Inr (at_offsets 0 demo_avps))"
  by (rule avp_headers_roundtrip) (simp add: demo_avps_def avp_fits_def avp_hdr_size_def)

lemma avp_headers_within:
  "avp_headers off bs = Some (Inr hs) \<Longrightarrow>
     (\<forall>h \<in> set hs. off \<le> a_off h \<and> 0 < unat (a_length h) \<and> a_off h + unat (a_length h) \<le> length bs) \<and>
     sorted_wrt (\<lambda>h h'. a_off h + unat (a_length h) \<le> a_off h') hs"
proof (induction off bs arbitrary: hs rule: avp_headers.induct)
  case (1 off bs)
  let ?h = "avp_hdr_at off bs"
  let ?next = "off + unat (adjust_word_boundary (a_length ?h))"
  show ?case
  proof (cases "length bs \<le> off")
    case True
    with "1.prems" show ?thesis by (simp add: avp_headers.simps)
  next
    case False
    have eq: "avp_headers off bs = Some (Inr hs)" by (rule "1.prems")
    have conds: "\<not> length bs < off + 8" "\<not> (a_length ?h = 0 \<or> length bs - off < unat (a_length ?h))"
      "\<not> (a_v ?h \<and> length bs < off + 12)"
      using eq False by (auto simp: avp_headers.simps [of off bs] Let_def split: if_splits)
    obtain hs' where hs': "avp_headers ?next bs = Some (Inr hs')" "hs = ?h # hs'"
      using eq False conds
      by (auto simp: avp_headers.simps [of off bs] Let_def split: option.splits sum.splits)
    have IH: "(\<forall>h \<in> set hs'. ?next \<le> a_off h \<and> 0 < unat (a_length h) \<and> a_off h + unat (a_length h) \<le> length bs) \<and>
      sorted_wrt (\<lambda>h h'. a_off h + unat (a_length h) \<le> a_off h') hs'"
      using "1.IH" [OF False conds(1) refl conds(2,3)] hs'(1) by blast
    have off: "a_off ?h = off" by (simp add: avp_hdr_at_def)
    have pos: "unat (a_length ?h) \<le> unat (adjust_word_boundary (a_length ?h))" "0 < unat (a_length ?h)"
      using conds adjust_pos(1) [of "read32 (drop (off + 4) bs)"]
      by (auto simp: avp_hdr_at_def unat_gt_0)
    show ?thesis using IH hs'(2) off pos conds False by fastforce
  qed
qed

text \<open>C32: every header the scan accepts lies, with the length it claims, inside the payload, and the
  headers come in increasing order of offset, each past the end of the one before.\<close>

theorem avp_headers_in_bounds:
  "avp_headers off bs = Some (Inr hs) \<Longrightarrow>
     list_all (\<lambda>h. off \<le> a_off h \<and> 0 < unat (a_length h) \<and> a_off h + unat (a_length h) \<le> length bs) hs \<and>
     sorted_wrt (\<lambda>h h'. a_off h + unat (a_length h) \<le> a_off h') hs"
  using avp_headers_within [of off bs hs] by (simp add: list_all_iff)

theorem avp_headers_in_bounds_witness:
  "list_all (\<lambda>h. 0 \<le> a_off h \<and> 0 < unat (a_length h) \<and>
      a_off h + unat (a_length h) \<le> length (write_avps demo_avps)) (at_offsets 0 demo_avps) \<and>
   sorted_wrt (\<lambda>h h'. a_off h + unat (a_length h) \<le> a_off h') (at_offsets 0 demo_avps)"
  by (rule avp_headers_in_bounds, rule avp_headers_write [of demo_avps "[]", simplified])
    (simp add: demo_avps_def avp_fits_def avp_hdr_size_def)

text \<open>An AVP that claims a length of 5, 6 or 7, less than its own header, is accepted by the scan,
  and the length of its value, the difference taken in 32 bits, exceeds any buffer; with a length
  of 1 to 4 the scan steps into the middle of the header and reads past the end of the payload.\<close>

theorem avp_headers_accept_short_length:
  assumes "0 < n" "n < 8"
  shows "if n \<le> 4 then avp_headers 0 (bytes_of32 cd @ bytes_of32 (of_nat n)) = None
         else \<exists>h. avp_headers 0 (bytes_of32 cd @ bytes_of32 (of_nat n)) = Some (Inr [h]) \<and>
                  unat (a_length h) = n \<and> 2 ^ 32 - 8 < unat (a_length h - 8)"
proof -
  let ?bs = "bytes_of32 cd @ bytes_of32 (of_nat n)"
  let ?h = "avp_hdr_at 0 ?bs"
  have n: "unat (of_nat n :: u32) = n" using assms by (simp add: unat_of_nat take_bit_nat_eq_self_iff)
  have lt: "(of_nat n :: u32) < 2 ^ 24" using n assms by (simp add: word_less_nat_alt)
  have len: "a_length ?h = of_nat n"
    using lt by (simp add: avp_hdr_at_def bytes_of32_def read32_def be32_byte_of mask24_id)
  have "\<not> bit n 31" using assms by (simp add: bit_iff_odd)
  then have v: "\<not> a_v ?h"
    by (simp add: avp_hdr_at_def bytes_of32_def bit_byte_of bit_of_nat_iff)
  have small: "unat (a_length ?h) = n" using len n by simp
  have nz: "a_length ?h \<noteq> 0" using small assms by auto
  have adj: "unat (adjust_word_boundary (a_length ?h)) = (if n \<le> 4 then 4 else 8)"
    using adjust_word_boundary_unat [of "a_length ?h"] small assms by (auto simp: div_eq_0_iff)
  have wrap: "2 ^ 32 - 8 < unat (a_length ?h - 8)"
    using small assms by (simp add: unat_sub_if' word_le_nat_alt)
  have eq: "avp_headers 0 ?bs =
     (case avp_headers (if n \<le> 4 then 4 else 8) ?bs of
        None \<Rightarrow> None | Some (Inl e) \<Rightarrow> Some (Inl e) | Some (Inr hs) \<Rightarrow> Some (Inr (?h # hs)))"
    using nz small v adj assms by (subst avp_headers.simps) (simp add: Let_def)
  show ?thesis
  proof (cases "n \<le> 4")
    case True
    have "avp_headers 4 ?bs = None" by (simp add: avp_headers.simps)
    with True eq show ?thesis by simp
  next
    case False
    have "avp_headers 8 ?bs = Some (Inr [])" by (simp add: avp_headers.simps)
    with False eq small wrap show ?thesis by simp
  qed
qed

theorem avp_headers_accept_short_length_witness:
  "\<exists>h. avp_headers 0 (bytes_of32 264 @ bytes_of32 (of_nat 7)) = Some (Inr [h]) \<and>
       unat (a_length h) = 7 \<and> 2 ^ 32 - 8 < unat (a_length h - 8)"
  using avp_headers_accept_short_length [of 7 264] by simp

text \<open>The header the dictionary takes is the first in the list with its code, vendor and V flag, its
  M flag is the dictionary's, and exactly that header leaves the list.\<close>

theorem avp_header_selects_first:
  assumes "ty \<noteq> TYPE_FIXED_HEAD" "d_code d \<noteq> 0"
    and "avp_header_parseRawToApp ty d ahl = (Inr h, ahl')"
  shows "\<exists>us h0 vs. ahl = us @ h0 # vs \<and> ahl' = us @ vs \<and> h = h0\<lparr>a_off := a_off h0 + dict_hdr_len d\<rparr> \<and>
           a_code h0 = d_code d \<and> a_vendor h0 = d_vendor d \<and> a_v h0 = d_vend d \<and> a_m h0 = d_mand d \<and>
           (\<forall>u \<in> set us. \<not> (a_v u = d_vend d \<and> a_vendor u = d_vendor d \<and> a_code u = d_code d))"
proof -
  from assms obtain h0 where h0: "take_first (dict_match d) ahl = Some (h0, ahl')" "checkFlags h0 d"
    "h = h0\<lparr>a_off := a_off h0 + dict_hdr_len d\<rparr>"
    by (auto simp: avp_header_parseRawToApp_def word_gt_0 split: list.splits if_splits option.splits)
  from take_first_SomeD [OF h0(1)] obtain us vs where
    "ahl = us @ h0 # vs" "ahl' = us @ vs" "dict_match d h0" "\<forall>u \<in> set us. \<not> dict_match d u" by blast
  with h0(2,3) assms(2) show ?thesis
    by (intro exI [of _ us] exI [of _ h0] exI [of _ vs]) (auto simp: dict_match_def checkFlags_def)
qed

definition demo_dict :: dict_entry where
  "demo_dict = \<lparr>d_code = 5, d_vendor = 77, d_mand = False, d_vend = True, d_encr = False\<rparr>"

theorem avp_header_selects_first_witness:
  "\<exists>us h0 vs. at_offsets 0 demo_avps = us @ h0 # vs \<and> [hd (at_offsets 0 demo_avps)] = us @ vs \<and>
      (last (at_offsets 0 demo_avps))\<lparr>a_off := 24\<rparr> = h0\<lparr>a_off := a_off h0 + dict_hdr_len demo_dict\<rparr> \<and>
      a_code h0 = d_code demo_dict \<and> a_vendor h0 = d_vendor demo_dict \<and> a_v h0 = d_vend demo_dict \<and>
      a_m h0 = d_mand demo_dict \<and>
      (\<forall>u \<in> set us. \<not> (a_v u = d_vend demo_dict \<and> a_vendor u = d_vendor demo_dict \<and> a_code u = d_code demo_dict))"
  by (rule avp_header_selects_first [of TYPE_OPTIONAL])
    (simp_all add: demo_dict_def demo_avps_def avp_header_parseRawToApp_def dict_match_def
      checkFlags_def dict_hdr_len_def pad_len_def)

end
