(* ===== verification/Rx_Collector.thy ===== *)
theory Rx_Collector
  imports Parser_Headers
begin

text \<open>
  \<open>DiameterRxMsgCollector\<close> of \<open>libdiameter/src/aaa_transport_collector.cxx\<close>: the bytes of a connection,
  in whatever pieces the transport hands them over, are cut into messages by the length field of
  the header. The header parser is the model of \<open>Parser_Headers\<close>; the payload parser and the outcome of
  \<open>realloc\<close> are parameters. The loop is run with fuel; that enough fuel exists, and when none is
  enough, is proved.
\<close>

subsection \<open>State and environment\<close>

datatype payload_result = PayloadOk acl | PayloadError u32 | PayloadBug

datatype collector_error =
    PARSING_ERROR
  | BUG_IN_PARSING_CODE
  | MEMORY_ALLOC_ERROR
  | CORRUPTED_BYTE_STREAM
  | INVALID_MSG
  | TRANSPORT_ERROR

text \<open>The calls to the handler: \<open>Message\<close>, \<open>Error\<close>, \<open>SendErrorAnswer\<close>.\<close>

datatype upcall = UpMessage msg | UpError collector_error | UpErrorAnswer msg

record rx_env =
  e_cmds :: "command list"
  e_payload :: "command option \<Rightarrow> byte list \<Rightarrow> payload_result"
  e_realloc :: "nat \<Rightarrow> bool"
  e_identity :: string
  e_realm :: string

text \<open>\<open>m_BufSize\<close> is the length of the buffer; the empty buffer is the null pointer.\<close>

record rxc =
  rx_buf :: "byte list"
  rx_off :: nat
  rx_msglen :: nat
  rx_persist :: ranged
  rx_hdrerr :: bool
  rx_up :: "upcall list"

definition persist_reset :: "nat \<Rightarrow> ranged" where
  "persist_reset bufsize = RV_Reset 0 0 (int ((bufsize * 10) div 4))"

definition RxMsgCollector :: "nat \<Rightarrow> rxc" where
  "RxMsgCollector rx_buffer_size =
     \<lparr>rx_buf = replicate (20 + rx_buffer_size) 0, rx_off = 0, rx_msglen = 0,
      rx_persist = persist_reset (20 + rx_buffer_size), rx_hdrerr = False, rx_up = []\<rparr>"

text \<open>\<open>DiameterErrorMsg::Generate(hdr, rcode)\<close>.\<close>

definition ErrorAnswerHdr :: "string \<Rightarrow> string \<Rightarrow> msg_hdr \<Rightarrow> u32 \<Rightarrow> msg" where
  "ErrorAnswerHdr identity realm hdr rcode =
     \<lparr>m_hdr = hdr\<lparr>h_e := True, h_r := False\<rparr>,
      m_acl = [(AVPNAME_ORIGINHOST, [AvpStr identity]), (AVPNAME_ORIGINREALM, [AvpStr realm]),
               (AVPNAME_RESULTCODE, [AvpU32 rcode]), (AVPNAME_ERRORREPORTINGHOST, [AvpStr identity])]\<rparr>"

definition up :: "upcall \<Rightarrow> rxc \<Rightarrow> rxc" where
  "up u s = s\<lparr>rx_up := rx_up s @ [u]\<rparr>"

text \<open>\<open>memcpy(m_Buffer, m_Buffer + k, n)\<close>, on overlapping ranges as a move.\<close>

definition move_left :: "nat \<Rightarrow> nat \<Rightarrow> byte list \<Rightarrow> byte list" where
  "move_left k n buf = take n (drop k buf) @ drop (length (take n (drop k buf))) buf"

definition copy_in :: "nat \<Rightarrow> byte list \<Rightarrow> byte list \<Rightarrow> byte list" where
  "copy_in off bs buf = take off buf @ bs @ drop (off + length bs) buf"

definition zero_from :: "nat \<Rightarrow> byte list \<Rightarrow> byte list" where
  "zero_from off buf = take off buf @ replicate (length buf - off) 0"

subsection \<open>One turn of the inner loop\<close>

datatype loop_exit = Continue rxc | Break rxc | Return rxc

text \<open>Lines 264 to 274: the message is taken off the front of the buffer.\<close>

definition drop_message :: "rxc \<Rightarrow> rxc" where
  "drop_message s =
     (let s1 = (if rx_msglen s < rx_off s
                then s\<lparr>rx_buf := move_left (rx_msglen s) (rx_off s - rx_msglen s) (rx_buf s),
                       rx_off := rx_off s - rx_msglen s\<rparr>
                else s\<lparr>rx_off := 0\<rparr>)
      in s1\<lparr>rx_buf := zero_from (rx_off s1) (rx_buf s1), rx_msglen := 0\<rparr>)"

definition deliver_msg :: "msg \<Rightarrow> rxc \<Rightarrow> rxc" where
  "deliver_msg m s = (up (UpMessage m) s)\<lparr>rx_persist := persist_reset (length (rx_buf s))\<rparr>"

text \<open>
  Lines 165 to 275, a whole message in the buffer. \<open>handle\<close> is the header and the command when the
  header was parsed in this turn. A message whose header no longer parses is delivered without AVPs. After
  an error in the payload the code releases its message block twice (lines 210 and 220). The block is an object
  of its own that only points at the buffer; the second release is of an object that is deleted, which C++
  leaves undefined, and the model goes on as if it did nothing.
\<close>

definition take_message :: "rx_env \<Rightarrow> (msg_hdr \<times> command) option \<Rightarrow> rxc \<Rightarrow> loop_exit" where
  "take_message env handle s =
     (if rx_hdrerr s then Continue (drop_message (up (UpError PARSING_ERROR) s))
      else let bytes = take (rx_msglen s) (rx_buf s);
               parsed = (case handle of
                           Some (h, com) \<Rightarrow> (h, Inr (Some com))
                         | None \<Rightarrow>
                             (read_header (rx_buf s),
                              case check_command AAA_INVALID_BIT_IN_HEADER (e_cmds env)
                                     (read_header (rx_buf s)) of
                                Inl e \<Rightarrow> Inl e | Inr com \<Rightarrow> Inr (Some com)))
      in case parsed of
           (h, Inl e) \<Rightarrow> Continue (drop_message (deliver_msg \<lparr>m_hdr = h, m_acl = []\<rparr> s))
         | (h, Inr com) \<Rightarrow>
             (case e_payload env com (drop 20 bytes) of
                PayloadOk a \<Rightarrow> Continue (drop_message (deliver_msg \<lparr>m_hdr = h, m_acl = a\<rparr> s))
              | PayloadError e \<Rightarrow>
                  (let off = rx_off s - rx_msglen s
                   in Continue (up (UpError PARSING_ERROR)
                        (s\<lparr>rx_off := off, rx_buf := move_left off (rx_msglen s) (rx_buf s)\<rparr>)))
              | PayloadBug \<Rightarrow> Return (up (UpError BUG_IN_PARSING_CODE) s)))"

text \<open>Lines 141 to 164 in front of it: the message is not complete yet.\<close>

definition await_message :: "rx_env \<Rightarrow> (msg_hdr \<times> command) option \<Rightarrow> rxc \<Rightarrow> loop_exit" where
  "await_message env handle s =
     (if rx_off s < rx_msglen s
      then if length (rx_buf s) < rx_msglen s
           then if e_realloc env (rx_msglen s + 1)
                then Continue (s\<lparr>rx_buf := rx_buf s @ replicate (rx_msglen s + 1 - length (rx_buf s)) 0\<rparr>)
                else Return (up (UpError MEMORY_ALLOC_ERROR)
                       (s\<lparr>rx_buf := [], rx_off := 0, rx_msglen := 0\<rparr>))
           else Break s
      else take_message env handle s)"

text \<open>Lines 80 to 139: the header, when no message length is known.\<close>

definition rx_turn :: "rx_env \<Rightarrow> rxc \<Rightarrow> loop_exit" where
  "rx_turn env s =
     (if rx_msglen s = 0
      then let h = read_header (rx_buf s) in
        (case check_command AAA_INVALID_BIT_IN_HEADER (e_cmds env) h of
           Inl e \<Rightarrow>
             if e = AAA_COMMAND_UNSUPPORTED \<and>
                \<not> RV_InRange (RV_Reset (int (unat (h_length h))) 20 (int (length (rx_buf s) * 10)))
             then let (over, pe) = RV_inc (rx_persist s); s1 = s\<lparr>rx_persist := pe\<rparr> in
                  if over then Return (up (UpError CORRUPTED_BYTE_STREAM) s1)
                  else Continue (s1\<lparr>rx_off := rx_off s - 4,
                                    rx_buf := move_left 4 (rx_off s - 4) (rx_buf s)\<rparr>)
             else await_message env None
                    ((up (UpErrorAnswer (ErrorAnswerHdr (e_identity env) (e_realm env) h e)) s)
                      \<lparr>rx_hdrerr := True, rx_msglen := unat (h_length h)\<rparr>)
         | Inr com \<Rightarrow>
             await_message env (Some (h, com)) (s\<lparr>rx_hdrerr := False, rx_msglen := unat (h_length h)\<rparr>))
      else await_message env None s)"

subsection \<open>The loops\<close>

text \<open>The inner loop; \<open>Inr\<close> is the way out that leaves \<open>Message\<close> altogether.\<close>

fun rx_inner :: "rx_env \<Rightarrow> nat \<Rightarrow> rxc \<Rightarrow> (rxc + rxc) option" where
  "rx_inner env 0 s = None"
| "rx_inner env (Suc n) s =
     (if rx_off s \<le> 20 then Some (Inl s)
      else case rx_turn env s of
             Continue s' \<Rightarrow> rx_inner env n s'
           | Break s' \<Rightarrow> Some (Inl s')
           | Return s' \<Rightarrow> Some (Inr s'))"

fun rx_outer :: "rx_env \<Rightarrow> nat \<Rightarrow> rxc \<Rightarrow> byte list \<Rightarrow> rxc option" where
  "rx_outer env 0 s data = None"
| "rx_outer env (Suc n) s data =
     (if data = [] then Some s
      else let r = min (length data) (length (rx_buf s) - rx_off s);
               s1 = s\<lparr>rx_buf := copy_in (rx_off s) (take r data) (rx_buf s), rx_off := rx_off s + r\<rparr>
           in case rx_inner env (Suc n) s1 of
                None \<Rightarrow> None
              | Some (Inr s2) \<Rightarrow> Some s2
              | Some (Inl s2) \<Rightarrow> rx_outer env n s2 (drop r data))"

definition rx_Message :: "rx_env \<Rightarrow> nat \<Rightarrow> rxc \<Rightarrow> byte list \<Rightarrow> rxc option" where
  "rx_Message env fuel s data =
     (if rx_buf s = [] then Some s
      else rx_outer env fuel (s\<lparr>rx_hdrerr := False\<rparr>) data)"


subsection \<open>Streams of well formed messages\<close>

text \<open>A message as the peer wrote it, and what the collector should hand up for it.\<close>

definition good_frame :: "rx_env \<Rightarrow> byte list \<Rightarrow> bool" where
  "good_frame env f \<longleftrightarrow> 20 < length f \<and> unat (h_length (read_header f)) = length f \<and>
     (case check_command AAA_INVALID_BIT_IN_HEADER (e_cmds env) (read_header f) of
        Inl e \<Rightarrow> False
      | Inr com \<Rightarrow> (case e_payload env (Some com) (drop 20 f) of PayloadOk a \<Rightarrow> True | _ \<Rightarrow> False))"

definition frame_msg :: "rx_env \<Rightarrow> byte list \<Rightarrow> msg" where
  "frame_msg env f =
     \<lparr>m_hdr = read_header f,
      m_acl = (case check_command AAA_INVALID_BIT_IN_HEADER (e_cmds env) (read_header f) of
                 Inl e \<Rightarrow> []
               | Inr com \<Rightarrow> (case e_payload env (Some com) (drop 20 f) of PayloadOk a \<Rightarrow> a | _ \<Rightarrow> []))\<rparr>"

text \<open>\<open>p\<close> is what the buffer holds of the messages \<open>fs\<close> that are still to come.\<close>

definition rx_ok :: "byte list list \<Rightarrow> byte list \<Rightarrow> rxc \<Rightarrow> bool" where
  "rx_ok fs p s \<longleftrightarrow>
     take (length p) (rx_buf s) = p \<and> rx_off s = length p \<and> length p \<le> length (rx_buf s) \<and>
     20 < length (rx_buf s) \<and> \<not> rx_hdrerr s \<and>
     (rx_msglen s = 0 \<or> fs \<noteq> [] \<and> 20 < length p \<and> rx_msglen s = length (hd fs)) \<and>
     (\<exists>rest. concat fs = p @ rest)"

lemma read_header_prefix:
  assumes "20 \<le> length p" "20 \<le> length q" "take 20 p = take 20 q"
  shows "read_header p = read_header q"
proof -
  have nth: "p ! i = q ! i" if "i < 20" for i
    using assms(3) that by (metis nth_take)
  then show ?thesis
    using assms(1,2) by (simp add: read_header_def read32_def)
qed

lemma frame_at_front:
  assumes "rx_ok (f # fs) p s" "good_frame env f" "20 < length p"
  shows "read_header (rx_buf s) = read_header f"
    and "length f \<le> length p \<Longrightarrow> take (length f) (rx_buf s) = f"
    and "length f \<le> length p \<Longrightarrow> take (length f) p = f"
proof -
  obtain rest where rest: "f @ concat fs = p @ rest" using assms(1) by (auto simp: rx_ok_def)
  have f: "20 < length f" using assms(2) by (simp add: good_frame_def)
  have b: "take (length p) (rx_buf s) = p" "length p \<le> length (rx_buf s)" using assms(1) by (auto simp: rx_ok_def)
  have "take 20 (rx_buf s) = take 20 p" using b assms(3) by (metis min.absorb2 less_imp_le take_take min.commute)
  also have "\<dots> = take 20 (p @ rest)" using assms(3) by simp
  also have "\<dots> = take 20 f" using f by (simp flip: rest)
  finally show "read_header (rx_buf s) = read_header f"
    using b f assms(3) by (intro read_header_prefix) auto
  show p: "take (length f) p = f" if "length f \<le> length p"
    using arg_cong [OF rest, of "take (length f)"] that by simp
  show "take (length f) (rx_buf s) = f" if "length f \<le> length p"
    using p [OF that] b that by (metis min.absorb2 min.commute take_take)
qed

lemma drop_message_ok:
  assumes "rx_ok (f # fs) p s" "length f \<le> length p" "take (length f) p = f" "rx_msglen s' = length f"
    and "rx_buf s' = rx_buf s" "rx_off s' = rx_off s" "rx_hdrerr s' = rx_hdrerr s"
  shows "rx_ok fs (drop (length f) p) (drop_message s')"
    and "rx_up (drop_message s') = rx_up s'"
proof -
  obtain rest where rest: "f @ concat fs = p @ rest" using assms(1) by (auto simp: rx_ok_def)
  have tail: "concat fs = drop (length f) p @ rest"
    using arg_cong [OF rest, of "drop (length f)"] assms(2) by simp
  have b: "take (length p) (rx_buf s) = p" "length p \<le> length (rx_buf s)" "rx_off s = length p"
    "20 < length (rx_buf s)" "\<not> rx_hdrerr s"
    using assms(1) by (auto simp: rx_ok_def)
  have mv: "take (length p - length f) (drop (length f) (rx_buf s)) = drop (length f) p"
    using b(1) by (metis drop_take)
  show "rx_ok fs (drop (length f) p) (drop_message s')"
    using b assms tail mv
    by (auto simp: rx_ok_def drop_message_def Let_def move_left_def zero_from_def)
  show "rx_up (drop_message s') = rx_up s'" by (simp add: drop_message_def Let_def)
qed

lemma rx_turn_good:
  assumes ok: "rx_ok (f # fs) p s" and good: "good_frame env f" and big: "20 < length p"
    and alloc: "\<And>n. e_realloc env n"
  shows "if length f \<le> length p
         then \<exists>s'. rx_turn env s = Continue s' \<and> rx_ok fs (drop (length f) p) s' \<and>
                   rx_up s' = rx_up s @ [UpMessage (frame_msg env f)]
         else \<exists>s'. rx_ok (f # fs) p s' \<and> rx_up s' = rx_up s \<and> rx_msglen s' = length f \<and>
                   (if length (rx_buf s) < length f
                    then rx_turn env s = Continue s' \<and> length f < length (rx_buf s')
                    else rx_turn env s = Break s' \<and> length f \<le> length (rx_buf s'))"
proof -
  obtain com a where com: "check_command AAA_INVALID_BIT_IN_HEADER (e_cmds env) (read_header f) = Inr com"
    "e_payload env (Some com) (drop 20 f) = PayloadOk a"
    using good by (auto simp: good_frame_def split: sum.splits payload_result.splits)
  have len: "unat (h_length (read_header f)) = length f" using good by (simp add: good_frame_def)
  have msg: "frame_msg env f = \<lparr>m_hdr = read_header f, m_acl = a\<rparr>" by (simp add: frame_msg_def com)
  note hd = frame_at_front [OF ok good big]
  define handle where "handle = (if rx_msglen s = 0 then Some (read_header f, com) else None)"
  define t where "t = (if rx_msglen s = 0 then s\<lparr>rx_hdrerr := False, rx_msglen := length f\<rparr> else s)"
  have turn: "rx_turn env s = await_message env handle t"
    using hd(1) com len by (auto simp: rx_turn_def handle_def t_def)
  have t: "rx_buf t = rx_buf s" "rx_off t = rx_off s" "rx_hdrerr t = rx_hdrerr s" "rx_msglen t = length f"
    "rx_up t = rx_up s" "\<not> rx_hdrerr t" "rx_off t = length p"
    using ok by (auto simp: t_def rx_ok_def)
  show ?thesis
  proof (cases "length f \<le> length p")
    case True
    have "take_message env handle t = Continue (drop_message (deliver_msg (frame_msg env f) t))"
      using t hd True com by (auto simp: take_message_def handle_def Let_def msg split: option.splits)
    then have "rx_turn env s = Continue (drop_message (deliver_msg (frame_msg env f) t))"
      using turn t True by (simp add: await_message_def)
    moreover have "rx_ok fs (drop (length f) p) (drop_message (deliver_msg (frame_msg env f) t))"
      "rx_up (drop_message (deliver_msg (frame_msg env f) t)) = rx_up s @ [UpMessage (frame_msg env f)]"
      using drop_message_ok [OF ok True hd(3) [OF True], of "deliver_msg (frame_msg env f) t"] t
      by (auto simp: deliver_msg_def up_def)
    ultimately show ?thesis using True by auto
  next
    case False
    have okt: "rx_ok (f # fs) p t" using ok t big by (auto simp: rx_ok_def)
    show ?thesis
    proof (cases "length (rx_buf s) < length f")
      case True
      let ?s' = "t\<lparr>rx_buf := rx_buf t @ replicate (length f + 1 - length (rx_buf t)) 0\<rparr>"
      have "rx_turn env s = Continue ?s'"
        using turn t False True alloc by (simp add: await_message_def)
      moreover have "rx_ok (f # fs) p ?s'" using okt by (auto simp: rx_ok_def)
      ultimately show ?thesis using False True t by (intro if_not_P [THEN iffD2] exI [of _ ?s']) auto
    next
      case nb: False
      have "rx_turn env s = Break t"
        using turn t False nb by (simp add: await_message_def)
      with okt show ?thesis using False nb t by auto
    qed
  qed
qed


text \<open>The state after the inner loop has drained what it can: \<open>room\<close> is what the outer loop needs.\<close>

definition rx_drained :: "byte list list \<Rightarrow> byte list \<Rightarrow> rxc \<Rightarrow> bool" where
  "rx_drained fs p s \<longleftrightarrow> rx_ok fs p s \<and> length p < length (rx_buf s) \<and> (fs \<noteq> [] \<longrightarrow> length p < length (hd fs))"

lemma rx_inner_good:
  assumes "rx_ok fs p s" "\<forall>f \<in> set fs. good_frame env f" "\<And>n. e_realloc env n" "length p + 3 \<le> n"
  shows "\<exists>s' k p'. rx_inner env n s = Some (Inl s') \<and> p = concat (take k fs) @ p' \<and>
           rx_drained (drop k fs) p' s' \<and>
           rx_up s' = rx_up s @ List.map (\<lambda>f. UpMessage (frame_msg env f)) (take k fs)"
  using assms
proof (induction fs arbitrary: s p n)
  case Nil
  then have "p = []" "20 < length (rx_buf s)" "rx_off s = 0" by (auto simp: rx_ok_def)
  with Nil show ?case
    by (cases n) (auto simp: rx_drained_def intro!: exI [of _ 0])
next
  case (Cons f fs)
  have good: "good_frame env f" using Cons.prems by simp
  then have f20: "20 < length f" by (simp add: good_frame_def)
  have off: "rx_off s = length p" using Cons.prems by (simp add: rx_ok_def)
  obtain n' where n: "n = Suc n'" using Cons.prems by (cases n) auto
  show ?case
  proof (cases "length p \<le> 20")
    case True
    with off n Cons.prems f20 show ?thesis
      by (auto simp: rx_drained_def rx_ok_def intro!: exI [of _ 0])
  next
    case False
    then have big: "20 < length p" by simp
    note turn = rx_turn_good [OF Cons.prems(1) good big Cons.prems(3)]
    show ?thesis
    proof (cases "length f \<le> length p")
      case True
      with turn obtain s' where s': "rx_turn env s = Continue s'" "rx_ok fs (drop (length f) p) s'"
        "rx_up s' = rx_up s @ [UpMessage (frame_msg env f)]" by auto
      have "length (drop (length f) p) + 3 \<le> n'" using Cons.prems(4) n f20 True by simp
      from Cons.IH [OF s'(2) _ Cons.prems(3) this] Cons.prems(2) obtain s2 k p' where
        "rx_inner env n' s' = Some (Inl s2)" "drop (length f) p = concat (take k fs) @ p'"
        "rx_drained (drop k fs) p' s2"
        "rx_up s2 = rx_up s' @ List.map (\<lambda>f. UpMessage (frame_msg env f)) (take k fs)" by auto
      moreover have "p = f @ drop (length f) p"
        using frame_at_front(3) [OF Cons.prems(1) good big True] by (metis append_take_drop_id)
      ultimately show ?thesis
        using s' n off big by (intro exI [of _ s2] exI [of _ "Suc k"] exI [of _ p']) auto
    next
      case short: False
      with turn obtain s' where s': "rx_ok (f # fs) p s'" "rx_up s' = rx_up s" "rx_msglen s' = length f"
        "if length (rx_buf s) < length f
         then rx_turn env s = Continue s' \<and> length f < length (rx_buf s')
         else rx_turn env s = Break s' \<and> length f \<le> length (rx_buf s')" by auto
      have drained: "rx_drained (f # fs) p s'" using s' short by (auto simp: rx_drained_def split: if_splits)
      have "rx_inner env n s = Some (Inl s')"
      proof (cases "length (rx_buf s) < length f")
        case True
        obtain n'' where n'': "n' = Suc n''" using Cons.prems(4) n by (cases n') auto
        from rx_turn_good [OF s'(1) good big Cons.prems(3)] short True s'(3,4) obtain s2 where
          "rx_turn env s' = Break s2" by auto
        moreover have "rx_turn env s' = Break s'"
        proof -
          have "rx_msglen s' \<noteq> 0" using s'(3) f20 by auto
          then show ?thesis
            using s' short True big by (simp add: rx_turn_def await_message_def rx_ok_def)
        qed
        ultimately show ?thesis using s'(1,4) n n'' True big off by (simp add: rx_ok_def)
      next
        case False
        with s' n big off show ?thesis by simp
      qed
      with drained s' show ?thesis by (intro exI [of _ s'] exI [of _ 0] exI [of _ p]) auto
    qed
  qed
qed

lemma rx_ok_copy_in:
  assumes "rx_drained fs p s" "r = min (length data) (length (rx_buf s) - rx_off s)"
    and "concat fs = p @ data @ rest"
  shows "rx_ok fs (p @ take r data)
           (s\<lparr>rx_buf := copy_in (rx_off s) (take r data) (rx_buf s), rx_off := rx_off s + r\<rparr>)"
    and "data \<noteq> [] \<Longrightarrow> 0 < r"
proof -
  have d: "rx_off s = length p" "take (length p) (rx_buf s) = p" "length p < length (rx_buf s)"
    "20 < length (rx_buf s)" "\<not> rx_hdrerr s"
    "rx_msglen s = 0 \<or> fs \<noteq> [] \<and> 20 < length p \<and> rx_msglen s = length (hd fs)"
    using assms(1) by (auto simp: rx_drained_def rx_ok_def)
  have r: "length (take r data) = r" "r \<le> length (rx_buf s) - length p" using assms(2) d by auto
  have "concat fs = (p @ take r data) @ drop r data @ rest" using assms(3) by simp
  with d r show "rx_ok fs (p @ take r data)
           (s\<lparr>rx_buf := copy_in (rx_off s) (take r data) (rx_buf s), rx_off := rx_off s + r\<rparr>)"
    by (auto simp: rx_ok_def copy_in_def)
  show "data \<noteq> [] \<Longrightarrow> 0 < r" using assms(2) d by (cases data) auto
qed

lemma rx_outer_good:
  assumes "rx_drained fs p s" "\<forall>f \<in> set fs. good_frame env f" "\<And>n. e_realloc env n"
    and "concat fs = p @ data @ rest" "length p + 2 * length data + 3 \<le> n"
  shows "\<exists>s' k p'. rx_outer env n s data = Some s' \<and> p @ data = concat (take k fs) @ p' \<and>
           rx_drained (drop k fs) p' s' \<and>
           rx_up s' = rx_up s @ List.map (\<lambda>f. UpMessage (frame_msg env f)) (take k fs)"
  using assms
proof (induction n arbitrary: fs p s data)
  case 0
  then show ?case by simp
next
  case (Suc n)
  show ?case
  proof (cases "data = []")
    case True
    with Suc.prems show ?thesis by (intro exI [of _ s] exI [of _ 0] exI [of _ p]) simp
  next
    case False
    define r where "r = min (length data) (length (rx_buf s) - rx_off s)"
    let ?s1 = "s\<lparr>rx_buf := copy_in (rx_off s) (take r data) (rx_buf s), rx_off := rx_off s + r\<rparr>"
    note ok = rx_ok_copy_in [OF Suc.prems(1) r_def Suc.prems(4)]
    have rpos: "0 < r" using ok(2) False by simp
    have rle: "r \<le> length data" by (simp add: r_def)
    have "length (p @ take r data) + 3 \<le> Suc n" using Suc.prems(5) rle by simp
    from rx_inner_good [OF ok(1) Suc.prems(2,3) this] obtain s2 k p2 where
      s2: "rx_inner env (Suc n) ?s1 = Some (Inl s2)" "p @ take r data = concat (take k fs) @ p2"
        "rx_drained (drop k fs) p2 s2"
        "rx_up s2 = rx_up s @ List.map (\<lambda>f. UpMessage (frame_msg env f)) (take k fs)" by auto
    have tail: "concat (drop k fs) = p2 @ drop r data @ rest"
    proof -
      have "concat (take k fs) @ concat (drop k fs) = (p @ take r data) @ drop r data @ rest"
        using Suc.prems(4) by (metis append_take_drop_id append.assoc concat_append)
      then show ?thesis using s2(2) by simp
    qed
    have len: "length p2 + 2 * length (drop r data) + 3 \<le> n"
    proof -
      have "length p + r = length (concat (take k fs)) + length p2"
        using arg_cong [OF s2(2), of length] rle by simp
      then show ?thesis using Suc.prems(5) rpos rle by simp
    qed
    have goods: "\<forall>f \<in> set (drop k fs). good_frame env f" using Suc.prems(2) by (meson in_set_dropD)
    from Suc.IH [OF s2(3) goods Suc.prems(3) tail len] obtain s3 j p3 where
      s3: "rx_outer env n s2 (drop r data) = Some s3" "p2 @ drop r data = concat (take j (drop k fs)) @ p3"
        "rx_drained (drop j (drop k fs)) p3 s3"
        "rx_up s3 = rx_up s2 @ List.map (\<lambda>f. UpMessage (frame_msg env f)) (take j (drop k fs))"
      by blast
    have run: "rx_outer env (Suc n) s data = rx_outer env n s2 (drop r data)"
      using s2(1) False by (simp add: r_def Let_def del: rx_inner.simps)
    have tk: "take (k + j) fs = take k fs @ take j (drop k fs)" by (simp add: take_add)
    have "p @ data = (p @ take r data) @ drop r data" by simp
    also have "\<dots> = concat (take k fs) @ p2 @ drop r data" by (simp only: s2(2) append.assoc)
    also have "\<dots> = concat (take (k + j) fs) @ p3" by (simp only: s3(2) tk concat_append append.assoc)
    finally have app: "p @ data = concat (take (k + j) fs) @ p3" .
    have "drop (k + j) fs = drop j (drop k fs)" by (simp add: add.commute)
    with s3 s2(4) run app tk show ?thesis
      by (intro exI [of _ s3] exI [of _ "k + j"] exI [of _ p3]) simp
  qed
qed

text \<open>A connection: the pieces the transport hands over, one call of \<open>Message\<close> each.\<close>

fun rx_feed :: "rx_env \<Rightarrow> nat \<Rightarrow> rxc \<Rightarrow> byte list list \<Rightarrow> rxc option" where
  "rx_feed env fuel s [] = Some s"
| "rx_feed env fuel s (d # ds) =
     (case rx_Message env fuel s d of None \<Rightarrow> None | Some s' \<Rightarrow> rx_feed env fuel s' ds)"

lemma rx_feed_good:
  assumes "rx_drained fs p s" "\<forall>f \<in> set fs. good_frame env f" "\<And>n. e_realloc env n"
    and "concat fs = p @ concat ds @ rest" "2 * length (p @ concat ds) + 3 \<le> n"
  shows "\<exists>s' k p'. rx_feed env n s ds = Some s' \<and> p @ concat ds = concat (take k fs) @ p' \<and>
           rx_drained (drop k fs) p' s' \<and>
           rx_up s' = rx_up s @ List.map (\<lambda>f. UpMessage (frame_msg env f)) (take k fs)"
  using assms
proof (induction ds arbitrary: fs p s)
  case Nil
  then show ?case by (intro exI [of _ s] exI [of _ 0] exI [of _ p]) simp
next
  case (Cons d ds)
  have ne: "rx_buf s \<noteq> []" "s\<lparr>rx_hdrerr := False\<rparr> = s"
    using Cons.prems(1) by (auto simp: rx_drained_def rx_ok_def)
  have "concat fs = p @ d @ (concat ds @ rest)" "length p + 2 * length d + 3 \<le> n"
    using Cons.prems(4,5) by auto
  from rx_outer_good [OF Cons.prems(1,2,3) this] obtain s2 k p2 where
    s2: "rx_outer env n s d = Some s2" "p @ d = concat (take k fs) @ p2" "rx_drained (drop k fs) p2 s2"
      "rx_up s2 = rx_up s @ List.map (\<lambda>f. UpMessage (frame_msg env f)) (take k fs)" by blast
  have tail: "concat (drop k fs) = p2 @ concat ds @ rest"
  proof -
    have "concat (take k fs) @ concat (drop k fs) = (p @ d) @ concat ds @ rest"
      using Cons.prems(4) by (metis append_take_drop_id append.assoc concat_append concat.simps(2))
    then show ?thesis using s2(2) by simp
  qed
  have len: "2 * length (p2 @ concat ds) + 3 \<le> n"
    using Cons.prems(5) arg_cong [OF s2(2), of length] by simp
  have goods: "\<forall>f \<in> set (drop k fs). good_frame env f" using Cons.prems(2) by (meson in_set_dropD)
  from Cons.IH [OF s2(3) goods Cons.prems(3) tail len] obtain s3 j p3 where
    s3: "rx_feed env n s2 ds = Some s3" "p2 @ concat ds = concat (take j (drop k fs)) @ p3"
      "rx_drained (drop j (drop k fs)) p3 s3"
      "rx_up s3 = rx_up s2 @ List.map (\<lambda>f. UpMessage (frame_msg env f)) (take j (drop k fs))" by blast
  have tk: "take (k + j) fs = take k fs @ take j (drop k fs)" by (simp add: take_add)
  have "p @ concat (d # ds) = (p @ d) @ concat ds" by simp
  also have "\<dots> = concat (take k fs) @ p2 @ concat ds" by (simp only: s2(2) append.assoc)
  also have "\<dots> = concat (take (k + j) fs) @ p3" by (simp only: s3(2) tk concat_append append.assoc)
  finally have app: "p @ concat (d # ds) = concat (take (k + j) fs) @ p3" .
  have "drop (k + j) fs = drop j (drop k fs)" by (simp add: add.commute)
  moreover have "rx_feed env n s (d # ds) = rx_feed env n s2 ds"
    using s2(1) ne by (simp add: rx_Message_def)
  ultimately show ?case using s3 s2(4) app tk
    by (intro exI [of _ s3] exI [of _ "k + j"] exI [of _ p3]) simp
qed

lemma rx_drained_complete:
  assumes "rx_drained fs p s" "concat fs = p" "\<forall>f \<in> set fs. good_frame env f"
  shows "fs = []" and "p = []"
proof -
  show "fs = []"
  proof (rule ccontr)
    assume "fs \<noteq> []"
    then obtain f gs where "fs = f # gs" by (cases fs) auto
    with assms show False by (auto simp: rx_drained_def)
  qed
  with assms(2) show "p = []" by simp
qed

lemma rx_drained_initial:
  "0 < n \<Longrightarrow> \<forall>f \<in> set fs. good_frame env f \<Longrightarrow> rx_drained fs [] (RxMsgCollector n)"
  by (cases fs) (auto simp: rx_drained_def rx_ok_def RxMsgCollector_def good_frame_def)

subsection \<open>A header that claims length 0\<close>

definition rx_stuck :: "byte list \<Rightarrow> rxc \<Rightarrow> bool" where
  "rx_stuck d s \<longleftrightarrow> take (length d) (rx_buf s) = d \<and> length d \<le> length (rx_buf s) \<and>
     rx_off s = length d \<and> rx_msglen s = 0 \<and> \<not> rx_hdrerr s"

lemma rx_turn_stuck:
  assumes "rx_stuck d s" "20 < length d" "h_length (read_header d) = 0"
    and "check_command AAA_INVALID_BIT_IN_HEADER (e_cmds env) (read_header d) = Inr com"
    and "e_payload env (Some com) [] \<noteq> PayloadBug"
  shows "\<exists>s'. rx_turn env s = Continue s' \<and> rx_stuck d s'"
proof -
  have h: "read_header (rx_buf s) = read_header d"
  proof (rule read_header_prefix)
    have "take (length d) (rx_buf s) = d" using assms(1) by (simp add: rx_stuck_def)
    then show "take 20 (rx_buf s) = take 20 d"
      using assms(2) by (metis min.absorb2 min.commute less_imp_le take_take)
  qed (use assms(1,2) in \<open>auto simp: rx_stuck_def\<close>)
  show ?thesis
  proof (cases "e_payload env (Some com) []")
    case (PayloadOk a)
    then show ?thesis
      using assms(1,2,3,4) h
      by (auto simp: rx_stuck_def rx_turn_def await_message_def take_message_def Let_def drop_message_def
          deliver_msg_def up_def move_left_def zero_from_def)
  next
    case (PayloadError e)
    then show ?thesis
      using assms(1,2,3,4) h
      by (auto simp: rx_stuck_def rx_turn_def await_message_def take_message_def Let_def
          up_def move_left_def)
  next
    case PayloadBug
    with assms(5) show ?thesis by simp
  qed
qed

lemma rx_inner_stuck:
  assumes "rx_stuck d s" "20 < length d" "h_length (read_header d) = 0"
    and "check_command AAA_INVALID_BIT_IN_HEADER (e_cmds env) (read_header d) = Inr com"
    and "e_payload env (Some com) [] \<noteq> PayloadBug"
  shows "rx_inner env n s = None"
  using assms(1)
proof (induction n arbitrary: s)
  case 0
  then show ?case by simp
next
  case (Suc n)
  from rx_turn_stuck [OF Suc.prems assms(2-)] obtain s' where "rx_turn env s = Continue s'" "rx_stuck d s'"
    by blast
  moreover have "20 < rx_off s" using Suc.prems assms(2) by (simp add: rx_stuck_def)
  ultimately show ?case using Suc.IH by simp
qed

subsection \<open>Properties\<close>

text \<open>C6: a stream of well formed messages is cut into exactly these messages, in order and complete,
  whatever pieces the transport delivers the bytes in and however small the receive buffer was;
  every call of \<open>Message\<close> returns, and nothing stays in the buffer.\<close>

theorem rx_framing:
  assumes "\<forall>f \<in> set fs. good_frame env f" "\<And>n. e_realloc env n" "0 < size_rx"
    and "concat ds = concat fs" "2 * length (concat fs) + 3 \<le> fuel"
  shows "\<exists>s. rx_feed env fuel (RxMsgCollector size_rx) ds = Some s \<and>
             rx_up s = List.map (\<lambda>f. UpMessage (frame_msg env f)) fs \<and> rx_off s = 0"
proof -
  have "concat fs = [] @ concat ds @ []" "2 * length ([] @ concat ds) + 3 \<le> fuel" using assms by auto
  from rx_feed_good [OF rx_drained_initial [OF assms(3,1)] assms(1,2) this] obtain s k p where
    s: "rx_feed env fuel (RxMsgCollector size_rx) ds = Some s" "concat ds = concat (take k fs) @ p"
      "rx_drained (drop k fs) p s"
      "rx_up s = rx_up (RxMsgCollector size_rx) @ List.map (\<lambda>f. UpMessage (frame_msg env f)) (take k fs)"
    by auto
  have "concat (take k fs) @ concat (drop k fs) = concat (take k fs) @ p"
    using assms(4) s(2) by (metis append_take_drop_id concat_append)
  then have "concat (drop k fs) = p" by simp
  from rx_drained_complete [OF s(3) this] assms(1) have "drop k fs = []" "p = []"
    by (meson in_set_dropD)+
  then have "take k fs = fs" by (metis append_Nil2 append_take_drop_id)
  with s \<open>p = []\<close> show ?thesis
    by (auto simp: RxMsgCollector_def rx_drained_def rx_ok_def)
qed

text \<open>C34: a header of a known command that claims length 0 never lets \<open>Message\<close> return, unless the
  payload parser calls the empty payload a bug: no amount of fuel is enough.\<close>

theorem rx_length_zero_diverges:
  assumes "20 < length d" "length d \<le> 20 + size_rx" "h_length (read_header d) = 0"
    and "check_command AAA_INVALID_BIT_IN_HEADER (e_cmds env) (read_header d) = Inr com"
    and "e_payload env (Some com) [] \<noteq> PayloadBug"
  shows "rx_Message env fuel (RxMsgCollector size_rx) d = None"
proof (cases fuel)
  case 0
  then show ?thesis by (simp add: rx_Message_def RxMsgCollector_def)
next
  case (Suc n)
  let ?s = "RxMsgCollector size_rx"
  let ?s1 = "?s\<lparr>rx_buf := copy_in 0 d (rx_buf ?s), rx_off := length d\<rparr>"
  have "rx_stuck d ?s1"
    using assms(1,2) by (auto simp: rx_stuck_def RxMsgCollector_def copy_in_def)
  from rx_inner_stuck [OF this assms(1,3,4,5), of fuel] have "rx_inner env fuel ?s1 = None" .
  moreover have "d \<noteq> []" using assms(1) by auto
  ultimately show ?thesis
    using Suc assms(2) by (simp add: rx_Message_def RxMsgCollector_def Let_def del: rx_inner.simps)
qed

text \<open>When the payload of a message is rejected while a shorter, complete message is behind it in
  the buffer, that message is not delivered: the collector keeps the length of the rejected one and
  waits for more bytes.\<close>

theorem rx_payload_error_loses_next:
  assumes "rx_buf s = bad @ good @ junk" "rx_off s = length bad + length good" "rx_msglen s = 0"
    and "check_command AAA_INVALID_BIT_IN_HEADER (e_cmds env) (read_header bad) = Inr com"
    and "unat (h_length (read_header bad)) = length bad"
    and "e_payload env (Some com) (drop 20 bad) = PayloadError e"
    and "good_frame env good" "length good < length bad"
  shows "\<exists>s'. rx_inner env (Suc (Suc n)) s = Some (Inl s') \<and> rx_up s' = rx_up s @ [UpError PARSING_ERROR] \<and>
              rx_off s' = length good \<and> rx_msglen s' = length bad"
proof -
  have g: "20 < length good" using assms(7) by (simp add: good_frame_def)
  have h: "read_header (rx_buf s) = read_header bad"
    using assms(1,8) g by (intro read_header_prefix) auto
  let ?s1 = "up (UpError PARSING_ERROR) (s\<lparr>rx_hdrerr := False, rx_msglen := length bad,
      rx_off := length good, rx_buf := move_left (length good) (length bad) (rx_buf s)\<rparr>)"
  have "rx_turn env s = Continue ?s1"
    using assms h by (auto simp: rx_turn_def await_message_def take_message_def Let_def up_def)
  moreover have "rx_turn env ?s1 = Break ?s1"
    using assms g by (auto simp: rx_turn_def await_message_def up_def move_left_def)
  ultimately show ?thesis
    using assms(2) g by (auto simp: up_def)
qed

subsection \<open>Concrete streams\<close>

definition demo_frame :: "byte list \<Rightarrow> byte list" where
  "demo_frame v = write_header (demo_hdr\<lparr>h_length := of_nat (20 + length v)\<rparr>) @ v"

text \<open>A payload parser that rejects what starts with 255.\<close>

definition demo_env :: rx_env where
  "demo_env = \<lparr>e_cmds = demo_cmds,
     e_payload = (\<lambda>com bs. if bs \<noteq> [] \<and> hd bs = 255 then PayloadError 5004
                            else PayloadOk [(''Len'', [AvpU32 (of_nat (length bs))])]),
     e_realloc = (\<lambda>n. True), e_identity = ''local'', e_realm = ''realm''\<rparr>"

lemma demo_hdr_fits: "n < 2 ^ 24 \<Longrightarrow> hdr_fits (demo_hdr\<lparr>h_length := of_nat n\<rparr>)"
  by (simp add: hdr_fits_def demo_hdr_def zero_hdr_def word_less_nat_alt unat_of_nat take_bit_nat_eq_self_iff)

lemma demo_frame_header:
  "length v < 100 \<Longrightarrow> read_header (demo_frame v) = demo_hdr\<lparr>h_length := of_nat (20 + length v)\<rparr>"
  unfolding demo_frame_def by (rule read_write_header, rule demo_hdr_fits) simp

lemma demo_command:
  "check_command b demo_cmds (demo_hdr\<lparr>h_length := l\<rparr>) = Inr (hd demo_cmds)"
  by (simp add: check_command_def demo_cmds_def demo_hdr_def zero_hdr_def)

lemma unat_frame_len: "length v < 100 \<Longrightarrow> unat (of_nat (20 + length v) :: u32) = 20 + length v"
  by (simp add: unat_of_nat take_bit_nat_eq_self_iff del: of_nat_add)

lemma demo_frame_good: "0 < length v \<Longrightarrow> length v < 100 \<Longrightarrow> hd v \<noteq> 255 \<Longrightarrow> good_frame demo_env (demo_frame v)"
  by (simp add: good_frame_def demo_frame_header demo_env_def demo_command unat_frame_len del: of_nat_add)
    (simp add: demo_frame_def)

theorem rx_framing_witness:
  "\<exists>s. rx_feed demo_env 1000 (RxMsgCollector 1)
          [take 7 (demo_frame [1, 2]), drop 7 (demo_frame [1, 2]) @ demo_frame [3]] = Some s \<and>
       rx_up s = List.map (\<lambda>f. UpMessage (frame_msg demo_env f)) [demo_frame [1, 2], demo_frame [3]] \<and>
       rx_off s = 0"
proof (rule rx_framing)
  show "\<forall>f \<in> set [demo_frame [1, 2], demo_frame [3]]. good_frame demo_env f"
    using demo_frame_good [of "[1, 2]"] demo_frame_good [of "[3]"] by simp
  show "2 * length (concat [demo_frame [1, 2], demo_frame [3]]) + 3 \<le> 1000"
    by (simp add: demo_frame_def)
qed (simp_all add: demo_env_def)

theorem rx_length_zero_diverges_witness:
  "\<forall>fuel. rx_Message demo_env fuel (RxMsgCollector 100) (write_header (demo_hdr\<lparr>h_length := 0\<rparr>) @ [0]) = None"
  by (intro allI, rule rx_length_zero_diverges [where com = "hd demo_cmds"])
    (use read_write_header [OF demo_hdr_fits [of 0]] demo_command in
      \<open>simp_all add: demo_env_def\<close>)

theorem rx_payload_error_loses_next_witness:
  "\<exists>s'. rx_inner demo_env (Suc (Suc 0))
           ((RxMsgCollector 100)\<lparr>rx_buf := demo_frame [255, 0, 0] @ demo_frame [1, 2] @ [0, 0, 0],
              rx_off := length (demo_frame [255, 0, 0]) + length (demo_frame [1, 2])\<rparr>) = Some (Inl s') \<and>
        rx_up s' = rx_up ((RxMsgCollector 100)\<lparr>rx_buf := demo_frame [255, 0, 0] @ demo_frame [1, 2] @ [0, 0, 0],
              rx_off := length (demo_frame [255, 0, 0]) + length (demo_frame [1, 2])\<rparr>) @ [UpError PARSING_ERROR] \<and>
        rx_off s' = length (demo_frame [1, 2]) \<and> rx_msglen s' = length (demo_frame [255, 0, 0])"
proof (rule rx_payload_error_loses_next)
  show "e_payload demo_env (Some (hd demo_cmds)) (drop 20 (demo_frame [255, 0, 0])) = PayloadError 5004"
    by (simp add: demo_env_def demo_frame_def)
  show "good_frame demo_env (demo_frame [1, 2])" by (rule demo_frame_good) simp_all
  show "check_command AAA_INVALID_BIT_IN_HEADER (e_cmds demo_env) (read_header (demo_frame [255, 0, 0]))
    = Inr (hd demo_cmds)"
    by (simp add: demo_frame_header demo_env_def demo_command)
  show "unat (h_length (read_header (demo_frame [255, 0, 0]))) = length (demo_frame [255, 0, 0])"
    by (simp add: demo_frame_header) (simp add: demo_frame_def)
qed (simp_all add: RxMsgCollector_def demo_frame_def)

end
