(* ===== verification/Peer_Caps.thy ===== *)
theory Peer_Caps
  imports Diameter_Msg
begin

text \<open>
  What two peers exchange before they talk: the configuration the code reads, the capabilities it
  keeps of the peer, the CER and CEA it writes and reads (\<open>AssembleCE\<close>, \<open>DisassembleCE\<close>), the check that
  the two have an application and a security mechanism in common (\<open>ValidatePeer\<close>), and the election
  (\<open>Elect\<close>), all of \<open>libdiameter/src/aaa_peer_fsm.cxx\<close>. Name resolution is ACE's: the address of the
  own identity and the resolver are fields of the configuration, and so are the seed, the time and
  the random numbers the identifier generators draw.
\<close>

subsection \<open>Configuration and capabilities\<close>

record vsid =
  v_vendorId :: u32
  v_authAppId :: u32
  v_acctAppId :: u32

record cfg =
  cf_identity :: string
  cf_realm :: string
  cf_product :: string
  cf_version :: u32
  cf_vendor :: u32
  cf_originStateId :: u32
  cf_supportedVendorIdLst :: "u32 list"
  cf_authAppIdLst :: "u32 list"
  cf_acctAppIdLst :: "u32 list"
  cf_vendorSpecificId :: "vsid list"
  cf_advertised_hostname :: "string list"
  cf_watchdog_timeout :: nat
  cf_reconnect_interval :: nat
  cf_reconnect_max :: nat
  cf_own_addr :: string
  cf_resolve :: "string \<Rightarrow> string option"
  cf_hop_seed :: u32
  cf_time :: u32
  cf_rand :: "nat \<Rightarrow> u32"

record caps =
  cap_Host :: string
  cap_Realm :: string
  cap_ProductName :: string
  cap_VendorId :: u32
  cap_InbandSecurityId :: u32
  cap_OriginStateId :: u32
  cap_FirmwareRevision :: u32
  cap_SupportedVendorIdLst :: "u32 list"
  cap_AuthAppIdLst :: "u32 list"
  cap_AcctAppIdLst :: "u32 list"
  cap_HostIpLst :: "(int \<times> string) list"
  cap_VendorSpecificId :: "vsid list"

definition empty_caps :: caps where
  "empty_caps = \<lparr>cap_Host = [], cap_Realm = [], cap_ProductName = [], cap_VendorId = 0,
     cap_InbandSecurityId = 0, cap_OriginStateId = 0, cap_FirmwareRevision = 0,
     cap_SupportedVendorIdLst = [], cap_AuthAppIdLst = [], cap_AcctAppIdLst = [],
     cap_HostIpLst = [], cap_VendorSpecificId = []\<rparr>"

abbreviation ADDRESS_IP :: int where "ADDRESS_IP \<equiv> 1"

subsection \<open>Writing a CER or CEA\<close>

text \<open>A widget with no entry is not added to the message.\<close>

definition add_list :: "string \<Rightarrow> avp_value list \<Rightarrow> acl \<Rightarrow> acl" where
  "add_list name es a = (if es = [] then a else add_avp name es a)"

definition vsid_group :: "vsid \<Rightarrow> acl" where
  "vsid_group v =
     (if 0 < v_authAppId v then [(AVPNAME_AUTHAPPID, [AvpU32 (v_authAppId v)])] else []) @
     (if 0 < v_acctAppId v then [(AVPNAME_ACCTAPPID, [AvpU32 (v_acctAppId v)])] else []) @
     (if 0 < v_vendorId v then [(AVPNAME_VENDORID, [AvpU32 (v_vendorId v)])] else [])"

definition host_ips :: "cfg \<Rightarrow> bool \<Rightarrow> avp_value list" where
  "host_ips c sctp =
     AvpAddr ADDRESS_IP (cf_own_addr c) #
     (if sctp then List.map (AvpAddr ADDRESS_IP) (List.map_filter (cf_resolve c) (cf_advertised_hostname c))
      else [])"

text \<open>\<open>AssembleCE\<close>, the AVPs: \<open>tls\<close> is \<open>m_TLS\<close>, \<open>sctp\<close> whether SCTP is in use.\<close>

definition AssembleCE_acl :: "cfg \<Rightarrow> bool \<Rightarrow> bool \<Rightarrow> acl" where
  "AssembleCE_acl c tls sctp =
     (let a1 = add_list AVPNAME_SUPPORTEDVENDORID (List.map AvpU32 (cf_supportedVendorIdLst c)) [];
          a2 = add_list AVPNAME_AUTHAPPID (List.map AvpU32 (cf_authAppIdLst c)) a1;
          a3 = add_list AVPNAME_ACCTAPPID (List.map AvpU32 (cf_acctAppIdLst c)) a2;
          a4 = add_list AVPNAME_VENDORAPPID
                 (List.map (\<lambda>v. AvpGroup (vsid_group v)) (cf_vendorSpecificId c)) a3
      in a4 @ [(AVPNAME_ORIGINHOST, [AvpStr (cf_identity c)]),
               (AVPNAME_ORIGINREALM, [AvpStr (cf_realm c)]),
               (AVPNAME_HOSTIP, host_ips c sctp),
               (AVPNAME_VENDORID, [AvpU32 (cf_vendor c)]),
               (AVPNAME_PRODUCTNAME, [AvpStr (cf_product c)]),
               (AVPNAME_ORIGINSTATEID, [AvpU32 (cf_originStateId c)]),
               (AVPNAME_FIRMWAREREV, [AvpU32 (cf_version c)]),
               (AVPNAME_INBANDSECID, [AvpU32 (if tls then 1 else 0)])])"

subsection \<open>Reading it\<close>

definition get_vsid :: "acl \<Rightarrow> vsid" where
  "get_vsid g =
     (let v = \<lparr>v_vendorId = (case GetU32 g AVPNAME_VENDORID of None \<Rightarrow> 0 | Some x \<Rightarrow> x),
               v_authAppId = 0, v_acctAppId = 0\<rparr>
      in case GetU32 g AVPNAME_AUTHAPPID of
           Some x \<Rightarrow> v\<lparr>v_authAppId := x\<rparr>
         | None \<Rightarrow> v\<lparr>v_acctAppId := (case GetU32 g AVPNAME_ACCTAPPID of None \<Rightarrow> 0 | Some x \<Rightarrow> x)\<rparr>)"

definition str_or_empty :: "acl \<Rightarrow> string \<Rightarrow> string" where
  "str_or_empty a n = (case GetStr a n of None \<Rightarrow> [] | Some s \<Rightarrow> s)"

definition u32_or_zero :: "acl \<Rightarrow> string \<Rightarrow> u32" where
  "u32_or_zero a n = (case GetU32 a n of None \<Rightarrow> 0 | Some x \<Rightarrow> x)"

definition DisassembleCE :: "acl \<Rightarrow> caps" where
  "DisassembleCE a =
     \<lparr>cap_Host = str_or_empty a AVPNAME_ORIGINHOST,
      cap_Realm = str_or_empty a AVPNAME_ORIGINREALM,
      cap_ProductName = str_or_empty a AVPNAME_PRODUCTNAME,
      cap_VendorId = u32_or_zero a AVPNAME_VENDORID,
      cap_InbandSecurityId = u32_or_zero a AVPNAME_INBANDSECID,
      cap_OriginStateId = u32_or_zero a AVPNAME_ORIGINSTATEID,
      cap_FirmwareRevision = u32_or_zero a AVPNAME_FIRMWAREREV,
      cap_SupportedVendorIdLst = GetAll as_u32 a AVPNAME_SUPPORTEDVENDORID,
      cap_AuthAppIdLst = GetAll as_u32 a AVPNAME_AUTHAPPID,
      cap_AcctAppIdLst = GetAll as_u32 a AVPNAME_ACCTAPPID,
      cap_HostIpLst = GetAll as_addr a AVPNAME_HOSTIP,
      cap_VendorSpecificId =
        filter (\<lambda>v. v_acctAppId v \<noteq> 0 \<or> v_authAppId v \<noteq> 0)
          (List.map get_vsid (GetAll as_group a AVPNAME_VENDORAPPID))\<rparr>"

subsection \<open>Common applications\<close>

text \<open>\<open>AAA_ApplicationIdLookup\<close>: the three overloads of \<open>Find\<close>.\<close>

fun FindAppId :: "u32 \<Rightarrow> u32 list \<Rightarrow> bool" where
  "FindAppId app [] = False"
| "FindAppId app (i # is) =
     (if app = RELAY_APPLICATION_ID \<or> i = RELAY_APPLICATION_ID \<or> i = app then True
      else FindAppId app is)"

fun FindAppIdLists :: "u32 \<Rightarrow> u32 list list \<Rightarrow> bool" where
  "FindAppIdLists app [] = False"
| "FindAppIdLists app (l # ls) = (if FindAppId app l then True else FindAppIdLists app ls)"

fun FindVendorAppId :: "u32 \<Rightarrow> vsid list \<Rightarrow> bool" where
  "FindVendorAppId app [] = False"
| "FindVendorAppId app (v # vs) =
     (if v_authAppId v = app \<or> v_acctAppId v = app \<or> v_authAppId v = RELAY_APPLICATION_ID \<or>
         v_acctAppId v = RELAY_APPLICATION_ID \<or> app = RELAY_APPLICATION_ID
      then True else FindVendorAppId app vs)"

fun any_common :: "cfg \<Rightarrow> u32 list \<Rightarrow> bool" where
  "any_common c [] = False"
| "any_common c (x # xs) =
     (if FindAppIdLists x [cf_authAppIdLst c, cf_acctAppIdLst c] then True
      else if FindVendorAppId x (cf_vendorSpecificId c) then True
      else any_common c xs)"

fun any_common_lists :: "cfg \<Rightarrow> u32 list list \<Rightarrow> bool" where
  "any_common_lists c [] = False"
| "any_common_lists c (l # ls) = (if any_common c l then True else any_common_lists c ls)"

fun any_common_vendor :: "cfg \<Rightarrow> vsid list \<Rightarrow> bool" where
  "any_common_vendor c [] = False"
| "any_common_vendor c (v # vs) =
     (if FindAppIdLists (v_authAppId v) [cf_authAppIdLst c, cf_acctAppIdLst c] then True
      else if FindAppIdLists (v_acctAppId v) [cf_authAppIdLst c, cf_acctAppIdLst c] then True
      else if FindVendorAppId (v_authAppId v) (cf_vendorSpecificId c) then True
      else if FindVendorAppId (v_acctAppId v) (cf_vendorSpecificId c) then True
      else any_common_vendor c vs)"

text \<open>\<open>ValidatePeer\<close>: the result, the result code and the message.\<close>

definition ValidatePeer :: "cfg \<Rightarrow> bool \<Rightarrow> caps \<Rightarrow> bool \<times> u32 \<times> string" where
  "ValidatePeer c tls cap =
     (let found = any_common_lists c [cap_AuthAppIdLst cap, cap_AcctAppIdLst cap];
          found' = (if \<not> found then any_common_vendor c (cap_VendorSpecificId cap) else found)
      in if \<not> found' then (False, AAA_NO_COMMON_APPLICATION, ''No common application id'')
         else if (if tls then 1 else 0) \<noteq> cap_InbandSecurityId cap
         then (False, AAA_NO_COMMON_SECURITY, ''No matching in-band security id'')
         else (True, AAA_SUCCESS, ''Capabilities negotiation completed successfully''))"

subsection \<open>Election\<close>

text \<open>The comparison is on \<open>char\<close>, which is signed.\<close>

definition schar :: "char \<Rightarrow> int" where
  "schar ch = (let n = of_char ch in if n < 128 then n else n - 256)"

definition pad_char :: char where "pad_char = char_of (8 :: nat)"

datatype elect_result = ElectSameHost | ElectWin | ElectLose

fun elect_loop :: "string \<Rightarrow> string \<Rightarrow> elect_result" where
  "elect_loop (l # ls) (p # ps) =
     (if l = p then elect_loop ls ps
      else if schar l > schar p then ElectWin else ElectLose)"
| "elect_loop _ _ = ElectLose"

definition Elect :: "string \<Rightarrow> string \<Rightarrow> elect_result" where
  "Elect localHost peerHost =
     (if length localHost < length peerHost
      then elect_loop (localHost @ replicate (length peerHost - length localHost) pad_char) peerHost
      else if length localHost > length peerHost
      then elect_loop localHost (peerHost @ replicate (length localHost - length peerHost) pad_char)
      else if localHost = peerHost then ElectSameHost
      else elect_loop localHost peerHost)"

subsection \<open>What the lookups find\<close>

definition compatible :: "u32 \<Rightarrow> u32 \<Rightarrow> bool" where
  "compatible x y \<longleftrightarrow> x = y \<or> x = RELAY_APPLICATION_ID \<or> y = RELAY_APPLICATION_ID"

definition vs_ids :: "vsid list \<Rightarrow> u32 set" where
  "vs_ids vs = v_authAppId ` set vs \<union> v_acctAppId ` set vs"

definition local_ids :: "cfg \<Rightarrow> u32 set" where
  "local_ids c = set (cf_authAppIdLst c) \<union> set (cf_acctAppIdLst c) \<union> vs_ids (cf_vendorSpecificId c)"

definition peer_ids :: "caps \<Rightarrow> u32 set" where
  "peer_ids cap = set (cap_AuthAppIdLst cap) \<union> set (cap_AcctAppIdLst cap) \<union> vs_ids (cap_VendorSpecificId cap)"

text \<open>
  The applications of a node, and the 0 that stands for the application a vendor specific entry does not have: the code
  compares it like an identifier.
\<close>

definition vs_apps :: "vsid list \<Rightarrow> u32 set" where
  "vs_apps vs = vs_ids vs - {0}"

definition local_apps :: "cfg \<Rightarrow> u32 set" where
  "local_apps c = set (cf_authAppIdLst c) \<union> set (cf_acctAppIdLst c) \<union> vs_apps (cf_vendorSpecificId c)"

definition peer_apps :: "caps \<Rightarrow> u32 set" where
  "peer_apps cap = set (cap_AuthAppIdLst cap) \<union> set (cap_AcctAppIdLst cap) \<union> vs_apps (cap_VendorSpecificId cap)"

definition absent_matches :: "cfg \<Rightarrow> caps \<Rightarrow> bool" where
  "absent_matches c cap \<longleftrightarrow>
     (0 \<in> vs_ids (cap_VendorSpecificId cap) \<and> (\<exists>y \<in> local_ids c. y = 0 \<or> y = RELAY_APPLICATION_ID)) \<or>
     (0 \<in> vs_ids (cf_vendorSpecificId c) \<and> (\<exists>x \<in> peer_ids cap. x = 0 \<or> x = RELAY_APPLICATION_ID))"

lemma common_ids_iff:
  "(\<exists>x \<in> peer_ids cap. \<exists>y \<in> local_ids c. compatible x y) \<longleftrightarrow>
     (\<exists>x \<in> peer_apps cap. \<exists>y \<in> local_apps c. compatible x y) \<or> absent_matches c cap"
proof -
  have v: "(\<exists>x \<in> vs_ids vs. P x) \<longleftrightarrow> (\<exists>x \<in> vs_apps vs. P x) \<or> 0 \<in> vs_ids vs \<and> P 0" for vs P
    unfolding vs_apps_def by (metis Diff_iff singletonD)
  have p: "(\<exists>x \<in> peer_ids cap. P x) \<longleftrightarrow> (\<exists>x \<in> peer_apps cap. P x) \<or> 0 \<in> vs_ids (cap_VendorSpecificId cap) \<and> P 0"
    and l: "(\<exists>x \<in> local_ids c. P x) \<longleftrightarrow> (\<exists>x \<in> local_apps c. P x) \<or> 0 \<in> vs_ids (cf_vendorSpecificId c) \<and> P 0" for P
    unfolding peer_ids_def peer_apps_def local_ids_def local_apps_def bex_Un v by blast+
  define a where "a \<longleftrightarrow> 0 \<in> vs_ids (cap_VendorSpecificId cap)"
  define b where "b \<longleftrightarrow> 0 \<in> vs_ids (cf_vendorSpecificId c)"
  have r: "compatible 0 y \<longleftrightarrow> y = 0 \<or> y = RELAY_APPLICATION_ID" "compatible y 0 \<longleftrightarrow> y = 0 \<or> y = RELAY_APPLICATION_ID" for y
    by (auto simp: compatible_def)
  show ?thesis
    unfolding absent_matches_def p l a_def [symmetric] b_def [symmetric] r by blast
qed

lemma FindAppId_iff: "FindAppId x l \<longleftrightarrow> (\<exists>y \<in> set l. compatible x y)"
  by (induction x l rule: FindAppId.induct) (auto simp: compatible_def)

lemma FindAppIdLists_iff: "FindAppIdLists x ls \<longleftrightarrow> (\<exists>l \<in> set ls. \<exists>y \<in> set l. compatible x y)"
  by (induction x ls rule: FindAppIdLists.induct) (auto simp: FindAppId_iff)

lemma FindVendorAppId_iff: "FindVendorAppId x vs \<longleftrightarrow> (\<exists>y \<in> vs_ids vs. compatible x y)"
  by (induction x vs rule: FindVendorAppId.induct) (auto simp: compatible_def vs_ids_def)

lemma any_common_iff: "any_common c xs \<longleftrightarrow> (\<exists>x \<in> set xs. \<exists>y \<in> local_ids c. compatible x y)"
  by (induction c xs rule: any_common.induct)
    (auto simp: FindAppIdLists_iff FindVendorAppId_iff local_ids_def)

lemma any_common_lists_iff:
  "any_common_lists c ls \<longleftrightarrow> (\<exists>l \<in> set ls. \<exists>x \<in> set l. \<exists>y \<in> local_ids c. compatible x y)"
  by (induction c ls rule: any_common_lists.induct) (auto simp: any_common_iff)

lemma any_common_vendor_iff:
  "any_common_vendor c vs \<longleftrightarrow> (\<exists>x \<in> vs_ids vs. \<exists>y \<in> local_ids c. compatible x y)"
  by (induction c vs rule: any_common_vendor.induct)
    (auto simp: FindAppIdLists_iff FindVendorAppId_iff local_ids_def vs_ids_def)


lemma schar_inj: "schar a = schar b \<Longrightarrow> a = b"
proof -
  assume eq: "schar a = schar b"
  have r: "0 \<le> (of_char x :: int)" "(of_char x :: int) < 256" for x :: char
    by (simp_all add: of_char_def flip: of_nat_of_char)
  show "a = b"
    using eq r [of a] r [of b] by (auto simp: schar_def Let_def split: if_splits)
qed

lemma elect_loop_swap:
  "length ls = length ps \<Longrightarrow> ls \<noteq> ps \<Longrightarrow> (elect_loop ls ps = ElectWin) \<noteq> (elect_loop ps ls = ElectWin)"
proof (induction ls ps rule: elect_loop.induct)
  case (1 l ls p ps)
  then show ?case using schar_inj [of l p] by auto
qed auto

lemma elect_loop_range: "elect_loop ls ps \<noteq> ElectSameHost"
  by (induction ls ps rule: elect_loop.induct) auto

subsection \<open>Round trip of the capabilities\<close>

lemma take_some_map: "(\<And>x. f (g x) = Some (h x)) \<Longrightarrow> take_some f (List.map g xs) = List.map h xs"
  by (induction xs) auto

lemma search_append: "search (a @ b) n = (case search a n of None \<Rightarrow> search b n | Some es \<Rightarrow> Some es)"
  by (induction a n rule: search.induct) auto

lemma search_add_list:
  "search (add_list name es a) n =
     (case search a n of None \<Rightarrow> if n = name \<and> es \<noteq> [] then Some es else None | Some es' \<Rightarrow> Some es')"
  by (auto simp: add_list_def search_add_avp split: option.splits)

definition norm_vsid :: "vsid \<Rightarrow> vsid" where
  "norm_vsid v = (if 0 < v_authAppId v then v\<lparr>v_acctAppId := 0\<rparr> else v)"

lemma get_vsid_group: "get_vsid (vsid_group v) = norm_vsid v"
  by (cases v) (auto simp: get_vsid_def vsid_group_def norm_vsid_def GetU32_def GetAvp_def word_gt_0)

definition cfg_caps :: "cfg \<Rightarrow> bool \<Rightarrow> bool \<Rightarrow> caps" where
  "cfg_caps c tls sctp =
     \<lparr>cap_Host = cf_identity c, cap_Realm = cf_realm c, cap_ProductName = cf_product c,
      cap_VendorId = cf_vendor c, cap_InbandSecurityId = (if tls then 1 else 0),
      cap_OriginStateId = cf_originStateId c, cap_FirmwareRevision = cf_version c,
      cap_SupportedVendorIdLst = cf_supportedVendorIdLst c,
      cap_AuthAppIdLst = cf_authAppIdLst c, cap_AcctAppIdLst = cf_acctAppIdLst c,
      cap_HostIpLst = (ADDRESS_IP, cf_own_addr c) #
        (if sctp then List.map (Pair ADDRESS_IP) (List.map_filter (cf_resolve c) (cf_advertised_hostname c)) else []),
      cap_VendorSpecificId =
        filter (\<lambda>v. v_acctAppId v \<noteq> 0 \<or> v_authAppId v \<noteq> 0) (List.map norm_vsid (cf_vendorSpecificId c))\<rparr>"

lemma search_AssembleCE:
  "search (AssembleCE_acl c tls sctp) AVPNAME_SUPPORTEDVENDORID =
     (if cf_supportedVendorIdLst c = [] then None else Some (List.map AvpU32 (cf_supportedVendorIdLst c)))"
  "search (AssembleCE_acl c tls sctp) AVPNAME_AUTHAPPID =
     (if cf_authAppIdLst c = [] then None else Some (List.map AvpU32 (cf_authAppIdLst c)))"
  "search (AssembleCE_acl c tls sctp) AVPNAME_ACCTAPPID =
     (if cf_acctAppIdLst c = [] then None else Some (List.map AvpU32 (cf_acctAppIdLst c)))"
  "search (AssembleCE_acl c tls sctp) AVPNAME_VENDORAPPID =
     (if cf_vendorSpecificId c = [] then None
      else Some (List.map (\<lambda>v. AvpGroup (vsid_group v)) (cf_vendorSpecificId c)))"
  "search (AssembleCE_acl c tls sctp) AVPNAME_ORIGINHOST = Some [AvpStr (cf_identity c)]"
  "search (AssembleCE_acl c tls sctp) AVPNAME_ORIGINREALM = Some [AvpStr (cf_realm c)]"
  "search (AssembleCE_acl c tls sctp) AVPNAME_HOSTIP = Some (host_ips c sctp)"
  "search (AssembleCE_acl c tls sctp) AVPNAME_VENDORID = Some [AvpU32 (cf_vendor c)]"
  "search (AssembleCE_acl c tls sctp) AVPNAME_PRODUCTNAME = Some [AvpStr (cf_product c)]"
  "search (AssembleCE_acl c tls sctp) AVPNAME_ORIGINSTATEID = Some [AvpU32 (cf_originStateId c)]"
  "search (AssembleCE_acl c tls sctp) AVPNAME_FIRMWAREREV = Some [AvpU32 (cf_version c)]"
  "search (AssembleCE_acl c tls sctp) AVPNAME_INBANDSECID = Some [AvpU32 (if tls then 1 else 0)]"
  by (simp_all add: AssembleCE_acl_def Let_def search_append search_add_list)

subsection \<open>Properties\<close>

text \<open>C29: a CER or CEA that is written and read back gives the capabilities of the configuration it was
  written from, except that an accounting application next to an authentication application in the
  same vendor specific entry is not read, and an entry without applications is dropped.\<close>

theorem CE_roundtrip: "DisassembleCE (AssembleCE_acl c tls sctp) = cfg_caps c tls sctp"
  by (simp add: DisassembleCE_def cfg_caps_def str_or_empty_def u32_or_zero_def GetStr_def GetU32_def
      GetAvp_def GetAll_def search_AssembleCE take_some_map host_ips_def get_vsid_group comp_def)

text \<open>C28: \<open>ValidatePeer\<close> accepts exactly the peers that announce the security the peer entry is configured for and with
  which the node shares an application, counting vendor specific ones and the relay on either side, or, a fault of the
  code, with which it shares the lack of one: the 0 in the place of an application that a vendor specific entry of one
  side does not have meets a 0 or the relay on the other side. It names the first of the two that is missing.\<close>

theorem ValidatePeer_spec:
  "ValidatePeer c tls cap =
     (if \<not> ((\<exists>x \<in> peer_apps cap. \<exists>y \<in> local_apps c. compatible x y) \<or> absent_matches c cap)
      then (False, AAA_NO_COMMON_APPLICATION, ''No common application id'')
      else if cap_InbandSecurityId cap = (if tls then 1 else 0)
      then (True, AAA_SUCCESS, ''Capabilities negotiation completed successfully'')
      else (False, AAA_NO_COMMON_SECURITY, ''No matching in-band security id''))"
proof -
  define lists where "lists = any_common_lists c [cap_AuthAppIdLst cap, cap_AcctAppIdLst cap]"
  define vendor where "vendor = any_common_vendor c (cap_VendorSpecificId cap)"
  have "lists \<or> vendor \<longleftrightarrow> (\<exists>x \<in> peer_ids cap. \<exists>y \<in> local_ids c. compatible x y)"
    unfolding lists_def vendor_def any_common_lists_iff any_common_vendor_iff peer_ids_def by auto
  then show ?thesis
    unfolding ValidatePeer_def Let_def lists_def [symmetric] vendor_def [symmetric] common_ids_iff [symmetric] by auto
qed

text \<open>Two nodes that advertise nothing but a vendor specific accounting application pass the check
  for a common application whatever the two applications are: the absent authentication
  application, kept as 0, is compared like an application.\<close>

theorem ValidatePeer_absent_application_matches:
  assumes "cf_vendorSpecificId c = [\<lparr>v_vendorId = vndA, v_authAppId = 0, v_acctAppId = appA\<rparr>]"
    and "cf_vendorSpecificId c' = [\<lparr>v_vendorId = vndB, v_authAppId = 0, v_acctAppId = appB\<rparr>]" "appB \<noteq> 0"
  shows "fst (ValidatePeer c tls (DisassembleCE (AssembleCE_acl c' tls sctp)))"
proof -
  have "DisassembleCE (AssembleCE_acl c' tls sctp) = cfg_caps c' tls sctp"
    by (simp add: DisassembleCE_def cfg_caps_def str_or_empty_def u32_or_zero_def GetStr_def GetU32_def
      GetAvp_def GetAll_def search_AssembleCE take_some_map host_ips_def get_vsid_group comp_def)
  moreover have "any_common_vendor c (cap_VendorSpecificId (cfg_caps c' tls sctp))"
    using assms by (auto simp: any_common_vendor_iff cfg_caps_def norm_vsid_def vs_ids_def local_ids_def compatible_def)
  ultimately show ?thesis by (simp add: ValidatePeer_def Let_def cfg_caps_def)
qed

text \<open>C30: between two nodes with different names, unless the padding makes the shorter equal to the
  longer, exactly one of the two ends decides that it wins the election.\<close>

theorem Elect_one_winner:
  assumes "a \<noteq> b" "a \<noteq> b @ replicate (length a - length b) pad_char"
    and "b \<noteq> a @ replicate (length b - length a) pad_char"
  shows "(Elect a b = ElectWin) \<noteq> (Elect b a = ElectWin)"
  using assms elect_loop_swap [of "a @ replicate (length b - length a) pad_char" b]
    elect_loop_swap [of a "b @ replicate (length a - length b) pad_char"] elect_loop_swap [of a b]
  by (auto simp: Elect_def)

text \<open>A name that is the other one with backspace characters after it loses the election, and so
  does the other one: neither end sends \<open>WIN_ELECTION\<close>.\<close>

theorem Elect_no_winner_on_padding:
  assumes "0 < n"
  shows "Elect a (a @ replicate n pad_char) = ElectLose \<and> Elect (a @ replicate n pad_char) a = ElectLose"
proof -
  have "elect_loop x x = ElectLose" for x by (induction x) auto
  with assms show ?thesis by (simp add: Elect_def)
qed

subsection \<open>Witnesses\<close>

definition demo_cfg :: cfg where
  "demo_cfg = \<lparr>cf_identity = ''b.net'', cf_realm = ''net'', cf_product = ''od'', cf_version = 1, cf_vendor = 0,
     cf_originStateId = 1, cf_supportedVendorIdLst = [], cf_authAppIdLst = [1], cf_acctAppIdLst = [],
     cf_vendorSpecificId = [], cf_advertised_hostname = [], cf_watchdog_timeout = 30,
     cf_reconnect_interval = 10, cf_reconnect_max = 3, cf_own_addr = [], cf_resolve = (\<lambda>h. None),
     cf_hop_seed = 100, cf_time = 5, cf_rand = of_nat\<rparr>"

definition vs_cfg :: "u32 \<Rightarrow> cfg" where
  "vs_cfg app = demo_cfg\<lparr>cf_authAppIdLst := [],
     cf_vendorSpecificId := [\<lparr>v_vendorId = 9, v_authAppId = 0, v_acctAppId = app\<rparr>]\<rparr>"

theorem ValidatePeer_absent_application_matches_witness:
  "fst (ValidatePeer (vs_cfg 5) False (DisassembleCE (AssembleCE_acl (vs_cfg 7) False False)))"
  by (rule ValidatePeer_absent_application_matches [where vndA = 9 and vndB = 9 and appA = 5 and appB = 7])
    (auto simp: vs_cfg_def word_unat_eq_iff)

theorem Elect_one_winner_witness:
  "(Elect ''b.net'' ''a.example'' = ElectWin) \<noteq> (Elect ''a.example'' ''b.net'' = ElectWin)"
  by (rule Elect_one_winner) (simp_all add: pad_char_def)

theorem Elect_no_winner_on_padding_witness:
  "Elect ''a'' (''a'' @ replicate 2 pad_char) = ElectLose \<and> Elect (''a'' @ replicate 2 pad_char) ''a'' = ElectLose"
  by (rule Elect_no_winner_on_padding) simp

end
