(* ===== verification/Peer_Fsm.thy ===== *)
theory Peer_Fsm
  imports Framework_Fsm Framework_Queue Peer_Caps
begin

text \<open>
  The peer state machine of \<open>libdiameter/include/aaa_peer_fsm.h\<close> and \<open>src/aaa_peer_fsm.cxx\<close>: its state
  table, its actions, the base protocol messages it builds, the identifiers it matches answers with,
  its event queue and the loop that serves it. Connections (\<open>Diameter_IO_Base\<close>) are handles owned by one
  place at a time, as the \<open>auto_ptr\<close> members own them. What leaves the machine (messages queued for
  transmission, connections handed to the garbage collector or dropped, notifications of the
  derived class, calls of the message router) is appended to a trace. Reading through a null
  pointer sets \<open>pm_fault\<close>: from there on the C++ program has no defined behaviour.
\<close>

subsection \<open>States, events, connections\<close>

datatype peer_st =
    PST_CLOSED
  | PST_WAIT_CONN_ACK
  | PST_WAIT_I_CEA
  | PST_WAIT_CONN_ACK_ELECT
  | PST_WAIT_RETURNS
  | PST_I_OPEN
  | PST_R_OPEN
  | PST_CLOSING

datatype peer_ev =
    PEV_START
  | PEV_STOP
  | PEV_TIMEOUT
  | PEV_CONN_RETRY
  | PEV_R_CONN_CER
  | PEV_I_RCV_CONN_ACK
  | PEV_I_RCV_CONN_NACK
  | PEV_R_RCV_CEA
  | PEV_I_RCV_CEA
  | PEV_I_PEER_DISC
  | PEV_R_PEER_DISC
  | PEV_I_RCV_NON_CEA
  | PEV_WIN_ELECTION
  | PEV_SEND_MESSAGE
  | PEV_R_RCV_MESSAGE
  | PEV_I_RCV_MESSAGE
  | PEV_R_RCV_DWR
  | PEV_I_RCV_DWR
  | PEV_R_RCV_DWA
  | PEV_I_RCV_DWA
  | PEV_R_RCV_DPR
  | PEV_I_RCV_DPR
  | PEV_R_RCV_CER
  | PEV_I_RCV_CER
  | PEV_R_RCV_DPA
  | PEV_I_RCV_DPA
  | PEV_WATCHDOG

text \<open>Timer types are the numbers of the events they raise.\<close>

abbreviation TM_TIMEOUT :: int where "TM_TIMEOUT \<equiv> 2"
abbreviation TM_CONN_RETRY :: int where "TM_CONN_RETRY \<equiv> 3"
abbreviation TM_WATCHDOG :: int where "TM_WATCHDOG \<equiv> 26"

abbreviation CONNECT_ATTEMPT_TOUT :: nat where "CONNECT_ATTEMPT_TOUT \<equiv> 30"

abbreviation DISCONNECT_REBOOTING :: u32 where "DISCONNECT_REBOOTING \<equiv> 0"
abbreviation DISCONNECT_DONTWANTTOTALK :: u32 where "DISCONNECT_DONTWANTTOTALK \<equiv> 2"
abbreviation DISCONNECT_UNKNOWN :: u32 where "DISCONNECT_UNKNOWN \<equiv> 1000"
abbreviation DISCONNECT_TRANSPORT :: u32 where "DISCONNECT_TRANSPORT \<equiv> 10001"

text \<open>A connection, and whether its transport is SCTP.\<close>

datatype io = IO (io_id: nat) (io_sctp: bool)

record ev_param =
  ep_event :: peer_ev
  ep_msg :: "msg option"
  ep_io :: "io option"

datatype peer_out =
    TxMsg msg "io option"
  | GcIO io
  | DropIO io
  | ConnectTo string u32 bool
  | CloseConnectors
  | UpConnected
  | UpErrorCode u32
  | UpDisconnected u32
  | RouteRequest msg
  | RouteAnswer msg

record peer = "(peer_st, peer_ev) fsm" +
  pd_Identity :: string
  pd_Port :: u32
  pd_UseSctp :: bool
  pd_TLS :: bool
  pd_DisconnectCause :: u32
  pd_IOInitiator :: "io option"
  pd_IOResponder :: "io option"
  pd_caps :: caps
  pd_LastTxHopId :: "u32 \<rightharpoonup> u32"
  pd_LastTxEndId :: "u32 \<rightharpoonup> u32"
  pd_LastRxHopId :: "u32 list"
  pd_LastRxEndId :: "u32 list"
  pm_queue :: "ev_param list"
  pm_current :: "ev_param option"
  pm_ReconnectAttempt :: nat
  pm_hop_gen :: u32
  pm_end_gen :: u32
  pm_rands :: nat
  pm_fault :: bool
  pm_out :: "peer_out list"

definition emit :: "peer_out \<Rightarrow> peer \<Rightarrow> peer" where
  "emit x m = m\<lparr>pm_out := pm_out m @ [x]\<rparr>"

definition fault :: "peer \<Rightarrow> peer" where
  "fault m = m\<lparr>pm_fault := True\<rparr>"

subsection \<open>The state table\<close>

datatype peer_ac =
    acISendConnReq | acRAcceptSendCEA | acISendCER | acConnNack | acCleanup | acRetry
  | acRAccept | acError | acProcessCEA | acRAcceptElect | acDisconnect | acDisconnectDPA
  | acISendCERElect | acRSendCEA | acRSendCEAOpen | acRDisconnectResp | acRDisconnectIOpen
  | acRReject | acIDisconnectSendCEA | acRSendMessage | acProcess | acProcessDWRSendDWA
  | acProcessDWA | acISendDPR | acRSendDPR | acISendDPADisconnect | acRSendDPADisconnect
  | acISendMessage | acISendCEA | acWatchdog | acNull

type_synonym peer_entry = "(peer_st, peer_ev, peer_ac) fsm_entry"

definition peer_closed_cmds :: "peer_entry list" where
  "peer_closed_cmds =
     [FsmEntry PST_CLOSED (Some PEV_START) PST_WAIT_CONN_ACK acISendConnReq,
      FsmEntry PST_CLOSED (Some PEV_R_CONN_CER) PST_R_OPEN acRAcceptSendCEA,
      FsmEntry PST_CLOSED (Some PEV_CONN_RETRY) PST_CLOSED acRetry,
      FsmEntry PST_CLOSED None PST_CLOSED acCleanup]"

definition peer_wait_conn_ack_cmds :: "peer_entry list" where
  "peer_wait_conn_ack_cmds =
     [FsmEntry PST_WAIT_CONN_ACK (Some PEV_I_RCV_CONN_ACK) PST_WAIT_I_CEA acISendCER,
      FsmEntry PST_WAIT_CONN_ACK (Some PEV_I_RCV_CONN_NACK) PST_CLOSED acConnNack,
      FsmEntry PST_WAIT_CONN_ACK (Some PEV_R_CONN_CER) PST_WAIT_CONN_ACK_ELECT acRAccept,
      FsmEntry PST_WAIT_CONN_ACK (Some PEV_TIMEOUT) PST_CLOSED acError,
      FsmEntry PST_WAIT_CONN_ACK (Some PEV_STOP) PST_CLOSED acError]"

definition peer_wait_i_cea_cmds :: "peer_entry list" where
  "peer_wait_i_cea_cmds =
     [FsmEntry PST_WAIT_I_CEA (Some PEV_I_RCV_CEA) PST_I_OPEN acProcessCEA,
      FsmEntry PST_WAIT_I_CEA (Some PEV_R_CONN_CER) PST_WAIT_RETURNS acRAcceptElect,
      FsmEntry PST_WAIT_I_CEA (Some PEV_I_PEER_DISC) PST_CLOSED acDisconnect,
      FsmEntry PST_WAIT_I_CEA (Some PEV_I_RCV_NON_CEA) PST_CLOSED acError,
      FsmEntry PST_WAIT_I_CEA (Some PEV_TIMEOUT) PST_CLOSED acError,
      FsmEntry PST_WAIT_I_CEA (Some PEV_STOP) PST_CLOSED acError]"

definition peer_wait_conn_ack_elect_cmds :: "peer_entry list" where
  "peer_wait_conn_ack_elect_cmds =
     [FsmEntry PST_WAIT_CONN_ACK_ELECT (Some PEV_I_RCV_CONN_ACK) PST_WAIT_RETURNS acISendCERElect,
      FsmEntry PST_WAIT_CONN_ACK_ELECT (Some PEV_I_RCV_CONN_NACK) PST_R_OPEN acRSendCEA,
      FsmEntry PST_WAIT_CONN_ACK_ELECT (Some PEV_R_PEER_DISC) PST_WAIT_CONN_ACK acRDisconnectResp,
      FsmEntry PST_WAIT_CONN_ACK_ELECT (Some PEV_R_CONN_CER) PST_WAIT_CONN_ACK_ELECT acRReject,
      FsmEntry PST_WAIT_CONN_ACK_ELECT (Some PEV_TIMEOUT) PST_CLOSED acError]"

definition peer_wait_returns_cmds :: "peer_entry list" where
  "peer_wait_returns_cmds =
     [FsmEntry PST_WAIT_RETURNS (Some PEV_WIN_ELECTION) PST_R_OPEN acIDisconnectSendCEA,
      FsmEntry PST_WAIT_RETURNS (Some PEV_I_PEER_DISC) PST_R_OPEN acIDisconnectSendCEA,
      FsmEntry PST_WAIT_RETURNS (Some PEV_I_RCV_CEA) PST_I_OPEN acRDisconnectIOpen,
      FsmEntry PST_WAIT_RETURNS (Some PEV_R_PEER_DISC) PST_WAIT_I_CEA acRDisconnectResp,
      FsmEntry PST_WAIT_RETURNS (Some PEV_R_CONN_CER) PST_WAIT_RETURNS acRReject,
      FsmEntry PST_WAIT_RETURNS (Some PEV_TIMEOUT) PST_CLOSED acError]"

definition peer_r_open_cmds :: "peer_entry list" where
  "peer_r_open_cmds =
     [FsmEntry PST_R_OPEN (Some PEV_SEND_MESSAGE) PST_R_OPEN acRSendMessage,
      FsmEntry PST_R_OPEN (Some PEV_R_RCV_MESSAGE) PST_R_OPEN acProcess,
      FsmEntry PST_R_OPEN (Some PEV_R_RCV_DWR) PST_R_OPEN acProcessDWRSendDWA,
      FsmEntry PST_R_OPEN (Some PEV_R_RCV_DWA) PST_R_OPEN acProcessDWA,
      FsmEntry PST_R_OPEN (Some PEV_R_CONN_CER) PST_R_OPEN acRReject,
      FsmEntry PST_R_OPEN (Some PEV_STOP) PST_CLOSING acRSendDPR,
      FsmEntry PST_R_OPEN (Some PEV_R_RCV_DPR) PST_CLOSED acRSendDPADisconnect,
      FsmEntry PST_R_OPEN (Some PEV_R_PEER_DISC) PST_CLOSED acDisconnect,
      FsmEntry PST_R_OPEN (Some PEV_R_RCV_CER) PST_R_OPEN acRSendCEAOpen,
      FsmEntry PST_R_OPEN (Some PEV_R_RCV_CEA) PST_R_OPEN acProcessCEA,
      FsmEntry PST_R_OPEN (Some PEV_WATCHDOG) PST_R_OPEN acWatchdog]"

definition peer_i_open_cmds :: "peer_entry list" where
  "peer_i_open_cmds =
     [FsmEntry PST_I_OPEN (Some PEV_SEND_MESSAGE) PST_I_OPEN acISendMessage,
      FsmEntry PST_I_OPEN (Some PEV_I_RCV_MESSAGE) PST_I_OPEN acProcess,
      FsmEntry PST_I_OPEN (Some PEV_I_RCV_DWR) PST_I_OPEN acProcessDWRSendDWA,
      FsmEntry PST_I_OPEN (Some PEV_I_RCV_DWA) PST_I_OPEN acProcessDWA,
      FsmEntry PST_I_OPEN (Some PEV_R_CONN_CER) PST_I_OPEN acRReject,
      FsmEntry PST_I_OPEN (Some PEV_STOP) PST_CLOSING acISendDPR,
      FsmEntry PST_I_OPEN (Some PEV_I_RCV_DPR) PST_CLOSED acISendDPADisconnect,
      FsmEntry PST_I_OPEN (Some PEV_I_PEER_DISC) PST_CLOSED acDisconnect,
      FsmEntry PST_I_OPEN (Some PEV_I_RCV_CER) PST_I_OPEN acISendCEA,
      FsmEntry PST_I_OPEN (Some PEV_I_RCV_CEA) PST_I_OPEN acProcessCEA,
      FsmEntry PST_I_OPEN (Some PEV_WATCHDOG) PST_I_OPEN acWatchdog]"

definition peer_closing_cmds :: "peer_entry list" where
  "peer_closing_cmds =
     [FsmEntry PST_CLOSING (Some PEV_I_RCV_DPA) PST_CLOSED acDisconnectDPA,
      FsmEntry PST_CLOSING (Some PEV_R_RCV_DPA) PST_CLOSED acDisconnectDPA,
      FsmEntry PST_CLOSING (Some PEV_TIMEOUT) PST_CLOSED acError,
      FsmEntry PST_CLOSING (Some PEV_I_PEER_DISC) PST_CLOSED acDisconnect,
      FsmEntry PST_CLOSING (Some PEV_R_PEER_DISC) PST_CLOSED acDisconnect,
      FsmEntry PST_CLOSING None PST_CLOSING acNull]"

lemmas peer_cmds_defs = peer_closed_cmds_def peer_wait_conn_ack_cmds_def peer_wait_i_cea_cmds_def
  peer_wait_conn_ack_elect_cmds_def peer_wait_returns_cmds_def peer_r_open_cmds_def
  peer_i_open_cmds_def peer_closing_cmds_def

definition peer_cmds :: "peer_entry list" where
  "peer_cmds = peer_closed_cmds @ peer_wait_conn_ack_cmds @ peer_wait_i_cea_cmds @
     peer_wait_conn_ack_elect_cmds @ peer_wait_returns_cmds @ peer_r_open_cmds @
     peer_i_open_cmds @ peer_closing_cmds"

text \<open>The constructor builds the table; the initial state is \<open>PST_CLOSED\<close>.\<close>

definition peer_tbl :: "peer_entry list" where
  "peer_tbl = (case build_from [] peer_cmds of Inl _ \<Rightarrow> [] | Inr t \<Rightarrow> t)"

lemma peer_table_built: "build_from [] peer_cmds = Inr peer_tbl"
  by (simp add: peer_tbl_def peer_cmds_def peer_cmds_defs AddStateTableEntry_def
      AddWildcardStateTableEntry_def FindStateTableEntry_def)

interpretation peer_table: state_table peer_cmds peer_tbl
  by unfold_locales (rule peer_table_built)


subsection \<open>Identifiers\<close>

text \<open>\<open>DiameterHopByHopGenerator::Get\<close> and \<open>DiameterEndToEndGenerator::Get\<close>: the new state is the result.\<close>

definition HopByHop_Get :: "u32 \<Rightarrow> u32 \<Rightarrow> u32" where
  "HopByHop_Get seed i = (let i' = (if i = 0 then seed else i) in i' + 1)"

definition EndToEnd_Get :: "u32 \<Rightarrow> u32 \<Rightarrow> u32 \<Rightarrow> u32" where
  "EndToEnd_Get now r i =
     (let i' = (if i = 0 then push_bit 20 now else i) in or (and i' 0xFFF00000) (and r 0x000FFFFF))"

text \<open>\<open>MsgIdTxMessage\<close>: a request gets fresh identifiers, which are remembered; an answer takes those of
  the oldest request that was received.\<close>

definition set_ids :: "u32 \<Rightarrow> u32 \<Rightarrow> msg_hdr \<Rightarrow> msg_hdr" where
  "set_ids hop end h = h\<lparr>h_hh := hop, h_ee := end\<rparr>"

definition MsgIdTxMessage :: "cfg \<Rightarrow> msg_hdr \<Rightarrow> peer \<Rightarrow> msg_hdr \<times> peer" where
  "MsgIdTxMessage c h m =
     (if h_r h
      then let hop = HopByHop_Get (cf_hop_seed c) (pm_hop_gen m);
               end = EndToEnd_Get (cf_time c) (cf_rand c (pm_rands m)) (pm_end_gen m)
           in (set_ids hop end h,
               m\<lparr>pm_hop_gen := hop, pm_end_gen := end, pm_rands := pm_rands m + 1,
                 pd_LastTxHopId := PM_Add hop hop (pd_LastTxHopId m),
                 pd_LastTxEndId := PM_Add end end (pd_LastTxEndId m)\<rparr>)
      else let (hop, hops) = (case PQ_Dequeue (pd_LastRxHopId m) of
                                None \<Rightarrow> (0, pd_LastRxHopId m) | Some (i, is) \<Rightarrow> (i, is));
               (end, ends) = (case PQ_Dequeue (pd_LastRxEndId m) of
                                None \<Rightarrow> (0, pd_LastRxEndId m) | Some (i, is) \<Rightarrow> (i, is))
           in (set_ids hop end h, m\<lparr>pd_LastRxHopId := hops, pd_LastRxEndId := ends\<rparr>))"

text \<open>\<open>MsgIdRxMessage\<close>: the second identifier is looked at only when the first was found.\<close>

definition MsgIdRxMessage :: "msg_hdr \<Rightarrow> peer \<Rightarrow> bool \<times> peer" where
  "MsgIdRxMessage h m =
     (if h_r h
      then (True, m\<lparr>pd_LastRxHopId := PQ_Enqueue (h_hh h) (pd_LastRxHopId m),
                    pd_LastRxEndId := PQ_Enqueue (h_ee h) (pd_LastRxEndId m)\<rparr>)
      else let (hopFound, hops) = PM_Remove (h_hh h) (pd_LastTxHopId m);
               m1 = m\<lparr>pd_LastTxHopId := hops\<rparr>
           in if hopFound
              then let (endFound, ends) = PM_Remove (h_ee h) (pd_LastTxEndId m1);
                       m2 = m1\<lparr>pd_LastTxEndId := ends\<rparr>
                   in (endFound, m2)
              else (False, m1))"

subsection \<open>Base protocol messages\<close>

definition base_hdr :: "u32 \<Rightarrow> bool \<Rightarrow> msg_hdr" where
  "base_hdr cd request = zero_hdr\<lparr>h_ver := 1, h_r := request, h_code := cd\<rparr>"

text \<open>\<open>TransportProtocolInUse\<close> of a machine without any connection reads through a null pointer.\<close>

definition sctp_in_use :: "peer \<Rightarrow> bool option" where
  "sctp_in_use m =
     (case pd_IOInitiator m of
        Some i \<Rightarrow> Some (io_sctp i)
      | None \<Rightarrow> (case pd_IOResponder m of Some i \<Rightarrow> Some (io_sctp i) | None \<Rightarrow> None))"

definition AssembleCE :: "cfg \<Rightarrow> bool \<Rightarrow> peer \<Rightarrow> msg \<times> peer" where
  "AssembleCE c request m =
     (let (h, m1) = MsgIdTxMessage c (base_hdr MSGCODE_CAPABILITIES_EXCHG request) m
      in case sctp_in_use m1 of
           None \<Rightarrow> (\<lparr>m_hdr = h, m_acl = []\<rparr>, fault m1)
         | Some sctp \<Rightarrow> (\<lparr>m_hdr = h, m_acl = AssembleCE_acl c (pd_TLS m1) sctp\<rparr>, m1))"

definition AssembleDW :: "cfg \<Rightarrow> bool \<Rightarrow> peer \<Rightarrow> msg \<times> peer" where
  "AssembleDW c request m =
     (let (h, m1) = MsgIdTxMessage c (base_hdr MSGCODE_WATCHDOG request) m
      in (\<lparr>m_hdr = h, m_acl = [(AVPNAME_ORIGINHOST, [AvpStr (cf_identity c)]),
                               (AVPNAME_ORIGINREALM, [AvpStr (cf_realm c)]),
                               (AVPNAME_ORIGINSTATEID, [AvpU32 (cf_originStateId c)])]\<rparr>, m1))"

definition AssembleDP :: "cfg \<Rightarrow> bool \<Rightarrow> peer \<Rightarrow> msg \<times> peer" where
  "AssembleDP c request m =
     (let (h, m1) = MsgIdTxMessage c (base_hdr MSGCODE_DISCONNECT_PEER request) m
      in (\<lparr>m_hdr = h, m_acl = [(AVPNAME_ORIGINHOST, [AvpStr (cf_identity c)]),
                               (AVPNAME_ORIGINREALM, [AvpStr (cf_realm c)])]\<rparr>, m1))"

definition add_to :: "msg \<Rightarrow> string \<Rightarrow> avp_value \<Rightarrow> msg" where
  "add_to msg n v = msg\<lparr>m_acl := add_avp n [v] (m_acl msg)\<rparr>"

text \<open>The connection a message goes out on, by the state the machine is in.\<close>

definition io_by_state :: "peer \<Rightarrow> io option" where
  "io_by_state m = (if fsm_state m = PST_I_OPEN then pd_IOInitiator m else pd_IOResponder m)"

definition SendCER :: "cfg \<Rightarrow> peer \<Rightarrow> peer" where
  "SendCER c m = (let (msg, m1) = AssembleCE c True m in emit (TxMsg msg (pd_IOInitiator m1)) m1)"

definition SendCEA :: "cfg \<Rightarrow> u32 \<Rightarrow> string \<Rightarrow> peer \<Rightarrow> peer" where
  "SendCEA c rcode message m =
     (let (msg, m1) = AssembleCE c False m;
          msg1 = add_to msg AVPNAME_RESULTCODE (AvpU32 rcode);
          msg2 = (if message \<noteq> [] \<and> InterpretedResultCode rcode \<noteq> RCODE_NOT_PRESENT \<and>
                     InterpretedResultCode rcode \<noteq> RCODE_SUCCESS
                  then add_to msg1 AVPNAME_ERRORMESSAGE (AvpStr message) else msg1)
      in emit (TxMsg msg2 (io_by_state m1)) m1)"

definition SendDWR :: "cfg \<Rightarrow> peer \<Rightarrow> peer" where
  "SendDWR c m = (let (msg, m1) = AssembleDW c True m in emit (TxMsg msg (io_by_state m1)) m1)"

text \<open>The Error-Message goes in when the code is a success.\<close>

definition SendDWA :: "cfg \<Rightarrow> u32 \<Rightarrow> string \<Rightarrow> peer \<Rightarrow> peer" where
  "SendDWA c rcode message m =
     (let (msg, m1) = AssembleDW c False m;
          msg1 = add_to msg AVPNAME_RESULTCODE (AvpU32 rcode);
          msg2 = (if message \<noteq> [] \<and> InterpretedResultCode rcode = RCODE_SUCCESS
                  then add_to msg1 AVPNAME_ERRORMESSAGE (AvpStr message) else msg1)
      in emit (TxMsg msg2 (io_by_state m1)) m1)"

definition SendDPR :: "cfg \<Rightarrow> bool \<Rightarrow> peer \<Rightarrow> peer" where
  "SendDPR c initiator m =
     (let (msg, m1) = AssembleDP c True m
      in emit (TxMsg (add_to msg AVPNAME_DISCONNECT_CAUSE (AvpU32 (pd_DisconnectCause m1)))
                (if initiator then pd_IOInitiator m1 else pd_IOResponder m1)) m1)"

definition SendDPA :: "cfg \<Rightarrow> bool \<Rightarrow> u32 \<Rightarrow> peer \<Rightarrow> peer" where
  "SendDPA c initiator rcode m =
     (let (msg, m1) = AssembleDP c False m
      in emit (TxMsg (add_to msg AVPNAME_RESULTCODE (AvpU32 rcode))
                (if initiator then pd_IOInitiator m1 else pd_IOResponder m1)) m1)"

subsection \<open>Auxiliary operations\<close>

definition StopReConnect :: "peer \<Rightarrow> peer" where
  "StopReConnect m = CancelTimer TM_CONN_RETRY m"

definition DoReConnect :: "cfg \<Rightarrow> peer \<Rightarrow> peer" where
  "DoReConnect c m =
     (if pm_ReconnectAttempt m < cf_reconnect_max c
      then if 0 < cf_reconnect_interval c
           then ScheduleTimer PEV_CONN_RETRY (cf_reconnect_interval c) TM_CONN_RETRY
                  (m\<lparr>pm_ReconnectAttempt := pm_ReconnectAttempt m + 1\<rparr>)
           else m
      else m\<lparr>pm_ReconnectAttempt := 0\<rparr>)"

definition gc_opt :: "io option \<Rightarrow> peer \<Rightarrow> peer" where
  "gc_opt i m = (case i of None \<Rightarrow> m | Some x \<Rightarrow> emit (GcIO x) m)"

text \<open>\<open>Cleanup(flags)\<close> with the three flags apart. The identifiers of the capabilities stay.\<close>

definition Cleanup :: "bool \<Rightarrow> bool \<Rightarrow> bool \<Rightarrow> peer \<Rightarrow> peer" where
  "Cleanup io_i io_r whole m =
     (let m1 = m\<lparr>pd_caps := empty_caps\<rparr>;
          m2 = CancelTimer (int CONNECT_ATTEMPT_TOUT)
                 (CancelTimer TM_WATCHDOG (CancelTimer TM_TIMEOUT (StopReConnect m1)));
          m3 = (if whole then fsm_Stop m2 else m2);
          m4 = (if io_r then (gc_opt (pd_IOResponder m3) m3)\<lparr>pd_IOResponder := None\<rparr> else m3);
          m5 = (if io_i then (gc_opt (pd_IOInitiator m4) m4)\<lparr>pd_IOInitiator := None\<rparr> else m4)
      in if whole
         then case pm_current m5 of
                None \<Rightarrow> fault m5
              | Some ep \<Rightarrow>
                  fsm_Start PST_CLOSED
                    ((gc_opt (ep_io ep) m5)\<lparr>pm_current := Some (ep\<lparr>ep_msg := None, ep_io := None\<rparr>)\<rparr>)
         else m5)"

abbreviation CleanupAll :: "peer \<Rightarrow> peer" where
  "CleanupAll \<equiv> Cleanup True True True"

definition Notify :: "peer_ev \<Rightarrow> msg option \<Rightarrow> io option \<Rightarrow> peer \<Rightarrow> peer" where
  "Notify ev msg i m =
     (if fsm_running m
      then m\<lparr>pm_queue := PQ_Enqueue \<lparr>ep_event = ev, ep_msg = msg, ep_io = i\<rparr> (pm_queue m)\<rparr>
      else m)"

definition DoElect :: "cfg \<Rightarrow> peer \<Rightarrow> peer" where
  "DoElect c m =
     (case Elect (cf_identity c) (cap_Host (pd_caps m)) of
        ElectSameHost \<Rightarrow> CleanupAll m
      | ElectWin \<Rightarrow> Notify PEV_WIN_ELECTION None None m
      | ElectLose \<Rightarrow> m)"

text \<open>\<open>DiameterPeerEntry::Start\<close>, which the retry action calls too.\<close>

definition EntryStart :: "peer \<Rightarrow> peer" where
  "EntryStart m =
     emit (ConnectTo (pd_Identity m) (pd_Port m) (pd_UseSctp m)) (Notify PEV_START None None m)"

text \<open>Moves out of the parameters of the event in service: the connection to the responder or the
  initiator, which deletes what that member owned, and the message to a local of the action.\<close>

definition drop_opt :: "io option \<Rightarrow> peer \<Rightarrow> peer" where
  "drop_opt i m = (case i of None \<Rightarrow> m | Some x \<Rightarrow> emit (DropIO x) m)"

definition take_responder :: "peer \<Rightarrow> peer" where
  "take_responder m =
     (case pm_current m of
        None \<Rightarrow> fault m
      | Some ep \<Rightarrow> (drop_opt (pd_IOResponder m) m)
                     \<lparr>pd_IOResponder := ep_io ep, pm_current := Some (ep\<lparr>ep_io := None\<rparr>)\<rparr>)"

definition take_initiator :: "peer \<Rightarrow> peer" where
  "take_initiator m =
     (case pm_current m of
        None \<Rightarrow> fault m
      | Some ep \<Rightarrow> (drop_opt (pd_IOInitiator m) m)
                     \<lparr>pd_IOInitiator := ep_io ep, pm_current := Some (ep\<lparr>ep_io := None\<rparr>)\<rparr>)"

text \<open>Taking the message and going on with it; a null message that is read is a fault.\<close>

definition with_msg :: "(msg \<Rightarrow> peer \<Rightarrow> peer) \<Rightarrow> peer \<Rightarrow> peer" where
  "with_msg f m =
     (case pm_current m of
        None \<Rightarrow> fault m
      | Some ep \<Rightarrow>
          (case ep_msg ep of
             None \<Rightarrow> fault m
           | Some msg \<Rightarrow> f msg (m\<lparr>pm_current := Some (ep\<lparr>ep_msg := None\<rparr>)\<rparr>)))"

definition read_caps :: "msg \<Rightarrow> peer \<Rightarrow> peer" where
  "read_caps msg m = m\<lparr>pd_caps := DisassembleCE (m_acl msg)\<rparr>"

text \<open>Cancel the timeout, arm the watchdog.\<close>

definition arm_watchdog :: "cfg \<Rightarrow> peer \<Rightarrow> peer" where
  "arm_watchdog c m =
     ScheduleTimer PEV_WATCHDOG (cf_watchdog_timeout c) TM_WATCHDOG (CancelTimer TM_TIMEOUT m)"

definition arm_timeout :: "peer \<Rightarrow> peer" where
  "arm_timeout m = ScheduleTimer PEV_TIMEOUT CONNECT_ATTEMPT_TOUT TM_TIMEOUT m"


subsection \<open>Actions\<close>

definition ac_ISendConnReq :: "peer \<Rightarrow> peer" where
  "ac_ISendConnReq m = arm_timeout m"

definition ac_RAcceptSendCEA :: "cfg \<Rightarrow> peer \<Rightarrow> peer" where
  "ac_RAcceptSendCEA c m =
     with_msg (\<lambda>cer m1.
       let m2 = read_caps cer m1;
           (valid, rcode, message) = ValidatePeer c (pd_TLS m2) (pd_caps m2);
           m3 = SendCEA c rcode message m2
       in if \<not> valid then CleanupAll m3
          else emit UpConnected (StopReConnect (arm_watchdog c m3)))
     (take_responder m)"

definition ac_ISendCER :: "cfg \<Rightarrow> peer \<Rightarrow> peer" where
  "ac_ISendCER c m = SendCER c (take_initiator m)"

definition ac_ConnNack :: "cfg \<Rightarrow> peer \<Rightarrow> peer" where
  "ac_ConnNack c m = emit (UpErrorCode AAA_UNABLE_TO_COMPLY) (DoReConnect c (CleanupAll m))"

definition ac_Cleanup :: "peer \<Rightarrow> peer" where
  "ac_Cleanup m = CleanupAll m"

definition ac_ReConnect :: "peer \<Rightarrow> peer" where
  "ac_ReConnect m = EntryStart (StopReConnect m)"

definition ac_RAccept :: "cfg \<Rightarrow> peer \<Rightarrow> peer" where
  "ac_RAccept c m =
     with_msg (\<lambda>cer m1.
       let m2 = read_caps cer m1;
           (valid, rcode, message) = ValidatePeer c (pd_TLS m2) (pd_caps m2)
       in if \<not> valid then CleanupAll m2 else m2)
     (take_responder m)"

definition ac_Error :: "peer \<Rightarrow> peer" where
  "ac_Error m = emit (UpErrorCode AAA_LIMITED_SUCCESS) (CleanupAll m)"

definition ac_ProcessCEA :: "cfg \<Rightarrow> peer \<Rightarrow> peer" where
  "ac_ProcessCEA c m =
     with_msg (\<lambda>cea m1.
       if MsgResult cea = RCODE_SUCCESS
       then emit UpConnected (arm_watchdog c (StopReConnect (read_caps cea m1)))
       else CleanupAll m1) m"

text \<open>The flags are all but the initiator's connection: the machine itself is among them.\<close>

definition ac_RAcceptElect :: "cfg \<Rightarrow> peer \<Rightarrow> peer" where
  "ac_RAcceptElect c m =
     with_msg (\<lambda>cer m1.
       let m2 = read_caps cer m1;
           (valid, rcode, message) = ValidatePeer c (pd_TLS m2) (pd_caps m2)
       in if \<not> valid then Cleanup False True True m2 else DoElect c m2)
     (take_responder m)"

definition ac_ISendCERElect :: "cfg \<Rightarrow> peer \<Rightarrow> peer" where
  "ac_ISendCERElect c m = DoElect c (SendCER c (take_initiator m))"

abbreviation WIN_MESSAGE :: string where
  "WIN_MESSAGE \<equiv> ''Capabilities negotiation completed successfully (win-election)''"

definition ac_RSendCEA :: "cfg \<Rightarrow> peer \<Rightarrow> peer" where
  "ac_RSendCEA c m = emit UpConnected (arm_watchdog c (SendCEA c AAA_SUCCESS WIN_MESSAGE (take_responder m)))"

definition ac_RSendCEAOpen :: "cfg \<Rightarrow> peer \<Rightarrow> peer" where
  "ac_RSendCEAOpen c m =
     with_msg (\<lambda>cer m1.
       let m2 = read_caps cer m1;
           (valid, rcode, message) = ValidatePeer c (pd_TLS m2) (pd_caps m2)
       in SendCEA c rcode message m2) m"

definition ac_RDisconnectResp :: "peer \<Rightarrow> peer" where
  "ac_RDisconnectResp m = (gc_opt (pd_IOResponder m) m)\<lparr>pd_IOResponder := None\<rparr>"

definition ac_RDisconnectIOpen :: "cfg \<Rightarrow> peer \<Rightarrow> peer" where
  "ac_RDisconnectIOpen c m =
     with_msg (\<lambda>cea m1.
       if MsgResult cea = RCODE_SUCCESS
       then let m2 = arm_watchdog c (read_caps cea m1)
            in emit UpConnected ((gc_opt (pd_IOResponder m2) m2)\<lparr>pd_IOResponder := None\<rparr>)
       else CleanupAll m1) m"

definition ac_RReject :: "peer \<Rightarrow> peer" where
  "ac_RReject m =
     (case pm_current m of
        None \<Rightarrow> fault m
      | Some ep \<Rightarrow> (drop_opt (ep_io ep) m)\<lparr>pm_current := Some (ep\<lparr>ep_msg := None, ep_io := None\<rparr>)\<rparr>)"

definition ac_IDisconnectSendCEA :: "cfg \<Rightarrow> peer \<Rightarrow> peer" where
  "ac_IDisconnectSendCEA c m =
     (let m1 = (gc_opt (pd_IOInitiator m) m)\<lparr>pd_IOInitiator := None\<rparr>
      in emit UpConnected (arm_watchdog c (SendCEA c AAA_SUCCESS WIN_MESSAGE m1)))"

text \<open>Without \<open>ASYNC_SEND\<close> the two send actions are empty.\<close>

definition ac_SendMessage :: "peer \<Rightarrow> peer" where
  "ac_SendMessage m = m"

definition ac_Process :: "peer \<Rightarrow> peer" where
  "ac_Process m =
     with_msg (\<lambda>msg m1. emit (if IsRequest msg then RouteRequest msg else RouteAnswer msg) m1) m"

definition ac_ProcessDWRSendDWA :: "cfg \<Rightarrow> peer \<Rightarrow> peer" where
  "ac_ProcessDWRSendDWA c m =
     with_msg (\<lambda>dwr m1. SendDWA c AAA_SUCCESS ''Successful device watchdog'' m1) m"

definition ac_ProcessDWA :: "peer \<Rightarrow> peer" where
  "ac_ProcessDWA m =
     with_msg (\<lambda>dwa m1. if MsgResult dwa = RCODE_SUCCESS then m1 else CleanupAll m1) m"

definition ac_ISendCEA :: "cfg \<Rightarrow> peer \<Rightarrow> peer" where
  "ac_ISendCEA c m =
     with_msg (\<lambda>cer m1.
       let m2 = read_caps cer m1;
           (valid, rcode, message) = ValidatePeer c (pd_TLS m2) (pd_caps m2)
       in SendCEA c rcode message m2) m"

definition ac_SendDPR :: "cfg \<Rightarrow> bool \<Rightarrow> peer \<Rightarrow> peer" where
  "ac_SendDPR c initiator m = SendDPR c initiator (arm_timeout (CancelTimer TM_WATCHDOG m))"

definition ac_SendDPADisconnect :: "cfg \<Rightarrow> bool \<Rightarrow> peer \<Rightarrow> peer" where
  "ac_SendDPADisconnect c initiator m =
     with_msg (\<lambda>dpr m1.
       emit (UpDisconnected (case GetU32 (m_acl dpr) AVPNAME_DISCONNECT_CAUSE of
                               None \<Rightarrow> DISCONNECT_UNKNOWN | Some x \<Rightarrow> x))
         (CleanupAll (SendDPA c initiator AAA_SUCCESS m1))) m"

definition ac_Disconnect :: "cfg \<Rightarrow> peer \<Rightarrow> peer" where
  "ac_Disconnect c m = emit (UpDisconnected DISCONNECT_TRANSPORT) (DoReConnect c (CleanupAll m))"

definition ac_DisconnectDPA :: "cfg \<Rightarrow> peer \<Rightarrow> peer" where
  "ac_DisconnectDPA c m =
     with_msg (\<lambda>dpa m1.
       let m2 = CleanupAll (emit (UpDisconnected (pd_DisconnectCause m1)) m1)
       in if pd_DisconnectCause m2 = DISCONNECT_REBOOTING then DoReConnect c m2 else m2) m"

definition ac_Watchdog :: "cfg \<Rightarrow> peer \<Rightarrow> peer" where
  "ac_Watchdog c m = SendDWR c m"

fun peer_act :: "cfg \<Rightarrow> peer_ac \<Rightarrow> peer \<Rightarrow> peer" where
  "peer_act c acISendConnReq m = ac_ISendConnReq m"
| "peer_act c acRAcceptSendCEA m = ac_RAcceptSendCEA c m"
| "peer_act c acISendCER m = ac_ISendCER c m"
| "peer_act c acConnNack m = ac_ConnNack c m"
| "peer_act c acCleanup m = ac_Cleanup m"
| "peer_act c acRetry m = ac_ReConnect m"
| "peer_act c acRAccept m = ac_RAccept c m"
| "peer_act c acError m = ac_Error m"
| "peer_act c acProcessCEA m = ac_ProcessCEA c m"
| "peer_act c acRAcceptElect m = ac_RAcceptElect c m"
| "peer_act c acDisconnect m = ac_Disconnect c m"
| "peer_act c acDisconnectDPA m = ac_DisconnectDPA c m"
| "peer_act c acISendCERElect m = ac_ISendCERElect c m"
| "peer_act c acRSendCEA m = ac_RSendCEA c m"
| "peer_act c acRSendCEAOpen m = ac_RSendCEAOpen c m"
| "peer_act c acRDisconnectResp m = ac_RDisconnectResp m"
| "peer_act c acRDisconnectIOpen m = ac_RDisconnectIOpen c m"
| "peer_act c acRReject m = ac_RReject m"
| "peer_act c acIDisconnectSendCEA m = ac_IDisconnectSendCEA c m"
| "peer_act c acRSendMessage m = ac_SendMessage m"
| "peer_act c acProcess m = ac_Process m"
| "peer_act c acProcessDWRSendDWA m = ac_ProcessDWRSendDWA c m"
| "peer_act c acProcessDWA m = ac_ProcessDWA m"
| "peer_act c acISendDPR m = ac_SendDPR c True m"
| "peer_act c acRSendDPR m = ac_SendDPR c False m"
| "peer_act c acISendDPADisconnect m = ac_SendDPADisconnect c True m"
| "peer_act c acRSendDPADisconnect m = ac_SendDPADisconnect c False m"
| "peer_act c acISendMessage m = ac_SendMessage m"
| "peer_act c acISendCEA m = ac_ISendCEA c m"
| "peer_act c acWatchdog m = ac_Watchdog c m"
| "peer_act c acNull m = m"

subsection \<open>Serving events, and what the entry does\<close>

definition peer_Event :: "cfg \<Rightarrow> peer \<Rightarrow> peer_ev \<Rightarrow> peer" where
  "peer_Event c m ev = fsm_Event peer_tbl (peer_act c) m ev"

text \<open>\<open>Serve\<close>: the parameters of the event are dropped after it, with what they still own.\<close>

definition drop_param :: "peer \<Rightarrow> peer" where
  "drop_param m =
     (case pm_current m of
        None \<Rightarrow> m
      | Some ep \<Rightarrow> (drop_opt (ep_io ep) m)\<lparr>pm_current := None\<rparr>)"

definition peer_Serve :: "cfg \<Rightarrow> peer \<Rightarrow> peer" where
  "peer_Serve c m =
     (case PQ_Dequeue (pm_queue m) of
        None \<Rightarrow> fault m
      | Some (ep, q) \<Rightarrow>
          drop_param (peer_Event c (m\<lparr>pm_queue := q, pm_current := Some ep\<rparr>) (ep_event ep)))"

text \<open>\<open>Timeout\<close>: the reactor fires a timer of the map.\<close>

definition peer_Timeout :: "int \<Rightarrow> peer \<Rightarrow> peer" where
  "peer_Timeout ty m = (case fsm_timers m ty of None \<Rightarrow> m | Some (ev, _) \<Rightarrow> Notify ev None None m)"

text \<open>\<open>Send\<close>: the result is the return value.\<close>

definition peer_Send :: "msg \<Rightarrow> peer \<Rightarrow> int \<times> peer" where
  "peer_Send msg m =
     (if \<not> fsm_running m then (-1, m)
      else case fsm_state m of
             PST_I_OPEN \<Rightarrow> (0, emit (TxMsg msg (pd_IOInitiator m)) m)
           | PST_R_OPEN \<Rightarrow> (0, emit (TxMsg msg (pd_IOResponder m)) m)
           | _ \<Rightarrow> (0, m))"

definition new_peer :: "string \<Rightarrow> u32 \<Rightarrow> bool \<Rightarrow> bool \<Rightarrow> peer" where
  "new_peer name port sctp tls =
     \<lparr>fsm_state = PST_CLOSED, fsm_running = True, fsm_timers = Map.empty,
      pd_Identity = name, pd_Port = port, pd_UseSctp = sctp, pd_TLS = tls,
      pd_DisconnectCause = DISCONNECT_DONTWANTTOTALK, pd_IOInitiator = None, pd_IOResponder = None,
      pd_caps = empty_caps, pd_LastTxHopId = Map.empty, pd_LastTxEndId = Map.empty,
      pd_LastRxHopId = [], pd_LastRxEndId = [], pm_queue = [], pm_current = None,
      pm_ReconnectAttempt = 0, pm_hop_gen = 0, pm_end_gen = 0, pm_rands = 0,
      pm_fault = False, pm_out = []\<rparr>"

end
