(* ===== verification/Peer_Entry.thy ===== *)
theory Peer_Entry
  imports Peer_Fsm Rx_Collector
begin

text \<open>
  What drives the peer state machine: the peer entry of \<open>libdiameter/src/aaa_peer_table.cxx\<close> (connection
  upcalls, classification of received messages, collector errors), the peer table of
  \<open>include/aaa_peer_table.h\<close> and the pending responders of \<open>include/aaa_peer_interface.h\<close>; then the steps
  a peer can take, the invariant of the steps that are safe, and the ones that are not.
\<close>

subsection \<open>The entry\<close>

definition EntryStop :: "u32 \<Rightarrow> peer \<Rightarrow> peer" where
  "EntryStop cause m = emit CloseConnectors (Notify PEV_STOP None None (m\<lparr>pd_DisconnectCause := cause\<rparr>))"

definition IncommingConnectionRequest :: "io \<Rightarrow> msg \<Rightarrow> peer \<Rightarrow> peer" where
  "IncommingConnectionRequest i cer m =
     Notify PEV_R_CONN_CER (Some cer) (Some i) (snd (MsgIdRxMessage (m_hdr cer) m))"

definition ConnectionRequestAccepted :: "io \<Rightarrow> peer \<Rightarrow> peer" where
  "ConnectionRequestAccepted i m = Notify PEV_I_RCV_CONN_ACK None (Some i) m"

definition ConnectionRequestFailed :: "peer \<Rightarrow> peer" where
  "ConnectionRequestFailed m = Notify PEV_I_RCV_CONN_NACK None None m"

text \<open>The tables of \<open>Message\<close>: command code, request and answer event of the initiator's and the
  responder's connection.\<close>

definition base_events :: "(u32 \<times> (peer_ev \<times> peer_ev) \<times> (peer_ev \<times> peer_ev)) list" where
  "base_events =
     [(MSGCODE_CAPABILITIES_EXCHG, (PEV_I_RCV_CER, PEV_I_RCV_CEA), (PEV_R_RCV_CER, PEV_R_RCV_CEA)),
      (MSGCODE_WATCHDOG, (PEV_I_RCV_DWR, PEV_I_RCV_DWA), (PEV_R_RCV_DWR, PEV_R_RCV_DWA)),
      (MSGCODE_DISCONNECT_PEER, (PEV_I_RCV_DPR, PEV_I_RCV_DPA), (PEV_R_RCV_DPR, PEV_R_RCV_DPA))]"

definition pick :: "bool \<Rightarrow> 'a \<times> 'a \<Rightarrow> 'a" where
  "pick request p = (if request then fst p else snd p)"

definition base_message :: "msg \<Rightarrow> (peer_ev \<times> peer_ev) \<times> (peer_ev \<times> peer_ev) \<Rightarrow> peer \<Rightarrow> peer" where
  "base_message msg evs m =
     (case fsm_state m of
        PST_I_OPEN \<Rightarrow> Notify (pick (IsRequest msg) (fst evs)) (Some msg) None m
      | PST_R_OPEN \<Rightarrow> Notify (pick (IsRequest msg) (snd evs)) (Some msg) None m
      | PST_CLOSING \<Rightarrow>
          if pd_IOInitiator m \<noteq> None
          then Notify (pick (IsRequest msg) (fst evs)) (Some msg) None m
          else Notify (pick (IsRequest msg) (snd evs)) (Some msg) None m
      | PST_WAIT_RETURNS \<Rightarrow>
          if IsCapabilities msg \<and> \<not> IsRequest msg then Notify PEV_I_RCV_CEA (Some msg) None m else m
      | PST_WAIT_I_CEA \<Rightarrow>
          if IsCapabilities msg \<and> \<not> IsRequest msg then Notify PEV_I_RCV_CEA (Some msg) None m else m
      | _ \<Rightarrow> m)"

definition EntryMessage :: "msg \<Rightarrow> peer \<Rightarrow> peer" where
  "EntryMessage msg m =
     (if fsm_state m = PST_WAIT_I_CEA \<and> (\<not> IsCapabilities msg \<or> IsRequest msg)
      then Notify PEV_I_RCV_NON_CEA None None m
      else case map_of base_events (h_code (m_hdr msg)) of
             Some evs \<Rightarrow>
               (let (ok, m1) = MsgIdRxMessage (m_hdr msg) m
                in if \<not> ok \<and> \<not> IsRequest msg then m1 else base_message msg evs m1)
           | None \<Rightarrow>
               (case fsm_state m of
                  PST_I_OPEN \<Rightarrow> Notify PEV_I_RCV_MESSAGE (Some msg) None m
                | PST_R_OPEN \<Rightarrow> Notify PEV_R_RCV_MESSAGE (Some msg) None m
                | _ \<Rightarrow> m))"

abbreviation IO_CONNECTOR_NAME :: string where "IO_CONNECTOR_NAME \<equiv> ''Connector''"
abbreviation IO_ACCEPTOR_NAME :: string where "IO_ACCEPTOR_NAME \<equiv> ''Acceptor''"

text \<open>\<open>Error\<close> is called by the collector, outside the service of an event.\<close>

definition EntryError :: "collector_error \<Rightarrow> string \<Rightarrow> peer \<Rightarrow> peer" where
  "EntryError e io_name m =
     (if e = CORRUPTED_BYTE_STREAM \<or> e = TRANSPORT_ERROR
      then if io_name = IO_ACCEPTOR_NAME then Notify PEV_R_PEER_DISC None None m
           else if io_name = IO_CONNECTOR_NAME then Notify PEV_I_PEER_DISC None None m
           else CleanupAll m
      else if e = PARSING_ERROR then m
      else CleanupAll m)"

definition IsOpen :: "peer \<Rightarrow> bool" where
  "IsOpen m \<longleftrightarrow> fsm_state m = PST_I_OPEN \<or> fsm_state m = PST_R_OPEN"

subsection \<open>The peer table\<close>

text \<open>\<open>strcasecmp\<close> on the \<open>c_str()\<close> of both names, in the C locale.\<close>

definition c_str :: "string \<Rightarrow> string" where
  "c_str s = takeWhile (\<lambda>ch. ch \<noteq> CHR 0x00) s"

definition to_lower :: "char \<Rightarrow> char" where
  "to_lower ch = (if 65 \<le> (of_char ch :: nat) \<and> (of_char ch :: nat) \<le> 90
                   then char_of ((of_char ch :: nat) + 32) else ch)"

definition same_name :: "string \<Rightarrow> string \<Rightarrow> bool" where
  "same_name a b \<longleftrightarrow> List.map to_lower (c_str a) = List.map to_lower (c_str b)"

text \<open>The table is a list of pointers; an entry stands for its identity and what the pointer is.\<close>

type_synonym 'p ptable = "(string \<times> 'p) list"

definition PT_Add :: "string \<Rightarrow> 'p \<Rightarrow> 'p ptable \<Rightarrow> 'p ptable" where
  "PT_Add name e t = t @ [(name, e)]"

fun PT_Lookup :: "'p ptable \<Rightarrow> string \<Rightarrow> 'p option" where
  "PT_Lookup [] name = None"
| "PT_Lookup ((n, e) # t) name = (if same_name n name then Some e else PT_Lookup t name)"

text \<open>\<open>Remove\<close> erases the entry it found and then reads the iterator it has just invalidated.\<close>

datatype pt_removed = NotInTable | DanglingIterator

fun PT_Remove :: "string \<Rightarrow> 'p ptable \<Rightarrow> pt_removed \<times> 'p ptable" where
  "PT_Remove name [] = (NotInTable, [])"
| "PT_Remove name ((n, e) # t) =
     (if same_name n name then (DanglingIterator, t)
      else let (r, t') = PT_Remove name t in (r, (n, e) # t'))"

definition PT_First :: "'p ptable \<Rightarrow> 'p option" where
  "PT_First t = (case t of [] \<Rightarrow> None | (n, e) # t' \<Rightarrow> Some e)"

fun PT_Next :: "'p \<Rightarrow> 'p ptable \<Rightarrow> 'p option" where
  "PT_Next e [] = None"
| "PT_Next e ((n, x) # t) = (if x = e then PT_First t else PT_Next e t)"

text \<open>\<open>GetNumOpenPeers\<close>, \<open>Start\<close> and \<open>Stop\<close> of the connector walk the table with \<open>First\<close> and \<open>Next\<close>; fuel
  bounds the walk.\<close>

fun PT_walk :: "nat \<Rightarrow> 'p ptable \<Rightarrow> 'p option \<Rightarrow> 'p list option" where
  "PT_walk n t None = Some []"
| "PT_walk 0 t (Some e) = None"
| "PT_walk (Suc n) t (Some e) = map_option (Cons e) (PT_walk n t (PT_Next e t))"

subsection \<open>Pending responders\<close>

datatype 'p pending_result = HandToPeer 'p | CloseConnection | KeepWaiting

text \<open>A connection that has not been given to a peer yet, receiving a message or an error.\<close>

definition Pending_Message :: "'p ptable \<Rightarrow> msg \<Rightarrow> 'p pending_result" where
  "Pending_Message t msg =
     (if IsCapabilities msg \<and> IsRequest msg
      then case GetStr (m_acl msg) AVPNAME_ORIGINHOST of
             None \<Rightarrow> CloseConnection
           | Some h \<Rightarrow> (case PT_Lookup t h of None \<Rightarrow> CloseConnection | Some e \<Rightarrow> HandToPeer e)
      else CloseConnection)"

definition Pending_Error :: "collector_error \<Rightarrow> 'p pending_result" where
  "Pending_Error e = (if e = PARSING_ERROR then KeepWaiting else CloseConnection)"

subsection \<open>Steps of a peer\<close>

text \<open>An event carries what its action reads.\<close>

definition wf_param :: "ev_param \<Rightarrow> bool" where
  "wf_param ep \<longleftrightarrow>
     (ep_event ep = PEV_R_CONN_CER \<longrightarrow> ep_msg ep \<noteq> None \<and> ep_io ep \<noteq> None) \<and>
     (ep_event ep = PEV_I_RCV_CONN_ACK \<longrightarrow> ep_io ep \<noteq> None) \<and>
     (ep_event ep \<in> {PEV_R_RCV_CEA, PEV_I_RCV_CEA, PEV_R_RCV_MESSAGE, PEV_I_RCV_MESSAGE, PEV_R_RCV_DWR,
        PEV_I_RCV_DWR, PEV_R_RCV_DWA, PEV_I_RCV_DWA, PEV_R_RCV_DPR, PEV_I_RCV_DPR, PEV_R_RCV_CER,
        PEV_I_RCV_CER, PEV_R_RCV_DPA, PEV_I_RCV_DPA} \<longrightarrow> ep_msg ep \<noteq> None)"

text \<open>
  The calls and timer expirations a peer can meet. Two are left out, because they read a null
  pointer whenever they happen: serving a refused connection attempt while an incoming connection
  waits for the election, and a collector error that calls \<open>Cleanup\<close> directly.
\<close>

inductive peer_step :: "cfg \<Rightarrow> peer \<Rightarrow> peer \<Rightarrow> bool" for c :: cfg where
  step_start: "peer_step c m (EntryStart m)"
| step_stop: "peer_step c m (EntryStop cause m)"
| step_incoming: "peer_step c m (IncommingConnectionRequest i cer m)"
| step_accepted: "peer_step c m (ConnectionRequestAccepted i m)"
| step_failed: "peer_step c m (ConnectionRequestFailed m)"
| step_message: "peer_step c m (EntryMessage msg m)"
| step_error: "e = PARSING_ERROR \<or> (e = TRANSPORT_ERROR \<or> e = CORRUPTED_BYTE_STREAM) \<and>
                 (name = IO_ACCEPTOR_NAME \<or> name = IO_CONNECTOR_NAME)
               \<Longrightarrow> peer_step c m (EntryError e name m)"
| step_timeout: "peer_step c m (peer_Timeout ty m)"
| step_send: "peer_step c m (snd (peer_Send msg m))"
| step_serve: "pm_queue m = ep # q \<Longrightarrow>
               \<not> (ep_event ep = PEV_I_RCV_CONN_NACK \<and> fsm_state m = PST_WAIT_CONN_ACK_ELECT)
               \<Longrightarrow> peer_step c m (peer_Serve c m)"

inductive_cases peer_stepE: "peer_step c m m'"

subsection \<open>The invariant\<close>

text \<open>The connections a state needs are there.\<close>

definition conn_ok :: "peer \<Rightarrow> bool" where
  "conn_ok m \<longleftrightarrow>
     (fsm_state m \<in> {PST_WAIT_I_CEA, PST_I_OPEN, PST_WAIT_RETURNS} \<longrightarrow> pd_IOInitiator m \<noteq> None) \<and>
     (fsm_state m \<in> {PST_WAIT_CONN_ACK_ELECT, PST_WAIT_RETURNS, PST_R_OPEN} \<longrightarrow> pd_IOResponder m \<noteq> None)"

text \<open>A state that waits has the timer that ends it, an open state the watchdog.\<close>

definition timer_ok :: "cfg \<Rightarrow> peer \<Rightarrow> bool" where
  "timer_ok c m \<longleftrightarrow>
     (fsm_state m \<in> {PST_WAIT_CONN_ACK, PST_WAIT_I_CEA, PST_WAIT_CONN_ACK_ELECT, PST_WAIT_RETURNS, PST_CLOSING}
        \<longrightarrow> fsm_timers m TM_TIMEOUT = Some (PEV_TIMEOUT, CONNECT_ATTEMPT_TOUT)) \<and>
     (fsm_state m \<in> {PST_I_OPEN, PST_R_OPEN}
        \<longrightarrow> fsm_timers m TM_WATCHDOG = Some (PEV_WATCHDOG, cf_watchdog_timeout c))"

text \<open>While an incoming connection waits for the election, its peer is a validated one.\<close>

definition valid_ok :: "cfg \<Rightarrow> peer \<Rightarrow> bool" where
  "valid_ok c m \<longleftrightarrow>
     (fsm_state m \<in> {PST_WAIT_CONN_ACK_ELECT, PST_WAIT_RETURNS} \<longrightarrow> fst (ValidatePeer c (pd_TLS m) (pd_caps m)))"

definition peer_good :: "cfg \<Rightarrow> peer \<Rightarrow> bool" where
  "peer_good c m \<longleftrightarrow> fsm_running m \<and> \<not> pm_fault m \<and> conn_ok m \<and> timer_ok c m \<and> valid_ok c m \<and>
     (\<forall>ep \<in> set (pm_queue m). wf_param ep)"

definition ev_enabled :: "peer_ev \<Rightarrow> peer \<Rightarrow> bool" where
  "ev_enabled ev m \<longleftrightarrow>
     (\<exists>ep. pm_current m = Some ep \<and> ep_event ep = ev \<and> wf_param ep \<and>
           \<not> (ev = PEV_I_RCV_CONN_NACK \<and> fsm_state m = PST_WAIT_CONN_ACK_ELECT))"

lemmas good_defs = peer_good_def conn_ok_def timer_ok_def valid_ok_def


subsection \<open>What the operations leave alone\<close>

lemma emit_frame [frame_simps]:
  "fsm_state (emit x m) = fsm_state m" "fsm_running (emit x m) = fsm_running m"
  "fsm_timers (emit x m) = fsm_timers m" "pm_fault (emit x m) = pm_fault m"
  "pm_queue (emit x m) = pm_queue m" "pm_current (emit x m) = pm_current m"
  "pd_IOInitiator (emit x m) = pd_IOInitiator m" "pd_IOResponder (emit x m) = pd_IOResponder m"
  "pd_caps (emit x m) = pd_caps m" "pd_TLS (emit x m) = pd_TLS m"
  by (simp_all add: emit_def)

lemma gc_opt_frame [frame_simps]:
  "fsm_state (gc_opt i m) = fsm_state m" "fsm_running (gc_opt i m) = fsm_running m"
  "fsm_timers (gc_opt i m) = fsm_timers m" "pm_fault (gc_opt i m) = pm_fault m"
  "pm_queue (gc_opt i m) = pm_queue m" "pm_current (gc_opt i m) = pm_current m"
  "pd_IOInitiator (gc_opt i m) = pd_IOInitiator m" "pd_IOResponder (gc_opt i m) = pd_IOResponder m"
  "pd_caps (gc_opt i m) = pd_caps m" "pd_TLS (gc_opt i m) = pd_TLS m"
  by (simp_all add: gc_opt_def frame_simps split: option.split)

lemma drop_opt_frame [frame_simps]:
  "fsm_state (drop_opt i m) = fsm_state m" "fsm_running (drop_opt i m) = fsm_running m"
  "fsm_timers (drop_opt i m) = fsm_timers m" "pm_fault (drop_opt i m) = pm_fault m"
  "pm_queue (drop_opt i m) = pm_queue m" "pm_current (drop_opt i m) = pm_current m"
  "pd_IOInitiator (drop_opt i m) = pd_IOInitiator m" "pd_IOResponder (drop_opt i m) = pd_IOResponder m"
  "pd_caps (drop_opt i m) = pd_caps m" "pd_TLS (drop_opt i m) = pd_TLS m"
  by (simp_all add: drop_opt_def frame_simps split: option.split)

lemma timer_peer_frame [frame_simps]:
  "pm_fault (ScheduleTimer ev sec ty m) = pm_fault m" "pm_fault (CancelTimer ty m) = pm_fault m"
  "pm_queue (ScheduleTimer ev sec ty m) = pm_queue m" "pm_queue (CancelTimer ty m) = pm_queue m"
  "pm_current (ScheduleTimer ev sec ty m) = pm_current m" "pm_current (CancelTimer ty m) = pm_current m"
  "pd_IOInitiator (ScheduleTimer ev sec ty m) = pd_IOInitiator m"
  "pd_IOInitiator (CancelTimer ty m) = pd_IOInitiator m"
  "pd_IOResponder (ScheduleTimer ev sec ty m) = pd_IOResponder m"
  "pd_IOResponder (CancelTimer ty m) = pd_IOResponder m"
  "pd_caps (ScheduleTimer ev sec ty m) = pd_caps m" "pd_caps (CancelTimer ty m) = pd_caps m"
  "pd_TLS (ScheduleTimer ev sec ty m) = pd_TLS m" "pd_TLS (CancelTimer ty m) = pd_TLS m"
  by (simp_all add: ScheduleTimer_def CancelTimer_def Let_def)

lemma MsgIdTxMessage_frame [frame_simps]:
  "fsm_state (snd (MsgIdTxMessage c h m)) = fsm_state m"
  "fsm_running (snd (MsgIdTxMessage c h m)) = fsm_running m"
  "fsm_timers (snd (MsgIdTxMessage c h m)) = fsm_timers m"
  "pm_fault (snd (MsgIdTxMessage c h m)) = pm_fault m"
  "pm_queue (snd (MsgIdTxMessage c h m)) = pm_queue m"
  "pm_current (snd (MsgIdTxMessage c h m)) = pm_current m"
  "pd_IOInitiator (snd (MsgIdTxMessage c h m)) = pd_IOInitiator m"
  "pd_IOResponder (snd (MsgIdTxMessage c h m)) = pd_IOResponder m"
  "pd_caps (snd (MsgIdTxMessage c h m)) = pd_caps m"
  "pd_TLS (snd (MsgIdTxMessage c h m)) = pd_TLS m"
  by (simp_all add: MsgIdTxMessage_def Let_def split: prod.split)

lemma MsgIdRxMessage_frame [frame_simps]:
  "fsm_state (snd (MsgIdRxMessage h m)) = fsm_state m"
  "fsm_running (snd (MsgIdRxMessage h m)) = fsm_running m"
  "fsm_timers (snd (MsgIdRxMessage h m)) = fsm_timers m"
  "pm_fault (snd (MsgIdRxMessage h m)) = pm_fault m"
  "pm_queue (snd (MsgIdRxMessage h m)) = pm_queue m"
  "pm_current (snd (MsgIdRxMessage h m)) = pm_current m"
  "pd_IOInitiator (snd (MsgIdRxMessage h m)) = pd_IOInitiator m"
  "pd_IOResponder (snd (MsgIdRxMessage h m)) = pd_IOResponder m"
  "pd_caps (snd (MsgIdRxMessage h m)) = pd_caps m"
  "pd_TLS (snd (MsgIdRxMessage h m)) = pd_TLS m"
  by (simp_all add: MsgIdRxMessage_def Let_def split: prod.split)

text \<open>Two machines that agree on what the invariant reads, the queue and the event in service.\<close>

definition same_core :: "peer \<Rightarrow> peer \<Rightarrow> bool" where
  "same_core m m' \<longleftrightarrow> fsm_state m' = fsm_state m \<and> fsm_running m' = fsm_running m \<and>
     fsm_timers m' = fsm_timers m \<and> pm_fault m' = pm_fault m \<and> pm_queue m' = pm_queue m \<and>
     pm_current m' = pm_current m \<and> pd_IOInitiator m' = pd_IOInitiator m \<and>
     pd_IOResponder m' = pd_IOResponder m \<and> pd_caps m' = pd_caps m \<and> pd_TLS m' = pd_TLS m"

lemma same_core_good: "same_core m m' \<Longrightarrow> peer_good c m' = peer_good c m"
  by (simp add: same_core_def good_defs)

lemma same_core_refl [simp]: "same_core m m"
  by (simp add: same_core_def)

lemma same_core_emit [simp]: "same_core m (emit x m)"
  by (simp add: same_core_def frame_simps)

lemma same_core_SendCE:
  assumes "pd_IOInitiator m \<noteq> None \<or> pd_IOResponder m \<noteq> None"
  shows "same_core m (SendCER c m)" "same_core m (SendCEA c rcode message m)"
  using assms
  by (auto simp: SendCER_def SendCEA_def AssembleCE_def sctp_in_use_def Let_def case_prod_beta
      same_core_def frame_simps split: option.splits)

lemma same_core_Send:
  "same_core m (SendDWR c m)" "same_core m (SendDWA c rcode message m)"
  "same_core m (SendDPR c i m)" "same_core m (SendDPA c i rcode m)"
  by (simp_all add: SendDWR_def SendDWA_def SendDPR_def SendDPA_def AssembleDW_def AssembleDP_def
      Let_def case_prod_beta same_core_def frame_simps)

text \<open>A whole cleanup in the service of an event leaves a closed machine.\<close>

lemma Cleanup_closed:
  assumes "pm_current m = Some ep"
  shows "fsm_state (Cleanup i r True m) = PST_CLOSED" "fsm_running (Cleanup i r True m)"
    "pm_fault (Cleanup i r True m) = pm_fault m" "pm_queue (Cleanup i r True m) = pm_queue m"
    "pd_TLS (Cleanup i r True m) = pd_TLS m"
    "pm_current (Cleanup i r True m) = Some (ep\<lparr>ep_msg := None, ep_io := None\<rparr>)"
    "pd_IOInitiator (Cleanup i r True m) = (if i then None else pd_IOInitiator m)"
    "pd_IOResponder (Cleanup i r True m) = (if r then None else pd_IOResponder m)"
  using assms
  by (simp_all add: Cleanup_def Let_def StopReConnect_def fsm_Start_def fsm_Stop_def frame_simps)

lemma good_closed:
  "fsm_running m \<Longrightarrow> \<not> pm_fault m \<Longrightarrow> fsm_state m = PST_CLOSED \<Longrightarrow>
   \<forall>ep \<in> set (pm_queue m). wf_param ep \<Longrightarrow> peer_good c m"
  by (simp add: good_defs)

lemma good_Cleanup:
  "pm_current m = Some ep \<Longrightarrow> \<not> pm_fault m \<Longrightarrow> \<forall>ep \<in> set (pm_queue m). wf_param ep \<Longrightarrow>
   peer_good c (Cleanup i r True m)"
  by (rule good_closed) (simp_all add: Cleanup_closed)

lemma good_DoReConnect: "peer_good c m \<Longrightarrow> fsm_state m = PST_CLOSED \<Longrightarrow> peer_good c (DoReConnect c m)"
  by (auto simp: DoReConnect_def good_defs frame_simps)

lemma good_emit [simp]: "peer_good c (emit x m) = peer_good c m"
  by (simp add: same_core_good)

lemma good_Notify:
  "peer_good c m \<Longrightarrow> wf_param \<lparr>ep_event = ev, ep_msg = msg, ep_io = i\<rparr> \<Longrightarrow> peer_good c (Notify ev msg i m)"
  by (auto simp: Notify_def good_defs PQ_Enqueue_def)


subsection \<open>Every action keeps the invariant\<close>

lemma with_msg_Some:
  "pm_current m = Some ep \<Longrightarrow> ep_msg ep = Some msg \<Longrightarrow>
   with_msg f m = f msg (m\<lparr>pm_current := Some (ep\<lparr>ep_msg := None\<rparr>)\<rparr>)"
  by (simp add: with_msg_def)

lemma take_Some:
  "pm_current m = Some ep \<Longrightarrow> take_responder m =
     (drop_opt (pd_IOResponder m) m)\<lparr>pd_IOResponder := ep_io ep, pm_current := Some (ep\<lparr>ep_io := None\<rparr>)\<rparr>"
  "pm_current m = Some ep \<Longrightarrow> take_initiator m =
     (drop_opt (pd_IOInitiator m) m)\<lparr>pd_IOInitiator := ep_io ep, pm_current := Some (ep\<lparr>ep_io := None\<rparr>)\<rparr>"
  by (simp_all add: take_responder_def take_initiator_def)

lemmas arm_defs = arm_watchdog_def arm_timeout_def StopReConnect_def

lemma good_SendCE:
  "pd_IOInitiator m \<noteq> None \<or> pd_IOResponder m \<noteq> None \<Longrightarrow> peer_good c (SendCER c m) = peer_good c m"
  "pd_IOInitiator m \<noteq> None \<or> pd_IOResponder m \<noteq> None \<Longrightarrow> peer_good c (SendCEA c rcode message m) = peer_good c m"
  by (simp_all add: same_core_good [OF same_core_SendCE(1)] same_core_good [OF same_core_SendCE(2)])

lemma SendCE_frame:
  assumes "pd_IOInitiator m \<noteq> None \<or> pd_IOResponder m \<noteq> None"
  shows "fsm_state (SendCEA c r s m) = fsm_state m" "fsm_running (SendCEA c r s m) = fsm_running m"
    "fsm_timers (SendCEA c r s m) = fsm_timers m" "pm_fault (SendCEA c r s m) = pm_fault m"
    "pm_queue (SendCEA c r s m) = pm_queue m" "pm_current (SendCEA c r s m) = pm_current m"
    "pd_IOInitiator (SendCEA c r s m) = pd_IOInitiator m" "pd_IOResponder (SendCEA c r s m) = pd_IOResponder m"
    "pd_caps (SendCEA c r s m) = pd_caps m" "pd_TLS (SendCEA c r s m) = pd_TLS m"
    "fsm_state (SendCER c m) = fsm_state m" "fsm_running (SendCER c m) = fsm_running m"
    "fsm_timers (SendCER c m) = fsm_timers m" "pm_fault (SendCER c m) = pm_fault m"
    "pm_queue (SendCER c m) = pm_queue m" "pm_current (SendCER c m) = pm_current m"
    "pd_IOInitiator (SendCER c m) = pd_IOInitiator m" "pd_IOResponder (SendCER c m) = pd_IOResponder m"
    "pd_caps (SendCER c m) = pd_caps m" "pd_TLS (SendCER c m) = pd_TLS m"
  using same_core_SendCE [OF assms, of c] same_core_SendCE(2) [OF assms, of c r s]
  by (simp_all add: same_core_def)

lemma Send_frame [frame_simps]:
  "fsm_state (SendDPR c i m) = fsm_state m" "fsm_running (SendDPR c i m) = fsm_running m"
  "pm_fault (SendDPA c i r m) = pm_fault m" "pm_queue (SendDPA c i r m) = pm_queue m"
  "pm_current (SendDPA c i r m) = pm_current m"
  using same_core_Send(3) [of m c i] same_core_Send(4) [of m c i r] by (simp_all add: same_core_def)

lemmas good_Send = same_core_Send [THEN same_core_good]

text \<open>The hypotheses of every case: a good machine in the service of an event that carries its data.\<close>

definition serving :: "cfg \<Rightarrow> peer \<Rightarrow> ev_param \<Rightarrow> bool" where
  "serving c m ep \<longleftrightarrow> peer_good c m \<and> pm_current m = Some ep \<and> wf_param ep"

lemmas serving_simps = serving_def good_defs wf_param_def with_msg_Some take_Some frame_simps
  arm_defs read_caps_def fsm_simps

lemma keep_ISendConnReq: "serving c m ep \<Longrightarrow> peer_good c (ac_ISendConnReq (m\<lparr>fsm_state := PST_WAIT_CONN_ACK\<rparr>))"
  by (simp add: ac_ISendConnReq_def serving_simps)

lemma serving_closed:
  "serving c m ep \<Longrightarrow> peer_good c (Cleanup i r True (m\<lparr>fsm_state := st\<rparr>))"
  "serving c m ep \<Longrightarrow> fsm_state (Cleanup i r True (m\<lparr>fsm_state := st\<rparr>)) = PST_CLOSED"
  by (auto simp: serving_def Cleanup_closed peer_good_def [of c m] intro: good_Cleanup)

lemma keep_simple:
  "serving c m ep \<Longrightarrow> peer_good c (ac_Cleanup (m\<lparr>fsm_state := st\<rparr>))"
  "serving c m ep \<Longrightarrow> peer_good c (ac_Error (m\<lparr>fsm_state := st\<rparr>))"
  "serving c m ep \<Longrightarrow> peer_good c (ac_ConnNack c (m\<lparr>fsm_state := st\<rparr>))"
  "serving c m ep \<Longrightarrow> peer_good c (ac_Disconnect c (m\<lparr>fsm_state := st\<rparr>))"
  by (simp_all add: ac_Cleanup_def ac_Error_def ac_ConnNack_def ac_Disconnect_def serving_closed
      good_DoReConnect)

lemma keep_ReConnect: "serving c m ep \<Longrightarrow> peer_good c (ac_ReConnect (m\<lparr>fsm_state := PST_CLOSED\<rparr>))"
  unfolding ac_ReConnect_def EntryStart_def good_emit
  by (rule good_Notify) (simp_all add: serving_simps)


lemma good_DoElect:
  assumes "peer_good c m" "pm_current m = Some ep"
  shows "peer_good c (DoElect c m)"
proof (cases "Elect (cf_identity c) (cap_Host (pd_caps m))")
  case ElectSameHost
  with assms show ?thesis by (simp add: DoElect_def good_defs Cleanup_closed)
next
  case ElectWin
  have "wf_param \<lparr>ep_event = PEV_WIN_ELECTION, ep_msg = None, ep_io = None\<rparr>"
    by (simp add: wf_param_def)
  with assms ElectWin show ?thesis by (simp add: DoElect_def good_Notify)
next
  case ElectLose
  with assms show ?thesis by (simp add: DoElect_def)
qed

lemma serving_cer:
  assumes "serving c m ep" "ep_event ep = PEV_R_CONN_CER"
  obtains cer i where "ep_msg ep = Some cer" "ep_io ep = Some i"
  using assms by (auto simp: serving_def wf_param_def)

lemma serving_ack:
  assumes "serving c m ep" "ep_event ep = PEV_I_RCV_CONN_ACK"
  obtains i where "ep_io ep = Some i"
  using assms by (auto simp: serving_def wf_param_def)

lemma servingD:
  assumes "serving c m ep"
  shows "fsm_running m" "\<not> pm_fault m" "pm_current m = Some ep" "\<forall>ep \<in> set (pm_queue m). wf_param ep"
    "conn_ok m" "timer_ok c m" "valid_ok c m"
  using assms by (simp_all add: serving_def peer_good_def)

lemmas run_simps = with_msg_Some take_Some frame_simps read_caps_def Let_def

lemma keep_RAcceptSendCEA:
  assumes "serving c m ep" "ep_event ep = PEV_R_CONN_CER"
  shows "peer_good c (ac_RAcceptSendCEA c (m\<lparr>fsm_state := PST_R_OPEN\<rparr>))"
proof -
  note m = servingD [OF assms(1)]
  obtain cer i where d: "ep_msg ep = Some cer" "ep_io ep = Some i" by (rule serving_cer [OF assms])
  obtain v r s where "ValidatePeer c (pd_TLS m) (DisassembleCE (m_acl cer)) = (v, r, s)"
    by (metis prod_cases3)
  with m d show ?thesis
    by (cases v) (simp_all add: ac_RAcceptSendCEA_def run_simps SendCE_frame Cleanup_closed
        good_defs arm_defs fsm_simps)
qed

lemma keep_RAccept:
  assumes "serving c m ep" "ep_event ep = PEV_R_CONN_CER" "fsm_state m = PST_WAIT_CONN_ACK"
  shows "peer_good c (ac_RAccept c (m\<lparr>fsm_state := PST_WAIT_CONN_ACK_ELECT\<rparr>))"
proof -
  note m = servingD [OF assms(1)]
  obtain cer i where d: "ep_msg ep = Some cer" "ep_io ep = Some i" by (rule serving_cer [OF assms(1,2)])
  obtain v r s where "ValidatePeer c (pd_TLS m) (DisassembleCE (m_acl cer)) = (v, r, s)"
    by (metis prod_cases3)
  with m d assms(3) show ?thesis
    by (cases v) (simp_all add: ac_RAccept_def run_simps Cleanup_closed good_defs)
qed


lemma keep_RAcceptElect:
  assumes "serving c m ep" "ep_event ep = PEV_R_CONN_CER" "fsm_state m = PST_WAIT_I_CEA"
  shows "peer_good c (ac_RAcceptElect c (m\<lparr>fsm_state := PST_WAIT_RETURNS\<rparr>))"
proof -
  note m = servingD [OF assms(1)]
  obtain cer i where d: "ep_msg ep = Some cer" "ep_io ep = Some i" by (rule serving_cer [OF assms(1,2)])
  obtain v r s where v: "ValidatePeer c (pd_TLS m) (DisassembleCE (m_acl cer)) = (v, r, s)"
    by (metis prod_cases3)
  show ?thesis
  proof (cases v)
    case False
    with m d v assms(3) show ?thesis
      by (simp add: ac_RAcceptElect_def run_simps Cleanup_closed good_defs)
  next
    case True
    let ?m = "(drop_opt (pd_IOResponder m) (m\<lparr>fsm_state := PST_WAIT_RETURNS\<rparr>))
      \<lparr>pd_IOResponder := Some i, pm_current := Some (ep\<lparr>ep_io := None, ep_msg := None\<rparr>),
       pd_caps := DisassembleCE (m_acl cer)\<rparr>"
    have "ac_RAcceptElect c (m\<lparr>fsm_state := PST_WAIT_RETURNS\<rparr>) = DoElect c ?m"
      using True m d v by (simp add: ac_RAcceptElect_def run_simps)
    moreover have "peer_good c (DoElect c ?m)"
      by (rule good_DoElect) (use True m d v assms(3) in \<open>simp_all add: good_defs run_simps\<close>)
    ultimately show ?thesis by simp
  qed
qed

lemma keep_ISendCER:
  assumes "serving c m ep" "ep_event ep = PEV_I_RCV_CONN_ACK"
  shows "fsm_state m = PST_WAIT_CONN_ACK \<Longrightarrow> peer_good c (ac_ISendCER c (m\<lparr>fsm_state := PST_WAIT_I_CEA\<rparr>))"
    "fsm_state m = PST_WAIT_CONN_ACK_ELECT \<Longrightarrow> peer_good c (ac_ISendCERElect c (m\<lparr>fsm_state := PST_WAIT_RETURNS\<rparr>))"
proof -
  note m = servingD [OF assms(1)]
  obtain i where d: "ep_io ep = Some i" by (rule serving_ack [OF assms])
  show "peer_good c (ac_ISendCER c (m\<lparr>fsm_state := PST_WAIT_I_CEA\<rparr>))" if "fsm_state m = PST_WAIT_CONN_ACK"
    using m d that by (simp add: ac_ISendCER_def run_simps SendCE_frame good_defs)
  show "peer_good c (ac_ISendCERElect c (m\<lparr>fsm_state := PST_WAIT_RETURNS\<rparr>))" if "fsm_state m = PST_WAIT_CONN_ACK_ELECT"
    unfolding ac_ISendCERElect_def
    by (rule good_DoElect) (use m d that in \<open>simp_all add: run_simps SendCE_frame good_defs\<close>)
qed

lemma keep_ProcessCEA:
  assumes "serving c m ep" "ep_msg ep = Some cea"
    "fsm_state m \<in> {PST_WAIT_I_CEA, PST_I_OPEN} \<and> st = PST_I_OPEN \<or> fsm_state m = PST_R_OPEN \<and> st = PST_R_OPEN"
  shows "peer_good c (ac_ProcessCEA c (m\<lparr>fsm_state := st\<rparr>))"
  using servingD [OF assms(1)] assms(2,3)
  by (cases "MsgResult cea = RCODE_SUCCESS")
    (elim disjE conjE; simp add: ac_ProcessCEA_def run_simps Cleanup_closed arm_defs fsm_simps good_defs)+

lemma keep_RDisconnectIOpen:
  assumes "serving c m ep" "ep_msg ep = Some cea" "fsm_state m = PST_WAIT_RETURNS"
  shows "peer_good c (ac_RDisconnectIOpen c (m\<lparr>fsm_state := PST_I_OPEN\<rparr>))"
  using servingD [OF assms(1)] assms(2,3)
  by (cases "MsgResult cea = RCODE_SUCCESS")
    (simp_all add: ac_RDisconnectIOpen_def run_simps Cleanup_closed arm_defs fsm_simps good_defs)

lemma keep_RDisconnectResp:
  assumes "serving c m ep"
    "fsm_state m = PST_WAIT_CONN_ACK_ELECT \<and> st = PST_WAIT_CONN_ACK \<or>
     fsm_state m = PST_WAIT_RETURNS \<and> st = PST_WAIT_I_CEA"
  shows "peer_good c (ac_RDisconnectResp (m\<lparr>fsm_state := st\<rparr>))"
  using servingD [OF assms(1)] assms(2)
  by (elim disjE conjE) (simp_all add: ac_RDisconnectResp_def run_simps good_defs)

lemma keep_IDisconnectSendCEA:
  assumes "serving c m ep" "fsm_state m = PST_WAIT_RETURNS"
  shows "peer_good c (ac_IDisconnectSendCEA c (m\<lparr>fsm_state := PST_R_OPEN\<rparr>))"
  using servingD [OF assms(1)] assms(2)
  by (simp add: ac_IDisconnectSendCEA_def run_simps SendCE_frame arm_defs fsm_simps good_defs)

lemma keep_CER_open:
  assumes "serving c m ep" "ep_msg ep = Some cer" "fsm_state m = PST_I_OPEN \<or> fsm_state m = PST_R_OPEN"
  shows "peer_good c (ac_RSendCEAOpen c m)" "peer_good c (ac_ISendCEA c m)"
proof -
  obtain v r s where "ValidatePeer c (pd_TLS m) (DisassembleCE (m_acl cer)) = (v, r, s)"
    by (metis prod_cases3)
  with servingD [OF assms(1)] assms(2,3)
  show "peer_good c (ac_RSendCEAOpen c m)" "peer_good c (ac_ISendCEA c m)"
    by (elim disjE; simp add: ac_RSendCEAOpen_def ac_ISendCEA_def run_simps SendCE_frame good_defs)+
qed

lemma keep_message:
  assumes "serving c m ep" "ep_msg ep = Some msg"
  shows "peer_good c (ac_Process m)" "peer_good c (ac_ProcessDWRSendDWA c m)" "peer_good c (ac_ProcessDWA m)"
  using servingD [OF assms(1)] assms(2)
  by (simp_all add: ac_Process_def ac_ProcessDWRSendDWA_def ac_ProcessDWA_def run_simps good_Send)
    (simp_all add: good_defs Cleanup_closed)


lemma keep_goodbye:
  assumes "serving c m ep" "ep_msg ep = Some msg"
  shows "peer_good c (ac_SendDPADisconnect c i (m\<lparr>fsm_state := PST_CLOSED\<rparr>))"
    "peer_good c (ac_DisconnectDPA c (m\<lparr>fsm_state := PST_CLOSED\<rparr>))"
proof -
  note m = servingD [OF assms(1)]
  show "peer_good c (ac_SendDPADisconnect c i (m\<lparr>fsm_state := PST_CLOSED\<rparr>))"
    using m assms(2) by (simp add: ac_SendDPADisconnect_def run_simps Cleanup_closed good_defs)
  have "peer_good c (CleanupAll (emit (UpDisconnected (pd_DisconnectCause m))
          (m\<lparr>fsm_state := PST_CLOSED, pm_current := Some (ep\<lparr>ep_msg := None\<rparr>)\<rparr>)))"
    using m by (intro good_Cleanup) (simp_all add: frame_simps)
  then show "peer_good c (ac_DisconnectDPA c (m\<lparr>fsm_state := PST_CLOSED\<rparr>))"
    using m assms(2)
    by (simp add: ac_DisconnectDPA_def run_simps good_DoReConnect Cleanup_closed)
qed

lemma keep_SendDPR:
  assumes "serving c m ep"
  shows "peer_good c (ac_SendDPR c i (m\<lparr>fsm_state := PST_CLOSING\<rparr>))"
  using servingD [OF assms(1)]
  by (simp add: ac_SendDPR_def good_Send) (simp add: run_simps good_defs arm_defs fsm_simps)

lemma keep_RReject: "serving c m ep \<Longrightarrow> peer_good c (ac_RReject m)"
  using servingD [of c m ep] by (simp add: ac_RReject_def good_defs frame_simps)

lemma keep_plain:
  assumes "serving c m ep"
  shows "peer_good c m" "peer_good c (ac_SendMessage m)" "peer_good c (ac_Watchdog c m)"
  using assms by (simp_all add: serving_def ac_SendMessage_def ac_Watchdog_def good_Send)

lemma serving_same_state: "fsm_state m = st \<Longrightarrow> m\<lparr>fsm_state := st\<rparr> = m"
  by (cases m) simp

lemma keep_stay:
  assumes "serving c m ep" "fsm_state m = st"
  shows "peer_good c (m\<lparr>fsm_state := st\<rparr>)" "peer_good c (ac_SendMessage (m\<lparr>fsm_state := st\<rparr>))"
    "peer_good c (ac_Watchdog c (m\<lparr>fsm_state := st\<rparr>))" "peer_good c (ac_RReject (m\<lparr>fsm_state := st\<rparr>))"
    "ep_msg ep = Some msg \<Longrightarrow> peer_good c (ac_Process (m\<lparr>fsm_state := st\<rparr>))"
    "ep_msg ep = Some msg \<Longrightarrow> peer_good c (ac_ProcessDWRSendDWA c (m\<lparr>fsm_state := st\<rparr>))"
    "ep_msg ep = Some msg \<Longrightarrow> peer_good c (ac_ProcessDWA (m\<lparr>fsm_state := st\<rparr>))"
    "ep_msg ep = Some msg \<Longrightarrow> st = PST_R_OPEN \<Longrightarrow> peer_good c (ac_RSendCEAOpen c (m\<lparr>fsm_state := st\<rparr>))"
    "ep_msg ep = Some msg \<Longrightarrow> st = PST_I_OPEN \<Longrightarrow> peer_good c (ac_ISendCEA c (m\<lparr>fsm_state := st\<rparr>))"
  using keep_plain [OF assms(1)] keep_RReject [OF assms(1)] keep_message [OF assms(1)]
    keep_CER_open [OF assms(1)] assms(2)
  by (simp_all add: serving_same_state)

lemmas keep_rules = keep_ISendConnReq keep_simple keep_ReConnect keep_RAcceptSendCEA keep_RAccept
  keep_RAcceptElect keep_ISendCER keep_ProcessCEA keep_RDisconnectIOpen keep_RDisconnectResp
  keep_IDisconnectSendCEA keep_goodbye keep_SendDPR keep_stay

text \<open>The table, one state at a time.\<close>

definition peer_cmd_ok :: "cfg \<Rightarrow> peer \<Rightarrow> ev_param \<Rightarrow> peer_entry \<Rightarrow> bool" where
  "peer_cmd_ok c m ep e \<longleftrightarrow>
     (fsm_state m = prevState e \<longrightarrow> Some (ep_event ep) = entryEvent e \<or> entryEvent e = None \<longrightarrow>
      peer_good c (peer_act c (entryAction e) (m\<lparr>fsm_state := nextState e\<rparr>)))"

lemma serving_message:
  assumes "serving c m ep"
    "ep_event ep \<in> {PEV_R_RCV_CEA, PEV_I_RCV_CEA, PEV_R_RCV_MESSAGE, PEV_I_RCV_MESSAGE, PEV_R_RCV_DWR,
        PEV_I_RCV_DWR, PEV_R_RCV_DWA, PEV_I_RCV_DWA, PEV_R_RCV_DPR, PEV_I_RCV_DPR, PEV_R_RCV_CER,
        PEV_I_RCV_CER, PEV_R_RCV_DPA, PEV_I_RCV_DPA}"
  shows "\<exists>x. ep_msg ep = Some x"
  using assms unfolding serving_def wf_param_def by blast

lemma closed_cmds_keep: "serving c m ep \<Longrightarrow> \<forall>e \<in> set peer_closed_cmds. peer_cmd_ok c m ep e"
  using keep_rules [of c m ep] by (auto simp: peer_closed_cmds_def peer_cmd_ok_def)

lemma wait_conn_ack_cmds_keep: "serving c m ep \<Longrightarrow> \<forall>e \<in> set peer_wait_conn_ack_cmds. peer_cmd_ok c m ep e"
  using keep_rules [of c m ep] by (auto simp: peer_wait_conn_ack_cmds_def peer_cmd_ok_def serving_same_state)

lemma wait_i_cea_cmds_keep: "serving c m ep \<Longrightarrow> \<forall>e \<in> set peer_wait_i_cea_cmds. peer_cmd_ok c m ep e"
  using keep_rules [of c m ep] serving_message [of c m ep]
  by (auto simp: peer_wait_i_cea_cmds_def peer_cmd_ok_def serving_same_state)

lemma elect_cmds_keep:
  "serving c m ep \<Longrightarrow> ep_event ep \<noteq> PEV_I_RCV_CONN_NACK \<Longrightarrow>
   \<forall>e \<in> set peer_wait_conn_ack_elect_cmds. peer_cmd_ok c m ep e"
  using keep_rules [of c m ep] by (auto simp: peer_wait_conn_ack_elect_cmds_def peer_cmd_ok_def serving_same_state)

lemma wait_returns_cmds_keep: "serving c m ep \<Longrightarrow> \<forall>e \<in> set peer_wait_returns_cmds. peer_cmd_ok c m ep e"
  using keep_rules [of c m ep] serving_message [of c m ep]
  by (auto simp: peer_wait_returns_cmds_def peer_cmd_ok_def serving_same_state)

lemma r_open_cmds_keep: "serving c m ep \<Longrightarrow> \<forall>e \<in> set peer_r_open_cmds. peer_cmd_ok c m ep e"
  using keep_rules [of c m ep] serving_message [of c m ep]
  by (auto simp: peer_r_open_cmds_def peer_cmd_ok_def serving_same_state)

lemma i_open_cmds_keep: "serving c m ep \<Longrightarrow> \<forall>e \<in> set peer_i_open_cmds. peer_cmd_ok c m ep e"
  using keep_rules [of c m ep] serving_message [of c m ep]
  by (auto simp: peer_i_open_cmds_def peer_cmd_ok_def serving_same_state)

lemma closing_cmds_keep: "serving c m ep \<Longrightarrow> \<forall>e \<in> set peer_closing_cmds. peer_cmd_ok c m ep e"
  using keep_rules [of c m ep] serving_message [of c m ep]
  by (auto simp: peer_closing_cmds_def peer_cmd_ok_def serving_same_state)

lemma elect_cmds_state: "e \<in> set peer_wait_conn_ack_elect_cmds \<Longrightarrow> prevState e = PST_WAIT_CONN_ACK_ELECT"
  by (auto simp: peer_wait_conn_ack_elect_cmds_def)

lemma peer_cmds_keep:
  assumes "serving c m ep" "e \<in> set peer_tbl" "prevState e = fsm_state m"
    "\<not> (ep_event ep = PEV_I_RCV_CONN_NACK \<and> fsm_state m = PST_WAIT_CONN_ACK_ELECT)"
  shows "peer_cmd_ok c m ep e"
proof (cases "e \<in> set peer_wait_conn_ack_elect_cmds")
  case True
  with assms elect_cmds_state [OF True] elect_cmds_keep [OF assms(1)] show ?thesis by auto
next
  case False
  have "e \<in> set peer_cmds" using assms(2) by (simp add: peer_table.entries_are_calls)
  with False closed_cmds_keep [OF assms(1)] wait_conn_ack_cmds_keep [OF assms(1)]
    wait_i_cea_cmds_keep [OF assms(1)] wait_returns_cmds_keep [OF assms(1)]
    r_open_cmds_keep [OF assms(1)] i_open_cmds_keep [OF assms(1)] closing_cmds_keep [OF assms(1)]
  show ?thesis unfolding peer_cmds_def set_append by blast
qed

interpretation peer_inv: machine_invariant peer_tbl "peer_act c" ev_enabled "peer_good c" for c
proof
  fix m :: peer and ev e
  assume "peer_good c m" "ev_enabled ev m" "e \<in> set peer_tbl" "prevState e = fsm_state m"
    "entryEvent e = Some ev \<or> entryEvent e = None"
  then show "peer_good c (peer_act c (entryAction e) (m\<lparr>fsm_state := nextState e\<rparr>))"
    using peer_cmds_keep [of c m _ e] by (auto simp: ev_enabled_def serving_def peer_cmd_ok_def)
qed

subsection \<open>The steps keep it\<close>

lemma good_drop_param: "peer_good c m \<Longrightarrow> peer_good c (drop_param m)"
  by (auto simp: drop_param_def good_defs frame_simps split: option.split)

lemma good_Serve:
  assumes "peer_good c m" "pm_queue m = ep # q"
    "\<not> (ep_event ep = PEV_I_RCV_CONN_NACK \<and> fsm_state m = PST_WAIT_CONN_ACK_ELECT)"
  shows "peer_good c (peer_Serve c m)"
proof -
  let ?m = "m\<lparr>pm_queue := q, pm_current := Some ep\<rparr>"
  have "peer_good c ?m" using assms(1,2) by (simp add: good_defs)
  moreover have "ev_enabled (ep_event ep) ?m"
    using assms by (simp add: ev_enabled_def peer_good_def)
  ultimately have "peer_good c (peer_Event c ?m (ep_event ep))"
    unfolding peer_Event_def by (rule peer_inv.event_keeps)
  with assms(2) show ?thesis by (simp add: peer_Serve_def PQ_Dequeue_def good_drop_param)
qed

lemma good_MsgIdRx: "peer_good c (snd (MsgIdRxMessage h m)) = peer_good c m"
  by (rule same_core_good) (simp add: same_core_def frame_simps)

lemma good_base_message:
  assumes "peer_good c m" "(cd, evs) \<in> set base_events"
  shows "peer_good c (base_message msg evs m)"
  using assms
  by (auto simp: base_message_def base_events_def pick_def wf_param_def intro!: good_Notify split: peer_st.split)

lemma good_EntryMessage: "peer_good c m \<Longrightarrow> peer_good c (EntryMessage msg m)"
  by (auto simp: EntryMessage_def case_prod_beta Let_def good_MsgIdRx wf_param_def
      intro!: good_Notify good_base_message dest!: map_of_SomeD split: option.split peer_st.split)

lemma good_Send_upcall: "peer_good c (snd (peer_Send msg m)) = peer_good c m"
  by (simp add: peer_Send_def split: peer_st.split)

subsection \<open>What holds of every action, whatever the state\<close>

text \<open>The timers that run raise the three timer events.\<close>

definition timers_ev :: "peer \<Rightarrow> bool" where
  "timers_ev m \<longleftrightarrow> (\<forall>ty ev sec. fsm_timers m ty = Some (ev, sec) \<longrightarrow> ev \<in> {PEV_TIMEOUT, PEV_CONN_RETRY, PEV_WATCHDOG})"

text \<open>
  The connections a peer answers for: the two members, those in the parameters of events, queued
  or in service, and those it has given away, to the garbage collector or by deletion.
\<close>

definition io_ms :: "io option \<Rightarrow> io multiset" where
  "io_ms i = (case i of None \<Rightarrow> {#} | Some x \<Rightarrow> {#x#})"

fun released :: "peer_out list \<Rightarrow> io multiset" where
  "released [] = {#}"
| "released (GcIO i # xs) = {#i#} + released xs"
| "released (DropIO i # xs) = {#i#} + released xs"
| "released (_ # xs) = released xs"

definition owned :: "peer \<Rightarrow> io multiset" where
  "owned m = io_ms (pd_IOInitiator m) + io_ms (pd_IOResponder m) +
     (case pm_current m of None \<Rightarrow> {#} | Some ep \<Rightarrow> io_ms (ep_io ep)) +
     sum_list (List.map (\<lambda>ep. io_ms (ep_io ep)) (pm_queue m)) + released (pm_out m)"

lemma released_append: "released (xs @ ys) = released xs + released ys"
  by (induction xs rule: released.induct) auto

lemma io_ms_simps [simp]: "io_ms None = {#}" "io_ms (Some i) = {#i#}"
  by (simp_all add: io_ms_def)

named_theorems steady \<open>operations that keep the connections in hand and the events of the timers\<close>

lemma owned_out [steady]:
  "owned (emit x m) = owned m + released [x]" "owned (gc_opt i m) = owned m + io_ms i"
  "owned (drop_opt i m) = owned m + io_ms i"
  by (auto simp: emit_def gc_opt_def drop_opt_def owned_def released_append split: option.split)

lemma owned_update [steady]:
  "owned (m\<lparr>fsm_state := st\<rparr>) = owned m" "owned (m\<lparr>pd_caps := cs\<rparr>) = owned m"
  "owned (m\<lparr>pm_ReconnectAttempt := n\<rparr>) = owned m" "owned (m\<lparr>pd_DisconnectCause := d\<rparr>) = owned m"
  "owned (m\<lparr>pd_LastTxHopId := t\<rparr>) = owned m" "owned (m\<lparr>pd_LastTxEndId := t\<rparr>) = owned m"
  "owned (m\<lparr>pd_LastRxHopId := r, pd_LastRxEndId := r'\<rparr>) = owned m"
  "owned (fault m) = owned m" "owned (fsm_Start st m) = owned m" "owned (fsm_Stop m) = owned m"
  "owned (CancelTimer ty m) = owned m" "owned (ScheduleTimer ev sec ty m) = owned m"
  by (simp_all add: owned_def fault_def fsm_Start_def fsm_Stop_def CancelTimer_def ScheduleTimer_def Let_def)

lemma timers_update [steady]:
  "timers_ev (m\<lparr>fsm_state := st\<rparr>) = timers_ev m" "timers_ev (m\<lparr>pd_caps := cs\<rparr>) = timers_ev m"
  "timers_ev (m\<lparr>pm_ReconnectAttempt := n\<rparr>) = timers_ev m"
  "timers_ev (m\<lparr>pd_DisconnectCause := d\<rparr>) = timers_ev m"
  "timers_ev (m\<lparr>pd_IOInitiator := i\<rparr>) = timers_ev m" "timers_ev (m\<lparr>pd_IOResponder := i\<rparr>) = timers_ev m"
  "timers_ev (m\<lparr>pm_current := p\<rparr>) = timers_ev m" "timers_ev (m\<lparr>pm_queue := q\<rparr>) = timers_ev m"
  "timers_ev (fault m) = timers_ev m" "timers_ev (fsm_Start st m) = timers_ev m"
  "timers_ev (fsm_Stop m) = timers_ev m" "timers_ev (emit x m) = timers_ev m"
  "timers_ev (gc_opt i m) = timers_ev m" "timers_ev (drop_opt i m) = timers_ev m"
  by (simp_all add: timers_ev_def fault_def fsm_Start_def fsm_Stop_def frame_simps)

lemma timers_Cancel: "timers_ev m \<Longrightarrow> timers_ev (CancelTimer ty m)"
  by (auto simp: timers_ev_def fsm_simps)

lemma timers_Schedule:
  "timers_ev m \<Longrightarrow> ev \<in> {PEV_TIMEOUT, PEV_CONN_RETRY, PEV_WATCHDOG} \<Longrightarrow> timers_ev (ScheduleTimer ev sec ty m)"
  by (auto simp: timers_ev_def fsm_simps)

lemmas timers_intros = timers_Cancel timers_Schedule

lemma MsgIdTx_steady [steady]:
  "owned (snd (MsgIdTxMessage c h m)) = owned m" "timers_ev (snd (MsgIdTxMessage c h m)) = timers_ev m"
  by (simp_all add: MsgIdTxMessage_def owned_def timers_ev_def Let_def split: prod.split)

lemma MsgIdRx_steady [steady]:
  "owned (snd (MsgIdRxMessage h m)) = owned m" "timers_ev (snd (MsgIdRxMessage h m)) = timers_ev m"
  by (simp_all add: MsgIdRxMessage_def owned_def timers_ev_def Let_def split: prod.split)

lemma Send_steady [steady]:
  "owned (SendCER c m) = owned m" "owned (SendCEA c r s m) = owned m" "owned (SendDWR c m) = owned m"
  "owned (SendDWA c r s m) = owned m" "owned (SendDPR c i m) = owned m" "owned (SendDPA c i r m) = owned m"
  "timers_ev (SendCER c m) = timers_ev m" "timers_ev (SendCEA c r s m) = timers_ev m"
  "timers_ev (SendDWR c m) = timers_ev m" "timers_ev (SendDWA c r s m) = timers_ev m"
  "timers_ev (SendDPR c i m) = timers_ev m" "timers_ev (SendDPA c i r m) = timers_ev m"
  by (auto simp: SendCER_def SendCEA_def SendDWR_def SendDWA_def SendDPR_def SendDPA_def AssembleCE_def
      AssembleDW_def AssembleDP_def Let_def case_prod_beta steady split: option.split)

lemma take_steady [steady]:
  "owned (take_responder m) = owned m" "owned (take_initiator m) = owned m"
  "timers_ev (take_responder m) = timers_ev m" "timers_ev (take_initiator m) = timers_ev m"
  by (auto simp: take_responder_def take_initiator_def steady split: option.split)
    (auto simp: owned_def drop_opt_def emit_def released_append split: option.split)

lemma gc_steady [steady]:
  "pd_IOResponder m = i \<Longrightarrow> owned ((gc_opt i m)\<lparr>pd_IOResponder := None\<rparr>) = owned m"
  "pd_IOInitiator m = i \<Longrightarrow> owned ((gc_opt i m)\<lparr>pd_IOInitiator := None\<rparr>) = owned m"
  by (auto simp: owned_def gc_opt_def emit_def released_append split: option.split)

lemma with_msg_owned:
  "(\<And>msg m. owned (f msg m) = owned m) \<Longrightarrow> owned m = x \<Longrightarrow> owned (with_msg f m) = x"
  by (auto simp: with_msg_def steady split: option.split) (auto simp: owned_def)

lemma with_msg_timers:
  "(\<And>msg m. timers_ev m \<Longrightarrow> timers_ev (f msg m)) \<Longrightarrow> timers_ev m \<Longrightarrow> timers_ev (with_msg f m)"
  by (auto simp: with_msg_def steady split: option.split)

lemma owned_Cleanup [steady]: "owned (Cleanup i r w m) = owned m"
proof -
  have a: "owned ((gc_opt (ep_io ep) m)\<lparr>pm_current := Some (ep\<lparr>ep_msg := None, ep_io := None\<rparr>)\<rparr>) = owned m"
    if "pm_current m = Some ep" for m :: peer and ep
    using that by (auto simp: owned_def gc_opt_def emit_def released_append split: option.split)
  show ?thesis
    by (auto simp: Cleanup_def Let_def StopReConnect_def steady a split: option.split)
qed

lemma timers_Cleanup: "timers_ev m \<Longrightarrow> timers_ev (Cleanup i r w m)"
  by (auto simp: Cleanup_def Let_def StopReConnect_def steady split: option.split intro!: timers_intros)


text \<open>Every action, on any machine.\<close>

lemma Notify_steady:
  "fsm_running m \<Longrightarrow> owned (Notify ev msg i m) = owned m + io_ms i"
  "owned (Notify ev msg None m) = owned m"
  "timers_ev (Notify ev msg i m) = timers_ev m"
  by (auto simp: Notify_def owned_def timers_ev_def PQ_Enqueue_def)

lemma DoElect_steady: "owned (DoElect c m) = owned m" "timers_ev m \<Longrightarrow> timers_ev (DoElect c m)"
  by (simp_all add: DoElect_def Notify_steady owned_Cleanup timers_Cleanup split: elect_result.split)

lemma DoReConnect_steady: "owned (DoReConnect c m) = owned m" "timers_ev m \<Longrightarrow> timers_ev (DoReConnect c m)"
  by (auto simp: DoReConnect_def steady intro!: timers_intros)

lemma RReject_steady: "owned (ac_RReject m) = owned m" "timers_ev (ac_RReject m) = timers_ev m"
  by (auto simp: ac_RReject_def steady split: option.split)
    (auto simp: owned_def drop_opt_def emit_def released_append split: option.split)

lemmas action_defs = ac_ISendConnReq_def ac_RAcceptSendCEA_def ac_ISendCER_def ac_ConnNack_def
  ac_Cleanup_def ac_ReConnect_def ac_RAccept_def ac_Error_def ac_ProcessCEA_def ac_RAcceptElect_def
  ac_ISendCERElect_def ac_RSendCEA_def ac_RSendCEAOpen_def ac_RDisconnectResp_def
  ac_RDisconnectIOpen_def ac_IDisconnectSendCEA_def ac_SendMessage_def ac_Process_def
  ac_ProcessDWRSendDWA_def ac_ProcessDWA_def ac_ISendCEA_def ac_SendDPR_def
  ac_SendDPADisconnect_def ac_Disconnect_def ac_DisconnectDPA_def ac_Watchdog_def

lemma action_owned: "owned (peer_act c a m) = owned m"
  by (cases a)
    (auto simp: action_defs steady Let_def arm_defs DoElect_steady DoReConnect_steady RReject_steady
      read_caps_def EntryStart_def Notify_steady intro!: with_msg_owned split: prod.split)

lemma action_timers: "timers_ev m \<Longrightarrow> timers_ev (peer_act c a m)"
  by (cases a)
    (auto simp: action_defs steady Let_def arm_defs DoElect_steady DoReConnect_steady RReject_steady
      read_caps_def EntryStart_def Notify_steady intro!: with_msg_timers timers_intros timers_Cleanup DoReConnect_steady(2)
      split: prod.split)

interpretation peer_owns: machine_invariant peer_tbl "peer_act c" "\<lambda>ev m. True" "\<lambda>m. owned m = x" for c x
  by unfold_locales (simp add: action_owned steady)

interpretation peer_timers: machine_invariant peer_tbl "peer_act c" "\<lambda>ev m. True" timers_ev for c
  by unfold_locales (simp add: action_timers steady)

subsection \<open>Reachable machines\<close>

text \<open>What a step adds to the connections in hand.\<close>

lemma drop_param_steady: "owned (drop_param m) = owned m" "timers_ev (drop_param m) = timers_ev m"
  by (auto simp: drop_param_def steady split: option.split)
    (auto simp: owned_def drop_opt_def emit_def released_append split: option.split)

lemma Serve_steady: "owned (peer_Serve c m) = owned m" if "pm_current m = None"
proof (cases "pm_queue m")
  case Nil
  then show ?thesis by (simp add: peer_Serve_def PQ_Dequeue_def steady)
next
  case (Cons ep q)
  let ?m = "m\<lparr>pm_queue := q, pm_current := Some ep\<rparr>"
  have "owned ?m = owned m" using Cons that by (simp add: owned_def)
  with peer_owns.event_keeps [of ?m "owned m"] Cons show ?thesis
    by (simp add: peer_Serve_def PQ_Dequeue_def peer_Event_def drop_param_steady)
qed

lemma Serve_timers: "timers_ev m \<Longrightarrow> timers_ev (peer_Serve c m)"
  by (auto simp: peer_Serve_def peer_Event_def drop_param_steady steady split: option.split
      intro!: peer_timers.event_keeps)

lemma Serve_current: "pm_current m = None \<Longrightarrow> pm_current (peer_Serve c m) = None"
  by (simp add: peer_Serve_def drop_param_def fault_def split: option.split)

lemma good_Timeout:
  assumes "peer_good c m" "timers_ev m"
  shows "peer_good c (peer_Timeout ty m)"
proof (cases "fsm_timers m ty")
  case None
  with assms show ?thesis by (simp add: peer_Timeout_def)
next
  case (Some t)
  obtain ev sec where t: "t = (ev, sec)" by (cases t)
  with assms(2) Some have "ev = PEV_TIMEOUT \<or> ev = PEV_CONN_RETRY \<or> ev = PEV_WATCHDOG"
    by (auto simp: timers_ev_def)
  then have "wf_param \<lparr>ep_event = ev, ep_msg = None, ep_io = None\<rparr>" by (auto simp: wf_param_def)
  with assms(1) Some t show ?thesis by (simp add: peer_Timeout_def good_Notify)
qed

lemma good_EntryError:
  assumes "e = PARSING_ERROR \<or> (e = TRANSPORT_ERROR \<or> e = CORRUPTED_BYTE_STREAM) \<and>
           (name = IO_ACCEPTOR_NAME \<or> name = IO_CONNECTOR_NAME)" "peer_good c m"
  shows "peer_good c (EntryError e name m)"
  using assms by (auto simp: EntryError_def wf_param_def intro!: good_Notify)

lemma good_upcalls:
  assumes "peer_good c m"
  shows "peer_good c (EntryStart m)" "peer_good c (EntryStop cause m)"
    "peer_good c (IncommingConnectionRequest i cer m)" "peer_good c (ConnectionRequestAccepted i m)"
    "peer_good c (ConnectionRequestFailed m)"
proof -
  have "peer_good c (m\<lparr>pd_DisconnectCause := cause\<rparr>)" using assms by (simp add: good_defs)
  with assms show "peer_good c (EntryStart m)" "peer_good c (EntryStop cause m)"
    "peer_good c (IncommingConnectionRequest i cer m)" "peer_good c (ConnectionRequestAccepted i m)"
    "peer_good c (ConnectionRequestFailed m)"
    by (simp_all add: EntryStart_def EntryStop_def IncommingConnectionRequest_def
        ConnectionRequestAccepted_def ConnectionRequestFailed_def good_Notify good_MsgIdRx wf_param_def)
qed

lemma timers_upcalls:
  assumes "timers_ev m"
  shows "timers_ev (EntryStart m)" "timers_ev (EntryStop cause m)"
    "timers_ev (IncommingConnectionRequest i cer m)" "timers_ev (ConnectionRequestAccepted i m)"
    "timers_ev (ConnectionRequestFailed m)" "timers_ev (EntryMessage msg m)" "timers_ev (EntryError e n m)"
    "timers_ev (peer_Timeout ty m)" "timers_ev (snd (peer_Send msg m))"
  using assms
  by (auto simp: EntryStart_def EntryStop_def IncommingConnectionRequest_def ConnectionRequestAccepted_def
      ConnectionRequestFailed_def EntryMessage_def base_message_def EntryError_def peer_Timeout_def
      peer_Send_def Notify_steady steady Let_def case_prod_beta timers_Cleanup
      split: option.split peer_st.split)

lemma current_Notify: "pm_current (Notify ev om i m) = pm_current m"
  by (simp add: Notify_def)

lemma current_upcalls:
  "pm_current (EntryStart m) = pm_current m" "pm_current (EntryStop cause m) = pm_current m"
  "pm_current (IncommingConnectionRequest i cer m) = pm_current m"
  "pm_current (ConnectionRequestAccepted i m) = pm_current m"
  "pm_current (ConnectionRequestFailed m) = pm_current m"
  "pm_current (EntryMessage msg m) = pm_current m" "pm_current (peer_Timeout ty m) = pm_current m"
  "pm_current (snd (peer_Send msg m)) = pm_current m"
  by (auto simp: EntryStart_def EntryStop_def IncommingConnectionRequest_def ConnectionRequestAccepted_def
      ConnectionRequestFailed_def EntryMessage_def base_message_def peer_Timeout_def peer_Send_def
      current_Notify frame_simps Let_def case_prod_beta split: option.split peer_st.split)

lemma current_EntryError:
  "e = PARSING_ERROR \<or> (e = TRANSPORT_ERROR \<or> e = CORRUPTED_BYTE_STREAM) \<and>
     (name = IO_ACCEPTOR_NAME \<or> name = IO_CONNECTOR_NAME) \<Longrightarrow> pm_current (EntryError e name m) = pm_current m"
  by (auto simp: EntryError_def current_Notify)

lemma step_good:
  assumes "peer_step c m m'" "peer_good c m" "timers_ev m" "pm_current m = None"
  shows "peer_good c m' \<and> timers_ev m' \<and> pm_current m' = None"
  using assms(1)
proof cases
  case (step_serve ep q)
  with assms show ?thesis by (simp add: good_Serve Serve_timers Serve_current)
next
  case (step_error e name)
  with assms show ?thesis by (simp only: good_EntryError current_EntryError timers_upcalls simp_thms)
qed (use assms in \<open>simp_all add: good_upcalls timers_upcalls current_upcalls good_EntryMessage good_Timeout
      good_Send_upcall\<close>)

lemma reachable_good:
  assumes "(peer_step c)\<^sup>*\<^sup>* (new_peer name port sctp tls) m"
  shows "peer_good c m \<and> timers_ev m \<and> pm_current m = None"
  using assms
proof (induction rule: rtranclp_induct)
  case base
  show ?case by (simp add: new_peer_def good_defs timers_ev_def)
next
  case (step m m')
  then show ?case using step_good by blast
qed

end
