(* ===== verification/Peer_Props.thy ===== *)
theory Peer_Props
  imports Peer_Entry
begin

text \<open>
  Properties of the peer state machine and of the peer table: the invariant of every reachable
  machine, the ownership of connections, the matching of answers with requests, what an incoming
  connection leads to, and the reachable ways to read a null pointer.
\<close>

subsection \<open>A configuration and a CER to run the machine on\<close>

definition run_cfg :: cfg where
  "run_cfg = \<lparr>cf_identity = ''b.net'', cf_realm = ''net'', cf_product = ''demo'', cf_version = 1,
     cf_vendor = 7, cf_originStateId = 3, cf_supportedVendorIdLst = [], cf_authAppIdLst = [1],
     cf_acctAppIdLst = [], cf_vendorSpecificId = [], cf_advertised_hostname = [],
     cf_watchdog_timeout = 6, cf_reconnect_interval = 5, cf_reconnect_max = 2,
     cf_own_addr = ''10.0.0.1'', cf_resolve = (\<lambda>h. None), cf_hop_seed = 100, cf_time = 2,
     cf_rand = (\<lambda>n. of_nat n)\<rparr>"

definition demo_cer :: msg where
  "demo_cer = \<lparr>m_hdr = (base_hdr MSGCODE_CAPABILITIES_EXCHG True)\<lparr>h_hh := 41, h_ee := 42\<rparr>,
     m_acl = [(AVPNAME_ORIGINHOST, [AvpStr ''a.net'']), (AVPNAME_AUTHAPPID, [AvpU32 1])]\<rparr>"

definition demo_peer :: peer where
  "demo_peer = new_peer ''a.net'' 1812 False False"

subsection \<open>Identifiers\<close>

fun tx_all :: "cfg \<Rightarrow> msg_hdr list \<Rightarrow> peer \<Rightarrow> msg_hdr list \<times> peer" where
  "tx_all c [] m = ([], m)"
| "tx_all c (h # hs) m =
     (let (h', m1) = MsgIdTxMessage c h m; (hs', m2) = tx_all c hs m1 in (h' # hs', m2))"

definition ids :: "msg_hdr \<Rightarrow> u32 \<times> u32" where
  "ids h = (h_hh h, h_ee h)"

definition pending_ids :: "(u32 \<times> u32) list \<Rightarrow> peer \<Rightarrow> bool" where
  "pending_ids ps m \<longleftrightarrow> pd_LastRxHopId m = List.map fst ps \<and> pd_LastRxEndId m = List.map snd ps"

lemma pending_rx: "h_r h \<Longrightarrow> pending_ids ps m \<Longrightarrow> pending_ids (ps @ [ids h]) (snd (MsgIdRxMessage h m))"
  by (simp add: pending_ids_def MsgIdRxMessage_def PQ_Enqueue_def ids_def)

lemma pending_rx_all:
  "\<forall>h \<in> set hs. h_r h \<Longrightarrow> pending_ids ps m \<Longrightarrow>
   pending_ids (ps @ List.map ids hs) (fold (\<lambda>h m. snd (MsgIdRxMessage h m)) hs m)"
proof (induction hs arbitrary: ps m)
  case Nil
  then show ?case by simp
next
  case (Cons h hs)
  then show ?case using Cons.IH [of "ps @ [ids h]" "snd (MsgIdRxMessage h m)"] by (simp add: pending_rx)
qed

lemma pending_tx:
  "\<not> h_r h \<Longrightarrow> pending_ids (p # ps) m \<Longrightarrow> \<exists>m1. MsgIdTxMessage c h m = (set_ids (fst p) (snd p) h, m1) \<and> pending_ids ps m1"
  by (simp add: pending_ids_def MsgIdTxMessage_def PQ_Dequeue_def)

lemma pending_tx_all:
  "\<forall>h \<in> set as. \<not> h_r h \<Longrightarrow> pending_ids ps m \<Longrightarrow> length as \<le> length ps \<Longrightarrow>
   List.map ids (fst (tx_all c as m)) = take (length as) ps"
proof (induction as arbitrary: ps m)
  case Nil
  then show ?case by simp
next
  case (Cons a as)
  then obtain p qs where ps: "ps = p # qs" by (cases ps) auto
  with Cons.prems pending_tx [of a p qs m c] obtain m1
    where m1: "MsgIdTxMessage c a m = (set_ids (fst p) (snd p) a, m1)" "pending_ids qs m1" by auto
  with Cons.IH [of qs m1] Cons.prems ps show ?case
    by (simp add: case_prod_beta ids_def set_ids_def)
qed

text \<open>A request that is sent is known; an answer with its identifiers is taken off.\<close>

lemma MsgIdTx_request:
  assumes "h_r h" "MsgIdTxMessage c h m = (h', m1)"
  shows "pd_LastTxHopId m1 (h_hh h') \<noteq> None \<and> pd_LastTxEndId m1 (h_ee h') \<noteq> None"
  using assms by (auto simp: MsgIdTxMessage_def Let_def set_ids_def PM_Add_def split: option.splits)

subsection \<open>Properties of the reachable machines\<close>

text \<open>C1: whatever calls, timer expirations and events a peer meets, other than a refused connection
  attempt during the election and a collector error without a connection, it never reads a null
  pointer, it has the connections its state needs, a state that waits has the timer that ends it and
  an open state the watchdog, and an incoming connection waits for the election only when its peer
  was validated.\<close>

theorem peer_reachable_good:
  assumes "(peer_step c)\<^sup>*\<^sup>* (new_peer name port sctp tls) m"
  shows "peer_good c m"
  using reachable_good [OF assms] by simp

lemma run_serve_start: "peer_step run_cfg (EntryStart demo_peer) (peer_Serve run_cfg (EntryStart demo_peer))"
  by (rule step_serve [where ep = "\<lparr>ep_event = PEV_START, ep_msg = None, ep_io = None\<rparr>" and q = "[]"])
    (simp_all add: EntryStart_def emit_def Notify_def demo_peer_def new_peer_def PQ_Enqueue_def)

lemma demo_reaches: "(peer_step run_cfg)\<^sup>*\<^sup>* demo_peer (peer_Serve run_cfg (EntryStart demo_peer))"
proof -
  have "(peer_step run_cfg)\<^sup>*\<^sup>* demo_peer (EntryStart demo_peer)"
    by (rule r_into_rtranclp) (rule step_start)
  then show ?thesis using run_serve_start by (rule rtranclp.rtrancl_into_rtrancl)
qed

theorem peer_reachable_good_witness:
  "peer_good run_cfg (peer_Serve run_cfg (EntryStart demo_peer))"
  using demo_reaches unfolding demo_peer_def by (rule peer_reachable_good)

text \<open>C26: a peer neither loses nor duplicates a connection: the connections it holds, keeps in the
  parameters of events and has released are, after an incoming connection or an accepted connection
  attempt, those before and the new one, and after serving an event, receiving a message or a timer
  expiration those before.\<close>

theorem connections_conserved:
  assumes "fsm_running m" "pm_current m = None"
  shows "owned (IncommingConnectionRequest i cer m) = add_mset i (owned m) \<and>
    owned (ConnectionRequestAccepted i m) = add_mset i (owned m) \<and>
    owned (peer_Serve c m) = owned m \<and> owned (EntryMessage msg m) = owned m \<and>
    owned (peer_Timeout ty m) = owned m \<and> owned (EntryError e who m) = owned m"
proof (intro conjI)
  show "owned (IncommingConnectionRequest i cer m) = add_mset i (owned m)"
    using assms by (simp add: IncommingConnectionRequest_def Notify_steady steady frame_simps)
  show "owned (ConnectionRequestAccepted i m) = add_mset i (owned m)"
    using assms by (simp add: ConnectionRequestAccepted_def Notify_steady)
  show "owned (peer_Serve c m) = owned m" using assms(2) by (rule Serve_steady)
  show "owned (EntryMessage msg m) = owned m"
    by (auto simp: EntryMessage_def base_message_def Notify_steady steady Let_def case_prod_beta
        split: option.split peer_st.split)
  show "owned (peer_Timeout ty m) = owned m"
    by (auto simp: peer_Timeout_def Notify_steady split: option.split)
  show "owned (EntryError e who m) = owned m"
    by (simp add: EntryError_def Notify_steady steady)
qed

theorem connections_conserved_witness:
  "owned (IncommingConnectionRequest (IO 4 False) demo_cer demo_peer) = add_mset (IO 4 False) (owned demo_peer) \<and>
    owned (ConnectionRequestAccepted (IO 4 False) demo_peer) = add_mset (IO 4 False) (owned demo_peer) \<and>
    owned (peer_Serve run_cfg demo_peer) = owned demo_peer \<and>
    owned (EntryMessage demo_cer demo_peer) = owned demo_peer \<and>
    owned (peer_Timeout TM_TIMEOUT demo_peer) = owned demo_peer \<and>
    owned (EntryError TRANSPORT_ERROR IO_ACCEPTOR_NAME demo_peer) = owned demo_peer"
  by (rule connections_conserved) (simp_all add: demo_peer_def new_peer_def)

text \<open>C27: the answers a peer sends carry the identifiers of the requests it received, in order: after the
  requests \<open>hs\<close>, with \<open>ps\<close> left over from before, the first answers carry those of \<open>ps\<close> and then those
  of \<open>hs\<close>.\<close>

theorem answers_in_order:
  assumes "pending_ids ps m" "\<forall>h \<in> set hs. h_r h" "\<forall>h \<in> set as. \<not> h_r h" "length as \<le> length ps + length hs"
  shows "List.map ids (fst (tx_all c as (fold (\<lambda>h m. snd (MsgIdRxMessage h m)) hs m))) =
         take (length as) (ps @ List.map ids hs)"
  using pending_tx_all [OF assms(3) pending_rx_all [OF assms(2,1)], of c] assms(4) by simp

theorem answers_in_order_witness:
  "List.map ids (fst (tx_all run_cfg [base_hdr MSGCODE_WATCHDOG False]
      (fold (\<lambda>h m. snd (MsgIdRxMessage h m)) [m_hdr demo_cer, (m_hdr demo_cer)\<lparr>h_hh := 9\<rparr>] demo_peer)))
   = take (length [base_hdr MSGCODE_WATCHDOG False])
       ([] @ List.map ids [m_hdr demo_cer, (m_hdr demo_cer)\<lparr>h_hh := 9\<rparr>])"
  by (rule answers_in_order) (simp_all add: pending_ids_def demo_peer_def new_peer_def demo_cer_def base_hdr_def)

text \<open>an answer to a request that was sent is accepted exactly once: the second answer with the same
  identifiers is refused.\<close>

theorem answer_accepted_once:
  assumes "h_r h" "MsgIdTxMessage c h m = (h', m1)" "\<not> h_r a" "ids a = ids h'"
  shows "fst (MsgIdRxMessage a m1) \<and> \<not> fst (MsgIdRxMessage a (snd (MsgIdRxMessage a m1)))"
proof -
  have "pd_LastTxHopId m1 (h_hh a) \<noteq> None" "pd_LastTxEndId m1 (h_ee a) \<noteq> None"
    using MsgIdTx_request [OF assms(1,2)] assms(4) by (simp_all add: ids_def)
  with assms(3) show ?thesis
    by (auto simp: MsgIdRxMessage_def PM_Remove_def Let_def split: prod.split)
qed

theorem answer_accepted_once_witness:
  "fst (MsgIdRxMessage ((m_hdr demo_cer)\<lparr>h_r := False, h_hh := 101, h_ee := 0x00200000\<rparr>)
     (snd (MsgIdTxMessage run_cfg (m_hdr demo_cer) demo_peer))) \<and>
   \<not> fst (MsgIdRxMessage ((m_hdr demo_cer)\<lparr>h_r := False, h_hh := 101, h_ee := 0x00200000\<rparr>)
     (snd (MsgIdRxMessage ((m_hdr demo_cer)\<lparr>h_r := False, h_hh := 101, h_ee := 0x00200000\<rparr>)
       (snd (MsgIdTxMessage run_cfg (m_hdr demo_cer) demo_peer)))))"
  by (rule answer_accepted_once [OF _ surjective_pairing])
    (simp_all add: demo_cer_def base_hdr_def ids_def MsgIdTxMessage_def HopByHop_Get_def EndToEnd_Get_def
      run_cfg_def demo_peer_def new_peer_def set_ids_def Let_def)

subsection \<open>Incoming connections\<close>

lemma lookup_closed_cer:
  "FindStateTableEntry peer_tbl PST_CLOSED PEV_R_CONN_CER =
     Some (FsmEntry PST_CLOSED (Some PEV_R_CONN_CER) PST_R_OPEN acRAcceptSendCEA)"
  using peer_table.specific_wins [of "FsmEntry PST_CLOSED (Some PEV_R_CONN_CER) PST_R_OPEN acRAcceptSendCEA"]
  by (simp add: peer_table.entries_are_calls peer_cmds_def peer_closed_cmds_def)

lemma lookup_elect_nack:
  "FindStateTableEntry peer_tbl PST_WAIT_CONN_ACK_ELECT PEV_I_RCV_CONN_NACK =
     Some (FsmEntry PST_WAIT_CONN_ACK_ELECT (Some PEV_I_RCV_CONN_NACK) PST_R_OPEN acRSendCEA)"
  using peer_table.specific_wins [of "FsmEntry PST_WAIT_CONN_ACK_ELECT (Some PEV_I_RCV_CONN_NACK) PST_R_OPEN acRSendCEA"]
  by (simp add: peer_table.entries_are_calls peer_cmds_def peer_wait_conn_ack_elect_cmds_def)

lemma lookup_open_cer:
  "st \<in> {PST_R_OPEN, PST_I_OPEN} \<Longrightarrow>
   FindStateTableEntry peer_tbl st PEV_R_CONN_CER = Some (FsmEntry st (Some PEV_R_CONN_CER) st acRReject)"
  using peer_table.specific_wins [of "FsmEntry PST_R_OPEN (Some PEV_R_CONN_CER) PST_R_OPEN acRReject"]
    peer_table.specific_wins [of "FsmEntry PST_I_OPEN (Some PEV_R_CONN_CER) PST_I_OPEN acRReject"]
  by (auto simp: peer_table.entries_are_calls peer_cmds_def peer_r_open_cmds_def peer_i_open_cmds_def)

lemma lookup_closed_stray:
  "ev \<notin> {PEV_START, PEV_R_CONN_CER, PEV_CONN_RETRY} \<Longrightarrow>
   FindStateTableEntry peer_tbl PST_CLOSED ev = Some (FsmEntry PST_CLOSED None PST_CLOSED acCleanup)"
  using peer_table.lookup_deterministic_of_keys [of "FsmEntry PST_CLOSED None PST_CLOSED acCleanup" ev]
  by (auto simp: peer_table.entries_are_calls peer_cmds_def peer_cmds_defs entry_key_def)

text \<open>The CEA that answers a CER: its Result-Code is the one given, its identifiers are the oldest
  pending ones.\<close>

lemma Result_code_of_CE:
  "search (AssembleCE_acl c tls sctp) AVPNAME_RESULTCODE = None"
  by (simp add: search_None_iff AssembleCE_acl_def add_list_def add_avp_def Let_def)

lemma SendCEA_sends:
  assumes "pd_IOInitiator m \<noteq> None \<or> pd_IOResponder m \<noteq> None" "pending_ids (p # ps) m"
  shows "\<exists>cea. pm_out (SendCEA c rcode s m) = pm_out m @ [TxMsg cea (io_by_state m)] \<and>
     ResultCode cea = rcode \<and> ids (m_hdr cea) = p \<and> \<not> IsRequest cea \<and> IsCapabilities cea"
proof -
  obtain m1 where m1: "MsgIdTxMessage c (base_hdr MSGCODE_CAPABILITIES_EXCHG False) m =
      (set_ids (fst p) (snd p) (base_hdr MSGCODE_CAPABILITIES_EXCHG False), m1)"
    using pending_tx [of "base_hdr MSGCODE_CAPABILITIES_EXCHG False" p ps m c] assms(2)
    by (auto simp: base_hdr_def)
  have f: "pm_out m1 = pm_out m" "pd_IOInitiator m1 = pd_IOInitiator m" "pd_IOResponder m1 = pd_IOResponder m"
    "fsm_state m1 = fsm_state m"
    using m1 by (auto simp: MsgIdTxMessage_def base_hdr_def Let_def split: prod.splits)
  then have "sctp_in_use m1 \<noteq> None"
    using assms(1) by (auto simp: sctp_in_use_def split: option.split)
  then obtain sctp where sctp: "sctp_in_use m1 = Some sctp" by blast
  let ?h = "set_ids (fst p) (snd p) (base_hdr MSGCODE_CAPABILITIES_EXCHG False)"
  let ?a = "add_avp AVPNAME_RESULTCODE [AvpU32 rcode] (AssembleCE_acl c (pd_TLS m1) sctp)"
  have r: "GetU32 ?a AVPNAME_RESULTCODE = Some rcode"
    "GetU32 (add_avp AVPNAME_ERRORMESSAGE es ?a) AVPNAME_RESULTCODE = Some rcode" for es
    by (simp_all add: GetU32_def GetAvp_def search_add_avp Result_code_of_CE)
  obtain a where a: "a = (if s \<noteq> [] \<and> InterpretedResultCode rcode \<noteq> RCODE_NOT_PRESENT \<and>
      InterpretedResultCode rcode \<noteq> RCODE_SUCCESS then add_avp AVPNAME_ERRORMESSAGE [AvpStr s] ?a else ?a)"
    by blast
  then have "SendCEA c rcode s m = emit (TxMsg \<lparr>m_hdr = ?h, m_acl = a\<rparr> (io_by_state m1)) m1"
    by (simp add: SendCEA_def AssembleCE_def m1 sctp add_to_def Let_def)
  moreover have "GetU32 a AVPNAME_RESULTCODE = Some rcode" using a r by simp
  ultimately show ?thesis
    using f by (intro exI [of _ "\<lparr>m_hdr = ?h, m_acl = a\<rparr>"])
      (simp add: emit_def io_by_state_def ResultCode_def ids_def set_ids_def base_hdr_def
        IsRequest_def IsCapabilities_def)
qed

lemma Cleanup_out:
  assumes "pm_current m = Some ep" "ep_io ep = None" "pd_IOInitiator m = None"
  shows "pm_out (CleanupAll m) = pm_out m @ (case pd_IOResponder m of None \<Rightarrow> [] | Some i \<Rightarrow> [GcIO i])"
  using assms
  by (auto simp: Cleanup_def Let_def StopReConnect_def fsm_Start_def fsm_Stop_def gc_opt_def emit_def
      CancelTimer_def split: option.split)

lemma arm_out [frame_simps]:
  "pm_out (arm_watchdog c m) = pm_out m" "pm_out (StopReConnect m) = pm_out m"
  "pm_out (ScheduleTimer ev sec ty m) = pm_out m" "pm_out (CancelTimer ty m) = pm_out m"
  "pm_current (arm_watchdog c m) = pm_current m" "pm_current (StopReConnect m) = pm_current m"
  by (simp_all add: arm_watchdog_def StopReConnect_def ScheduleTimer_def CancelTimer_def Let_def)

text \<open>The machine just before the CEA is sent, and the action with the data of the event put in.\<close>

definition cer_taken :: "io \<Rightarrow> msg \<Rightarrow> peer \<Rightarrow> peer" where
  "cer_taken i cer m =
     m\<lparr>pd_IOResponder := Some i,
       pm_current := Some \<lparr>ep_event = PEV_R_CONN_CER, ep_msg = None, ep_io = None\<rparr>,
       pd_caps := DisassembleCE (m_acl cer)\<rparr>"

lemma RAcceptSendCEA_on_cer:
  assumes "pm_current m = Some \<lparr>ep_event = PEV_R_CONN_CER, ep_msg = Some cer, ep_io = Some i\<rparr>"
    "pd_IOResponder m = None" "ValidatePeer c (pd_TLS m) (DisassembleCE (m_acl cer)) = (v, rcode, s)"
  shows "ac_RAcceptSendCEA c m =
    (if v then emit UpConnected (StopReConnect (arm_watchdog c (SendCEA c rcode s (cer_taken i cer m))))
     else CleanupAll (SendCEA c rcode s (cer_taken i cer m)))"
  using assms by (simp add: ac_RAcceptSendCEA_def with_msg_Some take_Some drop_opt_def read_caps_def cer_taken_def)

text \<open>The machine in the service of the CER that came with a connection.\<close>

definition cer_served :: "io \<Rightarrow> msg \<Rightarrow> peer \<Rightarrow> peer" where
  "cer_served i cer m = (snd (MsgIdRxMessage (m_hdr cer) m))
     \<lparr>pm_queue := [], pm_current := Some \<lparr>ep_event = PEV_R_CONN_CER, ep_msg = Some cer, ep_io = Some i\<rparr>\<rparr>"

lemma Serve_incoming:
  assumes "fsm_running m" "pm_queue m = []"
  shows "peer_Serve c (IncommingConnectionRequest i cer m) =
    drop_param (peer_Event c (cer_served i cer m) PEV_R_CONN_CER)"
  using assms
  by (simp add: peer_Serve_def IncommingConnectionRequest_def Notify_def frame_simps PQ_Enqueue_def
      PQ_Dequeue_def cer_served_def)

lemma drop_param_plain: "pm_current m = Some ep \<Longrightarrow> ep_io ep = None \<Longrightarrow> drop_param m = m\<lparr>pm_current := None\<rparr>"
  by (simp add: drop_param_def drop_opt_def)

text \<open>C22: a peer that runs and is closed, holds no connection and has no event waiting meets a connection
  that comes in with its CER. It answers by a CEA with the Result-Code of \<open>ValidatePeer\<close>. The CEA carries
  the identifiers of the oldest request that the peer has received and not answered: those of the CER, when
  none is left over from an earlier connection (nothing in the code takes such leftovers away, so that
  with them the CEA answers another request). When the peer is valid the machine is open on that connection,
  keeps the capabilities of the CER, has the watchdog running and reports the connection, and otherwise it
  is closed and the connection is released.\<close>

theorem incoming_when_closed:
  assumes "fsm_running m" "fsm_state m = PST_CLOSED" "pm_queue m = []" "pd_IOInitiator m = None"
    "pd_IOResponder m = None" "pending_ids ps m" "h_r (m_hdr cer)"
    "ValidatePeer c (pd_TLS m) (DisassembleCE (m_acl cer)) = (v, rcode, s)"
    "m' = peer_Serve c (IncommingConnectionRequest i cer m)"
  shows "\<exists>cea. ResultCode cea = rcode \<and> ids (m_hdr cea) = hd (ps @ [ids (m_hdr cer)]) \<and> \<not> IsRequest cea \<and>
     IsCapabilities cea \<and>
     (if v then fsm_state m' = PST_R_OPEN \<and> pd_IOResponder m' = Some i \<and>
                pd_caps m' = DisassembleCE (m_acl cer) \<and>
                pm_out m' = pm_out m @ [TxMsg cea (Some i), UpConnected] \<and>
                fsm_timers m' TM_WATCHDOG = Some (PEV_WATCHDOG, cf_watchdog_timeout c)
      else fsm_state m' = PST_CLOSED \<and> pd_IOResponder m' = None \<and>
           pm_out m' = pm_out m @ [TxMsg cea (Some i), GcIO i])"
proof -
  let ?m0 = "(cer_served i cer m)\<lparr>fsm_state := PST_R_OPEN\<rparr>"
  let ?m1 = "cer_taken i cer ?m0"
  obtain q qs where q: "ps @ [ids (m_hdr cer)] = q # qs" by (cases "ps @ [ids (m_hdr cer)]") auto
  have "pending_ids (ps @ [ids (m_hdr cer)]) ?m1"
    using pending_rx [of "m_hdr cer" ps m] assms(6,7)
    by (simp add: cer_taken_def cer_served_def pending_ids_def)
  then have p: "pending_ids (q # qs) ?m1" by (simp only: q)
  have out: "pm_out ?m1 = pm_out m" "io_by_state ?m1 = Some i" "pd_IOInitiator ?m1 = None"
    "pd_IOResponder ?m1 = Some i" "fsm_state ?m1 = PST_R_OPEN" "pd_caps ?m1 = DisassembleCE (m_acl cer)"
    "pm_current ?m1 = Some \<lparr>ep_event = PEV_R_CONN_CER, ep_msg = None, ep_io = None\<rparr>"
    using assms(4,7) by (simp_all add: cer_taken_def cer_served_def io_by_state_def MsgIdRxMessage_def)
  obtain cea where cea: "pm_out (SendCEA c rcode s ?m1) = pm_out m @ [TxMsg cea (Some i)]"
      "ResultCode cea = rcode" "ids (m_hdr cea) = hd (ps @ [ids (m_hdr cer)])" "\<not> IsRequest cea" "IsCapabilities cea"
    using SendCEA_sends [OF _ p, of c rcode s] out q by auto
  have ev: "peer_Event c (cer_served i cer m) PEV_R_CONN_CER = ac_RAcceptSendCEA c ?m0"
    using assms(1,2) by (simp add: peer_Event_def fsm_Event_def lookup_closed_cer cer_served_def frame_simps)
  have act: "ac_RAcceptSendCEA c ?m0 =
    (if v then emit UpConnected (StopReConnect (arm_watchdog c (SendCEA c rcode s ?m1)))
     else CleanupAll (SendCEA c rcode s ?m1))"
    by (rule RAcceptSendCEA_on_cer)
      (use assms(5,8) in \<open>simp_all add: cer_served_def frame_simps\<close>)
  have m': "m' = drop_param (ac_RAcceptSendCEA c ?m0)"
    using assms(9) Serve_incoming [OF assms(1,3)] ev by simp
  note fr = SendCE_frame [of ?m1]
  show ?thesis
  proof (cases v)
    case True
    with m' act out fr have "m' = (emit UpConnected (StopReConnect (arm_watchdog c (SendCEA c rcode s ?m1))))
        \<lparr>pm_current := None\<rparr>"
      by (simp add: drop_param_plain frame_simps)
    with True cea out fr show ?thesis
      by (intro exI [of _ cea]) (simp add: frame_simps emit_def arm_defs fsm_simps arm_out)
  next
    case False
    with m' act out fr have "m' = (CleanupAll (SendCEA c rcode s ?m1))\<lparr>pm_current := None\<rparr>"
      by (simp add: drop_param_plain Cleanup_closed)
    with False cea out fr show ?thesis
      by (intro exI [of _ cea]) (simp add: Cleanup_closed Cleanup_out)
  qed
qed

theorem incoming_when_closed_witness:
  "\<exists>cea. ResultCode cea = AAA_SUCCESS \<and> ids (m_hdr cea) = hd ([] @ [ids (m_hdr demo_cer)]) \<and> \<not> IsRequest cea \<and>
     IsCapabilities cea \<and>
     (if True then fsm_state (peer_Serve run_cfg (IncommingConnectionRequest (IO 4 False) demo_cer demo_peer)) = PST_R_OPEN \<and>
                pd_IOResponder (peer_Serve run_cfg (IncommingConnectionRequest (IO 4 False) demo_cer demo_peer)) = Some (IO 4 False) \<and>
                pd_caps (peer_Serve run_cfg (IncommingConnectionRequest (IO 4 False) demo_cer demo_peer)) = DisassembleCE (m_acl demo_cer) \<and>
                pm_out (peer_Serve run_cfg (IncommingConnectionRequest (IO 4 False) demo_cer demo_peer)) =
                  pm_out demo_peer @ [TxMsg cea (Some (IO 4 False)), UpConnected] \<and>
                fsm_timers (peer_Serve run_cfg (IncommingConnectionRequest (IO 4 False) demo_cer demo_peer)) TM_WATCHDOG =
                  Some (PEV_WATCHDOG, cf_watchdog_timeout run_cfg)
      else fsm_state (peer_Serve run_cfg (IncommingConnectionRequest (IO 4 False) demo_cer demo_peer)) = PST_CLOSED \<and>
           pd_IOResponder (peer_Serve run_cfg (IncommingConnectionRequest (IO 4 False) demo_cer demo_peer)) = None \<and>
           pm_out (peer_Serve run_cfg (IncommingConnectionRequest (IO 4 False) demo_cer demo_peer)) =
             pm_out demo_peer @ [TxMsg cea (Some (IO 4 False)), GcIO (IO 4 False)])"
  by (rule incoming_when_closed [where s = "snd (snd (ValidatePeer run_cfg False (DisassembleCE (m_acl demo_cer))))"])
    (simp_all add: demo_peer_def new_peer_def pending_ids_def demo_cer_def base_hdr_def, code_simp)

text \<open>An open peer drops a further connection without an answer, and the identifiers of the CER that
  came with it stay queued: the next answer the peer sends, to whatever request, carries them.\<close>

theorem rejected_CER_answers_next:
  assumes "fsm_running m" "fsm_state m = PST_R_OPEN \<or> fsm_state m = PST_I_OPEN" "pm_queue m = []"
    "pending_ids [] m" "h_r (m_hdr cer)" "h_r req" "\<not> h_r ans"
    "m' = peer_Serve c (IncommingConnectionRequest i cer m)"
  shows "fsm_state m' = fsm_state m \<and> pm_out m' = pm_out m @ [DropIO i] \<and>
    ids (fst (MsgIdTxMessage c ans (snd (MsgIdRxMessage req m')))) = ids (m_hdr cer)"
proof -
  have "peer_Event c (cer_served i cer m) PEV_R_CONN_CER = ac_RReject (cer_served i cer m)"
    using assms(1,2) lookup_open_cer [of "fsm_state m"]
    by (simp add: peer_Event_def fsm_Event_def cer_served_def frame_simps) (simp add: serving_same_state frame_simps)
  with assms(8) Serve_incoming [OF assms(1,3)]
  have m': "m' = (emit (DropIO i) (snd (MsgIdRxMessage (m_hdr cer) m)))\<lparr>pm_queue := [], pm_current := None\<rparr>"
    by (simp add: ac_RReject_def cer_served_def drop_opt_def drop_param_def emit_def)
  have "pending_ids [ids (m_hdr cer)] m'"
    using pending_rx [of "m_hdr cer" "[]" m] assms(4,5) m' by (simp add: pending_ids_def emit_def)
  from pending_rx [OF assms(6) this] obtain m2 where
    "MsgIdTxMessage c ans (snd (MsgIdRxMessage req m')) = (set_ids (h_hh (m_hdr cer)) (h_ee (m_hdr cer)) ans, m2)"
    using pending_tx [OF assms(7), of "ids (m_hdr cer)" "[ids req]"] by (auto simp: ids_def)
  with m' assms(5) show ?thesis
    by (simp add: frame_simps emit_def ids_def set_ids_def MsgIdRxMessage_def)
qed

definition open_peer :: peer where
  "open_peer = demo_peer\<lparr>fsm_state := PST_R_OPEN, pd_IOResponder := Some (IO 1 False)\<rparr>"

theorem rejected_CER_answers_next_witness:
  "fsm_state (peer_Serve run_cfg (IncommingConnectionRequest (IO 4 False) demo_cer open_peer)) = fsm_state open_peer \<and>
    pm_out (peer_Serve run_cfg (IncommingConnectionRequest (IO 4 False) demo_cer open_peer)) =
      pm_out open_peer @ [DropIO (IO 4 False)] \<and>
    ids (fst (MsgIdTxMessage run_cfg (base_hdr MSGCODE_WATCHDOG False)
      (snd (MsgIdRxMessage (base_hdr MSGCODE_WATCHDOG True)
        (peer_Serve run_cfg (IncommingConnectionRequest (IO 4 False) demo_cer open_peer)))))) = ids (m_hdr demo_cer)"
  by (rule rejected_CER_answers_next)
    (simp_all add: open_peer_def demo_peer_def new_peer_def pending_ids_def demo_cer_def base_hdr_def)

subsection \<open>Null pointers that can be reached\<close>

text \<open>A connection attempt that is refused while an incoming connection waits for the election makes
  the machine read a null pointer: the action moves the connection of the event, which has none, over
  the responder's, so that the CEA it sends has no transport to ask.\<close>

theorem nack_in_election_faults:
  assumes "fsm_running m" "fsm_state m = PST_WAIT_CONN_ACK_ELECT" "pd_IOInitiator m = None" "pm_queue m = []"
  shows "pm_fault (peer_Serve c (ConnectionRequestFailed m))"
proof -
  let ?m = "m\<lparr>pm_queue := [], pm_current := Some \<lparr>ep_event = PEV_I_RCV_CONN_NACK, ep_msg = None, ep_io = None\<rparr>,
      fsm_state := PST_R_OPEN\<rparr>"
  have f: "pm_fault (SendCEA c r s m)" if "pd_IOInitiator m = None" "pd_IOResponder m = None" for r s m
    using that by (simp add: SendCEA_def AssembleCE_def sctp_in_use_def case_prod_beta Let_def frame_simps fault_def)
  have "pm_fault (ac_RSendCEA c ?m)"
    by (simp add: ac_RSendCEA_def frame_simps arm_defs take_Some f assms(3))
  then have "pm_fault (drop_param (ac_RSendCEA c ?m))"
    by (simp add: drop_param_def frame_simps split: option.split)
  with assms show ?thesis
    by (simp add: peer_Serve_def ConnectionRequestFailed_def Notify_def PQ_Enqueue_def PQ_Dequeue_def
        peer_Event_def fsm_Event_def lookup_elect_nack)
qed

theorem nack_in_election_faults_witness:
  "pm_fault (peer_Serve run_cfg (ConnectionRequestFailed
     (demo_peer\<lparr>fsm_state := PST_WAIT_CONN_ACK_ELECT, pd_IOResponder := Some (IO 1 False)\<rparr>)))"
  by (rule nack_in_election_faults) (simp_all add: demo_peer_def new_peer_def)

text \<open>A corrupted byte stream, which the collector reports with a description in the place of the
  name of the connection, makes the entry clean up outside the service of an event, where the
  parameters it clears are null; so does any error but a parsing error, of a connection with
  another name.\<close>

theorem unnamed_error_faults:
  assumes "e \<noteq> PARSING_ERROR" "name \<noteq> IO_ACCEPTOR_NAME" "name \<noteq> IO_CONNECTOR_NAME" "pm_current m = None"
  shows "pm_fault (EntryError e name m)"
  using assms
  by (simp add: EntryError_def Cleanup_def Let_def StopReConnect_def fsm_Stop_def fault_def frame_simps)

theorem unnamed_error_faults_witness:
  "pm_fault (EntryError CORRUPTED_BYTE_STREAM ''Invalid diameter msg header'' demo_peer)"
  by (rule unnamed_error_faults) (simp_all add: demo_peer_def new_peer_def)

subsection \<open>Reconnecting\<close>

lemma ScheduleTimer_attempt: "pm_ReconnectAttempt (ScheduleTimer ev sec ty m) = pm_ReconnectAttempt m"
  by (simp add: ScheduleTimer_def CancelTimer_def Let_def)

text \<open>a peer that keeps failing retries \<open>cf_reconnect_max\<close> times in a row: counting its calls of
  \<open>DoReConnect\<close>, the attempt counter is their number modulo one more than the maximum, and the call
  after \<open>k\<close> others starts the retry timer unless \<open>k\<close> has just reached the maximum again.\<close>

theorem reconnect_cycle:
  assumes "pm_ReconnectAttempt m = 0" "0 < cf_reconnect_interval c"
  shows "pm_ReconnectAttempt ((DoReConnect c ^^ k) m) = k mod (cf_reconnect_max c + 1) \<and>
    fsm_timers (DoReConnect c ((DoReConnect c ^^ k) m)) =
      (if k mod (cf_reconnect_max c + 1) < cf_reconnect_max c
       then (fsm_timers ((DoReConnect c ^^ k) m))(TM_CONN_RETRY \<mapsto> (PEV_CONN_RETRY, cf_reconnect_interval c))
       else fsm_timers ((DoReConnect c ^^ k) m))"
proof -
  have "pm_ReconnectAttempt ((DoReConnect c ^^ k) m) = k mod (cf_reconnect_max c + 1)"
  proof (induction k)
    case 0
    then show ?case using assms(1) by simp
  next
    case (Suc k)
    have "k mod (cf_reconnect_max c + 1) < cf_reconnect_max c + 1" by simp
    then show ?case
      using assms(2) Suc.IH by (auto simp: DoReConnect_def ScheduleTimer_attempt mod_Suc less_Suc_eq)
  qed
  then show ?thesis using assms(2) by (simp add: DoReConnect_def fsm_simps)
qed

theorem reconnect_cycle_witness:
  "pm_ReconnectAttempt ((DoReConnect run_cfg ^^ 5) demo_peer) = 5 mod (cf_reconnect_max run_cfg + 1) \<and>
    fsm_timers (DoReConnect run_cfg ((DoReConnect run_cfg ^^ 5) demo_peer)) =
      (if 5 mod (cf_reconnect_max run_cfg + 1) < cf_reconnect_max run_cfg
       then (fsm_timers ((DoReConnect run_cfg ^^ 5) demo_peer))
              (TM_CONN_RETRY \<mapsto> (PEV_CONN_RETRY, cf_reconnect_interval run_cfg))
       else fsm_timers ((DoReConnect run_cfg ^^ 5) demo_peer))"
  by (rule reconnect_cycle) (simp_all add: demo_peer_def new_peer_def run_cfg_def)

subsection \<open>The peer table\<close>

lemma PT_Next_at:
  "distinct (List.map snd (xs @ (n, e) # ys)) \<Longrightarrow> PT_Next e (xs @ (n, e) # ys) = PT_First ys"
  by (induction xs) auto

lemma PT_walk_from:
  "distinct (List.map snd (xs @ ys)) \<Longrightarrow> PT_walk (length ys) (xs @ ys) (PT_First ys) = Some (List.map snd ys)"
proof (induction ys arbitrary: xs)
  case Nil
  then show ?case by (simp add: PT_First_def)
next
  case (Cons y ys)
  obtain n e where y: "y = (n, e)" by (cases y)
  from Cons.IH [of "xs @ [y]"] Cons.prems have "PT_walk (length ys) (xs @ y # ys) (PT_First ys) = Some (List.map snd ys)"
    by simp
  moreover have "PT_Next e (xs @ y # ys) = PT_First ys"
    using PT_Next_at [of xs n e ys] Cons.prems y by simp
  ultimately show ?case by (simp add: y PT_First_def)
qed

text \<open>Walking the peer table with \<open>First\<close> and \<open>Next\<close> ends and meets every entry once, in the order
  they were added, when no pointer was added twice.\<close>

theorem peer_table_walk:
  assumes "distinct (List.map snd t)"
  shows "PT_walk (length t) t (PT_First t) = Some (List.map snd t)"
  using PT_walk_from [of "[]" t] assms by simp

theorem peer_table_walk_witness:
  "PT_walk (length [(''a'', 1), (''b'', 2::nat)]) (PT_Add ''b'' 2 (PT_Add ''a'' 1 []))
     (PT_First [(''a'', 1), (''b'', 2)]) = Some (List.map snd [(''a'', 1), (''b'', 2::nat)])"
  unfolding PT_Add_def append.simps by (rule peer_table_walk) simp

end
