(* ===== verification/Ordered_Map.thy ===== *)
theory Ordered_Map
  imports Framework_Containers
begin

text \<open>
  \<open>std::map\<close> where the code walks it: the list of its entries in increasing order of keys. \<open>SM_insert\<close>
  is \<open>insert\<close>, which leaves a key that is there alone; \<open>SM_put\<close> the assignment through the value that
  \<open>find\<close> gives; \<open>SM_next\<close> the entry an iterator on a key moves to.
\<close>

type_synonym ('k, 'v) smap = "('k \<times> 'v) list"

fun SM_find :: "('k, 'v) smap \<Rightarrow> 'k \<Rightarrow> 'v option" where
  "SM_find [] k = None"
| "SM_find ((j, v) # m) k = (if j = k then Some v else SM_find m k)"

fun SM_insert :: "'k::linorder \<Rightarrow> 'v \<Rightarrow> ('k, 'v) smap \<Rightarrow> ('k, 'v) smap" where
  "SM_insert k v [] = [(k, v)]"
| "SM_insert k v ((j, w) # m) =
     (if k < j then (k, v) # (j, w) # m
      else if k = j then (j, w) # m
      else (j, w) # SM_insert k v m)"

fun SM_erase :: "'k \<Rightarrow> ('k, 'v) smap \<Rightarrow> ('k, 'v) smap" where
  "SM_erase k [] = []"
| "SM_erase k ((j, v) # m) = (if j = k then m else (j, v) # SM_erase k m)"

fun SM_put :: "'k \<Rightarrow> 'v \<Rightarrow> ('k, 'v) smap \<Rightarrow> ('k, 'v) smap" where
  "SM_put k v [] = []"
| "SM_put k v ((j, w) # m) = (if j = k then (j, v) # m else (j, w) # SM_put k v m)"

fun SM_next :: "'k::linorder \<Rightarrow> ('k, 'v) smap \<Rightarrow> ('k \<times> 'v) option" where
  "SM_next k [] = None"
| "SM_next k ((j, v) # m) = (if k < j then Some (j, v) else SM_next k m)"

definition SM_wf :: "('k::linorder, 'v) smap \<Rightarrow> bool" where
  "SM_wf m \<longleftrightarrow> sorted_wrt (<) (List.map fst m)"

lemma SM_wf_simps [simp]:
  "SM_wf []" "SM_wf ((k, v) # m) \<longleftrightarrow> (\<forall>(j, w) \<in> set m. k < j) \<and> SM_wf m"
  by (auto simp: SM_wf_def)

lemma SM_find_None_iff: "SM_find m k = None \<longleftrightarrow> k \<notin> fst ` set m"
  by (induction m k rule: SM_find.induct) auto

lemma SM_find_SomeD: "SM_find m k = Some v \<Longrightarrow> (k, v) \<in> set m"
  by (induction m k rule: SM_find.induct) (auto split: if_splits)

lemma SM_find_mem: "SM_wf m \<Longrightarrow> (k, v) \<in> set m \<Longrightarrow> SM_find m k = Some v"
  by (induction m k rule: SM_find.induct) auto

lemma SM_keys_insert: "fst ` set (SM_insert k v m) = insert k (fst ` set m)"
  by (induction k v m rule: SM_insert.induct) auto

lemma SM_set_insert: "set (SM_insert k v m) \<subseteq> insert (k, v) (set m)"
  by (induction k v m rule: SM_insert.induct) auto

lemma SM_set_erase: "set (SM_erase k m) \<subseteq> set m"
  by (induction k m rule: SM_erase.induct) auto

lemma SM_keys_put: "List.map fst (SM_put k v m) = List.map fst m"
  by (induction k v m rule: SM_put.induct) auto

lemma SM_wf_insert: "SM_wf m \<Longrightarrow> SM_wf (SM_insert k v m)"
proof (induction k v m rule: SM_insert.induct)
  case (2 k v j w m)
  then show ?case using SM_set_insert [of k v m] by fastforce
qed simp

lemma SM_wf_erase: "SM_wf m \<Longrightarrow> SM_wf (SM_erase k m)"
proof (induction k m rule: SM_erase.induct)
  case (2 k j v m)
  then show ?case using SM_set_erase [of k m] by auto
qed simp

lemma SM_wf_put: "SM_wf (SM_put k v m) = SM_wf m"
  by (simp add: SM_wf_def SM_keys_put)

lemma SM_find_above: "SM_wf m \<Longrightarrow> \<forall>(j, w) \<in> set m. k < j \<Longrightarrow> SM_find m k = None"
  by (auto simp: SM_find_None_iff)

lemma SM_find_insert_other: "j \<noteq> k \<Longrightarrow> SM_find (SM_insert k v m) j = SM_find m j"
  by (induction k v m rule: SM_insert.induct) auto

lemma SM_find_insert_old: "SM_wf m \<Longrightarrow> SM_find m k = Some w \<Longrightarrow> SM_find (SM_insert k v m) k = Some w"
proof (induction k v m rule: SM_insert.induct)
  case (2 k v j w' m)
  then show ?case by (fastforce dest: SM_find_SomeD split: if_splits)
qed simp

lemma SM_find_insert_new: "SM_find m k = None \<Longrightarrow> SM_find (SM_insert k v m) k = Some v"
  by (induction k v m rule: SM_insert.induct) (auto split: if_splits)

lemma SM_find_insert:
  "SM_wf m \<Longrightarrow> SM_find (SM_insert k v m) j =
     (if j = k then (case SM_find m k of None \<Rightarrow> Some v | Some w \<Rightarrow> Some w) else SM_find m j)"
  by (auto simp: SM_find_insert_other SM_find_insert_old SM_find_insert_new split: option.split)

lemma SM_find_erase_other: "j \<noteq> k \<Longrightarrow> SM_find (SM_erase k m) j = SM_find m j"
  by (induction k m rule: SM_erase.induct) auto

lemma SM_find_erase_same: "SM_wf m \<Longrightarrow> SM_find (SM_erase k m) k = None"
proof (induction k m rule: SM_erase.induct)
  case (2 k j v m)
  then show ?case by (cases "j = k") (auto simp: SM_find_None_iff)
qed simp

lemma SM_find_erase: "SM_wf m \<Longrightarrow> SM_find (SM_erase k m) j = (if j = k then None else SM_find m j)"
  by (simp add: SM_find_erase_same SM_find_erase_other)

lemma SM_find_put: "SM_find (SM_put k v m) j = (if j = k then map_option (\<lambda>_. v) (SM_find m k) else SM_find m j)"
  by (induction k v m rule: SM_put.induct) auto

interpretation std_map: insert_store SM_find SM_erase SM_wf SM_insert
  by unfold_locales
    (simp_all add: SM_wf_insert SM_wf_erase SM_find_erase SM_find_erase_other SM_find_insert_new
      SM_find_insert_old SM_find_insert_other)

end
