(* ===== verification/Route_Table.thy ===== *)
theory Route_Table
  imports Ordered_Map Peer_Entry
begin

text \<open>
  The realm routing table of \<open>libdiameter/include/aaa_route_table.h\<close> and \<open>src/aaa_route_table.cxx\<close>: the
  servers of an application in the order of their metric, the applications of a realm by vendor and
  application identifier, and the realms with the default route. The tree of realms
  (\<open>OD_Utl_RbTreeTree\<close>) stands as the list of its entries.
\<close>

subsection \<open>Servers\<close>

record route_server =
  rs_Server :: string
  rs_Metric :: int

text \<open>A server is removed, and found, by its exact name; \<open>Remove\<close> returns 1 or 0.\<close>

fun RS_Remove :: "string \<Rightarrow> route_server list \<Rightarrow> int \<times> route_server list" where
  "RS_Remove s [] = (0, [])"
| "RS_Remove s (e # es) =
     (if s = rs_Server e then (1, es) else let (r, es') = RS_Remove s es in (r, e # es'))"

fun RS_insert :: "route_server \<Rightarrow> route_server list \<Rightarrow> route_server list" where
  "RS_insert e [] = [e]"
| "RS_insert e (x # xs) = (if rs_Metric x \<ge> rs_Metric e then e # x # xs else x # RS_insert e xs)"

definition RS_Add :: "route_server \<Rightarrow> route_server list \<Rightarrow> route_server list" where
  "RS_Add e es = RS_insert e (snd (RS_Remove (rs_Server e) es))"

fun RS_Lookup :: "route_server list \<Rightarrow> string \<Rightarrow> route_server option" where
  "RS_Lookup [] s = None"
| "RS_Lookup (e # es) s = (if s = rs_Server e then Some e else RS_Lookup es s)"

text \<open>\<open>First\<close> is \<open>front()\<close>, which has no defined value on an empty list: \<open>None\<close>.\<close>

definition RS_First :: "route_server list \<Rightarrow> route_server option" where
  "RS_First es = (case es of [] \<Rightarrow> None | e # _ \<Rightarrow> Some e)"

fun RS_Next :: "route_server \<Rightarrow> route_server list \<Rightarrow> route_server option" where
  "RS_Next e [] = None"
| "RS_Next e (x # xs) = (if x = e then (case xs of [] \<Rightarrow> None | y # _ \<Rightarrow> Some y) else RS_Next e xs)"

subsection \<open>Applications of a realm\<close>

record route_app =
  ra_ApplicationId :: int
  ra_VendorId :: int
  ra_Servers :: "route_server list"

datatype route_action = ROUTE_LOCAL | ROUTE_RELAY | ROUTE_PROXY | ROUTE_REDIRECT

type_synonym app_map = "(int, route_app) smap"

record route_entry =
  re_Realm :: string
  re_Action :: route_action
  re_RedirectUsage :: int
  re_Identifiers :: "(int, app_map) smap"

definition new_route_entry :: "string \<Rightarrow> route_action \<Rightarrow> route_entry" where
  "new_route_entry realm a = \<lparr>re_Realm = realm, re_Action = a, re_RedirectUsage = 0, re_Identifiers = []\<rparr>"

definition RE_Lookup :: "route_entry \<Rightarrow> int \<Rightarrow> int \<Rightarrow> route_app option" where
  "RE_Lookup e appId vendorId =
     (case SM_find (re_Identifiers e) vendorId of None \<Rightarrow> None | Some apps \<Rightarrow> SM_find apps appId)"

definition RE_Remove :: "int \<Rightarrow> int \<Rightarrow> route_entry \<Rightarrow> int \<times> route_entry" where
  "RE_Remove appId vendorId e =
     (case SM_find (re_Identifiers e) vendorId of
        None \<Rightarrow> (-1, e)
      | Some apps \<Rightarrow>
          (case SM_find apps appId of
             None \<Rightarrow> (-1, e)
           | Some _ \<Rightarrow>
               let apps' = SM_erase appId apps
               in (0, e\<lparr>re_Identifiers := (if apps' = [] then SM_erase vendorId (re_Identifiers e)
                                          else SM_put vendorId apps' (re_Identifiers e))\<rparr>)))"

text \<open>\<open>Add\<close> passes the vendor where \<open>Remove\<close> takes the application, and the other way round.\<close>

definition RE_Add :: "route_app \<Rightarrow> route_entry \<Rightarrow> route_entry" where
  "RE_Add a e =
     (let e1 = snd (RE_Remove (ra_VendorId a) (ra_ApplicationId a) e);
          ids = (case SM_find (re_Identifiers e1) (ra_VendorId a) of
                   None \<Rightarrow> SM_insert (ra_VendorId a) [] (re_Identifiers e1)
                 | Some _ \<Rightarrow> re_Identifiers e1);
          apps = (case SM_find ids (ra_VendorId a) of None \<Rightarrow> [] | Some apps \<Rightarrow> apps)
      in e1\<lparr>re_Identifiers := SM_put (ra_VendorId a) (SM_insert (ra_ApplicationId a) a apps) ids\<rparr>)"

definition RE_First :: "route_entry \<Rightarrow> route_app option" where
  "RE_First e =
     (case re_Identifiers e of
        [] \<Rightarrow> None
      | (v, apps) # _ \<Rightarrow> (case apps of [] \<Rightarrow> None | (k, a) # _ \<Rightarrow> Some a))"

text \<open>
  \<open>Next\<close>: over the vendors from the one of \<open>app\<close> on, the iterator is moved one entry past the one found,
  and past the first of every further vendor. Moving it past the end has no defined meaning; the
  outer \<open>None\<close> stands for that.
\<close>

fun after_first :: "app_map \<Rightarrow> route_app option option" where
  "after_first [] = None"
| "after_first [x] = Some None"
| "after_first (x # (k, a) # m) = Some (Some a)"

fun after_key :: "int \<Rightarrow> app_map \<Rightarrow> route_app option option" where
  "after_key k [] = None"
| "after_key k ((j, a) # m) =
     (if j = k then Some (case m of [] \<Rightarrow> None | (_, b) # _ \<Rightarrow> Some b) else after_key k m)"

fun next_vendors :: "(int, app_map) smap \<Rightarrow> route_app option option" where
  "next_vendors [] = Some None"
| "next_vendors ((v, apps) # m) =
     (case after_first apps of None \<Rightarrow> None | Some (Some a) \<Rightarrow> Some (Some a) | Some None \<Rightarrow> next_vendors m)"

fun next_from :: "int \<Rightarrow> int \<Rightarrow> (int, app_map) smap \<Rightarrow> route_app option option" where
  "next_from k v [] = Some None"
| "next_from k v ((w, apps) # m) =
     (if w = v
      then (case after_key k apps of None \<Rightarrow> None | Some (Some a) \<Rightarrow> Some (Some a) | Some None \<Rightarrow> next_vendors m)
      else next_from k v m)"

definition RE_Next :: "route_app \<Rightarrow> route_entry \<Rightarrow> route_app option option" where
  "RE_Next a e = next_from (ra_ApplicationId a) (ra_VendorId a) (re_Identifiers e)"

subsection \<open>The table\<close>

text \<open>Realms are compared as host names are, without regard to the case of letters.\<close>

record route_table =
  rt_Routes :: "route_entry list"
  rt_ExpireTime :: int
  rt_DefaultRoute :: "route_entry option"

fun tree_Find :: "string \<Rightarrow> route_entry list \<Rightarrow> route_entry option" where
  "tree_Find realm [] = None"
| "tree_Find realm (e # es) = (if same_name (re_Realm e) realm then Some e else tree_Find realm es)"

definition tree_Remove :: "string \<Rightarrow> route_entry list \<Rightarrow> route_entry list" where
  "tree_Remove realm es = filter (\<lambda>e. \<not> same_name (re_Realm e) realm) es"

definition RT_Remove :: "string \<Rightarrow> route_table \<Rightarrow> int \<times> route_table" where
  "RT_Remove realm t =
     (case tree_Find realm (rt_Routes t) of
        None \<Rightarrow> (-1, t)
      | Some _ \<Rightarrow> (0, t\<lparr>rt_Routes := tree_Remove realm (rt_Routes t)\<rparr>))"

definition RT_Add :: "route_entry \<Rightarrow> route_table \<Rightarrow> route_table" where
  "RT_Add e t = (let t1 = snd (RT_Remove (re_Realm e) t) in t1\<lparr>rt_Routes := e # rt_Routes t1\<rparr>)"

definition RT_Lookup :: "route_table \<Rightarrow> string \<Rightarrow> route_entry option" where
  "RT_Lookup t realm = (case tree_Find realm (rt_Routes t) of None \<Rightarrow> rt_DefaultRoute t | Some e \<Rightarrow> Some e)"

definition RT_SetDefault :: "route_entry \<Rightarrow> route_table \<Rightarrow> route_table" where
  "RT_SetDefault e t = t\<lparr>rt_DefaultRoute := Some e\<rparr>"

end
