(* ===== verification/C_Text.thy ===== *)
theory C_Text
  imports Prelude
begin

text \<open>
  Numbers as the C library writes and reads them: \<open>sprintf("%u")\<close>, \<open>strtoul\<close> and \<open>atoi\<close>. A character is a \<open>char\<close>
  of HOL. The session identifiers and the values of AVPs use them.
\<close>

subsection \<open>Reading and writing\<close>

definition is_digit :: "char \<Rightarrow> bool" where
  "is_digit ch \<longleftrightarrow> 48 \<le> (of_char ch :: nat) \<and> (of_char ch :: nat) \<le> 57"

definition is_space :: "char \<Rightarrow> bool" where
  "is_space ch \<longleftrightarrow> (of_char ch :: nat) = 32 \<or> 9 \<le> (of_char ch :: nat) \<and> (of_char ch :: nat) \<le> 13"

lemma of_char_int: "(of_char ch :: int) = int (of_char ch)"
  by (simp add: of_nat_of_char)

lemma is_digit_code [code]: "is_digit ch \<longleftrightarrow> 48 \<le> (of_char ch :: int) \<and> (of_char ch :: int) \<le> 57"
  unfolding is_digit_def of_char_int by linarith

lemma is_space_code [code]:
  "is_space ch \<longleftrightarrow> (of_char ch :: int) = 32 \<or> 9 \<le> (of_char ch :: int) \<and> (of_char ch :: int) \<le> 13"
  unfolding is_space_def of_char_int by linarith

definition digit_val :: "char \<Rightarrow> nat" where
  "digit_val ch = of_char ch - 48"

fun read_digits :: "nat \<Rightarrow> string \<Rightarrow> nat" where
  "read_digits acc [] = acc"
| "read_digits acc (ch # s) = (if is_digit ch then read_digits (10 * acc + digit_val ch) s else acc)"

text \<open>The sign and the number at the head of a string.\<close>

definition read_number :: "string \<Rightarrow> bool \<times> nat" where
  "read_number s =
     (case dropWhile is_space (takeWhile (\<lambda>ch. ch \<noteq> CHR 0x00) s) of
        ch # s' \<Rightarrow> if ch = CHR 0x2D then (True, read_digits 0 s')
                  else if ch = CHR 0x2B then (False, read_digits 0 s')
                  else (False, read_digits 0 (ch # s'))
      | [] \<Rightarrow> (False, 0))"

text \<open>\<open>strtoul(s, NULL, 10)\<close> and \<open>atoi(s)\<close>, the latter as the conversion of \<open>strtol\<close>, put into 32 bits. Both
  saturate at the limits of \<open>long\<close>.\<close>

definition long_bits :: "bool \<Rightarrow> nat" where
  "long_bits lp64 = (if lp64 then 64 else 32)"

definition strtoul32 :: "bool \<Rightarrow> string \<Rightarrow> u32" where
  "strtoul32 lp64 s =
     (let (neg, n) = read_number s
      in if 2 ^ long_bits lp64 \<le> n then 0xffffffff
         else if neg then - of_nat n else of_nat n)"

definition atoi32 :: "bool \<Rightarrow> string \<Rightarrow> u32" where
  "atoi32 lp64 s =
     (let (neg, n) = read_number s; lim = 2 ^ (long_bits lp64 - 1)
      in if neg then - of_nat (min n lim) else of_nat (min n (lim - 1)))"

function decimal :: "nat \<Rightarrow> string" where
  "decimal n = (if n < 10 then [char_of (48 + n)] else decimal (n div 10) @ [char_of (48 + n mod 10)])"
  by auto
termination by (relation "measure id") auto

declare decimal.simps [simp del]

subsection \<open>What is written is read back\<close>

lemma digit_char: "d < 10 \<Longrightarrow> is_digit (char_of (48 + d)) \<and> digit_val (char_of (48 + d)) = d"
  by (simp add: is_digit_def digit_val_def)

lemma decimal_less: "n < 10 \<Longrightarrow> decimal n = [char_of (48 + n)]"
  by (simp add: decimal.simps)

lemma decimal_ge: "\<not> n < 10 \<Longrightarrow> decimal n = decimal (n div 10) @ [char_of (48 + n mod 10)]"
  by (subst decimal.simps) simp

lemma decimal_digits: "list_all is_digit (decimal n) \<and> decimal n \<noteq> []"
proof (induction n rule: decimal.induct)
  case (1 n)
  then show ?case using digit_char [of "n mod 10"] digit_char [of n]
    by (cases "n < 10") (simp_all add: decimal_less decimal_ge)
qed

lemma read_digits_append: "list_all is_digit xs \<Longrightarrow> read_digits acc (xs @ ys) = read_digits (read_digits acc xs) ys"
  by (induction xs arbitrary: acc) auto

lemma read_decimal: "read_digits 0 (decimal n) = n"
proof (induction n rule: decimal.induct)
  case (1 n)
  then show ?case using digit_char [of "n mod 10"] digit_char [of n] decimal_digits [of "n div 10"]
    by (cases "n < 10") (simp_all add: decimal_less decimal_ge read_digits_append)
qed

lemma digit_not [simp]:
  "is_digit ch \<Longrightarrow> ch \<noteq> CHR 0x00" "is_digit ch \<Longrightarrow> ch \<noteq> CHR 0x2D" "is_digit ch \<Longrightarrow> ch \<noteq> CHR 0x2B"
  "is_digit ch \<Longrightarrow> ch \<noteq> CHR '';''" "is_digit ch \<Longrightarrow> \<not> is_space ch"
  by (auto simp: is_digit_def is_space_def)

lemma read_number_decimal: "read_number (decimal n) = (False, n)"
proof -
  have t: "takeWhile (\<lambda>ch. ch \<noteq> CHR 0x00) (decimal n) = decimal n"
    using decimal_digits [of n] by (auto simp: takeWhile_eq_all_conv list_all_iff)
  obtain ch s where d: "decimal n = ch # s" "is_digit ch"
    using decimal_digits [of n] by (cases "decimal n") auto
  with read_decimal [of n] show ?thesis unfolding read_number_def t by simp
qed

lemma unat_u32: "unat (w :: u32) < 2 ^ 32"
  using unsigned_less [of w] by simp

lemma strtoul32_decimal: "strtoul32 lp64 (decimal (unat w)) = w"
  using unat_u32 [of w] by (simp add: strtoul32_def read_number_decimal long_bits_def)

lemma atoi32_decimal: "lp64 \<or> w < 2 ^ 31 \<Longrightarrow> atoi32 lp64 (decimal (unat w)) = w"
  using unat_u32 [of w]
  by (auto simp: atoi32_def read_number_decimal long_bits_def Let_def min_def word_less_nat_alt)

end
