(* ===== verification/Session_Id.thy ===== *)
theory Session_Id
  imports Diameter_Msg C_Text
begin

text \<open>
  Session identifiers of \<open>libdiameter/include/aaa_session_attributes.h\<close> and
  \<open>src/aaa_session_attributes.cxx\<close>: the counter, reading a Session-Id AVP and writing it. The code
  keeps the result of \<open>find\<close> in 32 bits and compares it with \<open>npos\<close>, which has the width of \<open>size_t\<close>: the
  flag \<open>lp64\<close> says that it is wider than 32 bits, so that nothing is ever equal to it.
\<close>

subsection \<open>The counter\<close>

record session_counter =
  sc_High :: u32
  sc_Low :: u32

definition SC_inc :: "session_counter \<Rightarrow> session_counter" where
  "SC_inc c =
     (let low = sc_Low c + 1;
          (high, low') = (if low = 0xffffffff then (sc_High c + 1, 0) else (sc_High c, low))
      in \<lparr>sc_High = (if high = 0xffffffff then 0 else high), sc_Low = low'\<rparr>)"

definition SC_less :: "session_counter \<Rightarrow> session_counter \<Rightarrow> bool" where
  "SC_less a b \<longleftrightarrow> sc_High a < sc_High b \<or> (sc_High a = sc_High b \<and> sc_Low a < sc_Low b)"

subsection \<open>Session identifiers\<close>

record session_id =
  si_counter :: session_counter
  si_DiameterId :: string
  si_OptionalVal :: string

definition empty_session_id :: session_id where
  "empty_session_id = \<lparr>si_counter = \<lparr>sc_High = 0, sc_Low = 0\<rparr>, si_DiameterId = [], si_OptionalVal = []\<rparr>"

definition find_from :: "char \<Rightarrow> string \<Rightarrow> nat \<Rightarrow> nat option" where
  "find_from ch s i =
     (let n = length (takeWhile (\<lambda>x. x \<noteq> ch) (drop i s))
      in if i + n < length s then Some (i + n) else None)"

definition substr :: "string \<Rightarrow> nat \<Rightarrow> nat \<Rightarrow> string" where
  "substr s i n = take n (drop i s)"

text \<open>\<open>find\<close> into an \<open>ACE_UINT32\<close>: \<open>None\<close> when the comparison with \<open>npos\<close> says so.\<close>

definition find_u32 :: "bool \<Rightarrow> string \<Rightarrow> nat \<Rightarrow> nat option" where
  "find_u32 lp64 s i =
     (case find_from (CHR '';'') s i of
        Some w \<Rightarrow> Some (w mod 2 ^ 32)
      | None \<Rightarrow> if lp64 then Some (2 ^ 32 - 1) else None)"

definition u32_inc :: "nat \<Rightarrow> nat" where
  "u32_inc w = (w + 1) mod 2 ^ 32"

text \<open>The difference of two positions in 32 bits.\<close>

definition u32_minus :: "nat \<Rightarrow> nat \<Rightarrow> nat" where
  "u32_minus a b = (a + 2 ^ 32 - b) mod 2 ^ 32"

text \<open>\<open>DiameterSessionId::Get\<close> on an object: whether it succeeds, and the object, whose parts are set
  as they are met.\<close>

definition SessionId_Get :: "bool \<Rightarrow> acl \<Rightarrow> session_id \<Rightarrow> bool \<times> session_id" where
  "SessionId_Get lp64 a o0 =
     (case GetStr a AVPNAME_SESSIONID of
        None \<Rightarrow> (False, o0)
      | Some s \<Rightarrow>
          (case find_u32 lp64 s 0 of
             None \<Rightarrow> (False, o0)
           | Some w1 \<Rightarrow>
               let o1 = o0\<lparr>si_DiameterId := substr s 0 w1\<rparr>; w1' = u32_inc w1
               in case find_u32 lp64 s w1' of
                    None \<Rightarrow> (False, o1)
                  | Some w2 \<Rightarrow>
                      let high = strtoul32 lp64 (substr s w1' (u32_minus w2 w1'));
                          w2' = u32_inc w2
                      in case find_u32 lp64 s w2' of
                           None \<Rightarrow>
                             (True, o1\<lparr>si_counter := \<lparr>sc_High = high, sc_Low = atoi32 lp64 (drop w2' s)\<rparr>\<rparr>)
                         | Some w3 \<Rightarrow>
                             (True, o1\<lparr>si_counter :=
                                        \<lparr>sc_High = high, sc_Low = atoi32 lp64 (substr s w2' (u32_minus w3 w2'))\<rparr>,
                                      si_OptionalVal := drop (u32_inc w3) s\<rparr>)))"

definition session_string :: "session_id \<Rightarrow> string" where
  "session_string sid =
     si_DiameterId sid @ '';'' @ decimal (unat (sc_High (si_counter sid))) @ '';'' @
     decimal (unat (sc_Low (si_counter sid))) @
     (if 0 < length (si_OptionalVal sid) then '';'' @ si_OptionalVal sid else [])"

definition SessionId_Set :: "session_id \<Rightarrow> acl \<Rightarrow> acl" where
  "SessionId_Set sid a = AddAvp AVPNAME_SESSIONID False (AvpStr (session_string sid)) a"

end
