(* ===== verification/Msg_Router.thy ===== *)
theory Msg_Router
  imports Route_Table Peer_Entry Session_Id
begin

text \<open>
  The message router of \<open>libdiameter/src/aaa_route_msg_router.cxx\<close> on the framework of
  \<open>include/aaa_route_framework.h\<close>: the chain of request nodes, the delivery nodes with the requests
  they wait for, the redirect agent, retransmission, and the handlers of \<open>src/aaa_session_msg_rx.cxx\<close>
  the router calls. Peers are handles; sending to one runs its state machine. What reaches a
  session, or is given up, is appended to a trace. Sessions and proxy handlers are those of the
  application: which Session-Ids are known, which applications have a session factory, and what a
  proxy handler does are arguments. Exceptions are the value \<open>None\<close> of a result; a read through a null
  pointer sets \<open>r_fault\<close>.
\<close>

subsection \<open>State\<close>

record proxy_handler =
  ph_Request :: "msg \<Rightarrow> bool \<times> msg"
  ph_Answer :: "msg \<Rightarrow> msg"

record renv =
  rv_cfg :: cfg
  rv_backend_auth :: bool
  rv_retx_interval :: nat
  rv_retx_max :: nat
  rv_lp64 :: bool
  rv_session :: "session_id \<Rightarrow> bool"
  rv_factories :: "u32 list"
  rv_proxy :: "u32 \<Rightarrow> proxy_handler option"

record pend =
  pr_OrigHH :: u32
  pr_Source :: "nat option"
  pr_Dest :: "nat option"
  pr_Expire :: nat
  pr_Count :: nat
  pr_Msg :: "msg option"

datatype router_out =
    SessionRequest msg
  | NewSession msg
  | SessionAnswer msg
  | SessionError msg
  | ProxyError msg
  | Discarded msg
  | LoopedBack msg

datatype route_result = ROUTE_SUCCESS | ROUTE_FAILED | ROUTE_NEXT_CHAIN

datatype dnode = DcLocal | DcForward | DcRouted

record router =
  r_req :: "dnode \<Rightarrow> (int, pend) smap"
  r_peers :: "nat \<Rightarrow> peer"
  r_ptable :: "nat ptable"
  r_routes :: route_table
  r_hop_gen :: u32
  r_end_gen :: u32
  r_rands :: nat
  r_now :: nat
  r_handlers :: bool
  r_fault :: bool
  r_out :: "router_out list"

definition r_emit :: "router_out \<Rightarrow> router \<Rightarrow> router" where
  "r_emit x r = r\<lparr>r_out := r_out r @ [x]\<rparr>"

definition r_null :: "router \<Rightarrow> router" where
  "r_null r = r\<lparr>r_fault := True\<rparr>"

text \<open>\<open>dest->Send(msg)\<close>: through a null pointer there is no result.\<close>

definition SendTo :: "nat option \<Rightarrow> msg \<Rightarrow> router \<Rightarrow> int \<times> router" where
  "SendTo dest msg r =
     (case dest of
        None \<Rightarrow> (-1, r_null r)
      | Some d \<Rightarrow> (let (rc, p) = peer_Send msg (r_peers r d) in (rc, r\<lparr>r_peers := (r_peers r)(d := p)\<rparr>)))"

definition rc_of :: "int \<Rightarrow> int" where
  "rc_of x = (if 0 \<le> x then 0 else -1)"

definition result_of :: "int \<Rightarrow> route_result" where
  "result_of x = (if 0 \<le> x then ROUTE_SUCCESS else ROUTE_FAILED)"

text \<open>An open peer of the table by its name.\<close>

definition open_peer_of :: "router \<Rightarrow> string \<Rightarrow> nat option" where
  "open_peer_of r name =
     (case PT_Lookup (r_ptable r) name of
        None \<Rightarrow> None
      | Some d \<Rightarrow> if IsOpen (r_peers r d) then Some d else None)"

subsection \<open>The request nodes: who takes a request\<close>

definition host_is :: "string \<Rightarrow> string \<Rightarrow> bool" where
  "host_is a b \<longleftrightarrow> same_name a b"

definition RcLocal_Lookup :: "renv \<Rightarrow> msg \<Rightarrow> route_result" where
  "RcLocal_Lookup env msg =
     (let c = rv_cfg env; app = h_appId (m_hdr msg) in
      case GetStr (m_acl msg) AVPNAME_DESTHOST of
        Some h \<Rightarrow> if host_is h (cf_identity c) then ROUTE_SUCCESS else ROUTE_NEXT_CHAIN
      | None \<Rightarrow>
          (case GetStr (m_acl msg) AVPNAME_DESTREALM of
             Some realm \<Rightarrow>
               if host_is realm (cf_realm c) \<and> rv_backend_auth env \<and>
                  (app \<in> set (cf_authAppIdLst c) \<or> app \<in> set (cf_acctAppIdLst c) \<or>
                   (\<exists>v \<in> set (cf_vendorSpecificId c). v_authAppId v = app \<or> v_acctAppId v = app))
               then ROUTE_SUCCESS else ROUTE_NEXT_CHAIN
           | None \<Rightarrow> ROUTE_SUCCESS))"

definition RcForwarded_Lookup :: "msg \<Rightarrow> router \<Rightarrow> route_result \<times> nat option" where
  "RcForwarded_Lookup msg r =
     (case GetStr (m_acl msg) AVPNAME_DESTHOST of
        None \<Rightarrow> (ROUTE_NEXT_CHAIN, None)
      | Some h \<Rightarrow>
          (case open_peer_of r h of Some d \<Rightarrow> (ROUTE_SUCCESS, Some d) | None \<Rightarrow> (ROUTE_NEXT_CHAIN, None)))"

text \<open>The realm of a User-Name: from its \<open>@\<close> on, which stays in it; without one \<open>substr\<close> throws.\<close>

definition realm_of_user :: "string \<Rightarrow> string option" where
  "realm_of_user u =
     (case find_from (CHR 0x40) u 0 of None \<Rightarrow> None | Some w \<Rightarrow> Some (substr u w (length u - 1)))"

definition first_app_id :: "acl \<Rightarrow> u32 option" where
  "first_app_id a =
     (case GetU32 a AVPNAME_AUTHAPPID of Some x \<Rightarrow> Some x | None \<Rightarrow> GetU32 a AVPNAME_ACCTAPPID)"

datatype app_search = AppFound route_app | NoApp | NoVendor

definition vendor_app :: "route_entry \<Rightarrow> acl \<Rightarrow> route_app option \<Rightarrow> app_search" where
  "vendor_app e a none =
     (let given = (case none of None \<Rightarrow> NoApp | Some x \<Rightarrow> AppFound x) in
      case GetGroup a AVPNAME_VENDORAPPID of
        None \<Rightarrow> given
      | Some g \<Rightarrow>
          (case GetU32 g AVPNAME_VENDORID of
             None \<Rightarrow> NoVendor
           | Some vid \<Rightarrow>
               (case first_app_id g of
                  None \<Rightarrow> given
                | Some x \<Rightarrow> (case RE_Lookup e (sint x) (sint vid) of None \<Rightarrow> NoApp | Some ap \<Rightarrow> AppFound ap))))"

text \<open>\<open>RcRouted::Lookup\<close>: the application by the header, then by the identifiers of the message.\<close>

definition route_app_of :: "route_entry \<Rightarrow> msg \<Rightarrow> app_search" where
  "route_app_of e msg =
     (case RE_Lookup e (sint (h_appId (m_hdr msg))) 0 of
        Some ap \<Rightarrow> AppFound ap
      | None \<Rightarrow>
          (case first_app_id (m_acl msg) of
             Some x \<Rightarrow> (case RE_Lookup e (sint x) 0 of None \<Rightarrow> NoApp | Some ap \<Rightarrow> AppFound ap)
           | None \<Rightarrow> vendor_app e (m_acl msg) None))"

fun first_open_server :: "router \<Rightarrow> route_server list \<Rightarrow> nat option" where
  "first_open_server r [] = None"
| "first_open_server r (s # ss) =
     (case open_peer_of r (rs_Server s) of Some d \<Rightarrow> Some d | None \<Rightarrow> first_open_server r ss)"

text \<open>The last component is whether the servers of an application without any are asked for the first.\<close>

definition RcRouted_Lookup :: "msg \<Rightarrow> router \<Rightarrow> route_result \<times> nat option \<times> bool" where
  "RcRouted_Lookup msg r =
     (case (case GetStr (m_acl msg) AVPNAME_DESTREALM of
              Some realm \<Rightarrow> Some realm
            | None \<Rightarrow> Option.bind (GetStr (m_acl msg) AVPNAME_USERNAME) realm_of_user) of
        None \<Rightarrow> (ROUTE_NEXT_CHAIN, None, False)
      | Some realm \<Rightarrow>
          (case RT_Lookup (r_routes r) realm of
             None \<Rightarrow> (ROUTE_NEXT_CHAIN, None, False)
           | Some e \<Rightarrow>
               (case route_app_of e msg of
                  AppFound ap \<Rightarrow>
                    if re_Action e = ROUTE_REDIRECT then (ROUTE_SUCCESS, None, False)
                    else if RS_First (ra_Servers ap) = None then (ROUTE_NEXT_CHAIN, None, True)
                    else (case first_open_server r (ra_Servers ap) of
                            Some d \<Rightarrow> (ROUTE_SUCCESS, Some d, False)
                          | None \<Rightarrow> (ROUTE_NEXT_CHAIN, None, False))
                | _ \<Rightarrow> (ROUTE_NEXT_CHAIN, None, False))))"

subsection \<open>Requests a delivery node waits for\<close>

definition q_upd :: "dnode \<Rightarrow> (int, pend) smap \<Rightarrow> router \<Rightarrow> router" where
  "q_upd n q r = r\<lparr>r_req := (r_req r)(n := q)\<rparr>"

text \<open>\<open>Add\<close>: an identifier that is already waited for keeps its entry.\<close>

definition DC_Add :: "renv \<Rightarrow> dnode \<Rightarrow> u32 \<Rightarrow> msg \<Rightarrow> nat option \<Rightarrow> nat option \<Rightarrow> router \<Rightarrow> router" where
  "DC_Add env n hh msg source dest r =
     q_upd n (SM_insert (sint hh)
       \<lparr>pr_OrigHH = h_hh (m_hdr msg), pr_Source = source, pr_Dest = dest,
        pr_Expire = r_now r + rv_retx_interval env, pr_Count = 0, pr_Msg = None\<rparr> (r_req r n)) r"

definition DC_LookupQueued :: "dnode \<Rightarrow> u32 \<Rightarrow> router \<Rightarrow> pend option" where
  "DC_LookupQueued n hh r = SM_find (r_req r n) (sint hh)"

definition DC_Store :: "dnode \<Rightarrow> int \<Rightarrow> msg \<Rightarrow> router \<Rightarrow> router" where
  "DC_Store n key msg r =
     (case SM_find (r_req r n) key of
        None \<Rightarrow> r
      | Some p \<Rightarrow> q_upd n (SM_put key (p\<lparr>pr_Msg := Some msg\<rparr>) (r_req r n)) r)"

text \<open>\<open>Lookup\<close> of an answer: the entry goes, the hop-by-hop identifier of the sender comes back.\<close>

definition DC_Lookup :: "dnode \<Rightarrow> msg \<Rightarrow> router \<Rightarrow> (msg \<times> msg option \<times> nat option \<times> router) option" where
  "DC_Lookup n msg r =
     (case SM_find (r_req r n) (sint (h_hh (m_hdr msg))) of
        None \<Rightarrow> None
      | Some p \<Rightarrow>
          Some (msg\<lparr>m_hdr := (m_hdr msg)\<lparr>h_hh := pr_OrigHH p\<rparr>\<rparr>, pr_Msg p, pr_Source p,
                q_upd n (SM_erase (sint (h_hh (m_hdr msg))) (r_req r n)) r))"

subsection \<open>Handlers of the session library\<close>

definition sid_of :: "renv \<Rightarrow> msg \<Rightarrow> session_id option" where
  "sid_of env msg =
     (let (ok, sid) = SessionId_Get (rv_lp64 env) (m_acl msg) empty_session_id in if ok then Some sid else None)"

definition LocalHandler_Answer :: "renv \<Rightarrow> msg \<Rightarrow> router \<Rightarrow> router" where
  "LocalHandler_Answer env msg r =
     (case sid_of env msg of
        None \<Rightarrow> r_emit (Discarded msg) r
      | Some sid \<Rightarrow> if rv_session env sid then r_emit (SessionAnswer msg) r else r_emit (Discarded msg) r)"

text \<open>\<open>LocalErrorHandling\<close>, and whether it took the message away from its caller.\<close>

definition ErrorHandler :: "renv \<Rightarrow> msg \<Rightarrow> router \<Rightarrow> bool \<times> router" where
  "ErrorHandler env msg r =
     (case sid_of env msg of
        None \<Rightarrow> (False, r_emit (Discarded msg) r)
      | Some sid \<Rightarrow>
          if rv_session env sid then (True, r_emit (SessionError msg) r)
          else (case rv_proxy env (h_appId (m_hdr msg)) of
                  Some _ \<Rightarrow> (False, r_emit (ProxyError msg) r)
                | None \<Rightarrow> (False, r_emit (Discarded msg) r)))"

text \<open>The proxy handler says 0 when the application accepts the request, and -1 when there is none.\<close>

definition ProxyHandler_Request :: "renv \<Rightarrow> msg \<Rightarrow> int \<times> msg" where
  "ProxyHandler_Request env msg =
     (case rv_proxy env (h_appId (m_hdr msg)) of
        Some p \<Rightarrow> (let (ok, msg') = ph_Request p msg in (if ok then 0 else -1, msg'))
      | None \<Rightarrow> (-1, msg))"

definition ProxyHandler_Answer :: "renv \<Rightarrow> msg \<Rightarrow> msg" where
  "ProxyHandler_Answer env msg =
     (case rv_proxy env (h_appId (m_hdr msg)) of Some p \<Rightarrow> ph_Answer p msg | None \<Rightarrow> msg)"

text \<open>Calling a handler that is not registered.\<close>

definition handlers_there :: "(router \<Rightarrow> 'a \<times> router) \<Rightarrow> 'a \<Rightarrow> router \<Rightarrow> 'a \<times> router" where
  "handlers_there f x r = (if r_handlers r then f r else (x, r_null r))"

subsection \<open>The redirect agent\<close>

definition IsRedirected :: "msg \<Rightarrow> bool" where
  "IsRedirected msg \<longleftrightarrow>
     \<not> h_r (m_hdr msg) \<and> h_e (m_hdr msg) \<and> ResultCode msg = AAA_REDIRECT_INDICATION"

fun first_open_host :: "router \<Rightarrow> string list \<Rightarrow> (string \<times> nat) option" where
  "first_open_host r [] = None"
| "first_open_host r (h # hs) =
     (case open_peer_of r h of Some d \<Rightarrow> Some (h, d) | None \<Rightarrow> first_open_host r hs)"

definition set_dest_host :: "string \<Rightarrow> msg \<Rightarrow> msg" where
  "set_dest_host h msg =
     (case GetStr (m_acl msg) AVPNAME_DESTHOST of
        Some _ \<Rightarrow> msg\<lparr>m_acl := AddAvp AVPNAME_DESTHOST False (AvpStr h) (m_acl msg)\<rparr>
      | None \<Rightarrow> msg\<lparr>m_acl := add_avp AVPNAME_DESTHOST [AvpStr h] (m_acl msg)\<rparr>)"

text \<open>\<open>RedirectAgent::Answer\<close>: \<open>p\<close> is the request that is sent again, which a delivery node may not have.\<close>

definition Redirect_Answer :: "msg \<Rightarrow> msg option \<Rightarrow> router \<Rightarrow> int \<times> router" where
  "Redirect_Answer msg p r =
     (case first_open_host r (GetAll as_uri (DelAvp AVPNAME_RESULTCODE (m_acl msg)) AVPNAME_REDIRECTHOST) of
        None \<Rightarrow> (0, r)
      | Some (h, d) \<Rightarrow>
          (case p of
             None \<Rightarrow> (-1, r_null r)
           | Some req \<Rightarrow> (let (rc, r') = SendTo (Some d) (set_dest_host h req) r in (rc_of rc, r'))))"

definition redirect_app :: "route_entry \<Rightarrow> msg \<Rightarrow> app_search" where
  "redirect_app e msg =
     (let app = RE_Lookup e (sint (h_appId (m_hdr msg))) 0 in
      case (app, first_app_id (m_acl msg)) of
        (None, Some x) \<Rightarrow> (case RE_Lookup e (sint x) 0 of None \<Rightarrow> NoApp | Some ap \<Rightarrow> AppFound ap)
      | _ \<Rightarrow> vendor_app e (m_acl msg) app)"

text \<open>\<open>RedirectAgent::Request\<close>, for the route of the realm of the request.\<close>

definition Redirect_Request :: "renv \<Rightarrow> route_entry \<Rightarrow> msg \<Rightarrow> nat option \<Rightarrow> router \<Rightarrow> int \<times> router" where
  "Redirect_Request env e msg source r =
     (case ErrorAnswer (cf_identity (rv_cfg env)) (cf_realm (rv_cfg env)) msg AAA_REDIRECT_INDICATION of
        None \<Rightarrow> (-1, r_null r)
      | Some ans \<Rightarrow>
          (case redirect_app e msg of
             NoVendor \<Rightarrow> (-1, r)
           | NoApp \<Rightarrow> (let (rc, r') = SendTo source ans r in (rc_of rc, r'))
           | AppFound ap \<Rightarrow>
               if RS_First (ra_Servers ap) = None then (-1, r_null r)
               else (let ans' = ans\<lparr>m_acl :=
                           add_avp AVPNAME_REDIRECTHOST (List.map (\<lambda>s. AvpUri (rs_Server s)) (ra_Servers ap))
                           (add_avp AVPNAME_REDIRECTHOSTUSAGE [AvpEnum (re_RedirectUsage e)] (m_acl ans))\<rparr>;
                         (rc, r') = SendTo source ans' r
                     in (rc_of rc, r'))))"

subsection \<open>Answers\<close>

definition LocalAnswer :: "renv \<Rightarrow> msg \<Rightarrow> router \<Rightarrow> router" where
  "LocalAnswer env msg r = snd (handlers_there (\<lambda>r. ((), LocalHandler_Answer env msg r)) () r)"

definition ErrorMsg :: "renv \<Rightarrow> msg \<Rightarrow> router \<Rightarrow> bool \<times> router" where
  "ErrorMsg env msg r = handlers_there (ErrorHandler env msg) False r"

definition answer_redirected :: "msg \<Rightarrow> msg option \<Rightarrow> router \<Rightarrow> route_result \<times> router" where
  "answer_redirected msg p r =
     (let (rc, r') = Redirect_Answer msg p r in (if rc = 0 then ROUTE_SUCCESS else ROUTE_FAILED, r'))"

text \<open>\<open>DcLocal::Process\<close> with its \<open>ErrorHandling\<close>; \<open>DcForward\<close> uses it too. \<open>dest\<close> is where the request came from.\<close>

definition DcLocal_Process :: "renv \<Rightarrow> msg \<Rightarrow> msg option \<Rightarrow> nat option \<Rightarrow> router \<Rightarrow> route_result \<times> router" where
  "DcLocal_Process env msg p dest r =
     (if IsRedirected msg then answer_redirected msg p r
      else case dest of
             Some _ \<Rightarrow> (let (rc, r') = SendTo dest msg r in (result_of rc, r'))
           | None \<Rightarrow>
               if h_e (m_hdr msg) then (ROUTE_SUCCESS, snd (ErrorMsg env msg r))
               else (ROUTE_SUCCESS, LocalAnswer env msg r))"

text \<open>Sending a message that a handler has taken: the transmitter reads through a null pointer.\<close>

definition SendTaken :: "nat \<Rightarrow> router \<Rightarrow> int \<times> router" where
  "SendTaken d r =
     (if \<not> fsm_running (r_peers r d) then (-1, r)
      else if IsOpen (r_peers r d) then (0, r_null r) else (0, r))"

definition DcRouted_Process :: "renv \<Rightarrow> msg \<Rightarrow> msg option \<Rightarrow> nat option \<Rightarrow> router \<Rightarrow> route_result \<times> router" where
  "DcRouted_Process env msg p dest r =
     (if IsRedirected msg then answer_redirected msg p r
      else case dest of
             None \<Rightarrow>
               if h_e (m_hdr msg) then (ROUTE_SUCCESS, snd (ErrorMsg env msg r))
               else (ROUTE_SUCCESS, LocalAnswer env msg r)
           | Some d \<Rightarrow>
               if h_e (m_hdr msg)
               then (let (taken, r1) = ErrorMsg env msg r;
                         (rc, r2) = (if taken then SendTaken d r1 else SendTo dest msg r1)
                     in (result_of rc, r2))
               else (let (msg', r1) = handlers_there (\<lambda>r. (ProxyHandler_Answer env msg, r)) msg r;
                         (rc, r2) = SendTo dest msg' r1
                     in (result_of rc, r2)))"

text \<open>\<open>AnswerMsg\<close>: the delivery chain. The last node takes every answer and drops it.\<close>

definition AnswerMsg :: "renv \<Rightarrow> msg \<Rightarrow> router \<Rightarrow> route_result \<times> router" where
  "AnswerMsg env msg r =
     (case DC_Lookup DcLocal msg r of
        Some (msg', p, src, r') \<Rightarrow> DcLocal_Process env msg' p src r'
      | None \<Rightarrow>
          (case DC_Lookup DcForward msg r of
             Some (msg', p, src, r') \<Rightarrow> DcLocal_Process env msg' p src r'
           | None \<Rightarrow>
               (case DC_Lookup DcRouted msg r of
                  Some (msg', p, src, r') \<Rightarrow> DcRouted_Process env msg' p src r'
                | None \<Rightarrow> (ROUTE_SUCCESS, r_emit (Discarded msg) r))))"

subsection \<open>Requests\<close>

text \<open>\<open>TxASA\<close>, the answer to an Abort-Session-Request of an unknown session.\<close>

definition unknown_session_answer :: "renv \<Rightarrow> msg \<Rightarrow> msg" where
  "unknown_session_answer env asr =
     (let c = rv_cfg env; sid = snd (SessionId_Get (rv_lp64 env) (m_acl asr) empty_session_id) in
      \<lparr>m_hdr = zero_hdr\<lparr>h_ver := 1, h_code := MSGCODE_ABORTSESSION, h_appId := BASE_APPLICATION_ID,
                         h_hh := h_hh (m_hdr asr), h_ee := h_ee (m_hdr asr)\<rparr>,
       m_acl = SessionId_Set sid [] @
         [(AVPNAME_RESULTCODE, [AvpU32 AAA_UNKNOWN_SESSION_ID]),
          (AVPNAME_ORIGINHOST, [AvpStr (cf_identity c)]),
          (AVPNAME_ORIGINREALM, [AvpStr (cf_realm c)]),
          (AVPNAME_ERRORMESSAGE, [AvpStr ''Unknown Session Id'']),
          (AVPNAME_ERRORREPORTINGHOST, [AvpStr (cf_identity c)])]\<rparr>)"

definition LocalHandler_Request :: "renv \<Rightarrow> msg \<Rightarrow> router \<Rightarrow> router" where
  "LocalHandler_Request env msg r =
     (case sid_of env msg of
        None \<Rightarrow> r_emit (Discarded msg) r
      | Some sid \<Rightarrow>
          if rv_session env sid then r_emit (SessionRequest msg) r
          else if rv_factories env = []
          then if h_code (m_hdr msg) = MSGCODE_ABORTSESSION
               then snd (AnswerMsg env (unknown_session_answer env msg) r)
               else r_emit (Discarded msg) r
          else if h_appId (m_hdr msg) \<in> set (rv_factories env) then r_emit (NewSession msg) r
          else r_emit (Discarded msg) r)"

definition DcLocal_RequestMsg :: "renv \<Rightarrow> msg \<Rightarrow> nat option \<Rightarrow> nat option \<Rightarrow> router \<Rightarrow> int \<times> router" where
  "DcLocal_RequestMsg env msg source dest r =
     (case source of
        Some _ \<Rightarrow>
          (0, snd (handlers_there (\<lambda>r. ((), LocalHandler_Request env msg r)) ()
                     (DC_Add env DcLocal (h_hh (m_hdr msg)) msg source dest r)))
      | None \<Rightarrow> (0, r_emit (LoopedBack msg) r))"

definition LoopDetection :: "renv \<Rightarrow> msg \<Rightarrow> bool" where
  "LoopDetection env msg \<longleftrightarrow> cf_identity (rv_cfg env) \<in> set (GetAll as_str (m_acl msg) AVPNAME_ROUTERECORD)"

definition set_hh :: "u32 \<Rightarrow> msg \<Rightarrow> msg" where
  "set_hh hh msg = msg\<lparr>m_hdr := (m_hdr msg)\<lparr>h_hh := hh\<rparr>\<rparr>"

definition set_ee :: "u32 \<Rightarrow> msg \<Rightarrow> msg" where
  "set_ee ee msg = msg\<lparr>m_hdr := (m_hdr msg)\<lparr>h_ee := ee\<rparr>\<rparr>"

definition next_hop :: "renv \<Rightarrow> router \<Rightarrow> u32 \<times> router" where
  "next_hop env r = (let i = HopByHop_Get (cf_hop_seed (rv_cfg env)) (r_hop_gen r) in (i, r\<lparr>r_hop_gen := i\<rparr>))"

definition next_end :: "renv \<Rightarrow> router \<Rightarrow> u32 \<times> router" where
  "next_end env r =
     (let i = EndToEnd_Get (cf_time (rv_cfg env)) (cf_rand (rv_cfg env) (r_rands r)) (r_end_gen r)
      in (i, r\<lparr>r_end_gen := i, r_rands := r_rands r + 1\<rparr>))"

text \<open>The identifiers under which a request goes out, and its entry; the key is an \<open>int\<close>.\<close>

definition number_request ::
  "renv \<Rightarrow> dnode \<Rightarrow> msg \<Rightarrow> nat option \<Rightarrow> nat option \<Rightarrow> router \<Rightarrow> msg \<times> int \<times> router" where
  "number_request env n msg source dest r =
     (case source of
        Some _ \<Rightarrow>
          (let (hh, r1) = next_hop env r
           in (set_hh hh msg, sint hh, DC_Add env n hh msg source dest r1))
      | None \<Rightarrow>
          (let (msg1, r1) = (if h_hh (m_hdr msg) = 0 then (let (hh, r') = next_hop env r in (set_hh hh msg, r'))
                             else (msg, r));
               (msg2, r2) = (if h_ee (m_hdr msg1) = 0 then (let (ee, r') = next_end env r1 in (set_ee ee msg1, r'))
                             else (msg1, r1))
           in (msg2, sint (h_hh (m_hdr msg2)), DC_Add env n (h_hh (m_hdr msg2)) msg2 source dest r2)))"

definition forward_out ::
  "renv \<Rightarrow> dnode \<Rightarrow> msg \<Rightarrow> nat option \<Rightarrow> nat option \<Rightarrow> router \<Rightarrow> int \<times> router" where
  "forward_out env n msg source dest r =
     (let (msg1, key, r1) = number_request env n msg source dest r;
          (rc, r2) = SendTo dest msg1 r1
      in (rc_of rc, if 0 < key then DC_Store n key msg1 r2 else r2))"

definition send_again :: "dnode \<Rightarrow> msg \<Rightarrow> nat option \<Rightarrow> router \<Rightarrow> int \<times> router" where
  "send_again n msg dest r =
     (let (rc, r1) = SendTo dest msg r in (rc_of rc, DC_Store n (sint (h_hh (m_hdr msg))) msg r1))"

definition answer_error :: "renv \<Rightarrow> u32 \<Rightarrow> msg \<Rightarrow> nat option \<Rightarrow> router \<Rightarrow> int \<times> router" where
  "answer_error env code msg source r =
     (case ErrorAnswer (cf_identity (rv_cfg env)) (cf_realm (rv_cfg env)) msg code of
        None \<Rightarrow> (-1, r_null r)
      | Some ans \<Rightarrow> (let (rc, r1) = SendTo source ans r in (rc_of rc, r1)))"

definition DcForward_RequestMsg :: "renv \<Rightarrow> msg \<Rightarrow> nat option \<Rightarrow> nat option \<Rightarrow> router \<Rightarrow> int \<times> router" where
  "DcForward_RequestMsg env msg source dest r =
     (if h_t (m_hdr msg) \<and> DC_LookupQueued DcForward (h_hh (m_hdr msg)) r \<noteq> None
      then send_again DcForward msg dest r
      else if LoopDetection env msg
      then if source \<noteq> None then answer_error env AAA_LOOP_DETECTED msg source r
           else (-1, snd (ErrorMsg env msg r))
      else forward_out env DcForward msg source dest r)"

text \<open>\<open>DcRouted::RequestMsg\<close>: without a Destination-Realm, or a route for it, it throws.\<close>

definition DcRouted_RequestMsg ::
  "renv \<Rightarrow> msg \<Rightarrow> nat option \<Rightarrow> nat option \<Rightarrow> router \<Rightarrow> int option \<times> router" where
  "DcRouted_RequestMsg env msg source dest r =
     (case Option.bind (GetStr (m_acl msg) AVPNAME_DESTREALM) (RT_Lookup (r_routes r)) of
        None \<Rightarrow> (None, r)
      | Some e \<Rightarrow>
          if re_Action e = ROUTE_LOCAL
          then (let (rc, r') = DcLocal_RequestMsg env msg source dest r in (Some rc, r'))
          else if re_Action e = ROUTE_REDIRECT
          then (let (rc, r') = Redirect_Request env e msg source r in (Some rc, r'))
          else let own = (GetStr (m_acl msg) AVPNAME_ORIGINHOST = Some (cf_identity (rv_cfg env))) in
            if \<not> own \<and> h_t (m_hdr msg) \<and> DC_LookupQueued DcRouted (h_hh (m_hdr msg)) r \<noteq> None
            then (let (rc, r') = send_again DcRouted msg dest r in (Some rc, r'))
            else if \<not> own \<and> LoopDetection env msg
            then (let (rc, r') = answer_error env AAA_LOOP_DETECTED msg source r in (Some rc, r'))
            else let msg1 = (if own then msg
                             else msg\<lparr>m_acl := add_avp AVPNAME_ROUTERECORD [AvpStr (cf_identity (rv_cfg env))] (m_acl msg)\<rparr>);
                     ((rc0, msg2), r1) = (if re_Action e = ROUTE_PROXY
                                          then handlers_there (\<lambda>r. (ProxyHandler_Request env msg1, r)) (-1, msg1) r
                                          else ((0, msg1), r))
                 in if rc0 \<noteq> 0 then (Some 0, r1)
                    else (let (rc, r') = forward_out env DcRouted msg2 source dest r1 in (Some rc, r')))"

definition DcReject_RequestMsg :: "renv \<Rightarrow> msg \<Rightarrow> nat option \<Rightarrow> router \<Rightarrow> int \<times> router" where
  "DcReject_RequestMsg env msg source r =
     (case source of
        None \<Rightarrow> (0, snd (ErrorMsg env msg r))
      | Some _ \<Rightarrow> answer_error env AAA_UNABLE_TO_DELIVER msg source r)"

definition of_rc :: "int \<Rightarrow> route_result" where
  "of_rc rc = (if rc = 0 then ROUTE_SUCCESS else ROUTE_FAILED)"

text \<open>\<open>RequestMsg\<close>: the request chain; \<open>None\<close> when the exception leaves it.\<close>

definition RequestMsg :: "renv \<Rightarrow> msg \<Rightarrow> nat option \<Rightarrow> router \<Rightarrow> route_result option \<times> router" where
  "RequestMsg env msg source r =
     (if RcLocal_Lookup env msg = ROUTE_SUCCESS
      then (let (rc, r') = DcLocal_RequestMsg env msg source None r in (Some (of_rc rc), r'))
      else case RcForwarded_Lookup msg r of
             (ROUTE_SUCCESS, dest) \<Rightarrow>
               (let (rc, r') = DcForward_RequestMsg env msg source dest r in (Some (of_rc rc), r'))
           | _ \<Rightarrow>
               (case RcRouted_Lookup msg r of
                  (ROUTE_SUCCESS, dest, _) \<Rightarrow>
                    (let (rc, r') = DcRouted_RequestMsg env msg source dest r in (map_option of_rc rc, r'))
                | (_, _, bad) \<Rightarrow>
                    (let (rc, r') = DcReject_RequestMsg env msg source (if bad then r_null r else r)
                     in (Some (of_rc rc), r'))))"

subsection \<open>Retransmission\<close>

text \<open>
  \<open>PendingReqReTxCheck\<close> on the entry \<open>p\<close> of \<open>key\<close>. The message is moved out of the entry into the request
  chain; a node that sends it puts it back. An entry without a message is read through a null pointer.
  The first component is whether an exception leaves the iteration.
\<close>

definition ReTx_entry :: "renv \<Rightarrow> dnode \<Rightarrow> int \<Rightarrow> pend \<Rightarrow> router \<Rightarrow> bool \<times> router" where
  "ReTx_entry env n key p r =
     (if pr_Count p < rv_retx_max env
      then case pr_Msg p of
             None \<Rightarrow> (False, r_null r)
           | Some msg \<Rightarrow>
               (let msg1 = msg\<lparr>m_hdr := (m_hdr msg)\<lparr>h_t := True\<rparr>\<rparr>;
                    p1 = p\<lparr>pr_Count := pr_Count p + 1, pr_Expire := r_now r + rv_retx_interval env, pr_Msg := None\<rparr>;
                    (res, r1) = RequestMsg env msg1 (pr_Source p) (q_upd n (SM_put key p1 (r_req r n)) r)
                in (res = None, r1))
      else (False, q_upd n (SM_erase key (r_req r n)) r))"

fun next_entry :: "int option \<Rightarrow> (int, pend) smap \<Rightarrow> (int \<times> pend) option" where
  "next_entry None q = (case q of [] \<Rightarrow> None | kp # _ \<Rightarrow> Some kp)"
| "next_entry (Some k) q = SM_next k q"

text \<open>
  \<open>Iterate\<close> over the entries, which a retransmission may add to; fuel bounds the walk. In the code \<open>Iterate\<close> holds the
  table's write lock (\<open>include/framework.h\<close> line 1598) while the request chain locks the same table again for its lookup
  and its insertion. The second lock is one of a thread that already writes: POSIX lets \<open>pthread_rwlock_wrlock\<close> and
  \<open>pthread_rwlock_rdlock\<close> report \<open>EDEADLK\<close>, as glibc does, and the guards of ACE, whose result nobody looks at, then go on
  without a lock of their own. This is the walk modelled here. Where the second lock waits instead, the thread hangs at
  the first entry that is sent again. What follows a read through a null pointer, which sets \<open>r_fault\<close>, has no
  counterpart in the code.
\<close>

fun ReTx_from :: "nat \<Rightarrow> renv \<Rightarrow> dnode \<Rightarrow> (pend \<Rightarrow> bool) \<Rightarrow> int option \<Rightarrow> router \<Rightarrow> (bool \<times> router) option" where
  "ReTx_from 0 env n match pos r = None"
| "ReTx_from (Suc f) env n match pos r =
     (case next_entry pos (r_req r n) of
        None \<Rightarrow> Some (False, r)
      | Some (k, p) \<Rightarrow>
          if match p
          then (let (thrown, r1) = ReTx_entry env n k p r
                in if thrown then Some (True, r1) else ReTx_from f env n match (Some k) r1)
          else ReTx_from f env n match (Some k) r)"

definition ReTransmitEvent :: "nat \<Rightarrow> renv \<Rightarrow> nat option \<Rightarrow> router \<Rightarrow> (bool \<times> router) option" where
  "ReTransmitEvent fuel env peer r =
     (let match = (case peer of Some d \<Rightarrow> (\<lambda>p. pr_Dest p = Some d) | None \<Rightarrow> (\<lambda>p. pr_Expire p < r_now r))
      in case ReTx_from fuel env DcForward match None r of
           None \<Rightarrow> None
         | Some (True, r1) \<Rightarrow> Some (True, r1)
         | Some (False, r1) \<Rightarrow> ReTx_from fuel env DcRouted match None r1)"

definition new_router :: "(nat \<Rightarrow> peer) \<Rightarrow> nat ptable \<Rightarrow> route_table \<Rightarrow> router" where
  "new_router ps pt rt =
     \<lparr>r_req = (\<lambda>n. []), r_peers = ps, r_ptable = pt, r_routes = rt, r_hop_gen = 0, r_end_gen = 0, r_rands = 0,
      r_now = 0, r_handlers = True, r_fault = False, r_out = []\<rparr>"

subsection \<open>Sending\<close>

lemma SendTo_frame [frame_simps]:
  "r_req (snd (SendTo d m r)) = r_req r" "r_ptable (snd (SendTo d m r)) = r_ptable r"
  "r_routes (snd (SendTo d m r)) = r_routes r" "r_out (snd (SendTo d m r)) = r_out r"
  "r_now (snd (SendTo d m r)) = r_now r" "r_handlers (snd (SendTo d m r)) = r_handlers r"
  by (auto simp: SendTo_def r_null_def case_prod_beta split: option.split)

lemma SendTo_Some_fault [frame_simps]: "r_fault (snd (SendTo (Some d) m r)) = r_fault r"
  by (simp add: SendTo_def case_prod_beta)

text \<open>A peer that is open and runs puts the message on its connection.\<close>

definition up_peer :: "router \<Rightarrow> nat \<Rightarrow> bool" where
  "up_peer r d \<longleftrightarrow> fsm_running (r_peers r d) \<and> IsOpen (r_peers r d)"

definition sent_on :: "peer \<Rightarrow> io option" where
  "sent_on p = (if fsm_state p = PST_I_OPEN then pd_IOInitiator p else pd_IOResponder p)"

lemma SendTo_open:
  assumes "up_peer r d"
  shows "SendTo (Some d) msg r =
    (0, r\<lparr>r_peers := (r_peers r)(d := emit (TxMsg msg (sent_on (r_peers r d))) (r_peers r d))\<rparr>)"
  using assms by (auto simp: SendTo_def peer_Send_def up_peer_def IsOpen_def sent_on_def split: peer_st.split)

lemma emit_open [simp]: "IsOpen (emit x p) = IsOpen p" "sent_on (emit x p) = sent_on p"
  by (simp_all add: IsOpen_def sent_on_def emit_def)

lemma q_upd_simps [simp]:
  "r_req (q_upd n q r) k = (if k = n then q else r_req r k)" "r_peers (q_upd n q r) = r_peers r"
  "r_ptable (q_upd n q r) = r_ptable r" "r_routes (q_upd n q r) = r_routes r" "r_out (q_upd n q r) = r_out r"
  "r_fault (q_upd n q r) = r_fault r" "r_now (q_upd n q r) = r_now r" "r_handlers (q_upd n q r) = r_handlers r"
  "r_hop_gen (q_upd n q r) = r_hop_gen r"
  by (simp_all add: q_upd_def)

end
