(* ===== verification/Router_Inv.thy ===== *)
theory Router_Inv
  imports Msg_Router
begin

text \<open>
  What the message router keeps of its pending requests over every step: an invariant of the three tables of the
  delivery nodes, and that a walk over a table that retransmits, which may add entries to it, ends.
\<close>

subsection \<open>The invariant\<close>

definition pend_ok :: "renv \<Rightarrow> nat \<Rightarrow> dnode \<Rightarrow> int \<Rightarrow> pend \<Rightarrow> bool" where
  "pend_ok env now n k p \<longleftrightarrow>
     - (2 ^ 31) \<le> k \<and> k < 2 ^ 31 \<and> pr_Count p \<le> rv_retx_max env \<and> pr_Expire p \<le> now + rv_retx_interval env \<and>
     (case pr_Msg p of None \<Rightarrow> True | Some m \<Rightarrow> n \<noteq> DcLocal \<and> sint (h_hh (m_hdr m)) = k)"

definition pending_ok :: "renv \<Rightarrow> router \<Rightarrow> bool" where
  "pending_ok env r \<longleftrightarrow>
     (\<forall>n. SM_wf (r_req r n) \<and> (\<forall>(k, p) \<in> set (r_req r n). pend_ok env (r_now r) n k p))"

named_theorems keeps_pending

lemma SM_set_put: "set (SM_put k v m) \<subseteq> insert (k, v) (set m)"
  by (induction k v m rule: SM_put.induct) auto

lemma sint_u32 [simp]: "- 2147483648 \<le> sint (x :: u32)" "sint (x :: u32) < 2147483648"
  using sint_ge [of x] sint_lt [of x] by simp_all

lemma pending_frame: "r_req r' = r_req r \<Longrightarrow> r_now r' = r_now r \<Longrightarrow> pending_ok env r' = pending_ok env r"
  by (simp add: pending_ok_def)

lemma pending_simps [simp]:
  "pending_ok env (r_emit x r) = pending_ok env r" "pending_ok env (r_null r) = pending_ok env r"
  "pending_ok env (snd (SendTo d m r)) = pending_ok env r"
  "pending_ok env (r\<lparr>r_hop_gen := i\<rparr>) = pending_ok env r"
  "pending_ok env (r\<lparr>r_end_gen := j, r_rands := k\<rparr>) = pending_ok env r"
  by (rule pending_frame; simp add: r_emit_def r_null_def SendTo_frame)+

lemma pending_q_upd:
  "pending_ok env r \<Longrightarrow> SM_wf q \<Longrightarrow> (\<And>k p. (k, p) \<in> set q \<Longrightarrow> pend_ok env (r_now r) n k p) \<Longrightarrow>
   pending_ok env (q_upd n q r)"
  by (auto simp: pending_ok_def)

lemma pending_wf: "pending_ok env r \<Longrightarrow> SM_wf (r_req r n)"
  and pending_entry: "pending_ok env r \<Longrightarrow> (k, p) \<in> set (r_req r n) \<Longrightarrow> pend_ok env (r_now r) n k p"
  by (auto simp: pending_ok_def)

lemma DC_Add_pending [keeps_pending]: "pending_ok env r \<Longrightarrow> pending_ok env (DC_Add env n hh msg s d r)"
  unfolding DC_Add_def using SM_set_insert pending_entry [of env r _ _ n]
  by (intro pending_q_upd SM_wf_insert pending_wf) (fastforce simp: pend_ok_def)+

lemma put_pending:
  "pending_ok env r \<Longrightarrow> pend_ok env (r_now r) n k p \<Longrightarrow> pending_ok env (q_upd n (SM_put k p (r_req r n)) r)"
  using SM_set_put [of k p "r_req r n"] pending_entry [of env r _ _ n]
  by (intro pending_q_upd) (auto simp: SM_wf_put pending_wf)

lemma erase_pending: "pending_ok env r \<Longrightarrow> pending_ok env (q_upd n (SM_erase k (r_req r n)) r)"
  using SM_set_erase [of k "r_req r n"] pending_entry [of env r _ _ n]
  by (intro pending_q_upd) (auto simp: SM_wf_erase pending_wf)

lemma DC_Store_pending [keeps_pending]:
  "pending_ok env r \<Longrightarrow> n \<noteq> DcLocal \<Longrightarrow> sint (h_hh (m_hdr msg)) = k \<Longrightarrow> pending_ok env (DC_Store n k msg r)"
  using pending_entry [of env r k _ n]
  by (auto simp: DC_Store_def intro!: put_pending dest!: SM_find_SomeD split: option.split)
    (auto simp: pend_ok_def)

lemma DC_Lookup_pending:
  "pending_ok env r \<Longrightarrow> DC_Lookup n msg r = Some (m, p, s, r') \<Longrightarrow> pending_ok env r'"
  by (auto simp: DC_Lookup_def erase_pending split: option.splits)

subsection \<open>Answers keep it\<close>

lemma handlers_pending:
  "pending_ok env r \<Longrightarrow> (pending_ok env r \<Longrightarrow> pending_ok env (snd (f r))) \<Longrightarrow> pending_ok env (snd (handlers_there f x r))"
  by (simp add: handlers_there_def)

lemma LocalHandler_Answer_pending [simp]: "pending_ok env (LocalHandler_Answer env' msg r) = pending_ok env r"
  by (simp add: LocalHandler_Answer_def split: option.split)

lemma ErrorHandler_pending [simp]: "pending_ok env (snd (ErrorHandler env' msg r)) = pending_ok env r"
  by (simp add: ErrorHandler_def split: option.split)

lemma LocalAnswer_pending [simp]: "pending_ok env (LocalAnswer env' msg r) = pending_ok env r"
  by (simp add: LocalAnswer_def handlers_there_def)

lemma ErrorMsg_pending [simp]: "pending_ok env (snd (ErrorMsg env' msg r)) = pending_ok env r"
  by (simp add: ErrorMsg_def handlers_there_def)

lemma Redirect_Answer_pending [simp]: "pending_ok env (snd (Redirect_Answer msg p r)) = pending_ok env r"
  by (simp add: Redirect_Answer_def case_prod_beta split: option.split)

lemma answer_redirected_pending [simp]: "pending_ok env (snd (answer_redirected msg p r)) = pending_ok env r"
  by (simp add: answer_redirected_def case_prod_beta)

lemma DcLocal_Process_pending [simp]: "pending_ok env (snd (DcLocal_Process env' msg p d r)) = pending_ok env r"
  by (simp add: DcLocal_Process_def case_prod_beta split: option.split)

lemma SendTaken_pending [simp]: "pending_ok env (snd (SendTaken d r)) = pending_ok env r"
  by (simp add: SendTaken_def)

lemma DcRouted_Process_pending [simp]: "pending_ok env (snd (DcRouted_Process env' msg p d r)) = pending_ok env r"
  by (simp add: DcRouted_Process_def case_prod_beta handlers_there_def split: option.split)

lemma AnswerMsg_pending [keeps_pending]: "pending_ok env r \<Longrightarrow> pending_ok env (snd (AnswerMsg env msg r))"
  by (auto simp: AnswerMsg_def DC_Lookup_pending split: option.split)

subsection \<open>Requests keep it\<close>

lemma LocalHandler_Request_pending [keeps_pending]:
  "pending_ok env r \<Longrightarrow> pending_ok env (LocalHandler_Request env msg r)"
  by (simp add: LocalHandler_Request_def AnswerMsg_pending split: option.split)

lemma DcLocal_RequestMsg_pending [keeps_pending]:
  "pending_ok env r \<Longrightarrow> pending_ok env (snd (DcLocal_RequestMsg env msg s d r))"
  by (auto simp: DcLocal_RequestMsg_def handlers_there_def intro!: keeps_pending split: option.split)

lemma Redirect_Request_pending [simp]: "pending_ok env (snd (Redirect_Request env' e msg s r)) = pending_ok env r"
  by (simp add: Redirect_Request_def case_prod_beta Let_def split: option.split app_search.split)

lemma number_request_pending:
  "pending_ok env r \<Longrightarrow> number_request env n msg s d r = (m, k, r') \<Longrightarrow>
   pending_ok env r' \<and> sint (h_hh (m_hdr m)) = k"
  by (auto simp: number_request_def next_hop_def next_end_def Let_def case_prod_beta set_hh_def set_ee_def
      intro!: keeps_pending split: option.splits if_splits)

lemma forward_out_pending [keeps_pending]:
  assumes "pending_ok env r" "n \<noteq> DcLocal"
  shows "pending_ok env (snd (forward_out env n msg s d r))"
proof -
  obtain m k r1 where n: "number_request env n msg s d r = (m, k, r1)" by (metis prod_cases3)
  show ?thesis using number_request_pending [OF assms(1) n] assms(2)
    by (auto simp: forward_out_def n case_prod_beta intro!: keeps_pending)
qed

lemma send_again_pending [keeps_pending]:
  "pending_ok env r \<Longrightarrow> n \<noteq> DcLocal \<Longrightarrow> pending_ok env (snd (send_again n msg d r))"
  by (auto simp: send_again_def case_prod_beta intro!: keeps_pending)

lemma answer_error_pending [simp]: "pending_ok env (snd (answer_error env' c msg s r)) = pending_ok env r"
  by (simp add: answer_error_def case_prod_beta split: option.split)

lemma DcForward_RequestMsg_pending [keeps_pending]:
  "pending_ok env r \<Longrightarrow> pending_ok env (snd (DcForward_RequestMsg env msg s d r))"
  by (simp add: DcForward_RequestMsg_def keeps_pending)

lemma DcReject_RequestMsg_pending [simp]: "pending_ok env (snd (DcReject_RequestMsg env' msg s r)) = pending_ok env r"
  by (simp add: DcReject_RequestMsg_def split: option.split)

lemma DcRouted_RequestMsg_pending [keeps_pending]:
  "pending_ok env r \<Longrightarrow> pending_ok env (snd (DcRouted_RequestMsg env msg s d r))"
  by (simp add: DcRouted_RequestMsg_def Let_def case_prod_beta handlers_there_def keeps_pending split: option.split)

lemma RequestMsg_pending [keeps_pending]:
  "pending_ok env r \<Longrightarrow> pending_ok env (snd (RequestMsg env msg s r))"
  by (simp add: RequestMsg_def case_prod_beta keeps_pending split: prod.split route_result.split)

subsection \<open>Retransmission keeps it, and ends\<close>

lemma SM_next_SomeD: "SM_next k m = Some (j, v) \<Longrightarrow> k < j \<and> (j, v) \<in> set m"
  by (induction k m rule: SM_next.induct) (auto split: if_splits)

lemma next_entry_SomeD:
  "next_entry pos q = Some (j, p) \<Longrightarrow> (j, p) \<in> set q \<and> (case pos of None \<Rightarrow> True | Some k \<Rightarrow> k < j)"
  by (cases pos) (auto dest: SM_next_SomeD split: list.splits)

lemma ReTx_entry_pending [keeps_pending]:
  assumes "pending_ok env r" "(k, p) \<in> set (r_req r n)"
  shows "pending_ok env (snd (ReTx_entry env n k p r))"
proof (cases "pr_Msg p")
  case None
  then show ?thesis using assms by (simp add: ReTx_entry_def erase_pending)
next
  case (Some m)
  have "pr_Count p < rv_retx_max env \<Longrightarrow> pending_ok env (q_upd n (SM_put k
      (p\<lparr>pr_Count := pr_Count p + 1, pr_Expire := r_now r + rv_retx_interval env, pr_Msg := None\<rparr>) (r_req r n)) r)"
    using pending_entry [OF assms] by (intro put_pending assms) (simp add: pend_ok_def)
  then show ?thesis using assms by (simp add: ReTx_entry_def Some case_prod_beta Let_def keeps_pending erase_pending)
qed

lemma ReTx_from_pending:
  "ReTx_from f env n match pos r = Some (b, r') \<Longrightarrow> pending_ok env r \<Longrightarrow> pending_ok env r'"
proof (induction f env n match pos r rule: ReTx_from.induct)
  case (2 f env n match pos r)
  show ?case
  proof (cases "next_entry pos (r_req r n)")
    case None
    with "2.prems" show ?thesis by simp
  next
    case (Some kp)
    obtain k p where kp: "kp = (k, p)" by (cases kp)
    obtain t r1 where e: "ReTx_entry env n k p r = (t, r1)" by (cases "ReTx_entry env n k p r")
    have "pending_ok env r1"
      using ReTx_entry_pending [OF "2.prems"(2), of k p n] next_entry_SomeD [OF Some [unfolded kp]] e by simp
    with "2.prems" "2.IH" [OF Some kp [symmetric]] show ?thesis by (auto simp: Some kp e split: if_splits)
  qed
qed simp

lemma ReTransmitEvent_pending [keeps_pending]:
  "ReTransmitEvent f env peer r = Some (b, r') \<Longrightarrow> pending_ok env r \<Longrightarrow> pending_ok env r'"
  unfolding ReTransmitEvent_def Let_def
  by (auto split: option.splits bool.splits elim!: ReTx_from_pending)

text \<open>A walk only goes up in keys, and there are at most \<open>2 ^ 32\<close> of them.\<close>

definition keys_left :: "int option \<Rightarrow> nat" where
  "keys_left pos = (case pos of None \<Rightarrow> 2 ^ 32 | Some k \<Rightarrow> nat (2 ^ 31 - 1 - k))"

lemma ReTx_from_ends:
  "pending_ok env r \<Longrightarrow> keys_left pos < f \<Longrightarrow> ReTx_from f env n match pos r \<noteq> None"
proof (induction f env n match pos r rule: ReTx_from.induct)
  case (2 f env n match pos r)
  show ?case
  proof (cases "next_entry pos (r_req r n)")
    case (Some kp)
    obtain k p where kp: "kp = (k, p)" by (cases kp)
    from next_entry_SomeD [OF Some [unfolded kp]]
    have e: "(k, p) \<in> set (r_req r n)" and l: "case pos of None \<Rightarrow> True | Some j \<Rightarrow> j < k" by auto
    from pending_entry [OF "2.prems"(1) e] have "- (2 ^ 31) \<le> k" "k < 2 ^ 31" by (auto simp: pend_ok_def)
    with l "2.prems"(2) have "keys_left (Some k) < f" by (auto simp: keys_left_def split: option.splits)
    moreover have "pending_ok env (snd (ReTx_entry env n k p r))" by (rule ReTx_entry_pending [OF "2.prems"(1) e])
    ultimately show ?thesis using "2.IH" [OF Some kp [symmetric]] "2.prems"(1)
      by (cases "ReTx_entry env n k p r") (auto simp: Some kp)
  qed simp
qed simp

lemma ReTransmitEvent_ends:
  assumes "pending_ok env r" "2 ^ 32 < f"
  shows "ReTransmitEvent f env peer r \<noteq> None"
proof -
  define match :: "pend \<Rightarrow> bool" where "match = (case peer of Some d \<Rightarrow> (\<lambda>p. pr_Dest p = Some d) | None \<Rightarrow> (\<lambda>p. pr_Expire p < r_now r))"
  from assms have k: "keys_left None < f" by (simp add: keys_left_def)
  from ReTx_from_ends [OF assms(1) k, of DcForward match] obtain b r1
    where f: "ReTx_from f env DcForward match None r = Some (b, r1)" by auto
  from ReTx_from_ends [OF ReTx_from_pending [OF f assms(1)] k, of DcRouted match] f
  show ?thesis by (auto simp: ReTransmitEvent_def Let_def match_def [symmetric] split: bool.split)
qed

subsection \<open>Every step\<close>

text \<open>
  The steps of the router: a request, an answer, a retransmission, the passing of time, and what other threads do
  to the peers, the peer table and the routes.
\<close>

inductive router_step :: "renv \<Rightarrow> router \<Rightarrow> router \<Rightarrow> bool" for env where
  Request: "router_step env r (snd (RequestMsg env msg src r))"
| Answer: "router_step env r (snd (AnswerMsg env msg r))"
| ReTransmit: "ReTransmitEvent f env peer r = Some (b, r') \<Longrightarrow> router_step env r r'"
| Time: "router_step env r (r\<lparr>r_now := r_now r + t\<rparr>)"
| Peers: "router_step env r (r\<lparr>r_peers := ps, r_ptable := pt, r_routes := rt\<rparr>)"

inductive router_reach :: "renv \<Rightarrow> router \<Rightarrow> bool" for env where
  init: "router_reach env (new_router ps pt rt)"
| step: "router_reach env r \<Longrightarrow> router_step env r r' \<Longrightarrow> router_reach env r'"

lemma time_pending: "pending_ok env r \<Longrightarrow> pending_ok env (r\<lparr>r_now := r_now r + t\<rparr>)"
  unfolding pending_ok_def by (fastforce simp: pend_ok_def)

lemma new_router_pending: "pending_ok env (new_router ps pt rt)"
  by (simp add: pending_ok_def new_router_def)

lemma router_step_pending: "router_step env r r' \<Longrightarrow> pending_ok env r \<Longrightarrow> pending_ok env r'"
proof (induction rule: router_step.induct)
  case Peers
  then show ?case by (subst pending_frame) simp_all
next
  case (ReTransmit f peer r b r')
  then show ?case by (rule ReTransmitEvent_pending)
qed (rule RequestMsg_pending AnswerMsg_pending time_pending, assumption)+

lemma router_reach_pending: "router_reach env r \<Longrightarrow> pending_ok env r"
proof (induction rule: router_reach.induct)
  case (step r r')
  then show ?case by (blast intro: router_step_pending)
qed (rule new_router_pending)

end
