(* ===== verification/Router_Props.thy ===== *)
theory Router_Props
  imports Router_Inv Peer_Props
begin

text \<open>
  Properties of the route table and of the message router: what an insertion into the table leaves
  found, the way of an answer back to the sender of its request, loops, and the ways in which the
  bookkeeping of pending requests goes wrong.
\<close>

subsection \<open>The route table\<close>

definition servers_ok :: "route_server list \<Rightarrow> bool" where
  "servers_ok es \<longleftrightarrow> sorted (List.map rs_Metric es) \<and> distinct (List.map rs_Server es)"

lemma RS_Remove_set: "set (snd (RS_Remove s es)) \<subseteq> set es"
  by (induction s es rule: RS_Remove.induct) (auto simp: case_prod_beta)

lemma RS_Remove_ok: "servers_ok es \<Longrightarrow> servers_ok (snd (RS_Remove s es)) \<and> s \<notin> rs_Server ` set (snd (RS_Remove s es))"
proof (induction s es rule: RS_Remove.induct)
  case (2 s e es)
  then show ?case using RS_Remove_set [of s es] by (auto simp: servers_ok_def case_prod_beta)
qed (simp add: servers_ok_def)

lemma RS_insert_set: "set (RS_insert e es) = insert e (set es)"
  by (induction e es rule: RS_insert.induct) auto

lemma RS_insert_ok:
  "servers_ok es \<Longrightarrow> rs_Server e \<notin> rs_Server ` set es \<Longrightarrow> servers_ok (RS_insert e es)"
proof (induction e es rule: RS_insert.induct)
  case (2 e x xs)
  then show ?case by (auto simp: servers_ok_def RS_insert_set)
qed (simp add: servers_ok_def)

lemma RS_Lookup_Remove: "s \<noteq> t \<Longrightarrow> RS_Lookup (snd (RS_Remove t es)) s = RS_Lookup es s"
  by (induction t es rule: RS_Remove.induct) (auto simp: case_prod_beta)

lemma RS_Lookup_insert:
  "rs_Server e \<notin> rs_Server ` set es \<Longrightarrow> RS_Lookup (RS_insert e es) s = (if s = rs_Server e then Some e else RS_Lookup es s)"
  by (induction e es rule: RS_insert.induct) auto

text \<open>The servers of an application stay in the order of their metrics and under different names when
  one is added, and the table finds the one added under its name, instead of one it replaces, and
  every other as before.\<close>

theorem RS_Add_spec:
  assumes "servers_ok es"
  shows "servers_ok (RS_Add e es) \<and>
    RS_Lookup (RS_Add e es) s = (if s = rs_Server e then Some e else RS_Lookup es s)"
  using RS_Remove_ok [OF assms, of "rs_Server e"]
  by (auto simp: RS_Add_def RS_insert_ok RS_Lookup_insert RS_Lookup_Remove)

theorem RS_Add_spec_witness:
  "servers_ok (RS_Add \<lparr>rs_Server = ''b'', rs_Metric = 1\<rparr> [\<lparr>rs_Server = ''a'', rs_Metric = 1\<rparr>, \<lparr>rs_Server = ''b'', rs_Metric = 4\<rparr>]) \<and>
   RS_Lookup (RS_Add \<lparr>rs_Server = ''b'', rs_Metric = 1\<rparr> [\<lparr>rs_Server = ''a'', rs_Metric = 1\<rparr>, \<lparr>rs_Server = ''b'', rs_Metric = 4\<rparr>]) ''a''
     = (if ''a'' = rs_Server \<lparr>rs_Server = ''b'', rs_Metric = 1\<rparr> then Some \<lparr>rs_Server = ''b'', rs_Metric = 1\<rparr>
        else RS_Lookup [\<lparr>rs_Server = ''a'', rs_Metric = 1\<rparr>, \<lparr>rs_Server = ''b'', rs_Metric = 4\<rparr>] ''a'')"
  by (rule RS_Add_spec) (simp add: servers_ok_def)

definition ids_wf :: "(int, app_map) smap \<Rightarrow> bool" where
  "ids_wf m \<longleftrightarrow> SM_wf m \<and> (\<forall>(v, apps) \<in> set m. SM_wf apps \<and> apps \<noteq> [])"

lemma ids_wf_find: "ids_wf m \<Longrightarrow> SM_find m v = Some apps \<Longrightarrow> SM_wf apps"
  by (auto simp: ids_wf_def dest: SM_find_SomeD)

lemma RE_Remove_lookup:
  assumes "ids_wf (re_Identifiers e)"
  shows "RE_Lookup (snd (RE_Remove k v e)) j w = (if j = k \<and> w = v then None else RE_Lookup e j w)"
proof (cases "SM_find (re_Identifiers e) v")
  case None
  then show ?thesis by (auto simp: RE_Remove_def RE_Lookup_def)
next
  case (Some apps)
  note wf = ids_wf_find [OF assms Some]
  show ?thesis
  proof (cases "SM_find apps k")
    case None
    with Some show ?thesis by (auto simp: RE_Remove_def RE_Lookup_def)
  next
    case f: (Some a)
    have n: "j \<noteq> k \<Longrightarrow> SM_erase k apps = [] \<Longrightarrow> SM_find apps j = None"
      using SM_find_erase [OF wf, of k j] by auto
    from assms have "SM_wf (re_Identifiers e)" by (simp add: ids_wf_def)
    with Some f n SM_find_erase [OF wf, of k j] show ?thesis
      by (auto simp: RE_Remove_def RE_Lookup_def Let_def SM_find_erase SM_find_put)
  qed
qed

lemma RE_Remove_wf: "ids_wf (re_Identifiers e) \<Longrightarrow> SM_wf (re_Identifiers (snd (RE_Remove k v e)))"
  by (auto simp: RE_Remove_def ids_wf_def Let_def SM_wf_erase SM_wf_put split: option.split)

lemma RE_Remove_apps_wf:
  assumes "ids_wf (re_Identifiers e)" "SM_find (re_Identifiers (snd (RE_Remove k v e))) w = Some apps"
  shows "SM_wf apps"
proof -
  from assms(1) have "SM_wf (re_Identifiers e)" by (simp add: ids_wf_def)
  with assms ids_wf_find [OF assms(1)] show ?thesis
    by (auto simp: RE_Remove_def Let_def SM_find_erase SM_find_put SM_wf_erase split: option.splits if_splits)
qed

lemma RE_Add_lookup:
  assumes "ids_wf (re_Identifiers e)"
  shows "RE_Lookup (RE_Add a e) j w =
    (let e1 = snd (RE_Remove (ra_VendorId a) (ra_ApplicationId a) e) in
     if j = ra_ApplicationId a \<and> w = ra_VendorId a
     then (case RE_Lookup e1 j w of None \<Rightarrow> Some a | Some old \<Rightarrow> Some old)
     else RE_Lookup e1 j w)"
proof -
  let ?e = "snd (RE_Remove (ra_VendorId a) (ra_ApplicationId a) e)"
  note wf = RE_Remove_wf [OF assms, of "ra_VendorId a" "ra_ApplicationId a"]
    RE_Remove_apps_wf [OF assms, of "ra_VendorId a" "ra_ApplicationId a" "ra_VendorId a"]
  show ?thesis
  proof (cases "SM_find (re_Identifiers ?e) (ra_VendorId a)")
    case None
    with wf show ?thesis
      by (auto simp: RE_Add_def RE_Lookup_def Let_def SM_find_put SM_find_insert SM_find_insert_new
          SM_find_insert_other)
  next
    case (Some apps)
    with wf show ?thesis
      by (auto simp: RE_Add_def RE_Lookup_def Let_def SM_find_put SM_find_insert split: option.split)
  qed
qed

text \<open>An application is found after it is added to a route when the route did not have it. When it did,
  the old one stays, because what \<open>Add\<close> removes first is the application whose identifier is the vendor of
  the new one and whose vendor is its identifier; that one is lost. Every other application is found as before.\<close>

theorem RE_Add_spec:
  assumes "ids_wf (re_Identifiers e)"
  shows "RE_Lookup (RE_Add a e) j w =
    (if j = ra_ApplicationId a \<and> w = ra_VendorId a
     then (if j = w then Some a else case RE_Lookup e j w of None \<Rightarrow> Some a | Some old \<Rightarrow> Some old)
     else if j = ra_VendorId a \<and> w = ra_ApplicationId a then None
     else RE_Lookup e j w)"
  unfolding RE_Add_lookup [OF assms] Let_def RE_Remove_lookup [OF assms]
  by (cases "j = w"; cases "j = ra_ApplicationId a"; cases "w = ra_VendorId a") simp_all

definition sample_app :: "int \<Rightarrow> int \<Rightarrow> string \<Rightarrow> route_app" where
  "sample_app k v s = \<lparr>ra_ApplicationId = k, ra_VendorId = v, ra_Servers = [\<lparr>rs_Server = s, rs_Metric = 1\<rparr>]\<rparr>"

theorem RE_Add_spec_witness:
  "RE_Lookup (RE_Add (sample_app 5 7 ''new'')
      ((new_route_entry ''r'' ROUTE_RELAY)\<lparr>re_Identifiers := [(5, [(7, sample_app 7 5 ''x'')]), (7, [(5, sample_app 5 7 ''old'')])]\<rparr>)) 5 7
   = Some (sample_app 5 7 ''old'') \<and>
   RE_Lookup (RE_Add (sample_app 5 7 ''new'')
      ((new_route_entry ''r'' ROUTE_RELAY)\<lparr>re_Identifiers := [(5, [(7, sample_app 7 5 ''x'')]), (7, [(5, sample_app 5 7 ''old'')])]\<rparr>)) 7 5
   = None"
  by (rule conjI; subst RE_Add_spec) (simp_all add: ids_wf_def sample_app_def RE_Lookup_def)

subsection \<open>A router to run on\<close>

definition demo_open :: "string \<Rightarrow> nat \<Rightarrow> peer" where
  "demo_open name k = (new_peer name 3868 False False)\<lparr>fsm_state := PST_R_OPEN, pd_IOResponder := Some (IO k False)\<rparr>"

definition demo_router :: router where
  "demo_router = new_router (\<lambda>d. if d = 0 then demo_open ''a.net'' 0 else if d = 1 then demo_open ''b.com'' 1
                                 else demo_open ''c.org'' d)
     [(''a.net'', 0), (''b.com'', 1), (''c.org'', 2)]
     \<lparr>rt_Routes = [], rt_ExpireTime = 0, rt_DefaultRoute = None\<rparr>"

definition rt_env :: renv where
  "rt_env = \<lparr>rv_cfg = run_cfg, rv_backend_auth = True, rv_retx_interval = 10, rv_retx_max = 3, rv_lp64 = True,
     rv_session = (\<lambda>sid. True), rv_factories = [1], rv_proxy = (\<lambda>a. None)\<rparr>"

definition demo_req :: "string \<Rightarrow> u32 \<Rightarrow> msg" where
  "demo_req host hh = \<lparr>m_hdr = zero_hdr\<lparr>h_ver := 1, h_r := True, h_p := True, h_code := 265, h_appId := 1, h_hh := hh, h_ee := 9\<rparr>,
     m_acl = [(AVPNAME_SESSIONID, [AvpStr ''h;1;2'']), (AVPNAME_DESTHOST, [AvpStr host])]\<rparr>"

definition demo_ans :: "u32 \<Rightarrow> msg" where
  "demo_ans hh = \<lparr>m_hdr = zero_hdr\<lparr>h_ver := 1, h_p := True, h_code := 265, h_appId := 1, h_hh := hh, h_ee := 9\<rparr>,
     m_acl = [(AVPNAME_SESSIONID, [AvpStr ''h;1;2'']), (AVPNAME_RESULTCODE, [AvpU32 2001])]\<rparr>"

lemmas demo_defs = demo_router_def rt_env_def demo_open_def demo_req_def demo_ans_def new_router_def run_cfg_def
  new_peer_def up_peer_def IsOpen_def host_is_def same_name_def RcLocal_Lookup_def RcForwarded_Lookup_def
  open_peer_of_def GetStr_def GetAvp_def LoopDetection_def GetAll_def IsRedirected_def c_str_def to_lower_def
  zero_hdr_def ResultCode_def GetU32_def

subsection \<open>Forwarding\<close>

lemma SM_put_insert: "SM_find m k = None \<Longrightarrow> SM_put k v (SM_insert k w m) = SM_insert k v m"
  by (induction k w m rule: SM_insert.induct) (auto split: if_splits)

lemma SM_erase_insert: "SM_find m k = None \<Longrightarrow> SM_erase k (SM_insert k v m) = m"
  by (induction k v m rule: SM_insert.induct) (auto split: if_splits)

definition sent :: "nat \<Rightarrow> msg \<Rightarrow> router \<Rightarrow> router" where
  "sent d msg r = r\<lparr>r_peers := (r_peers r)(d := emit (TxMsg msg (sent_on (r_peers r d))) (r_peers r d))\<rparr>"

lemma SendTo_sent: "up_peer r d \<Longrightarrow> SendTo (Some d) msg r = (0, sent d msg r)"
  by (simp add: SendTo_open sent_def)

lemma sent_simps [simp]:
  "r_req (sent d m r) = r_req r" "r_out (sent d m r) = r_out r" "r_now (sent d m r) = r_now r"
  "r_handlers (sent d m r) = r_handlers r" "r_ptable (sent d m r) = r_ptable r" "r_routes (sent d m r) = r_routes r"
  "up_peer (sent d m r) k = up_peer r k" "up_peer (q_upd n q r) k = up_peer r k"
  "up_peer (r\<lparr>r_hop_gen := i\<rparr>) k = up_peer r k"
  by (simp_all add: sent_def up_peer_def emit_def IsOpen_def q_upd_def)

text \<open>The pending request that \<open>forward_out\<close> leaves for a request of a peer.\<close>

definition waiting :: "renv \<Rightarrow> msg \<Rightarrow> nat \<Rightarrow> nat \<Rightarrow> u32 \<Rightarrow> router \<Rightarrow> pend" where
  "waiting env msg s d hop r =
     \<lparr>pr_OrigHH = h_hh (m_hdr msg), pr_Source = Some s, pr_Dest = Some d, pr_Expire = r_now r + rv_retx_interval env,
      pr_Count = 0, pr_Msg = (if 0 < sint hop then Some (set_hh hop msg) else None)\<rparr>"

lemma q_upd_again: "q_upd n q (q_upd n q' r) = q_upd n q r"
  by (simp add: q_upd_def)

lemma q_upd_same: "q_upd n (r_req r n) r = r"
  by (simp add: q_upd_def)

lemma q_upd_sent: "sent d m (q_upd n q r) = q_upd n q (sent d m r)"
  by (simp add: q_upd_def sent_def)

lemma forward_out_sent:
  assumes "up_peer r d" "hop = HopByHop_Get (cf_hop_seed (rv_cfg env)) (r_hop_gen r)"
    "SM_find (r_req r n) (sint hop) = None"
  shows "forward_out env n msg (Some s) (Some d) r =
    (0, q_upd n (SM_insert (sint hop) (waiting env msg s d hop r) (r_req r n))
          (sent d (set_hh hop msg) (r\<lparr>r_hop_gen := hop\<rparr>)))"
  using assms
  by (auto simp: forward_out_def number_request_def next_hop_def Let_def DC_Add_def SendTo_sent rc_of_def q_upd_sent
      DC_Store_def SM_find_insert_new SM_put_insert q_upd_again waiting_def)

lemma DcLocal_Process_returned:
  "up_peer r s \<Longrightarrow> \<not> IsRedirected msg \<Longrightarrow> DcLocal_Process env msg p (Some s) r = (ROUTE_SUCCESS, sent s msg r)"
  by (simp add: DcLocal_Process_def SendTo_sent result_of_def)

lemma IsRedirected_set_hh [simp]: "IsRedirected (set_hh h m) = IsRedirected m"
  by (simp add: IsRedirected_def set_hh_def ResultCode_def)

lemma set_hh_same [simp]: "set_hh (h_hh (m_hdr m)) m = m"
  by (simp add: set_hh_def)

lemma DC_Lookup_Some:
  "SM_find (r_req r n) (sint (h_hh (m_hdr msg))) = Some p \<Longrightarrow> DC_Lookup n msg r =
     Some (set_hh (pr_OrigHH p) msg, pr_Msg p, pr_Source p, q_upd n (SM_erase (sint (h_hh (m_hdr msg))) (r_req r n)) r)"
  by (simp add: DC_Lookup_def set_hh_def)

lemma DC_Lookup_None: "DC_Lookup n msg r = None \<longleftrightarrow> SM_find (r_req r n) (sint (h_hh (m_hdr msg))) = None"
  by (simp add: DC_Lookup_def split: option.split)

text \<open>The way of a forwarded request and of its answer. A request for the host of an open peer goes out to it
  under a new hop-by-hop identifier, and the answer under this identifier goes back to the peer the request came
  from, with the identifier that peer had used. Nothing is left pending, and nothing else happens.\<close>

theorem forwarded_answer_returns:
  assumes "RcLocal_Lookup env msg \<noteq> ROUTE_SUCCESS" "RcForwarded_Lookup msg r = (ROUTE_SUCCESS, Some d)"
    "\<not> h_t (m_hdr msg)" "\<not> LoopDetection env msg" "up_peer r s" "up_peer r d"
    "hop = HopByHop_Get (cf_hop_seed (rv_cfg env)) (r_hop_gen r)"
    "SM_find (r_req r DcLocal) (sint hop) = None" "SM_find (r_req r DcForward) (sint hop) = None"
    "h_hh (m_hdr ans) = hop" "\<not> IsRedirected ans"
  shows "fst (RequestMsg env msg (Some s) r) = Some ROUTE_SUCCESS \<and>
    AnswerMsg env ans (snd (RequestMsg env msg (Some s) r)) =
      (ROUTE_SUCCESS, sent s (set_hh (h_hh (m_hdr msg)) ans) (sent d (set_hh hop msg) (r\<lparr>r_hop_gen := hop\<rparr>)))"
proof -
  have r: "RequestMsg env msg (Some s) r = (Some ROUTE_SUCCESS,
      q_upd DcForward (SM_insert (sint hop) (waiting env msg s d hop r) (r_req r DcForward))
          (sent d (set_hh hop msg) (r\<lparr>r_hop_gen := hop\<rparr>)))" (is "_ = (_, ?r1)")
    using assms(1-4) forward_out_sent [OF assms(6,7,9), of msg s]
    by (simp add: RequestMsg_def DcForward_RequestMsg_def of_rc_def)
  have "DC_Lookup DcLocal ans ?r1 = None" using assms(8,10) by (simp add: DC_Lookup_None)
  moreover have "DC_Lookup DcForward ans ?r1 =
      Some (set_hh (h_hh (m_hdr msg)) ans, pr_Msg (waiting env msg s d hop r), Some s,
            sent d (set_hh hop msg) (r\<lparr>r_hop_gen := hop\<rparr>))"
    using assms(9,10) q_upd_same [of DcForward "sent d (set_hh hop msg) (r\<lparr>r_hop_gen := hop\<rparr>)"]
    by (subst DC_Lookup_Some)
      (auto simp: SM_find_insert_new SM_erase_insert q_upd_again waiting_def)
  ultimately show ?thesis using assms(5,11) r
    by (simp add: AnswerMsg_def DcLocal_Process_returned)
qed

theorem forwarded_answer_returns_witness:
  "fst (RequestMsg rt_env (demo_req ''b.com'' 7) (Some 0) demo_router) = Some ROUTE_SUCCESS \<and>
    AnswerMsg rt_env (demo_ans 101) (snd (RequestMsg rt_env (demo_req ''b.com'' 7) (Some 0) demo_router)) =
      (ROUTE_SUCCESS, sent 0 (set_hh (h_hh (m_hdr (demo_req ''b.com'' 7))) (demo_ans 101))
        (sent 1 (set_hh 101 (demo_req ''b.com'' 7)) (demo_router\<lparr>r_hop_gen := 101\<rparr>)))"
  by (rule forwarded_answer_returns)
    (simp_all add: demo_defs HopByHop_Get_def)

lemma DcRouted_Process_returned:
  "up_peer r s \<Longrightarrow> \<not> IsRedirected msg \<Longrightarrow> \<not> h_e (m_hdr msg) \<Longrightarrow> r_handlers r \<Longrightarrow>
   DcRouted_Process env msg p (Some s) r = (ROUTE_SUCCESS, sent s (ProxyHandler_Answer env msg) r)"
  by (simp add: DcRouted_Process_def SendTo_sent result_of_def handlers_there_def)

text \<open>The request as a relay sends it on.\<close>

definition recorded :: "renv \<Rightarrow> msg \<Rightarrow> msg" where
  "recorded env msg = msg\<lparr>m_acl := add_avp AVPNAME_ROUTERECORD [AvpStr (cf_identity (rv_cfg env))] (m_acl msg)\<rparr>"

text \<open>C11: the way of a request that is relayed by its Destination-Realm: one that is not for this node and not for an
  open peer by its Destination-Host, whose realm has a route with the action RELAY and a server for its application
  whose peer is open, that did not start at this node, is no retransmission and is in no loop, while the peer it came
  from is open, the router has its handlers, and no pending request has the new identifier. It goes, under a new
  hop-by-hop identifier and with the identity of this node added as a Route-Record, to the first server of its
  application whose peer is open. (The comment in front of \<open>DcRouted::RequestMsg\<close>, \<open>aaa_route_msg_router.cxx\<close> line 690,
  asks for the identity of the peer the request came from in that AVP; the code puts its own there.) The answer, if it
  has no error bit, passes the proxy handler of its application, when there is one, and goes back to where the request
  came from, under the identifier that peer had used, and nothing is left pending.\<close>

theorem relayed_answer_returns:
  assumes "RcLocal_Lookup env msg \<noteq> ROUTE_SUCCESS" "fst (RcForwarded_Lookup msg r) = ROUTE_NEXT_CHAIN"
    "GetStr (m_acl msg) AVPNAME_DESTREALM = Some realm" "RT_Lookup (r_routes r) realm = Some e"
    "re_Action e = ROUTE_RELAY" "route_app_of e msg = AppFound ap"
    "first_open_server r (ra_Servers ap) = Some d"
    "GetStr (m_acl msg) AVPNAME_ORIGINHOST \<noteq> Some (cf_identity (rv_cfg env))"
    "\<not> h_t (m_hdr msg)" "\<not> LoopDetection env msg" "up_peer r s" "up_peer r d" "r_handlers r"
    "hop = HopByHop_Get (cf_hop_seed (rv_cfg env)) (r_hop_gen r)"
    "\<And>n. SM_find (r_req r n) (sint hop) = None"
    "h_hh (m_hdr ans) = hop" "\<not> h_e (m_hdr ans)"
  shows "fst (RequestMsg env msg (Some s) r) = Some ROUTE_SUCCESS \<and>
    AnswerMsg env ans (snd (RequestMsg env msg (Some s) r)) =
      (ROUTE_SUCCESS, sent s (ProxyHandler_Answer env (set_hh (h_hh (m_hdr msg)) ans))
                        (sent d (set_hh hop (recorded env msg)) (r\<lparr>r_hop_gen := hop\<rparr>)))"
proof -
  have ne: "RS_First (ra_Servers ap) \<noteq> None" using assms(7) by (auto simp: RS_First_def split: list.split)
  have rl: "RcRouted_Lookup msg r = (ROUTE_SUCCESS, Some d, False)"
    using assms(3-7) ne by (simp add: RcRouted_Lookup_def)
  have hh: "h_hh (m_hdr (recorded env msg)) = h_hh (m_hdr msg)" by (simp add: recorded_def)
  have fw: "(case RcForwarded_Lookup msg r of (ROUTE_SUCCESS, dest) \<Rightarrow> A dest | (ROUTE_FAILED, dest) \<Rightarrow> B
       | (ROUTE_NEXT_CHAIN, dest) \<Rightarrow> B) = B" for A and B :: "route_result option \<times> router"
    using assms(2) by (cases "RcForwarded_Lookup msg r") auto
  have r: "RequestMsg env msg (Some s) r = (Some ROUTE_SUCCESS,
      q_upd DcRouted (SM_insert (sint hop) (waiting env (recorded env msg) s d hop r) (r_req r DcRouted))
          (sent d (set_hh hop (recorded env msg)) (r\<lparr>r_hop_gen := hop\<rparr>)))" (is "_ = (_, ?r1)")
    using assms(1,3-5,8-10) forward_out_sent [OF assms(12,14,15), where msg = "recorded env msg" and s = s]
    by (simp add: RequestMsg_def fw rl DcRouted_RequestMsg_def of_rc_def Let_def recorded_def)
  have "DC_Lookup DcLocal ans ?r1 = None" "DC_Lookup DcForward ans ?r1 = None"
    using assms(15,16) by (simp_all add: DC_Lookup_None)
  moreover have "DC_Lookup DcRouted ans ?r1 =
      Some (set_hh (h_hh (m_hdr msg)) ans, pr_Msg (waiting env (recorded env msg) s d hop r), Some s,
            sent d (set_hh hop (recorded env msg)) (r\<lparr>r_hop_gen := hop\<rparr>))"
    using assms(15,16) q_upd_same [of DcRouted "sent d (set_hh hop (recorded env msg)) (r\<lparr>r_hop_gen := hop\<rparr>)"]
    by (subst DC_Lookup_Some)
      (auto simp: SM_find_insert_new SM_erase_insert q_upd_again waiting_def hh)
  moreover have "\<not> IsRedirected ans" "\<not> h_e (m_hdr (set_hh i ans))" for i
    using assms(17) by (simp_all add: IsRedirected_def set_hh_def)
  ultimately show ?thesis using assms(11,13) r
    by (simp add: AnswerMsg_def DcRouted_Process_returned)
qed

definition relay_app :: route_app where
  "relay_app = \<lparr>ra_ApplicationId = 1, ra_VendorId = 0,
     ra_Servers = [\<lparr>rs_Server = ''d.org'', rs_Metric = 1\<rparr>, \<lparr>rs_Server = ''c.org'', rs_Metric = 2\<rparr>]\<rparr>"

definition relay_entry :: route_entry where
  "relay_entry = (new_route_entry ''org'' ROUTE_RELAY)\<lparr>re_Identifiers := [(0, [(1, relay_app)])]\<rparr>"

definition relay_router :: router where
  "relay_router = demo_router\<lparr>r_routes :=
     \<lparr>rt_Routes = [relay_entry], rt_ExpireTime = 0, rt_DefaultRoute = None\<rparr>\<rparr>"

definition realm_req :: "u32 \<Rightarrow> msg" where
  "realm_req hh = (demo_req [] hh)\<lparr>m_acl := [(AVPNAME_DESTREALM, [AvpStr ''org'']), (AVPNAME_ORIGINHOST, [AvpStr ''a.net''])]\<rparr>"

theorem relayed_answer_returns_witness:
  "fst (RequestMsg rt_env (realm_req 7) (Some 0) relay_router) = Some ROUTE_SUCCESS \<and>
    AnswerMsg rt_env (demo_ans 101) (snd (RequestMsg rt_env (realm_req 7) (Some 0) relay_router)) =
      (ROUTE_SUCCESS, sent 0 (ProxyHandler_Answer rt_env (set_hh (h_hh (m_hdr (realm_req 7))) (demo_ans 101)))
        (sent 2 (set_hh 101 (recorded rt_env (realm_req 7))) (relay_router\<lparr>r_hop_gen := 101\<rparr>)))"
  by (rule relayed_answer_returns [where realm = "''org''" and ap = relay_app and e = relay_entry])
    (simp_all add: demo_defs HopByHop_Get_def relay_router_def realm_req_def RT_Lookup_def route_app_of_def
      RE_Lookup_def new_route_entry_def relay_app_def relay_entry_def)

subsection \<open>Loops\<close>

lemma ErrorAnswer_code:
  "GetGroup (m_acl req) AVPNAME_PROXYINFO = None \<Longrightarrow>
   \<exists>a. ErrorAnswer identity realm req code = Some a \<and> ResultCode a = code \<and> h_hh (m_hdr a) = h_hh (m_hdr req)"
  by (auto simp: ErrorAnswer_def Let_def ResultCode_def GetU32_def GetAvp_def search_add_avp AddAvp_def
      split: option.splits)

lemma answer_error_sent:
  "up_peer r s \<Longrightarrow> ErrorAnswer (cf_identity (rv_cfg env)) (cf_realm (rv_cfg env)) msg code = Some a \<Longrightarrow>
   answer_error env code msg (Some s) r = (0, sent s a r)"
  by (simp add: answer_error_def SendTo_sent rc_of_def)

text \<open>a request that has already passed this node is not forwarded: the peer it came from gets an answer with
  \<open>AAA_LOOP_DETECTED\<close> and the hop-by-hop identifier of the request, and nothing is left pending.\<close>

theorem loop_answered:
  assumes "RcLocal_Lookup env msg \<noteq> ROUTE_SUCCESS" "RcForwarded_Lookup msg r = (ROUTE_SUCCESS, Some d)"
    "\<not> h_t (m_hdr msg)" "LoopDetection env msg" "up_peer r s"
    "GetGroup (m_acl msg) AVPNAME_PROXYINFO = None"
  shows "\<exists>ans. RequestMsg env msg (Some s) r = (Some ROUTE_SUCCESS, sent s ans r) \<and>
    ResultCode ans = AAA_LOOP_DETECTED \<and> h_hh (m_hdr ans) = h_hh (m_hdr msg)"
proof -
  from ErrorAnswer_code [OF assms(6)] obtain ans where
    a: "ErrorAnswer (cf_identity (rv_cfg env)) (cf_realm (rv_cfg env)) msg AAA_LOOP_DETECTED = Some ans"
      "ResultCode ans = AAA_LOOP_DETECTED" "h_hh (m_hdr ans) = h_hh (m_hdr msg)" by blast
  with assms(1-4) answer_error_sent [OF assms(5) a(1)] show ?thesis
    by (auto simp: RequestMsg_def DcForward_RequestMsg_def of_rc_def)
qed

definition loop_req :: msg where
  "loop_req = (demo_req [] 7)\<lparr>m_acl := [(AVPNAME_DESTHOST, [AvpStr ''b.com'']),
     (AVPNAME_ROUTERECORD, [AvpStr ''x.org'', AvpStr ''b.net''])]\<rparr>"

theorem loop_answered_witness:
  "\<exists>ans. RequestMsg rt_env loop_req (Some 0) demo_router = (Some ROUTE_SUCCESS, sent 0 ans demo_router) \<and>
    ResultCode ans = AAA_LOOP_DETECTED \<and> h_hh (m_hdr ans) = h_hh (m_hdr loop_req)"
  by (rule loop_answered [where d = 1]) (simp_all add: demo_defs loop_req_def GetGroup_def)

subsection \<open>Requests handled by this node\<close>

lemma SM_insert_again: "SM_find m k = None \<Longrightarrow> SM_insert k v (SM_insert k w m) = SM_insert k w m"
  by (induction k w m rule: SM_insert.induct) (auto split: if_splits)

lemma RequestMsg_local:
  assumes "RcLocal_Lookup env msg = ROUTE_SUCCESS" "sid_of env msg = Some sid" "rv_session env sid" "r_handlers r"
  shows "RequestMsg env msg (Some s) r =
    (Some ROUTE_SUCCESS, r_emit (SessionRequest msg) (DC_Add env DcLocal (h_hh (m_hdr msg)) msg (Some s) None r))"
  using assms
  by (simp add: RequestMsg_def DcLocal_RequestMsg_def handlers_there_def LocalHandler_Request_def of_rc_def DC_Add_def)

lemma r_emit_simps [simp]:
  "r_req (r_emit x r) = r_req r" "r_handlers (r_emit x r) = r_handlers r" "r_peers (r_emit x r) = r_peers r"
  "r_now (r_emit x r) = r_now r" "up_peer (r_emit x r) d = up_peer r d" "q_upd n q (r_emit x r) = r_emit x (q_upd n q r)"
  by (simp_all add: r_emit_def up_peer_def q_upd_def)

text \<open>The requests for sessions of this node are remembered by the hop-by-hop identifier of their sender alone. When
  two peers use the same one at the same time, the first answer goes to the first of them, whichever request it
  answers, and the other answer is thrown away.\<close>

theorem local_requests_collide:
  assumes "RcLocal_Lookup env m1 = ROUTE_SUCCESS" "RcLocal_Lookup env m2 = ROUTE_SUCCESS"
    "h_hh (m_hdr m1) = h" "h_hh (m_hdr m2) = h" "\<And>n. SM_find (r_req r n) (sint h) = None"
    "sid_of env m1 = Some sid1" "rv_session env sid1" "sid_of env m2 = Some sid2" "rv_session env sid2"
    "r_handlers r" "up_peer r s1" "h_hh (m_hdr a) = h" "h_hh (m_hdr b) = h" "\<not> IsRedirected a"
  shows "\<exists>r1 r2 r3. RequestMsg env m1 (Some s1) r = (Some ROUTE_SUCCESS, r1) \<and>
    RequestMsg env m2 (Some s2) r1 = (Some ROUTE_SUCCESS, r2) \<and>
    AnswerMsg env a r2 = (ROUTE_SUCCESS, r3) \<and>
    r3 = sent s1 a (r_emit (SessionRequest m2) (r_emit (SessionRequest m1) r)) \<and>
    AnswerMsg env b r3 = (ROUTE_SUCCESS, r_emit (Discarded b) r3)"
proof -
  let ?r0 = "r_emit (SessionRequest m2) (r_emit (SessionRequest m1) r)"
  let ?q = "SM_insert (sint h) \<lparr>pr_OrigHH = h, pr_Source = Some s1, pr_Dest = None,
        pr_Expire = r_now r + rv_retx_interval env, pr_Count = 0, pr_Msg = None\<rparr> (r_req r DcLocal)"
  let ?r1 = "snd (RequestMsg env m1 (Some s1) r)"
  have r1: "RequestMsg env m1 (Some s1) r = (Some ROUTE_SUCCESS, r_emit (SessionRequest m1) (q_upd DcLocal ?q r))"
    using assms(3) by (simp add: RequestMsg_local [OF assms(1,6,7,10)] DC_Add_def)
  have r2: "RequestMsg env m2 (Some s2) ?r1 = (Some ROUTE_SUCCESS, q_upd DcLocal ?q ?r0)"
    using assms(4,5,10) r1
    by (subst RequestMsg_local [OF assms(2,8,9)]) (simp_all add: DC_Add_def SM_insert_again q_upd_again)
  have "DC_Lookup DcLocal a (q_upd DcLocal ?q ?r0) = Some (a, None, Some s1, ?r0)"
    using assms(5,12) q_upd_same [of DcLocal ?r0]
    by (subst DC_Lookup_Some) (auto simp: SM_find_insert_new SM_erase_insert q_upd_again)
  then have "AnswerMsg env a (q_upd DcLocal ?q ?r0) = (ROUTE_SUCCESS, sent s1 a ?r0)"
    using assms(11,14) by (simp add: AnswerMsg_def DcLocal_Process_returned)
  moreover have "AnswerMsg env b (sent s1 a ?r0) = (ROUTE_SUCCESS, r_emit (Discarded b) (sent s1 a ?r0))"
    using assms(5,13) DC_Lookup_None [of _ b "sent s1 a ?r0"] by (simp add: AnswerMsg_def)
  ultimately show ?thesis using r1 r2 by auto
qed

definition local_env :: renv where
  "local_env = rt_env\<lparr>rv_lp64 := False\<rparr>"

theorem local_requests_collide_witness:
  "\<exists>r1 r2 r3. RequestMsg local_env (demo_req ''b.net'' 7) (Some 0) demo_router = (Some ROUTE_SUCCESS, r1) \<and>
    RequestMsg local_env (demo_req ''b.net'' 7) (Some 1) r1 = (Some ROUTE_SUCCESS, r2) \<and>
    AnswerMsg local_env (demo_ans 7) r2 = (ROUTE_SUCCESS, r3) \<and>
    r3 = sent 0 (demo_ans 7) (r_emit (SessionRequest (demo_req ''b.net'' 7)) (r_emit (SessionRequest (demo_req ''b.net'' 7)) demo_router)) \<and>
    AnswerMsg local_env (demo_ans 7) r3 = (ROUTE_SUCCESS, r_emit (Discarded (demo_ans 7)) r3)"
  by (rule local_requests_collide)
    (simp_all add: demo_defs local_env_def sid_of_def SessionId_Get_def find_u32_def find_from_def Let_def u32_inc_def)

subsection \<open>Redirection\<close>

lemma open_peer_q_upd [simp]: "open_peer_of (q_upd n q r) = open_peer_of r"
  by (auto simp: open_peer_of_def fun_eq_iff split: option.split)

text \<open>When the answer to a forwarded request redirects it, the request goes to the first host of the answer that is
  the name of an open peer, with this host as its Destination-Host, and is no longer pending: the answer
  of that peer is thrown away, and the sender of the request never gets one.\<close>

theorem redirected_answer_lost:
  assumes "DC_LookupQueued DcForward hop r = Some p" "pr_Msg p = Some req" "SM_wf (r_req r DcForward)"
    "DC_LookupQueued DcLocal hop r = None" "DC_LookupQueued DcRouted hop r = None"
    "h_hh (m_hdr red) = hop" "IsRedirected red" "h_hh (m_hdr ans) = hop"
    "first_open_host r (GetAll as_uri (DelAvp AVPNAME_RESULTCODE (m_acl red)) AVPNAME_REDIRECTHOST) = Some (host, d)"
    "up_peer r d"
  shows "\<exists>r1. AnswerMsg env red r = (ROUTE_SUCCESS, r1) \<and>
    r1 = sent d (set_dest_host host req) (q_upd DcForward (SM_erase (sint hop) (r_req r DcForward)) r) \<and>
    AnswerMsg env ans r1 = (ROUTE_SUCCESS, r_emit (Discarded ans) r1)"
proof -
  let ?r = "q_upd DcForward (SM_erase (sint hop) (r_req r DcForward)) r"
  have f: "first_open_host ?r hs = first_open_host r hs" for hs
    by (induction hs) (simp_all split: option.split)
  have acl: "m_acl (set_hh h red) = m_acl red" for h by (simp add: set_hh_def)
  have l: "DC_Lookup DcLocal red r = None" "DC_Lookup DcForward red r = Some (set_hh (pr_OrigHH p) red, Some req, pr_Source p, ?r)"
    using assms(1,2,4,6) DC_Lookup_Some [of r DcForward red p] by (auto simp: DC_LookupQueued_def DC_Lookup_None)
  have "AnswerMsg env red r = (ROUTE_SUCCESS, sent d (set_dest_host host req) ?r)"
    using assms(7,9,10)
    by (simp add: AnswerMsg_def l DcLocal_Process_def answer_redirected_def Redirect_Answer_def acl f SendTo_sent rc_of_def)
  moreover have "AnswerMsg env ans (sent d (set_dest_host host req) ?r) =
      (ROUTE_SUCCESS, r_emit (Discarded ans) (sent d (set_dest_host host req) ?r))"
  proof -
    have "DC_Lookup n ans (sent d (set_dest_host host req) ?r) = None" for n
      using assms(3-5,8) by (cases n) (auto simp: DC_Lookup_None DC_LookupQueued_def SM_find_erase)
    then show ?thesis by (simp add: AnswerMsg_def)
  qed
  ultimately show ?thesis by blast
qed

definition redirection :: msg where
  "redirection = \<lparr>m_hdr = zero_hdr\<lparr>h_e := True, h_hh := 101\<rparr>,
     m_acl = [(AVPNAME_RESULTCODE, [AvpU32 AAA_REDIRECT_INDICATION]),
              (AVPNAME_REDIRECTHOST, [AvpUri ''no.org'', AvpUri ''c.org''])]\<rparr>"

definition pending_router :: router where
  "pending_router = snd (RequestMsg rt_env (demo_req ''b.com'' 7) (Some 0) demo_router)"

lemma pending_router_eq:
  "pending_router = q_upd DcForward [(101, waiting rt_env (demo_req ''b.com'' 7) 0 1 101 demo_router)]
     (sent 1 (set_hh 101 (demo_req ''b.com'' 7)) (demo_router\<lparr>r_hop_gen := 101\<rparr>))"
proof -
  have "up_peer demo_router 1" by (simp add: demo_defs)
  from forward_out_sent [OF this, of 101 rt_env DcForward "demo_req ''b.com'' 7" 0] show ?thesis
    by (simp add: pending_router_def RequestMsg_def DcForward_RequestMsg_def of_rc_def HopByHop_Get_def demo_defs)
qed

theorem redirected_answer_lost_witness:
  "\<exists>r1. AnswerMsg rt_env redirection pending_router = (ROUTE_SUCCESS, r1) \<and>
    r1 = sent 2 (set_dest_host ''c.org'' (set_hh 101 (demo_req ''b.com'' 7)))
           (q_upd DcForward (SM_erase (sint (101 :: u32)) (r_req pending_router DcForward)) pending_router) \<and>
    AnswerMsg rt_env (demo_ans 101) r1 = (ROUTE_SUCCESS, r_emit (Discarded (demo_ans 101)) r1)"
  by (rule redirected_answer_lost [where p = "waiting rt_env (demo_req ''b.com'' 7) 0 1 101 demo_router"])
    (simp_all add: pending_router_eq DC_LookupQueued_def waiting_def redirection_def demo_defs sent_def emit_def)

subsection \<open>Retransmission\<close>

definition set_t :: "msg \<Rightarrow> msg" where
  "set_t m = m\<lparr>m_hdr := (m_hdr m)\<lparr>h_t := True\<rparr>\<rparr>"

lemma set_t_simps [simp]:
  "h_t (m_hdr (set_t m))" "h_hh (m_hdr (set_t m)) = h_hh (m_hdr m)" "m_acl (set_t m) = m_acl m"
  "h_appId (m_hdr (set_t m)) = h_appId (m_hdr m)"
  by (simp_all add: set_t_def)

lemma Lookup_set_t [simp]:
  "RcLocal_Lookup env (set_t m) = RcLocal_Lookup env m" "RcForwarded_Lookup (set_t m) r = RcForwarded_Lookup m r"
  by (simp_all add: RcLocal_Lookup_def RcForwarded_Lookup_def cong: option.case_cong)

lemma SM_put_put: "SM_put k v (SM_put k w m) = SM_put k v m"
  by (induction k w m rule: SM_put.induct) auto

text \<open>The entry as the retransmission leaves it, with \<open>m\<close> as its message.\<close>

definition tried_again :: "renv \<Rightarrow> router \<Rightarrow> pend \<Rightarrow> msg option \<Rightarrow> pend" where
  "tried_again env r p m = p\<lparr>pr_Count := pr_Count p + 1, pr_Expire := r_now r + rv_retx_interval env, pr_Msg := m\<rparr>"

lemma ReTx_entry_sends:
  assumes "pr_Count p < rv_retx_max env" "pr_Msg p = Some msg"
  shows "ReTx_entry env n k p r =
    (let (res, r1) = RequestMsg env (set_t msg) (pr_Source p) (q_upd n (SM_put k (tried_again env r p None) (r_req r n)) r)
     in (res = None, r1))"
  using assms by (simp add: ReTx_entry_def Let_def set_t_def tried_again_def)

lemma RcForwarded_q_upd [simp]: "RcForwarded_Lookup m (q_upd n q r) = RcForwarded_Lookup m r"
  by (simp add: RcForwarded_Lookup_def cong: option.case_cong)

text \<open>C33: a forwarded request that is retransmitted goes to the open peer of its Destination-Host with the same
  hop-by-hop identifier and the T flag; its entry counts the attempt, is due again one interval later, and
  has the message back. The other pending requests are untouched.\<close>

theorem retransmission_resends:
  assumes "SM_find (r_req r DcForward) k = Some p" "pr_Msg p = Some msg" "sint (h_hh (m_hdr msg)) = k"
    "pr_Count p < rv_retx_max env" "RcLocal_Lookup env msg \<noteq> ROUTE_SUCCESS"
    "RcForwarded_Lookup msg r = (ROUTE_SUCCESS, Some d)" "up_peer r d"
  shows "ReTx_entry env DcForward k p r =
    (False, q_upd DcForward (SM_put k (tried_again env r p (Some (set_t msg))) (r_req r DcForward)) (sent d (set_t msg) r))"
proof -
  let ?r = "q_upd DcForward (SM_put k (tried_again env r p None) (r_req r DcForward)) r"
  have q: "DC_LookupQueued DcForward (h_hh (m_hdr msg)) ?r = Some (tried_again env r p None)"
    using assms(1,3) by (simp add: DC_LookupQueued_def SM_find_put)
  have st: "tried_again env r p None\<lparr>pr_Msg := Some m\<rparr> = tried_again env r p (Some m)" for m
    by (simp add: tried_again_def)
  have "RequestMsg env (set_t msg) (pr_Source p) ?r = (Some ROUTE_SUCCESS,
      q_upd DcForward (SM_put k (tried_again env r p (Some (set_t msg))) (r_req r DcForward)) (sent d (set_t msg) r))"
    using assms(1,3,5-7) q
    by (simp add: RequestMsg_def DcForward_RequestMsg_def send_again_def SendTo_sent rc_of_def of_rc_def q_upd_sent
        DC_Store_def SM_find_put SM_put_put q_upd_again st)
  then show ?thesis by (simp add: ReTx_entry_sends [OF assms(4,2)])
qed

theorem retransmission_resends_witness:
  "ReTx_entry rt_env DcForward 101 (waiting rt_env (demo_req ''b.com'' 7) 0 1 101 demo_router) pending_router =
    (False, q_upd DcForward (SM_put 101 (tried_again rt_env pending_router
        (waiting rt_env (demo_req ''b.com'' 7) 0 1 101 demo_router) (Some (set_t (set_hh 101 (demo_req ''b.com'' 7)))))
        (r_req pending_router DcForward)) (sent 1 (set_t (set_hh 101 (demo_req ''b.com'' 7))) pending_router))"
  by (rule retransmission_resends)
    (simp_all add: pending_router_eq waiting_def demo_defs sent_def emit_def q_upd_def set_hh_def)

text \<open>When the peer of a forwarded request is gone and no route takes the request either, its retransmission answers
  \<open>AAA_UNABLE_TO_DELIVER\<close> to the sender but leaves the entry behind without its message; the next
  retransmission of the entry reads through the null pointer.\<close>

theorem rejected_retransmission_faults:
  assumes "SM_find (r_req r DcForward) k = Some p" "pr_Msg p = Some msg" "pr_Source p = Some s"
    "pr_Count p + 1 < rv_retx_max env" "RcLocal_Lookup env msg \<noteq> ROUTE_SUCCESS"
    "fst (RcForwarded_Lookup msg r) = ROUTE_NEXT_CHAIN" "GetStr (m_acl msg) AVPNAME_DESTREALM = None"
    "GetStr (m_acl msg) AVPNAME_USERNAME = None" "GetGroup (m_acl msg) AVPNAME_PROXYINFO = None" "up_peer r s"
  shows "\<exists>ans r1 p1. ResultCode ans = AAA_UNABLE_TO_DELIVER \<and> ReTx_entry env DcForward k p r = (False, r1) \<and>
    r_peers r1 = r_peers (sent s ans r) \<and> SM_find (r_req r1 DcForward) k = Some p1 \<and>
    ReTx_entry env DcForward k p1 r1 = (False, r_null r1)"
proof -
  let ?r = "q_upd DcForward (SM_put k (tried_again env r p None) (r_req r DcForward)) r"
  from assms(9) have "GetGroup (m_acl (set_t msg)) AVPNAME_PROXYINFO = None" by simp
  from ErrorAnswer_code [OF this] obtain ans where
    a: "ErrorAnswer (cf_identity (rv_cfg env)) (cf_realm (rv_cfg env)) (set_t msg) AAA_UNABLE_TO_DELIVER = Some ans"
      "ResultCode ans = AAA_UNABLE_TO_DELIVER" by blast
  have fw: "(case RcForwarded_Lookup msg r of (ROUTE_SUCCESS, dest) \<Rightarrow> A dest | (ROUTE_FAILED, dest) \<Rightarrow> B
       | (ROUTE_NEXT_CHAIN, dest) \<Rightarrow> B) = B" for A and B :: "route_result option \<times> router"
    using assms(6) by (cases "RcForwarded_Lookup msg r") auto
  have rq: "RequestMsg env (set_t msg) (pr_Source p) ?r = (Some ROUTE_SUCCESS, sent s ans ?r)"
    using assms(3,5,7,8) answer_error_sent [of ?r s env "set_t msg" AAA_UNABLE_TO_DELIVER ans] assms(10) a(1)
    by (simp add: RequestMsg_def fw RcRouted_Lookup_def DcReject_RequestMsg_def of_rc_def)
  have "ReTx_entry env DcForward k p r = (False, sent s ans ?r)"
    using assms(2,4) rq by (simp add: ReTx_entry_sends)
  moreover have "r_peers (sent s ans ?r) = r_peers (sent s ans r)" by (simp add: sent_def)
  moreover have "SM_find (r_req (sent s ans ?r) DcForward) k = Some (tried_again env r p None)"
    using assms(1) by (simp add: SM_find_put)
  moreover have "ReTx_entry env DcForward k (tried_again env r p None) r' = (False, r_null r')" for r'
    using assms(4) by (simp add: ReTx_entry_def tried_again_def)
  ultimately show ?thesis using a(2) by blast
qed

definition cut_off_router :: router where
  "cut_off_router = pending_router\<lparr>r_peers := (r_peers pending_router)(1 := new_peer ''b.com'' 3868 False False)\<rparr>"

theorem rejected_retransmission_faults_witness:
  "\<exists>ans r1 p1. ResultCode ans = AAA_UNABLE_TO_DELIVER \<and>
    ReTx_entry rt_env DcForward 101 (waiting rt_env (demo_req ''b.com'' 7) 0 1 101 demo_router) cut_off_router = (False, r1) \<and>
    r_peers r1 = r_peers (sent 0 ans cut_off_router) \<and> SM_find (r_req r1 DcForward) 101 = Some p1 \<and>
    ReTx_entry rt_env DcForward 101 p1 r1 = (False, r_null r1)"
  by (rule rejected_retransmission_faults [where msg = "set_hh 101 (demo_req ''b.com'' 7)"])
    (simp_all add: cut_off_router_def pending_router_eq waiting_def demo_defs sent_def emit_def q_upd_def set_hh_def
      GetGroup_def)

subsection \<open>Every reachable router\<close>

text \<open>C19: whatever requests, answers, retransmissions and changes of peers and routes come in whatever order, the three
  tables of pending requests stay ordered by their identifiers, an entry is never tried more often than
  configured nor due later than one interval from now, a message in an entry carries the identifier it is kept
  under, and requests handled by this node itself are kept without their message.\<close>

theorem pending_requests_invariant:
  assumes "router_reach env r" "SM_find (r_req r n) k = Some p"
  shows "SM_wf (r_req r n) \<and> pr_Count p \<le> rv_retx_max env \<and> pr_Expire p \<le> r_now r + rv_retx_interval env \<and>
    (pr_Msg p = None \<or> n \<noteq> DcLocal \<and> map_option (\<lambda>m. sint (h_hh (m_hdr m))) (pr_Msg p) = Some k)"
proof -
  note ok = router_reach_pending [OF assms(1)]
  have "pr_Msg p = None \<or> n \<noteq> DcLocal \<and> map_option (\<lambda>m. sint (h_hh (m_hdr m))) (pr_Msg p) = Some k"
    using pending_entry [OF ok SM_find_SomeD [OF assms(2)]] unfolding pend_ok_def by (cases "pr_Msg p") auto
  with pending_entry [OF ok SM_find_SomeD [OF assms(2)]] pending_wf [OF ok] show ?thesis
    unfolding pend_ok_def by blast
qed

lemma pending_router_reach: "router_reach rt_env pending_router"
  unfolding pending_router_def demo_router_def by (rule router_reach.step [OF router_reach.init router_step.Request])

theorem pending_requests_invariant_witness:
  "SM_wf (r_req pending_router DcForward) \<and>
    pr_Count (waiting rt_env (demo_req ''b.com'' 7) 0 1 101 demo_router) \<le> rv_retx_max rt_env \<and>
    pr_Expire (waiting rt_env (demo_req ''b.com'' 7) 0 1 101 demo_router) \<le> r_now pending_router + rv_retx_interval rt_env \<and>
    (pr_Msg (waiting rt_env (demo_req ''b.com'' 7) 0 1 101 demo_router) = None \<or> DcForward \<noteq> DcLocal \<and>
     map_option (\<lambda>m. sint (h_hh (m_hdr m))) (pr_Msg (waiting rt_env (demo_req ''b.com'' 7) 0 1 101 demo_router)) = Some 101)"
  by (rule pending_requests_invariant [OF pending_router_reach]) (simp add: pending_router_eq)

text \<open>The walk of a retransmission ends, although the requests it sends again may be added to the table it walks: it only
  goes to higher identifiers, of which there are at most \<open>2 ^ 32\<close>. The router it leaves is again a reachable one. This is
  a fact of the walk alone: where a second lock of the table by the same thread waits instead of failing (see
  \<open>Msg_Router\<close>), the code does not get past the first entry.\<close>

theorem retransmission_ends:
  assumes "router_reach env r"
  shows "\<exists>thrown r'. ReTransmitEvent (2 ^ 32 + 1) env peer r = Some (thrown, r') \<and> router_reach env r'"
proof -
  from ReTransmitEvent_ends [OF router_reach_pending [OF assms], of "2 ^ 32 + 1" peer] obtain t r'
    where e: "ReTransmitEvent (2 ^ 32 + 1) env peer r = Some (t, r')" by auto
  then have "router_step env r r'" by (rule router_step.ReTransmit)
  with assms e show ?thesis by (blast intro: router_reach.step)
qed

theorem retransmission_ends_witness:
  "\<exists>thrown r'. ReTransmitEvent (2 ^ 32 + 1) rt_env (Some 1) pending_router = Some (thrown, r') \<and> router_reach rt_env r'"
  by (rule retransmission_ends) (rule pending_router_reach)

end
