(* ===== verification/Session_Id_Props.thy ===== *)
theory Session_Id_Props
  imports Session_Id
begin

text \<open>
  Properties of session identifiers: what is written is read back, and what goes wrong where the code compares
  a 32 bit position with the 64 bit \<open>npos\<close>; the counter is in the order \<open>SC_less\<close> until it wraps around.
\<close>

subsection \<open>Positions\<close>

lemma takeWhile_none: "ch \<notin> set ys \<Longrightarrow> takeWhile (\<lambda>x. x \<noteq> ch) ys = ys"
  by (induction ys) auto

lemma takeWhile_at: "ch \<notin> set ys \<Longrightarrow> takeWhile (\<lambda>x. x \<noteq> ch) (ys @ ch # zs) = ys"
  by (induction ys) auto

lemma find_from_at: "ch \<notin> set ys \<Longrightarrow> find_from ch (xs @ ys @ ch # zs) (length xs) = Some (length xs + length ys)"
  by (simp add: find_from_def takeWhile_at Let_def)

lemma find_from_none: "ch \<notin> set ys \<Longrightarrow> find_from ch (xs @ ys) (length xs) = None"
  by (simp add: find_from_def takeWhile_none Let_def)

lemma substr_at: "substr (xs @ ys @ zs) (length xs) (length ys) = ys"
  by (simp add: substr_def)

text \<open>The head of every identifier that is written, read with both separators where they are.\<close>

lemma find_u32_at:
  assumes "CHR '';'' \<notin> set ys" "s = xs @ ys @ CHR '';'' # zs" "length s < 2 ^ 32 - 1"
  shows "find_u32 lp64 s (length xs) = Some (length xs + length ys)"
  using assms find_from_at [OF assms(1), of xs zs] by (simp add: find_u32_def)

lemma find_u32_none:
  "CHR '';'' \<notin> set ys \<Longrightarrow> find_u32 lp64 (xs @ ys) (length xs) = (if lp64 then Some (2 ^ 32 - 1) else None)"
  by (simp add: find_u32_def find_from_none)

lemma no_semicolon_decimal [simp]: "CHR '';'' \<notin> set (decimal n)"
proof -
  have "\<not> is_digit (CHR '';'')" by (simp add: is_digit_def)
  then show ?thesis using decimal_digits [of n] unfolding list_all_iff by blast
qed

lemma u32_small [simp]: "w < 2 ^ 32 - 1 \<Longrightarrow> u32_inc w = w + 1"
  by (simp add: u32_inc_def)

lemma u32_minus_small [simp]: "a < 2 ^ 32 \<Longrightarrow> b \<le> a \<Longrightarrow> u32_minus a b = a - b"
proof -
  assume "a < 2 ^ 32" "b \<le> a"
  then have "a + 2 ^ 32 - b = (a - b) + 2 ^ 32" "a - b < 2 ^ 32" by simp_all
  then show ?thesis unfolding u32_minus_def by (metis mod_add_self2 mod_less)
qed

lemma Get_parts:
  assumes sid: "CHR '';'' \<notin> set (si_DiameterId sid)" and len: "length (session_string sid) < 2 ^ 32 - 1"
    and low: "lp64 \<or> sc_Low (si_counter sid) < 2 ^ 31"
  shows "SessionId_Get lp64 (SessionId_Set sid []) o0 =
    (True, o0\<lparr>si_DiameterId := si_DiameterId sid, si_counter := si_counter sid,
       si_OptionalVal := (if si_OptionalVal sid \<noteq> [] then si_OptionalVal sid
                          else if lp64 then session_string sid else si_OptionalVal o0)\<rparr>)"
proof -
  define D H L V where "D = si_DiameterId sid" and "H = decimal (unat (sc_High (si_counter sid)))"
    and "L = decimal (unat (sc_Low (si_counter sid)))" and "V = si_OptionalVal sid"
  let ?s = "session_string sid"
  have s: "?s = D @ CHR '';'' # H @ CHR '';'' # L @ (if V \<noteq> [] then CHR '';'' # V else [])"
    by (simp add: session_string_def D_def H_def L_def V_def)
  have w1: "find_u32 lp64 ?s 0 = Some (length D)"
    using find_u32_at [of D ?s "[]" _ lp64] sid len by (simp add: s D_def)
  have w2: "find_u32 lp64 ?s (length D + 1) = Some (length D + 1 + length H)"
    using find_u32_at [of H ?s "D @ '';''" _ lp64] len by (simp add: s H_def)
  have h: "substr ?s (length D + 1) (length H) = H" using substr_at [of "D @ '';''" H] by (simp add: s)
  have d: "substr ?s 0 (length D) = D" by (simp add: s substr_def)
  have l: "length ?s < 2 ^ 32 - 1" "length D + 1 + length H < length ?s" using len by (auto simp: s)
  let ?a = "length D + 1 + length H + 1"
  have tail: "find_u32 lp64 ?s ?a = (if V \<noteq> [] then Some (?a + length L) else if lp64 then Some (2 ^ 32 - 1) else None)"
    using find_u32_at [of L ?s "D @ '';'' @ H @ '';''" V lp64] find_u32_none [of L lp64 "D @ '';'' @ H @ '';''"] len
    by (auto simp: s L_def)
  have low': "substr ?s ?a n = L" if "V \<noteq> [] \<and> n = length L \<or> V = [] \<and> length L \<le> n" for n
    using that substr_at [of "D @ '';'' @ H @ '';''" L] by (auto simp: s substr_def)
  have rest: "drop (?a + length L + 1) ?s = V" if "V \<noteq> []" using that drop_append [of "length (D @ '';'' @ H @ '';'' @ L @ '';'')" "D @ '';'' @ H @ '';'' @ L @ '';''" V]
    by (simp add: s add.commute add.left_commute)
  have whole: "V = [] \<Longrightarrow> drop ?a ?s = L" by (simp add: s)
  have la: "V \<noteq> [] \<Longrightarrow> ?a + length L < length ?s" "V = [] \<Longrightarrow> ?a + length L = length ?s" by (auto simp: s)
  have big: "u32_minus (2 ^ 32 - 1) ?a = 2 ^ 32 - 1 - ?a" "u32_inc (2 ^ 32 - 1) = 0"
    using l by (rule_tac u32_minus_small) (auto simp: u32_inc_def)
  have cs: "\<lparr>sc_High = strtoul32 lp64 H, sc_Low = atoi32 lp64 L\<rparr> = si_counter sid"
    using low by (simp add: H_def L_def strtoul32_decimal atoi32_decimal)
  have g: "GetStr (SessionId_Set sid []) AVPNAME_SESSIONID = Some ?s"
    by (simp add: SessionId_Set_def AddAvp_def add_avp_def GetStr_def GetAvp_def)
  show ?thesis
  proof (cases "V = []")
    case False
    then show ?thesis using l la w1 w2 h tail low' rest g cs
      by (simp add: SessionId_Get_def Let_def D_def [symmetric] V_def [symmetric] substr_def s)
  next
    case True
    then show ?thesis using l la w1 w2 h d tail low' [of "2 ^ 32 - 1 - ?a"] whole g cs big
      by (cases lp64) (simp_all add: SessionId_Get_def Let_def D_def [symmetric] V_def [symmetric])
  qed
qed

subsection \<open>Identifiers\<close>

text \<open>a session identifier that is written is read back the same, when its Diameter identity has no semicolon in it
  and it has an optional part or positions are compared in 32 bits; without 64 bit \<open>long\<close> the low
  counter must fit into an \<open>int\<close> as well.\<close>

theorem session_id_roundtrip:
  assumes "CHR '';'' \<notin> set (si_DiameterId sid)" "length (session_string sid) < 2 ^ 32 - 1"
    "lp64 \<or> sc_Low (si_counter sid) < 2 ^ 31" "si_OptionalVal sid \<noteq> [] \<or> \<not> lp64"
  shows "SessionId_Get lp64 (SessionId_Set sid []) empty_session_id = (True, sid)"
  using assms(4) by (auto simp: Get_parts [OF assms(1-3)] empty_session_id_def)

definition demo_sid :: "string \<Rightarrow> session_id" where
  "demo_sid opt = \<lparr>si_counter = \<lparr>sc_High = 4000000000, sc_Low = 17\<rparr>, si_DiameterId = ''nas.net'', si_OptionalVal = opt\<rparr>"

theorem session_id_roundtrip_witness:
  "SessionId_Get True (SessionId_Set (demo_sid ''a;b'') []) empty_session_id = (True, demo_sid ''a;b'') \<and>
   SessionId_Get False (SessionId_Set (demo_sid []) []) empty_session_id = (True, demo_sid [])"
  by (intro conjI session_id_roundtrip)
    (simp_all add: demo_sid_def session_string_def decimal_less decimal_ge)

text \<open>Where \<open>size_t\<close> has 64 bits an identifier without an optional part is read back with the whole identifier as its
  optional part; written again, it is not the identifier of the same session any more.\<close>

theorem session_id_grows:
  assumes "CHR '';'' \<notin> set (si_DiameterId sid)" "length (session_string sid) < 2 ^ 32 - 1" "si_OptionalVal sid = []"
  shows "\<exists>sid'. SessionId_Get True (SessionId_Set sid []) empty_session_id = (True, sid') \<and>
    si_OptionalVal sid' = session_string sid \<and> session_string sid' = session_string sid @ '';'' @ session_string sid"
proof -
  have ne: "session_string sid \<noteq> []" by (simp add: session_string_def)
  have "SessionId_Get True (SessionId_Set sid []) empty_session_id = (True, sid\<lparr>si_OptionalVal := session_string sid\<rparr>)"
    using assms(3) by (subst Get_parts [OF assms(1,2)]) (auto simp: empty_session_id_def)
  then show ?thesis using ne assms(3) by (auto simp: session_string_def)
qed

theorem session_id_grows_witness:
  "\<exists>sid'. SessionId_Get True (SessionId_Set (demo_sid []) []) empty_session_id = (True, sid') \<and>
    si_OptionalVal sid' = session_string (demo_sid []) \<and>
    session_string sid' = session_string (demo_sid []) @ '';'' @ session_string (demo_sid [])"
  by (rule session_id_grows) (simp_all add: demo_sid_def session_string_def decimal_less decimal_ge)

subsection \<open>The counter\<close>

lemma SC_inc_less:
  assumes "sc_Low c \<noteq> 0xffffffff" "sc_High c < 0xfffffffe"
  shows "SC_less c (SC_inc c) \<and> sc_Low (SC_inc c) \<noteq> 0xffffffff"
proof -
  from assms(2) have "sc_High c < sc_High c + 1" "sc_High c + 1 \<noteq> 0xffffffff"
    by (auto simp: word_less_nat_alt unat_word_ariths word_unat_eq_iff)
  moreover have "sc_Low c < sc_Low c + 1"
    using assms(1) unat_u32 [of "sc_Low c"] by (simp add: word_less_nat_alt unat_word_ariths word_unat_eq_iff)
  moreover have "sc_High c \<noteq> 0xffffffff" using assms(2) by auto
  ultimately show ?thesis by (auto simp: SC_inc_def SC_less_def Let_def)
qed

end
