(* ===== verification/Session_Base.thy ===== *)
theory Session_Base
  imports Session_Id Peer_Fsm
begin

text \<open>
  What the sessions of client and server share: attributes
  (\<open>libdiameter/include/aaa_session_attributes.h\<close>), the base class of sessions (\<open>include/aaa_session.h\<close>,
  \<open>aaa_session.inl\<close>) with the delivery of messages to the router, and the events and states of
  \<open>include/aaa_session_auth_fsm.h\<close>. The application derives from these classes; its virtual functions are
  fields of an environment, and those that send return what they send. What a session does to others is
  appended to its trace.
\<close>

subsection \<open>Attributes\<close>

abbreviation AAA_AVP_UNSUPPORTED :: u32 where "AAA_AVP_UNSUPPORTED \<equiv> 5001"
abbreviation AAA_AUTHORIZATION_REJECTED :: u32 where "AAA_AUTHORIZATION_REJECTED \<equiv> 5003"
abbreviation AAA_UNABLE_TO_COMPLY :: u32 where "AAA_UNABLE_TO_COMPLY \<equiv> 5012"
abbreviation SESSION_STATE_MAINTAINED :: u32 where "SESSION_STATE_MAINTAINED \<equiv> 0"
abbreviation SESSION_NO_STATE_MAINTAINED :: u32 where "SESSION_NO_STATE_MAINTAINED \<equiv> 1"
abbreviation TIMER_TYPE_ASR :: int where "TIMER_TYPE_ASR \<equiv> 1"
abbreviation TIMER_TYPE_SESSION :: int where "TIMER_TYPE_SESSION \<equiv> 2"
abbreviation TIMER_TYPE_AUTH :: int where "TIMER_TYPE_AUTH \<equiv> 3"
abbreviation TIMER_TYPE_INTERVAL :: int where "TIMER_TYPE_INTERVAL \<equiv> 4"
abbreviation AUTH_SESSION_GRACE_PERIOD :: u32 where "AUTH_SESSION_GRACE_PERIOD \<equiv> 5"
abbreviation AUTH_SESSION_RECLAMATION_PERIOD :: u32 where "AUTH_SESSION_RECLAMATION_PERIOD \<equiv> 60"

record neg =
  ng_value :: u32
  ng_isNegotiated :: bool

definition neg_Set :: "u32 \<Rightarrow> neg" where
  "neg_Set v = \<lparr>ng_value = v, ng_isNegotiated = True\<rparr>"

definition neg_assign :: "u32 \<Rightarrow> neg \<Rightarrow> neg" where
  "neg_assign v a = a\<lparr>ng_value := v\<rparr>"

definition neg_clear :: "neg \<Rightarrow> neg" where
  "neg_clear a = a\<lparr>ng_isNegotiated := False\<rparr>"

text \<open>What an application may have set.\<close>

definition opt_assign :: "u32 option \<Rightarrow> neg \<Rightarrow> neg" where
  "opt_assign x a = (case x of Some v \<Rightarrow> neg_assign v a | None \<Rightarrow> a)"

text \<open>\<open>DiameterReAuthValue\<close>, in the order of its members.\<close>

record re_auth_value =
  rv_reAuthType :: u32
  rv_resultCode :: u32

subsection \<open>States and events\<close>

datatype auth_st = SST_IDLE | SST_PENDING | SST_OPEN | SST_DISC

datatype auth_ev =
    SEV_REQUEST_ACCESS
  | SEV_RX_ASR
  | SEV_RX_ASA_OK
  | SEV_RX_ASA_FAIL
  | SEV_RX_ASR_USID
  | SEV_RX_ASR_OK
  | SEV_RX_ASR_RETRY
  | SEV_TX_ASR_FAIL
  | SEV_RX_STR
  | SEV_RX_STA
  | SEV_TX_SSAR
  | SEV_RX_SSAR
  | SEV_TX_SSAA
  | SEV_RX_SSAA
  | SEV_RX_RAR
  | SEV_RX_RAA
  | SEV_SSAR_OK
  | SEV_SSAR_FAIL
  | SEV_SSAA_OK
  | SEV_SSAA_NOSVC
  | SEV_SSAA_ERROR
  | SEV_SSAA_FAIL
  | SEV_REAUTH
  | SEV_LIFETIME_TOUT
  | SEV_SESSION_TOUT_ST
  | SEV_SESSION_TOUT_NOST
  | SEV_SESSION_RECLAIM
  | SEV_ABORT
  | SEV_STOP

subsection \<open>The application\<close>

datatype app_call = AppSend msg | AppEnd | AppReAuth u32

datatype app_rc = RC_SUCCESS | RC_INCOMPLETE | RC_NOSERVICE | RC_MSG_UNPROCESSED | RC_FAILURE | RC_OTHER

text \<open>
  The environment of any session: the configuration, the width of \<open>long\<close>, the virtual functions of
  \<open>DiameterSession\<close> that may set an attribute they are given, which return \<open>None\<close> when they do not, and what
  it calls. \<open>se_route\<close> is the router: \<open>None\<close> when it throws, and otherwise whether it succeeded.
  \<open>se_db_Add\<close> is the identifier that the session database leaves after \<open>Add\<close>.
\<close>

record sess_env =
  se_cfg :: cfg
  se_lp64 :: bool
  se_SetSessionTimeout :: "u32 \<Rightarrow> u32 option"
  se_SetDestHost :: "string option"
  se_SetDestRealm :: "string option"
  se_SetUsername :: "string option"
  se_route :: "msg \<Rightarrow> bool option"
  se_db_Add :: "session_id \<Rightarrow> session_id"

text \<open>That of an authorization session, with the values of \<open>DIAMETER_CFG_AUTH_SESSION\<close>.\<close>

record senv = sess_env +
  se_stateful :: u32
  se_sessionTm :: u32
  se_lifetimeTm :: u32
  se_graceTm :: u32
  se_abortRetryTm :: u32
  se_SetAuthLifetime :: "u32 \<Rightarrow> u32 option"
  se_SetAuthGrace :: "u32 option \<Rightarrow> u32 option"
  se_SetAuthState :: "u32 \<Rightarrow> u32 option"
  se_SetClass :: "string option"
  se_ReStart :: "app_call list \<times> bool"
  se_RequestMsg :: "msg \<Rightarrow> app_call list \<times> app_rc"
  se_AnswerMsg :: "msg \<Rightarrow> app_call list \<times> app_rc"
  se_ReAuthenticate :: "u32 \<Rightarrow> u32"
  se_AbortSession :: bool
  se_ReClaim :: bool

datatype session_out =
    Routed msg
  | CbSuccess
  | CbDisconnect
  | CbSessionTimeout
  | CbAuthorizationTimeout
  | CbAbortSession
  | CbReClaim
  | CbReAuthenticate u32
  | CbClass string
  | CbError msg
  | DbAdd session_id
  | DbRemove session_id
  | ForDeletion
  | DiscardedMsg msg
  | CbFailed int
  | RecordStored acl int int
  | CollectorStored int
  | CollectorDeleted int

text \<open>\<open>DiameterSession\<close> with its attributes, and what a session of either kind does to others.\<close>

record ('s, 'e) session = "('s, 'e) fsm" +
  as_SessionId :: session_id
  as_LastTxHopId :: u32
  as_LastTxEndId :: u32
  as_LastRxHopId :: u32
  as_LastRxEndId :: u32
  as_ApplicationId :: u32
  as_DestinationHost :: "string option"
  as_DestinationRealm :: "string option"
  as_Username :: "string option"
  as_SessionTimeout :: neg
  as_PendingMsg :: "msg option"
  as_hop_gen :: u32
  as_end_gen :: u32
  as_rands :: nat
  as_out :: "session_out list"
  as_fault :: bool

text \<open>\<open>DiameterAuthSession\<close>.\<close>

record auth_session = "(auth_st, auth_ev) session" +
  as_ReAuth :: "re_auth_value option"
  as_AuthState :: neg
  as_AuthLifetime :: neg
  as_AuthGrace :: neg
  as_ASRSent :: bool

definition s_emit ::
  "session_out \<Rightarrow> ('s, 'e, 'x) session_scheme
   \<Rightarrow> ('s, 'e, 'x) session_scheme" where
  "s_emit x s = s\<lparr>as_out := as_out s @ [x]\<rparr>"

definition maintained :: "auth_session \<Rightarrow> bool" where
  "maintained s \<longleftrightarrow> ng_value (as_AuthState s) = SESSION_STATE_MAINTAINED"

definition string_of :: "string option \<Rightarrow> string" where
  "string_of a = (case a of None \<Rightarrow> [] | Some x \<Rightarrow> x)"

text \<open>A session as its constructor leaves it; the message identifiers are not initialised.\<close>

definition new_auth_session :: "senv \<Rightarrow> u32 \<Rightarrow> (nat \<Rightarrow> u32) \<Rightarrow> auth_session" where
  "new_auth_session env appId junk =
     \<lparr>fsm_state = SST_IDLE, fsm_running = False, fsm_timers = Map.empty, as_SessionId = empty_session_id,
      as_LastTxHopId = junk 0, as_LastTxEndId = junk 1, as_LastRxHopId = junk 2, as_LastRxEndId = junk 3,
      as_ApplicationId = appId, as_DestinationHost = None, as_DestinationRealm = None, as_Username = None,
      as_SessionTimeout = \<lparr>ng_value = se_sessionTm env, ng_isNegotiated = False\<rparr>,
      as_PendingMsg = None, as_hop_gen = 0, as_end_gen = 0, as_rands = 0, as_out = [], as_fault = False,
      as_ReAuth = None,
      as_AuthState = \<lparr>ng_value = se_stateful env, ng_isNegotiated = False\<rparr>,
      as_AuthLifetime = \<lparr>ng_value = se_lifetimeTm env, ng_isNegotiated = False\<rparr>,
      as_AuthGrace = \<lparr>ng_value = se_graceTm env, ng_isNegotiated = False\<rparr>,
      as_ASRSent = False\<rparr>"

subsection \<open>Identifiers of messages\<close>

definition sess_MsgIdTx ::
  "cfg \<Rightarrow> msg \<Rightarrow> ('s, 'e, 'x) session_scheme
   \<Rightarrow> msg \<times> ('s, 'e, 'x) session_scheme" where
  "sess_MsgIdTx c msg s =
     (let h = m_hdr msg in
      if h_r h
      then let (hh, s1) = (if h_hh h = 0
                           then (let i = HopByHop_Get (cf_hop_seed c) (as_hop_gen s) in (i, s\<lparr>as_hop_gen := i\<rparr>))
                           else (h_hh h, s));
               (ee, s2) = (if h_ee h = 0
                           then (let i = EndToEnd_Get (cf_time c) (cf_rand c (as_rands s1)) (as_end_gen s1)
                                 in (i, s1\<lparr>as_end_gen := i, as_rands := as_rands s1 + 1\<rparr>))
                           else (h_ee h, s1))
           in (msg\<lparr>m_hdr := h\<lparr>h_hh := hh, h_ee := ee\<rparr>\<rparr>, s2\<lparr>as_LastTxHopId := hh, as_LastTxEndId := ee\<rparr>)
      else (msg\<lparr>m_hdr := h\<lparr>h_hh := as_LastRxHopId s, h_ee := as_LastRxEndId s\<rparr>\<rparr>, s))"

definition sess_MsgIdRx ::
  "msg \<Rightarrow> ('s, 'e, 'x) session_scheme
   \<Rightarrow> bool \<times> ('s, 'e, 'x) session_scheme" where
  "sess_MsgIdRx msg s =
     (let h = m_hdr msg in
      if h_r h then (True, s\<lparr>as_LastRxHopId := h_hh h, as_LastRxEndId := h_ee h\<rparr>)
      else (h_hh h = as_LastTxHopId s \<and> h_ee h = as_LastTxEndId s, s))"

subsection \<open>\<open>DiameterSession::TxDelivery\<close>\<close>

definition put_str :: "string \<Rightarrow> string \<Rightarrow> msg \<Rightarrow> msg" where
  "put_str name v msg = msg\<lparr>m_acl := AddAvp name False (AvpStr v) (m_acl msg)\<rparr>"

definition tx_host ::
  "'v sess_env_scheme \<Rightarrow> msg
   \<Rightarrow> ('s, 'e, 'x) session_scheme \<Rightarrow> msg \<times> ('s, 'e, 'x) session_scheme" where
  "tx_host env msg s =
     (case GetStr (m_acl msg) AVPNAME_DESTHOST of
        Some h \<Rightarrow> (msg, s\<lparr>as_DestinationHost := Some h\<rparr>)
      | None \<Rightarrow>
          (case as_DestinationHost s of
             Some h \<Rightarrow> (put_str AVPNAME_DESTHOST h msg, s)
           | None \<Rightarrow>
               (case se_SetDestHost env of
                  Some h \<Rightarrow> (put_str AVPNAME_DESTHOST h msg, s\<lparr>as_DestinationHost := Some h\<rparr>)
                | None \<Rightarrow> (msg, s))))"

text \<open>\<open>None\<close> when a request has no realm to go to.\<close>

definition tx_realm ::
  "'v sess_env_scheme \<Rightarrow> msg
   \<Rightarrow> ('s, 'e, 'x) session_scheme \<Rightarrow> (msg \<times> ('s, 'e, 'x) session_scheme) option" where
  "tx_realm env msg s =
     (case GetStr (m_acl msg) AVPNAME_DESTREALM of
        Some h \<Rightarrow> Some (msg, s\<lparr>as_DestinationRealm := Some h\<rparr>)
      | None \<Rightarrow>
          (case as_DestinationRealm s of
             Some h \<Rightarrow> Some (put_str AVPNAME_DESTREALM h msg, s)
           | None \<Rightarrow>
               (case se_SetDestRealm env of
                  Some h \<Rightarrow> Some (put_str AVPNAME_DESTREALM h msg, s\<lparr>as_DestinationRealm := Some h\<rparr>)
                | None \<Rightarrow> if h_r (m_hdr msg) then None else Some (msg, s))))"

definition tx_user ::
  "'v sess_env_scheme \<Rightarrow> msg
   \<Rightarrow> ('s, 'e, 'x) session_scheme \<Rightarrow> msg \<times> ('s, 'e, 'x) session_scheme" where
  "tx_user env msg s =
     (if as_Username s \<noteq> None then (msg, s)
      else case GetStr (m_acl msg) AVPNAME_USERNAME of
             Some u \<Rightarrow> (msg, s\<lparr>as_Username := Some u\<rparr>)
           | None \<Rightarrow>
               (case se_SetUsername env of
                  Some u \<Rightarrow> (put_str AVPNAME_USERNAME u msg, s\<lparr>as_Username := Some u\<rparr>)
                | None \<Rightarrow> (msg, s)))"

definition tx_origin :: "'v sess_env_scheme \<Rightarrow> msg \<Rightarrow> msg" where
  "tx_origin env msg =
     (let m1 = (if GetStr (m_acl msg) AVPNAME_ORIGINHOST = None
                then put_str AVPNAME_ORIGINHOST (cf_identity (se_cfg env)) msg else msg)
      in if GetStr (m_acl m1) AVPNAME_ORIGINREALM = None
         then put_str AVPNAME_ORIGINREALM (cf_realm (se_cfg env)) m1 else m1)"

text \<open>The first component is \<open>None\<close> when the router throws, and otherwise whether the delivery succeeded.\<close>

definition sess_TxDelivery ::
  "'v sess_env_scheme \<Rightarrow> msg
   \<Rightarrow> ('s, 'e, 'x) session_scheme \<Rightarrow> bool option \<times> ('s, 'e, 'x) session_scheme" where
  "sess_TxDelivery env msg s =
     (let (m1, s1) = tx_host env msg s in
      case tx_realm env m1 s1 of
        None \<Rightarrow> (Some False, s1)
      | Some (m2, s2) \<Rightarrow>
          let (m3, s3) = tx_user env m2 s2;
              m4 = tx_origin env m3;
              m5 = m4\<lparr>m_acl := SessionId_Set (as_SessionId s3) (m_acl m4)\<rparr>;
              (m6, s4) = sess_MsgIdTx (se_cfg env) m5 s3
          in (se_route env m6, s_emit (Routed m6) s4))"

text \<open>\<open>DiameterAuthSession::Reset\<close>.\<close>

definition base_Reset :: "auth_session \<Rightarrow> auth_session" where
  "base_Reset s = s\<lparr>as_AuthState := neg_clear (as_AuthState s)\<rparr>"

text \<open>A message of the base protocol, with the attributes every one of them starts with.\<close>

definition session_hdr :: "u32 \<Rightarrow> bool \<Rightarrow> msg_hdr" where
  "session_hdr code r = zero_hdr\<lparr>h_ver := 1, h_r := r, h_code := code, h_appId := BASE_APPLICATION_ID\<rparr>"

definition user_avp :: "('s, 'e, 'x) session_scheme \<Rightarrow> acl" where
  "user_avp s = (case as_Username s of None \<Rightarrow> [] | Some u \<Rightarrow> [(AVPNAME_USERNAME, [AvpStr u])])"

definition class_avp :: "senv \<Rightarrow> acl" where
  "class_avp env = (case se_SetClass env of None \<Rightarrow> [] | Some c \<Rightarrow> [(AVPNAME_CLASS, [AvpStr c])])"

definition state_avp :: "'v sess_env_scheme \<Rightarrow> acl" where
  "state_avp env = [(AVPNAME_ORIGINSTATEID, [AvpU32 (cf_originStateId (se_cfg env))])]"

definition origin_avps :: "'v sess_env_scheme \<Rightarrow> acl" where
  "origin_avps env =
     [(AVPNAME_ORIGINHOST, [AvpStr (cf_identity (se_cfg env))]),
      (AVPNAME_ORIGINREALM, [AvpStr (cf_realm (se_cfg env))])]"

text \<open>One step after another, unless an exception has left the first.\<close>

definition and_then ::
  "bool option \<times> ('s, 'e, 'x) session_scheme
   \<Rightarrow> (('s, 'e, 'x) session_scheme \<Rightarrow> ('s, 'e, 'x) session_scheme) \<Rightarrow> ('s, 'e, 'x) session_scheme" where
  "and_then x f = (case fst x of None \<Rightarrow> snd x | Some _ \<Rightarrow> f (snd x))"

text \<open>Taking the message an event came with.\<close>

definition take_pending ::
  "(msg \<Rightarrow> ('s, 'e, 'x) session_scheme
   \<Rightarrow> ('s, 'e, 'x) session_scheme) \<Rightarrow> ('s, 'e, 'x) session_scheme \<Rightarrow> ('s, 'e, 'x) session_scheme" where
  "take_pending f s =
     (case as_PendingMsg s of
        None \<Rightarrow> s\<lparr>as_fault := True\<rparr>
      | Some msg \<Rightarrow> f msg (s\<lparr>as_PendingMsg := None\<rparr>))"

definition s_timer ::
  "'e \<Rightarrow> u32 \<Rightarrow> int
   \<Rightarrow> ('s, 'e, 'x) session_scheme \<Rightarrow> ('s, 'e, 'x) session_scheme" where
  "s_timer ev sec ty s = ScheduleTimer ev (unat sec) ty s"

text \<open>The sanity check of the authorization lifetime against the session timeout, with its \<open>int\<close>.\<close>

definition cap_lifetime :: "auth_session \<Rightarrow> auth_session" where
  "cap_lifetime s =
     (let t = ng_value (as_SessionTimeout s) in
      if ng_value (as_AuthLifetime s) > t
      then s\<lparr>as_AuthLifetime := neg_assign (if 0 \<le> sint (t - 1) then t - 1 else t) (as_AuthLifetime s)\<rparr>
      else s)"

end
