(* ===== verification/Auth_Client.thy ===== *)
theory Auth_Client
  imports Session_Base
begin

text \<open>
  The authorization session of a client: its state table and actions
  (\<open>libdiameter/include/aaa_session_auth_client_fsm.h\<close>), the messages of the base protocol it sends and
  receives (\<open>src/aaa_session_auth_client_fsm.cxx\<close>) and the session object (\<open>src/aaa_session_client.cxx\<close>).
  An action that delivers a message to the application raises further events of the machine while it
  runs; none of these delivers another message, so that there are two levels of \<open>Notify\<close>.
\<close>

subsection \<open>Messages\<close>

definition client_STR :: "senv \<Rightarrow> u32 \<Rightarrow> auth_session \<Rightarrow> msg" where
  "client_STR env cause s =
     \<lparr>m_hdr = session_hdr MSGCODE_SESSIONTERMINATION True,
      m_acl = SessionId_Set (as_SessionId s) [] @ origin_avps env @
        [(AVPNAME_DESTREALM, [AvpStr (string_of (as_DestinationRealm s))]),
         (AVPNAME_AUTHAPPID, [AvpU32 (as_ApplicationId s)]),
         (AVPNAME_TERMINATION, [AvpU32 cause])] @ user_avp s @
        (case as_DestinationHost s of None \<Rightarrow> [] | Some h \<Rightarrow> [(AVPNAME_DESTHOST, [AvpStr h])]) @
        class_avp env @ state_avp env\<rparr>"

text \<open>\<open>TxSTR\<close>, \<open>TxASA\<close> and \<open>TxRAA\<close>.\<close>

definition client_TxSTR :: "senv \<Rightarrow> u32 \<Rightarrow> auth_session \<Rightarrow> bool option \<times> auth_session" where
  "client_TxSTR env cause s = sess_TxDelivery env (client_STR env cause s) s"

definition client_answer :: "senv \<Rightarrow> u32 \<Rightarrow> u32 \<Rightarrow> auth_session \<Rightarrow> msg" where
  "client_answer env code rcode s =
     \<lparr>m_hdr = session_hdr code False,
      m_acl = SessionId_Set (as_SessionId s) [] @ [(AVPNAME_RESULTCODE, [AvpU32 rcode])] @ origin_avps env @
        user_avp s @ state_avp env\<rparr>"

definition client_TxASA :: "senv \<Rightarrow> u32 \<Rightarrow> auth_session \<Rightarrow> bool option \<times> auth_session" where
  "client_TxASA env rcode s = sess_TxDelivery env (client_answer env MSGCODE_ABORTSESSION rcode s) s"

definition client_TxRAA :: "senv \<Rightarrow> u32 \<Rightarrow> auth_session \<Rightarrow> bool option \<times> auth_session" where
  "client_TxRAA env rcode s = sess_TxDelivery env (client_answer env MSGCODE_REAUTH rcode s) s"

text \<open>\<open>RxASR\<close>, \<open>RxSTA\<close> and \<open>RxRAR\<close> print, and remember the identifiers.\<close>

definition client_RxBase :: "msg \<Rightarrow> auth_session \<Rightarrow> auth_session" where
  "client_RxBase msg s = snd (sess_MsgIdRx msg s)"

subsection \<open>The state table\<close>

datatype client_ac =
    CA_None
  | CA_TxSSAR
  | CA_RxSSA
  | CA_TxSSARDiscard
  | CA_RxSSAADiscard
  | CA_GrantAccess
  | CA_RxRAR
  | CA_TxSTRNoSvc
  | CA_TxSTRProcError
  | CA_SessionTimeout
  | CA_SessionTimeoutState
  | CA_AuthTimeout
  | CA_UserAbort
  | CA_TxASASuccess
  | CA_TxASATxSTRSuccess
  | CA_TxASAFail
  | CA_Disconnect
  | CA_Cleanup

definition client_idle_entries :: "(auth_st, auth_ev, client_ac) fsm_entry list" where
  "client_idle_entries =
    [FsmEntry SST_IDLE (Some SEV_REQUEST_ACCESS) SST_PENDING CA_None,
     FsmEntry SST_IDLE (Some SEV_RX_ASR_USID) SST_IDLE CA_None,
     FsmEntry SST_IDLE (Some SEV_TX_SSAR) SST_IDLE CA_TxSSARDiscard,
     FsmEntry SST_IDLE (Some SEV_RX_SSAA) SST_IDLE CA_RxSSAADiscard,
     FsmEntry SST_IDLE None SST_IDLE CA_None]"

definition client_pending_entries :: "(auth_st, auth_ev, client_ac) fsm_entry list" where
  "client_pending_entries =
    [FsmEntry SST_PENDING (Some SEV_SSAA_OK) SST_OPEN CA_GrantAccess,
     FsmEntry SST_PENDING (Some SEV_SSAA_NOSVC) SST_DISC CA_TxSTRNoSvc,
     FsmEntry SST_PENDING (Some SEV_SSAA_ERROR) SST_DISC CA_TxSTRProcError,
     FsmEntry SST_PENDING (Some SEV_SSAA_FAIL) SST_IDLE CA_Cleanup,
     FsmEntry SST_PENDING (Some SEV_TX_SSAR) SST_PENDING CA_TxSSAR,
     FsmEntry SST_PENDING (Some SEV_RX_SSAA) SST_PENDING CA_RxSSA,
     FsmEntry SST_PENDING (Some SEV_STOP) SST_IDLE CA_Disconnect,
     FsmEntry SST_PENDING None SST_PENDING CA_None]"

definition client_open_entries :: "(auth_st, auth_ev, client_ac) fsm_entry list" where
  "client_open_entries =
    [FsmEntry SST_OPEN (Some SEV_REQUEST_ACCESS) SST_OPEN CA_None,
     FsmEntry SST_OPEN (Some SEV_RX_RAR) SST_OPEN CA_RxRAR,
     FsmEntry SST_OPEN (Some SEV_SSAA_OK) SST_OPEN CA_GrantAccess,
     FsmEntry SST_OPEN (Some SEV_RX_SSAR) SST_OPEN CA_RxSSA,
     FsmEntry SST_OPEN (Some SEV_SSAR_OK) SST_OPEN CA_None,
     FsmEntry SST_OPEN (Some SEV_SSAR_FAIL) SST_IDLE CA_Disconnect,
     FsmEntry SST_OPEN (Some SEV_SSAA_FAIL) SST_IDLE CA_Disconnect,
     FsmEntry SST_OPEN (Some SEV_SESSION_TOUT_ST) SST_DISC CA_SessionTimeoutState,
     FsmEntry SST_OPEN (Some SEV_SESSION_TOUT_NOST) SST_IDLE CA_SessionTimeout,
     FsmEntry SST_OPEN (Some SEV_RX_ASR_OK) SST_DISC CA_TxASATxSTRSuccess,
     FsmEntry SST_OPEN (Some SEV_RX_ASR_RETRY) SST_OPEN CA_TxASAFail,
     FsmEntry SST_OPEN (Some SEV_LIFETIME_TOUT) SST_DISC CA_AuthTimeout,
     FsmEntry SST_OPEN (Some SEV_STOP) SST_IDLE CA_Disconnect,
     FsmEntry SST_OPEN (Some SEV_ABORT) SST_DISC CA_UserAbort,
     FsmEntry SST_OPEN (Some SEV_TX_SSAR) SST_OPEN CA_TxSSAR,
     FsmEntry SST_OPEN (Some SEV_RX_SSAA) SST_OPEN CA_RxSSA,
     FsmEntry SST_OPEN None SST_OPEN CA_None]"

definition client_disc_entries :: "(auth_st, auth_ev, client_ac) fsm_entry list" where
  "client_disc_entries =
    [FsmEntry SST_DISC (Some SEV_RX_ASR) SST_DISC CA_TxASASuccess,
     FsmEntry SST_DISC (Some SEV_RX_STA) SST_IDLE CA_Disconnect,
     FsmEntry SST_DISC (Some SEV_SESSION_TOUT_ST) SST_IDLE CA_Disconnect,
     FsmEntry SST_DISC (Some SEV_LIFETIME_TOUT) SST_IDLE CA_Disconnect,
     FsmEntry SST_DISC (Some SEV_TX_SSAR) SST_DISC CA_TxSSARDiscard,
     FsmEntry SST_DISC (Some SEV_RX_SSAA) SST_DISC CA_RxSSAADiscard,
     FsmEntry SST_DISC None SST_DISC CA_None]"

definition client_table :: "(auth_st, auth_ev, client_ac) fsm_entry list" where
  "client_table = client_idle_entries @ client_pending_entries @ client_open_entries @ client_disc_entries"

lemma client_table_built: "build_from [] client_table = Inr client_table"
  by (simp add: client_table_def client_idle_entries_def client_pending_entries_def client_open_entries_def
      client_disc_entries_def AddStateTableEntry_def AddWildcardStateTableEntry_def FindStateTableEntry_def)

subsection \<open>Actions\<close>

text \<open>\<open>DiameterClientAuthSession::Reset\<close>.\<close>

definition client_Reset :: "auth_session \<Rightarrow> auth_session" where
  "client_Reset s = s_emit (DbRemove (as_SessionId s)) (base_Reset (fsm_Stop s))"

definition client_GrantAccess :: "auth_session \<Rightarrow> auth_session" where
  "client_GrantAccess s =
     (let s1 = CancelAllTimer s;
          s2 = (if maintained s1
                then s_timer SEV_LIFETIME_TOUT (ng_value (as_AuthLifetime s1) + ng_value (as_AuthGrace s1)) TIMER_TYPE_AUTH
                       (s_timer SEV_SESSION_TOUT_ST (ng_value (as_SessionTimeout s1)) TIMER_TYPE_SESSION s1)
                else if ng_value (as_SessionTimeout s1) > 0
                then s_timer SEV_SESSION_TOUT_NOST (ng_value (as_SessionTimeout s1)) TIMER_TYPE_SESSION s1
                else s1)
      in s_emit CbSuccess s2)"

definition client_ac_RxRAR :: "senv \<Rightarrow> auth_session \<Rightarrow> auth_session" where
  "client_ac_RxRAR env s =
     (case as_ReAuth s of
        None \<Rightarrow> snd (client_TxRAA env AAA_SUCCESS s)
      | Some v \<Rightarrow>
          snd (client_TxRAA env (se_ReAuthenticate env (rv_reAuthType v))
                 (s_emit (CbReAuthenticate (rv_reAuthType v)) s)))"

fun client_act :: "senv \<Rightarrow> client_ac \<Rightarrow> auth_session \<Rightarrow> auth_session" where
  "client_act env CA_None s = s"
| "client_act env CA_TxSSAR s = take_pending (\<lambda>m s. snd (sess_TxDelivery env m s)) s"
| "client_act env CA_RxSSA s = s"
| "client_act env CA_TxSSARDiscard s = take_pending (\<lambda>m. s_emit (DiscardedMsg m)) s"
| "client_act env CA_RxSSAADiscard s = take_pending (\<lambda>m. s_emit (DiscardedMsg m)) s"
| "client_act env CA_GrantAccess s = client_GrantAccess s"
| "client_act env CA_RxRAR s = client_ac_RxRAR env s"
| "client_act env CA_TxSTRNoSvc s = snd (client_TxSTR env AAA_REALM_NOT_SERVED s)"
| "client_act env CA_TxSTRProcError s = snd (client_TxSTR env AAA_AVP_UNSUPPORTED s)"
| "client_act env CA_SessionTimeout s = client_Reset (s_emit CbSessionTimeout (CancelAllTimer s))"
| "client_act env CA_SessionTimeoutState s =
     and_then (client_TxSTR env AAA_AUTHORIZATION_REJECTED (CancelAllTimer s)) (s_emit CbSessionTimeout)"
| "client_act env CA_AuthTimeout s =
     and_then (client_TxSTR env AAA_AUTHORIZATION_REJECTED (CancelAllTimer s)) (s_emit CbAuthorizationTimeout)"
| "client_act env CA_UserAbort s = snd (client_TxSTR env AAA_AUTHORIZATION_REJECTED (CancelAllTimer s))"
| "client_act env CA_TxASASuccess s = snd (client_TxASA env AAA_SUCCESS s)"
| "client_act env CA_TxASATxSTRSuccess s =
     and_then (client_TxASA env AAA_SUCCESS s) (\<lambda>s. snd (client_TxSTR env AAA_SUCCESS s))"
| "client_act env CA_TxASAFail s = snd (client_TxASA env AAA_UNABLE_TO_COMPLY s)"
| "client_act env CA_Disconnect s = client_Reset (CancelAllTimer (s_emit CbDisconnect s))"
| "client_act env CA_Cleanup s = client_Reset (s_emit CbAbortSession (CancelAllTimer s))"

text \<open>\<open>Notify\<close> for the events none of whose actions is \<open>RxSSA\<close>.\<close>

definition client_Notify :: "senv \<Rightarrow> auth_ev \<Rightarrow> auth_session \<Rightarrow> auth_session" where
  "client_Notify env ev s = fsm_Event client_table (client_act env) s ev"

subsection \<open>Sending\<close>

text \<open>A hint in a request: the smaller of the value of the message and of the session.\<close>

definition hint ::
  "string \<Rightarrow> (auth_session \<Rightarrow> neg) \<Rightarrow> ((neg \<Rightarrow> neg) \<Rightarrow> auth_session \<Rightarrow> auth_session)
   \<Rightarrow> msg \<Rightarrow> auth_session \<Rightarrow> msg \<times> auth_session" where
  "hint name get upd msg s =
     (case GetU32 (m_acl msg) name of
        None \<Rightarrow> (msg\<lparr>m_acl := AddAvp name False (AvpU32 (ng_value (get s))) (m_acl msg)\<rparr>, s)
      | Some t \<Rightarrow>
          if ng_value (get s) < t
          then (msg\<lparr>m_acl := AddAvp name False (AvpU32 (ng_value (get s))) (m_acl msg)\<rparr>, s)
          else (msg, upd (neg_assign t) s))"

definition client_hints :: "msg \<Rightarrow> auth_session \<Rightarrow> msg \<times> auth_session" where
  "client_hints msg s =
     (let m1 = (if fsm_state s = SST_IDLE \<and> \<not> ng_isNegotiated (as_AuthState s)
                then msg\<lparr>m_acl := AddAvp AVPNAME_AUTHSESSIONSTATE False
                                     (AvpEnum (sint (ng_value (as_AuthState s)))) (m_acl msg)\<rparr>
                else msg);
          (m2, s1) = (if \<not> ng_isNegotiated (as_SessionTimeout s)
                      then hint AVPNAME_SESSIONTIMEOUT as_SessionTimeout as_SessionTimeout_update m1 s
                      else (m1, s))
      in if \<not> ng_isNegotiated (as_AuthLifetime s1)
         then hint AVPNAME_AUTHLIFETIME as_AuthLifetime as_AuthLifetime_update m2 s1
         else (m2, s1))"

definition client_Send :: "senv \<Rightarrow> msg \<Rightarrow> auth_session \<Rightarrow> bool \<times> auth_session" where
  "client_Send env msg s =
     (if \<not> fsm_running s then (False, s)
      else let (m, s1) = client_hints msg s
           in (True, client_Notify env SEV_TX_SSAR (s1\<lparr>as_PendingMsg := Some m\<rparr>)))"

definition client_End :: "senv \<Rightarrow> auth_session \<Rightarrow> auth_session" where
  "client_End env s =
     (if fsm_running s then client_Notify env (if maintained s then SEV_ABORT else SEV_STOP) s else s)"

fun client_app :: "senv \<Rightarrow> app_call list \<Rightarrow> auth_session \<Rightarrow> auth_session" where
  "client_app env [] s = s"
| "client_app env (AppSend m # cs) s = client_app env cs (snd (client_Send env m s))"
| "client_app env (AppEnd # cs) s = client_app env cs (client_End env s)"
| "client_app env (AppReAuth t # cs) s = client_app env cs s"

subsection \<open>Receiving\<close>

text \<open>
  \<open>RxDelivery\<close> looks its handler up by the return code: the event of an answer, the event of a request,
  whether it is for stateful sessions only, and whether a request may have it.
\<close>

fun rx_handler :: "app_rc \<Rightarrow> (auth_ev option \<times> auth_ev option \<times> bool \<times> bool) option" where
  "rx_handler RC_INCOMPLETE = Some (None, None, False, False)"
| "rx_handler RC_SUCCESS = Some (Some SEV_SSAA_OK, Some SEV_SSAR_OK, False, True)"
| "rx_handler RC_NOSERVICE = Some (Some SEV_SSAA_NOSVC, None, True, False)"
| "rx_handler RC_MSG_UNPROCESSED = Some (Some SEV_SSAA_ERROR, None, True, False)"
| "rx_handler RC_FAILURE = Some (Some SEV_SSAA_FAIL, Some SEV_SSAR_FAIL, False, True)"
| "rx_handler RC_OTHER = None"

definition notify_opt :: "senv \<Rightarrow> auth_ev option \<Rightarrow> auth_session \<Rightarrow> auth_session" where
  "notify_opt env ev s = (case ev of None \<Rightarrow> s | Some e \<Rightarrow> client_Notify env e s)"

definition client_RxDelivery :: "senv \<Rightarrow> msg \<Rightarrow> auth_session \<Rightarrow> bool \<times> auth_session" where
  "client_RxDelivery env msg s =
     (let s1 = snd (sess_MsgIdRx msg s);
          r = h_r (m_hdr msg);
          (calls, rc) = (if r then se_RequestMsg env msg else se_AnswerMsg env msg);
          s2 = client_app env calls s1
      in case rx_handler rc of
           None \<Rightarrow> (False, s2)
         | Some (ans, req, stateful, on_req) \<Rightarrow>
             if r then (if on_req then (True, notify_opt env req s2) else (False, s2))
             else if stateful \<and> \<not> maintained s2 then (False, s2)
             else (True, notify_opt env ans s2))"

definition client_act_rx :: "senv \<Rightarrow> client_ac \<Rightarrow> auth_session \<Rightarrow> auth_session" where
  "client_act_rx env a s =
     (if a = CA_RxSSA then take_pending (\<lambda>m s. snd (client_RxDelivery env m s)) s else client_act env a s)"

definition client_NotifyMsg :: "senv \<Rightarrow> auth_ev \<Rightarrow> msg \<Rightarrow> auth_session \<Rightarrow> auth_session" where
  "client_NotifyMsg env ev msg s = fsm_Event client_table (client_act_rx env) (s\<lparr>as_PendingMsg := Some msg\<rparr>) ev"

definition client_RxRequest :: "senv \<Rightarrow> msg \<Rightarrow> auth_session \<Rightarrow> auth_session" where
  "client_RxRequest env msg s =
     (if h_code (m_hdr msg) = MSGCODE_ABORTSESSION \<and> maintained s
      then client_Notify env (if se_AbortSession env then SEV_RX_ASR_OK else SEV_RX_ASR_RETRY)
             (s_emit CbAbortSession (client_RxBase msg s))
      else if h_code (m_hdr msg) = MSGCODE_SESSIONTERMINATION then s_emit (DiscardedMsg msg) s
      else if h_code (m_hdr msg) = MSGCODE_REAUTH
      then (let s1 = client_RxBase msg s in
            case GetU32 (m_acl msg) AVPNAME_REAUTHREQTYPE of
              Some t \<Rightarrow> client_Notify env SEV_RX_RAR (s1\<lparr>as_ReAuth := Some \<lparr>rv_reAuthType = 0, rv_resultCode = t\<rparr>\<rparr>)
            | None \<Rightarrow> s1\<lparr>as_ReAuth := None\<rparr>)
      else client_NotifyMsg env SEV_RX_SSAR msg s)"

definition dictate :: "u32 option \<Rightarrow> neg \<Rightarrow> neg" where
  "dictate x a = (case x of Some v \<Rightarrow> if ng_isNegotiated a then a else neg_Set v | None \<Rightarrow> a)"

text \<open>What a client takes over from an answer of the server.\<close>

definition client_negotiate :: "acl \<Rightarrow> auth_session \<Rightarrow> auth_session" where
  "client_negotiate a s =
     s\<lparr>as_AuthState := dictate (map_option word_of_int (GetEnum a AVPNAME_AUTHSESSIONSTATE)) (as_AuthState s),
       as_SessionTimeout := dictate (GetU32 a AVPNAME_SESSIONTIMEOUT) (as_SessionTimeout s),
       as_AuthLifetime := dictate (GetU32 a AVPNAME_AUTHLIFETIME) (as_AuthLifetime s),
       as_AuthGrace := dictate (GetU32 a AVPNAME_AUTHGRACE) (as_AuthGrace s)\<rparr>"

definition client_RxAnswer :: "senv \<Rightarrow> msg \<Rightarrow> auth_session \<Rightarrow> auth_session" where
  "client_RxAnswer env msg s =
     (if h_code (m_hdr msg) = MSGCODE_SESSIONTERMINATION
      then (if maintained s then client_Notify env SEV_RX_STA (client_RxBase msg s) else s)
      else if h_code (m_hdr msg) = MSGCODE_ABORTSESSION then s_emit (DiscardedMsg msg) s
      else client_NotifyMsg env SEV_RX_SSAA msg (client_negotiate (m_acl msg) s))"

definition client_RxError :: "msg \<Rightarrow> auth_session \<Rightarrow> auth_session" where
  "client_RxError msg s = s_emit (CbError msg) s"

subsection \<open>Beginning a session\<close>

definition client_lifetimes :: "senv \<Rightarrow> auth_session \<Rightarrow> auth_session" where
  "client_lifetimes env s =
     (let s1 = s\<lparr>as_SessionTimeout := neg_clear (as_SessionTimeout s), as_AuthLifetime := neg_clear (as_AuthLifetime s),
                 as_AuthGrace := neg_clear (as_AuthGrace s)\<rparr>;
          s2 = s1\<lparr>as_SessionTimeout := opt_assign (se_SetSessionTimeout env (se_sessionTm env)) (as_SessionTimeout s1)\<rparr>;
          s3 = s2\<lparr>as_AuthLifetime := opt_assign (se_SetAuthLifetime env (se_lifetimeTm env)) (as_AuthLifetime s2)\<rparr>;
          s4 = cap_lifetime s3
      in s4\<lparr>as_AuthGrace := opt_assign (se_SetAuthGrace env (Some (se_graceTm env))) (as_AuthGrace s4)\<rparr>)"

definition client_start :: "senv \<Rightarrow> string option \<Rightarrow> auth_session \<Rightarrow> auth_session" where
  "client_start env opt s =
     (let s1 = s\<lparr>as_AuthState := opt_assign (se_SetAuthState env (se_stateful env)) (as_AuthState s)\<rparr>;
          sid = (as_SessionId s1)\<lparr>si_DiameterId := cf_identity (se_cfg env) @ ''.'' @ cf_realm (se_cfg env)\<rparr>;
          sid' = (case opt of None \<Rightarrow> sid | Some v \<Rightarrow> sid\<lparr>si_OptionalVal := v\<rparr>);
          added = se_db_Add env sid'
      in fsm_Start SST_IDLE (s_emit (DbAdd added) (s1\<lparr>as_SessionId := added\<rparr>)))"

definition client_Begin :: "senv \<Rightarrow> string option \<Rightarrow> auth_session \<Rightarrow> auth_session" where
  "client_Begin env opt s =
     (let s1 = client_lifetimes env s;
          s2 = (if fsm_running s1 then s1 else client_start env opt s1);
          (calls, ok) = se_ReStart env;
          s3 = client_app env calls s2
      in if ok then client_Notify env SEV_REQUEST_ACCESS s3 else fsm_Stop s3)"

subsection \<open>Steps\<close>

text \<open>
  What can happen to a session: calls of the application and of the router, and a timer of its machine. The
  application and the router may answer differently every time; the configuration is fixed. The flag says
  that the application does not let \<open>ReStart\<close> fail when it begins a session that runs already.
\<close>

inductive client_step :: "bool \<Rightarrow> cfg \<Rightarrow> auth_session \<Rightarrow> auth_session \<Rightarrow> bool" for p :: bool and c :: cfg where
  Begin: "se_cfg (env :: senv) = c \<Longrightarrow> \<not> p \<or> \<not> fsm_running s \<or> snd (se_ReStart env)
           \<Longrightarrow> client_step p c s (client_Begin env opt s)"
| Send: "se_cfg (env :: senv) = c \<Longrightarrow> client_step p c s (snd (client_Send env msg s))"
| End: "se_cfg (env :: senv) = c \<Longrightarrow> client_step p c s (client_End env s)"
| Request: "se_cfg (env :: senv) = c \<Longrightarrow> client_step p c s (client_RxRequest env msg s)"
| Answer: "se_cfg (env :: senv) = c \<Longrightarrow> client_step p c s (client_RxAnswer env msg s)"
| Error: "se_cfg (env :: senv) = c \<Longrightarrow> client_step p c s (client_RxError msg s)"
| Timer: "se_cfg (env :: senv) = c \<Longrightarrow> fsm_timers s ty = Some (ev, sec)
           \<Longrightarrow> client_step p c s (client_Notify env ev s)"

inductive client_reach :: "bool \<Rightarrow> cfg \<Rightarrow> auth_session \<Rightarrow> bool" for p :: bool and c :: cfg where
  init: "se_cfg (env :: senv) = c \<Longrightarrow> client_reach p c (new_auth_session env appId junk)"
| step: "client_reach p c s \<Longrightarrow> client_step p c s s' \<Longrightarrow> client_reach p c s'"

end
