(* ===== verification/Auth_Server.thy ===== *)
theory Auth_Server
  imports Session_Base
begin

text \<open>
  The authorization session of a server: its state table and actions
  (\<open>libdiameter/include/aaa_session_auth_server_fsm.h\<close>), the messages of the base protocol
  (\<open>src/aaa_session_auth_server_fsm.cxx\<close>) and the session object (\<open>src/aaa_session_server.cxx\<close>), whose
  \<open>TxDelivery\<close> writes the negotiated values into every message before the base class delivers it.
\<close>

subsection \<open>Delivery\<close>

text \<open>A value the server dictates: what the message already has may only lower it.\<close>

definition server_dictate ::
  "string \<Rightarrow> (auth_session \<Rightarrow> neg) \<Rightarrow> ((neg \<Rightarrow> neg) \<Rightarrow> auth_session \<Rightarrow> auth_session)
   \<Rightarrow> msg \<times> auth_session \<Rightarrow> msg \<times> auth_session" where
  "server_dictate name get upd x =
     (let (msg, s) = x; v = ng_value (get s) in
      if ng_isNegotiated (get s) then (msg, s)
      else let (msg', s') =
             (case GetU32 (m_acl msg) name of
                None \<Rightarrow> (msg\<lparr>m_acl := AddAvp name False (AvpU32 v) (m_acl msg)\<rparr>, s)
              | Some t \<Rightarrow>
                  if v < t then (msg\<lparr>m_acl := AddAvp name False (AvpU32 v) (m_acl msg)\<rparr>, s)
                  else (msg, upd (neg_assign t) s))
           in (msg', upd (\<lambda>a. a\<lparr>ng_isNegotiated := True\<rparr>) s'))"

definition server_state_avp :: "u32 \<Rightarrow> msg \<Rightarrow> msg" where
  "server_state_avp v msg =
     (case GetEnum (m_acl msg) AVPNAME_AUTHSESSIONSTATE of
        None \<Rightarrow> msg\<lparr>m_acl := AddAvp AVPNAME_AUTHSESSIONSTATE False (AvpEnum (sint v)) (m_acl msg)\<rparr>
      | Some e \<Rightarrow>
          if v \<noteq> word_of_int e
          then msg\<lparr>m_acl := AddAvp AVPNAME_AUTHSESSIONSTATE False (AvpEnum (sint v)) (m_acl msg)\<rparr>
          else msg)"

definition server_dictates :: "msg \<Rightarrow> auth_session \<Rightarrow> msg \<times> auth_session" where
  "server_dictates msg s =
     server_dictate AVPNAME_AUTHGRACE as_AuthGrace as_AuthGrace_update
       (server_dictate AVPNAME_AUTHLIFETIME as_AuthLifetime as_AuthLifetime_update
         (server_dictate AVPNAME_SESSIONTIMEOUT as_SessionTimeout as_SessionTimeout_update
           (server_state_avp (ng_value (as_AuthState s)) msg, s)))"

definition server_TxDelivery :: "senv \<Rightarrow> msg \<Rightarrow> auth_session \<Rightarrow> bool option \<times> auth_session" where
  "server_TxDelivery env msg s = (let (m, s1) = server_dictates msg s in sess_TxDelivery env m s1)"

subsection \<open>Messages\<close>

definition server_STA :: "senv \<Rightarrow> u32 \<Rightarrow> auth_session \<Rightarrow> msg" where
  "server_STA env rcode s =
     \<lparr>m_hdr = session_hdr MSGCODE_SESSIONTERMINATION False,
      m_acl = SessionId_Set (as_SessionId s) [] @ [(AVPNAME_RESULTCODE, [AvpU32 rcode])] @ origin_avps env @
        user_avp s @ class_avp env @ state_avp env\<rparr>"

text \<open>What ASR and RAR have in common.\<close>

definition server_dest_avps :: "auth_session \<Rightarrow> acl" where
  "server_dest_avps s =
     [(AVPNAME_DESTHOST, [AvpStr (string_of (as_DestinationHost s))]),
      (AVPNAME_DESTREALM, [AvpStr (string_of (as_DestinationRealm s))]),
      (AVPNAME_AUTHAPPID, [AvpU32 (as_ApplicationId s)])]"

definition server_ASR :: "senv \<Rightarrow> auth_session \<Rightarrow> msg" where
  "server_ASR env s =
     \<lparr>m_hdr = session_hdr MSGCODE_ABORTSESSION True,
      m_acl = SessionId_Set (as_SessionId s) [] @ origin_avps env @ server_dest_avps s @ user_avp s @ state_avp env\<rparr>"

definition server_RAR :: "senv \<Rightarrow> u32 \<Rightarrow> auth_session \<Rightarrow> msg" where
  "server_RAR env ty s =
     \<lparr>m_hdr = session_hdr MSGCODE_REAUTH True,
      m_acl = SessionId_Set (as_SessionId s) [] @ origin_avps env @ server_dest_avps s @
        [(AVPNAME_REAUTHREQTYPE, [AvpU32 ty])] @ user_avp s @ state_avp env\<rparr>"

definition server_TxSTA :: "senv \<Rightarrow> u32 \<Rightarrow> auth_session \<Rightarrow> bool option \<times> auth_session" where
  "server_TxSTA env rcode s = server_TxDelivery env (server_STA env rcode s) s"

definition server_TxRAR :: "senv \<Rightarrow> u32 \<Rightarrow> auth_session \<Rightarrow> bool option \<times> auth_session" where
  "server_TxRAR env ty s = server_TxDelivery env (server_RAR env ty s) s"

definition server_TxASR :: "senv \<Rightarrow> auth_session \<Rightarrow> auth_session" where
  "server_TxASR env s =
     (case server_TxDelivery env (server_ASR env s) s of
        (None, s1) \<Rightarrow> s1
      | (Some False, s1) \<Rightarrow> s_timer SEV_TX_ASR_FAIL (se_abortRetryTm env) TIMER_TYPE_ASR s1
      | (Some True, s1) \<Rightarrow> s1\<lparr>as_ASRSent := True\<rparr>)"

definition server_RxSTR :: "msg \<Rightarrow> auth_session \<Rightarrow> auth_session" where
  "server_RxSTR msg s =
     (let s1 = snd (sess_MsgIdRx msg s) in
      case GetStr (m_acl msg) AVPNAME_CLASS of None \<Rightarrow> s1 | Some c \<Rightarrow> s_emit (CbClass c) s1)"

text \<open>\<open>RxASA\<close> and \<open>RxRAA\<close> print, and remember the identifiers.\<close>

definition server_RxBase :: "msg \<Rightarrow> auth_session \<Rightarrow> auth_session" where
  "server_RxBase msg s = snd (sess_MsgIdRx msg s)"

subsection \<open>The state table\<close>

datatype server_ac =
    SA_None
  | SA_RxSSARDiscard
  | SA_TxSSAADiscard
  | SA_RxSSA
  | SA_TxSSA
  | SA_TxRAR
  | SA_GrantAccess
  | SA_TxASR
  | SA_RxRAA
  | SA_RxASA
  | SA_TxSTACleanup
  | SA_TxSTACleanupIdle
  | SA_AuthTimeout
  | SA_SessionTimeout
  | SA_SessionReclaim
  | SA_Cleanup

definition server_idle_entries :: "(auth_st, auth_ev, server_ac) fsm_entry list" where
  "server_idle_entries =
    [FsmEntry SST_IDLE (Some SEV_SSAR_OK) SST_OPEN SA_GrantAccess,
     FsmEntry SST_IDLE (Some SEV_SSAR_FAIL) SST_IDLE SA_Cleanup,
     FsmEntry SST_IDLE (Some SEV_RX_ASA_OK) SST_IDLE SA_None,
     FsmEntry SST_IDLE (Some SEV_RX_ASA_FAIL) SST_IDLE SA_None,
     FsmEntry SST_IDLE (Some SEV_RX_STR) SST_IDLE SA_TxSTACleanupIdle,
     FsmEntry SST_IDLE (Some SEV_TX_SSAA) SST_IDLE SA_TxSSA,
     FsmEntry SST_IDLE (Some SEV_RX_SSAR) SST_IDLE SA_RxSSA,
     FsmEntry SST_IDLE (Some SEV_SESSION_TOUT_NOST) SST_IDLE SA_SessionTimeout,
     FsmEntry SST_IDLE (Some SEV_SESSION_RECLAIM) SST_IDLE SA_SessionReclaim,
     FsmEntry SST_IDLE (Some SEV_ABORT) SST_IDLE SA_Cleanup,
     FsmEntry SST_IDLE None SST_IDLE SA_None]"

definition server_open_entries :: "(auth_st, auth_ev, server_ac) fsm_entry list" where
  "server_open_entries =
    [FsmEntry SST_OPEN (Some SEV_SSAR_OK) SST_OPEN SA_GrantAccess,
     FsmEntry SST_OPEN (Some SEV_SSAR_FAIL) SST_IDLE SA_Cleanup,
     FsmEntry SST_OPEN (Some SEV_TX_SSAR) SST_OPEN SA_TxSSA,
     FsmEntry SST_OPEN (Some SEV_RX_SSAA) SST_OPEN SA_RxSSA,
     FsmEntry SST_OPEN (Some SEV_SSAA_OK) SST_OPEN SA_None,
     FsmEntry SST_OPEN (Some SEV_SSAA_FAIL) SST_IDLE SA_Cleanup,
     FsmEntry SST_OPEN (Some SEV_ABORT) SST_DISC SA_TxASR,
     FsmEntry SST_OPEN (Some SEV_LIFETIME_TOUT) SST_IDLE SA_AuthTimeout,
     FsmEntry SST_OPEN (Some SEV_SESSION_TOUT_ST) SST_IDLE SA_SessionTimeout,
     FsmEntry SST_OPEN (Some SEV_RX_ASA_OK) SST_OPEN SA_None,
     FsmEntry SST_OPEN (Some SEV_RX_ASA_FAIL) SST_OPEN SA_None,
     FsmEntry SST_OPEN (Some SEV_RX_STR) SST_IDLE SA_TxSTACleanup,
     FsmEntry SST_OPEN (Some SEV_TX_SSAA) SST_OPEN SA_TxSSA,
     FsmEntry SST_OPEN (Some SEV_RX_SSAR) SST_OPEN SA_RxSSA,
     FsmEntry SST_OPEN (Some SEV_REAUTH) SST_OPEN SA_TxRAR,
     FsmEntry SST_OPEN (Some SEV_RX_RAA) SST_OPEN SA_RxRAA,
     FsmEntry SST_OPEN None SST_OPEN SA_None]"

definition server_disc_entries :: "(auth_st, auth_ev, server_ac) fsm_entry list" where
  "server_disc_entries =
    [FsmEntry SST_DISC (Some SEV_TX_ASR_FAIL) SST_DISC SA_TxASR,
     FsmEntry SST_DISC (Some SEV_RX_ASA_OK) SST_DISC SA_RxASA,
     FsmEntry SST_DISC (Some SEV_RX_ASA_FAIL) SST_IDLE SA_Cleanup,
     FsmEntry SST_DISC (Some SEV_RX_STR) SST_IDLE SA_TxSTACleanup,
     FsmEntry SST_DISC (Some SEV_LIFETIME_TOUT) SST_IDLE SA_AuthTimeout,
     FsmEntry SST_DISC (Some SEV_SESSION_TOUT_ST) SST_IDLE SA_SessionTimeout,
     FsmEntry SST_DISC (Some SEV_TX_SSAA) SST_DISC SA_TxSSAADiscard,
     FsmEntry SST_DISC (Some SEV_RX_SSAR) SST_DISC SA_RxSSARDiscard,
     FsmEntry SST_DISC None SST_DISC SA_None]"

definition server_table :: "(auth_st, auth_ev, server_ac) fsm_entry list" where
  "server_table = server_idle_entries @ server_open_entries @ server_disc_entries"

lemma server_table_built: "build_from [] server_table = Inr server_table"
  by (simp add: server_table_def server_idle_entries_def server_open_entries_def server_disc_entries_def
      AddStateTableEntry_def AddWildcardStateTableEntry_def FindStateTableEntry_def)

subsection \<open>Actions\<close>

text \<open>\<open>DiameterServerAuthSession::Reset\<close>.\<close>

definition server_Reset :: "auth_session \<Rightarrow> auth_session" where
  "server_Reset s = s_emit ForDeletion (fsm_Stop (s_emit (DbRemove (as_SessionId s)) (base_Reset s)))"

definition server_release :: "auth_session \<Rightarrow> auth_session" where
  "server_release s = server_Reset (s\<lparr>as_ASRSent := False\<rparr>)"

definition server_extend :: "auth_session \<Rightarrow> auth_session" where
  "server_extend s =
     (if maintained s then s
      else let s1 = CancelAllTimer s;
               s2 = (if ng_value (as_SessionTimeout s1) > 0
                     then s_timer SEV_SESSION_TOUT_NOST (ng_value (as_SessionTimeout s1) + AUTH_SESSION_GRACE_PERIOD)
                            TIMER_TYPE_SESSION s1
                     else s_timer SEV_SESSION_RECLAIM AUTH_SESSION_RECLAMATION_PERIOD TIMER_TYPE_SESSION s1)
           in s_emit CbSuccess s2)"

definition server_GrantAccess :: "auth_session \<Rightarrow> auth_session" where
  "server_GrantAccess s =
     (let s1 = CancelAllTimer s;
          s2 = s_timer SEV_SESSION_TOUT_ST (ng_value (as_SessionTimeout s1) + AUTH_SESSION_GRACE_PERIOD)
                 TIMER_TYPE_SESSION s1;
          s3 = s_timer SEV_LIFETIME_TOUT
                 (ng_value (as_AuthLifetime s2) + ng_value (as_AuthGrace s2) + AUTH_SESSION_GRACE_PERIOD)
                 TIMER_TYPE_AUTH s2
      in s_emit CbSuccess s3)"

definition server_Reclaim :: "senv \<Rightarrow> auth_session \<Rightarrow> auth_session" where
  "server_Reclaim env s =
     (let s1 = s_emit CbReClaim (CancelAllTimer s) in
      if se_ReClaim env then server_release (s_emit CbDisconnect s1)
      else s_timer SEV_SESSION_RECLAIM AUTH_SESSION_RECLAMATION_PERIOD TIMER_TYPE_SESSION s1)"

fun server_act :: "senv \<Rightarrow> server_ac \<Rightarrow> auth_session \<Rightarrow> auth_session" where
  "server_act env SA_None s = s"
| "server_act env SA_RxSSARDiscard s = take_pending (\<lambda>m. s_emit (DiscardedMsg m)) s"
| "server_act env SA_TxSSAADiscard s = take_pending (\<lambda>m. s_emit (DiscardedMsg m)) s"
| "server_act env SA_RxSSA s = s"
| "server_act env SA_TxSSA s = take_pending (\<lambda>m s. and_then (server_TxDelivery env m s) server_extend) s"
| "server_act env SA_TxRAR s =
     (case as_ReAuth s of None \<Rightarrow> s | Some v \<Rightarrow> snd (server_TxRAR env (rv_reAuthType v) s))"
| "server_act env SA_GrantAccess s = server_GrantAccess s"
| "server_act env SA_TxASR s = server_TxASR env (CancelAllTimer s)"
| "server_act env SA_RxRAA s =
     (case as_ReAuth s of None \<Rightarrow> s | Some v \<Rightarrow> s_emit (CbReAuthenticate (rv_resultCode v)) s)"
| "server_act env SA_RxASA s = s_emit CbAbortSession (CancelTimer TIMER_TYPE_ASR s)"
| "server_act env SA_TxSTACleanup s =
     and_then (server_TxSTA env AAA_AUTHORIZATION_REJECTED (CancelAllTimer s))
       (\<lambda>s. server_release (s_emit CbDisconnect s))"
| "server_act env SA_TxSTACleanupIdle s =
     and_then (server_TxSTA env AAA_AUTHORIZATION_REJECTED (CancelAllTimer s)) server_release"
| "server_act env SA_AuthTimeout s = server_release (CancelAllTimer (s_emit CbAuthorizationTimeout s))"
| "server_act env SA_SessionTimeout s = server_release (CancelAllTimer (s_emit CbSessionTimeout s))"
| "server_act env SA_SessionReclaim s = server_Reclaim env s"
| "server_act env SA_Cleanup s = server_release (s_emit CbAbortSession (CancelAllTimer s))"

text \<open>\<open>Notify\<close> for the events none of whose actions is \<open>RxSSA\<close>.\<close>

definition server_Notify :: "senv \<Rightarrow> auth_ev \<Rightarrow> auth_session \<Rightarrow> auth_session" where
  "server_Notify env ev s = fsm_Event server_table (server_act env) s ev"

subsection \<open>What the application calls\<close>

definition server_Send :: "senv \<Rightarrow> msg \<Rightarrow> auth_session \<Rightarrow> bool \<times> auth_session" where
  "server_Send env msg s =
     (if fsm_running s
      then (True, server_Notify env (if h_r (m_hdr msg) then SEV_TX_SSAR else SEV_TX_SSAA)
                    (s\<lparr>as_PendingMsg := Some msg\<rparr>))
      else (False, s))"

definition server_ReAuth :: "senv \<Rightarrow> u32 \<Rightarrow> auth_session \<Rightarrow> bool \<times> auth_session" where
  "server_ReAuth env ty s =
     (if fsm_running s
      then (True, server_Notify env SEV_REAUTH (s\<lparr>as_ReAuth := Some \<lparr>rv_reAuthType = 0, rv_resultCode = ty\<rparr>\<rparr>))
      else (False, s))"

definition server_End :: "senv \<Rightarrow> auth_session \<Rightarrow> bool \<times> auth_session" where
  "server_End env s = (if fsm_running s then (True, server_Notify env SEV_ABORT s) else (False, s))"

fun server_app :: "senv \<Rightarrow> app_call list \<Rightarrow> auth_session \<Rightarrow> auth_session" where
  "server_app env [] s = s"
| "server_app env (AppSend m # cs) s = server_app env cs (snd (server_Send env m s))"
| "server_app env (AppEnd # cs) s = server_app env cs (snd (server_End env s))"
| "server_app env (AppReAuth t # cs) s = server_app env cs (snd (server_ReAuth env t s))"

subsection \<open>Receiving\<close>

text \<open>The event that a return code stands for; the code of an incomplete request is event 0.\<close>

definition server_rx_event :: "bool \<Rightarrow> app_rc \<Rightarrow> auth_ev" where
  "server_rx_event r rc =
     (if rc = RC_SUCCESS then (if r then SEV_SSAR_OK else SEV_SSAA_OK)
      else if rc \<noteq> RC_INCOMPLETE then (if r then SEV_SSAR_FAIL else SEV_SSAA_FAIL)
      else SEV_REQUEST_ACCESS)"

definition server_RxDelivery :: "senv \<Rightarrow> msg \<Rightarrow> auth_session \<Rightarrow> auth_session" where
  "server_RxDelivery env msg s =
     (let s1 = snd (sess_MsgIdRx msg s);
          r = h_r (m_hdr msg);
          (calls, rc) = (if r then se_RequestMsg env msg else se_AnswerMsg env msg);
          s2 = server_app env calls s1
      in if maintained s2 then server_Notify env (server_rx_event r rc) s2 else s2)"

definition server_act_rx :: "senv \<Rightarrow> server_ac \<Rightarrow> auth_session \<Rightarrow> auth_session" where
  "server_act_rx env a s =
     (if a = SA_RxSSA then take_pending (\<lambda>m s. server_RxDelivery env m s) s else server_act env a s)"

definition server_NotifyMsg :: "senv \<Rightarrow> auth_ev \<Rightarrow> msg \<Rightarrow> auth_session \<Rightarrow> auth_session" where
  "server_NotifyMsg env ev msg s = fsm_Event server_table (server_act_rx env) (s\<lparr>as_PendingMsg := Some msg\<rparr>) ev"

text \<open>The parts of \<open>RxRequest\<close>, in order.\<close>

definition server_origin :: "acl \<Rightarrow> auth_session \<Rightarrow> auth_session" where
  "server_origin a s =
     (let s1 = (case GetStr a AVPNAME_ORIGINHOST of
                  Some h \<Rightarrow> if as_DestinationHost s = None \<and> maintained s then s\<lparr>as_DestinationHost := Some h\<rparr> else s
                | None \<Rightarrow> s)
      in case GetStr a AVPNAME_ORIGINREALM of
           Some r \<Rightarrow> if as_DestinationRealm s1 = None \<and> maintained s1 then s1\<lparr>as_DestinationRealm := Some r\<rparr> else s1
         | None \<Rightarrow> s1)"

definition server_negotiate_state :: "senv \<Rightarrow> acl \<Rightarrow> auth_session \<Rightarrow> auth_session" where
  "server_negotiate_state env a s =
     (if ng_isNegotiated (as_AuthState s) then s
      else case GetEnum a AVPNAME_AUTHSESSIONSTATE of
             Some e \<Rightarrow>
               let s1 = (if ng_value (as_AuthState s) \<noteq> word_of_int e \<and> maintained s
                         then s\<lparr>as_AuthState := neg_Set (word_of_int e)\<rparr> else s)
               in s1\<lparr>as_AuthState := (as_AuthState s1)\<lparr>ng_isNegotiated := True\<rparr>\<rparr>
           | None \<Rightarrow>
               s\<lparr>as_AuthState := neg_Set (case se_SetAuthState env (se_stateful env) of
                                            Some v \<Rightarrow> v | None \<Rightarrow> se_stateful env)\<rparr>)"

text \<open>A hint is what the application is asked about, and what caps its choice.\<close>

definition server_hint :: "u32 option \<Rightarrow> u32 \<Rightarrow> (u32 \<Rightarrow> u32 option) \<Rightarrow> neg \<Rightarrow> neg" where
  "server_hint h dflt app a =
     (let a1 = (case app (case h of Some t \<Rightarrow> t | None \<Rightarrow> dflt) of Some v \<Rightarrow> neg_assign v a | None \<Rightarrow> a)
      in case h of Some t \<Rightarrow> if t < ng_value a1 then neg_assign t a1 else a1 | None \<Rightarrow> a1)"

definition server_negotiate_timeout :: "senv \<Rightarrow> acl \<Rightarrow> auth_session \<Rightarrow> auth_session" where
  "server_negotiate_timeout env a s =
     (if ng_isNegotiated (as_SessionTimeout s) then s
      else s\<lparr>as_SessionTimeout :=
               server_hint (GetU32 a AVPNAME_SESSIONTIMEOUT) (se_sessionTm env) (se_SetSessionTimeout env)
                 (as_SessionTimeout s)\<rparr>)"

definition server_negotiate_lifetime :: "senv \<Rightarrow> acl \<Rightarrow> auth_session \<Rightarrow> auth_session" where
  "server_negotiate_lifetime env a s =
     (if ng_isNegotiated (as_AuthLifetime s) then s
      else cap_lifetime
             (s\<lparr>as_AuthLifetime :=
                  server_hint (GetU32 a AVPNAME_AUTHLIFETIME) (se_lifetimeTm env) (se_SetAuthLifetime env)
                    (as_AuthLifetime s)\<rparr>))"

definition server_negotiate_grace :: "senv \<Rightarrow> auth_session \<Rightarrow> auth_session" where
  "server_negotiate_grace env s =
     (if ng_isNegotiated (as_AuthGrace s) then s
      else case se_SetAuthGrace env None of
             Some v \<Rightarrow> s\<lparr>as_AuthGrace := neg_assign v (as_AuthGrace s)\<rparr>
           | None \<Rightarrow> s)"

definition server_negotiate :: "senv \<Rightarrow> acl \<Rightarrow> auth_session \<Rightarrow> auth_session" where
  "server_negotiate env a s =
     server_negotiate_grace env
       (server_negotiate_lifetime env a
         (server_negotiate_timeout env a (server_negotiate_state env a (server_origin a s))))"

definition server_RxRequest :: "senv \<Rightarrow> msg \<Rightarrow> auth_session \<Rightarrow> auth_session" where
  "server_RxRequest env msg s0 =
     (let (ok, s) =
        (if si_DiameterId (as_SessionId s0) = []
         then (case SessionId_Get (se_lp64 env) (m_acl msg) empty_session_id of
                 (False, _) \<Rightarrow> (False, s0)
               | (True, sid) \<Rightarrow> (True, s0\<lparr>as_SessionId := sid\<rparr>))
         else (True, s0))
      in if \<not> ok then s
         else if h_code (m_hdr msg) = MSGCODE_SESSIONTERMINATION \<and> maintained s
         then server_Notify env SEV_RX_STR (server_RxSTR msg s)
         else if h_code (m_hdr msg) = MSGCODE_ABORTSESSION then s_emit (DiscardedMsg msg) s
         else server_NotifyMsg env SEV_RX_SSAR msg (server_negotiate env (m_acl msg) s))"

definition server_RxAnswer :: "senv \<Rightarrow> msg \<Rightarrow> auth_session \<Rightarrow> auth_session" where
  "server_RxAnswer env msg s =
     (if h_code (m_hdr msg) = MSGCODE_ABORTSESSION \<and> maintained s
      then (if as_ASRSent s
            then server_Notify env (if MsgResult msg = RCODE_SUCCESS then SEV_RX_ASA_OK else SEV_RX_ASA_FAIL)
                   (server_RxBase msg s)
            else s_emit (DiscardedMsg msg) s)
      else if h_code (m_hdr msg) = MSGCODE_SESSIONTERMINATION then s_emit (DiscardedMsg msg) s
      else if h_code (m_hdr msg) = MSGCODE_REAUTH
      then (let s1 = server_RxBase msg s in
            case GetU32 (m_acl msg) AVPNAME_RESULTCODE of
              Some rc \<Rightarrow> server_Notify env SEV_RX_RAA (s1\<lparr>as_ReAuth := Some \<lparr>rv_reAuthType = rc, rv_resultCode = 0\<rparr>\<rparr>)
            | None \<Rightarrow> s1\<lparr>as_ReAuth := None\<rparr>)
      else server_NotifyMsg env SEV_RX_SSAA msg s)"

definition server_RxError :: "msg \<Rightarrow> auth_session \<Rightarrow> auth_session" where
  "server_RxError msg s = s_emit (CbError msg) s"

subsection \<open>Steps\<close>

text \<open>
  The constructor calls \<open>ReStart\<close> while it runs, and so the one of the base class, which succeeds: the
  machine always starts.
\<close>

definition new_server_session :: "senv \<Rightarrow> u32 \<Rightarrow> (nat \<Rightarrow> u32) \<Rightarrow> auth_session" where
  "new_server_session env appId junk = fsm_Start SST_IDLE (new_auth_session env appId junk)"

inductive server_step :: "cfg \<Rightarrow> auth_session \<Rightarrow> auth_session \<Rightarrow> bool" for c :: cfg where
  Send: "se_cfg (env :: senv) = c \<Longrightarrow> server_step c s (snd (server_Send env msg s))"
| ReAuth: "se_cfg (env :: senv) = c \<Longrightarrow> server_step c s (snd (server_ReAuth env ty s))"
| End: "se_cfg (env :: senv) = c \<Longrightarrow> server_step c s (snd (server_End env s))"
| Request: "se_cfg (env :: senv) = c \<Longrightarrow> server_step c s (server_RxRequest env msg s)"
| Answer: "se_cfg (env :: senv) = c \<Longrightarrow> server_step c s (server_RxAnswer env msg s)"
| Error: "se_cfg (env :: senv) = c \<Longrightarrow> server_step c s (server_RxError msg s)"
| Timer: "se_cfg (env :: senv) = c \<Longrightarrow> fsm_timers s ty = Some (ev, sec) \<Longrightarrow> server_step c s (server_Notify env ev s)"

inductive server_reach :: "cfg \<Rightarrow> auth_session \<Rightarrow> bool" for c :: cfg where
  init: "se_cfg (env :: senv) = c \<Longrightarrow> server_reach c (new_server_session env appId junk)"
| step: "server_reach c s \<Longrightarrow> server_step c s s' \<Longrightarrow> server_reach c s'"

end
