(* ===== verification/Auth_Inv.thy ===== *)
theory Auth_Inv
  imports Auth_Client Auth_Server
begin

text \<open>
  Invariants of the authorization sessions: which timers run in which state, that no action is ever
  without the message it takes, and what keeps a server session from being open without state.
\<close>

named_theorems auth_frames

subsection \<open>What delivering a message leaves alone\<close>

lemma s_emit_frame [auth_frames]:
  "fsm_state (s_emit x s) = fsm_state s" "fsm_running (s_emit x s) = fsm_running s"
  "fsm_timers (s_emit x s) = fsm_timers s" "as_AuthState (s_emit x s) = as_AuthState s"
  "as_fault (s_emit x s) = as_fault s" "as_ASRSent (s_emit x s) = as_ASRSent s"
  "as_PendingMsg (s_emit x s) = as_PendingMsg s" "as_ReAuth (s_emit x s) = as_ReAuth s"
  "as_SessionTimeout (s_emit x s) = as_SessionTimeout s" "as_AuthLifetime (s_emit x s) = as_AuthLifetime s"
  "as_AuthGrace (s_emit x s) = as_AuthGrace s" "as_out (s_emit x s) = as_out s @ [x]"
  "as_SessionId (s_emit x s) = as_SessionId s"
  by (simp_all add: s_emit_def)

text \<open>Two sessions that differ in their attributes for addressing, and in what they have sent, only.\<close>

definition same_core :: "auth_session \<Rightarrow> auth_session \<Rightarrow> bool" where
  "same_core s t \<longleftrightarrow>
     fsm_state t = fsm_state s \<and> fsm_running t = fsm_running s \<and> fsm_timers t = fsm_timers s \<and>
     as_AuthState t = as_AuthState s \<and> as_fault t = as_fault s \<and> as_ASRSent t = as_ASRSent s \<and>
     as_PendingMsg t = as_PendingMsg s \<and> as_ReAuth t = as_ReAuth s \<and> as_SessionId t = as_SessionId s"

definition same_times :: "auth_session \<Rightarrow> auth_session \<Rightarrow> bool" where
  "same_times s t \<longleftrightarrow>
     as_SessionTimeout t = as_SessionTimeout s \<and> as_AuthLifetime t = as_AuthLifetime s \<and>
     as_AuthGrace t = as_AuthGrace s"

lemmas same_defs = same_core_def same_times_def

lemma same_refl [intro, simp]: "same_core s s" "same_times s s"
  by (simp_all add: same_defs)

lemma same_trans:
  "same_core s t \<Longrightarrow> same_core t u \<Longrightarrow> same_core s u"
  "same_times s t \<Longrightarrow> same_times t u \<Longrightarrow> same_times s u"
  by (simp_all add: same_defs)

lemma same_emit: "same_core s (s_emit x s)" "same_times s (s_emit x s)"
  by (simp_all add: same_defs s_emit_def)

lemma tx_host_same: "same_core s (snd (tx_host env m s))" "same_times s (snd (tx_host env m s))"
  by (auto simp: tx_host_def same_defs split: option.splits)

lemma tx_realm_same:
  "tx_realm env m s = Some (m', t) \<Longrightarrow> same_core s t" "tx_realm env m s = Some (m', t) \<Longrightarrow> same_times s t"
  by (auto simp: tx_realm_def same_defs split: option.splits if_splits)

lemma tx_user_same: "same_core s (snd (tx_user env m s))" "same_times s (snd (tx_user env m s))"
  by (auto simp: tx_user_def same_defs split: option.splits)

lemma MsgIdTx_same: "same_core s (snd (sess_MsgIdTx c m s))" "same_times s (snd (sess_MsgIdTx c m s))"
  by (auto simp: sess_MsgIdTx_def same_defs Let_def)

lemma MsgIdRx_same: "same_core s (snd (sess_MsgIdRx m s))" "same_times s (snd (sess_MsgIdRx m s))"
  by (auto simp: sess_MsgIdRx_def same_defs Let_def)

lemma TxDelivery_same:
  "same_core s (snd (sess_TxDelivery env m s))" "same_times s (snd (sess_TxDelivery env m s))"
proof -
  obtain m1 s1 where h: "tx_host env m s = (m1, s1)" by fastforce
  have "same_core s s1 \<and> same_times s s1" using tx_host_same [of s env m] h by simp
  moreover have "same_core s1 (snd (sess_TxDelivery env m s)) \<and> same_times s1 (snd (sess_TxDelivery env m s))"
  proof (cases "tx_realm env m1 s1")
    case None
    with h show ?thesis by (simp add: sess_TxDelivery_def)
  next
    case (Some x)
    obtain m2 s2 where x: "x = (m2, s2)" by fastforce
    obtain m3 s3 where u: "tx_user env m2 s2 = (m3, s3)" by fastforce
    have "same_core s1 s2 \<and> same_times s1 s2" using tx_realm_same Some x by blast
    moreover have "same_core s2 s3 \<and> same_times s2 s3" using tx_user_same [of s2 env m2] u by simp
    moreover obtain m6 s4 where i: "sess_MsgIdTx (se_cfg env)
        ((tx_origin env m3)\<lparr>m_acl := SessionId_Set (as_SessionId s3) (m_acl (tx_origin env m3))\<rparr>) s3 = (m6, s4)"
      by fastforce
    moreover have "same_core s3 s4 \<and> same_times s3 s4" using MsgIdTx_same i by (metis snd_conv)
    moreover have "snd (sess_TxDelivery env m s) = s_emit (Routed m6) s4"
      using h Some x u i by (simp add: sess_TxDelivery_def)
    ultimately show ?thesis using same_trans same_emit by metis
  qed
  ultimately show "same_core s (snd (sess_TxDelivery env m s))" "same_times s (snd (sess_TxDelivery env m s))"
    using same_trans by blast+
qed

text \<open>The same as rewrite rules, for a delivery whose result is used in one piece.\<close>

lemma same_coreD:
  assumes "same_core s t"
  shows "fsm_state t = fsm_state s" "fsm_running t = fsm_running s" "fsm_timers t = fsm_timers s"
    "as_AuthState t = as_AuthState s" "as_fault t = as_fault s" "as_ASRSent t = as_ASRSent s"
    "as_PendingMsg t = as_PendingMsg s" "as_ReAuth t = as_ReAuth s" "as_SessionId t = as_SessionId s"
  using assms by (simp_all add: same_core_def)

lemma same_timesD:
  assumes "same_times s t"
  shows "as_SessionTimeout t = as_SessionTimeout s" "as_AuthLifetime t = as_AuthLifetime s"
    "as_AuthGrace t = as_AuthGrace s"
  using assms by (simp_all add: same_times_def)

lemmas TxDelivery_frame [auth_frames] = same_coreD [OF TxDelivery_same(1)] same_timesD [OF TxDelivery_same(2)]
lemmas MsgIdRx_frame [auth_frames] = same_coreD [OF MsgIdRx_same(1)] same_timesD [OF MsgIdRx_same(2)]

definition core_lens :: "((neg \<Rightarrow> neg) \<Rightarrow> auth_session \<Rightarrow> auth_session) \<Rightarrow> bool" where
  "core_lens upd \<longleftrightarrow> (\<forall>f s. same_core s (upd f s))"

lemma core_lenses:
  "core_lens as_SessionTimeout_update" "core_lens as_AuthLifetime_update" "core_lens as_AuthGrace_update"
  by (simp_all add: core_lens_def same_core_def)

lemma server_dictate_same:
  assumes "core_lens upd" "same_core s (snd x)"
  shows "same_core s (snd (server_dictate name get upd x))"
proof -
  obtain m t where x: "x = (m, t)" by fastforce
  have 1: "same_core t (upd f t)" for f t using assms(1) by (simp add: core_lens_def)
  have 2: "same_core t (upd f (upd g t))" for f g by (rule same_trans(1) [OF 1 1])
  from 1 2 assms(2) x show ?thesis
    by (auto simp: server_dictate_def Let_def intro: same_trans split: option.splits)
qed

lemma server_dictates_same: "same_core s (snd (server_dictates m s))"
  by (simp add: server_dictates_def server_dictate_same core_lenses)

lemma server_TxDelivery_same: "same_core s (snd (server_TxDelivery env m s))"
proof -
  obtain m1 s1 where "server_dictates m s = (m1, s1)" by fastforce
  with server_dictates_same [of s m] same_trans(1) [OF _ TxDelivery_same(1)] show ?thesis
    by (simp add: server_TxDelivery_def)
qed

lemmas server_TxDelivery_frame [auth_frames] = same_coreD [OF server_TxDelivery_same]

lemma release_frame [auth_frames]:
  "fsm_state (server_release s) = fsm_state s" "\<not> fsm_running (server_release s)"
  "fsm_timers (server_release s) = fsm_timers s" "as_fault (server_release s) = as_fault s"
  "\<not> as_ASRSent (server_release s)"
  by (simp_all add: server_release_def server_Reset_def fsm_Stop_def base_Reset_def s_emit_def)

lemma client_Reset_frame [auth_frames]:
  "fsm_state (client_Reset s) = fsm_state s" "\<not> fsm_running (client_Reset s)"
  "fsm_timers (client_Reset s) = fsm_timers s" "as_fault (client_Reset s) = as_fault s"
  by (simp_all add: client_Reset_def fsm_Stop_def base_Reset_def s_emit_def)

lemma timer_frame [auth_frames]:
  "fsm_timers (s_timer ev sec ty s) = (fsm_timers s)(ty \<mapsto> (ev, unat sec))"
  "fsm_state (s_timer ev sec ty s) = fsm_state s" "fsm_running (s_timer ev sec ty s) = fsm_running s"
  "as_AuthState (s_timer ev sec ty s) = as_AuthState s" "as_fault (s_timer ev sec ty s) = as_fault s"
  "as_ASRSent (s_timer ev sec ty s) = as_ASRSent s" "as_PendingMsg (s_timer ev sec ty s) = as_PendingMsg s"
  "as_SessionTimeout (s_timer ev sec ty s) = as_SessionTimeout s"
  "as_AuthLifetime (s_timer ev sec ty s) = as_AuthLifetime s" "as_AuthGrace (s_timer ev sec ty s) = as_AuthGrace s"
  "as_out (s_timer ev sec ty s) = as_out s"
  by (simp_all add: s_timer_def ScheduleTimer_def CancelTimer_def Let_def)

lemma cancel_frame [auth_frames]:
  "fsm_timers (CancelAllTimer s) = Map.empty" "fsm_timers (CancelTimer ty s) = (fsm_timers s)(ty := None)"
  "as_AuthState (CancelAllTimer s) = as_AuthState s" "as_AuthState (CancelTimer ty s) = as_AuthState s"
  "as_fault (CancelAllTimer s) = as_fault s" "as_fault (CancelTimer ty s) = as_fault s"
  "as_ASRSent (CancelAllTimer s) = as_ASRSent s" "as_ASRSent (CancelTimer ty s) = as_ASRSent s"
  "as_PendingMsg (CancelAllTimer s) = as_PendingMsg s" "as_PendingMsg (CancelTimer ty s) = as_PendingMsg s"
  "as_ReAuth (CancelAllTimer s) = as_ReAuth s" "as_SessionId (CancelAllTimer s) = as_SessionId s"
  "as_SessionTimeout (CancelAllTimer s) = as_SessionTimeout s" "as_AuthLifetime (CancelAllTimer s) = as_AuthLifetime s"
  "as_AuthGrace (CancelAllTimer s) = as_AuthGrace s" "as_out (CancelAllTimer s) = as_out s"
  by (simp_all add: CancelAllTimer_def CancelTimer_def)

subsection \<open>The server\<close>

definition negotiated :: "auth_session \<Rightarrow> bool" where
  "negotiated s \<longleftrightarrow> ng_isNegotiated (as_AuthState s)"

text \<open>The timers that a state allows, as pairs of type and event.\<close>

definition timers_in :: "(int \<times> auth_ev) set \<Rightarrow> auth_session \<Rightarrow> bool" where
  "timers_in A s \<longleftrightarrow> (\<forall>ty ev sec. fsm_timers s ty = Some (ev, sec) \<longrightarrow> (ty, ev) \<in> A)"

fun server_timers :: "auth_st \<Rightarrow> (int \<times> auth_ev) set" where
  "server_timers SST_IDLE = {(TIMER_TYPE_SESSION, SEV_SESSION_TOUT_NOST), (TIMER_TYPE_SESSION, SEV_SESSION_RECLAIM)}"
| "server_timers SST_PENDING = {}"
| "server_timers SST_OPEN = {(TIMER_TYPE_SESSION, SEV_SESSION_TOUT_ST), (TIMER_TYPE_AUTH, SEV_LIFETIME_TOUT)}"
| "server_timers SST_DISC = {(TIMER_TYPE_ASR, SEV_TX_ASR_FAIL)}"

definition server_inv :: "auth_session \<Rightarrow> bool" where
  "server_inv s \<longleftrightarrow>
     \<not> as_fault s \<and> fsm_state s \<noteq> SST_PENDING \<and> timers_in (server_timers (fsm_state s)) s \<and>
     (\<not> fsm_running s \<longrightarrow> fsm_state s = SST_IDLE \<and> fsm_timers s = Map.empty) \<and>
     (fsm_state s \<in> {SST_OPEN, SST_DISC} \<longrightarrow> negotiated s \<and> maintained s) \<and>
     (fsm_state s = SST_OPEN \<longrightarrow> fsm_timers s TIMER_TYPE_SESSION \<noteq> None \<and> fsm_timers s TIMER_TYPE_AUTH \<noteq> None)"

definition server_enabled :: "auth_ev \<Rightarrow> auth_session \<Rightarrow> bool" where
  "server_enabled ev s \<longleftrightarrow>
     (ev = SEV_SSAR_OK \<longrightarrow> negotiated s \<and> maintained s) \<and>
     (ev = SEV_RX_SSAR \<longrightarrow> negotiated s) \<and>
     (ev \<in> {SEV_TX_SSAR, SEV_TX_SSAA, SEV_RX_SSAR, SEV_RX_SSAA} \<longrightarrow> as_PendingMsg s \<noteq> None)"

lemmas server_inv_defs = server_inv_def server_enabled_def timers_in_def negotiated_def maintained_def

text \<open>What each action needs, of the machine as the transition leaves it.\<close>

definition server_pre :: "server_ac \<Rightarrow> auth_session \<Rightarrow> bool" where
  "server_pre a m \<longleftrightarrow>
     \<not> as_fault m \<and> fsm_running m \<and>
     (if a \<in> {SA_GrantAccess} then fsm_state m = SST_OPEN \<and> negotiated m \<and> maintained m
      else if a = SA_TxASR then fsm_state m = SST_DISC \<and> negotiated m \<and> maintained m
      else if a \<in> {SA_TxSTACleanup, SA_TxSTACleanupIdle, SA_AuthTimeout, SA_SessionTimeout, SA_SessionReclaim, SA_Cleanup}
      then fsm_state m = SST_IDLE
      else server_inv m \<and>
        (a \<in> {SA_RxSSARDiscard, SA_TxSSAADiscard, SA_TxSSA} \<longrightarrow> as_PendingMsg m \<noteq> None) \<and>
        (a = SA_TxSSA \<longrightarrow> fsm_state m \<noteq> SST_DISC) \<and> (a = SA_RxASA \<longrightarrow> fsm_state m = SST_DISC))"

lemma server_inv_same_core: "same_core s t \<Longrightarrow> server_inv s \<Longrightarrow> server_inv t"
  by (simp add: same_core_def server_inv_defs)

lemma server_inv_pending [simp]: "server_inv (s\<lparr>as_PendingMsg := x\<rparr>) = server_inv s"
  "server_inv (s\<lparr>as_ReAuth := y\<rparr>) = server_inv s"
  by (simp_all add: server_inv_defs)

lemma server_inv_release:
  "\<not> as_fault s \<Longrightarrow> fsm_state s = SST_IDLE \<Longrightarrow> fsm_timers s = Map.empty \<Longrightarrow> server_inv (server_release s)"
  by (simp add: server_inv_def timers_in_def auth_frames)

lemma server_inv_idle:
  "\<not> as_fault s \<Longrightarrow> fsm_state s = SST_IDLE \<Longrightarrow> fsm_timers s = Map.empty \<Longrightarrow> server_inv s"
  by (simp add: server_inv_def timers_in_def)

lemma server_extend_keeps: "server_inv s \<Longrightarrow> fsm_state s \<noteq> SST_DISC \<Longrightarrow> fsm_running s \<Longrightarrow> server_inv (server_extend s)"
  by (cases "fsm_state s") (auto simp: server_extend_def server_inv_defs Let_def auth_frames frame_simps)

lemma server_act_keeps:
  assumes "server_pre a m"
  shows "server_inv (server_act env a m)"
proof (cases a)
  case SA_TxSSA
  with assms obtain x where m: "as_PendingMsg m = Some x" "server_inv m" "fsm_state m \<noteq> SST_DISC" "fsm_running m"
    by (auto simp: server_pre_def)
  let ?t = "snd (server_TxDelivery env x (m\<lparr>as_PendingMsg := None\<rparr>))"
  have "server_inv ?t" using m server_inv_same_core [OF server_TxDelivery_same] by simp
  with m SA_TxSSA show ?thesis
    by (auto simp: take_pending_def and_then_def auth_frames intro!: server_extend_keeps split: option.splits)
next
  case SA_TxASR
  with assms show ?thesis
    by (auto simp: server_pre_def server_TxASR_def server_inv_defs auth_frames frame_simps
        split: prod.split option.split bool.split dest!: arg_cong [of _ "(_, _)" snd])
next
  case SA_RxASA
  with assms show ?thesis by (auto simp: server_pre_def server_inv_defs auth_frames frame_simps)
next
  case SA_SessionReclaim
  with assms show ?thesis
    by (auto simp: server_pre_def server_Reclaim_def server_inv_defs Let_def auth_frames frame_simps)
qed (use assms in \<open>auto simp: server_pre_def server_TxSTA_def server_TxRAR_def take_pending_def and_then_def auth_frames
       frame_simps server_GrantAccess_def server_inv_defs Let_def
       intro!: server_inv_release server_inv_idle split: option.splits\<close>)

text \<open>What the table says of an entry, by its action.\<close>

definition server_entry_ok :: "(auth_st, auth_ev, server_ac) fsm_entry \<Rightarrow> bool" where
  "server_entry_ok e \<longleftrightarrow>
     (let a = entryAction e in
      if a = SA_GrantAccess then nextState e = SST_OPEN \<and> (prevState e = SST_OPEN \<or> entryEvent e = Some SEV_SSAR_OK)
      else if a = SA_TxASR then nextState e = SST_DISC \<and> prevState e \<in> {SST_OPEN, SST_DISC}
      else if a \<in> {SA_TxSTACleanup, SA_TxSTACleanupIdle, SA_AuthTimeout, SA_SessionTimeout, SA_SessionReclaim, SA_Cleanup}
      then nextState e = SST_IDLE
      else nextState e = prevState e \<and>
        (a \<in> {SA_RxSSARDiscard, SA_TxSSAADiscard, SA_TxSSA}
           \<longrightarrow> entryEvent e \<in> Some ` {SEV_TX_SSAR, SEV_TX_SSAA, SEV_RX_SSAR}) \<and>
        (a = SA_TxSSA \<longrightarrow> prevState e \<noteq> SST_DISC) \<and> (a = SA_RxASA \<longrightarrow> prevState e = SST_DISC))"

lemma server_entries_ok: "\<forall>e\<in>set server_table. server_entry_ok e"
  by (simp add: server_table_def server_idle_entries_def server_open_entries_def server_disc_entries_def
      server_entry_ok_def)

lemma server_entries_pre:
  assumes "server_inv m" "server_enabled ev m" "fsm_running m" "e \<in> set server_table" "prevState e = fsm_state m"
    "entryEvent e = Some ev \<or> entryEvent e = None"
  shows "server_pre (entryAction e) (m\<lparr>fsm_state := nextState e\<rparr>)"
proof -
  have ok: "server_entry_ok e" using assms(4) server_entries_ok by blast
  have *: "m\<lparr>fsm_state := nextState e\<rparr> = m" if "nextState e = prevState e" using that assms(5) by simp
  have inv: "\<not> as_fault m" "fsm_state m \<in> {SST_OPEN, SST_DISC} \<Longrightarrow> negotiated m \<and> maintained m"
    using assms(1) by (simp_all add: server_inv_def)
  have en: "ev = SEV_SSAR_OK \<Longrightarrow> negotiated m \<and> maintained m"
    "ev \<in> {SEV_TX_SSAR, SEV_TX_SSAA, SEV_RX_SSAR} \<Longrightarrow> as_PendingMsg m \<noteq> None"
    using assms(2) by (auto simp: server_enabled_def)
  have upd: "negotiated (m\<lparr>fsm_state := x\<rparr>) = negotiated m" "maintained (m\<lparr>fsm_state := x\<rparr>) = maintained m" for x
    by (simp_all add: negotiated_def maintained_def)
  consider (grant) "entryAction e = SA_GrantAccess" | (asr) "entryAction e = SA_TxASR"
    | (idle) "entryAction e \<in> {SA_TxSTACleanup, SA_TxSTACleanupIdle, SA_AuthTimeout, SA_SessionTimeout, SA_SessionReclaim, SA_Cleanup}"
    | (rest) "entryAction e \<in> {SA_None, SA_RxSSARDiscard, SA_TxSSAADiscard, SA_RxSSA, SA_TxSSA, SA_TxRAR, SA_RxRAA, SA_RxASA}"
    by (cases "entryAction e") simp_all
  then show ?thesis
  proof cases
    case rest
    then have n: "nextState e = prevState e" using ok by (auto simp: server_entry_ok_def)
    from rest ok en(2) assms(1,3,5,6) inv(1) show ?thesis
      unfolding * [OF n] by (auto simp: server_entry_ok_def server_pre_def)
  qed (use ok inv en(1) assms(3,5,6) in \<open>auto simp: server_entry_ok_def server_pre_def upd\<close>)
qed

interpretation server_inv: machine_invariant server_table "server_act env" server_enabled server_inv for env
  by unfold_locales (intro server_act_keeps server_entries_pre)

lemma server_Notify_keeps: "server_inv s \<Longrightarrow> server_enabled ev s \<Longrightarrow> server_inv (server_Notify env ev s)"
  unfolding server_Notify_def by (rule server_inv.event_keeps)

text \<open>As long as a machine runs, nobody but the negotiation writes its Auth-Session-State.\<close>

definition keeps_state :: "auth_session \<Rightarrow> auth_session \<Rightarrow> bool" where
  "keeps_state s t \<longleftrightarrow> (fsm_running t \<longrightarrow> fsm_running s \<and> as_AuthState t = as_AuthState s)"

lemma keeps_state_refl [intro, simp]: "keeps_state s s" by (simp add: keeps_state_def)

lemma keeps_state_trans: "keeps_state s t \<Longrightarrow> keeps_state t u \<Longrightarrow> keeps_state s u"
  by (auto simp: keeps_state_def)

lemma keeps_state_core: "same_core s t \<Longrightarrow> keeps_state s t"
  by (simp add: keeps_state_def same_core_def)

lemma server_act_keeps_state: "keeps_state m (server_act env a m)"
  by (cases a)
    (auto simp: keeps_state_def server_TxSTA_def server_TxRAR_def server_TxASR_def take_pending_def and_then_def
      server_GrantAccess_def server_Reclaim_def server_extend_def Let_def auth_frames frame_simps
      split: option.splits bool.split prod.split dest!: arg_cong [of _ "(_, _)" snd])

lemma fsm_Event_keeps_state:
  assumes "\<And>a m. keeps_state m (act a m)"
  shows "keeps_state s (fsm_Event tbl act s ev)"
proof -
  have "keeps_state s (act (entryAction e) (s\<lparr>fsm_state := nextState e\<rparr>))" for e
    using assms [of "s\<lparr>fsm_state := nextState e\<rparr>"] by (simp add: keeps_state_def)
  then show ?thesis unfolding fsm_Event_def by (auto split: option.split)
qed

lemma server_Notify_keeps_state: "keeps_state s (server_Notify env ev s)"
  by (simp add: server_Notify_def fsm_Event_keeps_state server_act_keeps_state)

definition server_call :: "senv \<Rightarrow> app_call \<Rightarrow> auth_session \<Rightarrow> auth_session" where
  "server_call env c s =
     (case c of AppSend m \<Rightarrow> snd (server_Send env m s) | AppEnd \<Rightarrow> snd (server_End env s)
      | AppReAuth t \<Rightarrow> snd (server_ReAuth env t s))"

lemma server_app_fold: "server_app env cs s = foldl (\<lambda>s c. server_call env c s) s cs"
  by (induction cs arbitrary: s) (auto simp: server_call_def split: app_call.split)

lemma server_call_keeps_state: "keeps_state s (server_call env c s)"
proof -
  have "keeps_state s (server_Notify env ev (s\<lparr>as_PendingMsg := x\<rparr>))"
    "keeps_state s (server_Notify env ev (s\<lparr>as_ReAuth := y\<rparr>))" for ev x y
    using server_Notify_keeps_state [of "s\<lparr>as_PendingMsg := x\<rparr>" env ev]
      server_Notify_keeps_state [of "s\<lparr>as_ReAuth := y\<rparr>" env ev]
    by (simp_all add: keeps_state_def)
  then show ?thesis
    by (simp add: server_call_def server_Send_def server_End_def server_ReAuth_def server_Notify_keeps_state
        split: app_call.split)
qed

lemma server_app_keeps_state: "keeps_state s (server_app env cs s)"
  unfolding server_app_fold
  by (induction cs arbitrary: s) (auto intro: keeps_state_trans server_call_keeps_state)

lemma server_enabled_plain:
  "ev \<notin> {SEV_SSAR_OK, SEV_RX_SSAR, SEV_TX_SSAR, SEV_TX_SSAA, SEV_RX_SSAA} \<Longrightarrow> server_enabled ev s"
  by (simp add: server_enabled_def)

lemma server_Send_keeps: "server_inv s \<Longrightarrow> server_inv (snd (server_Send env m s))"
  by (auto simp: server_Send_def server_enabled_def intro!: server_Notify_keeps)

lemma server_ReAuth_keeps: "server_inv s \<Longrightarrow> server_inv (snd (server_ReAuth env t s))"
  by (auto simp: server_ReAuth_def intro!: server_Notify_keeps server_enabled_plain)

lemma server_End_keeps: "server_inv s \<Longrightarrow> server_inv (snd (server_End env s))"
  by (auto simp: server_End_def intro!: server_Notify_keeps server_enabled_plain)

lemma server_app_keeps: "server_inv s \<Longrightarrow> server_inv (server_app env cs s)"
  unfolding server_app_fold
  by (induction cs arbitrary: s)
    (simp_all add: server_call_def server_Send_keeps server_End_keeps server_ReAuth_keeps split: app_call.split)

lemma server_Notify_stopped: "\<not> fsm_running s \<Longrightarrow> server_Notify env ev s = s"
  by (simp add: server_Notify_def fsm_Event_def)

lemma server_RxDelivery_keeps:
  assumes "server_inv s" "negotiated s"
  shows "server_inv (server_RxDelivery env m s)"
proof -
  let ?s1 = "snd (sess_MsgIdRx m s)"
  have 1: "server_inv ?s1" "negotiated ?s1"
    using assms MsgIdRx_same(1) server_inv_same_core by (auto simp: negotiated_def auth_frames)
  have "server_inv (let (calls, rc) = x; s2 = server_app env calls ?s1
      in if maintained s2 then server_Notify env (server_rx_event r rc) s2 else s2)" for x r
  proof -
    obtain calls rc where x: "x = (calls, rc)" by fastforce
    let ?s2 = "server_app env calls ?s1"
    have i: "server_inv ?s2" by (rule server_app_keeps) (rule 1)
    have "fsm_running ?s2 \<longrightarrow> negotiated ?s2"
      using 1(2) server_app_keeps_state [of ?s1 env calls] by (simp add: keeps_state_def negotiated_def)
    with i have "server_inv (server_Notify env (server_rx_event r rc) ?s2)" if "maintained ?s2"
      using that by (cases "fsm_running ?s2")
        (auto simp: server_Notify_stopped server_rx_event_def server_enabled_def intro!: server_Notify_keeps)
    with i x show ?thesis by (simp add: Let_def)
  qed
  then show ?thesis by (simp add: server_RxDelivery_def Let_def split: prod.split)
qed

lemma server_act_rx_keeps:
  assumes "server_pre a m" "a = SA_RxSSA \<longrightarrow> as_PendingMsg m \<noteq> None \<and> negotiated m"
  shows "server_inv (server_act_rx env a m)"
proof (cases "a = SA_RxSSA")
  case True
  with assms obtain x where "as_PendingMsg m = Some x" "negotiated m" "server_inv m"
    by (auto simp: server_pre_def)
  with True show ?thesis
    using server_RxDelivery_keeps [of "m\<lparr>as_PendingMsg := None\<rparr>" env x]
    by (simp add: server_act_rx_def take_pending_def negotiated_def)
next
  case False
  with assms show ?thesis by (simp add: server_act_rx_def server_act_keeps)
qed

definition server_rx_enabled :: "auth_ev \<Rightarrow> auth_session \<Rightarrow> bool" where
  "server_rx_enabled ev s \<longleftrightarrow>
     as_PendingMsg s \<noteq> None \<and> (ev = SEV_RX_SSAR \<and> negotiated s \<or> ev = SEV_RX_SSAA)"

lemma server_RxSSA_entries:
  "\<forall>e\<in>set server_table. entryAction e = SA_RxSSA \<longrightarrow>
     nextState e = prevState e \<and>
     (entryEvent e = Some SEV_RX_SSAR \<or> entryEvent e = Some SEV_RX_SSAA \<and> prevState e = SST_OPEN)"
  by (simp add: server_table_def server_idle_entries_def server_open_entries_def server_disc_entries_def)

interpretation server_rx_inv: machine_invariant server_table "server_act_rx env" server_rx_enabled server_inv for env
proof
  fix m :: auth_session and ev e
  assume a: "server_inv m" "server_rx_enabled ev m" "fsm_running m" "e \<in> set server_table" "prevState e = fsm_state m"
    "entryEvent e = Some ev \<or> entryEvent e = None"
  then have p: "server_pre (entryAction e) (m\<lparr>fsm_state := nextState e\<rparr>)"
    by (intro server_entries_pre [of m ev e]) (auto simp: server_rx_enabled_def server_enabled_def)
  have "entryAction e = SA_RxSSA \<Longrightarrow> negotiated m"
    using a server_RxSSA_entries by (auto simp: server_rx_enabled_def server_inv_def)
  with p a(2) show "server_inv (server_act_rx env (entryAction e) (m\<lparr>fsm_state := nextState e\<rparr>))"
    by (intro server_act_rx_keeps) (auto simp: server_rx_enabled_def negotiated_def)
qed

text \<open>Negotiating.\<close>

lemma server_negotiate_keeps:
  assumes "server_inv s"
  shows "server_inv (server_negotiate env a s)" "negotiated (server_negotiate env a s)"
proof -
  have o: "same_core s (server_origin a s)"
    by (auto simp: server_origin_def same_core_def Let_def split: option.split)
  let ?s1 = "server_origin a s" and ?s2 = "server_negotiate_state env a (server_origin a s)"
  have i1: "server_inv ?s1" by (rule server_inv_same_core [OF o assms])
  have 2: "negotiated ?s2"
    by (auto simp: server_negotiate_state_def negotiated_def neg_Set_def Let_def split: option.split)
  have i2: "server_inv ?s2"
  proof (cases "negotiated ?s1")
    case True
    with i1 show ?thesis by (simp add: server_negotiate_state_def negotiated_def)
  next
    case False
    with i1 have "fsm_state ?s1 = SST_IDLE"
      by (cases "fsm_state ?s1") (auto simp: server_inv_def)
    moreover have "fsm_state ?s2 = fsm_state ?s1" "fsm_running ?s2 = fsm_running ?s1" "fsm_timers ?s2 = fsm_timers ?s1"
      "as_fault ?s2 = as_fault ?s1"
      by (auto simp: server_negotiate_state_def Let_def split: option.split)
    ultimately show ?thesis using i1 by (simp add: server_inv_def timers_in_def)
  qed
  have r: "same_core ?s2 (server_negotiate env a s)"
    by (auto simp: server_negotiate_def server_negotiate_grace_def server_negotiate_lifetime_def
        server_negotiate_timeout_def cap_lifetime_def same_core_def Let_def split: option.split)
  show "server_inv (server_negotiate env a s)" by (rule server_inv_same_core [OF r i2])
  show "negotiated (server_negotiate env a s)" using r 2 by (simp add: negotiated_def same_core_def)
qed

lemma server_NotifyMsg_keeps:
  "server_inv s \<Longrightarrow> ev = SEV_RX_SSAR \<and> negotiated s \<or> ev = SEV_RX_SSAA \<Longrightarrow> server_inv (server_NotifyMsg env ev m s)"
  unfolding server_NotifyMsg_def
  by (rule server_rx_inv.event_keeps) (auto simp: server_rx_enabled_def negotiated_def)

lemma server_inv_emit [simp]: "server_inv (s_emit x s) = server_inv s"
  by (simp add: server_inv_defs auth_frames)

lemma server_inv_sid [simp]: "server_inv (s\<lparr>as_SessionId := x\<rparr>) = server_inv s"
  by (simp add: server_inv_defs)

lemma server_RxSTR_keeps: "server_inv s \<Longrightarrow> server_inv (server_RxSTR m s)"
  using server_inv_same_core [OF MsgIdRx_same(1)]
  by (simp add: server_RxSTR_def Let_def split: option.split)

lemma server_RxBase_keeps: "server_inv s \<Longrightarrow> server_inv (server_RxBase m s)"
  using server_inv_same_core [OF MsgIdRx_same(1)] by (simp add: server_RxBase_def)

lemma server_RxRequest_keeps:
  assumes "server_inv s"
  shows "server_inv (server_RxRequest env m s)"
  using assms
  by (auto simp: server_RxRequest_def Let_def server_negotiate_keeps server_enabled_plain
      intro!: server_Notify_keeps server_RxSTR_keeps server_NotifyMsg_keeps split: prod.splits bool.splits)

lemma server_RxAnswer_keeps:
  assumes "server_inv s"
  shows "server_inv (server_RxAnswer env m s)"
  using assms
  by (auto simp: server_RxAnswer_def Let_def server_enabled_plain
      intro!: server_Notify_keeps server_RxBase_keeps server_NotifyMsg_keeps split: option.split)

lemma server_Timer_keeps:
  assumes "server_inv s" "fsm_timers s ty = Some (ev, sec)"
  shows "server_inv (server_Notify env ev s)"
proof -
  have "(ty, ev) \<in> server_timers (fsm_state s)" using assms by (auto simp: server_inv_def timers_in_def)
  then have "ev \<notin> {SEV_SSAR_OK, SEV_RX_SSAR, SEV_TX_SSAR, SEV_TX_SSAA, SEV_RX_SSAA}"
    by (cases "fsm_state s") auto
  with assms(1) show ?thesis by (intro server_Notify_keeps server_enabled_plain)
qed

lemma server_step_keeps: "server_step c s t \<Longrightarrow> server_inv s \<Longrightarrow> server_inv t"
  by (induction rule: server_step.induct)
    (simp_all add: server_Send_keeps server_ReAuth_keeps server_End_keeps server_RxRequest_keeps
      server_RxAnswer_keeps server_RxError_def server_Timer_keeps)

lemma server_new_inv: "server_inv (new_server_session env appId junk)"
  by (simp add: new_server_session_def new_auth_session_def fsm_Start_def server_inv_def timers_in_def)

lemma server_reach_inv: "server_reach c s \<Longrightarrow> server_inv s"
  by (induction rule: server_reach.induct) (auto intro: server_new_inv server_step_keeps)

subsection \<open>The client\<close>

abbreviation client_timer_set :: "(int \<times> auth_ev) set" where
  "client_timer_set \<equiv> {(TIMER_TYPE_SESSION, SEV_SESSION_TOUT_ST), (TIMER_TYPE_SESSION, SEV_SESSION_TOUT_NOST),
     (TIMER_TYPE_AUTH, SEV_LIFETIME_TOUT)}"

definition client_inv :: "bool \<Rightarrow> auth_session \<Rightarrow> bool" where
  "client_inv p s \<longleftrightarrow>
     \<not> as_fault s \<and> timers_in client_timer_set s \<and>
     (p \<longrightarrow> (fsm_state s \<in> {SST_IDLE, SST_PENDING} \<longrightarrow> fsm_timers s = Map.empty) \<and>
           (\<not> fsm_running s \<longrightarrow> fsm_state s = SST_IDLE))"

definition client_enabled :: "auth_ev \<Rightarrow> auth_session \<Rightarrow> bool" where
  "client_enabled ev s \<longleftrightarrow> (ev \<in> {SEV_TX_SSAR, SEV_RX_SSAR, SEV_RX_SSAA} \<longrightarrow> as_PendingMsg s \<noteq> None)"

abbreviation client_resets :: "client_ac set" where
  "client_resets \<equiv> {CA_SessionTimeout, CA_Disconnect, CA_Cleanup}"

abbreviation client_takes :: "client_ac set" where
  "client_takes \<equiv> {CA_TxSSAR, CA_RxSSA, CA_TxSSARDiscard, CA_RxSSAADiscard}"

definition client_entry_ok :: "(auth_st, auth_ev, client_ac) fsm_entry \<Rightarrow> bool" where
  "client_entry_ok e \<longleftrightarrow>
     (if entryAction e = CA_GrantAccess then nextState e = SST_OPEN
      else if entryAction e \<in> client_resets then nextState e = SST_IDLE
      else (nextState e = prevState e \<or> nextState e \<in> {SST_OPEN, SST_DISC} \<or> prevState e = SST_IDLE) \<and>
        (entryAction e \<in> client_takes \<longrightarrow> entryEvent e \<in> Some ` {SEV_TX_SSAR, SEV_RX_SSAR, SEV_RX_SSAA}))"

lemma client_entries_ok: "\<forall>e\<in>set client_table. client_entry_ok e"
  by (simp add: client_table_def client_idle_entries_def client_pending_entries_def client_open_entries_def
      client_disc_entries_def client_entry_ok_def)

definition client_pre :: "bool \<Rightarrow> client_ac \<Rightarrow> auth_session \<Rightarrow> bool" where
  "client_pre p a m \<longleftrightarrow>
     \<not> as_fault m \<and> fsm_running m \<and> timers_in client_timer_set m \<and>
     (if a = CA_GrantAccess then fsm_state m = SST_OPEN
      else if a \<in> client_resets then fsm_state m = SST_IDLE
      else client_inv p m \<and> (a \<in> client_takes \<longrightarrow> as_PendingMsg m \<noteq> None))"

lemma client_entries_pre:
  assumes "client_inv p m" "client_enabled ev m" "fsm_running m" "e \<in> set client_table" "prevState e = fsm_state m"
    "entryEvent e = Some ev \<or> entryEvent e = None"
  shows "client_pre p (entryAction e) (m\<lparr>fsm_state := nextState e\<rparr>)"
proof -
  have ok: "client_entry_ok e" using assms(4) client_entries_ok by blast
  have "client_inv p (m\<lparr>fsm_state := nextState e\<rparr>)"
    if "nextState e = prevState e \<or> nextState e \<in> {SST_OPEN, SST_DISC} \<or> prevState e = SST_IDLE"
    using that assms(1,3,5) by (auto simp: client_inv_def timers_in_def)
  moreover have "as_PendingMsg m \<noteq> None" if "entryEvent e \<in> Some ` {SEV_TX_SSAR, SEV_RX_SSAR, SEV_RX_SSAA}"
    using that assms(2,6) by (auto simp: client_enabled_def)
  ultimately show ?thesis using ok assms(1,3)
    by (auto simp: client_entry_ok_def client_pre_def client_inv_def timers_in_def split: if_splits)
qed

lemma client_inv_same_core: "same_core s t \<Longrightarrow> client_inv p s \<Longrightarrow> client_inv p t"
  by (simp add: same_core_def client_inv_def timers_in_def)

lemma client_inv_updates [simp]:
  "client_inv p (s\<lparr>as_PendingMsg := x\<rparr>) = client_inv p s" "client_inv p (s\<lparr>as_ReAuth := y\<rparr>) = client_inv p s"
  "client_inv p (s\<lparr>as_SessionId := z\<rparr>) = client_inv p s" "client_inv p (s_emit v s) = client_inv p s"
  "client_inv p (s\<lparr>as_AuthState := n\<rparr>) = client_inv p s"
  by (simp_all add: client_inv_def timers_in_def s_emit_def)

lemma client_inv_no_timers:
  "\<not> as_fault s \<Longrightarrow> fsm_timers s = Map.empty \<Longrightarrow> fsm_state s = SST_IDLE \<or> fsm_running s \<Longrightarrow> client_inv p s"
  by (auto simp: client_inv_def timers_in_def)

lemma client_inv_tx:
  "client_inv p s \<Longrightarrow> client_inv p (snd (sess_TxDelivery env m s))"
  by (rule client_inv_same_core [OF TxDelivery_same(1)])

lemma client_inv_cancel: "client_inv p s \<Longrightarrow> client_inv p (CancelAllTimer s)"
  by (auto simp: client_inv_def timers_in_def auth_frames frame_simps)

lemma client_inv_Reset:
  "\<not> as_fault s \<Longrightarrow> fsm_timers s = Map.empty \<Longrightarrow> fsm_state s = SST_IDLE \<Longrightarrow> client_inv p (client_Reset s)"
  by (simp add: client_inv_no_timers auth_frames)

lemma client_act_keeps:
  assumes "client_pre p a m"
  shows "client_inv p (client_act env a m)"
proof (cases a)
  case CA_GrantAccess
  with assms show ?thesis
    by (auto simp: client_pre_def client_GrantAccess_def client_inv_def timers_in_def Let_def auth_frames frame_simps)
qed (use assms in \<open>auto simp: client_pre_def take_pending_def and_then_def client_TxSTR_def client_TxASA_def client_TxRAA_def
       client_ac_RxRAR_def client_inv_tx client_inv_cancel auth_frames frame_simps
       intro!: client_inv_Reset split: option.splits\<close>)

interpretation client_inv: machine_invariant client_table "client_act env" client_enabled "client_inv p" for env p
  by unfold_locales (intro client_act_keeps client_entries_pre)

lemma client_Notify_keeps: "client_inv p s \<Longrightarrow> client_enabled ev s \<Longrightarrow> client_inv p (client_Notify env ev s)"
  unfolding client_Notify_def by (rule client_inv.event_keeps)

lemma client_enabled_plain: "ev \<notin> {SEV_TX_SSAR, SEV_RX_SSAR, SEV_RX_SSAA} \<Longrightarrow> client_enabled ev s"
  by (simp add: client_enabled_def)

lemma hint_same:
  assumes "core_lens upd"
  shows "same_core s (snd (hint name get upd m s))"
  using assms by (auto simp: hint_def core_lens_def split: option.split)

lemma hint_after_same:
  assumes "core_lens upd" "same_core s (snd x)"
  shows "same_core s (snd (case x of (m, t) \<Rightarrow> if b t then hint name get upd m t else (m, t)))"
proof -
  obtain m t where x: "x = (m, t)" by fastforce
  have "same_core s (snd (hint name get upd m t))"
    by (rule same_trans(1) [OF _ hint_same]) (use assms x in simp_all)
  with assms(2) x show ?thesis by simp
qed

lemma client_hints_same:
  fixes m :: msg
  shows "same_core s (snd (client_hints m s))"
  unfolding client_hints_def Let_def
  by (intro hint_after_same core_lenses) (simp add: hint_same core_lenses)

lemma client_Send_keeps:
  assumes "client_inv p s"
  shows "client_inv p (snd (client_Send env m s))"
proof (cases "fsm_running s")
  case True
  with assms client_inv_same_core [OF client_hints_same [where s = s and m = m]] show ?thesis
    by (auto simp: client_Send_def client_enabled_def intro!: client_Notify_keeps split: prod.splits)
qed (use assms in \<open>simp add: client_Send_def\<close>)

lemma client_End_keeps: "client_inv p s \<Longrightarrow> client_inv p (client_End env s)"
  by (simp add: client_End_def client_Notify_keeps client_enabled_plain)

lemma client_app_keeps: "client_inv p s \<Longrightarrow> client_inv p (client_app env cs s)"
  by (induction env cs s rule: client_app.induct) (simp_all add: client_Send_keeps client_End_keeps)

lemma client_RxBase_keeps: "client_inv p s \<Longrightarrow> client_inv p (client_RxBase m s)"
  using client_inv_same_core [OF MsgIdRx_same(1)] by (simp add: client_RxBase_def)

lemma notify_opt_keeps:
  "client_inv p s \<Longrightarrow> ev \<in> {None, Some SEV_SSAA_OK, Some SEV_SSAR_OK, Some SEV_SSAA_NOSVC, Some SEV_SSAA_ERROR,
     Some SEV_SSAA_FAIL, Some SEV_SSAR_FAIL} \<Longrightarrow> client_inv p (notify_opt env ev s)"
  by (auto simp: notify_opt_def intro!: client_Notify_keeps client_enabled_plain)

lemma rx_handler_events:
  "rx_handler rc = Some (ans, req, st, onr) \<Longrightarrow>
     {ans, req} \<subseteq> {None, Some SEV_SSAA_OK, Some SEV_SSAR_OK, Some SEV_SSAA_NOSVC, Some SEV_SSAA_ERROR,
       Some SEV_SSAA_FAIL, Some SEV_SSAR_FAIL}"
  by (cases rc) auto

lemma client_RxDelivery_keeps:
  assumes "client_inv p s"
  shows "client_inv p (snd (client_RxDelivery env m s))"
proof -
  let ?s1 = "snd (sess_MsgIdRx m s)"
  obtain calls rc where x: "(if h_r (m_hdr m) then se_RequestMsg env m else se_AnswerMsg env m) = (calls, rc)"
    by fastforce
  have 1: "client_inv p (client_app env calls ?s1)"
    by (intro client_app_keeps client_inv_same_core [OF MsgIdRx_same(1) assms])
  show ?thesis
  proof (cases "rx_handler rc")
    case None
    with 1 show ?thesis by (simp add: client_RxDelivery_def Let_def x)
  next
    case (Some h)
    obtain ans req st onr where h: "h = (ans, req, st, onr)" by (cases h)
    have "client_inv p (notify_opt env ans (client_app env calls ?s1))"
      "client_inv p (notify_opt env req (client_app env calls ?s1))"
      by (rule notify_opt_keeps [OF 1]; use rx_handler_events [of rc ans req st onr] Some h in simp)+
    with 1 Some h show ?thesis by (simp add: client_RxDelivery_def Let_def x)
  qed
qed

lemma client_act_rx_keeps: "client_pre p a m \<Longrightarrow> client_inv p (client_act_rx env a m)"
  using client_act_keeps [of p a m env]
  by (auto simp: client_act_rx_def take_pending_def client_pre_def intro!: client_RxDelivery_keeps)

interpretation client_rx_inv: machine_invariant client_table "client_act_rx env" client_enabled "client_inv p" for env p
  by unfold_locales (intro client_act_rx_keeps client_entries_pre)

lemma client_NotifyMsg_keeps: "client_inv p s \<Longrightarrow> client_inv p (client_NotifyMsg env ev m s)"
  unfolding client_NotifyMsg_def by (rule client_rx_inv.event_keeps) (simp_all add: client_enabled_def)

lemma client_RxRequest_keeps: "client_inv p s \<Longrightarrow> client_inv p (client_RxRequest env m s)"
  by (auto simp: client_RxRequest_def Let_def client_RxBase_keeps client_enabled_plain
      intro!: client_Notify_keeps client_NotifyMsg_keeps split: option.split)

lemma client_negotiate_keeps: "client_inv p s \<Longrightarrow> client_inv p (client_negotiate a s)"
  by (simp add: client_negotiate_def client_inv_def timers_in_def)

lemma client_RxAnswer_keeps: "client_inv p s \<Longrightarrow> client_inv p (client_RxAnswer env m s)"
  by (auto simp: client_RxAnswer_def client_RxBase_keeps client_enabled_plain client_negotiate_keeps
      intro!: client_Notify_keeps client_NotifyMsg_keeps)

lemma client_Timer_keeps:
  assumes "client_inv p s" "fsm_timers s ty = Some (ev, sec)"
  shows "client_inv p (client_Notify env ev s)"
proof -
  have "(ty, ev) \<in> client_timer_set" using assms by (auto simp: client_inv_def timers_in_def)
  with assms(1) show ?thesis by (intro client_Notify_keeps client_enabled_plain) auto
qed

text \<open>\<open>ReStart\<close> runs on a machine that has just started: nothing it calls moves it.\<close>

definition idling :: "auth_session \<Rightarrow> bool" where
  "idling s \<longleftrightarrow> fsm_state s = SST_IDLE \<and> fsm_running s"

lemma idling_Notify:
  "idling s \<Longrightarrow> ev \<in> {SEV_TX_SSAR, SEV_ABORT, SEV_STOP} \<Longrightarrow> idling (client_Notify env ev s)"
  by (auto simp: idling_def client_Notify_def fsm_Event_def client_table_def client_idle_entries_def
      client_pending_entries_def client_open_entries_def client_disc_entries_def FindStateTableEntry_def
      take_pending_def auth_frames split: option.split)

lemma idling_same_core: "same_core s t \<Longrightarrow> idling s \<Longrightarrow> idling t"
  by (simp add: same_core_def idling_def)

lemma idling_Send:
  assumes "idling s"
  shows "idling (snd (client_Send env m s))"
proof -
  obtain m' t where h: "client_hints m s = (m', t)" by fastforce
  have "idling (t\<lparr>as_PendingMsg := Some m'\<rparr>)"
    using idling_same_core [OF client_hints_same assms, of m] h by (simp add: idling_def)
  from idling_Notify [OF this, of SEV_TX_SSAR env] assms h show ?thesis by (simp add: client_Send_def idling_def)
qed

lemma idling_End: "idling s \<Longrightarrow> idling (client_End env s)"
  by (simp add: client_End_def idling_Notify)

lemma idling_app: "idling s \<Longrightarrow> idling (client_app env cs s)"
  by (induction env cs s rule: client_app.induct) (simp_all add: idling_Send idling_End)

lemma client_lifetimes_same: "same_core s (client_lifetimes env s)"
  by (simp add: client_lifetimes_def cap_lifetime_def same_core_def Let_def)

lemma client_start_keeps:
  assumes "client_inv p s" "\<not> fsm_running s"
  shows "client_inv p (client_start env opt s)" "idling (client_start env opt s)"
  using assms by (auto simp: client_start_def fsm_Start_def client_inv_def timers_in_def idling_def s_emit_def Let_def)

lemma client_Begin_keeps:
  assumes "client_inv p s" "\<not> p \<or> \<not> fsm_running s \<or> snd (se_ReStart env)"
  shows "client_inv p (client_Begin env opt s)"
proof -
  let ?s1 = "client_lifetimes env s"
  define s2 where "s2 = (if fsm_running ?s1 then ?s1 else client_start env opt ?s1)"
  obtain calls ok where r: "se_ReStart env = (calls, ok)" by fastforce
  have 1: "client_inv p ?s1" by (rule client_inv_same_core [OF client_lifetimes_same assms(1)])
  have run: "fsm_running ?s1 = fsm_running s" using client_lifetimes_same by (simp add: same_core_def)
  have 2: "client_inv p s2" using 1 client_start_keeps(1) by (simp add: s2_def)
  let ?s3 = "client_app env calls s2"
  have 3: "client_inv p ?s3" by (rule client_app_keeps [OF 2])
  have b: "client_Begin env opt s = (if ok then client_Notify env SEV_REQUEST_ACCESS ?s3 else fsm_Stop ?s3)"
    unfolding client_Begin_def Let_def s2_def [symmetric] r by simp
  show ?thesis
  proof (cases "ok \<or> \<not> p")
    case True
    have "client_inv p (client_Notify env SEV_REQUEST_ACCESS ?s3)"
      by (rule client_Notify_keeps [OF 3]) (simp add: client_enabled_plain)
    moreover have "\<not> p \<Longrightarrow> client_inv p (fsm_Stop ?s3)"
      using 3 by (simp add: client_inv_def timers_in_def fsm_Stop_def)
    ultimately show ?thesis using b True by (cases ok) simp_all
  next
    case False
    with assms(2) r run have "idling s2" using client_start_keeps(2) [OF 1] by (simp add: s2_def)
    then have "idling ?s3" by (rule idling_app)
    with b 3 False show ?thesis by (simp add: client_inv_def timers_in_def fsm_Stop_def idling_def)
  qed
qed

lemma client_step_keeps: "client_step p c s t \<Longrightarrow> client_inv p s \<Longrightarrow> client_inv p t"
  by (induction rule: client_step.induct)
    (simp_all add: client_Begin_keeps client_Send_keeps client_End_keeps client_RxRequest_keeps client_RxAnswer_keeps
      client_RxError_def client_Timer_keeps)

lemma client_reach_inv: "client_reach p c s \<Longrightarrow> client_inv p s"
proof (induction rule: client_reach.induct)
  case (init env appId junk)
  show ?case by (simp add: new_auth_session_def client_inv_def timers_in_def)
qed (rule client_step_keeps)

end
