(* ===== verification/Session_Tx.thy ===== *)
theory Session_Tx
  imports Session_Base
begin

text \<open>
  What \<open>DiameterSession::TxDelivery\<close> does for every kind of session: the message it routes is the one it is given
  but for identifiers and AVPs for addressing, and the session keeps everything but its attributes for addressing.
\<close>

subsection \<open>What is sent\<close>

fun routed :: "session_out list \<Rightarrow> msg list" where
  "routed [] = []"
| "routed (Routed m # xs) = m # routed xs"
| "routed (_ # xs) = routed xs"

text \<open>The messages that left between two states of a session.\<close>

definition sent :: "('s, 'e, 'x) session_scheme \<Rightarrow> ('s, 'e, 'x) session_scheme \<Rightarrow> msg list" where
  "sent s t = routed (drop (length (as_out s)) (as_out t))"

lemma routed_append [simp]: "routed (xs @ ys) = routed xs @ routed ys"
  by (induction xs rule: routed.induct) simp_all

lemma sent_append: "as_out t = as_out s @ xs \<Longrightarrow> sent s t = routed xs"
  by (simp add: sent_def)

abbreviation addr_names :: "string set" where
  "addr_names \<equiv> {AVPNAME_DESTHOST, AVPNAME_DESTREALM, AVPNAME_USERNAME, AVPNAME_ORIGINHOST, AVPNAME_ORIGINREALM,
     AVPNAME_SESSIONID}"

text \<open>Two messages that differ in identifiers and in AVPs of certain names only.\<close>

definition differ_in :: "string set \<Rightarrow> msg \<Rightarrow> msg \<Rightarrow> bool" where
  "differ_in A m m' \<longleftrightarrow>
     h_code (m_hdr m') = h_code (m_hdr m) \<and> h_r (m_hdr m') = h_r (m_hdr m) \<and>
     (\<forall>n i. n \<notin> A \<longrightarrow> GetAvp (m_acl m') n i = GetAvp (m_acl m) n i)"

abbreviation same_payload :: "msg \<Rightarrow> msg \<Rightarrow> bool" where
  "same_payload \<equiv> differ_in addr_names"

lemma differ_in_refl [simp]: "differ_in A m m" by (simp add: differ_in_def)

lemma same_payload_trans: "differ_in A a b \<Longrightarrow> differ_in A b c \<Longrightarrow> differ_in A a c"
  by (simp add: differ_in_def)

lemma differ_in_mono: "differ_in A a b \<Longrightarrow> A \<subseteq> B \<Longrightarrow> differ_in B a b"
  by (auto simp: differ_in_def)

lemma same_payloadD:
  assumes "differ_in A m m'"
  shows "h_code (m_hdr m') = h_code (m_hdr m)" "h_r (m_hdr m') = h_r (m_hdr m)"
    "n \<notin> A \<Longrightarrow> GetU32 (m_acl m') n = GetU32 (m_acl m) n"
    "n \<notin> A \<Longrightarrow> GetEnum (m_acl m') n = GetEnum (m_acl m) n"
    "n \<notin> A \<Longrightarrow> GetStr (m_acl m') n = GetStr (m_acl m) n"
  using assms by (simp_all add: differ_in_def GetU32_def GetEnum_def GetStr_def)

lemma differ_inD: "differ_in A m m' \<Longrightarrow> n \<notin> A \<Longrightarrow> GetAvp (m_acl m') n i = GetAvp (m_acl m) n i"
  by (simp add: differ_in_def)

lemma AddAvp_differ: "n \<in> A \<Longrightarrow> differ_in A m (m\<lparr>m_acl := AddAvp n False v (m_acl m)\<rparr>)"
  unfolding differ_in_def by (simp, metis GetAvp_AddAvp_other)

lemma put_str_payload: "n \<in> addr_names \<Longrightarrow> same_payload m (put_str n v m)"
  unfolding put_str_def by (rule AddAvp_differ)

lemma tx_host_payload:
  assumes "tx_host env m s = (m', t)"
  shows "same_payload m m'" "GetStr (m_acl m') AVPNAME_DESTREALM = GetStr (m_acl m) AVPNAME_DESTREALM"
    "as_DestinationRealm t = as_DestinationRealm s" "as_out t = as_out s" "as_SessionId t = as_SessionId s"
  using assms
  by (auto simp: tx_host_def put_str_payload get_simps split: option.splits)
    (auto simp: put_str_def get_simps)

lemma tx_realm_payload:
  assumes "tx_realm env m s = Some (m', t)"
  shows "same_payload m m'" "as_out t = as_out s" "as_SessionId t = as_SessionId s"
  using assms by (auto simp: tx_realm_def put_str_payload split: option.splits if_splits)

lemma tx_user_payload:
  assumes "tx_user env m s = (m', t)"
  shows "same_payload m m'" "as_out t = as_out s" "as_SessionId t = as_SessionId s"
  using assms by (auto simp: tx_user_def put_str_payload split: option.splits if_splits)

lemma tx_origin_payload: "same_payload m (tx_origin env m)"
proof -
  have h: "same_payload x (put_str AVPNAME_ORIGINHOST v x)" and r: "same_payload x (put_str AVPNAME_ORIGINREALM v x)" for x v
    by (simp_all add: put_str_payload)
  show ?thesis using h r same_payload_trans [OF h r] by (simp add: tx_origin_def Let_def)
qed

lemma MsgIdTx_payload:
  assumes "sess_MsgIdTx c m s = (m', t)"
  shows "same_payload m m'" "as_out t = as_out s" "m_acl m' = m_acl m"
  using assms by (auto simp: sess_MsgIdTx_def differ_in_def Let_def split: if_splits)

definition routable :: "msg \<Rightarrow> ('s, 'e, 'x) session_scheme \<Rightarrow> bool" where
  "routable m s \<longleftrightarrow>
     \<not> h_r (m_hdr m) \<or> GetStr (m_acl m) AVPNAME_DESTREALM \<noteq> None \<or> as_DestinationRealm s \<noteq> None"

lemma TxDelivery_out_env:
  assumes "routable m s \<or> se_SetDestRealm env \<noteq> None"
  obtains m' t where "sess_TxDelivery env m s = (se_route env m', t)" "as_out t = as_out s @ [Routed m']"
    "same_payload m m'" "GetStr (m_acl m') AVPNAME_SESSIONID = Some (session_string (as_SessionId s))"
proof -
  obtain m1 s1 where 1: "tx_host env m s = (m1, s1)" by fastforce
  have "h_r (m_hdr m1) = h_r (m_hdr m)" using tx_host_payload(1) [OF 1] by (simp add: differ_in_def)
  with assms tx_host_payload(2,3) [OF 1] have "tx_realm env m1 s1 \<noteq> None"
    by (auto simp: tx_realm_def routable_def split: option.split)
  then obtain m2 s2 where 2: "tx_realm env m1 s1 = Some (m2, s2)" by auto
  obtain m3 s3 where 3: "tx_user env m2 s2 = (m3, s3)" by fastforce
  let ?m5 = "(tx_origin env m3)\<lparr>m_acl := SessionId_Set (as_SessionId s3) (m_acl (tx_origin env m3))\<rparr>"
  obtain m6 s4 where 6: "sess_MsgIdTx (se_cfg env) ?m5 s3 = (m6, s4)" by fastforce
  have sid: "as_SessionId s3 = as_SessionId s"
    using tx_host_payload(5) [OF 1] tx_realm_payload(3) [OF 2] tx_user_payload(3) [OF 3] by simp
  have "same_payload (tx_origin env m3) ?m5"
    by (auto simp: differ_in_def SessionId_Set_def GetAvp_AddAvp_other)
  then have "same_payload m m6"
    using tx_host_payload(1) [OF 1] tx_realm_payload(1) [OF 2] tx_user_payload(1) [OF 3] tx_origin_payload [of m3 env]
      MsgIdTx_payload(1) [OF 6] same_payload_trans by blast
  moreover have "GetStr (m_acl m6) AVPNAME_SESSIONID = Some (session_string (as_SessionId s))"
    by (simp add: MsgIdTx_payload(3) [OF 6] SessionId_Set_def get_simps sid)
  moreover have "sess_TxDelivery env m s = (se_route env m6, s_emit (Routed m6) s4)"
    using 1 2 3 6 by (simp add: sess_TxDelivery_def)
  moreover have "as_out (s_emit (Routed m6) s4) = as_out s @ [Routed m6]"
    using tx_host_payload(4) [OF 1] tx_realm_payload(2) [OF 2] tx_user_payload(2) [OF 3] MsgIdTx_payload(2) [OF 6]
    by (simp add: s_emit_def)
  ultimately show ?thesis using that by blast
qed

lemma TxDelivery_out:
  assumes "routable m s"
  obtains m' t where "sess_TxDelivery env m s = (se_route env m', t)" "as_out t = as_out s @ [Routed m']"
    "same_payload m m'" "GetStr (m_acl m') AVPNAME_SESSIONID = Some (session_string (as_SessionId s))"
  using assms TxDelivery_out_env by blast

text \<open>Routers that take every message, that take none, and that do not throw.\<close>

definition reachable_net :: "'v sess_env_scheme \<Rightarrow> bool" where
  "reachable_net env \<longleftrightarrow> (\<forall>m. se_route env m = Some True)"

definition cut_off :: "'v sess_env_scheme \<Rightarrow> bool" where
  "cut_off env \<longleftrightarrow> (\<forall>m. se_route env m = Some False)"

definition no_throw :: "'v sess_env_scheme \<Rightarrow> bool" where
  "no_throw env \<longleftrightarrow> (\<forall>m. se_route env m \<noteq> None)"

lemma cut_off_fails: "cut_off env \<Longrightarrow> fst (sess_TxDelivery env m s) = Some False"
  by (auto simp: sess_TxDelivery_def cut_off_def Let_def split: prod.split option.split)

lemma no_throw_delivers: "no_throw env \<Longrightarrow> fst (sess_TxDelivery env m s) \<noteq> None"
  by (auto simp: sess_TxDelivery_def no_throw_def Let_def split: prod.split option.split)

subsection \<open>What delivering leaves alone\<close>

text \<open>Two sessions that differ in addressing and in what they have sent only.\<close>

definition same_rest :: "('s, 'e, 'x) session_scheme \<Rightarrow> ('s, 'e, 'x) session_scheme \<Rightarrow> bool" where
  "same_rest s t \<longleftrightarrow>
     fsm_state t = fsm_state s \<and> fsm_running t = fsm_running s \<and> fsm_timers t = fsm_timers s \<and>
     as_SessionId t = as_SessionId s \<and> as_ApplicationId t = as_ApplicationId s \<and>
     as_SessionTimeout t = as_SessionTimeout s \<and> as_PendingMsg t = as_PendingMsg s \<and>
     as_fault t = as_fault s \<and> session.more t = session.more s"

lemma same_rest_trans: "same_rest s t \<Longrightarrow> same_rest t u \<Longrightarrow> same_rest s u"
  by (simp add: same_rest_def)

lemma same_rest_refl [simp]: "same_rest s s" by (simp add: same_rest_def)

lemma tx_rest:
  "tx_host env m s = (m', t) \<Longrightarrow> same_rest s t" "tx_realm env m s = Some (m', t) \<Longrightarrow> same_rest s t"
  "tx_user env m s = (m', t) \<Longrightarrow> same_rest s t" "sess_MsgIdTx c m s = (m', t) \<Longrightarrow> same_rest s t"
  "same_rest s (s_emit x s)" "same_rest s (snd (sess_MsgIdRx m s))"
  by (auto simp: tx_host_def tx_realm_def tx_user_def sess_MsgIdTx_def sess_MsgIdRx_def s_emit_def same_rest_def Let_def
      split: option.splits if_splits)

lemma TxDelivery_rest: "same_rest s (snd (sess_TxDelivery env m s))"
proof -
  obtain m1 s1 where 1: "tx_host env m s = (m1, s1)" by fastforce
  show ?thesis
  proof (cases "tx_realm env m1 s1")
    case None
    with 1 tx_rest(1) show ?thesis by (simp add: sess_TxDelivery_def)
  next
    case (Some x)
    obtain m2 s2 where 2: "x = (m2, s2)" by fastforce
    obtain m3 s3 where 3: "tx_user env m2 s2 = (m3, s3)" by fastforce
    obtain m6 s4 where 4: "sess_MsgIdTx (se_cfg env)
        ((tx_origin env m3)\<lparr>m_acl := SessionId_Set (as_SessionId s3) (m_acl (tx_origin env m3))\<rparr>) s3 = (m6, s4)"
      by fastforce
    have "snd (sess_TxDelivery env m s) = s_emit (Routed m6) s4"
      using 1 Some 2 3 4 by (simp add: sess_TxDelivery_def)
    with tx_rest(1) [OF 1] tx_rest(2) [OF Some [unfolded 2]] tx_rest(3) [OF 3] tx_rest(4) [OF 4] tx_rest(5)
    show ?thesis using same_rest_trans by metis
  qed
qed

end
