(* ===== verification/Auth_Props.thy ===== *)
theory Auth_Props
  imports Auth_Inv Session_Tx
begin

text \<open>
  What authorization sessions guarantee: the timers of every state, the exchanges between a client and a
  server, the values they agree on, and where the code does not do what its tables and comments say.
\<close>

abbreviation dictated_names :: "string set" where
  "dictated_names \<equiv> {AVPNAME_AUTHSESSIONSTATE, AVPNAME_SESSIONTIMEOUT, AVPNAME_AUTHLIFETIME, AVPNAME_AUTHGRACE}"

text \<open>What one dictated value comes to.\<close>

definition lens_ok :: "(auth_session \<Rightarrow> neg) \<Rightarrow> ((neg \<Rightarrow> neg) \<Rightarrow> auth_session \<Rightarrow> auth_session) \<Rightarrow> bool" where
  "lens_ok get upd \<longleftrightarrow>
     (\<forall>f s. get (upd f s) = f (get s) \<and> as_out (upd f s) = as_out s \<and>
            as_DestinationRealm (upd f s) = as_DestinationRealm s \<and> same_core s (upd f s))"

lemma lenses_ok:
  "lens_ok as_SessionTimeout as_SessionTimeout_update" "lens_ok as_AuthLifetime as_AuthLifetime_update"
  "lens_ok as_AuthGrace as_AuthGrace_update"
  by (simp_all add: lens_ok_def same_core_def)

lemma server_dictate_spec:
  assumes "server_dictate name get upd (m, s) = (m', t)" "lens_ok get upd"
  shows "differ_in {name} m m'" "as_out t = as_out s" "as_DestinationRealm t = as_DestinationRealm s"
    "same_core s t" "ng_isNegotiated (get t)"
    "\<not> ng_isNegotiated (get s) \<Longrightarrow> GetU32 (m_acl m') name = Some (ng_value (get t))"
    "ng_isNegotiated (get s) \<Longrightarrow> m' = m \<and> t = s"
proof -
  have l: "get (upd f s) = f (get s)" "as_out (upd f s) = as_out s" "same_core s (upd f s)"
    "as_DestinationRealm (upd f s) = as_DestinationRealm s" for f s
    using assms(2) by (simp_all add: lens_ok_def)
  have l2: "same_core s (upd f (upd g s))" for f g s by (rule same_trans(1) [OF l(3) l(3)])
  show "differ_in {name} m m'" "as_out t = as_out s" "as_DestinationRealm t = as_DestinationRealm s"
    "same_core s t" "ng_isNegotiated (get t)" "ng_isNegotiated (get s) \<Longrightarrow> m' = m \<and> t = s"
    using assms(1)
    by (auto simp: server_dictate_def Let_def AddAvp_differ l l2 split: option.splits if_splits)
  show "\<not> ng_isNegotiated (get s) \<Longrightarrow> GetU32 (m_acl m') name = Some (ng_value (get t))"
    using assms(1)
    by (auto simp: server_dictate_def Let_def l neg_assign_def get_simps split: option.splits if_splits)
qed

lemma server_state_avp_spec:
  "differ_in {AVPNAME_AUTHSESSIONSTATE} m (server_state_avp v m)"
  "map_option word_of_int (GetEnum (m_acl (server_state_avp v m)) AVPNAME_AUTHSESSIONSTATE) = Some v"
proof -
  show "differ_in {AVPNAME_AUTHSESSIONSTATE} m (server_state_avp v m)"
    by (auto simp: server_state_avp_def AddAvp_differ split: option.split)
  show "map_option word_of_int (GetEnum (m_acl (server_state_avp v m)) AVPNAME_AUTHSESSIONSTATE) = Some v"
    by (auto simp: server_state_avp_def GetEnum_def GetAvp_AddAvp_same split: option.split)
qed

lemma server_dictate_others:
  assumes "server_dictate name get upd (m, s) = (m', t)" "\<And>f s. g (upd f s) = g s"
  shows "g t = g s"
  using assms(1) by (auto simp: server_dictate_def Let_def assms(2) split: option.splits if_splits)

definition timeouts_open :: "auth_session \<Rightarrow> bool" where
  "timeouts_open s \<longleftrightarrow>
     \<not> ng_isNegotiated (as_SessionTimeout s) \<and> \<not> ng_isNegotiated (as_AuthLifetime s) \<and>
     \<not> ng_isNegotiated (as_AuthGrace s)"

lemma server_dictates_spec:
  assumes "server_dictates m s = (m', t)"
  shows "differ_in dictated_names m m'" "as_out t = as_out s" "as_DestinationRealm t = as_DestinationRealm s"
    "same_core s t"
    "map_option word_of_int (GetEnum (m_acl m') AVPNAME_AUTHSESSIONSTATE) = Some (ng_value (as_AuthState t))"
    "timeouts_open s \<Longrightarrow> GetU32 (m_acl m') AVPNAME_SESSIONTIMEOUT = Some (ng_value (as_SessionTimeout t)) \<and>
       GetU32 (m_acl m') AVPNAME_AUTHLIFETIME = Some (ng_value (as_AuthLifetime t)) \<and>
       GetU32 (m_acl m') AVPNAME_AUTHGRACE = Some (ng_value (as_AuthGrace t))"
proof -
  define v where "v = ng_value (as_AuthState s)"
  define m0 where "m0 = server_state_avp v m"
  obtain m1 s1 where 1: "server_dictate AVPNAME_SESSIONTIMEOUT as_SessionTimeout as_SessionTimeout_update (m0, s) = (m1, s1)"
    by fastforce
  obtain m2 s2 where 2: "server_dictate AVPNAME_AUTHLIFETIME as_AuthLifetime as_AuthLifetime_update (m1, s1) = (m2, s2)"
    by fastforce
  have 3: "server_dictate AVPNAME_AUTHGRACE as_AuthGrace as_AuthGrace_update (m2, s2) = (m', t)"
    using assms 1 2 by (simp add: server_dictates_def m0_def v_def)
  note d1 = server_dictate_spec [OF 1 lenses_ok(1)]
  note d2 = server_dictate_spec [OF 2 lenses_ok(2)]
  note d3 = server_dictate_spec [OF 3 lenses_ok(3)]
  note d0 = server_state_avp_spec [where m = m and v = v, folded m0_def]
  show "differ_in dictated_names m m'"
    by (rule same_payload_trans [OF differ_in_mono [OF d0(1)] same_payload_trans [OF differ_in_mono [OF d1(1)]
          same_payload_trans [OF differ_in_mono [OF d2(1)] differ_in_mono [OF d3(1)]]]]) simp_all
  show "as_out t = as_out s" "as_DestinationRealm t = as_DestinationRealm s" using d1 d2 d3 by simp_all
  show core: "same_core s t" using d1(4) d2(4) d3(4) same_trans(1) by blast
  have "GetEnum (m_acl m') AVPNAME_AUTHSESSIONSTATE = GetEnum (m_acl m0) AVPNAME_AUTHSESSIONSTATE"
    using same_payloadD(4) [OF d3(1)] same_payloadD(4) [OF d2(1)] same_payloadD(4) [OF d1(1)] by simp
  with d0(2) core show "map_option word_of_int (GetEnum (m_acl m') AVPNAME_AUTHSESSIONSTATE) = Some (ng_value (as_AuthState t))"
    by (simp add: v_def same_core_def)
  assume o: "timeouts_open s"
  have o1: "as_AuthLifetime s1 = as_AuthLifetime s" "as_AuthGrace s1 = as_AuthGrace s"
    by (rule server_dictate_others [OF 1]; simp)+
  have o2: "as_SessionTimeout s2 = as_SessionTimeout s1" "as_AuthGrace s2 = as_AuthGrace s1"
    by (rule server_dictate_others [OF 2]; simp)+
  have o3: "as_SessionTimeout t = as_SessionTimeout s2" "as_AuthLifetime t = as_AuthLifetime s2"
    by (rule server_dictate_others [OF 3]; simp)+
  have "GetU32 (m_acl m1) AVPNAME_SESSIONTIMEOUT = Some (ng_value (as_SessionTimeout s1))"
    "GetU32 (m_acl m2) AVPNAME_AUTHLIFETIME = Some (ng_value (as_AuthLifetime s2))"
    "GetU32 (m_acl m') AVPNAME_AUTHGRACE = Some (ng_value (as_AuthGrace t))"
    using d1(6) d2(6) d3(6) o o1 o2 by (simp_all add: timeouts_open_def)
  then show "GetU32 (m_acl m') AVPNAME_SESSIONTIMEOUT = Some (ng_value (as_SessionTimeout t)) \<and>
       GetU32 (m_acl m') AVPNAME_AUTHLIFETIME = Some (ng_value (as_AuthLifetime t)) \<and>
       GetU32 (m_acl m') AVPNAME_AUTHGRACE = Some (ng_value (as_AuthGrace t))"
    using same_payloadD(3) [OF d2(1), of AVPNAME_SESSIONTIMEOUT] same_payloadD(3) [OF d3(1), of AVPNAME_SESSIONTIMEOUT]
      same_payloadD(3) [OF d3(1), of AVPNAME_AUTHLIFETIME] by (simp add: o2 o3)
qed

text \<open>A delivery of the server: the message is routed with the values that the session then has.\<close>

lemma server_TxDelivery_out:
  assumes "routable m s"
  obtains m' t where "server_TxDelivery env m s = (se_route env m', t)" "as_out t = as_out s @ [Routed m']"
    "differ_in (addr_names \<union> dictated_names) m m'"
    "map_option word_of_int (GetEnum (m_acl m') AVPNAME_AUTHSESSIONSTATE) = Some (ng_value (as_AuthState t))"
    "timeouts_open s \<longrightarrow> GetU32 (m_acl m') AVPNAME_SESSIONTIMEOUT = Some (ng_value (as_SessionTimeout t)) \<and>
       GetU32 (m_acl m') AVPNAME_AUTHLIFETIME = Some (ng_value (as_AuthLifetime t)) \<and>
       GetU32 (m_acl m') AVPNAME_AUTHGRACE = Some (ng_value (as_AuthGrace t))"
proof -
  obtain m1 s1 where 1: "server_dictates m s = (m1, s1)" by fastforce
  note d = server_dictates_spec [OF 1]
  have "routable m1 s1" using assms same_payloadD(2,5) [OF d(1)] d(3) by (simp add: routable_def)
  then obtain m' t where 2: "sess_TxDelivery env m1 s1 = (se_route env m', t)" "as_out t = as_out s1 @ [Routed m']"
    "same_payload m1 m'" by (rule TxDelivery_out)
  have t: "as_SessionTimeout t = as_SessionTimeout s1" "as_AuthLifetime t = as_AuthLifetime s1"
    "as_AuthGrace t = as_AuthGrace s1" "as_AuthState t = as_AuthState s1"
    using TxDelivery_same [of s1 env m1] 2(1) by (simp_all add: same_defs)
  have "differ_in (addr_names \<union> dictated_names) m m'"
    by (rule same_payload_trans [OF differ_in_mono [OF d(1)] differ_in_mono [OF 2(3)]]) auto
  moreover have "server_TxDelivery env m s = (se_route env m', t)" using 1 2(1) by (simp add: server_TxDelivery_def)
  ultimately show ?thesis
    using that [of m' t] 2(2) d(2,5,6) same_payloadD(3,4) [OF 2(3)] by (simp add: t)
qed

subsection \<open>The tables\<close>

interpretation client_st: state_table client_table client_table
  by unfold_locales (rule client_table_built)

interpretation server_st: state_table server_table server_table
  by unfold_locales (rule server_table_built)

text \<open>An event for which the state has an entry of its own.\<close>

lemma client_entry:
  assumes "FsmEntry (fsm_state s) (Some ev) n a \<in> set client_table" "fsm_running s"
  shows "fsm_Event client_table act s ev = act a (s\<lparr>fsm_state := n\<rparr>)"
  using client_st.specific_wins [OF assms(1), of ev] assms(2) by (simp add: fsm_Event_def)

lemma server_entry:
  assumes "FsmEntry (fsm_state s) (Some ev) n a \<in> set server_table" "fsm_running s"
  shows "fsm_Event server_table act s ev = act a (s\<lparr>fsm_state := n\<rparr>)"
  using server_st.specific_wins [OF assms(1), of ev] assms(2) by (simp add: fsm_Event_def)

lemmas client_entries = client_table_def client_idle_entries_def client_pending_entries_def
  client_open_entries_def client_disc_entries_def
lemmas server_entries = server_table_def server_idle_entries_def server_open_entries_def server_disc_entries_def

text \<open>An event for which it has only the wildcard leaves the machine as it is.\<close>

lemma client_wild:
  assumes "(fsm_state s, Some ev) \<notin> entry_key ` set client_table"
  shows "fsm_Event client_table (client_act_rx env) s ev = s" "client_Notify env ev s = s"
proof -
  have "FsmEntry (fsm_state s) None (fsm_state s) CA_None \<in> set client_table"
    by (cases "fsm_state s") (simp_all add: client_entries)
  from client_st.lookup_deterministic_of_keys [OF this, of ev] assms
  show "fsm_Event client_table (client_act_rx env) s ev = s" "client_Notify env ev s = s"
    by (simp_all add: client_Notify_def fsm_Event_def client_act_rx_def)
qed

lemma server_wild:
  assumes "(fsm_state s, Some ev) \<notin> entry_key ` set server_table" "fsm_state s \<noteq> SST_PENDING"
  shows "fsm_Event server_table (server_act_rx env) s ev = s" "server_Notify env ev s = s"
proof -
  have "FsmEntry (fsm_state s) None (fsm_state s) SA_None \<in> set server_table"
    using assms(2) by (cases "fsm_state s") (simp_all add: server_entries)
  from server_st.lookup_deterministic_of_keys [OF this, of ev] assms
  show "fsm_Event server_table (server_act_rx env) s ev = s" "server_Notify env ev s = s"
    by (simp_all add: server_Notify_def fsm_Event_def server_act_rx_def)
qed

subsection \<open>Aborting a session\<close>

definition perfect :: "senv \<Rightarrow> bool" where
  "perfect env \<longleftrightarrow> (\<forall>m. se_route env m = Some True)"

lemma message_avps:
  "GetStr (m_acl (server_ASR env s)) AVPNAME_DESTREALM = Some (string_of (as_DestinationRealm s))"
  "GetStr (m_acl (server_RAR env ty s)) AVPNAME_DESTREALM = Some (string_of (as_DestinationRealm s))"
  "GetU32 (m_acl (server_RAR env ty s)) AVPNAME_REAUTHREQTYPE = Some ty"
  "GetStr (m_acl (client_STR env rc s)) AVPNAME_DESTREALM = Some (string_of (as_DestinationRealm s))"
  "GetU32 (m_acl (client_answer env cd rc s)) AVPNAME_RESULTCODE = Some rc"
  by (simp_all add: server_ASR_def server_RAR_def client_STR_def client_answer_def SessionId_Set_def AddAvp_def add_avp_def
      origin_avps_def server_dest_avps_def GetStr_def GetU32_def GetAvp_def)

lemma message_hdrs:
  "h_code (m_hdr (server_ASR env s)) = MSGCODE_ABORTSESSION" "h_r (m_hdr (server_ASR env s))"
  "h_code (m_hdr (client_STR env rc s)) = MSGCODE_SESSIONTERMINATION" "h_r (m_hdr (client_STR env rc s))"
  "h_code (m_hdr (client_answer env cd rc s)) = cd" "\<not> h_r (m_hdr (client_answer env cd rc s))"
  "h_code (m_hdr (server_STA env rc s)) = MSGCODE_SESSIONTERMINATION" "\<not> h_r (m_hdr (server_STA env rc s))"
  "h_code (m_hdr (server_RAR env ty s)) = MSGCODE_REAUTH" "h_r (m_hdr (server_RAR env ty s))"
  by (simp_all add: server_ASR_def client_STR_def client_answer_def server_STA_def server_RAR_def session_hdr_def zero_hdr_def)

lemma server_abort:
  assumes "fsm_state s = SST_OPEN" "fsm_running s" "perfect env"
  obtains asr t where "server_End env s = (True, t)" "as_out t = as_out s @ [Routed asr]"
    "h_code (m_hdr asr) = MSGCODE_ABORTSESSION" "h_r (m_hdr asr)" "fsm_state t = SST_DISC" "fsm_running t"
    "as_ASRSent t" "as_AuthState t = as_AuthState s" "as_SessionId t = as_SessionId s" "fsm_timers t = Map.empty"
proof -
  let ?s = "CancelAllTimer (s\<lparr>fsm_state := SST_DISC\<rparr>)"
  have e: "server_End env s = (True, server_TxASR env ?s)"
    using assms(1,2) server_entry [of s SEV_ABORT SST_DISC SA_TxASR]
    by (simp add: server_End_def server_Notify_def server_entries)
  have "routable (server_ASR env ?s) ?s" by (simp add: routable_def message_avps)
  then obtain m' t where o: "server_TxDelivery env (server_ASR env ?s) ?s = (se_route env m', t)"
    "as_out t = as_out ?s @ [Routed m']" "differ_in (addr_names \<union> dictated_names) (server_ASR env ?s) m'"
    by (rule server_TxDelivery_out)
  have c: "same_core ?s t" using server_TxDelivery_same [of ?s env "server_ASR env ?s"] o(1) by simp
  have "server_End env s = (True, t\<lparr>as_ASRSent := True\<rparr>)"
    using e o(1) assms(3) by (simp add: server_TxASR_def perfect_def)
  then show ?thesis
    using that [of "t\<lparr>as_ASRSent := True\<rparr>" m'] o(2) same_payloadD(1,2) [OF o(3)] c assms(2)
    by (simp add: message_hdrs same_core_def auth_frames frame_simps)
qed

lemma client_aborted:
  assumes "fsm_state c = SST_OPEN" "fsm_running c" "maintained c" "perfect env" "se_AbortSession env"
    "h_code (m_hdr asr) = MSGCODE_ABORTSESSION"
  obtains asa str t where "client_RxRequest env asr c = t" "as_out t = as_out c @ [CbAbortSession, Routed asa, Routed str]"
    "h_code (m_hdr asa) = MSGCODE_ABORTSESSION" "\<not> h_r (m_hdr asa)"
    "GetU32 (m_acl asa) AVPNAME_RESULTCODE = Some AAA_SUCCESS" "h_code (m_hdr str) = MSGCODE_SESSIONTERMINATION"
    "h_r (m_hdr str)" "fsm_state t = SST_DISC" "fsm_running t" "as_AuthState t = as_AuthState c"
    "as_SessionId t = as_SessionId c"
proof -
  let ?b = "s_emit CbAbortSession (client_RxBase asr c)"
  let ?c = "?b\<lparr>fsm_state := SST_DISC\<rparr>"
  have f: "fsm_state ?b = SST_OPEN" "fsm_running ?b" by (simp_all add: client_RxBase_def auth_frames assms(1,2))
  have r: "as_out ?c = as_out c @ [CbAbortSession]"
    by (simp add: client_RxBase_def auth_frames sess_MsgIdRx_def Let_def)
  have e: "client_RxRequest env asr c =
      and_then (client_TxASA env AAA_SUCCESS ?c) (\<lambda>s. snd (client_TxSTR env AAA_SUCCESS s))"
    using assms(3,5,6) f client_entry [of ?b SEV_RX_ASR_OK SST_DISC CA_TxASATxSTRSuccess]
    by (simp add: client_RxRequest_def client_Notify_def client_entries)
  have "routable (client_answer env MSGCODE_ABORTSESSION AAA_SUCCESS ?c) ?c" by (simp add: routable_def message_hdrs)
  then obtain asa c1 where a: "client_TxASA env AAA_SUCCESS ?c = (se_route env asa, c1)" "as_out c1 = as_out ?c @ [Routed asa]"
    "same_payload (client_answer env MSGCODE_ABORTSESSION AAA_SUCCESS ?c) asa"
    unfolding client_TxASA_def by (rule TxDelivery_out)
  have "routable (client_STR env AAA_SUCCESS c1) c1" by (simp add: routable_def message_avps)
  then obtain str t where b: "client_TxSTR env AAA_SUCCESS c1 = (se_route env str, t)" "as_out t = as_out c1 @ [Routed str]"
    "same_payload (client_STR env AAA_SUCCESS c1) str"
    unfolding client_TxSTR_def by (rule TxDelivery_out)
  have "same_core ?c c1" "same_core c1 t"
    using TxDelivery_same(1) a(1) b(1) unfolding client_TxASA_def client_TxSTR_def by (metis snd_conv)+
  then have "same_core ?c t" by (rule same_trans)
  then show ?thesis
    using that [of t asa str] e a(1,2) b(1,2) same_payloadD(1,2,3) [OF a(3)] same_payloadD(1,2) [OF b(3)] assms(4) f(2) r
    by (simp add: and_then_def perfect_def message_hdrs message_avps same_core_def client_RxBase_def auth_frames)
qed

lemma server_asa:
  assumes "fsm_state s = SST_DISC" "fsm_running s" "maintained s" "as_ASRSent s"
    "h_code (m_hdr asa) = MSGCODE_ABORTSESSION" "GetU32 (m_acl asa) AVPNAME_RESULTCODE = Some AAA_SUCCESS"
  shows "fsm_state (server_RxAnswer env asa s) = SST_DISC" "fsm_running (server_RxAnswer env asa s)"
    "maintained (server_RxAnswer env asa s)" "as_SessionId (server_RxAnswer env asa s) = as_SessionId s"
proof -
  let ?b = "server_RxBase asa s"
  have c: "same_core s ?b" using MsgIdRx_same(1) by (simp add: server_RxBase_def)
  have "InterpretedResultCode AAA_SUCCESS = RCODE_SUCCESS" by (simp add: InterpretedResultCode_def)
  then have "MsgResult asa = RCODE_SUCCESS" using assms(6) by (simp add: MsgResult_def ResultCode_def)
  then have "server_RxAnswer env asa s = s_emit CbAbortSession (CancelTimer TIMER_TYPE_ASR (?b\<lparr>fsm_state := SST_DISC\<rparr>))"
    using assms c server_entry [of ?b SEV_RX_ASA_OK SST_DISC SA_RxASA "server_act env"]
    by (simp add: server_RxAnswer_def server_Notify_def server_entries same_core_def)
  then show "fsm_state (server_RxAnswer env asa s) = SST_DISC" "fsm_running (server_RxAnswer env asa s)"
    "maintained (server_RxAnswer env asa s)" "as_SessionId (server_RxAnswer env asa s) = as_SessionId s"
    using c assms(2,3) by (simp_all add: auth_frames frame_simps same_core_def maintained_def CancelTimer_def)
qed

lemma server_str:
  assumes "fsm_state s \<in> {SST_OPEN, SST_DISC}" "fsm_running s" "maintained s" "si_DiameterId (as_SessionId s) \<noteq> []"
    "h_code (m_hdr str) = MSGCODE_SESSIONTERMINATION" "perfect env"
  obtains sta t where "server_RxRequest env str s = t" "sent s t = [sta]"
    "h_code (m_hdr sta) = MSGCODE_SESSIONTERMINATION" "\<not> h_r (m_hdr sta)" "fsm_state t = SST_IDLE" "\<not> fsm_running t"
    "fsm_timers t = Map.empty" "DbRemove (as_SessionId s) \<in> set (as_out t)"
proof -
  let ?b = "server_RxSTR str s"
  have c: "same_core s ?b" using same_trans(1) [OF MsgIdRx_same(1) same_emit(1)]
    by (auto simp: server_RxSTR_def Let_def MsgIdRx_same split: option.split)
  have o: "\<exists>xs. as_out ?b = as_out s @ xs \<and> routed xs = []"
    by (auto simp: server_RxSTR_def sess_MsgIdRx_def s_emit_def Let_def split: option.split)
  let ?d = "CancelAllTimer (?b\<lparr>fsm_state := SST_IDLE\<rparr>)"
  have e: "server_RxRequest env str s =
      and_then (server_TxSTA env AAA_AUTHORIZATION_REJECTED ?d) (\<lambda>s. server_release (s_emit CbDisconnect s))"
    using assms(1-5) c server_entry [of ?b SEV_RX_STR SST_IDLE SA_TxSTACleanup "server_act env"]
    by (auto simp: server_RxRequest_def server_Notify_def server_entries same_core_def)
  have "routable (server_STA env AAA_AUTHORIZATION_REJECTED ?d) ?d" by (simp add: routable_def message_hdrs)
  then obtain sta u where u: "server_TxSTA env AAA_AUTHORIZATION_REJECTED ?d = (se_route env sta, u)"
    "as_out u = as_out ?d @ [Routed sta]"
    "differ_in (addr_names \<union> dictated_names) (server_STA env AAA_AUTHORIZATION_REJECTED ?d) sta"
    unfolding server_TxSTA_def by (rule server_TxDelivery_out)
  have "same_core ?d u" using server_TxDelivery_same [of ?d env] u(1) unfolding server_TxSTA_def by (metis snd_conv)
  then have d: "fsm_state u = SST_IDLE" "fsm_timers u = Map.empty" "as_SessionId u = as_SessionId s"
    using c by (simp_all add: same_core_def auth_frames frame_simps)
  let ?t = "server_release (s_emit CbDisconnect u)"
  have t: "as_out ?t = as_out u @ [CbDisconnect, DbRemove (as_SessionId s), ForDeletion]"
    using d(3) by (simp add: server_release_def server_Reset_def s_emit_def fsm_Stop_def base_Reset_def)
  have "sent s ?t = [sta]" using o u(2) t by (auto simp: sent_def auth_frames)
  then show ?thesis
    using that [of ?t sta] e u(1) same_payloadD(1,2) [OF u(3)] d t assms(6)
    by (simp add: and_then_def perfect_def message_hdrs auth_frames)
qed

lemma client_sta:
  assumes "fsm_state c = SST_DISC" "fsm_running c" "maintained c" "h_code (m_hdr sta) = MSGCODE_SESSIONTERMINATION"
  shows "fsm_state (client_RxAnswer env sta c) = SST_IDLE" "\<not> fsm_running (client_RxAnswer env sta c)"
    "fsm_timers (client_RxAnswer env sta c) = Map.empty" "DbRemove (as_SessionId c) \<in> set (as_out (client_RxAnswer env sta c))"
proof -
  let ?b = "client_RxBase sta c"
  have c: "same_core c ?b" using MsgIdRx_same(1) by (simp add: client_RxBase_def)
  have "client_RxAnswer env sta c = client_Reset (CancelAllTimer (s_emit CbDisconnect (?b\<lparr>fsm_state := SST_IDLE\<rparr>)))"
    using assms c client_entry [of ?b SEV_RX_STA SST_IDLE CA_Disconnect "client_act env"]
    by (simp add: client_RxAnswer_def client_Notify_def client_entries same_core_def)
  then show "fsm_state (client_RxAnswer env sta c) = SST_IDLE" "\<not> fsm_running (client_RxAnswer env sta c)"
    "fsm_timers (client_RxAnswer env sta c) = Map.empty" "DbRemove (as_SessionId c) \<in> set (as_out (client_RxAnswer env sta c))"
    using c by (simp_all add: client_Reset_def fsm_Stop_def base_Reset_def auth_frames frame_simps same_core_def)
qed

text \<open>C12: when the server ends a session that is open on both sides with its state maintained and has its identifier, the network delivers what
  is sent, and the application of the client agrees to the abort, the ASR of the server, the ASA and STR of the client
  and the STA of the server follow one after the other, and at the end both machines have stopped, without a timer, and
  either side has removed its own session from its database.\<close>

theorem abort_exchange:
  assumes "fsm_state s = SST_OPEN" "fsm_running s" "maintained s" "si_DiameterId (as_SessionId s) \<noteq> []"
    and "fsm_state c = SST_OPEN" "fsm_running c" "maintained c"
    and "perfect env" "perfect env'" "se_AbortSession env'"
  shows "\<exists>asr asa str sta s1 c1 s2 s3 c2.
    server_End env s = (True, s1) \<and> sent s s1 = [asr] \<and>
    client_RxRequest env' asr c = c1 \<and> sent c c1 = [asa, str] \<and>
    server_RxAnswer env asa s1 = s2 \<and> server_RxRequest env str s2 = s3 \<and> sent s2 s3 = [sta] \<and>
    client_RxAnswer env' sta c1 = c2 \<and>
    \<not> fsm_running s3 \<and> fsm_timers s3 = Map.empty \<and> DbRemove (as_SessionId s) \<in> set (as_out s3) \<and>
    \<not> fsm_running c2 \<and> fsm_timers c2 = Map.empty \<and> DbRemove (as_SessionId c) \<in> set (as_out c2)"
proof -
  obtain asr s1 where 1: "server_End env s = (True, s1)" "as_out s1 = as_out s @ [Routed asr]"
    "h_code (m_hdr asr) = MSGCODE_ABORTSESSION" "h_r (m_hdr asr)" "fsm_state s1 = SST_DISC" "fsm_running s1" "as_ASRSent s1"
    "as_AuthState s1 = as_AuthState s" "as_SessionId s1 = as_SessionId s"
    by (rule server_abort [OF assms(1,2,8)])
  obtain asa str c1 where 2: "client_RxRequest env' asr c = c1" "as_out c1 = as_out c @ [CbAbortSession, Routed asa, Routed str]"
    "h_code (m_hdr asa) = MSGCODE_ABORTSESSION" "GetU32 (m_acl asa) AVPNAME_RESULTCODE = Some AAA_SUCCESS"
    "h_code (m_hdr str) = MSGCODE_SESSIONTERMINATION" "fsm_state c1 = SST_DISC" "fsm_running c1" "as_AuthState c1 = as_AuthState c"
    "as_SessionId c1 = as_SessionId c"
    by (rule client_aborted [OF assms(5-7,9,10) 1(3)])
  have m: "maintained s1" "maintained c1" using 1(8) 2(8) assms(3,7) by (simp_all add: maintained_def)
  note 3 = server_asa [OF 1(5,6) m(1) 1(7) 2(3,4), of env]
  obtain sta s3 where 4: "server_RxRequest env str (server_RxAnswer env asa s1) = s3"
    "sent (server_RxAnswer env asa s1) s3 = [sta]" "h_code (m_hdr sta) = MSGCODE_SESSIONTERMINATION"
    "\<not> fsm_running s3" "fsm_timers s3 = Map.empty" "DbRemove (as_SessionId s) \<in> set (as_out s3)"
    by (rule server_str [OF _ 3(2,3) _ 2(5) assms(8)]) (use 3(1,4) 1(9) assms(4) in auto)
  note 5 = client_sta [OF 2(6,7) m(2) 4(3), of env']
  have "sent s s1 = [asr]" "sent c c1 = [asa, str]" using 1(2) 2(2) by (simp_all add: sent_append)
  with 1(1) 2(1,9) 4 5 show ?thesis by metis
qed

subsection \<open>Timers and states\<close>

text \<open>C14: a session of a server is open only with a negotiated state to maintain, and then both of its timers run;
  in the state DISC at most the retry of the ASR is scheduled, so that the table's transitions there for an
  expired lifetime or session never happen; a stateless session stays in IDLE with at most its session timer;
  a machine that has stopped is idle without timers; and no action ever lacks the message it takes.\<close>

theorem server_session_timers:
  assumes "server_reach c s"
  shows "\<not> as_fault s \<and> fsm_state s \<noteq> SST_PENDING \<and>
    (fsm_state s = SST_OPEN \<longrightarrow> negotiated s \<and> maintained s \<and>
       (\<exists>a b. fsm_timers s = [TIMER_TYPE_SESSION \<mapsto> (SEV_SESSION_TOUT_ST, a), TIMER_TYPE_AUTH \<mapsto> (SEV_LIFETIME_TOUT, b)])) \<and>
    (fsm_state s = SST_DISC \<longrightarrow> negotiated s \<and> maintained s \<and> dom (fsm_timers s) \<subseteq> {TIMER_TYPE_ASR}) \<and>
    (fsm_state s = SST_IDLE \<longrightarrow> dom (fsm_timers s) \<subseteq> {TIMER_TYPE_SESSION}) \<and>
    (\<not> fsm_running s \<longrightarrow> fsm_state s = SST_IDLE \<and> fsm_timers s = Map.empty)"
proof -
  have i: "server_inv s" by (rule server_reach_inv [OF assms])
  have dom: "dom (fsm_timers s) \<subseteq> fst ` server_timers (fsm_state s)"
    using i by (force simp: server_inv_def timers_in_def)
  have "\<exists>a b. fsm_timers s = [TIMER_TYPE_SESSION \<mapsto> (SEV_SESSION_TOUT_ST, a), TIMER_TYPE_AUTH \<mapsto> (SEV_LIFETIME_TOUT, b)]"
    if "fsm_state s = SST_OPEN"
  proof -
    from i that obtain e a f b where t: "fsm_timers s TIMER_TYPE_SESSION = Some (e, a)" "fsm_timers s TIMER_TYPE_AUTH = Some (f, b)"
      by (auto simp: server_inv_def)
    with i that have "(TIMER_TYPE_SESSION, e) \<in> server_timers SST_OPEN" "(TIMER_TYPE_AUTH, f) \<in> server_timers SST_OPEN"
      unfolding server_inv_def timers_in_def by metis+
    then have "e = SEV_SESSION_TOUT_ST" "f = SEV_LIFETIME_TOUT" by simp_all
    moreover have "fsm_timers s ty = None" if "ty \<notin> {TIMER_TYPE_SESSION, TIMER_TYPE_AUTH}" for ty
    proof -
      have "ty \<notin> dom (fsm_timers s)" using dom that \<open>fsm_state s = SST_OPEN\<close> by auto
      then show ?thesis by (simp only: domIff simp_thms)
    qed
    ultimately have "fsm_timers s = [TIMER_TYPE_SESSION \<mapsto> (SEV_SESSION_TOUT_ST, a), TIMER_TYPE_AUTH \<mapsto> (SEV_LIFETIME_TOUT, b)]"
      using t by (intro ext) auto
    then show ?thesis by blast
  qed
  with i dom show ?thesis by (auto simp: server_inv_def)
qed

text \<open>C20: whatever messages, timers and calls come in whatever order, as long as the application's \<open>ReStart\<close>
  does not refuse a \<open>Begin\<close> of a session that runs already (refused, the machine stops in the state it is in):
  a client session that is idle or pending has no timer, its timers are at most that of the session and that
  of the authorization, a machine that has stopped is idle and so without timers, and no action ever lacks
  the message it takes.\<close>

theorem client_session_timers:
  assumes "client_reach True c s"
  shows "\<not> as_fault s \<and> dom (fsm_timers s) \<subseteq> {TIMER_TYPE_SESSION, TIMER_TYPE_AUTH} \<and>
    (fsm_state s = SST_IDLE \<or> fsm_state s = SST_PENDING \<longrightarrow> fsm_timers s = Map.empty) \<and>
    (\<not> fsm_running s \<longrightarrow> fsm_state s = SST_IDLE)"
  using client_reach_inv [OF assms] by (auto simp: client_inv_def timers_in_def)

text \<open>Waiting for the peer: nothing but the peer moves the session on.\<close>

definition waiting :: "auth_session \<Rightarrow> bool" where
  "waiting s \<longleftrightarrow> fsm_state s = SST_DISC \<and> fsm_running s \<and> fsm_timers s = Map.empty"

lemma waiting_same_core: "same_core s t \<Longrightarrow> waiting s \<Longrightarrow> waiting t"
  by (simp add: waiting_def same_core_def)

lemma waiting_updates [simp]:
  "waiting (s\<lparr>as_PendingMsg := x\<rparr>) = waiting s" "waiting (s\<lparr>as_ReAuth := y\<rparr>) = waiting s"
  "waiting (s\<lparr>as_SessionId := z\<rparr>) = waiting s" "waiting (s_emit v s) = waiting s"
  "waiting (s\<lparr>as_AuthState := n\<rparr>) = waiting s" "waiting (s\<lparr>as_fault := b\<rparr>) = waiting s"
  by (simp_all add: waiting_def s_emit_def)

lemma client_waiting_Notify:
  assumes "waiting s" "ev \<notin> {SEV_RX_STA, SEV_SESSION_TOUT_ST, SEV_LIFETIME_TOUT, SEV_RX_ASR}"
  shows "waiting (client_Notify env ev s)" "waiting (fsm_Event client_table (client_act_rx env) s ev)"
proof -
  have s: "fsm_state s = SST_DISC" "fsm_running s" using assms(1) by (simp_all add: waiting_def)
  have id: "s\<lparr>fsm_state := SST_DISC\<rparr> = s" using s(1) by simp
  have "waiting (client_Notify env ev s) \<and> waiting (fsm_Event client_table (client_act_rx env) s ev)"
  proof (cases "ev = SEV_TX_SSAR \<or> ev = SEV_RX_SSAA")
    case True
    have "fsm_Event client_table act s SEV_TX_SSAR = act CA_TxSSARDiscard s"
      "fsm_Event client_table act s SEV_RX_SSAA = act CA_RxSSAADiscard s" for act
      using client_entry [of s SEV_TX_SSAR SST_DISC CA_TxSSARDiscard act]
        client_entry [of s SEV_RX_SSAA SST_DISC CA_RxSSAADiscard act] s id by (simp_all add: client_entries)
    with True assms(1) show ?thesis
      by (auto simp: client_Notify_def take_pending_def client_act_rx_def split: option.split)
  next
    case False
    with assms(2) s have "(fsm_state s, Some ev) \<notin> entry_key ` set client_table"
      by (auto simp: client_entries entry_key_def)
    from client_wild [OF this] assms(1) show ?thesis by simp
  qed
  then show "waiting (client_Notify env ev s)" "waiting (fsm_Event client_table (client_act_rx env) s ev)" by simp_all
qed

lemma client_waiting_Send: "waiting s \<Longrightarrow> waiting (snd (client_Send env m s))"
  using waiting_same_core [OF client_hints_same [where s = s and m = m]]
  by (auto simp: client_Send_def intro!: client_waiting_Notify split: prod.split)

lemma client_waiting_End: "waiting s \<Longrightarrow> waiting (client_End env s)"
  by (simp add: client_End_def client_waiting_Notify)

lemma client_waiting_app: "waiting s \<Longrightarrow> waiting (client_app env cs s)"
  by (induction env cs s rule: client_app.induct) (simp_all add: client_waiting_Send client_waiting_End)

lemma client_waiting_Begin:
  assumes "waiting s" "snd (se_ReStart env)"
  shows "waiting (client_Begin env opt s)"
proof -
  let ?s1 = "client_lifetimes env s"
  have 1: "waiting ?s1" by (rule waiting_same_core [OF client_lifetimes_same assms(1)])
  obtain calls ok where r: "se_ReStart env = (calls, ok)" by fastforce
  have "client_Begin env opt s = client_Notify env SEV_REQUEST_ACCESS (client_app env calls ?s1)"
    using 1 r assms(2) by (simp add: client_Begin_def Let_def waiting_def)
  then show ?thesis using 1 by (simp add: client_waiting_Notify client_waiting_app)
qed

text \<open>A client that has sent its STR and cancelled its timers stays in the state DISC for ever unless a
  Session-Termination-Answer arrives: there is no timer left that would end the session when the request or
  its answer is lost.\<close>

theorem client_waits_for_STA:
  assumes "client_step True c s t" "waiting s"
  shows "waiting t \<or> (\<exists>env m. t = client_RxAnswer env m s \<and> h_code (m_hdr m) = MSGCODE_SESSIONTERMINATION)"
  using assms
proof (cases rule: client_step.cases)
  case (Begin env opt)
  then have "snd (se_ReStart env)" using assms(2) by (simp add: waiting_def)
  with Begin assms(2) show ?thesis by (simp add: client_waiting_Begin)
next
  case (Request env m)
  have "waiting (client_RxBase m s)"
    using waiting_same_core [OF MsgIdRx_same(1)] assms(2) by (simp add: client_RxBase_def)
  with Request assms(2) show ?thesis
    by (simp add: client_RxRequest_def client_NotifyMsg_def Let_def client_waiting_Notify split: option.split)
next
  case (Answer env m)
  have "waiting (client_negotiate a s)" for a using assms(2) by (simp add: client_negotiate_def waiting_def)
  with Answer assms(2) show ?thesis
    by (cases "h_code (m_hdr m) = MSGCODE_SESSIONTERMINATION")
      (auto simp: client_RxAnswer_def client_NotifyMsg_def client_waiting_Notify)
next
  case (Timer env ty ev sec)
  with assms(2) show ?thesis by (simp add: waiting_def)
qed (use assms(2) in \<open>simp_all add: client_waiting_Send client_waiting_End client_RxError_def\<close>)

subsection \<open>A server that waits\<close>

lemma server_waiting_Notify:
  assumes "waiting s" "ev \<notin> {SEV_RX_STR, SEV_RX_ASA_FAIL, SEV_TX_ASR_FAIL, SEV_SESSION_TOUT_ST, SEV_LIFETIME_TOUT}"
  shows "waiting (server_Notify env ev s)" "waiting (fsm_Event server_table (server_act_rx env) s ev)"
proof -
  have s: "fsm_state s = SST_DISC" "fsm_running s" using assms(1) by (simp_all add: waiting_def)
  have id: "s\<lparr>fsm_state := SST_DISC\<rparr> = s" using s(1) by simp
  have "waiting (server_Notify env ev s) \<and> waiting (fsm_Event server_table (server_act_rx env) s ev)"
  proof (cases "ev \<in> {SEV_TX_SSAA, SEV_RX_SSAR, SEV_RX_ASA_OK}")
    case True
    have "fsm_Event server_table act s SEV_TX_SSAA = act SA_TxSSAADiscard s"
      "fsm_Event server_table act s SEV_RX_SSAR = act SA_RxSSARDiscard s"
      "fsm_Event server_table act s SEV_RX_ASA_OK = act SA_RxASA s" for act
      using server_entry [of s SEV_TX_SSAA SST_DISC SA_TxSSAADiscard act]
        server_entry [of s SEV_RX_SSAR SST_DISC SA_RxSSARDiscard act]
        server_entry [of s SEV_RX_ASA_OK SST_DISC SA_RxASA act] s id by (simp_all add: server_entries)
    moreover have "waiting (CancelTimer ty s)" for ty
      using assms(1) by (simp add: waiting_def auth_frames frame_simps)
    ultimately show ?thesis using True assms(1)
      by (auto simp: server_Notify_def take_pending_def server_act_rx_def split: option.split)
  next
    case False
    with assms(2) s have "(fsm_state s, Some ev) \<notin> entry_key ` set server_table"
      by (auto simp: server_entries entry_key_def)
    from server_wild [OF this] s(1) assms(1) show ?thesis by simp
  qed
  then show "waiting (server_Notify env ev s)" "waiting (fsm_Event server_table (server_act_rx env) s ev)" by simp_all
qed

lemma server_waiting_negotiate:
  assumes "waiting s"
  shows "waiting (server_negotiate env a s)"
proof -
  have "waiting (server_origin a s)"
    using assms by (auto simp: server_origin_def waiting_def Let_def split: option.split)
  then have "waiting (server_negotiate_state env a (server_origin a s))"
    by (auto simp: server_negotiate_state_def waiting_def Let_def split: option.split)
  then show ?thesis
    by (auto simp: server_negotiate_def server_negotiate_grace_def server_negotiate_lifetime_def
        server_negotiate_timeout_def cap_lifetime_def waiting_def Let_def split: option.split)
qed

text \<open>A server that has sent its ASR waits without a timer: only a Session-Termination-Request, or an answer to
  the ASR that is not a success, ends the session; a client that has lost the session and answers with
  success, or not at all, leaves it in the database for ever.\<close>

theorem server_waits_for_STR:
  assumes "server_step c s t" "waiting s"
  shows "waiting t \<or> (\<exists>env m. t = server_RxRequest env m s \<and> h_code (m_hdr m) = MSGCODE_SESSIONTERMINATION) \<or>
    (\<exists>env m. t = server_RxAnswer env m s \<and> h_code (m_hdr m) = MSGCODE_ABORTSESSION \<and> MsgResult m \<noteq> RCODE_SUCCESS)"
  using assms
proof (cases rule: server_step.cases)
  case (Request env m)
  have "waiting (server_RxRequest env m s)" if "h_code (m_hdr m) \<noteq> MSGCODE_SESSIONTERMINATION"
    using that assms(2) server_waiting_negotiate
    by (auto simp: server_RxRequest_def server_NotifyMsg_def server_waiting_Notify Let_def
        split: prod.splits bool.splits)
  with Request show ?thesis by blast
next
  case (Answer env m)
  have "waiting (server_RxBase m s)"
    using waiting_same_core [OF MsgIdRx_same(1)] assms(2) by (simp add: server_RxBase_def)
  then have "waiting (server_RxAnswer env m s)"
    if "\<not> (h_code (m_hdr m) = MSGCODE_ABORTSESSION \<and> MsgResult m \<noteq> RCODE_SUCCESS)"
    using that assms(2)
    by (auto simp: server_RxAnswer_def server_NotifyMsg_def server_waiting_Notify Let_def split: option.split)
  with Answer show ?thesis by blast
next
  case (Timer env ty ev sec)
  with assms(2) show ?thesis by (simp add: waiting_def)
qed (use assms(2) in \<open>simp_all add: server_Send_def server_ReAuth_def server_End_def server_waiting_Notify
       server_RxError_def\<close>)

subsection \<open>Re-authorization\<close>

text \<open>An entry that stays in its state.\<close>

lemma server_stay:
  assumes "FsmEntry (fsm_state s) (Some ev) (fsm_state s) a \<in> set server_table" "fsm_running s"
  shows "server_Notify env ev s = server_act env a s"
  using server_entry [OF assms] by (simp add: server_Notify_def)

lemma client_stay:
  assumes "FsmEntry (fsm_state s) (Some ev) (fsm_state s) a \<in> set client_table" "fsm_running s"
  shows "client_Notify env ev s = client_act env a s"
  using client_entry [OF assms] by (simp add: client_Notify_def)

lemma server_reauth:
  assumes "fsm_state s = SST_OPEN" "fsm_running s"
  obtains m t where "server_ReAuth env ty s = (True, t)" "as_out t = as_out s @ [Routed m]"
    "h_code (m_hdr m) = MSGCODE_REAUTH" "GetU32 (m_acl m) AVPNAME_REAUTHREQTYPE = Some 0"
    "fsm_state t = SST_OPEN" "fsm_running t"
proof -
  let ?s = "s\<lparr>as_ReAuth := Some \<lparr>rv_reAuthType = 0, rv_resultCode = ty\<rparr>\<rparr>"
  have e: "server_ReAuth env ty s = (True, snd (server_TxRAR env 0 ?s))"
    using assms server_stay [of ?s SEV_REAUTH SA_TxRAR env] by (simp add: server_ReAuth_def server_entries)
  have "routable (server_RAR env 0 ?s) ?s" by (simp add: routable_def message_avps)
  then obtain m t where o: "server_TxDelivery env (server_RAR env 0 ?s) ?s = (se_route env m, t)"
    "as_out t = as_out ?s @ [Routed m]" "differ_in (addr_names \<union> dictated_names) (server_RAR env 0 ?s) m"
    by (rule server_TxDelivery_out)
  have "same_core ?s t" using server_TxDelivery_same [of ?s env "server_RAR env 0 ?s"] o(1) by simp
  then show ?thesis
    using that [of t m] e o(1,2) same_payloadD(1,3) [OF o(3)] assms
    by (simp add: server_TxRAR_def message_hdrs message_avps same_core_def)
qed

lemma client_reauth:
  assumes "fsm_state c = SST_OPEN" "fsm_running c" "h_code (m_hdr rar) = MSGCODE_REAUTH"
    "GetU32 (m_acl rar) AVPNAME_REAUTHREQTYPE = Some ty"
  obtains m t where "client_RxRequest env rar c = t" "as_out t = as_out c @ [CbReAuthenticate 0, Routed m]"
    "h_code (m_hdr m) = MSGCODE_REAUTH" "\<not> h_r (m_hdr m)"
    "GetU32 (m_acl m) AVPNAME_RESULTCODE = Some (se_ReAuthenticate env 0)"
proof -
  let ?b = "(client_RxBase rar c)\<lparr>as_ReAuth := Some \<lparr>rv_reAuthType = 0, rv_resultCode = ty\<rparr>\<rparr>"
  let ?m = "client_answer env MSGCODE_REAUTH (se_ReAuthenticate env 0) (s_emit (CbReAuthenticate 0) ?b)"
  have f: "fsm_state ?b = SST_OPEN" "fsm_running ?b" using assms(1,2) by (simp_all add: client_RxBase_def auth_frames)
  have out: "as_out ?b = as_out c" by (simp add: client_RxBase_def sess_MsgIdRx_def Let_def)
  have e: "client_RxRequest env rar c =
      snd (client_TxRAA env (se_ReAuthenticate env 0) (s_emit (CbReAuthenticate 0) ?b))"
    using assms(3,4) f client_stay [of ?b SEV_RX_RAR CA_RxRAR env]
    by (simp add: client_RxRequest_def client_entries client_ac_RxRAR_def)
  have "routable ?m (s_emit (CbReAuthenticate 0) ?b)" by (simp add: routable_def message_hdrs)
  then obtain m t where o: "sess_TxDelivery env ?m (s_emit (CbReAuthenticate 0) ?b) = (se_route env m, t)"
    "as_out t = as_out (s_emit (CbReAuthenticate 0) ?b) @ [Routed m]" "same_payload ?m m"
    by (rule TxDelivery_out)
  then show ?thesis
    using that [of t m] e out same_payloadD(1-3) [OF o(3)] by (simp add: client_TxRAA_def message_hdrs message_avps auth_frames)
qed

text \<open>The type of re-authorization that the application of a server asks for never reaches the wire, and
  neither does a result come back: the code fills the two members of the value in the wrong order, so that
  every RAR asks for type 0, the application of the client is told type 0 whatever arrives, and the application
  of the server is told result 0 whatever the client answered.\<close>

theorem reauth_value_lost:
  assumes "fsm_state s = SST_OPEN" "fsm_running s" "fsm_state c = SST_OPEN" "fsm_running c"
  shows "\<exists>rar s1 raa c1.
    server_ReAuth env ty s = (True, s1) \<and> sent s s1 = [rar] \<and>
    GetU32 (m_acl rar) AVPNAME_REAUTHREQTYPE = Some 0 \<and>
    client_RxRequest env' rar c = c1 \<and> as_out c1 = as_out c @ [CbReAuthenticate 0, Routed raa] \<and>
    GetU32 (m_acl raa) AVPNAME_RESULTCODE = Some (se_ReAuthenticate env' 0) \<and>
    as_out (server_RxAnswer env raa s1) = as_out s1 @ [CbReAuthenticate 0]"
proof -
  obtain rar s1 where 1: "server_ReAuth env ty s = (True, s1)" "as_out s1 = as_out s @ [Routed rar]"
    "h_code (m_hdr rar) = MSGCODE_REAUTH" "GetU32 (m_acl rar) AVPNAME_REAUTHREQTYPE = Some 0"
    "fsm_state s1 = SST_OPEN" "fsm_running s1"
    by (rule server_reauth [OF assms(1,2)])
  obtain raa c1 where 2: "client_RxRequest env' rar c = c1" "as_out c1 = as_out c @ [CbReAuthenticate 0, Routed raa]"
    "h_code (m_hdr raa) = MSGCODE_REAUTH" "GetU32 (m_acl raa) AVPNAME_RESULTCODE = Some (se_ReAuthenticate env' 0)"
    by (rule client_reauth [OF assms(3,4) 1(3,4)])
  let ?b = "(server_RxBase raa s1)\<lparr>as_ReAuth := Some \<lparr>rv_reAuthType = se_ReAuthenticate env' 0, rv_resultCode = 0\<rparr>\<rparr>"
  have b: "fsm_state ?b = SST_OPEN" "fsm_running ?b" "as_out ?b = as_out s1"
    using 1(5,6) by (simp_all add: server_RxBase_def auth_frames) (simp add: sess_MsgIdRx_def Let_def)
  have "as_out (server_RxAnswer env raa s1) = as_out s1 @ [CbReAuthenticate 0]"
    using 2(3,4) b server_stay [of ?b SEV_RX_RAA SA_RxRAA env]
    by (simp add: server_RxAnswer_def server_entries s_emit_def)
  with 1 2 show ?thesis by (auto simp: sent_def)
qed

subsection \<open>Granting access\<close>

lemma server_negotiate_frame:
  "fsm_state (server_negotiate env a s) = fsm_state s" "fsm_running (server_negotiate env a s) = fsm_running s"
  "as_out (server_negotiate env a s) = as_out s"
  "timeouts_open (server_negotiate env a s) = timeouts_open s"
proof -
  let ?s1 = "server_origin a s" and ?s2 = "server_negotiate_state env a (server_origin a s)"
  have 1: "fsm_state ?s1 = fsm_state s \<and> fsm_running ?s1 = fsm_running s \<and> as_out ?s1 = as_out s \<and>
      timeouts_open ?s1 = timeouts_open s"
    by (auto simp: server_origin_def timeouts_open_def Let_def split: option.split)
  have 2: "fsm_state ?s2 = fsm_state ?s1 \<and> fsm_running ?s2 = fsm_running ?s1 \<and> as_out ?s2 = as_out ?s1 \<and>
      timeouts_open ?s2 = timeouts_open ?s1"
    by (auto simp: server_negotiate_state_def timeouts_open_def Let_def split: option.split)
  have h: "ng_isNegotiated (server_hint h d app x) = ng_isNegotiated x" for h d app x
    by (auto simp: server_hint_def neg_assign_def Let_def split: option.split)
  have "fsm_state (server_negotiate env a s) = fsm_state ?s2 \<and> fsm_running (server_negotiate env a s) = fsm_running ?s2 \<and>
      as_out (server_negotiate env a s) = as_out ?s2 \<and> timeouts_open (server_negotiate env a s) = timeouts_open ?s2"
    by (auto simp: server_negotiate_def server_negotiate_grace_def server_negotiate_lifetime_def h
        server_negotiate_timeout_def cap_lifetime_def timeouts_open_def neg_assign_def Let_def split: option.split)
  with 1 2 show "fsm_state (server_negotiate env a s) = fsm_state s" "fsm_running (server_negotiate env a s) = fsm_running s"
    "as_out (server_negotiate env a s) = as_out s" "timeouts_open (server_negotiate env a s) = timeouts_open s"
    by simp_all
qed

text \<open>The answer of the application goes out of an idle, maintained session, which then opens.\<close>

lemma server_grant_delivery:
  assumes "fsm_state s = SST_IDLE" "fsm_running s" "maintained s" "timeouts_open s" "perfect env"
    "h_r (m_hdr req)" "se_RequestMsg env req = ([AppSend ans], RC_SUCCESS)" "\<not> h_r (m_hdr ans)"
  obtains ans' u t where "server_RxDelivery env req s = server_GrantAccess (u\<lparr>fsm_state := SST_OPEN\<rparr>)"
    "as_out u = as_out s @ [Routed ans']" "h_code (m_hdr ans') = h_code (m_hdr ans)" "\<not> h_r (m_hdr ans')"
    "as_AuthState u = as_AuthState s" "fsm_running u"
    "map_option word_of_int (GetEnum (m_acl ans') AVPNAME_AUTHSESSIONSTATE) = Some (ng_value (as_AuthState s))"
    "GetU32 (m_acl ans') AVPNAME_SESSIONTIMEOUT = Some (ng_value (as_SessionTimeout u))"
    "GetU32 (m_acl ans') AVPNAME_AUTHLIFETIME = Some (ng_value (as_AuthLifetime u))"
    "GetU32 (m_acl ans') AVPNAME_AUTHGRACE = Some (ng_value (as_AuthGrace u))"
proof -
  let ?s1 = "snd (sess_MsgIdRx req s)"
  let ?p = "?s1\<lparr>as_PendingMsg := Some ans\<rparr>" and ?q = "?s1\<lparr>as_PendingMsg := None\<rparr>"
  have out: "as_out ?q = as_out s" by (simp add: sess_MsgIdRx_def Let_def)
  have op: "timeouts_open ?q" using assms(4) by (simp add: timeouts_open_def auth_frames)
  have "routable ans ?q" using assms(8) by (simp add: routable_def)
  then obtain m u where u: "server_TxDelivery env ans ?q = (se_route env m, u)" "as_out u = as_out ?q @ [Routed m]"
    "differ_in (addr_names \<union> dictated_names) ans m"
    "map_option word_of_int (GetEnum (m_acl m) AVPNAME_AUTHSESSIONSTATE) = Some (ng_value (as_AuthState u))"
    "timeouts_open ?q \<longrightarrow> GetU32 (m_acl m) AVPNAME_SESSIONTIMEOUT = Some (ng_value (as_SessionTimeout u)) \<and>
       GetU32 (m_acl m) AVPNAME_AUTHLIFETIME = Some (ng_value (as_AuthLifetime u)) \<and>
       GetU32 (m_acl m) AVPNAME_AUTHGRACE = Some (ng_value (as_AuthGrace u))"
    by (rule server_TxDelivery_out)
  have c: "same_core ?q u" using server_TxDelivery_same [of ?q env ans] u(1) by simp
  then have f: "as_AuthState u = as_AuthState s" "fsm_state u = SST_IDLE" "fsm_running u" "maintained u"
    using assms(1-3) by (simp_all add: same_core_def auth_frames maintained_def)
  have "snd (server_Send env ans ?s1) = server_act env SA_TxSSA ?p"
    using assms(1,2,8) server_stay [of ?p SEV_TX_SSAA SA_TxSSA env]
    by (simp add: server_Send_def server_entries auth_frames)
  then have "snd (server_Send env ans ?s1) = u"
    using u(1) assms(5) f(4) by (simp add: take_pending_def and_then_def perfect_def server_extend_def)
  then have "server_RxDelivery env req s = server_Notify env SEV_SSAR_OK u"
    using assms(6,7) f(4) by (simp add: server_RxDelivery_def server_rx_event_def)
  also have "\<dots> = server_GrantAccess (u\<lparr>fsm_state := SST_OPEN\<rparr>)"
    using f(2,3) server_entry [of u SEV_SSAR_OK SST_OPEN SA_GrantAccess "server_act env"]
    by (simp add: server_Notify_def server_entries)
  finally show ?thesis
    using that [of u m] u(2,4,5) op out f same_payloadD(1,2) [OF u(3)] assms(8) by simp
qed

lemma server_GrantAccess_timers:
  "fsm_timers (server_GrantAccess s) =
     [TIMER_TYPE_SESSION \<mapsto> (SEV_SESSION_TOUT_ST, unat (ng_value (as_SessionTimeout s) + 5)),
      TIMER_TYPE_AUTH \<mapsto> (SEV_LIFETIME_TOUT, unat (ng_value (as_AuthLifetime s) + ng_value (as_AuthGrace s) + 5))]"
  "fsm_state (server_GrantAccess s) = fsm_state s" "as_out (server_GrantAccess s) = as_out s @ [CbSuccess]"
  "as_AuthState (server_GrantAccess s) = as_AuthState s" "as_SessionTimeout (server_GrantAccess s) = as_SessionTimeout s"
  "as_AuthLifetime (server_GrantAccess s) = as_AuthLifetime s" "as_AuthGrace (server_GrantAccess s) = as_AuthGrace s"
  "fsm_running (server_GrantAccess s) = fsm_running s"
  by (simp_all add: server_GrantAccess_def Let_def auth_frames frame_simps)

lemma client_GrantAccess_timers:
  "maintained s \<Longrightarrow> fsm_timers (client_GrantAccess s) =
     [TIMER_TYPE_SESSION \<mapsto> (SEV_SESSION_TOUT_ST, unat (ng_value (as_SessionTimeout s))),
      TIMER_TYPE_AUTH \<mapsto> (SEV_LIFETIME_TOUT, unat (ng_value (as_AuthLifetime s) + ng_value (as_AuthGrace s)))]"
  "fsm_state (client_GrantAccess s) = fsm_state s" "as_AuthState (client_GrantAccess s) = as_AuthState s"
  "fsm_running (client_GrantAccess s) = fsm_running s" "as_SessionTimeout (client_GrantAccess s) = as_SessionTimeout s"
  "as_AuthLifetime (client_GrantAccess s) = as_AuthLifetime s" "as_AuthGrace (client_GrantAccess s) = as_AuthGrace s"
  by (simp_all add: client_GrantAccess_def Let_def maintained_def auth_frames frame_simps)

text \<open>A client takes over what the server dictates.\<close>

lemma client_granted:
  assumes "fsm_state c = SST_PENDING" "fsm_running c" "timeouts_open c" "\<not> negotiated c"
    "h_code (m_hdr m) \<notin> {MSGCODE_SESSIONTERMINATION, MSGCODE_ABORTSESSION}" "\<not> h_r (m_hdr m)"
    "se_AnswerMsg env m = ([], RC_SUCCESS)"
    "map_option word_of_int (GetEnum (m_acl m) AVPNAME_AUTHSESSIONSTATE) = Some (SESSION_STATE_MAINTAINED)"
    "GetU32 (m_acl m) AVPNAME_SESSIONTIMEOUT = Some t" "GetU32 (m_acl m) AVPNAME_AUTHLIFETIME = Some l"
    "GetU32 (m_acl m) AVPNAME_AUTHGRACE = Some g"
  shows "fsm_state (client_RxAnswer env m c) = SST_OPEN" "fsm_running (client_RxAnswer env m c)"
    "maintained (client_RxAnswer env m c)"
    "fsm_timers (client_RxAnswer env m c) =
       [TIMER_TYPE_SESSION \<mapsto> (SEV_SESSION_TOUT_ST, unat t), TIMER_TYPE_AUTH \<mapsto> (SEV_LIFETIME_TOUT, unat (l + g))]"
    "ng_value (as_SessionTimeout (client_RxAnswer env m c)) = t" "ng_value (as_AuthLifetime (client_RxAnswer env m c)) = l"
    "ng_value (as_AuthGrace (client_RxAnswer env m c)) = g"
proof -
  let ?n = "(client_negotiate (m_acl m) c)\<lparr>as_PendingMsg := Some m\<rparr>"
  let ?r = "snd (sess_MsgIdRx m (?n\<lparr>as_PendingMsg := None\<rparr>))"
  obtain z where z: "GetEnum (m_acl m) AVPNAME_AUTHSESSIONSTATE = Some z" "word_of_int z = SESSION_STATE_MAINTAINED"
    using assms(8) by auto
  have n: "fsm_state ?n = SST_PENDING" "fsm_running ?n" "maintained ?n" "ng_value (as_SessionTimeout ?n) = t"
    "ng_value (as_AuthLifetime ?n) = l" "ng_value (as_AuthGrace ?n) = g"
    using assms(1-4,9-11) z
    by (simp_all add: client_negotiate_def dictate_def negotiated_def timeouts_open_def neg_Set_def maintained_def)
  have r: "fsm_state ?r = SST_PENDING" "fsm_running ?r" "maintained ?r" "as_SessionTimeout ?r = as_SessionTimeout ?n"
    "as_AuthLifetime ?r = as_AuthLifetime ?n" "as_AuthGrace ?r = as_AuthGrace ?n"
    using n by (simp_all add: auth_frames maintained_def)
  have id: "?n\<lparr>fsm_state := SST_PENDING\<rparr> = ?n" using n(1) by simp
  have "client_RxAnswer env m c = client_act_rx env CA_RxSSA (?n\<lparr>fsm_state := SST_PENDING\<rparr>)"
    using assms(5) n(1,2) client_entry [of ?n SEV_RX_SSAA SST_PENDING CA_RxSSA "client_act_rx env"]
    by (simp add: client_RxAnswer_def client_NotifyMsg_def client_entries)
  then have "client_RxAnswer env m c = snd (client_RxDelivery env m (?n\<lparr>as_PendingMsg := None\<rparr>))"
    unfolding id by (simp add: client_act_rx_def take_pending_def)
  also have "\<dots> = client_Notify env SEV_SSAA_OK ?r"
    using assms(6,7) by (simp add: client_RxDelivery_def notify_opt_def)
  also have "\<dots> = client_GrantAccess (?r\<lparr>fsm_state := SST_OPEN\<rparr>)"
    using r(1,2) client_entry [of ?r SEV_SSAA_OK SST_OPEN CA_GrantAccess "client_act env"]
    by (simp add: client_Notify_def client_entries)
  finally have e: "client_RxAnswer env m c = client_GrantAccess (?r\<lparr>fsm_state := SST_OPEN\<rparr>)" .
  show "fsm_state (client_RxAnswer env m c) = SST_OPEN" "fsm_running (client_RxAnswer env m c)"
    "maintained (client_RxAnswer env m c)"
    "fsm_timers (client_RxAnswer env m c) =
       [TIMER_TYPE_SESSION \<mapsto> (SEV_SESSION_TOUT_ST, unat t), TIMER_TYPE_AUTH \<mapsto> (SEV_LIFETIME_TOUT, unat (l + g))]"
    "ng_value (as_SessionTimeout (client_RxAnswer env m c)) = t" "ng_value (as_AuthLifetime (client_RxAnswer env m c)) = l"
    "ng_value (as_AuthGrace (client_RxAnswer env m c)) = g"
    using r n(4-6) by (simp_all add: e client_GrantAccess_timers maintained_def)
qed

text \<open>The session that \<open>RxRequest\<close> works on, which takes the identifier of the first request.\<close>

definition with_sid :: "senv \<Rightarrow> msg \<Rightarrow> auth_session \<Rightarrow> auth_session" where
  "with_sid env m s =
     (if si_DiameterId (as_SessionId s) = []
      then s\<lparr>as_SessionId := snd (SessionId_Get (se_lp64 env) (m_acl m) empty_session_id)\<rparr> else s)"

lemma with_sid_frame:
  "fsm_state (with_sid env m s) = fsm_state s" "fsm_running (with_sid env m s) = fsm_running s"
  "timeouts_open (with_sid env m s) = timeouts_open s" "as_out (with_sid env m s) = as_out s"
  by (simp_all add: with_sid_def timeouts_open_def)

text \<open>The server's half of the exchange.\<close>

lemma server_grants:
  assumes "fsm_state s = SST_IDLE" "fsm_running s" "timeouts_open s"
    "si_DiameterId (as_SessionId s) \<noteq> [] \<or> fst (SessionId_Get (se_lp64 env) (m_acl req) empty_session_id)"
    "maintained (server_negotiate env (m_acl req) (with_sid env req s))" "perfect env"
    "h_code (m_hdr req) \<notin> {MSGCODE_SESSIONTERMINATION, MSGCODE_ABORTSESSION}" "h_r (m_hdr req)"
    "se_RequestMsg env req = ([AppSend ans], RC_SUCCESS)" "\<not> h_r (m_hdr ans)"
  obtains m u where "server_RxRequest env req s = server_GrantAccess (u\<lparr>fsm_state := SST_OPEN\<rparr>)"
    "as_out u = as_out s @ [Routed m]" "h_code (m_hdr m) = h_code (m_hdr ans)" "\<not> h_r (m_hdr m)" "maintained u"
    "map_option word_of_int (GetEnum (m_acl m) AVPNAME_AUTHSESSIONSTATE) = Some SESSION_STATE_MAINTAINED"
    "GetU32 (m_acl m) AVPNAME_SESSIONTIMEOUT = Some (ng_value (as_SessionTimeout u))"
    "GetU32 (m_acl m) AVPNAME_AUTHLIFETIME = Some (ng_value (as_AuthLifetime u))"
    "GetU32 (m_acl m) AVPNAME_AUTHGRACE = Some (ng_value (as_AuthGrace u))"
proof -
  let ?n = "server_negotiate env (m_acl req) (with_sid env req s)"
  let ?p = "?n\<lparr>as_PendingMsg := Some req\<rparr>" and ?q = "?n\<lparr>as_PendingMsg := None\<rparr>"
  have n: "fsm_state ?n = SST_IDLE" "fsm_running ?n" "timeouts_open ?n" "as_out ?n = as_out s"
    using assms(1-3) by (simp_all add: server_negotiate_frame with_sid_frame)
  have id: "?p\<lparr>fsm_state := SST_IDLE\<rparr> = ?p" using n(1) by simp
  have "server_RxRequest env req s = server_NotifyMsg env SEV_RX_SSAR req ?n"
    using assms(4,7) by (auto simp: server_RxRequest_def with_sid_def split: prod.split bool.split)
  also have "\<dots> = server_act_rx env SA_RxSSA (?p\<lparr>fsm_state := SST_IDLE\<rparr>)"
    using n(1,2) server_entry [of ?p SEV_RX_SSAR SST_IDLE SA_RxSSA "server_act_rx env"]
    by (simp add: server_NotifyMsg_def server_entries)
  also have "\<dots> = server_RxDelivery env req ?q"
    unfolding id by (simp add: server_act_rx_def take_pending_def)
  finally have e: "server_RxRequest env req s = server_RxDelivery env req ?q" .
  have q: "fsm_state ?q = SST_IDLE" "fsm_running ?q" "maintained ?q" "timeouts_open ?q" "as_out ?q = as_out s"
    using n assms(5) by (simp_all add: timeouts_open_def maintained_def)
  show ?thesis
    by (rule server_grant_delivery [OF q(1-4) assms(6,8,9,10)])
      (rule that, use e q(3,5) in \<open>simp_all add: maintained_def\<close>)
qed

text \<open>C13: a client waits for the answer to its request; an idle server whose application authorizes the request and answers it
  gets the request, knows or can read the identifier of the session, keeps state for it, and its answer is
  delivered; request and answer are not those of a termination or an abort; neither side has negotiated a value before, and the
  application of the client accepts the answer. Then both sessions are open, both hold the session timeout, the
  authorization lifetime and the grace period that the server has dictated, and the timers of the server run
  five seconds longer than those of the client (in 32 bits).\<close>

theorem grant_exchange:
  assumes "fsm_state s = SST_IDLE" "fsm_running s" "timeouts_open s"
    "si_DiameterId (as_SessionId s) \<noteq> [] \<or> fst (SessionId_Get (se_lp64 env) (m_acl req) empty_session_id)"
    "maintained (server_negotiate env (m_acl req) (with_sid env req s))" "perfect env"
    "h_code (m_hdr req) \<notin> {MSGCODE_SESSIONTERMINATION, MSGCODE_ABORTSESSION}" "h_r (m_hdr req)"
    "se_RequestMsg env req = ([AppSend ans], RC_SUCCESS)" "\<not> h_r (m_hdr ans)"
    "h_code (m_hdr ans) \<notin> {MSGCODE_SESSIONTERMINATION, MSGCODE_ABORTSESSION}"
    and "fsm_state c = SST_PENDING" "fsm_running c" "timeouts_open c" "\<not> negotiated c"
    "\<And>m. se_AnswerMsg env' m = ([], RC_SUCCESS)"
  shows "\<exists>s1 ans' c1 t l g.
    server_RxRequest env req s = s1 \<and> sent s s1 = [ans'] \<and> client_RxAnswer env' ans' c = c1 \<and>
    fsm_state s1 = SST_OPEN \<and> fsm_state c1 = SST_OPEN \<and> maintained s1 \<and> maintained c1 \<and>
    ng_value (as_SessionTimeout s1) = t \<and> ng_value (as_AuthLifetime s1) = l \<and> ng_value (as_AuthGrace s1) = g \<and>
    ng_value (as_SessionTimeout c1) = t \<and> ng_value (as_AuthLifetime c1) = l \<and> ng_value (as_AuthGrace c1) = g \<and>
    fsm_timers c1 = [TIMER_TYPE_SESSION \<mapsto> (SEV_SESSION_TOUT_ST, unat t), TIMER_TYPE_AUTH \<mapsto> (SEV_LIFETIME_TOUT, unat (l + g))] \<and>
    fsm_timers s1 = [TIMER_TYPE_SESSION \<mapsto> (SEV_SESSION_TOUT_ST, unat (t + 5)), TIMER_TYPE_AUTH \<mapsto> (SEV_LIFETIME_TOUT, unat (l + g + 5))]"
proof -
  obtain m u where u: "server_RxRequest env req s = server_GrantAccess (u\<lparr>fsm_state := SST_OPEN\<rparr>)"
    "as_out u = as_out s @ [Routed m]" "h_code (m_hdr m) = h_code (m_hdr ans)" "\<not> h_r (m_hdr m)" "maintained u"
    "map_option word_of_int (GetEnum (m_acl m) AVPNAME_AUTHSESSIONSTATE) = Some SESSION_STATE_MAINTAINED"
    "GetU32 (m_acl m) AVPNAME_SESSIONTIMEOUT = Some (ng_value (as_SessionTimeout u))"
    "GetU32 (m_acl m) AVPNAME_AUTHLIFETIME = Some (ng_value (as_AuthLifetime u))"
    "GetU32 (m_acl m) AVPNAME_AUTHGRACE = Some (ng_value (as_AuthGrace u))"
    by (rule server_grants [OF assms(1-10)])
  have code: "h_code (m_hdr m) \<notin> {MSGCODE_SESSIONTERMINATION, MSGCODE_ABORTSESSION}" using u(3) assms(11) by simp
  note c = client_granted [OF assms(12-15) code u(4) assms(16) u(6-9)]
  have "sent s (server_RxRequest env req s) = [m]"
    using u(1,2) by (simp add: sent_def server_GrantAccess_timers)
  moreover have "maintained (server_GrantAccess (u\<lparr>fsm_state := SST_OPEN\<rparr>))"
    using u(5) by (simp add: maintained_def server_GrantAccess_timers)
  ultimately show ?thesis
    using u(1) c
    by (intro exI [of _ "server_RxRequest env req s"] exI [of _ m] exI [of _ "client_RxAnswer env' m c"]
        exI [of _ "ng_value (as_SessionTimeout u)"] exI [of _ "ng_value (as_AuthLifetime u)"]
        exI [of _ "ng_value (as_AuthGrace u)"]) (simp add: server_GrantAccess_timers)
qed

subsection \<open>Bounds\<close>

text \<open>The timers of an open server session, against the values it has dictated: the session timer is 5
  seconds longer exactly when the sum fits 32 bits; for the last five values it wraps, and the server gives the
  session up before the client does.\<close>

theorem server_grace_wraps:
  "fsm_timers (server_GrantAccess s) TIMER_TYPE_SESSION = Some (SEV_SESSION_TOUT_ST, n) \<Longrightarrow>
   (ng_value (as_SessionTimeout s) < 0xfffffffb \<longleftrightarrow> n = unat (ng_value (as_SessionTimeout s)) + 5) \<and>
   (0xfffffffb \<le> ng_value (as_SessionTimeout s) \<longleftrightarrow> n < 5) \<and>
   (n < 5 \<longrightarrow> n < unat (ng_value (as_SessionTimeout s)))"
proof -
  define t where "t = ng_value (as_SessionTimeout s)"
  assume "fsm_timers (server_GrantAccess s) TIMER_TYPE_SESSION = Some (SEV_SESSION_TOUT_ST, n)"
  then have n: "n = (unat t + 5) mod 2 ^ 32"
    by (simp add: server_GrantAccess_timers t_def unat_word_ariths)
  have lt: "t < 0xfffffffb \<longleftrightarrow> unat t < 4294967291" by (simp add: word_less_nat_alt)
  have "unat t < 2 ^ 32" using unsigned_less [of t] by simp
  moreover have "n = unat t + 5" if "unat t < 4294967291" using that by (simp add: n)
  moreover have "n = unat t + 5 - 2 ^ 32" if "4294967291 \<le> unat t" "unat t < 2 ^ 32"
  proof -
    have "(unat t + 5) mod 2 ^ 32 = (unat t + 5 - 2 ^ 32) mod 2 ^ 32" using that by (subst le_mod_geq) simp_all
    with that show ?thesis by (simp add: n)
  qed
  ultimately show ?thesis unfolding t_def [symmetric] not_less [symmetric] lt
    by (cases "unat t < 4294967291") auto
qed

text \<open>Whatever the configuration and the application say, an authorization lifetime that a client sets at its beginning
  and one that a server negotiates from a request is at most the session timeout.\<close>

theorem lifetime_within_session:
  "ng_value (as_AuthLifetime (client_lifetimes env s)) \<le> ng_value (as_SessionTimeout (client_lifetimes env s)) \<and>
   (\<not> ng_isNegotiated (as_AuthLifetime s) \<longrightarrow>
     ng_value (as_AuthLifetime (server_negotiate env a s)) \<le> ng_value (as_SessionTimeout (server_negotiate env a s)))"
proof -
  have cap: "ng_value (as_AuthLifetime (cap_lifetime x)) \<le> ng_value (as_SessionTimeout (cap_lifetime x))" for x
  proof -
    have "w - 1 \<le> w" if "w < v" "0 \<le> sint (w - 1)" for v w :: u32
    proof (cases "w = 0")
      case True
      with that show ?thesis by simp
    next
      case False
      then show ?thesis by (simp add: word_le_nat_alt unat_minus_one)
    qed
    then show ?thesis by (auto simp: cap_lifetime_def neg_assign_def Let_def)
  qed
  have "ng_value (as_AuthLifetime (client_lifetimes env s)) \<le> ng_value (as_SessionTimeout (client_lifetimes env s))"
    unfolding client_lifetimes_def Let_def using cap by simp
  moreover have "ng_value (as_AuthLifetime (server_negotiate env a s)) \<le> ng_value (as_SessionTimeout (server_negotiate env a s))"
    if "\<not> ng_isNegotiated (as_AuthLifetime s)"
  proof -
    let ?x = "server_negotiate_timeout env a (server_negotiate_state env a (server_origin a s))"
    have "as_AuthLifetime ?x = as_AuthLifetime s"
      by (auto simp: server_negotiate_timeout_def server_negotiate_state_def server_origin_def Let_def split: option.split)
    then have "\<exists>y. server_negotiate_lifetime env a ?x = cap_lifetime y"
      using that by (simp add: server_negotiate_lifetime_def) blast
    then obtain y where "server_negotiate_lifetime env a ?x = cap_lifetime y" by blast
    then show ?thesis using cap [of y]
      by (auto simp: server_negotiate_def server_negotiate_grace_def split: option.split)
  qed
  ultimately show ?thesis by blast
qed

subsection \<open>Messages that go nowhere\<close>

text \<open>A request that the application sends before the session has asked for access, as the comment of
  \<open>ReStart\<close> tells it to, is discarded, and with it the Auth-Session-State hint, which the code adds in that
  state only: while it waits and when it is open, a client never adds one.\<close>

theorem early_request_discarded:
  assumes "fsm_state s = SST_IDLE" "fsm_running s" "\<not> negotiated s"
  shows "\<exists>m' t. client_Send env m s = (True, t) \<and> as_out t = as_out s @ [DiscardedMsg m'] \<and>
    map_option word_of_int (GetEnum (m_acl m') AVPNAME_AUTHSESSIONSTATE) = Some (ng_value (as_AuthState s)) \<and>
    (\<forall>s' m''. fsm_state s' \<noteq> SST_IDLE \<longrightarrow>
       GetEnum (m_acl (fst (client_hints m'' s'))) AVPNAME_AUTHSESSIONSTATE = GetEnum (m_acl m'') AVPNAME_AUTHSESSIONSTATE)"
proof -
  have h: "GetEnum (m_acl (fst (hint n g u m t))) AVPNAME_AUTHSESSIONSTATE = GetEnum (m_acl m) AVPNAME_AUTHSESSIONSTATE"
    if "n \<noteq> AVPNAME_AUTHSESSIONSTATE" for n g u m t
    using that by (auto simp: hint_def GetEnum_def GetAvp_AddAvp_other split: option.split)
  have h2: "GetEnum (m_acl (fst (case x of (m, t) \<Rightarrow> if b t then hint AVPNAME_AUTHLIFETIME g u m t else (m, t))))
      AVPNAME_AUTHSESSIONSTATE = GetEnum (m_acl (fst x)) AVPNAME_AUTHSESSIONSTATE" for x b g u
    using h [of AVPNAME_AUTHLIFETIME] by (cases x) simp
  have h3: "GetEnum (m_acl (fst (client_hints m s))) AVPNAME_AUTHSESSIONSTATE =
      GetEnum (m_acl (if fsm_state s = SST_IDLE \<and> \<not> ng_isNegotiated (as_AuthState s)
        then m\<lparr>m_acl := AddAvp AVPNAME_AUTHSESSIONSTATE False (AvpEnum (sint (ng_value (as_AuthState s)))) (m_acl m)\<rparr>
        else m)) AVPNAME_AUTHSESSIONSTATE" for m s
    unfolding client_hints_def Let_def h2 using h [of AVPNAME_SESSIONTIMEOUT] by simp
  obtain m' t where m: "client_hints m s = (m', t)" by fastforce
  have c: "same_core s t" using client_hints_same [where s = s and m = m] m by simp
  have o: "as_out t = as_out s"
  proof -
    have "as_out (snd (hint n as_SessionTimeout as_SessionTimeout_update m s)) = as_out s"
      "as_out (snd (hint n as_AuthLifetime as_AuthLifetime_update m s)) = as_out s" for n m s
      by (simp_all add: hint_def split: option.split)
    moreover from this have "as_out (snd (case x of (m, t) \<Rightarrow> if b t
        then hint n as_AuthLifetime as_AuthLifetime_update m t else (m, t))) = as_out (snd x)" for x b n
      by (cases x) simp
    ultimately have "as_out (snd (client_hints m s)) = as_out s" unfolding client_hints_def Let_def by simp
    with m show ?thesis by simp
  qed
  let ?t = "t\<lparr>as_PendingMsg := Some m'\<rparr>"
  have "client_Send env m s = (True, client_act env CA_TxSSARDiscard ?t)"
    using assms(1,2) m c client_stay [of ?t SEV_TX_SSAR CA_TxSSARDiscard env]
    by (simp add: client_Send_def client_entries same_core_def)
  then have "client_Send env m s = (True, s_emit (DiscardedMsg m') (t\<lparr>as_PendingMsg := None\<rparr>))"
    by (simp add: take_pending_def)
  moreover have "GetEnum (m_acl m') AVPNAME_AUTHSESSIONSTATE = Some (sint (ng_value (as_AuthState s)))"
    using h3 [of m s] m assms(1,3) by (simp add: negotiated_def GetEnum_def GetAvp_AddAvp_same)
  ultimately show ?thesis using o h3 by (simp add: s_emit_def)
qed

text \<open>An application of a server that answers \<open>AAA_ERR_INCOMPLETE\<close> leaves the machine as its own calls have left
  it: the code notifies event 0, that of a client's request for access, which no state of the server knows.\<close>

theorem incomplete_is_no_event:
  "fsm_state s \<noteq> SST_PENDING \<Longrightarrow> server_Notify env (server_rx_event r RC_INCOMPLETE) s = s"
proof -
  assume p: "fsm_state s \<noteq> SST_PENDING"
  have "(fsm_state s, Some SEV_REQUEST_ACCESS) \<notin> entry_key ` set server_table"
    by (simp add: server_entries entry_key_def)
  from server_wild(2) [OF this p] show ?thesis by (simp add: server_rx_event_def)
qed

text \<open>An application that begins an open session again and fails in \<open>ReStart\<close> stops its machine, but the timers of
  the session stay scheduled, and after the next beginning they are still there.\<close>

theorem failed_restart_leaves_timers:
  assumes "fsm_running s" "se_ReStart env = ([], False)" "se_ReStart env' = ([], True)"
  shows "\<not> fsm_running (client_Begin env opt s) \<and> fsm_timers (client_Begin env opt s) = fsm_timers s \<and>
    fsm_state (client_Begin env' opt' (client_Begin env opt s)) = SST_PENDING \<and>
    fsm_timers (client_Begin env' opt' (client_Begin env opt s)) = fsm_timers s"
proof -
  let ?f = "client_Begin env opt s"
  have f: "?f = fsm_Stop (client_lifetimes env s)"
    using assms(1,2) client_lifetimes_same [of s env] by (simp add: client_Begin_def same_core_def Let_def)
  then have r: "\<not> fsm_running ?f" "fsm_timers ?f = fsm_timers s"
    using client_lifetimes_same [of s env] by (simp_all add: same_core_def fsm_Stop_def)
  let ?g = "client_start env' opt' (client_lifetimes env' ?f)"
  have g: "fsm_state ?g = SST_IDLE" "fsm_running ?g" "fsm_timers ?g = fsm_timers s"
    using r client_lifetimes_same [of ?f env'] by (simp_all add: client_start_def fsm_Start_def s_emit_def same_core_def Let_def)
  have "client_Begin env' opt' ?f = client_Notify env' SEV_REQUEST_ACCESS ?g"
    using r client_lifetimes_same [of ?f env'] assms(3) by (simp add: client_Begin_def same_core_def Let_def)
  also have "\<dots> = ?g\<lparr>fsm_state := SST_PENDING\<rparr>"
    using client_entry [of ?g SEV_REQUEST_ACCESS SST_PENDING CA_None "client_act env'"] g
    by (simp add: client_Notify_def client_entries)
  finally show ?thesis using r g(3) by simp
qed

subsection \<open>Witnesses\<close>

definition demo_env :: senv where
  "demo_env = \<lparr>se_cfg = demo_cfg, se_lp64 = True, se_SetSessionTimeout = Some, se_SetDestHost = None, se_SetDestRealm = None,
     se_SetUsername = Some ''user'', se_route = (\<lambda>m. Some True), se_db_Add = (\<lambda>x. x),
     se_stateful = SESSION_STATE_MAINTAINED, se_sessionTm = 30, se_lifetimeTm = 360,
     se_graceTm = 30, se_abortRetryTm = 20, se_SetAuthLifetime = (\<lambda>_. None),
     se_SetAuthGrace = (\<lambda>x. x), se_SetAuthState = (\<lambda>_. None), se_SetClass = None, se_ReStart = ([], True),
     se_RequestMsg = (\<lambda>m. ([AppSend \<lparr>m_hdr = (m_hdr m)\<lparr>h_r := False\<rparr>, m_acl = []\<rparr>], RC_SUCCESS)),
     se_AnswerMsg = (\<lambda>m. ([], RC_SUCCESS)), se_ReAuthenticate = (\<lambda>v. 0), se_AbortSession = True, se_ReClaim = True\<rparr>"

definition demo_sid :: session_id where
  "demo_sid = \<lparr>si_counter = \<lparr>sc_High = 1, sc_Low = 2\<rparr>, si_DiameterId = ''a.net'', si_OptionalVal = []\<rparr>"

definition demo_new :: auth_session where
  "demo_new = (new_server_session demo_env 1 (\<lambda>_. 0))\<lparr>as_SessionId := demo_sid\<rparr>"

definition demo_open :: auth_session where
  "demo_open = demo_new\<lparr>fsm_state := SST_OPEN\<rparr>"

definition demo_waiting :: auth_session where
  "demo_waiting = demo_new\<lparr>fsm_state := SST_DISC\<rparr>"

definition demo_request :: msg where
  "demo_request = \<lparr>m_hdr = zero_hdr\<lparr>h_ver := 1, h_r := True, h_code := 265, h_appId := 1, h_hh := 7, h_ee := 9\<rparr>,
     m_acl = [(AVPNAME_SESSIONID, [AvpStr ''a.net;1;2'']), (AVPNAME_ORIGINHOST, [AvpStr ''a.net'']),
              (AVPNAME_ORIGINREALM, [AvpStr ''net''])]\<rparr>"

lemmas demo_defs = demo_open_def demo_waiting_def demo_new_def new_server_session_def new_auth_session_def fsm_Start_def
  demo_env_def demo_sid_def maintained_def perfect_def

theorem abort_exchange_witness:
  "\<exists>asr asa str sta s1 c1 s2 s3 c2.
    server_End demo_env demo_open = (True, s1) \<and> sent demo_open s1 = [asr] \<and>
    client_RxRequest demo_env asr demo_open = c1 \<and> sent demo_open c1 = [asa, str] \<and>
    server_RxAnswer demo_env asa s1 = s2 \<and> server_RxRequest demo_env str s2 = s3 \<and> sent s2 s3 = [sta] \<and>
    client_RxAnswer demo_env sta c1 = c2 \<and>
    \<not> fsm_running s3 \<and> fsm_timers s3 = Map.empty \<and> DbRemove (as_SessionId demo_open) \<in> set (as_out s3) \<and>
    \<not> fsm_running c2 \<and> fsm_timers c2 = Map.empty \<and> DbRemove (as_SessionId demo_open) \<in> set (as_out c2)"
  by (rule abort_exchange) (simp_all add: demo_defs)

lemma demo_reached:
  "server_reach demo_cfg (server_RxRequest demo_env demo_request (new_server_session demo_env 1 (\<lambda>_. 0)))"
  by (rule server_reach.step [OF server_reach.init server_step.Request]) (simp_all add: demo_env_def)

lemma server_negotiate_maintained:
  "maintained (server_negotiate env a s) = maintained (server_negotiate_state env a (server_origin a s))"
  by (auto simp: server_negotiate_def server_negotiate_grace_def server_negotiate_lifetime_def
      server_negotiate_timeout_def cap_lifetime_def maintained_def Let_def split: option.split)

lemma demo_grant_facts:
  "maintained (server_negotiate demo_env (m_acl demo_request)
     (with_sid demo_env demo_request (new_server_session demo_env 1 (\<lambda>_. 0))))"
  "fst (SessionId_Get (se_lp64 demo_env) (m_acl demo_request) empty_session_id)"
proof -
  show "maintained (server_negotiate demo_env (m_acl demo_request)
     (with_sid demo_env demo_request (new_server_session demo_env 1 (\<lambda>_. 0))))"
    unfolding server_negotiate_maintained
    by (simp add: server_negotiate_state_def server_origin_def with_sid_def demo_defs
        demo_request_def GetStr_def GetEnum_def GetAvp_def neg_Set_def Let_def)
  show "fst (SessionId_Get (se_lp64 demo_env) (m_acl demo_request) empty_session_id)"
    by (simp add: SessionId_Get_def demo_request_def GetStr_def GetAvp_def demo_env_def find_u32_def Let_def
        split: option.split)
qed

lemma demo_opened:
  "fsm_state (server_RxRequest demo_env demo_request (new_server_session demo_env 1 (\<lambda>_. 0))) = SST_OPEN"
  by (rule server_grants [where s = "new_server_session demo_env 1 (\<lambda>_. 0)" and env = demo_env and req = demo_request
        and ans = "\<lparr>m_hdr = (m_hdr demo_request)\<lparr>h_r := False\<rparr>, m_acl = []\<rparr>"])
    (use demo_grant_facts in \<open>simp_all add: server_GrantAccess_timers\<close>,
     simp_all add: demo_defs timeouts_open_def demo_request_def zero_hdr_def)

theorem server_session_timers_witness:
  "\<exists>s a b. server_reach demo_cfg s \<and> maintained s \<and>
     fsm_timers s = [TIMER_TYPE_SESSION \<mapsto> (SEV_SESSION_TOUT_ST, a), TIMER_TYPE_AUTH \<mapsto> (SEV_LIFETIME_TOUT, b)]"
  using server_session_timers [OF demo_reached] demo_opened demo_reached by blast

theorem client_session_timers_witness:
  "fsm_timers (client_Begin demo_env None (new_auth_session demo_env 1 (\<lambda>_. 0))) = Map.empty"
proof -
  have "client_reach True demo_cfg (client_Begin demo_env None (new_auth_session demo_env 1 (\<lambda>_. 0)))"
    by (rule client_reach.step [OF client_reach.init client_step.Begin]) (simp_all add: demo_env_def new_auth_session_def)
  moreover have "fsm_state (client_Begin demo_env None (new_auth_session demo_env 1 (\<lambda>_. 0))) = SST_PENDING"
    by code_simp
  ultimately show ?thesis using client_session_timers by blast
qed

theorem client_waits_for_STA_witness:
  "waiting (snd (client_Send demo_env demo_request demo_waiting)) \<or>
   (\<exists>env m. snd (client_Send demo_env demo_request demo_waiting) = client_RxAnswer env m demo_waiting \<and>
      h_code (m_hdr m) = MSGCODE_SESSIONTERMINATION)"
  by (rule client_waits_for_STA [OF client_step.Send]) (simp_all add: demo_defs waiting_def)

theorem server_waits_for_STR_witness:
  "waiting (snd (server_End demo_env demo_waiting)) \<or>
   (\<exists>env m. snd (server_End demo_env demo_waiting) = server_RxRequest env m demo_waiting \<and>
      h_code (m_hdr m) = MSGCODE_SESSIONTERMINATION) \<or>
   (\<exists>env m. snd (server_End demo_env demo_waiting) = server_RxAnswer env m demo_waiting \<and>
      h_code (m_hdr m) = MSGCODE_ABORTSESSION \<and> MsgResult m \<noteq> RCODE_SUCCESS)"
  by (rule server_waits_for_STR [OF server_step.End]) (simp_all add: demo_defs waiting_def)

theorem reauth_value_lost_witness:
  "\<exists>rar s1 raa c1.
    server_ReAuth demo_env 1 demo_open = (True, s1) \<and> sent demo_open s1 = [rar] \<and>
    GetU32 (m_acl rar) AVPNAME_REAUTHREQTYPE = Some 0 \<and>
    client_RxRequest demo_env rar demo_open = c1 \<and> as_out c1 = as_out demo_open @ [CbReAuthenticate 0, Routed raa] \<and>
    GetU32 (m_acl raa) AVPNAME_RESULTCODE = Some (se_ReAuthenticate demo_env 0) \<and>
    as_out (server_RxAnswer demo_env raa s1) = as_out s1 @ [CbReAuthenticate 0]"
  by (rule reauth_value_lost) (simp_all add: demo_defs)

theorem grant_exchange_witness:
  "\<exists>s1 ans' c1 t l g.
    server_RxRequest demo_env demo_request (new_server_session demo_env 1 (\<lambda>_. 0)) = s1 \<and>
    sent (new_server_session demo_env 1 (\<lambda>_. 0)) s1 = [ans'] \<and>
    client_RxAnswer demo_env ans' (demo_new\<lparr>fsm_state := SST_PENDING\<rparr>) = c1 \<and>
    fsm_state s1 = SST_OPEN \<and> fsm_state c1 = SST_OPEN \<and> maintained s1 \<and> maintained c1 \<and>
    ng_value (as_SessionTimeout s1) = t \<and> ng_value (as_AuthLifetime s1) = l \<and> ng_value (as_AuthGrace s1) = g \<and>
    ng_value (as_SessionTimeout c1) = t \<and> ng_value (as_AuthLifetime c1) = l \<and> ng_value (as_AuthGrace c1) = g \<and>
    fsm_timers c1 = [TIMER_TYPE_SESSION \<mapsto> (SEV_SESSION_TOUT_ST, unat t), TIMER_TYPE_AUTH \<mapsto> (SEV_LIFETIME_TOUT, unat (l + g))] \<and>
    fsm_timers s1 = [TIMER_TYPE_SESSION \<mapsto> (SEV_SESSION_TOUT_ST, unat (t + 5)), TIMER_TYPE_AUTH \<mapsto> (SEV_LIFETIME_TOUT, unat (l + g + 5))]"
proof (rule grant_exchange [where ans = "\<lparr>m_hdr = (m_hdr demo_request)\<lparr>h_r := False\<rparr>, m_acl = []\<rparr>"])
qed (use demo_grant_facts in simp_all, simp_all add: demo_defs timeouts_open_def negotiated_def demo_request_def zero_hdr_def)

theorem server_grace_wraps_witness:
  "\<exists>n. fsm_timers (server_GrantAccess (demo_open\<lparr>as_SessionTimeout := \<lparr>ng_value = 0xffffffff, ng_isNegotiated = True\<rparr>\<rparr>))
      TIMER_TYPE_SESSION = Some (SEV_SESSION_TOUT_ST, n) \<and> n < 5"
proof -
  let ?s = "demo_open\<lparr>as_SessionTimeout := \<lparr>ng_value = 0xffffffff, ng_isNegotiated = True\<rparr>\<rparr>"
  have "fsm_timers (server_GrantAccess ?s) TIMER_TYPE_SESSION = Some (SEV_SESSION_TOUT_ST, 4)"
    by (simp add: server_GrantAccess_timers)
  with server_grace_wraps [OF this] show ?thesis by (intro exI [of _ 4]) simp
qed

theorem lifetime_within_session_witness:
  "ng_value (as_AuthLifetime (server_negotiate demo_env [] demo_new)) \<le>
   ng_value (as_SessionTimeout (server_negotiate demo_env [] demo_new))"
  using lifetime_within_session [of demo_env demo_new "[]"] by (simp add: demo_defs)

theorem early_request_discarded_witness:
  "\<exists>m' t. client_Send demo_env demo_request demo_new = (True, t) \<and> as_out t = as_out demo_new @ [DiscardedMsg m']"
  using early_request_discarded [of demo_new demo_env demo_request] by (auto simp: demo_defs negotiated_def)

theorem incomplete_is_no_event_witness:
  "server_Notify demo_env (server_rx_event True RC_INCOMPLETE) demo_new = demo_new"
  by (rule incomplete_is_no_event) (simp add: demo_defs)

theorem failed_restart_leaves_timers_witness:
  "fsm_timers (client_Begin demo_env None
     (client_Begin (demo_env\<lparr>se_ReStart := ([], False)\<rparr>) None (client_GrantAccess demo_open))) TIMER_TYPE_SESSION
   = Some (SEV_SESSION_TOUT_ST, 30)"
proof -
  have "fsm_running (client_GrantAccess demo_open)" by (simp add: client_GrantAccess_timers demo_defs)
  from failed_restart_leaves_timers [OF this, of "demo_env\<lparr>se_ReStart := ([], False)\<rparr>" demo_env None None]
  show ?thesis by (simp add: client_GrantAccess_timers demo_defs)
qed

end
