(* ===== verification/Acct_Base.thy ===== *)
theory Acct_Base
  imports Session_Base
begin

text \<open>
  What the accounting sessions of client and server share: attributes
  (\<open>libdiameter/include/aaa_session_attributes.h\<close>), \<open>DiameterAcctSession\<close> (\<open>include/aaa_session.h\<close>), the states and
  events of \<open>include/aaa_session_acct_fsm.h\<close>.
\<close>

abbreviation AVPNAME_ACCTREC_TYPE :: string where "AVPNAME_ACCTREC_TYPE \<equiv> ''Accounting-Record-Type''"
abbreviation AVPNAME_ACCTREC_NUM :: string where "AVPNAME_ACCTREC_NUM \<equiv> ''Accounting-Record-Number''"
abbreviation AVPNAME_ACCTSUBSID :: string where "AVPNAME_ACCTSUBSID \<equiv> ''Accounting-Sub-Session-Id''"
abbreviation AVPNAME_ACCTREALTIME :: string where "AVPNAME_ACCTREALTIME \<equiv> ''Accounting-Realtime-Required''"
abbreviation AVPNAME_ACCTSID :: string where "AVPNAME_ACCTSID \<equiv> ''Acct-Session-Id''"
abbreviation AVPNAME_ACCTMULTISID :: string where "AVPNAME_ACCTMULTISID \<equiv> ''Acct-Multi-Session-Id''"
abbreviation AVPNAME_ACCTINTERVAL :: string where "AVPNAME_ACCTINTERVAL \<equiv> ''Acct-Interim-Interval''"
abbreviation RECTYPE_EVENT :: u32 where "RECTYPE_EVENT \<equiv> 1"
abbreviation RECTYPE_START :: u32 where "RECTYPE_START \<equiv> 2"
abbreviation RECTYPE_INTERIM :: u32 where "RECTYPE_INTERIM \<equiv> 3"
abbreviation RECTYPE_STOP :: u32 where "RECTYPE_STOP \<equiv> 4"
abbreviation REALTIME_DELIVER_AND_GRANT :: u32 where "REALTIME_DELIVER_AND_GRANT \<equiv> 1"
abbreviation REALTIME_GRANT_AND_STORE :: u32 where "REALTIME_GRANT_AND_STORE \<equiv> 2"
abbreviation REALTIME_GRANT_AND_LOSE :: u32 where "REALTIME_GRANT_AND_LOSE \<equiv> 3"

subsection \<open>States and events\<close>

datatype acct_st =
    AST_IDLE
  | AST_OPEN
  | AST_PENDING_S
  | AST_PENDING_I
  | AST_PENDING_E
  | AST_PENDING_B
  | AST_PENDING_L

datatype acct_ev =
    AEV_REQUEST_ACCESS
  | AEV_REQUEST_ONETIME_ACCESS
  | AEV_REC_IN_STORAGE
  | AEV_RX_ACA_OK
  | AEV_FTS_NOT_DAG
  | AEV_FTS_AND_GAL
  | AEV_FTS_NOT_GAL
  | AEV_RX_ACA_FAIL_AND_GAL
  | AEV_RX_ACA_FAIL_NOT_GAL
  | AEV_INT_EXPIRE
  | AEV_RX_ACA_FAIL
  | AEV_FTS
  | AEV_FTS_BUF
  | AEV_FTS_NO_BUF
  | AEV_RX_ACR_START_OK
  | AEV_RX_ACR_EV_OK
  | AEV_RX_ACR_INT_OK
  | AEV_RX_ACR_STOP_OK
  | AEV_RX_ACR_NO_BUF
  | AEV_SESSION_TOUT
  | AEV_STOP

subsection \<open>Attributes\<close>

text \<open>The application of an accounting session, with the values of \<open>DIAMETER_CFG_ACCT_SESSION\<close>.\<close>

record aenv = sess_env +
  ae_sessionTm :: u32
  ae_recIntervalTm :: u32
  ae_realtime :: u32
  ae_SetRealTimeRequired :: "u32 option"
  ae_SetInterimInterval :: "u32 option"
  ae_SetRadiusAcctSessionId :: "string option"
  ae_SetMultiSessionId :: "string option"

record acct_session = "(acct_st, acct_ev) session" +
  ac_SubSessionId :: "64 word"
  ac_Realtime :: neg
  ac_Interim :: neg
  ac_RecordType :: u32
  ac_RecordNumber :: u32
  ac_RadiusId :: "string option"
  ac_MultiId :: "string option"
  ac_Backward :: bool

text \<open>A session as its constructor leaves it; neither the message identifiers nor the sub-session are initialised.\<close>

definition new_acct_session :: "aenv \<Rightarrow> u32 \<Rightarrow> (nat \<Rightarrow> u32) \<Rightarrow> 64 word \<Rightarrow> acct_session" where
  "new_acct_session env appId junk subJunk =
     \<lparr>fsm_state = AST_IDLE, fsm_running = False, fsm_timers = Map.empty, as_SessionId = empty_session_id,
      as_LastTxHopId = junk 0, as_LastTxEndId = junk 1, as_LastRxHopId = junk 2, as_LastRxEndId = junk 3,
      as_ApplicationId = appId, as_DestinationHost = None, as_DestinationRealm = None, as_Username = None,
      as_SessionTimeout = \<lparr>ng_value = ae_sessionTm env, ng_isNegotiated = False\<rparr>,
      as_PendingMsg = None, as_hop_gen = 0, as_end_gen = 0, as_rands = 0, as_out = [], as_fault = False,
      ac_SubSessionId = subJunk,
      ac_Realtime = \<lparr>ng_value = ae_realtime env, ng_isNegotiated = False\<rparr>,
      ac_Interim = \<lparr>ng_value = ae_recIntervalTm env, ng_isNegotiated = False\<rparr>,
      ac_RecordType = RECTYPE_EVENT, ac_RecordNumber = 0, ac_RadiusId = None, ac_MultiId = None,
      ac_Backward = False\<rparr>"

subsection \<open>Messages\<close>

fun as_u64 :: "avp_value \<Rightarrow> 64 word option" where
  "as_u64 (AvpU64 w) = Some w" | "as_u64 _ = None"

definition GetU64 :: "acl \<Rightarrow> string \<Rightarrow> 64 word option" where
  "GetU64 cs name = Option.bind (GetAvp cs name 0) as_u64"

text \<open>The value of an enumerated AVP, which the code reads as an unsigned number.\<close>

definition GetEnumU :: "acl \<Rightarrow> string \<Rightarrow> u32 option" where
  "GetEnumU cs name = map_option word_of_int (GetEnum cs name)"

definition acct_hdr :: "bool \<Rightarrow> ('s, 'e, 'x) session_scheme \<Rightarrow> msg_hdr" where
  "acct_hdr r s = (session_hdr MSGCODE_ACCOUNTING r)\<lparr>h_appId := as_ApplicationId s\<rparr>"

definition recnum_avp :: "'x acct_session_scheme \<Rightarrow> acl" where
  "recnum_avp s = [(AVPNAME_ACCTREC_NUM, [AvpU32 (ac_RecordNumber s)])]"

definition rectype_avp :: "'x acct_session_scheme \<Rightarrow> acl" where
  "rectype_avp s = [(AVPNAME_ACCTREC_TYPE, [AvpEnum (sint (ac_RecordType s))])]"

definition acctid_avps :: "'x acct_session_scheme \<Rightarrow> acl" where
  "acctid_avps s =
     [(AVPNAME_ACCTAPPID, [AvpU32 (as_ApplicationId s)]), (AVPNAME_ACCTSUBSID, [AvpU64 (ac_SubSessionId s)])]"

definition policy_avps :: "'x acct_session_scheme \<Rightarrow> acl" where
  "policy_avps s =
     [(AVPNAME_ACCTREALTIME, [AvpEnum (sint (ng_value (ac_Realtime s)))]),
      (AVPNAME_ACCTINTERVAL, [AvpU32 (ng_value (ac_Interim s))])]"

definition optional_avps :: "'x acct_session_scheme \<Rightarrow> acl" where
  "optional_avps s =
     (case ac_RadiusId s of None \<Rightarrow> [] | Some v \<Rightarrow> [(AVPNAME_ACCTSID, [AvpStr v])]) @
     (case ac_MultiId s of None \<Rightarrow> [] | Some v \<Rightarrow> [(AVPNAME_ACCTMULTISID, [AvpStr v])]) @ user_avp s"

end
