(* ===== verification/Acct_Client.thy ===== *)
theory Acct_Client
  imports Acct_Base
begin

text \<open>
  The accounting sessions of a client: the state table and actions of a sub-session
  (\<open>libdiameter/include/aaa_session_acct_client_fsm.h\<close>), the requests it sends
  (\<open>src/aaa_session_acct_client_fsm.cxx\<close>), the sub-session itself (\<open>include/aaa_session_client.inl\<close>) and the parent
  session that answers are looked up in (\<open>src/aaa_session_client.cxx\<close>). The collector of records is a class of the
  application: its state is a field of the sub-session, its virtual functions are the record \<open>collector\<close>. Sending a
  request raises an event when it fails; no action of such an event sends a request, so that there are two
  levels of \<open>Notify\<close>.
\<close>

subsection \<open>The collector\<close>

text \<open>\<open>DiameterClientAcctRecCollector\<close>, over a state of its own.\<close>

record 'c collector =
  co_GenerateRecord :: "acl \<Rightarrow> int \<Rightarrow> int \<Rightarrow> 'c \<Rightarrow> acl \<times> 'c"
  co_IsLastRecordInStorage :: "'c \<Rightarrow> bool"
  co_IsStorageSpaceAvailable :: "'c \<Rightarrow> bool"
  co_StoreLastRecord :: "int \<Rightarrow> 'c \<Rightarrow> 'c"
  co_DeleteLastRecord :: "int \<Rightarrow> 'c \<Rightarrow> 'c"

record 'c acct_client = acct_session +
  cc_records :: 'c

definition has_record :: "'c collector \<Rightarrow> 'c acct_client \<Rightarrow> bool" where
  "has_record co s \<longleftrightarrow> co_IsLastRecordInStorage co (cc_records s)"

definition has_space :: "'c collector \<Rightarrow> 'c acct_client \<Rightarrow> bool" where
  "has_space co s \<longleftrightarrow> co_IsStorageSpaceAvailable co (cc_records s)"

definition store_record :: "'c collector \<Rightarrow> u32 \<Rightarrow> 'c acct_client \<Rightarrow> 'c acct_client" where
  "store_record co ty s =
     s_emit (CollectorStored (sint ty)) (s\<lparr>cc_records := co_StoreLastRecord co (sint ty) (cc_records s)\<rparr>)"

definition delete_record :: "'c collector \<Rightarrow> 'c acct_client \<Rightarrow> 'c acct_client" where
  "delete_record co s =
     s_emit (CollectorDeleted (sint (ac_RecordType s)))
       (s\<lparr>cc_records := co_DeleteLastRecord co (sint (ac_RecordType s)) (cc_records s)\<rparr>)"

subsection \<open>The state table\<close>

datatype acct_client_ac =
    ACA_None
  | ACA_TxACR
  | ACA_RxACASuccess
  | ACA_InterimTimeout
  | ACA_StoreStartRecord
  | ACA_StoreStopRecord
  | ACA_StoreInterimRecord
  | ACA_StoreEventRecord
  | ACA_StartIntTimer
  | ACA_DeleteRecord
  | ACA_Disconnect

definition acct_idle_entries :: "(acct_st, acct_ev, acct_client_ac) fsm_entry list" where
  "acct_idle_entries =
    [FsmEntry AST_IDLE (Some AEV_REQUEST_ACCESS) AST_PENDING_S ACA_TxACR,
     FsmEntry AST_IDLE (Some AEV_REQUEST_ONETIME_ACCESS) AST_PENDING_E ACA_TxACR,
     FsmEntry AST_IDLE (Some AEV_REC_IN_STORAGE) AST_PENDING_B ACA_TxACR,
     FsmEntry AST_IDLE None AST_IDLE ACA_None]"

definition acct_pending_s_entries :: "(acct_st, acct_ev, acct_client_ac) fsm_entry list" where
  "acct_pending_s_entries =
    [FsmEntry AST_PENDING_S (Some AEV_RX_ACA_OK) AST_OPEN ACA_RxACASuccess,
     FsmEntry AST_PENDING_S (Some AEV_FTS_NOT_DAG) AST_OPEN ACA_StoreStartRecord,
     FsmEntry AST_PENDING_S (Some AEV_FTS_AND_GAL) AST_OPEN ACA_StartIntTimer,
     FsmEntry AST_PENDING_S (Some AEV_FTS_NOT_GAL) AST_IDLE ACA_Disconnect,
     FsmEntry AST_PENDING_S (Some AEV_RX_ACA_FAIL_AND_GAL) AST_OPEN ACA_StartIntTimer,
     FsmEntry AST_PENDING_S (Some AEV_RX_ACA_FAIL_NOT_GAL) AST_IDLE ACA_Disconnect,
     FsmEntry AST_PENDING_S (Some AEV_STOP) AST_PENDING_S ACA_StoreStopRecord,
     FsmEntry AST_PENDING_S None AST_PENDING_S ACA_None]"

definition acct_open_entries :: "(acct_st, acct_ev, acct_client_ac) fsm_entry list" where
  "acct_open_entries =
    [FsmEntry AST_OPEN (Some AEV_INT_EXPIRE) AST_PENDING_I ACA_InterimTimeout,
     FsmEntry AST_OPEN (Some AEV_STOP) AST_PENDING_L ACA_TxACR,
     FsmEntry AST_OPEN None AST_OPEN ACA_None]"

definition acct_pending_i_entries :: "(acct_st, acct_ev, acct_client_ac) fsm_entry list" where
  "acct_pending_i_entries =
    [FsmEntry AST_PENDING_I (Some AEV_RX_ACA_OK) AST_OPEN ACA_RxACASuccess,
     FsmEntry AST_PENDING_I (Some AEV_FTS_NOT_DAG) AST_OPEN ACA_StoreInterimRecord,
     FsmEntry AST_PENDING_I (Some AEV_FTS_AND_GAL) AST_OPEN ACA_StartIntTimer,
     FsmEntry AST_PENDING_I (Some AEV_FTS_NOT_GAL) AST_IDLE ACA_Disconnect,
     FsmEntry AST_PENDING_I (Some AEV_RX_ACA_FAIL_AND_GAL) AST_OPEN ACA_StartIntTimer,
     FsmEntry AST_PENDING_I (Some AEV_RX_ACA_FAIL_NOT_GAL) AST_IDLE ACA_Disconnect,
     FsmEntry AST_PENDING_I (Some AEV_STOP) AST_PENDING_I ACA_StoreStopRecord,
     FsmEntry AST_PENDING_I None AST_PENDING_I ACA_None]"

definition acct_pending_e_entries :: "(acct_st, acct_ev, acct_client_ac) fsm_entry list" where
  "acct_pending_e_entries =
    [FsmEntry AST_PENDING_E (Some AEV_RX_ACA_OK) AST_IDLE ACA_RxACASuccess,
     FsmEntry AST_PENDING_E (Some AEV_FTS_BUF) AST_IDLE ACA_StoreEventRecord,
     FsmEntry AST_PENDING_E (Some AEV_FTS_NO_BUF) AST_IDLE ACA_None,
     FsmEntry AST_PENDING_E (Some AEV_RX_ACA_FAIL) AST_IDLE ACA_None,
     FsmEntry AST_PENDING_E None AST_PENDING_E ACA_None]"

definition acct_pending_b_entries :: "(acct_st, acct_ev, acct_client_ac) fsm_entry list" where
  "acct_pending_b_entries =
    [FsmEntry AST_PENDING_B (Some AEV_RX_ACA_OK) AST_IDLE ACA_RxACASuccess,
     FsmEntry AST_PENDING_B (Some AEV_FTS) AST_IDLE ACA_None,
     FsmEntry AST_PENDING_B (Some AEV_RX_ACA_FAIL) AST_IDLE ACA_DeleteRecord,
     FsmEntry AST_PENDING_B None AST_PENDING_B ACA_None]"

definition acct_pending_l_entries :: "(acct_st, acct_ev, acct_client_ac) fsm_entry list" where
  "acct_pending_l_entries =
    [FsmEntry AST_PENDING_L (Some AEV_RX_ACA_OK) AST_IDLE ACA_RxACASuccess,
     FsmEntry AST_PENDING_L (Some AEV_FTS_BUF) AST_IDLE ACA_StoreStopRecord,
     FsmEntry AST_PENDING_L (Some AEV_FTS_NO_BUF) AST_IDLE ACA_None,
     FsmEntry AST_PENDING_L (Some AEV_RX_ACA_FAIL) AST_IDLE ACA_None,
     FsmEntry AST_PENDING_L None AST_PENDING_L ACA_None]"

definition acct_client_table :: "(acct_st, acct_ev, acct_client_ac) fsm_entry list" where
  "acct_client_table =
     acct_idle_entries @ acct_pending_s_entries @ acct_open_entries @ acct_pending_i_entries @
     acct_pending_e_entries @ acct_pending_b_entries @ acct_pending_l_entries"

lemmas acct_client_entries = acct_client_table_def acct_idle_entries_def acct_pending_s_entries_def
  acct_open_entries_def acct_pending_i_entries_def acct_pending_e_entries_def acct_pending_b_entries_def
  acct_pending_l_entries_def

lemma acct_client_table_built: "build_from [] acct_client_table = Inr acct_client_table"
  by (simp add: acct_client_entries AddStateTableEntry_def AddWildcardStateTableEntry_def FindStateTableEntry_def)

subsection \<open>Actions\<close>

definition arm_interim :: "'c acct_client \<Rightarrow> 'c acct_client" where
  "arm_interim s = s_timer AEV_INT_EXPIRE (ng_value (ac_Interim s)) TIMER_TYPE_INTERVAL s"

definition acct_RxACASuccess :: "'c collector \<Rightarrow> 'c acct_client \<Rightarrow> 'c acct_client" where
  "acct_RxACASuccess co s =
     s_emit CbSuccess
       (if has_record co s then delete_record co s
        else if ac_RecordType s = RECTYPE_START \<or> ac_RecordType s = RECTYPE_INTERIM
        then arm_interim (CancelAllTimer s)
        else s)"

definition acct_StartIntTimer :: "'c acct_client \<Rightarrow> 'c acct_client" where
  "acct_StartIntTimer s =
     (let s1 = CancelAllTimer s
      in s_timer AEV_SESSION_TOUT (ng_value (as_SessionTimeout s1)) TIMER_TYPE_SESSION s1)"

definition acct_StoreRecord :: "'c collector \<Rightarrow> u32 \<Rightarrow> 'c acct_client \<Rightarrow> 'c acct_client" where
  "acct_StoreRecord co ty s =
     (let s1 = store_record co ty (CancelAllTimer s)
      in if ty = RECTYPE_START \<or> ty = RECTYPE_INTERIM then arm_interim s1 else s1)"

text \<open>The actions that send nothing. \<open>DiameterSession::Reset\<close>, which \<open>Disconnect\<close> calls, is empty.\<close>

fun acct_act0 :: "'c collector \<Rightarrow> acct_client_ac \<Rightarrow> 'c acct_client \<Rightarrow> 'c acct_client" where
  "acct_act0 co ACA_None s = s"
| "acct_act0 co ACA_TxACR s = s"
| "acct_act0 co ACA_RxACASuccess s = acct_RxACASuccess co s"
| "acct_act0 co ACA_InterimTimeout s = s"
| "acct_act0 co ACA_StoreStartRecord s = acct_StoreRecord co RECTYPE_START s"
| "acct_act0 co ACA_StoreStopRecord s = acct_StoreRecord co RECTYPE_STOP s"
| "acct_act0 co ACA_StoreInterimRecord s = acct_StoreRecord co RECTYPE_INTERIM s"
| "acct_act0 co ACA_StoreEventRecord s = acct_StoreRecord co RECTYPE_EVENT s"
| "acct_act0 co ACA_StartIntTimer s = acct_StartIntTimer s"
| "acct_act0 co ACA_DeleteRecord s = delete_record co s"
| "acct_act0 co ACA_Disconnect s = CancelAllTimer s"

text \<open>\<open>Notify\<close> for the events none of whose actions is \<open>TxACR\<close>.\<close>

definition acct_Notify0 :: "'c collector \<Rightarrow> acct_ev \<Rightarrow> 'c acct_client \<Rightarrow> 'c acct_client" where
  "acct_Notify0 co ev s = fsm_Event acct_client_table (acct_act0 co) s ev"

subsection \<open>\<open>TxACR\<close>\<close>

definition acr_msg :: "aenv \<Rightarrow> 'c acct_client \<Rightarrow> msg" where
  "acr_msg env s =
     \<lparr>m_hdr = acct_hdr True s,
      m_acl = SessionId_Set (as_SessionId s) [] @ origin_avps env @ recnum_avp s @ rectype_avp s @ acctid_avps s @
        policy_avps s @ optional_avps s @
        (case as_DestinationHost s of None \<Rightarrow> [] | Some h \<Rightarrow> [(AVPNAME_DESTHOST, [AvpStr h])]) @ state_avp env\<rparr>"

text \<open>The event of a failure to send.\<close>

definition fts_event :: "'c collector \<Rightarrow> 'c acct_client \<Rightarrow> acct_ev" where
  "fts_event co s =
     (if has_record co s then AEV_FTS
      else if ac_RecordType s = RECTYPE_EVENT \<or> ac_RecordType s = RECTYPE_STOP
      then (if has_space co s then AEV_FTS_BUF else AEV_FTS_NO_BUF)
      else if has_space co s \<and> ng_value (ac_Realtime s) \<noteq> REALTIME_DELIVER_AND_GRANT then AEV_FTS_NOT_DAG
      else if ng_value (ac_Realtime s) = REALTIME_GRANT_AND_LOSE then AEV_FTS_AND_GAL
      else AEV_FTS_NOT_GAL)"

definition acct_Failed :: "'c acct_client \<Rightarrow> 'c acct_client" where
  "acct_Failed s = s_emit (CbFailed (sint (ac_RecordNumber s))) s"

text \<open>The next request of a session, with the AVPs that the collector makes of it.\<close>

definition acct_record :: "aenv \<Rightarrow> 'c collector \<Rightarrow> 'c acct_client \<Rightarrow> msg \<times> 'c acct_client" where
  "acct_record env co s =
     (let s1 = s\<lparr>ac_RecordNumber := ac_RecordNumber s + 1\<rparr>;
          m = acr_msg env s1;
          (a, c) = co_GenerateRecord co (if ac_Backward s1 then [] else m_acl m) (sint (ac_RecordType s1))
                     (sint (ac_RecordNumber s1)) (cc_records s1)
      in (m\<lparr>m_acl := a\<rparr>, s1\<lparr>cc_records := c\<rparr>))"

definition acct_TxACR :: "aenv \<Rightarrow> 'c collector \<Rightarrow> 'c acct_client \<Rightarrow> 'c acct_client" where
  "acct_TxACR env co s =
     (let (m, s1) = acct_record env co s in
      if ac_Backward s1 then s1
      else case sess_TxDelivery env m s1 of
             (Some False, s2) \<Rightarrow> acct_Failed (acct_Notify0 co (fts_event co s2) s2)
           | (_, s2) \<Rightarrow> s2)"

definition acct_act :: "aenv \<Rightarrow> 'c collector \<Rightarrow> acct_client_ac \<Rightarrow> 'c acct_client \<Rightarrow> 'c acct_client" where
  "acct_act env co a s =
     (if a = ACA_TxACR then acct_TxACR env co (CancelAllTimer s)
      else if a = ACA_InterimTimeout
      then acct_TxACR env co ((CancelAllTimer s)\<lparr>ac_RecordType := RECTYPE_INTERIM\<rparr>)
      else acct_act0 co a s)"

definition acct_Notify :: "aenv \<Rightarrow> 'c collector \<Rightarrow> acct_ev \<Rightarrow> 'c acct_client \<Rightarrow> 'c acct_client" where
  "acct_Notify env co ev s = fsm_Event acct_client_table (acct_act env co) s ev"

subsection \<open>The sub-session\<close>

text \<open>What \<open>Begin\<close> asks the application; the multi-session id is assigned from the wrong variable.\<close>

definition acct_attributes :: "aenv \<Rightarrow> 'c acct_client \<Rightarrow> 'c acct_client" where
  "acct_attributes env s =
     (let rsid = ae_SetRadiusAcctSessionId env;
          s1 = (case rsid of None \<Rightarrow> s | Some v \<Rightarrow> s\<lparr>ac_RadiusId := Some v\<rparr>);
          s2 = (case ae_SetMultiSessionId env of None \<Rightarrow> s1 | Some _ \<Rightarrow> s1\<lparr>ac_MultiId := rsid\<rparr>)
      in s2\<lparr>ac_Realtime := opt_assign (ae_SetRealTimeRequired env) (ac_Realtime s2),
            ac_Interim := opt_assign (ae_SetInterimInterval env) (ac_Interim s2)\<rparr>)"

definition acct_Begin :: "aenv \<Rightarrow> 'c collector \<Rightarrow> bool \<Rightarrow> 'c acct_client \<Rightarrow> 'c acct_client" where
  "acct_Begin env co oneTime s =
     (let s1 = acct_attributes env s in
      if has_record co s1 then acct_Notify env co AEV_REC_IN_STORAGE s1
      else if oneTime then acct_Notify env co AEV_REQUEST_ONETIME_ACCESS (s1\<lparr>ac_RecordType := RECTYPE_EVENT\<rparr>)
      else acct_Notify env co AEV_REQUEST_ACCESS (s1\<lparr>ac_RecordType := RECTYPE_START\<rparr>))"

definition acct_Send :: "aenv \<Rightarrow> 'c collector \<Rightarrow> msg \<Rightarrow> 'c acct_client \<Rightarrow> 'c acct_client" where
  "acct_Send env co msg s =
     (case sess_TxDelivery env msg s of
        (Some False, s1) \<Rightarrow> acct_Failed (acct_Notify env co (fts_event co s1) s1)
      | (_, s1) \<Rightarrow> s1)"

definition acct_RxRequest :: "msg \<Rightarrow> 'c acct_client \<Rightarrow> 'c acct_client" where
  "acct_RxRequest msg s = s_emit (DiscardedMsg msg) s"

text \<open>What an answer sets, and the event it stands for.\<close>

definition acct_dictate :: "acl \<Rightarrow> 'c acct_client \<Rightarrow> 'c acct_client" where
  "acct_dictate a s =
     s\<lparr>ac_RecordType := (case GetEnumU a AVPNAME_ACCTREC_TYPE of None \<Rightarrow> ac_RecordType s | Some t \<Rightarrow> t),
       ac_Realtime := opt_assign (GetEnumU a AVPNAME_ACCTREALTIME) (ac_Realtime s),
       ac_Interim := opt_assign (GetU32 a AVPNAME_ACCTINTERVAL) (ac_Interim s)\<rparr>"

definition aca_fail_event :: "'c collector \<Rightarrow> 'c acct_client \<Rightarrow> acct_ev" where
  "aca_fail_event co s =
     (if has_record co s \<or> ac_RecordType s = RECTYPE_STOP \<or> ac_RecordType s = RECTYPE_EVENT then AEV_RX_ACA_FAIL
      else if ng_value (ac_Realtime s) = REALTIME_DELIVER_AND_GRANT then AEV_RX_ACA_FAIL_AND_GAL
      else AEV_RX_ACA_FAIL_NOT_GAL)"

definition acct_RxAnswer :: "aenv \<Rightarrow> 'c collector \<Rightarrow> msg \<Rightarrow> 'c acct_client \<Rightarrow> 'c acct_client" where
  "acct_RxAnswer env co msg s =
     (if h_code (m_hdr msg) \<noteq> MSGCODE_ACCOUNTING then s_emit (DiscardedMsg msg) s
      else let s1 = acct_dictate (m_acl msg) (snd (sess_MsgIdRx msg s)) in
           if MsgResult msg = RCODE_SUCCESS then acct_Notify env co AEV_RX_ACA_OK s1
           else acct_Failed (acct_Notify env co (aca_fail_event co s1) s1))"

definition acct_RxError :: "msg \<Rightarrow> 'c acct_client \<Rightarrow> 'c acct_client" where
  "acct_RxError msg s = s_emit (CbError msg) s"

definition acct_End :: "aenv \<Rightarrow> 'c collector \<Rightarrow> 'c acct_client \<Rightarrow> 'c acct_client" where
  "acct_End env co s = acct_Notify env co AEV_STOP (CancelAllTimer (s\<lparr>ac_RecordType := RECTYPE_STOP\<rparr>))"

subsection \<open>The parent session\<close>

text \<open>\<open>DiameterClientAcctSession\<close>, over references \<open>'r\<close> to its sub-sessions.\<close>

record 'r acct_parent =
  ap_SessionId :: session_id
  ap_ApplicationId :: u32
  ap_SubSessionId :: "64 word"
  ap_SubSessionMap :: "64 word \<Rightarrow> 'r option"

definition new_acct_parent :: "sess_env \<Rightarrow> u32 \<Rightarrow> string option \<Rightarrow> 'r acct_parent" where
  "new_acct_parent env appId opt =
     (let sid = empty_session_id\<lparr>si_DiameterId := cf_identity (se_cfg env) @ ''.'' @ cf_realm (se_cfg env)\<rparr>;
          sid' = (case opt of None \<Rightarrow> sid | Some v \<Rightarrow> sid\<lparr>si_OptionalVal := v\<rparr>)
      in \<lparr>ap_SessionId = se_db_Add env sid', ap_ApplicationId = appId, ap_SubSessionId = 0,
          ap_SubSessionMap = Map.empty\<rparr>)"

definition RegisterSubSession ::
  "'r \<Rightarrow> 'x acct_session_scheme \<Rightarrow> 'r acct_parent \<Rightarrow> bool \<times> 'x acct_session_scheme \<times> 'r acct_parent" where
  "RegisterSubSession r s p =
     (if ap_SubSessionMap p (ac_SubSessionId s) = None
      then let k = ap_SubSessionId p + 1;
               mp = ap_SubSessionMap p
           in (True, s\<lparr>as_SessionId := ap_SessionId p, ac_SubSessionId := k\<rparr>,
               p\<lparr>ap_SubSessionId := k, ap_SubSessionMap := (if mp k = None then mp(k \<mapsto> r) else mp)\<rparr>)
      else (False, s, p))"

definition RemoveSubSession :: "64 word \<Rightarrow> 'r acct_parent \<Rightarrow> bool \<times> 'r acct_parent" where
  "RemoveSubSession k p =
     (if ap_SubSessionMap p k = None then (False, p)
      else (True, p\<lparr>ap_SubSessionMap := (ap_SubSessionMap p)(k := None)\<rparr>))"

text \<open>The constructor and the destructor of a sub-session.\<close>

definition new_acct_client ::
  "aenv \<Rightarrow> 'r \<Rightarrow> (nat \<Rightarrow> u32) \<Rightarrow> 64 word \<Rightarrow> 'c \<Rightarrow> 'r acct_parent \<Rightarrow> 'c acct_client \<times> 'r acct_parent" where
  "new_acct_client env r junk subJunk c p =
     (let s = acct_session.extend (new_acct_session env (ap_ApplicationId p) junk subJunk) \<lparr>cc_records = c\<rparr>;
          (_, s1, p1) = RegisterSubSession r s p
      in (fsm_Start AST_IDLE s1, p1))"

definition delete_acct_client :: "'c acct_client \<Rightarrow> 'r acct_parent \<Rightarrow> 'c acct_client \<times> 'r acct_parent" where
  "delete_acct_client s p = (fsm_Stop s, snd (RemoveSubSession (ac_SubSessionId s) p))"

text \<open>Which sub-session a message is for; the sub-sessions themselves are in a store.\<close>

definition acct_lookup :: "'r acct_parent \<Rightarrow> msg \<Rightarrow> 'r option" where
  "acct_lookup p msg = Option.bind (GetU64 (m_acl msg) AVPNAME_ACCTSUBSID) (ap_SubSessionMap p)"

definition parent_RxRequest :: "'r acct_parent \<Rightarrow> msg \<Rightarrow> ('r \<Rightarrow> 'c acct_client) \<Rightarrow> 'r \<Rightarrow> 'c acct_client" where
  "parent_RxRequest p msg h = (case acct_lookup p msg of None \<Rightarrow> h | Some r \<Rightarrow> h(r := acct_RxRequest msg (h r)))"

definition parent_RxAnswer ::
  "aenv \<Rightarrow> 'c collector \<Rightarrow> 'r acct_parent \<Rightarrow> msg \<Rightarrow> ('r \<Rightarrow> 'c acct_client) \<Rightarrow> 'r \<Rightarrow> 'c acct_client" where
  "parent_RxAnswer env co p msg h =
     (case acct_lookup p msg of None \<Rightarrow> h | Some r \<Rightarrow> h(r := acct_RxAnswer env co msg (h r)))"

definition parent_RxError :: "'r acct_parent \<Rightarrow> msg \<Rightarrow> ('r \<Rightarrow> 'c acct_client) \<Rightarrow> 'r \<Rightarrow> 'c acct_client" where
  "parent_RxError p msg h = (case acct_lookup p msg of None \<Rightarrow> h | Some r \<Rightarrow> h(r := acct_RxError msg (h r)))"

subsection \<open>Steps\<close>

text \<open>
  What can happen to a sub-session: the environment is one of \<open>A\<close> in every step, the application sends messages
  of \<open>S\<close> of its own, and the answers that arrive are of \<open>R\<close>.
\<close>

inductive acct_step ::
  "(aenv \<Rightarrow> bool) \<Rightarrow> (msg \<Rightarrow> bool) \<Rightarrow> (msg \<Rightarrow> bool) \<Rightarrow> 'c collector \<Rightarrow> 'c acct_client \<Rightarrow> 'c acct_client \<Rightarrow> bool"
  for A :: "aenv \<Rightarrow> bool" and S R :: "msg \<Rightarrow> bool" and co :: "'c collector" where
  Begin: "A env \<Longrightarrow> acct_step A S R co s (acct_Begin env co oneTime s)"
| End: "A env \<Longrightarrow> acct_step A S R co s (acct_End env co s)"
| Send: "A env \<Longrightarrow> S msg \<Longrightarrow> acct_step A S R co s (acct_Send env co msg s)"
| Request: "acct_step A S R co s (acct_RxRequest msg s)"
| Answer: "A env \<Longrightarrow> R msg \<Longrightarrow> acct_step A S R co s (acct_RxAnswer env co msg s)"
| Error: "acct_step A S R co s (acct_RxError msg s)"
| Timer: "A env \<Longrightarrow> fsm_timers s ty = Some (ev, sec) \<Longrightarrow> acct_step A S R co s (acct_Notify env co ev s)"

inductive acct_reach ::
  "(aenv \<Rightarrow> bool) \<Rightarrow> (msg \<Rightarrow> bool) \<Rightarrow> (msg \<Rightarrow> bool) \<Rightarrow> 'c collector \<Rightarrow> 'c acct_client \<Rightarrow> bool"
  for A :: "aenv \<Rightarrow> bool" and S R :: "msg \<Rightarrow> bool" and co :: "'c collector" where
  init: "A env \<Longrightarrow> acct_reach A S R co (fst (new_acct_client env (r :: nat) junk subJunk c p))"
| step: "acct_reach A S R co s \<Longrightarrow> acct_step A S R co s s' \<Longrightarrow> acct_reach A S R co s'"

end
