(* ===== verification/Acct_Server.thy ===== *)
theory Acct_Server
  imports Acct_Base
begin

text \<open>
  The accounting session of a server: its state table and actions
  (\<open>libdiameter/include/aaa_session_acct_server_fsm.h\<close>), the answers it sends
  (\<open>src/aaa_session_acct_server_fsm.cxx\<close>) and the session object (\<open>include/aaa_session_server.inl\<close>). The storage of
  records is a class of the application: its state is a field of the session, its virtual functions are the
  record \<open>storage\<close>. Every record that is handed to it is noted in the trace.
\<close>

text \<open>\<open>DiameterServerAcctRecStorage\<close>, over a state of its own.\<close>

record 'd storage =
  st_IsSpaceAvailableOnDevice :: "'d \<Rightarrow> bool"
  st_StoreRecord :: "acl \<Rightarrow> int \<Rightarrow> int \<Rightarrow> 'd \<Rightarrow> 'd"
  st_UpdateAcctResponse :: "msg \<Rightarrow> 'd \<Rightarrow> msg \<times> 'd"

text \<open>
  \<open>DiameterServerAcctRecStorageWithConverter\<close>: an application that gives a conversion and an output of its
  records has this \<open>StoreRecord\<close>.
\<close>

definition converter_StoreRecord ::
  "(acl \<Rightarrow> int \<Rightarrow> int \<Rightarrow> 'd \<Rightarrow> 't option \<times> 'd) \<Rightarrow> ('t \<Rightarrow> 'd \<Rightarrow> 'd) \<Rightarrow> acl \<Rightarrow> int \<Rightarrow> int \<Rightarrow> 'd \<Rightarrow> 'd" where
  "converter_StoreRecord convert output a ty num d =
     (case convert a ty num d of (Some t, d') \<Rightarrow> output t d' | (None, d') \<Rightarrow> d')"

record 'd acct_server = acct_session +
  sc_stateful :: bool
  sc_storage :: 'd

definition server_has_space :: "'d storage \<Rightarrow> 'd acct_server \<Rightarrow> bool" where
  "server_has_space st s \<longleftrightarrow> st_IsSpaceAvailableOnDevice st (sc_storage s)"

definition server_store :: "'d storage \<Rightarrow> msg \<Rightarrow> 'd acct_server \<Rightarrow> 'd acct_server" where
  "server_store st msg s =
     (let ty = sint (ac_RecordType s); num = sint (ac_RecordNumber s)
      in s_emit (RecordStored (m_acl msg) ty num)
           (s\<lparr>sc_storage := st_StoreRecord st (m_acl msg) ty num (sc_storage s)\<rparr>))"

subsection \<open>The state table\<close>

datatype acct_server_ac = ASA_None | ASA_Start | ASA_Stop | ASA_RxACR | ASA_OutOfSpace | ASA_Timeout

definition acct_server_idle_entries :: "(acct_st, acct_ev, acct_server_ac) fsm_entry list" where
  "acct_server_idle_entries =
    [FsmEntry AST_IDLE (Some AEV_RX_ACR_START_OK) AST_OPEN ASA_Start,
     FsmEntry AST_IDLE (Some AEV_RX_ACR_EV_OK) AST_IDLE ASA_RxACR,
     FsmEntry AST_IDLE (Some AEV_RX_ACR_NO_BUF) AST_IDLE ASA_OutOfSpace,
     FsmEntry AST_IDLE None AST_IDLE ASA_None]"

definition acct_server_open_entries :: "(acct_st, acct_ev, acct_server_ac) fsm_entry list" where
  "acct_server_open_entries =
    [FsmEntry AST_OPEN (Some AEV_RX_ACR_INT_OK) AST_OPEN ASA_Start,
     FsmEntry AST_OPEN (Some AEV_RX_ACR_STOP_OK) AST_IDLE ASA_Stop,
     FsmEntry AST_OPEN (Some AEV_RX_ACR_NO_BUF) AST_IDLE ASA_OutOfSpace,
     FsmEntry AST_OPEN (Some AEV_SESSION_TOUT) AST_IDLE ASA_Timeout,
     FsmEntry AST_OPEN (Some AEV_RX_ACR_EV_OK) AST_OPEN ASA_RxACR,
     FsmEntry AST_OPEN (Some AEV_RX_ACR_START_OK) AST_OPEN ASA_Start,
     FsmEntry AST_OPEN None AST_OPEN ASA_None]"

definition acct_server_table :: "(acct_st, acct_ev, acct_server_ac) fsm_entry list" where
  "acct_server_table = acct_server_idle_entries @ acct_server_open_entries"

lemmas acct_server_entries = acct_server_table_def acct_server_idle_entries_def acct_server_open_entries_def

lemma acct_server_table_built: "build_from [] acct_server_table = Inr acct_server_table"
  by (simp add: acct_server_entries AddStateTableEntry_def AddWildcardStateTableEntry_def FindStateTableEntry_def)

subsection \<open>\<open>TxACA\<close>\<close>

definition aca_msg :: "aenv \<Rightarrow> u32 \<Rightarrow> 'd acct_server \<Rightarrow> msg" where
  "aca_msg env rcode s =
     \<lparr>m_hdr = acct_hdr False s,
      m_acl = SessionId_Set (as_SessionId s) [] @ [(AVPNAME_RESULTCODE, [AvpU32 rcode])] @ origin_avps env @
        rectype_avp s @ recnum_avp s @ acctid_avps s @
        [(AVPNAME_ERRORREPORTINGHOST, [AvpStr (cf_identity (se_cfg env))])] @ policy_avps s @ optional_avps s @
        state_avp env\<rparr>"

text \<open>The first component is \<open>None\<close> when the router throws.\<close>

definition acct_TxACA ::
  "aenv \<Rightarrow> 'd storage \<Rightarrow> u32 \<Rightarrow> 'd acct_server \<Rightarrow> bool option \<times> 'd acct_server" where
  "acct_TxACA env st rcode s =
     (if ac_Backward s then (Some True, s)
      else let (m, d) = st_UpdateAcctResponse st (aca_msg env rcode s) (sc_storage s)
           in sess_TxDelivery env m (s\<lparr>sc_storage := d\<rparr>))"

subsection \<open>Actions\<close>

text \<open>\<open>DiameterServerAcctSession::Reset\<close>.\<close>

definition acct_server_Reset :: "'d acct_server \<Rightarrow> 'd acct_server" where
  "acct_server_Reset s = s_emit ForDeletion (fsm_Stop (s_emit (DbRemove (as_SessionId s)) s))"

definition acct_server_Failed :: "'d acct_server \<Rightarrow> 'd acct_server" where
  "acct_server_Failed s = s_emit (CbFailed (sint (ac_RecordNumber s))) s"

definition arm_supervision :: "'d acct_server \<Rightarrow> 'd acct_server" where
  "arm_supervision s = s_timer AEV_SESSION_TOUT (ng_value (as_SessionTimeout s)) TIMER_TYPE_SESSION s"

fun acct_server_act :: "aenv \<Rightarrow> 'd storage \<Rightarrow> acct_server_ac \<Rightarrow> 'd acct_server \<Rightarrow> 'd acct_server" where
  "acct_server_act env st ASA_None s = s"
| "acct_server_act env st ASA_Start s =
     take_pending (\<lambda>m s. and_then (acct_TxACA env st AAA_SUCCESS (server_store st m (CancelAllTimer s)))
                           (\<lambda>s. s_emit CbSuccess (arm_supervision s))) s"
| "acct_server_act env st ASA_Stop s =
     take_pending (\<lambda>m s. and_then (acct_TxACA env st AAA_SUCCESS (server_store st m (CancelAllTimer s)))
                           (\<lambda>s. acct_server_Reset (s_emit CbSuccess s))) s"
| "acct_server_act env st ASA_RxACR s =
     take_pending (\<lambda>m s. and_then (acct_TxACA env st AAA_SUCCESS (server_store st m s)) (s_emit CbSuccess)) s"
| "acct_server_act env st ASA_OutOfSpace s =
     and_then (acct_TxACA env st AAA_OUT_OF_SPACE s) (\<lambda>s. acct_server_Reset (acct_server_Failed s))"
| "acct_server_act env st ASA_Timeout s = acct_server_Reset (s_emit CbSessionTimeout (CancelAllTimer s))"

definition acct_server_Notify :: "aenv \<Rightarrow> 'd storage \<Rightarrow> acct_ev \<Rightarrow> 'd acct_server \<Rightarrow> 'd acct_server" where
  "acct_server_Notify env st ev s = fsm_Event acct_server_table (acct_server_act env st) s ev"

subsection \<open>The session\<close>

definition new_acct_server :: "aenv \<Rightarrow> u32 \<Rightarrow> bool \<Rightarrow> (nat \<Rightarrow> u32) \<Rightarrow> 64 word \<Rightarrow> 'd \<Rightarrow> 'd acct_server" where
  "new_acct_server env appId stateful junk subJunk d =
     (let s = acct_session.extend (new_acct_session env appId junk subJunk) \<lparr>sc_stateful = stateful, sc_storage = d\<rparr>
      in if stateful then fsm_Start AST_IDLE (s\<lparr>ac_Realtime := neg_Set REALTIME_DELIVER_AND_GRANT\<rparr>) else s)"

definition acct_server_Send :: "aenv \<Rightarrow> msg \<Rightarrow> 'd acct_server \<Rightarrow> bool option \<times> 'd acct_server" where
  "acct_server_Send env msg s = sess_TxDelivery env msg s"

text \<open>What a request sets.\<close>

definition acct_server_filter :: "acl \<Rightarrow> 'd acct_server \<Rightarrow> 'd acct_server" where
  "acct_server_filter a s =
     s\<lparr>ac_SubSessionId := (case GetU64 a AVPNAME_ACCTSUBSID of None \<Rightarrow> ac_SubSessionId s | Some k \<Rightarrow> k),
       ac_RecordNumber := (case GetU32 a AVPNAME_ACCTREC_NUM of None \<Rightarrow> ac_RecordNumber s | Some n \<Rightarrow> n),
       ac_RecordType := (case GetEnumU a AVPNAME_ACCTREC_TYPE of None \<Rightarrow> ac_RecordType s | Some t \<Rightarrow> t),
       ac_RadiusId := (case GetStr a AVPNAME_ACCTSID of None \<Rightarrow> ac_RadiusId s | Some v \<Rightarrow> Some v),
       ac_MultiId := (case GetStr a AVPNAME_ACCTMULTISID of None \<Rightarrow> ac_MultiId s | Some v \<Rightarrow> Some v)\<rparr>"

text \<open>A value is asked of the application once, and kept.\<close>

definition settle :: "u32 option \<Rightarrow> neg \<Rightarrow> neg" where
  "settle x a =
     (if ng_isNegotiated a then a
      else case x of Some v \<Rightarrow> neg_Set v | None \<Rightarrow> a\<lparr>ng_isNegotiated := True\<rparr>)"

definition acct_server_settle :: "aenv \<Rightarrow> 'd acct_server \<Rightarrow> 'd acct_server" where
  "acct_server_settle env s =
     s\<lparr>ac_Realtime := settle (ae_SetRealTimeRequired env) (ac_Realtime s),
       ac_Interim := settle (ae_SetInterimInterval env) (ac_Interim s)\<rparr>"

text \<open>The event of a stateful session; no event for another type of record.\<close>

definition acr_event :: "u32 \<Rightarrow> acct_ev option" where
  "acr_event ty =
     (if ty = RECTYPE_EVENT then Some AEV_RX_ACR_EV_OK
      else if ty = RECTYPE_START then Some AEV_RX_ACR_START_OK
      else if ty = RECTYPE_INTERIM then Some AEV_RX_ACR_INT_OK
      else if ty = RECTYPE_STOP then Some AEV_RX_ACR_STOP_OK
      else None)"

definition acct_server_process :: "aenv \<Rightarrow> 'd storage \<Rightarrow> msg \<Rightarrow> 'd acct_server \<Rightarrow> 'd acct_server" where
  "acct_server_process env st msg s =
     (if sc_stateful s
      then (if \<not> server_has_space st s then acct_server_Notify env st AEV_RX_ACR_NO_BUF s
            else case acr_event (ac_RecordType s) of
                   None \<Rightarrow> s
                 | Some ev \<Rightarrow> acct_server_Notify env st ev (s\<lparr>as_PendingMsg := Some msg\<rparr>))
      else let s1 = server_store st msg s in
           if server_has_space st s1 then and_then (acct_TxACA env st AAA_SUCCESS s1) (s_emit CbSuccess)
           else snd (acct_TxACA env st AAA_OUT_OF_SPACE s1))"

definition acct_server_RxRequest :: "aenv \<Rightarrow> 'd storage \<Rightarrow> msg \<Rightarrow> 'd acct_server \<Rightarrow> 'd acct_server" where
  "acct_server_RxRequest env st msg s0 =
     (if h_code (m_hdr msg) \<noteq> MSGCODE_ACCOUNTING then s_emit (DiscardedMsg msg) s0
      else let (ok, s) =
             (if si_DiameterId (as_SessionId s0) = []
              then (case SessionId_Get (se_lp64 env) (m_acl msg) empty_session_id of
                      (False, _) \<Rightarrow> (False, s0)
                    | (True, sid) \<Rightarrow> (True, s0\<lparr>as_SessionId := sid\<rparr>))
              else (True, s0))
           in if \<not> ok then s
              else acct_server_process env st msg
                     (snd (sess_MsgIdRx msg (acct_server_settle env (acct_server_filter (m_acl msg) s)))))"

definition acct_server_RxAnswer :: "msg \<Rightarrow> 'd acct_server \<Rightarrow> 'd acct_server" where
  "acct_server_RxAnswer msg s = s_emit (DiscardedMsg msg) s"

definition acct_server_RxError :: "msg \<Rightarrow> 'd acct_server \<Rightarrow> 'd acct_server" where
  "acct_server_RxError msg s = s_emit (CbError msg) s"

subsection \<open>Steps\<close>

text \<open>The environment is one of \<open>A\<close> in every step, and the application sends messages of \<open>S\<close> of its own.\<close>

inductive acct_server_step ::
  "(aenv \<Rightarrow> bool) \<Rightarrow> (msg \<Rightarrow> bool) \<Rightarrow> 'd storage \<Rightarrow> 'd acct_server \<Rightarrow> 'd acct_server \<Rightarrow> bool"
  for A :: "aenv \<Rightarrow> bool" and S :: "msg \<Rightarrow> bool" and st :: "'d storage" where
  Send: "A env \<Longrightarrow> S msg \<Longrightarrow> acct_server_step A S st s (snd (acct_server_Send env msg s))"
| Request: "A env \<Longrightarrow> acct_server_step A S st s (acct_server_RxRequest env st msg s)"
| Answer: "acct_server_step A S st s (acct_server_RxAnswer msg s)"
| Error: "acct_server_step A S st s (acct_server_RxError msg s)"
| Timer: "A env \<Longrightarrow> fsm_timers s ty = Some (ev, sec) \<Longrightarrow> acct_server_step A S st s (acct_server_Notify env st ev s)"

inductive acct_server_reach :: "(aenv \<Rightarrow> bool) \<Rightarrow> (msg \<Rightarrow> bool) \<Rightarrow> 'd storage \<Rightarrow> 'd acct_server \<Rightarrow> bool"
  for A :: "aenv \<Rightarrow> bool" and S :: "msg \<Rightarrow> bool" and st :: "'d storage" where
  init: "A env \<Longrightarrow> acct_server_reach A S st (new_acct_server env appId stateful junk subJunk d)"
| step: "acct_server_reach A S st s \<Longrightarrow> acct_server_step A S st s s' \<Longrightarrow> acct_server_reach A S st s'"

end
