(* ===== verification/Acct_Inv.thy ===== *)
theory Acct_Inv
  imports Acct_Client Acct_Server Session_Tx
begin

text \<open>
  Invariants of accounting sessions: the timers a sub-session of a client can have, the numbers of the records it
  sends, the supervision of a server session, and what a server has stored when it acknowledges.
\<close>

named_theorems acct_frames

subsection \<open>Frames\<close>

lemma emit_rest [acct_frames]:
  "fsm_state (s_emit x s) = fsm_state s" "fsm_running (s_emit x s) = fsm_running s"
  "fsm_timers (s_emit x s) = fsm_timers s" "as_out (s_emit x s) = as_out s @ [x]"
  "as_fault (s_emit x s) = as_fault s" "as_SessionId (s_emit x s) = as_SessionId s"
  "as_PendingMsg (s_emit x s) = as_PendingMsg s" "session.more (s_emit x s) = session.more s"
  "as_SessionTimeout (s_emit x s) = as_SessionTimeout s" "as_DestinationRealm (s_emit x s) = as_DestinationRealm s"
  by (simp_all add: s_emit_def)

lemma timer_rest [acct_frames]:
  "fsm_timers (s_timer ev sec ty s) = (fsm_timers s)(ty \<mapsto> (ev, unat sec))"
  "fsm_state (s_timer ev sec ty s) = fsm_state s" "fsm_running (s_timer ev sec ty s) = fsm_running s"
  "as_out (s_timer ev sec ty s) = as_out s" "as_fault (s_timer ev sec ty s) = as_fault s"
  "as_PendingMsg (s_timer ev sec ty s) = as_PendingMsg s" "session.more (s_timer ev sec ty s) = session.more s"
  "as_SessionId (s_timer ev sec ty s) = as_SessionId s"
  "as_DestinationRealm (s_timer ev sec ty s) = as_DestinationRealm s"
  by (simp_all add: s_timer_def ScheduleTimer_def CancelTimer_def Let_def)

lemma cancel_rest [acct_frames]:
  "fsm_timers (CancelAllTimer s) = Map.empty" "fsm_state (CancelAllTimer s) = fsm_state s"
  "fsm_running (CancelAllTimer s) = fsm_running s" "as_out (CancelAllTimer s) = as_out s"
  "as_fault (CancelAllTimer s) = as_fault s" "as_PendingMsg (CancelAllTimer s) = as_PendingMsg s"
  "session.more (CancelAllTimer s) = session.more s" "as_SessionId (CancelAllTimer s) = as_SessionId s"
  "as_SessionTimeout (CancelAllTimer s) = as_SessionTimeout s"
  "as_DestinationRealm (CancelAllTimer s) = as_DestinationRealm s"
  by (simp_all add: CancelAllTimer_def)

lemma stop_rest [acct_frames]:
  "fsm_timers (fsm_Stop s) = fsm_timers s" "fsm_state (fsm_Stop s) = fsm_state s" "\<not> fsm_running (fsm_Stop s)"
  by (simp_all add: fsm_Stop_def)

lemma stop_rest_session [acct_frames]:
  "as_out (fsm_Stop s) = as_out s" "as_fault (fsm_Stop s) = as_fault s" "session.more (fsm_Stop s) = session.more s"
  "as_SessionId (fsm_Stop s) = as_SessionId s"
  by (simp_all add: fsm_Stop_def)

text \<open>The attributes of accounting are in the part that \<open>session.more\<close> selects.\<close>

lemma more_acct:
  assumes "session.more s = session.more t"
  shows "ac_SubSessionId s = ac_SubSessionId t" "ac_Realtime s = ac_Realtime t" "ac_Interim s = ac_Interim t"
    "ac_RecordType s = ac_RecordType t" "ac_RecordNumber s = ac_RecordNumber t" "ac_Backward s = ac_Backward t"
    "ac_RadiusId s = ac_RadiusId t" "ac_MultiId s = ac_MultiId t" "acct_session.more s = acct_session.more t"
  using assms by (cases s; cases t; simp)+

lemma more_client: "session.more s = session.more t \<Longrightarrow> cc_records s = cc_records t"
  by (cases s; cases t; simp)

lemma more_server:
  "session.more s = session.more t \<Longrightarrow> sc_stateful s = sc_stateful t"
  "session.more s = session.more t \<Longrightarrow> sc_storage s = sc_storage t"
  by (cases s; cases t; simp)+

lemmas acct_attrs [acct_frames] =
  emit_rest(8) [THEN more_acct(1)] emit_rest(8) [THEN more_acct(2)] emit_rest(8) [THEN more_acct(3)]
  emit_rest(8) [THEN more_acct(4)] emit_rest(8) [THEN more_acct(5)] emit_rest(8) [THEN more_acct(6)]
  timer_rest(7) [THEN more_acct(1)] timer_rest(7) [THEN more_acct(2)] timer_rest(7) [THEN more_acct(3)]
  timer_rest(7) [THEN more_acct(4)] timer_rest(7) [THEN more_acct(5)] timer_rest(7) [THEN more_acct(6)]
  cancel_rest(7) [THEN more_acct(1)] cancel_rest(7) [THEN more_acct(2)] cancel_rest(7) [THEN more_acct(3)]
  cancel_rest(7) [THEN more_acct(4)] cancel_rest(7) [THEN more_acct(5)] cancel_rest(7) [THEN more_acct(6)]
  stop_rest_session(3) [THEN more_acct(5)] stop_rest_session(3) [THEN more_acct(6)]
  emit_rest(8) [THEN more_client] timer_rest(7) [THEN more_client] cancel_rest(7) [THEN more_client]
  emit_rest(8) [THEN more_server(1)] timer_rest(7) [THEN more_server(1)] cancel_rest(7) [THEN more_server(1)]
  emit_rest(8) [THEN more_server(2)] timer_rest(7) [THEN more_server(2)] cancel_rest(7) [THEN more_server(2)]
  stop_rest_session(3) [THEN more_server(1)] stop_rest_session(3) [THEN more_server(2)]

lemma same_restD:
  assumes "same_rest s t"
  shows "fsm_state t = fsm_state s" "fsm_running t = fsm_running s" "fsm_timers t = fsm_timers s"
    "as_SessionId t = as_SessionId s" "as_ApplicationId t = as_ApplicationId s"
    "as_SessionTimeout t = as_SessionTimeout s" "as_PendingMsg t = as_PendingMsg s" "as_fault t = as_fault s"
    "session.more t = session.more s"
  using assms by (simp_all add: same_rest_def)

lemmas TxDelivery_rests [acct_frames] = same_restD [OF TxDelivery_rest]
lemmas MsgIdRx_rests [acct_frames] = same_restD [OF tx_rest(6)]

lemma MsgIdRx_out [acct_frames]: "as_out (snd (sess_MsgIdRx m s)) = as_out s"
  "as_DestinationRealm (snd (sess_MsgIdRx m s)) = as_DestinationRealm s"
  by (simp_all add: sess_MsgIdRx_def Let_def)

subsection \<open>The timers of a client\<close>

definition acct_pending :: "acct_st \<Rightarrow> bool" where
  "acct_pending q \<longleftrightarrow> q \<notin> {AST_IDLE, AST_OPEN}"

definition acct_inv :: "'c acct_client \<Rightarrow> bool" where
  "acct_inv s \<longleftrightarrow>
     fsm_running s \<and> (acct_pending (fsm_state s) \<longrightarrow> fsm_timers s = Map.empty) \<and>
     (fsm_timers s = Map.empty \<or>
      (\<exists>n. fsm_timers s = [TIMER_TYPE_INTERVAL \<mapsto> (AEV_INT_EXPIRE, n)]) \<or>
      (\<exists>n. fsm_timers s = [TIMER_TYPE_SESSION \<mapsto> (AEV_SESSION_TOUT, n)]))"

lemma acct_invI:
  "fsm_running s \<Longrightarrow> fsm_timers s = Map.empty \<Longrightarrow> acct_inv s"
  "fsm_running s \<Longrightarrow> \<not> acct_pending (fsm_state s) \<Longrightarrow> fsm_timers s = [TIMER_TYPE_INTERVAL \<mapsto> (AEV_INT_EXPIRE, n)] \<Longrightarrow> acct_inv s"
  "fsm_running s \<Longrightarrow> \<not> acct_pending (fsm_state s) \<Longrightarrow> fsm_timers s = [TIMER_TYPE_SESSION \<mapsto> (AEV_SESSION_TOUT, n)] \<Longrightarrow> acct_inv s"
  by (auto simp: acct_inv_def)

definition same_machine :: "('s, 'e, 'x) fsm_scheme \<Rightarrow> ('s, 'e, 'y) fsm_scheme \<Rightarrow> bool" where
  "same_machine s t \<longleftrightarrow> fsm_state t = fsm_state s \<and> fsm_running t = fsm_running s \<and> fsm_timers t = fsm_timers s"

lemma acct_inv_cong: "same_machine s t \<Longrightarrow> acct_inv t = acct_inv s"
  by (simp add: same_machine_def acct_inv_def)

lemma acct_inv_type [simp]: "acct_inv (s\<lparr>ac_RecordType := ty\<rparr>) = acct_inv s"
  by (simp add: acct_inv_def)

lemma collector_machine:
  "same_machine s (store_record co ty s)" "same_machine s (delete_record co s)" "same_machine s (acct_Failed s)"
  "same_machine s (acct_attributes env s)" "same_machine s (acct_dictate a s)"
  by (simp_all add: same_machine_def store_record_def delete_record_def acct_Failed_def acct_attributes_def
      acct_dictate_def acct_frames Let_def split: option.split)

text \<open>The events whose actions send nothing.\<close>

definition quiet_event :: "acct_ev \<Rightarrow> bool" where
  "quiet_event ev \<longleftrightarrow>
     ev \<notin> {AEV_REQUEST_ACCESS, AEV_REQUEST_ONETIME_ACCESS, AEV_REC_IN_STORAGE, AEV_INT_EXPIRE, AEV_STOP}"

text \<open>What the table says of an entry, by its action.\<close>

definition acct_entry_ok :: "(acct_st, acct_ev, acct_client_ac) fsm_entry \<Rightarrow> bool" where
  "acct_entry_ok e \<longleftrightarrow>
     (let a = entryAction e; n = nextState e in
      (a \<in> {ACA_TxACR, ACA_InterimTimeout} \<longleftrightarrow> acct_pending n \<and> \<not> acct_pending (prevState e)) \<and>
      (a \<in> {ACA_TxACR, ACA_InterimTimeout} \<longrightarrow> (\<exists>ev. entryEvent e = Some ev \<and> \<not> quiet_event ev)) \<and>
      (a = ACA_None \<longrightarrow> n = prevState e \<or> acct_pending (prevState e)) \<and>
      (a \<in> {ACA_RxACASuccess, ACA_DeleteRecord} \<longrightarrow> acct_pending (prevState e) \<and> \<not> acct_pending n) \<and>
      (a \<in> {ACA_StoreStartRecord, ACA_StoreInterimRecord, ACA_StartIntTimer} \<longrightarrow> \<not> acct_pending n))"

lemma acct_entries_ok: "e \<in> set acct_client_table \<Longrightarrow> acct_entry_ok e"
  by (auto simp: acct_client_entries acct_entry_ok_def Let_def acct_pending_def quiet_event_def)

lemma acct_act0_keeps:
  assumes "acct_inv m" "e \<in> set acct_client_table" "prevState e = fsm_state m"
    "entryAction e \<notin> {ACA_TxACR, ACA_InterimTimeout}"
  shows "acct_inv (acct_act0 co (entryAction e) (m\<lparr>fsm_state := nextState e\<rparr>))"
proof -
  let ?m = "m\<lparr>fsm_state := nextState e\<rparr>"
  have ok: "acct_entry_ok e" by (rule acct_entries_ok) (rule assms)
  have r: "fsm_running m" using assms(1) by (simp add: acct_inv_def)
  have p: "fsm_timers m = Map.empty" if "acct_pending (prevState e)" using assms(1,3) that by (simp add: acct_inv_def)
  have t: "acct_inv ?m" if "acct_pending (prevState e)" using p [OF that] r by (intro acct_invI(1)) simp_all
  have frame: "fsm_running (arm_interim x) = fsm_running x" "fsm_state (arm_interim x) = fsm_state x"
    "fsm_timers (arm_interim x) = (fsm_timers x)(TIMER_TYPE_INTERVAL \<mapsto> (AEV_INT_EXPIRE, unat (ng_value (ac_Interim x))))"
    for x :: "'a acct_client" by (simp_all add: arm_interim_def acct_frames)
  note m = collector_machine [unfolded same_machine_def]
  show ?thesis
  proof (cases "entryAction e")
    case ACA_None
    with ok have "nextState e = prevState e \<or> acct_pending (prevState e)" by (simp add: acct_entry_ok_def Let_def)
    with t assms(1,3) ACA_None show ?thesis by auto
  next
    case ACA_RxACASuccess
    with ok have n: "acct_pending (prevState e)" "\<not> acct_pending (nextState e)" by (simp_all add: acct_entry_ok_def Let_def)
    with ACA_RxACASuccess p [OF n(1)] r show ?thesis
      by (cases "has_record co ?m")
        (auto simp: acct_RxACASuccess_def acct_frames frame m intro: acct_invI)
  next
    case ACA_StartIntTimer
    with ok r show ?thesis
      by (auto simp: acct_entry_ok_def acct_StartIntTimer_def Let_def acct_frames intro!: acct_invI(3))
  next
    case ACA_DeleteRecord
    with ok have "acct_pending (prevState e)" by (simp add: acct_entry_ok_def Let_def)
    with ACA_DeleteRecord t show ?thesis by (simp add: acct_inv_cong [OF collector_machine(2)])
  next
    case ACA_Disconnect
    with r show ?thesis by (intro acct_invI(1)) (simp_all add: acct_frames)
  qed (use ok r assms(4) in \<open>auto simp: acct_entry_ok_def acct_StoreRecord_def Let_def acct_frames frame m
         intro: acct_invI(1) acct_invI(2)\<close>)
qed

interpretation acct_quiet: machine_invariant acct_client_table "acct_act0 co" "\<lambda>ev _. quiet_event ev" acct_inv for co
proof (unfold_locales, rule acct_act0_keeps)
  fix m :: "'a acct_client" and ev e
  assume e: "quiet_event ev" "e \<in> set acct_client_table" "entryEvent e = Some ev \<or> entryEvent e = None"
  with acct_entries_ok [of e] show "entryAction e \<notin> {ACA_TxACR, ACA_InterimTimeout}"
    by (auto simp: acct_entry_ok_def Let_def)
qed

lemma fts_quiet: "quiet_event (fts_event co s)"
  by (simp add: fts_event_def quiet_event_def)

lemma acct_record_machine: "same_machine s (snd (acct_record env co s))"
  by (simp add: same_machine_def acct_record_def Let_def split: prod.split)

lemma acct_TxACR_keeps:
  assumes "acct_inv s"
  shows "acct_inv (acct_TxACR env co s)"
proof -
  obtain m s1 where 1: "acct_record env co s = (m, s1)" by fastforce
  have inv1: "acct_inv s1" using acct_inv_cong [OF acct_record_machine [of s env co]] assms 1 by simp
  obtain r s2 where 2: "sess_TxDelivery env m s1 = (r, s2)" by fastforce
  have "same_machine s1 s2" using TxDelivery_rest [of s1 env m] 2 by (simp add: same_machine_def same_rest_def)
  then have inv2: "acct_inv s2" using acct_inv_cong inv1 by blast
  have "acct_inv (acct_Failed (acct_Notify0 co (fts_event co s2) s2))"
    using acct_quiet.event_keeps [OF inv2 fts_quiet] by (simp add: acct_Notify0_def acct_inv_cong [OF collector_machine(3)])
  with 1 2 inv1 inv2 show ?thesis by (simp add: acct_TxACR_def split: option.split bool.split)
qed

interpretation acct_all: machine_invariant acct_client_table "acct_act env co" "\<lambda>_ _. True" acct_inv for env co
proof (unfold_locales)
  fix m :: "'a acct_client" and ev e
  assume e: "acct_inv m" "fsm_running m" "e \<in> set acct_client_table" "prevState e = fsm_state m"
  let ?m = "m\<lparr>fsm_state := nextState e\<rparr>"
  have "acct_inv (CancelAllTimer ?m)" "acct_inv ((CancelAllTimer ?m)\<lparr>ac_RecordType := RECTYPE_INTERIM\<rparr>)"
    using e(2) by (auto intro!: acct_invI(1) simp: acct_frames)
  with e acct_act0_keeps [OF e(1,3,4)] show "acct_inv (acct_act env co (entryAction e) ?m)"
    by (simp add: acct_act_def acct_TxACR_keeps)
qed

lemma acct_Notify_keeps: "acct_inv s \<Longrightarrow> acct_inv (acct_Notify env co ev s)"
  unfolding acct_Notify_def by (rule acct_all.event_keeps) simp_all

lemma acct_step_keeps:
  assumes "acct_step A S R co s s'" "acct_inv s"
  shows "acct_inv s'"
  using assms
proof cases
  case (Begin env oneTime)
  have "acct_inv (acct_attributes env s)" "\<And>ty. acct_inv ((acct_attributes env s)\<lparr>ac_RecordType := ty\<rparr>)"
    using assms(2) by (simp_all add: acct_inv_cong [OF collector_machine(4)])
  with Begin show ?thesis by (simp add: acct_Begin_def Let_def acct_Notify_keeps)
next
  case (End env)
  have "acct_inv (CancelAllTimer (s\<lparr>ac_RecordType := RECTYPE_STOP\<rparr>))"
    using assms(2) by (intro acct_invI(1)) (simp_all add: acct_frames acct_inv_def)
  with End show ?thesis by (simp add: acct_End_def acct_Notify_keeps)
next
  case (Send env msg)
  obtain r s1 where 2: "sess_TxDelivery env msg s = (r, s1)" by fastforce
  have "same_machine s s1" using TxDelivery_rest [of s env msg] 2 by (simp add: same_machine_def same_rest_def)
  then have "acct_inv s1" using acct_inv_cong assms(2) by blast
  with Send 2 show ?thesis
    by (simp add: acct_Send_def acct_Notify_keeps acct_inv_cong [OF collector_machine(3)] split: option.split bool.split)
next
  case (Request msg)
  with assms(2) show ?thesis by (simp add: acct_RxRequest_def acct_inv_def acct_frames)
next
  case (Answer env msg)
  have "same_machine s (acct_dictate (m_acl msg) (snd (sess_MsgIdRx msg s)))"
    using collector_machine(5) [of "snd (sess_MsgIdRx msg s)"] by (simp add: same_machine_def acct_frames)
  then have "acct_inv (acct_dictate (m_acl msg) (snd (sess_MsgIdRx msg s)))" using acct_inv_cong assms(2) by blast
  with Answer assms(2) show ?thesis
    by (simp add: acct_RxAnswer_def Let_def acct_Notify_keeps acct_inv_cong [OF collector_machine(3)])
      (simp add: acct_inv_def acct_frames)
next
  case (Error msg)
  with assms(2) show ?thesis by (simp add: acct_RxError_def acct_inv_def acct_frames)
next
  case (Timer env ty ev sec)
  with assms(2) show ?thesis by (simp add: acct_Notify_keeps)
qed

lemma acct_reach_inv: "acct_reach A S R co s \<Longrightarrow> acct_inv s"
proof (induction rule: acct_reach.induct)
  case (init env r junk subJunk c p)
  then show ?case
    by (auto simp: new_acct_client_def RegisterSubSession_def Let_def fsm_Start_def new_acct_session_def
        acct_session.defs intro!: acct_invI(1))
next
  case (step s s')
  then show ?case using acct_step_keeps by blast
qed

subsection \<open>The numbers of records\<close>

abbreviation is_acct :: "msg \<Rightarrow> bool" where
  "is_acct m \<equiv> h_code (m_hdr m) = MSGCODE_ACCOUNTING"

definition acrs :: "'c acct_client \<Rightarrow> msg list" where
  "acrs s = filter is_acct (routed (as_out s))"

definition recnum :: "msg \<Rightarrow> u32 option" where
  "recnum m = GetU32 (m_acl m) AVPNAME_ACCTREC_NUM"

text \<open>A collector that adds to a request, and leaves the number of the record in it.\<close>

definition keeps_numbers :: "'c collector \<Rightarrow> bool" where
  "keeps_numbers co \<longleftrightarrow>
     (\<forall>a t n c. GetU32 (fst (co_GenerateRecord co a t n c)) AVPNAME_ACCTREC_NUM = GetU32 a AVPNAME_ACCTREC_NUM)"

definition numbered :: "'c acct_client \<Rightarrow> bool" where
  "numbered s \<longleftrightarrow>
     \<not> ac_Backward s \<and> ac_RecordNumber s = of_nat (length (acrs s)) \<and>
     List.map recnum (acrs s) = List.map (\<lambda>i. Some (of_nat i)) [1..<Suc (length (acrs s))]"

definition same_log :: "'c acct_client \<Rightarrow> 'c acct_client \<Rightarrow> bool" where
  "same_log s t \<longleftrightarrow>
     acrs t = acrs s \<and> ac_RecordNumber t = ac_RecordNumber s \<and> ac_Backward t = ac_Backward s"

lemma same_log_trans: "same_log s t \<Longrightarrow> same_log t u \<Longrightarrow> same_log s u" by (simp add: same_log_def)

lemma numbered_log: "same_log s t \<Longrightarrow> numbered s \<Longrightarrow> numbered t" by (simp add: same_log_def numbered_def)

lemma log_simps [simp]:
  "acrs (s\<lparr>fsm_state := q\<rparr>) = acrs s" "acrs (s\<lparr>ac_RecordType := ty\<rparr>) = acrs s" "acrs (s\<lparr>cc_records := c\<rparr>) = acrs s"
  "acrs (s\<lparr>ac_RecordNumber := n\<rparr>) = acrs s" "acrs (CancelAllTimer s) = acrs s" "acrs (s_timer ev sec tt s) = acrs s"
  "acrs (snd (sess_MsgIdRx m s)) = acrs s" "acrs (acct_attributes env s) = acrs s" "acrs (acct_dictate a s) = acrs s"
  by (simp_all add: acrs_def acct_frames acct_attributes_def acct_dictate_def Let_def split: option.split)

lemma log_emit [simp]: "\<not> (\<exists>m. x = Routed m) \<Longrightarrow> acrs (s_emit x s) = acrs s"
  by (cases x) (simp_all add: acrs_def acct_frames)

lemma attributes_frame [acct_frames]:
  "ac_RecordNumber (acct_attributes env s) = ac_RecordNumber s" "ac_Backward (acct_attributes env s) = ac_Backward s"
  "ac_RecordNumber (acct_dictate a s) = ac_RecordNumber s" "ac_Backward (acct_dictate a s) = ac_Backward s"
  by (simp_all add: acct_attributes_def acct_dictate_def Let_def split: option.split)

lemma collector_log:
  "same_log s (store_record co ty s)" "same_log s (delete_record co s)" "same_log s (acct_Failed s)"
  "same_log s (arm_interim s)" "same_log s (CancelAllTimer s)" "same_log s (s_emit CbSuccess s)"
  by (simp_all add: same_log_def store_record_def delete_record_def acct_Failed_def arm_interim_def acct_frames)

lemma acct_act0_log: "same_log s (acct_act0 co a s)"
  by (cases a)
    (auto simp: same_log_def acct_RxACASuccess_def acct_StoreRecord_def acct_StartIntTimer_def Let_def acct_frames
      store_record_def delete_record_def arm_interim_def)

lemma acct_Notify0_log: "same_log s (acct_Notify0 co ev s)"
  using acct_act0_log [of "s\<lparr>fsm_state := q\<rparr>" co for q]
  by (auto simp: acct_Notify0_def fsm_Event_def same_log_def split: option.split)

lemma acr_msg_avps:
  "recnum (acr_msg env s) = Some (ac_RecordNumber s)" "h_code (m_hdr (acr_msg env s)) = MSGCODE_ACCOUNTING"
  "h_r (m_hdr (acr_msg env s))"
  by (simp_all add: recnum_def acr_msg_def acct_hdr_def session_hdr_def zero_hdr_def SessionId_Set_def AddAvp_def
      add_avp_def origin_avps_def recnum_avp_def GetU32_def GetAvp_def)

lemma acct_record_spec:
  assumes "acct_record env co s = (m, t)" "keeps_numbers co" "\<not> ac_Backward s"
  shows "recnum m = Some (ac_RecordNumber s + 1)" "is_acct m" "h_r (m_hdr m)" "acrs t = acrs s"
    "ac_RecordNumber t = ac_RecordNumber s + 1" "\<not> ac_Backward t" "as_out t = as_out s"
  using assms acr_msg_avps [of env "s\<lparr>ac_RecordNumber := ac_RecordNumber s + 1\<rparr>"]
  by (auto simp: acct_record_def Let_def keeps_numbers_def recnum_def split: prod.splits) (metis fst_conv)

lemma TxDelivery_acrs:
  assumes "se_SetDestRealm env \<noteq> None" "sess_TxDelivery env m s = (r, t)"
  obtains m' where "same_payload m m'" "acrs t = acrs s @ filter is_acct [m']"
    "ac_RecordNumber t = ac_RecordNumber s" "ac_Backward t = ac_Backward s" "as_out t = as_out s @ [Routed m']"
proof -
  obtain m' u where "sess_TxDelivery env m s = (se_route env m', u)" "as_out u = as_out s @ [Routed m']" "same_payload m m'"
    using TxDelivery_out_env [of m s env] assms(1) by blast
  moreover have "session.more t = session.more s" using TxDelivery_rest [of s env m] assms(2) by (simp add: same_rest_def)
  ultimately show ?thesis
    using that [of m'] assms(2) more_acct(5,6) [of t s] by (simp add: acrs_def)
qed

lemma acct_TxACR_numbered:
  assumes "numbered s" "keeps_numbers co" "se_SetDestRealm env \<noteq> None"
  shows "numbered (acct_TxACR env co s)"
proof -
  obtain m s1 where 1: "acct_record env co s = (m, s1)" by fastforce
  note r = acct_record_spec [OF 1 assms(2)]
  obtain x t where 2: "sess_TxDelivery env m s1 = (x, t)" by fastforce
  from TxDelivery_acrs [OF assms(3) 2] obtain m' where m: "same_payload m m'" "acrs t = acrs s1 @ filter is_acct [m']"
    "ac_RecordNumber t = ac_RecordNumber s1" "ac_Backward t = ac_Backward s1" by blast
  have b: "\<not> ac_Backward s" using assms(1) by (simp add: numbered_def)
  have "is_acct m'" "recnum m' = recnum m"
    using same_payloadD(1) [OF m(1)] same_payloadD(3) [OF m(1), of AVPNAME_ACCTREC_NUM] r(2) [OF b] by (simp_all add: recnum_def)
  then have "numbered t"
    using assms(1) m r(1,4,5,6) [OF b] by (simp add: numbered_def)
  then have "numbered (acct_Failed (acct_Notify0 co (fts_event co t) t))"
    using numbered_log same_log_trans [OF acct_Notify0_log collector_log(3)] by blast
  with \<open>numbered t\<close> 1 2 r(6) [OF b] show ?thesis by (simp add: acct_TxACR_def split: option.split bool.split)
qed

lemma acct_act_numbered:
  assumes "numbered s" "keeps_numbers co" "se_SetDestRealm env \<noteq> None"
  shows "numbered (acct_act env co a s)"
proof -
  have "numbered (CancelAllTimer s)" "numbered ((CancelAllTimer s)\<lparr>ac_RecordType := RECTYPE_INTERIM\<rparr>)"
    using assms(1) by (simp_all add: numbered_def acct_frames)
  with assms show ?thesis by (simp add: acct_act_def acct_TxACR_numbered numbered_log [OF acct_act0_log])
qed

lemma acct_Notify_numbered:
  assumes "numbered s" "keeps_numbers co" "se_SetDestRealm env \<noteq> None"
  shows "numbered (acct_Notify env co ev s)"
proof -
  have "numbered (s\<lparr>fsm_state := q\<rparr>)" for q using assms(1) by (simp add: numbered_def)
  then show ?thesis using assms by (simp add: acct_Notify_def fsm_Event_def acct_act_numbered split: option.split)
qed

lemma acct_step_numbered:
  assumes "acct_step A S R co s s'" "numbered s" "keeps_numbers co" "\<And>env. A env \<Longrightarrow> se_SetDestRealm env \<noteq> None"
    "\<And>m. S m \<Longrightarrow> \<not> is_acct m"
  shows "numbered s'"
  using assms(1)
proof cases
  case (Begin env oneTime)
  have "numbered (acct_attributes env s)" "\<And>ty. numbered ((acct_attributes env s)\<lparr>ac_RecordType := ty\<rparr>)"
    using assms(2) by (simp_all add: numbered_def acct_frames)
  with Begin assms(3,4) show ?thesis by (simp add: acct_Begin_def Let_def acct_Notify_numbered)
next
  case (End env)
  have "numbered (CancelAllTimer (s\<lparr>ac_RecordType := RECTYPE_STOP\<rparr>))"
    using assms(2) by (simp add: numbered_def acct_frames)
  with End assms(3,4) show ?thesis by (simp add: acct_End_def acct_Notify_numbered)
next
  case (Send env msg)
  obtain r t where 2: "sess_TxDelivery env msg s = (r, t)" by fastforce
  from TxDelivery_acrs [OF assms(4) [OF Send(2)] 2] obtain m' where "same_payload msg m'"
    "acrs t = acrs s @ filter is_acct [m']" "ac_RecordNumber t = ac_RecordNumber s" "ac_Backward t = ac_Backward s" by blast
  with same_payloadD(1) [of addr_names msg m'] assms(2,5) Send(3) have "numbered t" by (simp add: numbered_def)
  with Send 2 assms(3,4) show ?thesis
    by (simp add: acct_Send_def acct_Notify_numbered numbered_log [OF collector_log(3)] split: option.split bool.split)
next
  case (Request msg)
  with assms(2) show ?thesis by (simp add: acct_RxRequest_def numbered_def acct_frames)
next
  case (Answer env msg)
  have "numbered (acct_dictate (m_acl msg) (snd (sess_MsgIdRx msg s)))" "numbered (s_emit (DiscardedMsg msg) s)"
    using assms(2) by (simp_all add: numbered_def acct_frames more_acct(5,6) [OF MsgIdRx_rests(9)])
  with Answer assms(3,4) show ?thesis
    by (simp add: acct_RxAnswer_def Let_def acct_Notify_numbered numbered_log [OF collector_log(3)])
next
  case (Error msg)
  with assms(2) show ?thesis by (simp add: acct_RxError_def numbered_def acct_frames)
next
  case (Timer env ty ev sec)
  with assms(2-4) show ?thesis by (simp add: acct_Notify_numbered)
qed

subsection \<open>The supervision of a server\<close>

definition acct_server_inv :: "'d acct_server \<Rightarrow> bool" where
  "acct_server_inv s \<longleftrightarrow>
     \<not> as_fault s \<and> fsm_state s \<in> {AST_IDLE, AST_OPEN} \<and> (fsm_running s \<longrightarrow> sc_stateful s) \<and>
     (fsm_state s = AST_OPEN \<longrightarrow>
        fsm_running s \<and> (\<exists>n. fsm_timers s = [TIMER_TYPE_SESSION \<mapsto> (AEV_SESSION_TOUT, n)])) \<and>
     (fsm_state s = AST_IDLE \<and> fsm_running s \<longrightarrow> fsm_timers s = Map.empty)"

definition takes_pending :: "acct_ev \<Rightarrow> bool" where
  "takes_pending ev \<longleftrightarrow> ev \<in> {AEV_RX_ACR_START_OK, AEV_RX_ACR_EV_OK, AEV_RX_ACR_INT_OK, AEV_RX_ACR_STOP_OK}"

lemma acct_TxACA_rests:
  assumes "acct_TxACA env st rc s = (r, t)"
  shows "fsm_state t = fsm_state s" "fsm_running t = fsm_running s" "fsm_timers t = fsm_timers s"
    "as_fault t = as_fault s" "as_PendingMsg t = as_PendingMsg s" "as_SessionTimeout t = as_SessionTimeout s"
    "sc_stateful t = sc_stateful s" "as_SessionId t = as_SessionId s" "no_throw env \<Longrightarrow> r \<noteq> None"
    "ac_RecordNumber t = ac_RecordNumber s" "ac_Realtime t = ac_Realtime s" "ac_Interim t = ac_Interim s"
proof -
  obtain d where "same_rest (s\<lparr>sc_storage := d\<rparr>) t"
  proof (cases "ac_Backward s")
    case True
    then show ?thesis using assms that [of "sc_storage s"] by (simp add: acct_TxACA_def)
  next
    case False
    obtain m d where "st_UpdateAcctResponse st (aca_msg env rc s) (sc_storage s) = (m, d)" by fastforce
    with False assms that [of d] TxDelivery_rest [of "s\<lparr>sc_storage := d\<rparr>" env m] show ?thesis
      by (simp add: acct_TxACA_def)
  qed
  note d = same_restD [OF this]
  show "fsm_state t = fsm_state s" "fsm_running t = fsm_running s" "fsm_timers t = fsm_timers s"
    "as_fault t = as_fault s" "as_PendingMsg t = as_PendingMsg s" "as_SessionTimeout t = as_SessionTimeout s"
    "as_SessionId t = as_SessionId s" "sc_stateful t = sc_stateful s" "ac_RecordNumber t = ac_RecordNumber s"
    "ac_Realtime t = ac_Realtime s" "ac_Interim t = ac_Interim s"
    using d(1-8) more_server(1) [OF d(9)] more_acct(2,3,5) [OF d(9)] by simp_all
  show "no_throw env \<Longrightarrow> r \<noteq> None"
  proof (cases "ac_Backward s")
    case True
    then show ?thesis using assms by (auto simp: acct_TxACA_def)
  next
    case False
    assume n: "no_throw env"
    obtain m d where "st_UpdateAcctResponse st (aca_msg env rc s) (sc_storage s) = (m, d)" by fastforce
    with False assms no_throw_delivers [OF n, of m "s\<lparr>sc_storage := d\<rparr>"] show ?thesis
      by (simp add: acct_TxACA_def)
  qed
qed

lemma server_store_frame [acct_frames]:
  "fsm_state (server_store st m s) = fsm_state s" "fsm_running (server_store st m s) = fsm_running s"
  "fsm_timers (server_store st m s) = fsm_timers s" "as_fault (server_store st m s) = as_fault s"
  "as_PendingMsg (server_store st m s) = as_PendingMsg s" "sc_stateful (server_store st m s) = sc_stateful s"
  "as_SessionId (server_store st m s) = as_SessionId s" "as_SessionTimeout (server_store st m s) = as_SessionTimeout s"
  "as_out (server_store st m s) = as_out s @ [RecordStored (m_acl m) (sint (ac_RecordType s)) (sint (ac_RecordNumber s))]"
  "ac_RecordType (server_store st m s) = ac_RecordType s" "ac_RecordNumber (server_store st m s) = ac_RecordNumber s"
  "ac_Backward (server_store st m s) = ac_Backward s" "ac_Interim (server_store st m s) = ac_Interim s"
  "ac_Realtime (server_store st m s) = ac_Realtime s"
  by (simp_all add: server_store_def Let_def acct_frames)

lemma server_reset_frame [acct_frames]:
  "fsm_state (acct_server_Reset s) = fsm_state s" "\<not> fsm_running (acct_server_Reset s)"
  "fsm_timers (acct_server_Reset s) = fsm_timers s" "as_fault (acct_server_Reset s) = as_fault s"
  "as_out (acct_server_Reset s) = as_out s @ [DbRemove (as_SessionId s), ForDeletion]"
  by (simp_all add: acct_server_Reset_def acct_frames)

lemma arm_supervision_frame [acct_frames]:
  "fsm_timers (arm_supervision s) = (fsm_timers s)(TIMER_TYPE_SESSION \<mapsto> (AEV_SESSION_TOUT, unat (ng_value (as_SessionTimeout s))))"
  "fsm_state (arm_supervision s) = fsm_state s" "fsm_running (arm_supervision s) = fsm_running s"
  "as_fault (arm_supervision s) = as_fault s" "sc_stateful (arm_supervision s) = sc_stateful s"
  "ac_Interim (arm_supervision s) = ac_Interim s" "ac_Realtime (arm_supervision s) = ac_Realtime s"
  "as_out (arm_supervision s) = as_out s" "as_SessionId (arm_supervision s) = as_SessionId s"
  by (simp_all add: arm_supervision_def acct_frames)

lemma server_failed_frame [acct_frames]:
  "fsm_state (acct_server_Failed s) = fsm_state s" "as_fault (acct_server_Failed s) = as_fault s"
  "as_out (acct_server_Failed s) = as_out s @ [CbFailed (sint (ac_RecordNumber s))]"
  "as_SessionId (acct_server_Failed s) = as_SessionId s"
  by (simp_all add: acct_server_Failed_def acct_frames)

text \<open>Acknowledging and going on, where the router does not throw.\<close>

lemma and_then_TxACA:
  assumes "no_throw env"
  obtains r t where "acct_TxACA env st rc s = (r, t)" "r \<noteq> None"
    "and_then (acct_TxACA env st rc s) f = f t"
proof -
  obtain r t where 1: "acct_TxACA env st rc s = (r, t)" by fastforce
  with acct_TxACA_rests(9) [OF 1 assms] that show ?thesis by (auto simp: and_then_def)
qed

definition acct_server_entry_ok :: "(acct_st, acct_ev, acct_server_ac) fsm_entry \<Rightarrow> bool" where
  "acct_server_entry_ok e \<longleftrightarrow>
     nextState e \<in> {AST_IDLE, AST_OPEN} \<and>
     (case entryAction e of
        ASA_Start \<Rightarrow> nextState e = AST_OPEN \<and> (\<exists>ev. entryEvent e = Some ev \<and> takes_pending ev)
      | ASA_RxACR \<Rightarrow> nextState e = prevState e \<and> (\<exists>ev. entryEvent e = Some ev \<and> takes_pending ev)
      | ASA_Stop \<Rightarrow> nextState e = AST_IDLE \<and> (\<exists>ev. entryEvent e = Some ev \<and> takes_pending ev)
      | ASA_None \<Rightarrow> nextState e = prevState e
      | _ \<Rightarrow> nextState e = AST_IDLE)"

lemma acct_server_entries_ok: "e \<in> set acct_server_table \<Longrightarrow> acct_server_entry_ok e"
  by (auto simp: acct_server_entries acct_server_entry_ok_def takes_pending_def)

lemma acct_server_act_keeps:
  assumes "acct_server_inv m" "fsm_running m" "e \<in> set acct_server_table" "prevState e = fsm_state m" "no_throw env"
    "entryEvent e = Some ev \<or> entryEvent e = None" "takes_pending ev \<Longrightarrow> as_PendingMsg m \<noteq> None"
  shows "acct_server_inv (acct_server_act env st (entryAction e) (m\<lparr>fsm_state := nextState e\<rparr>))"
proof -
  let ?m = "m\<lparr>fsm_state := nextState e\<rparr>"
  note ok = acct_server_entries_ok [OF assms(3), unfolded acct_server_entry_ok_def]
  have f: "\<not> as_fault m" "sc_stateful m" using assms(1,2) by (simp_all add: acct_server_inv_def)
  have s: "?m = m" if "nextState e = prevState e" using that assms(4) by simp
  show ?thesis
  proof (cases "entryAction e")
    case ASA_None
    with ok s assms(1) show ?thesis by simp
  next
    case ASA_Start
    with ok assms(6,7) obtain x where x: "as_PendingMsg m = Some x" "nextState e = AST_OPEN" by fastforce
    let ?s = "server_store st x (CancelAllTimer (?m\<lparr>as_PendingMsg := None\<rparr>))"
    obtain r t where t: "acct_TxACA env st AAA_SUCCESS ?s = (r, t)"
      "and_then (acct_TxACA env st AAA_SUCCESS ?s) (\<lambda>s. s_emit CbSuccess (arm_supervision s)) = s_emit CbSuccess (arm_supervision t)"
      by (rule and_then_TxACA [OF assms(5)])
    with ASA_Start x f assms(2) show ?thesis
      by (auto simp: take_pending_def acct_server_inv_def acct_frames acct_TxACA_rests [OF t(1)])
  next
    case ASA_Stop
    with ok assms(6,7) obtain x where x: "as_PendingMsg m = Some x" "nextState e = AST_IDLE" by fastforce
    let ?s = "server_store st x (CancelAllTimer (?m\<lparr>as_PendingMsg := None\<rparr>))"
    obtain r t where t: "acct_TxACA env st AAA_SUCCESS ?s = (r, t)"
      "and_then (acct_TxACA env st AAA_SUCCESS ?s) (\<lambda>s. acct_server_Reset (s_emit CbSuccess s)) = acct_server_Reset (s_emit CbSuccess t)"
      by (rule and_then_TxACA [OF assms(5)])
    with ASA_Stop x f show ?thesis
      by (simp add: take_pending_def acct_server_inv_def acct_frames acct_TxACA_rests [OF t(1)])
  next
    case ASA_RxACR
    with ok assms(6,7) obtain x where x: "as_PendingMsg m = Some x" "nextState e = prevState e" by fastforce
    let ?s = "server_store st x (m\<lparr>as_PendingMsg := None\<rparr>)"
    obtain r t where t: "acct_TxACA env st AAA_SUCCESS ?s = (r, t)"
      "and_then (acct_TxACA env st AAA_SUCCESS ?s) (s_emit CbSuccess) = s_emit CbSuccess t"
      by (rule and_then_TxACA [OF assms(5)])
    with ASA_RxACR x assms(1) show ?thesis
      unfolding s [OF x(2)]
      by (simp add: take_pending_def acct_server_inv_def acct_frames acct_TxACA_rests [OF t(1)])
  next
    case ASA_OutOfSpace
    with ok have n: "nextState e = AST_IDLE" by simp
    obtain r t where t: "acct_TxACA env st AAA_OUT_OF_SPACE ?m = (r, t)"
      "and_then (acct_TxACA env st AAA_OUT_OF_SPACE ?m) (\<lambda>s. acct_server_Reset (acct_server_Failed s)) =
         acct_server_Reset (acct_server_Failed t)"
      by (rule and_then_TxACA [OF assms(5)])
    with ASA_OutOfSpace n f show ?thesis
      by (simp add: acct_server_inv_def acct_frames acct_TxACA_rests [OF t(1)])
  next
    case ASA_Timeout
    with ok f show ?thesis by (simp add: acct_server_inv_def acct_frames)
  qed
qed

interpretation acct_supervised: machine_invariant acct_server_table "acct_server_act env st"
  "\<lambda>ev m. no_throw env \<and> (takes_pending ev \<longrightarrow> as_PendingMsg m \<noteq> None)" acct_server_inv for env st
  by unfold_locales (rule acct_server_act_keeps, auto)

lemma acct_server_Notify_keeps:
  assumes "acct_server_inv s" "no_throw env" "takes_pending ev \<Longrightarrow> as_PendingMsg s \<noteq> None"
  shows "acct_server_inv (acct_server_Notify env st ev s)"
  unfolding acct_server_Notify_def by (rule acct_supervised.event_keeps) (use assms in simp_all)

text \<open>What is read of a request before it is processed.\<close>

definition acct_server_read :: "aenv \<Rightarrow> msg \<Rightarrow> 'd acct_server \<Rightarrow> 'd acct_server" where
  "acct_server_read env msg s = snd (sess_MsgIdRx msg (acct_server_settle env (acct_server_filter (m_acl msg) s)))"

lemma acct_server_read_frame [acct_frames]:
  "fsm_state (acct_server_read env msg s) = fsm_state s" "fsm_running (acct_server_read env msg s) = fsm_running s"
  "fsm_timers (acct_server_read env msg s) = fsm_timers s" "as_fault (acct_server_read env msg s) = as_fault s"
  "sc_stateful (acct_server_read env msg s) = sc_stateful s" "as_out (acct_server_read env msg s) = as_out s"
  "as_SessionId (acct_server_read env msg s) = as_SessionId s"
  "as_SessionTimeout (acct_server_read env msg s) = as_SessionTimeout s"
  "sc_storage (acct_server_read env msg s) = sc_storage s"
  using more_server [OF MsgIdRx_rests(9), of msg "acct_server_settle env (acct_server_filter (m_acl msg) s)"]
  by (simp_all add: acct_server_read_def acct_server_settle_def acct_server_filter_def acct_frames)

lemma acct_server_RxRequest_cases:
  obtains (discarded) "acct_server_RxRequest env st msg s = s_emit (DiscardedMsg msg) s"
  | (nothing) "acct_server_RxRequest env st msg s = s"
  | (process) sid where "is_acct msg" "acct_server_RxRequest env st msg s =
      acct_server_process env st msg (acct_server_read env msg (s\<lparr>as_SessionId := sid\<rparr>))"
proof (cases "is_acct msg")
  case False
  then show ?thesis using discarded by (simp add: acct_server_RxRequest_def)
next
  case True
  show ?thesis
  proof (cases "si_DiameterId (as_SessionId s) = []")
    case f: False
    with True process [of "as_SessionId s"] show ?thesis by (simp add: acct_server_RxRequest_def acct_server_read_def)
  next
    case t: True
    obtain ok sid where "SessionId_Get (se_lp64 env) (m_acl msg) empty_session_id = (ok, sid)" by fastforce
    then show ?thesis
    proof (cases ok)
      case no: False
      with \<open>SessionId_Get _ _ _ = _\<close> True t have "acct_server_RxRequest env st msg s = s"
        by (simp add: acct_server_RxRequest_def)
      then show ?thesis by (rule nothing)
    next
      case yes: True
      with \<open>SessionId_Get _ _ _ = _\<close> True t show ?thesis
        by (intro process [of sid]) (simp_all add: acct_server_RxRequest_def acct_server_read_def)
    qed
  qed
qed

lemma acct_server_stateless:
  "acct_server_inv s \<Longrightarrow> \<not> sc_stateful s \<Longrightarrow> fsm_state s = AST_IDLE \<and> \<not> fsm_running s"
  by (auto simp: acct_server_inv_def)

lemma acr_event_pending: "acr_event ty = Some ev \<Longrightarrow> takes_pending ev"
  by (auto simp: acr_event_def takes_pending_def split: if_splits)

lemma acct_server_step_keeps:
  assumes "acct_server_step A S st s s'" "acct_server_inv s" "\<And>env. A env \<Longrightarrow> no_throw env"
  shows "acct_server_inv s'"
  using assms(1)
proof cases
  case (Send env msg)
  have "acct_server_inv (snd (sess_TxDelivery env msg s)) = acct_server_inv s"
    by (simp add: acct_server_inv_def acct_frames more_server(1) [OF TxDelivery_rests(9)])
  with Send assms(2) show ?thesis by (simp add: acct_server_Send_def)
next
  case (Request env msg)
  show ?thesis
  proof (cases rule: acct_server_RxRequest_cases [of env st msg s])
    case discarded
    with Request assms(2) show ?thesis by (simp add: acct_server_inv_def acct_frames)
  next
    case nothing
    with Request assms(2) show ?thesis by simp
  next
    case (process sid)
    let ?r = "acct_server_read env msg (s\<lparr>as_SessionId := sid\<rparr>)"
    have r: "acct_server_inv ?r" "acct_server_inv (?r\<lparr>as_PendingMsg := Some msg\<rparr>)"
      using assms(2) by (simp_all add: acct_server_inv_def acct_frames)
    have "acct_server_inv (acct_server_process env st msg ?r)"
    proof (cases "sc_stateful ?r")
      case True
      have "\<not> takes_pending AEV_RX_ACR_NO_BUF" by (simp add: takes_pending_def)
      with True r assms(3) [OF Request(2)] show ?thesis
        by (auto simp: acct_server_process_def intro!: acct_server_Notify_keeps split: option.split)
    next
      case False
      note i = acct_server_stateless [OF r(1) False]
      have f: "\<not> as_fault ?r" using r(1) by (simp add: acct_server_inv_def)
      let ?t = "server_store st msg ?r"
      have "acct_server_inv t" "acct_server_inv (s_emit CbSuccess t)" if "acct_TxACA env st rc ?t = (x, t)" for rc x t
        using i f False acct_TxACA_rests [OF that] by (simp_all add: acct_server_inv_def acct_frames)
      then show ?thesis
        using False by (auto simp: acct_server_process_def Let_def and_then_def split: option.split) (metis prod.collapse)+
    qed
    with Request process show ?thesis by simp
  qed
next
  case (Answer msg)
  with assms(2) show ?thesis by (simp add: acct_server_RxAnswer_def acct_server_inv_def acct_frames)
next
  case (Error msg)
  with assms(2) show ?thesis by (simp add: acct_server_RxError_def acct_server_inv_def acct_frames)
next
  case (Timer env ty ev sec)
  have "ev = AEV_SESSION_TOUT \<or> \<not> fsm_running s"
    using Timer(3) assms(2) by (auto simp: acct_server_inv_def split: if_splits)
  then show ?thesis
  proof
    assume "ev = AEV_SESSION_TOUT"
    with Timer assms(2,3) show ?thesis by (auto simp: takes_pending_def intro!: acct_server_Notify_keeps)
  next
    assume "\<not> fsm_running s"
    with Timer assms(2) show ?thesis by (simp add: acct_server_Notify_def fsm_Event_def)
  qed
qed

lemma acct_server_reach_inv:
  "acct_server_reach A S st s \<Longrightarrow> (\<And>env. A env \<Longrightarrow> no_throw env) \<Longrightarrow> acct_server_inv s"
proof (induction rule: acct_server_reach.induct)
  case (init env appId stateful junk subJunk d)
  show ?case
    by (simp add: new_acct_server_def Let_def fsm_Start_def new_acct_session_def acct_session.defs acct_server_inv_def)
next
  case (step s s')
  then show ?case using acct_server_step_keeps by blast
qed

subsection \<open>What an acknowledgement stands for\<close>

definition is_ack :: "msg \<Rightarrow> bool" where
  "is_ack m \<longleftrightarrow> is_acct m \<and> \<not> h_r (m_hdr m) \<and> GetU32 (m_acl m) AVPNAME_RESULTCODE = Some AAA_SUCCESS"

text \<open>An entry of a trace after another one: a successful answer comes right after the record it answers for.\<close>

definition backs :: "session_out option \<Rightarrow> msg \<Rightarrow> bool" where
  "backs p m \<longleftrightarrow>
     (\<exists>a t n. p = Some (RecordStored a t n) \<and> GetEnum (m_acl m) AVPNAME_ACCTREC_TYPE = Some t \<and>
              GetU32 (m_acl m) AVPNAME_ACCTREC_NUM = Some (word_of_int n))"

fun backed_from :: "session_out option \<Rightarrow> session_out list \<Rightarrow> bool" where
  "backed_from p [] = True"
| "backed_from p (Routed m # xs) \<longleftrightarrow> (is_ack m \<longrightarrow> backs p m) \<and> backed_from (Some (Routed m)) xs"
| "backed_from p (x # xs) \<longleftrightarrow> backed_from (Some x) xs"

definition backed :: "session_out list \<Rightarrow> bool" where
  "backed xs \<longleftrightarrow> backed_from None xs"

lemma backed_from_append:
  "backed_from p (xs @ ys) \<longleftrightarrow> backed_from p xs \<and> backed_from (if xs = [] then p else Some (last xs)) ys"
  by (induction p xs rule: backed_from.induct) auto

lemma backed_other: "\<not> (\<exists>m. x = Routed m) \<Longrightarrow> backed (xs @ [x]) = backed xs"
  by (cases x) (simp_all add: backed_def backed_from_append)

lemma backed_others: "list_all (\<lambda>x. \<not> (\<exists>m. x = Routed m)) ys \<Longrightarrow> backed (xs @ ys) = backed xs"
proof (induction ys rule: rev_induct)
  case (snoc y ys)
  then show ?case using backed_other [of y "xs @ ys"] by simp
qed simp

lemma backed_routed:
  "backed (xs @ [Routed m]) \<longleftrightarrow> backed xs \<and> (is_ack m \<longrightarrow> xs \<noteq> [] \<and> backs (Some (last xs)) m)"
  by (auto simp: backed_def backed_from_append backs_def)

text \<open>What it says of the entries of a trace.\<close>

lemma backed_nth:
  assumes "backed_from p xs" "i < length xs" "xs ! i = Routed m" "is_ack m"
  shows "backs (if i = 0 then p else Some (xs ! (i - 1))) m"
  using assms
proof (induction xs arbitrary: p i)
  case (Cons x xs)
  then show ?case
  proof (cases i)
    case (Suc j)
    have "backed_from (Some x) xs" using Cons.prems(1) by (cases x) simp_all
    with Cons.IH [of "Some x" j] Cons.prems Suc show ?thesis by (cases j) simp_all
  qed simp
qed simp

text \<open>
  A storage that adds to an answer, and leaves what the session has put in it. \<open>aaa_session_acct_server_fsm.h\<close> says of
  \<open>UpdateAcctResponse\<close> only that it asks the application to update the answer; what it is for is told in
  \<open>test/test_server3.cxx\<close> line 74 (``If you wish to add AVP's to the ACA before it is sent''), and each of the test servers
  adds one container. Nothing in the library keeps an application from changing the Result-Code there.
\<close>

abbreviation answer_names :: "string set" where
  "answer_names \<equiv> {AVPNAME_RESULTCODE, AVPNAME_ACCTREC_TYPE, AVPNAME_ACCTREC_NUM, AVPNAME_ACCTSUBSID,
     AVPNAME_ACCTREALTIME, AVPNAME_ACCTINTERVAL}"

definition keeps_answers :: "'d storage \<Rightarrow> bool" where
  "keeps_answers st \<longleftrightarrow> (\<forall>m d. differ_in (- answer_names) m (fst (st_UpdateAcctResponse st m d)))"

lemma aca_msg_avps:
  "GetU32 (m_acl (aca_msg env rc s)) AVPNAME_RESULTCODE = Some rc" "is_acct (aca_msg env rc s)"
  "\<not> h_r (m_hdr (aca_msg env rc s))"
  "GetEnum (m_acl (aca_msg env rc s)) AVPNAME_ACCTREC_TYPE = Some (sint (ac_RecordType s))"
  "GetU32 (m_acl (aca_msg env rc s)) AVPNAME_ACCTREC_NUM = Some (ac_RecordNumber s)"
  "GetEnum (m_acl (aca_msg env rc s)) AVPNAME_ACCTREALTIME = Some (sint (ng_value (ac_Realtime s)))"
  "GetU32 (m_acl (aca_msg env rc s)) AVPNAME_ACCTINTERVAL = Some (ng_value (ac_Interim s))"
  by (simp_all add: aca_msg_def acct_hdr_def session_hdr_def zero_hdr_def SessionId_Set_def AddAvp_def add_avp_def
      origin_avps_def recnum_avp_def rectype_avp_def acctid_avps_def policy_avps_def GetU32_def GetEnum_def GetAvp_def)

text \<open>The answer of a session, as the router gets it.\<close>

definition answers :: "u32 \<Rightarrow> 'd acct_server \<Rightarrow> msg \<Rightarrow> bool" where
  "answers rc s m \<longleftrightarrow>
     is_acct m \<and> \<not> h_r (m_hdr m) \<and> GetU32 (m_acl m) AVPNAME_RESULTCODE = Some rc \<and>
     GetEnum (m_acl m) AVPNAME_ACCTREC_TYPE = Some (sint (ac_RecordType s)) \<and>
     GetU32 (m_acl m) AVPNAME_ACCTREC_NUM = Some (ac_RecordNumber s) \<and>
     GetEnum (m_acl m) AVPNAME_ACCTREALTIME = Some (sint (ng_value (ac_Realtime s))) \<and>
     GetU32 (m_acl m) AVPNAME_ACCTINTERVAL = Some (ng_value (ac_Interim s))"

lemma acct_TxACA_out:
  assumes "acct_TxACA env st rc s = (r, t)" "keeps_answers st"
  obtains "ac_Backward s" "as_out t = as_out s"
  | m where "as_out t = as_out s @ [Routed m]" "answers rc s m" "r = se_route env m"
proof (cases "ac_Backward s")
  case True
  with assms(1) that(1) show ?thesis by (simp add: acct_TxACA_def)
next
  case False
  obtain a d where a: "st_UpdateAcctResponse st (aca_msg env rc s) (sc_storage s) = (a, d)" by fastforce
  have 1: "differ_in (- answer_names) (aca_msg env rc s) a"
    using assms(2) a unfolding keeps_answers_def by (metis fst_conv)
  have "routable a (s\<lparr>sc_storage := d\<rparr>)" using same_payloadD(2) [OF 1] by (simp add: routable_def aca_msg_avps)
  then obtain m u where u: "sess_TxDelivery env a (s\<lparr>sc_storage := d\<rparr>) = (se_route env m, u)"
    "as_out u = as_out (s\<lparr>sc_storage := d\<rparr>) @ [Routed m]" "same_payload a m"
    by (rule TxDelivery_out)
  have "differ_in (- answer_names \<union> addr_names) (aca_msg env rc s) m"
    by (rule same_payload_trans [OF differ_in_mono [OF 1] differ_in_mono [OF u(3)]]) auto
  note m = same_payloadD [OF this]
  have "answers rc s m" unfolding answers_def using m(1,2) by (simp add: m(3,4) aca_msg_avps)
  moreover have "t = u" "r = se_route env m" using assms(1) False a u(1) by (simp_all add: acct_TxACA_def)
  ultimately show ?thesis using that(2) [of m] u(2) by simp
qed

lemma acct_TxACA_backed:
  assumes "keeps_answers st" "backed (as_out s)"
    "rc = AAA_SUCCESS \<Longrightarrow> as_out s \<noteq> [] \<and>
       (\<exists>a. last (as_out s) = RecordStored a (sint (ac_RecordType s)) (sint (ac_RecordNumber s)))"
  shows "backed (as_out (snd (acct_TxACA env st rc s)))"
proof -
  obtain r t where t: "acct_TxACA env st rc s = (r, t)" by fastforce
  show ?thesis
  proof (cases rule: acct_TxACA_out [OF t assms(1)])
    case 1
    with t assms(2) show ?thesis by simp
  next
    case (2 m)
    with t assms(2,3) show ?thesis by (auto simp: backed_routed is_ack_def backs_def answers_def)
  qed
qed

lemma acct_store_TxACA_backed:
  assumes "keeps_answers st" "backed (as_out s)"
  shows "backed (as_out (snd (acct_TxACA env st AAA_SUCCESS (server_store st m s))))"
  using assms by (intro acct_TxACA_backed) (simp_all add: acct_frames backed_other)

lemma and_then_backed:
  assumes "backed (as_out (snd x))" "\<And>t. backed (as_out t) \<Longrightarrow> backed (as_out (f t))"
  shows "backed (as_out (and_then x f))"
  using assms by (auto simp: and_then_def split: option.split)

interpretation acct_backed: machine_invariant acct_server_table "acct_server_act env st" "\<lambda>_ _. keeps_answers st"
  "\<lambda>s. backed (as_out s)" for env st
proof (unfold_locales, goal_cases)
  case (1 m ev e)
  have b: "backed (as_out (and_then (acct_TxACA env st AAA_SUCCESS (server_store st x y)) f))"
    if "as_out y = as_out m" "\<And>t. backed (as_out t) \<Longrightarrow> backed (as_out (f t))" for x f and y :: "'a acct_server"
    using 1(1,2) that by (intro and_then_backed acct_store_TxACA_backed) simp_all
  have "backed (as_out (acct_server_act env st a (m\<lparr>fsm_state := q\<rparr>)))" for a q
    using 1(1,2)
    by (cases a)
      (auto simp: take_pending_def backed_others acct_frames
        intro!: b and_then_backed acct_TxACA_backed split: option.split)
  then show ?case by blast
qed

lemma acct_server_Notify_backed:
  "backed (as_out s) \<Longrightarrow> keeps_answers st \<Longrightarrow> backed (as_out (acct_server_Notify env st ev s))"
  unfolding acct_server_Notify_def by (rule acct_backed.event_keeps)

lemma TxDelivery_backed:
  assumes "backed (as_out s)" "\<not> is_acct m"
  shows "backed (as_out (snd (sess_TxDelivery env m s)))"
proof (cases "routable m s \<or> se_SetDestRealm env \<noteq> None")
  case True
  then obtain m' t where "sess_TxDelivery env m s = (se_route env m', t)" "as_out t = as_out s @ [Routed m']" "same_payload m m'"
    by (rule TxDelivery_out_env)
  with assms same_payloadD(1) [of addr_names m m'] show ?thesis by (simp add: backed_routed is_ack_def)
next
  case False
  obtain m1 s1 where 1: "tx_host env m s = (m1, s1)" by fastforce
  with False tx_host_payload [OF 1] have "tx_realm env m1 s1 = None"
    by (simp add: routable_def tx_realm_def same_payloadD(2))
  with 1 tx_host_payload(4) [OF 1] assms(1) show ?thesis by (simp add: sess_TxDelivery_def)
qed

lemma acct_server_step_backed:
  assumes "acct_server_step A S st s s'" "backed (as_out s)" "keeps_answers st" "\<And>m. S m \<Longrightarrow> \<not> is_acct m"
  shows "backed (as_out s')"
  using assms(1)
proof cases
  case (Send env msg)
  with assms(2,4) show ?thesis by (simp add: acct_server_Send_def TxDelivery_backed)
next
  case (Request env msg)
  show ?thesis
  proof (cases rule: acct_server_RxRequest_cases [of env st msg s])
    case discarded
    with Request assms(2) show ?thesis by (simp add: acct_frames backed_others)
  next
    case nothing
    with Request assms(2) show ?thesis by simp
  next
    case (process sid)
    let ?r = "acct_server_read env msg (s\<lparr>as_SessionId := sid\<rparr>)"
    have "backed (as_out ?r)" using assms(2) by (simp add: acct_frames)
    moreover from this have "backed (as_out (snd (acct_TxACA env st AAA_OUT_OF_SPACE (server_store st msg ?r))))"
      using assms(3) by (intro acct_TxACA_backed) (simp_all add: acct_frames backed_others)
    ultimately have "backed (as_out (acct_server_process env st msg ?r))"
      using assms(3)
      by (auto simp: acct_server_process_def Let_def intro!: acct_server_Notify_backed and_then_backed
          acct_store_TxACA_backed split: option.split) (simp_all add: acct_frames backed_others)
    with Request process show ?thesis by simp
  qed
next
  case (Answer msg)
  with assms(2) show ?thesis by (simp add: acct_server_RxAnswer_def acct_frames backed_others)
next
  case (Error msg)
  with assms(2) show ?thesis by (simp add: acct_server_RxError_def acct_frames backed_others)
next
  case (Timer env ty ev sec)
  with assms(2,3) acct_server_Notify_backed show ?thesis by simp
qed

lemma acct_server_reach_backed:
  assumes "acct_server_reach A S st s" "keeps_answers st" "\<And>m. S m \<Longrightarrow> \<not> is_acct m"
  shows "backed (as_out s)"
  using assms(1)
proof (induction rule: acct_server_reach.induct)
  case (init env appId stateful junk subJunk d)
  show ?case
    by (simp add: new_acct_server_def Let_def fsm_Start_def new_acct_session_def acct_session.defs backed_def)
next
  case (step s s')
  then show ?case using acct_server_step_backed assms(2,3) by blast
qed

lemma acct_reach_numbered:
  assumes "acct_reach A S R co s" "keeps_numbers co" "\<And>env. A env \<Longrightarrow> se_SetDestRealm env \<noteq> None"
    "\<And>m. S m \<Longrightarrow> \<not> is_acct m"
  shows "numbered s"
  using assms(1)
proof (induction rule: acct_reach.induct)
  case (init env r junk subJunk c p)
  show ?case
    by (auto simp: new_acct_client_def RegisterSubSession_def Let_def fsm_Start_def new_acct_session_def
        acct_session.defs numbered_def acrs_def)
next
  case (step s s')
  then show ?case using acct_step_numbered assms(2-4) by blast
qed

end
