(* ===== verification/Acct_Props.thy ===== *)
theory Acct_Props
  imports Acct_Inv Session_Id_Props
begin

text \<open>
  What accounting sessions guarantee: the exchange of a record between a client and a server, the numbers and timers
  of every reachable session, what an acknowledgement stands for, and where the code does not do what its
  tables and comments say.
\<close>

interpretation acct_client_st: state_table acct_client_table acct_client_table
  by unfold_locales (rule acct_client_table_built)

interpretation acct_server_st: state_table acct_server_table acct_server_table
  by unfold_locales (rule acct_server_table_built)

lemma acct_client_entry:
  assumes "FsmEntry (fsm_state s) (Some ev) n a \<in> set acct_client_table" "fsm_running s"
  shows "fsm_Event acct_client_table act s ev = act a (s\<lparr>fsm_state := n\<rparr>)"
  using acct_client_st.specific_wins [OF assms(1), of ev] assms(2) by (simp add: fsm_Event_def)

lemma acct_server_entry:
  assumes "FsmEntry (fsm_state s) (Some ev) n a \<in> set acct_server_table" "fsm_running s"
  shows "fsm_Event acct_server_table act s ev = act a (s\<lparr>fsm_state := n\<rparr>)"
  using acct_server_st.specific_wins [OF assms(1), of ev] assms(2) by (simp add: fsm_Event_def)

text \<open>An event for which a state has only the wildcard leaves the machine as it is.\<close>

lemma acct_client_wild:
  assumes "(fsm_state s, Some ev) \<notin> entry_key ` set acct_client_table"
  shows "acct_Notify env co ev s = s" "acct_Notify0 co ev s = s"
proof -
  have "FsmEntry (fsm_state s) None (fsm_state s) ACA_None \<in> set acct_client_table"
    by (cases "fsm_state s") (simp_all add: acct_client_entries)
  from acct_client_st.lookup_deterministic_of_keys [OF this, of ev] assms
  show "acct_Notify env co ev s = s" "acct_Notify0 co ev s = s"
    by (simp_all add: acct_Notify_def acct_Notify0_def fsm_Event_def acct_act_def)
qed

lemma acct_server_wild:
  assumes "(fsm_state s, Some ev) \<notin> entry_key ` set acct_server_table" "fsm_state s \<in> {AST_IDLE, AST_OPEN}"
  shows "acct_server_Notify env st ev s = s"
proof -
  have "FsmEntry (fsm_state s) None (fsm_state s) ASA_None \<in> set acct_server_table"
    using assms(2) by (auto simp: acct_server_entries)
  from acct_server_st.lookup_deterministic_of_keys [OF this, of ev] assms(1)
  show ?thesis by (simp add: acct_server_Notify_def fsm_Event_def)
qed

subsection \<open>Sending a record\<close>

abbreviation request_names :: "string set" where
  "request_names \<equiv> {AVPNAME_ACCTREC_TYPE, AVPNAME_ACCTREC_NUM, AVPNAME_ACCTSUBSID}"

text \<open>
  A collector that adds to a request and leaves what the session has put in it, and that stores no record but when it is told.
\<close>

definition collector_ok :: "'c collector \<Rightarrow> bool" where
  "collector_ok co \<longleftrightarrow>
     (\<forall>a t n c k i. k \<in> request_names \<longrightarrow> GetAvp (fst (co_GenerateRecord co a t n c)) k i = GetAvp a k i) \<and>
     (\<forall>a t n c. co_IsLastRecordInStorage co (snd (co_GenerateRecord co a t n c)) = co_IsLastRecordInStorage co c)"

text \<open>The request of a session, as the router gets it.\<close>

definition requests :: "'c acct_client \<Rightarrow> msg \<Rightarrow> bool" where
  "requests s m \<longleftrightarrow>
     is_acct m \<and> h_r (m_hdr m) \<and> GetU32 (m_acl m) AVPNAME_ACCTREC_NUM = Some (ac_RecordNumber s) \<and>
     GetEnum (m_acl m) AVPNAME_ACCTREC_TYPE = Some (sint (ac_RecordType s)) \<and>
     GetU64 (m_acl m) AVPNAME_ACCTSUBSID = Some (ac_SubSessionId s) \<and>
     GetStr (m_acl m) AVPNAME_SESSIONID = Some (session_string (as_SessionId s))"

lemma acr_all_avps:
  "GetAvp (m_acl (acr_msg env s)) AVPNAME_ACCTREC_NUM 0 = Some (AvpU32 (ac_RecordNumber s))"
  "GetAvp (m_acl (acr_msg env s)) AVPNAME_ACCTREC_TYPE 0 = Some (AvpEnum (sint (ac_RecordType s)))"
  "GetAvp (m_acl (acr_msg env s)) AVPNAME_ACCTSUBSID 0 = Some (AvpU64 (ac_SubSessionId s))"
  by (simp_all add: acr_msg_def SessionId_Set_def AddAvp_def add_avp_def origin_avps_def recnum_avp_def
      rectype_avp_def acctid_avps_def GetAvp_def)

lemma acct_record_all:
  assumes "acct_record env co s = (m, t)" "collector_ok co" "\<not> ac_Backward s"
  shows "is_acct m" "h_r (m_hdr m)"
    "GetAvp (m_acl m) AVPNAME_ACCTREC_NUM 0 = Some (AvpU32 (ac_RecordNumber s + 1))"
    "GetAvp (m_acl m) AVPNAME_ACCTREC_TYPE 0 = Some (AvpEnum (sint (ac_RecordType s)))"
    "GetAvp (m_acl m) AVPNAME_ACCTSUBSID 0 = Some (AvpU64 (ac_SubSessionId s))"
    "\<exists>c. t = s\<lparr>ac_RecordNumber := ac_RecordNumber s + 1, cc_records := c\<rparr> \<and> has_record co t = has_record co s"
proof -
  let ?s = "s\<lparr>ac_RecordNumber := ac_RecordNumber s + 1\<rparr>"
  obtain a c where g: "co_GenerateRecord co (m_acl (acr_msg env ?s)) (sint (ac_RecordType s)) (sint (ac_RecordNumber s + 1))
      (cc_records s) = (a, c)" by fastforce
  have m: "m = (acr_msg env ?s)\<lparr>m_acl := a\<rparr>" "t = ?s\<lparr>cc_records := c\<rparr>"
    using assms(1,3) g by (simp_all add: acct_record_def Let_def)
  have k: "GetAvp a k i = GetAvp (m_acl (acr_msg env ?s)) k i" if "k \<in> request_names" for k i
    using assms(2) g that unfolding collector_ok_def by (metis fst_conv)
  have "co_IsLastRecordInStorage co c = co_IsLastRecordInStorage co (cc_records s)"
    using assms(2) g unfolding collector_ok_def by (metis snd_conv)
  then show "\<exists>c. t = s\<lparr>ac_RecordNumber := ac_RecordNumber s + 1, cc_records := c\<rparr> \<and> has_record co t = has_record co s"
    using m(2) by (intro exI [of _ c]) (simp add: has_record_def)
  show "is_acct m" "h_r (m_hdr m)" by (simp_all add: m acr_msg_avps)
  show "GetAvp (m_acl m) AVPNAME_ACCTREC_NUM 0 = Some (AvpU32 (ac_RecordNumber s + 1))"
    "GetAvp (m_acl m) AVPNAME_ACCTREC_TYPE 0 = Some (AvpEnum (sint (ac_RecordType s)))"
    "GetAvp (m_acl m) AVPNAME_ACCTSUBSID 0 = Some (AvpU64 (ac_SubSessionId s))"
    by (simp_all add: m k acr_all_avps)
qed

lemma acct_TxACR_sent:
  assumes "collector_ok co" "\<not> ac_Backward s" "se_SetDestRealm env \<noteq> None" "reachable_net env"
  obtains acr t where "acct_TxACR env co s = t" "as_out t = as_out s @ [Routed acr]" "requests t acr"
    "same_machine s t" "ac_RecordNumber t = ac_RecordNumber s + 1" "ac_RecordType t = ac_RecordType s"
    "has_record co t = has_record co s" "as_SessionId t = as_SessionId s" "\<not> ac_Backward t"
    "ac_SubSessionId t = ac_SubSessionId s" "ac_Realtime t = ac_Realtime s" "ac_Interim t = ac_Interim s"
proof -
  obtain m s1 where 1: "acct_record env co s = (m, s1)" by fastforce
  note r = acct_record_all [OF 1 assms(1,2)]
  obtain c where s1: "s1 = s\<lparr>ac_RecordNumber := ac_RecordNumber s + 1, cc_records := c\<rparr>" "has_record co s1 = has_record co s"
    using r(6) by blast
  obtain m' t where t: "sess_TxDelivery env m s1 = (se_route env m', t)" "as_out t = as_out s1 @ [Routed m']"
    "same_payload m m'" "GetStr (m_acl m') AVPNAME_SESSIONID = Some (session_string (as_SessionId s1))"
    using TxDelivery_out_env [of m s1 env] assms(3) by blast
  have rest: "same_rest s1 t" using TxDelivery_rest [of s1 env m] t(1) by simp
  have more: "session.more t = session.more s1" using rest by (simp add: same_rest_def)
  have attrs: "ac_RecordNumber t = ac_RecordNumber s + 1" "ac_RecordType t = ac_RecordType s" "\<not> ac_Backward t"
    "ac_SubSessionId t = ac_SubSessionId s" "ac_Realtime t = ac_Realtime s" "ac_Interim t = ac_Interim s"
    using more_acct(1-6) [OF more] assms(2) by (simp_all add: s1(1))
  have sid: "as_SessionId t = as_SessionId s1" "as_SessionId t = as_SessionId s"
    using same_restD(4) [OF rest] by (simp_all add: s1(1))
  have tx: "acct_TxACR env co s = t"
    using 1 t(1) assms(2,4) s1(1) by (simp add: acct_TxACR_def reachable_net_def)
  note k = differ_inD [OF t(3), of _ 0]
  have req: "requests t m'"
    using r(1-5) t(4) same_payloadD(1,2) [OF t(3)]
      k [of AVPNAME_ACCTREC_NUM] k [of AVPNAME_ACCTREC_TYPE] k [of AVPNAME_ACCTSUBSID]
    by (simp add: requests_def GetU32_def GetEnum_def GetU64_def attrs sid(1))
  have mach: "same_machine s t" using same_restD(1-3) [OF rest] by (simp add: same_machine_def s1(1))
  have rec: "has_record co t = has_record co s" using s1(2) more_client [OF more] by (simp add: has_record_def)
  have out: "as_out t = as_out s @ [Routed m']" using t(2) by (simp add: s1(1))
  show ?thesis by (rule that [OF tx out req mach attrs(1,2) rec sid(2) attrs(3-6)])
qed

subsection \<open>Taking a record\<close>

lemma SessionId_Get_cong:
  "GetStr a AVPNAME_SESSIONID = GetStr b AVPNAME_SESSIONID \<Longrightarrow> SessionId_Get lp64 a o0 = SessionId_Get lp64 b o0"
  by (simp add: SessionId_Get_def)

lemma GetStr_session: "GetStr (SessionId_Set sid []) AVPNAME_SESSIONID = Some (session_string sid)"
  by (simp add: SessionId_Set_def GetStr_def GetAvp_AddAvp_same)

text \<open>A server session has its identifier, or can read the one that it is sent.\<close>

definition knows_session :: "aenv \<Rightarrow> session_id \<Rightarrow> 'd acct_server \<Rightarrow> bool" where
  "knows_session env sid s \<longleftrightarrow>
     si_DiameterId (as_SessionId s) \<noteq> [] \<or> fst (SessionId_Get (se_lp64 env) (SessionId_Set sid []) empty_session_id)"

text \<open>A server session that is ready for records: stateful, with space, and answering by messages.\<close>

definition serves :: "'d storage \<Rightarrow> 'd acct_server \<Rightarrow> bool" where
  "serves st s \<longleftrightarrow>
     fsm_running s \<and> sc_stateful s \<and> \<not> ac_Backward s \<and> server_has_space st s \<and> keeps_answers st"

lemma acct_server_read_attrs:
  "ac_RecordNumber (acct_server_read env m s) =
     (case GetU32 (m_acl m) AVPNAME_ACCTREC_NUM of None \<Rightarrow> ac_RecordNumber s | Some n \<Rightarrow> n)"
  "ac_RecordType (acct_server_read env m s) =
     (case GetEnumU (m_acl m) AVPNAME_ACCTREC_TYPE of None \<Rightarrow> ac_RecordType s | Some t \<Rightarrow> t)"
  "ac_Backward (acct_server_read env m s) = ac_Backward s"
  "ac_Realtime (acct_server_read env m s) = settle (ae_SetRealTimeRequired env) (ac_Realtime s)"
  "ac_Interim (acct_server_read env m s) = settle (ae_SetInterimInterval env) (ac_Interim s)"
  using more_acct [OF MsgIdRx_rests(9), of m "acct_server_settle env (acct_server_filter (m_acl m) s)"]
  by (simp_all add: acct_server_read_def acct_server_settle_def acct_server_filter_def)

lemma acct_server_reads:
  assumes "is_acct m" "GetStr (m_acl m) AVPNAME_SESSIONID = Some (session_string sid0)" "knows_session env sid0 s"
  obtains sid where "acct_server_RxRequest env st m s =
      acct_server_process env st m (acct_server_read env m (s\<lparr>as_SessionId := sid\<rparr>))"
proof (cases "si_DiameterId (as_SessionId s) = []")
  case False
  with assms(1) that [of "as_SessionId s"] show ?thesis by (simp add: acct_server_RxRequest_def acct_server_read_def)
next
  case True
  obtain ok sid where g: "SessionId_Get (se_lp64 env) (m_acl m) empty_session_id = (ok, sid)" by fastforce
  moreover have "SessionId_Get (se_lp64 env) (m_acl m) empty_session_id =
      SessionId_Get (se_lp64 env) (SessionId_Set sid0 []) empty_session_id"
    using assms(2) by (intro SessionId_Get_cong) (simp add: GetStr_session)
  ultimately have ok using True assms(3) by (simp add: knows_session_def)
  with g True assms(1) show ?thesis
    by (intro that [of sid]) (simp add: acct_server_RxRequest_def acct_server_read_def)
qed

lemma acct_server_takes:
  assumes "requests c m" "knows_session env (as_SessionId c) s" "serves st s" "acr_event (ac_RecordType c) = Some ev"
    "FsmEntry (fsm_state s) (Some ev) q a \<in> set acct_server_table"
  obtains r where "acct_server_RxRequest env st m s = acct_server_act env st a r" "as_PendingMsg r = Some m"
    "fsm_state r = q" "fsm_running r" "as_out r = as_out s" "as_SessionTimeout r = as_SessionTimeout s"
    "ac_RecordNumber r = ac_RecordNumber c" "ac_RecordType r = ac_RecordType c" "\<not> ac_Backward r"
proof -
  have m: "is_acct m" "GetStr (m_acl m) AVPNAME_SESSIONID = Some (session_string (as_SessionId c))"
    "GetU32 (m_acl m) AVPNAME_ACCTREC_NUM = Some (ac_RecordNumber c)"
    "GetEnumU (m_acl m) AVPNAME_ACCTREC_TYPE = Some (ac_RecordType c)"
    using assms(1) by (simp_all add: requests_def GetEnumU_def)
  obtain sid where 1: "acct_server_RxRequest env st m s =
      acct_server_process env st m (acct_server_read env m (s\<lparr>as_SessionId := sid\<rparr>))"
    by (rule acct_server_reads [OF m(1,2) assms(2)])
  let ?r = "acct_server_read env m (s\<lparr>as_SessionId := sid\<rparr>)"
  have r: "sc_stateful ?r" "server_has_space st ?r" "ac_RecordType ?r = ac_RecordType c"
    "ac_RecordNumber ?r = ac_RecordNumber c" "\<not> ac_Backward ?r" "fsm_running ?r" "fsm_state ?r = fsm_state s"
    "as_out ?r = as_out s" "as_SessionTimeout ?r = as_SessionTimeout s"
    using assms(3) by (simp_all add: serves_def acct_frames acct_server_read_attrs m server_has_space_def)
  have "acct_server_process env st m ?r = acct_server_act env st a (?r\<lparr>as_PendingMsg := Some m, fsm_state := q\<rparr>)"
    using r(1-3) assms(4) acct_server_entry [of "?r\<lparr>as_PendingMsg := Some m\<rparr>" ev q a] assms(5) r(6,7)
    by (simp add: acct_server_process_def acct_server_Notify_def)
  with 1 r show ?thesis by (intro that [of "?r\<lparr>as_PendingMsg := Some m, fsm_state := q\<rparr>"]) simp_all
qed

lemma acct_TxACA_answers:
  assumes "keeps_answers st" "\<not> ac_Backward s" "reachable_net env"
  obtains aca t where "acct_TxACA env st rc s = (Some True, t)" "as_out t = as_out s @ [Routed aca]" "answers rc s aca"
    "same_machine s t" "as_SessionId t = as_SessionId s" "as_SessionTimeout t = as_SessionTimeout s"
    "ac_Interim t = ac_Interim s" "ac_Realtime t = ac_Realtime s"
proof -
  obtain r t where t: "acct_TxACA env st rc s = (r, t)" by fastforce
  note f = acct_TxACA_rests [OF t]
  show ?thesis
  proof (cases rule: acct_TxACA_out [OF t assms(1)])
    case 1
    with assms(2) show ?thesis by simp
  next
    case (2 m)
    with t assms(3) that [of t m] f(1-3,6,8,11,12) show ?thesis by (simp add: reachable_net_def same_machine_def)
  qed
qed

text \<open>A record that opens a session or keeps it open.\<close>

lemma acct_server_supervises:
  fixes s :: "'d acct_server"
  assumes "requests c m" "knows_session env (as_SessionId c) s" "serves st s" "acr_event (ac_RecordType c) = Some ev"
    "FsmEntry (fsm_state s) (Some ev) q ASA_Start \<in> set acct_server_table" "reachable_net env"
  obtains aca and r t :: "'d acct_server" where "acct_server_RxRequest env st m s = t" "answers AAA_SUCCESS r aca"
    "as_out t = as_out s @ [RecordStored (m_acl m) (sint (ac_RecordType c)) (sint (ac_RecordNumber c)), Routed aca, CbSuccess]"
    "fsm_state t = q" "fsm_running t"
    "fsm_timers t = [TIMER_TYPE_SESSION \<mapsto> (AEV_SESSION_TOUT, unat (ng_value (as_SessionTimeout s)))]"
    "ac_RecordType r = ac_RecordType c" "ac_Interim t = ac_Interim r" "ac_Realtime t = ac_Realtime r"
proof -
  obtain r where r: "acct_server_RxRequest env st m s = acct_server_act env st ASA_Start r" "as_PendingMsg r = Some m"
    "fsm_state r = q" "fsm_running r" "as_out r = as_out s" "as_SessionTimeout r = as_SessionTimeout s"
    "ac_RecordNumber r = ac_RecordNumber c" "ac_RecordType r = ac_RecordType c" "\<not> ac_Backward r"
    by (rule acct_server_takes [OF assms(1-5)])
  let ?s = "server_store st m (CancelAllTimer (r\<lparr>as_PendingMsg := None\<rparr>))"
  have "\<not> ac_Backward ?s" "keeps_answers st" using r(9) assms(3) by (simp_all add: acct_frames serves_def)
  then obtain aca t where t: "acct_TxACA env st AAA_SUCCESS ?s = (Some True, t)" "as_out t = as_out ?s @ [Routed aca]"
    "answers AAA_SUCCESS ?s aca" "same_machine ?s t" "as_SessionId t = as_SessionId ?s"
    "as_SessionTimeout t = as_SessionTimeout ?s" "ac_Interim t = ac_Interim ?s" "ac_Realtime t = ac_Realtime ?s"
    using acct_TxACA_answers [of st ?s env] assms(6) by blast
  have e: "acct_server_RxRequest env st m s = s_emit CbSuccess (arm_supervision t)"
    using r(1,2) t(1) by (simp add: take_pending_def and_then_def)
  show ?thesis
    by (rule that [OF e t(3)]) (use r t(2,4,6-8) in \<open>simp_all add: acct_frames same_machine_def\<close>)
qed

text \<open>A record that ends it.\<close>

lemma acct_server_ends:
  fixes s :: "'d acct_server"
  assumes "requests c m" "knows_session env (as_SessionId c) s" "serves st s" "ac_RecordType c = RECTYPE_STOP"
    "fsm_state s = AST_OPEN" "reachable_net env"
  obtains aca sid and r t :: "'d acct_server" where "acct_server_RxRequest env st m s = t" "answers AAA_SUCCESS r aca"
    "as_out t = as_out s @ [RecordStored (m_acl m) 4 (sint (ac_RecordNumber c)), Routed aca, CbSuccess,
       DbRemove sid, ForDeletion]"
    "fsm_state t = AST_IDLE" "\<not> fsm_running t" "fsm_timers t = Map.empty" "ac_RecordType r = RECTYPE_STOP"
proof -
  have "acr_event (ac_RecordType c) = Some AEV_RX_ACR_STOP_OK" using assms(4) by (simp add: acr_event_def)
  moreover have "FsmEntry (fsm_state s) (Some AEV_RX_ACR_STOP_OK) AST_IDLE ASA_Stop \<in> set acct_server_table"
    using assms(5) by (simp add: acct_server_entries)
  ultimately obtain r where r: "acct_server_RxRequest env st m s = acct_server_act env st ASA_Stop r" "as_PendingMsg r = Some m"
    "fsm_state r = AST_IDLE" "fsm_running r" "as_out r = as_out s" "as_SessionTimeout r = as_SessionTimeout s"
    "ac_RecordNumber r = ac_RecordNumber c" "ac_RecordType r = ac_RecordType c" "\<not> ac_Backward r"
    by (rule acct_server_takes [OF assms(1-3)])
  let ?s = "server_store st m (CancelAllTimer (r\<lparr>as_PendingMsg := None\<rparr>))"
  have "\<not> ac_Backward ?s" "keeps_answers st" using r(9) assms(3) by (simp_all add: acct_frames serves_def)
  then obtain aca t where t: "acct_TxACA env st AAA_SUCCESS ?s = (Some True, t)" "as_out t = as_out ?s @ [Routed aca]"
    "answers AAA_SUCCESS ?s aca" "same_machine ?s t" "as_SessionId t = as_SessionId ?s"
    "as_SessionTimeout t = as_SessionTimeout ?s" "ac_Interim t = ac_Interim ?s" "ac_Realtime t = ac_Realtime ?s"
    using acct_TxACA_answers [of st ?s env] assms(6) by blast
  have e: "acct_server_RxRequest env st m s = acct_server_Reset (s_emit CbSuccess t)"
    using r(1,2) t(1) by (simp add: take_pending_def and_then_def)
  show ?thesis
    by (rule that [OF e t(3)]) (use r t(2,4,5) assms(4) in \<open>simp_all add: acct_frames same_machine_def\<close>)
qed

subsection \<open>The answer\<close>

text \<open>A client that waits for an answer gets a successful one, with no record of its own in storage.\<close>

lemma acct_client_answered:
  assumes "answers AAA_SUCCESS r m" "fsm_running c" "\<not> has_record co c"
    "FsmEntry (fsm_state c) (Some AEV_RX_ACA_OK) q ACA_RxACASuccess \<in> set acct_client_table"
  obtains d where "acct_RxAnswer env co m c = acct_RxACASuccess co d" "fsm_state d = q" "fsm_running d"
    "fsm_timers d = fsm_timers c" "as_out d = as_out c" "\<not> has_record co d" "ac_RecordType d = ac_RecordType r"
    "ng_value (ac_Interim d) = ng_value (ac_Interim r)" "ng_value (ac_Realtime d) = ng_value (ac_Realtime r)"
proof -
  let ?c = "acct_dictate (m_acl m) (snd (sess_MsgIdRx m c))"
  have m: "is_acct m" "GetU32 (m_acl m) AVPNAME_RESULTCODE = Some AAA_SUCCESS"
    "GetEnumU (m_acl m) AVPNAME_ACCTREC_TYPE = Some (ac_RecordType r)"
    "GetEnumU (m_acl m) AVPNAME_ACCTREALTIME = Some (ng_value (ac_Realtime r))"
    "GetU32 (m_acl m) AVPNAME_ACCTINTERVAL = Some (ng_value (ac_Interim r))"
    using assms(1) by (simp_all add: answers_def GetEnumU_def)
  have "InterpretedResultCode AAA_SUCCESS = RCODE_SUCCESS" by (simp add: InterpretedResultCode_def)
  then have ok: "MsgResult m = RCODE_SUCCESS" using m(2) by (simp add: MsgResult_def ResultCode_def)
  have c: "fsm_state ?c = fsm_state c" "fsm_running ?c = fsm_running c" "fsm_timers ?c = fsm_timers c"
    "as_out ?c = as_out c" "ac_RecordType ?c = ac_RecordType r" "ng_value (ac_Interim ?c) = ng_value (ac_Interim r)"
    "ng_value (ac_Realtime ?c) = ng_value (ac_Realtime r)"
    by (simp_all add: acct_dictate_def acct_frames m opt_assign_def neg_assign_def)
  have h: "has_record co ?c = has_record co c"
    using more_client [OF MsgIdRx_rests(9), of m c] by (simp add: has_record_def acct_dictate_def)
  have "acct_RxAnswer env co m c = acct_RxACASuccess co (?c\<lparr>fsm_state := q\<rparr>)"
    using m(1) ok acct_client_entry [of ?c AEV_RX_ACA_OK q ACA_RxACASuccess] assms(2,4) c(1,2)
    by (simp add: acct_RxAnswer_def Let_def acct_Notify_def acct_act_def)
  then show ?thesis
    by (rule that) (use c h assms(2,3) in \<open>simp_all add: has_record_def\<close>)
qed

subsection \<open>The exchange of a record\<close>

lemma acct_act_TxACR:
  assumes "FsmEntry (fsm_state s) (Some ev) q ACA_TxACR \<in> set acct_client_table" "fsm_running s"
  shows "acct_Notify env co ev s = acct_TxACR env co (CancelAllTimer (s\<lparr>fsm_state := q\<rparr>))"
  using acct_client_entry [OF assms] by (simp add: acct_Notify_def acct_act_def)

lemma acct_RxACASuccess_spec:
  assumes "\<not> has_record co d"
  shows "fsm_state (acct_RxACASuccess co d) = fsm_state d" "fsm_running (acct_RxACASuccess co d) = fsm_running d"
    "ac_RecordType d \<in> {RECTYPE_START, RECTYPE_INTERIM} \<Longrightarrow>
       fsm_timers (acct_RxACASuccess co d) = [TIMER_TYPE_INTERVAL \<mapsto> (AEV_INT_EXPIRE, unat (ng_value (ac_Interim d)))]"
    "ac_RecordType d \<notin> {RECTYPE_START, RECTYPE_INTERIM} \<Longrightarrow> fsm_timers (acct_RxACASuccess co d) = fsm_timers d"
    "as_out (acct_RxACASuccess co d) = as_out d @ [CbSuccess]"
    "ac_Interim (acct_RxACASuccess co d) = ac_Interim d" "ac_Realtime (acct_RxACASuccess co d) = ac_Realtime d"
  using assms by (auto simp: acct_RxACASuccess_def arm_interim_def acct_frames)

text \<open>C15: an accounting session begins. The client is idle and runs, has no record in its storage (with one the answer
  arms no interval), does not work in the mode of backward compatibility, and the application names a realm to send to;
  its collector stores records only when it is told to, and only adds AVPs to the request, as the comment in \<open>test/test_client3.cxx\<close> line 48 describes
  \<open>GenerateRecord\<close>. The server is idle and runs, stateful, without backward compatibility, with space, knows or can read the
  session's identifier, and its \<open>UpdateAcctResponse\<close> only adds AVPs to the answer, as the comment in
  \<open>test/test_server3.cxx\<close> line 74 describes it. The routers of both take every message. Then the start record that
  \<open>Begin\<close> sends carries the next number, the server stores it before it answers and supervises the session from then on,
  and with the answer the client is open and will send its next record after the interval that the server has dictated.\<close>

theorem acct_start_exchange:
  fixes s :: "'d acct_server"
  assumes "fsm_state c = AST_IDLE" "fsm_running c" "\<not> ac_Backward c" "\<not> has_record co c" "collector_ok co"
    "se_SetDestRealm env \<noteq> None" "reachable_net env"
    and "fsm_state s = AST_IDLE" "serves st s" "knows_session env' (as_SessionId c) s" "reachable_net env'"
  shows "\<exists>c1 acr s1 aca c2.
    acct_Begin env co False c = c1 \<and> sent c c1 = [acr] \<and> acct_server_RxRequest env' st acr s = s1 \<and>
    as_out s1 = as_out s @ [RecordStored (m_acl acr) 2 (sint (ac_RecordNumber c + 1)), Routed aca, CbSuccess] \<and>
    acct_RxAnswer env co aca c1 = c2 \<and> as_out c2 = as_out c1 @ [CbSuccess] \<and>
    fsm_state s1 = AST_OPEN \<and> fsm_state c2 = AST_OPEN \<and>
    fsm_timers s1 = [TIMER_TYPE_SESSION \<mapsto> (AEV_SESSION_TOUT, unat (ng_value (as_SessionTimeout s)))] \<and>
    fsm_timers c2 = [TIMER_TYPE_INTERVAL \<mapsto> (AEV_INT_EXPIRE, unat (ng_value (ac_Interim s1)))] \<and>
    ng_value (ac_Realtime c2) = ng_value (ac_Realtime s1)"
proof -
  let ?b = "(acct_attributes env c)\<lparr>ac_RecordType := RECTYPE_START\<rparr>"
  note m = collector_machine(4) [of c env, unfolded same_machine_def]
  have h: "has_record co (acct_attributes env c) = has_record co c" "as_out (acct_attributes env c) = as_out c"
    "as_SessionId (acct_attributes env c) = as_SessionId c"
    by (simp_all add: acct_attributes_def has_record_def Let_def split: option.split)
  have b: "acct_Begin env co False c = acct_TxACR env co (CancelAllTimer (?b\<lparr>fsm_state := AST_PENDING_S\<rparr>))"
    using assms(1,2,4) m h acct_act_TxACR [of ?b AEV_REQUEST_ACCESS AST_PENDING_S]
    by (simp add: acct_Begin_def Let_def acct_client_entries)
  let ?p = "CancelAllTimer (?b\<lparr>fsm_state := AST_PENDING_S\<rparr>)"
  have "\<not> ac_Backward ?p" using assms(3) by (simp add: acct_frames)
  then obtain acr c1 where c1: "acct_TxACR env co ?p = c1" "as_out c1 = as_out ?p @ [Routed acr]" "requests c1 acr"
    "same_machine ?p c1" "ac_RecordNumber c1 = ac_RecordNumber ?p + 1" "ac_RecordType c1 = ac_RecordType ?p"
    "has_record co c1 = has_record co ?p" "as_SessionId c1 = as_SessionId ?p"
    using acct_TxACR_sent [OF assms(5) _ assms(6,7)] by metis
  have p: "fsm_state c1 = AST_PENDING_S" "fsm_running c1" "as_out c1 = as_out c @ [Routed acr]" "\<not> has_record co c1"
    "ac_RecordNumber c1 = ac_RecordNumber c + 1" "ac_RecordType c1 = RECTYPE_START" "as_SessionId c1 = as_SessionId c"
    using c1(2,4-8) m h assms(2,4) by (simp_all add: same_machine_def acct_frames has_record_def)
  have k: "knows_session env' (as_SessionId c1) s" using assms(10) p(7) by simp
  have f: "acr_event (ac_RecordType c1) = Some AEV_RX_ACR_START_OK"
    "FsmEntry (fsm_state s) (Some AEV_RX_ACR_START_OK) AST_OPEN ASA_Start \<in> set acct_server_table"
    using assms(8) p(6) by (simp_all add: acr_event_def acct_server_entries)
  obtain aca and r s1 :: "'d acct_server" where s1: "acct_server_RxRequest env' st acr s = s1" "answers AAA_SUCCESS r aca"
    "as_out s1 = as_out s @ [RecordStored (m_acl acr) (sint (ac_RecordType c1)) (sint (ac_RecordNumber c1)), Routed aca, CbSuccess]"
    "fsm_state s1 = AST_OPEN" "fsm_timers s1 = [TIMER_TYPE_SESSION \<mapsto> (AEV_SESSION_TOUT, unat (ng_value (as_SessionTimeout s)))]"
    "ac_RecordType r = ac_RecordType c1" "ac_Interim s1 = ac_Interim r" "ac_Realtime s1 = ac_Realtime r"
    by (rule acct_server_supervises [OF c1(3) k assms(9) f assms(11)]) blast
  have "FsmEntry (fsm_state c1) (Some AEV_RX_ACA_OK) AST_OPEN ACA_RxACASuccess \<in> set acct_client_table"
    using p(1) by (simp add: acct_client_entries)
  then obtain d where d: "acct_RxAnswer env co aca c1 = acct_RxACASuccess co d" "fsm_state d = AST_OPEN"
    "as_out d = as_out c1" "\<not> has_record co d" "ac_RecordType d = ac_RecordType r"
    "ng_value (ac_Interim d) = ng_value (ac_Interim r)" "ng_value (ac_Realtime d) = ng_value (ac_Realtime r)"
    by (rule acct_client_answered [OF s1(2) p(2,4)])
  have "sent c c1 = [acr]" using p(3) by (simp add: sent_def)
  then show ?thesis
    using b c1(1) s1 d p(5,6)
    by (intro exI [of _ c1] exI [of _ acr] exI [of _ s1] exI [of _ aca] exI [of _ "acct_RxACASuccess co d"])
      (simp add: acct_RxACASuccess_spec [OF d(4)])
qed

text \<open>an accounting session ends: the stop record that \<open>End\<close> sends is stored with its number before it is
  answered, the server session leaves the session database and goes to the garbage collector, and the client
  is idle with no timer left.\<close>

theorem acct_stop_exchange:
  fixes s :: "'d acct_server"
  assumes "fsm_state c = AST_OPEN" "fsm_running c" "\<not> ac_Backward c" "\<not> has_record co c" "collector_ok co"
    "se_SetDestRealm env \<noteq> None" "reachable_net env"
    and "fsm_state s = AST_OPEN" "serves st s" "knows_session env' (as_SessionId c) s" "reachable_net env'"
  shows "\<exists>c1 acr s1 aca c2 sid.
    acct_End env co c = c1 \<and> sent c c1 = [acr] \<and> acct_server_RxRequest env' st acr s = s1 \<and>
    as_out s1 = as_out s @ [RecordStored (m_acl acr) 4 (sint (ac_RecordNumber c + 1)), Routed aca, CbSuccess,
      DbRemove sid, ForDeletion] \<and>
    acct_RxAnswer env co aca c1 = c2 \<and> as_out c2 = as_out c1 @ [CbSuccess] \<and>
    \<not> fsm_running s1 \<and> fsm_timers s1 = Map.empty \<and> fsm_state c2 = AST_IDLE \<and> fsm_timers c2 = Map.empty"
proof -
  let ?b = "CancelAllTimer (c\<lparr>ac_RecordType := RECTYPE_STOP\<rparr>)"
  let ?p = "CancelAllTimer (?b\<lparr>fsm_state := AST_PENDING_L\<rparr>)"
  have b: "acct_End env co c = acct_TxACR env co ?p"
    using assms(1,2) acct_act_TxACR [of ?b AEV_STOP AST_PENDING_L]
    by (simp add: acct_End_def acct_client_entries acct_frames)
  have "\<not> ac_Backward ?p" using assms(3) by (simp add: acct_frames)
  then obtain acr c1 where c1: "acct_TxACR env co ?p = c1" "as_out c1 = as_out ?p @ [Routed acr]" "requests c1 acr"
    "same_machine ?p c1" "ac_RecordNumber c1 = ac_RecordNumber ?p + 1" "ac_RecordType c1 = ac_RecordType ?p"
    "has_record co c1 = has_record co ?p" "as_SessionId c1 = as_SessionId ?p"
    using acct_TxACR_sent [OF assms(5) _ assms(6,7)] by metis
  have p: "fsm_state c1 = AST_PENDING_L" "fsm_running c1" "as_out c1 = as_out c @ [Routed acr]" "\<not> has_record co c1"
    "ac_RecordNumber c1 = ac_RecordNumber c + 1" "ac_RecordType c1 = RECTYPE_STOP" "as_SessionId c1 = as_SessionId c"
    "fsm_timers c1 = Map.empty"
    using c1(2,4-8) assms(2,4) by (simp_all add: same_machine_def acct_frames has_record_def)
  obtain aca sid and r s1 :: "'d acct_server" where s1: "acct_server_RxRequest env' st acr s = s1" "answers AAA_SUCCESS r aca"
    "as_out s1 = as_out s @ [RecordStored (m_acl acr) 4 (sint (ac_RecordNumber c1)), Routed aca, CbSuccess,
       DbRemove sid, ForDeletion]"
    "\<not> fsm_running s1" "fsm_timers s1 = Map.empty" "ac_RecordType r = RECTYPE_STOP"
    by (rule acct_server_ends [OF c1(3) _ assms(9) p(6) assms(8,11)]) (use assms(10) p(7) in \<open>simp, blast\<close>)
  have "FsmEntry (fsm_state c1) (Some AEV_RX_ACA_OK) AST_IDLE ACA_RxACASuccess \<in> set acct_client_table"
    using p(1) by (simp add: acct_client_entries)
  then obtain d where d: "acct_RxAnswer env co aca c1 = acct_RxACASuccess co d" "fsm_state d = AST_IDLE"
    "as_out d = as_out c1" "\<not> has_record co d" "ac_RecordType d = ac_RecordType r" "fsm_timers d = fsm_timers c1"
    by (rule acct_client_answered [OF s1(2) p(2,4)])
  have "sent c c1 = [acr]" using p(3) by (simp add: sent_def)
  then show ?thesis
    using b c1(1) s1 d p(5,8)
    by (intro exI [of _ c1] exI [of _ acr] exI [of _ s1] exI [of _ aca] exI [of _ "acct_RxACASuccess co d"] exI [of _ sid])
      (simp add: acct_RxACASuccess_spec [OF d(4)])
qed

subsection \<open>Invariants\<close>

text \<open>C16: in every reachable state the machine of a sub-session runs; it has at most one timer, that of the next record
  or that of the session, and none at all while it waits for an answer.\<close>

theorem acct_client_timers:
  "acct_reach A S R co s \<Longrightarrow>
     fsm_running s \<and> (fsm_state s \<notin> {AST_IDLE, AST_OPEN} \<longrightarrow> fsm_timers s = Map.empty) \<and>
     (fsm_timers s = Map.empty \<or>
      (\<exists>n. fsm_timers s = [TIMER_TYPE_INTERVAL \<mapsto> (AEV_INT_EXPIRE, n)]) \<or>
      (\<exists>n. fsm_timers s = [TIMER_TYPE_SESSION \<mapsto> (AEV_SESSION_TOUT, n)]))"
  by (drule acct_reach_inv) (simp add: acct_inv_def acct_pending_def)

text \<open>C17: the accounting requests that a sub-session has sent are numbered 1, 2, 3, ... (in 32 bits) without a gap, and the
  attribute is the number of the last one, when the application names a realm to send them to, sends no
  accounting message of its own, and its collector leaves the number alone.\<close>

theorem acct_record_numbers:
  assumes "acct_reach A S R co s" "keeps_numbers co" "\<And>env. A env \<Longrightarrow> se_SetDestRealm env \<noteq> None"
    "\<And>m. S m \<Longrightarrow> h_code (m_hdr m) \<noteq> MSGCODE_ACCOUNTING"
  shows "List.map recnum (acrs s) = List.map (\<lambda>i. Some (of_nat i)) [1..<Suc (length (acrs s))] \<and>
    ac_RecordNumber s = of_nat (length (acrs s))"
  using acct_reach_numbered [OF assms] by (simp add: numbered_def)

text \<open>a server session is supervised as long as it is open: exactly the session timer runs. When it is idle and
  still runs it has no timer; a session that is not stateful never starts its machine.\<close>

theorem acct_server_supervised:
  assumes "acct_server_reach A S st s" "\<And>env m. A env \<Longrightarrow> se_route env m \<noteq> None"
  shows "fsm_state s \<in> {AST_IDLE, AST_OPEN} \<and> \<not> as_fault s \<and>
    (fsm_state s = AST_OPEN \<longrightarrow> fsm_running s \<and> (\<exists>n. fsm_timers s = [TIMER_TYPE_SESSION \<mapsto> (AEV_SESSION_TOUT, n)])) \<and>
    (fsm_state s = AST_IDLE \<and> fsm_running s \<longrightarrow> fsm_timers s = Map.empty) \<and> (fsm_running s \<longrightarrow> sc_stateful s)"
proof -
  have "\<And>env. A env \<Longrightarrow> no_throw env" using assms(2) by (simp add: no_throw_def)
  from acct_server_reach_inv [OF assms(1) this] show ?thesis by (auto simp: acct_server_inv_def)
qed

text \<open>C18: take a server session whose application does not send accounting messages of its own through \<open>Send\<close>, and whose
  \<open>UpdateAcctResponse\<close> only adds AVPs to the answer and leaves those of the session, as the comment in
  \<open>test/test_server3.cxx\<close> line 74 describes it (that of the library's own session, \<open>diameter_api.h\<close> line 622, does
  nothing). Whatever it has done so far, the entry of its trace before a successful accounting answer is the storing of
  a record, of the type and the number that the answer gives back.\<close>

theorem acct_answer_backed:
  assumes "acct_server_reach A S st s" "keeps_answers st" "\<And>m. S m \<Longrightarrow> h_code (m_hdr m) \<noteq> MSGCODE_ACCOUNTING"
    and "i < length (as_out s)" "as_out s ! i = Routed m" "is_ack m"
  shows "0 < i \<and> (\<exists>a n. as_out s ! (i - 1) = RecordStored a (the (GetEnum (m_acl m) AVPNAME_ACCTREC_TYPE)) n \<and>
    GetU32 (m_acl m) AVPNAME_ACCTREC_NUM = Some (word_of_int n))"
proof -
  have "backed (as_out s)" by (rule acct_server_reach_backed [OF assms(1-3)])
  from backed_nth [OF this [unfolded backed_def] assms(4-6)] show ?thesis
    by (cases "i = 0") (auto simp: backs_def)
qed

text \<open>What the application can do to a waiting sub-session, other than sending messages of its own.\<close>

abbreviation silent_step :: "(aenv \<Rightarrow> bool) \<Rightarrow> 'c collector \<Rightarrow> 'c acct_client \<Rightarrow> 'c acct_client \<Rightarrow> bool" where
  "silent_step A co \<equiv> acct_step A (\<lambda>_. False) (\<lambda>_. False) co"

definition waits_as :: "'c acct_client \<Rightarrow> 'c acct_client \<Rightarrow> bool" where
  "waits_as s t \<longleftrightarrow>
     fsm_state t = fsm_state s \<and> fsm_running t \<and> fsm_timers t = Map.empty \<and> routed (as_out t) = routed (as_out s)"

lemma pending_ignores:
  "acct_pending (fsm_state s) \<Longrightarrow> ev \<in> {AEV_REQUEST_ACCESS, AEV_REQUEST_ONETIME_ACCESS, AEV_REC_IN_STORAGE} \<Longrightarrow>
   acct_Notify env co ev s = s"
  by (rule acct_client_wild) (auto simp: acct_pending_def acct_client_entries entry_key_def)

lemma pending_stops:
  assumes "acct_pending (fsm_state s)" "fsm_running s"
  shows "acct_Notify env co AEV_STOP s \<in> {s, acct_StoreRecord co RECTYPE_STOP s}"
proof (cases "fsm_state s \<in> {AST_PENDING_S, AST_PENDING_I}")
  case True
  then have "FsmEntry (fsm_state s) (Some AEV_STOP) (fsm_state s) ACA_StoreStopRecord \<in> set acct_client_table"
    by (auto simp: acct_client_entries)
  from acct_client_entry [OF this assms(2)] show ?thesis by (simp add: acct_Notify_def acct_act_def)
next
  case False
  with assms(1) have "(fsm_state s, Some AEV_STOP) \<notin> entry_key ` set acct_client_table"
    by (auto simp: acct_client_entries entry_key_def acct_pending_def)
  from acct_client_wild(1) [OF this] show ?thesis by simp
qed

lemma store_stop_out:
  "fsm_state (acct_StoreRecord co RECTYPE_STOP s) = fsm_state s" "fsm_running (acct_StoreRecord co RECTYPE_STOP s) = fsm_running s"
  "fsm_timers (acct_StoreRecord co RECTYPE_STOP s) = Map.empty"
  "routed (as_out (acct_StoreRecord co RECTYPE_STOP s)) = routed (as_out s)"
  by (simp_all add: acct_StoreRecord_def store_record_def Let_def acct_frames)

lemma silent_step_waits:
  assumes "silent_step A co s t" "acct_pending (fsm_state s)" "fsm_running s" "fsm_timers s = Map.empty"
  shows "waits_as s t"
  using assms(1)
proof cases
  case (Begin env oneTime)
  let ?a = "acct_attributes env s"
  have a: "fsm_state ?a = fsm_state s" "fsm_running ?a" "fsm_timers ?a = Map.empty" "as_out ?a = as_out s"
    using collector_machine(4) [of s env] assms(3,4)
    by (simp_all add: same_machine_def acct_attributes_def Let_def split: option.split)
  with assms(2) have "acct_Begin env co oneTime s \<in> {?a, ?a\<lparr>ac_RecordType := RECTYPE_EVENT\<rparr>, ?a\<lparr>ac_RecordType := RECTYPE_START\<rparr>}"
    by (simp add: acct_Begin_def Let_def pending_ignores)
  with Begin a show ?thesis by (auto simp: waits_as_def)
next
  case (End env)
  let ?e = "CancelAllTimer (s\<lparr>ac_RecordType := RECTYPE_STOP\<rparr>)"
  have "acct_End env co s \<in> {?e, acct_StoreRecord co RECTYPE_STOP ?e}"
    unfolding acct_End_def by (rule pending_stops) (simp_all add: acct_frames assms(2,3))
  with End assms(3) show ?thesis by (auto simp: waits_as_def acct_frames store_stop_out)
qed (use assms in \<open>simp_all add: waits_as_def acct_RxRequest_def acct_RxError_def acct_frames\<close>)

lemma waits_closed:
  assumes "(silent_step B co)\<^sup>*\<^sup>* s t" "acct_pending (fsm_state s)" "fsm_running s" "fsm_timers s = Map.empty"
  shows "waits_as s t"
proof -
  have "waits_as s s" using assms(2-4) by (simp add: waits_as_def)
  from assms(1) this show ?thesis
  proof (induction rule: rtranclp_induct)
    case (step t u)
    with assms(2) have "waits_as t u" by (intro silent_step_waits) (simp_all add: waits_as_def)
    with step show ?case by (simp add: waits_as_def)
  qed simp
qed

text \<open>a reachable sub-session that waits for an answer has nothing of its own to end the wait: as long as no answer
  comes, whatever the application does but sending messages of its own, it stays in that state without a
  timer, and no message is sent.\<close>

theorem acct_pending_waits:
  assumes "acct_reach A S R co s" "fsm_state s \<notin> {AST_IDLE, AST_OPEN}" "(silent_step B co)\<^sup>*\<^sup>* s t"
  shows "fsm_state t = fsm_state s \<and> fsm_timers t = Map.empty \<and> routed (as_out t) = routed (as_out s)"
  using waits_closed [OF assms(3)] acct_reach_inv [OF assms(1)] assms(2)
  by (simp add: waits_as_def acct_inv_def acct_pending_def)

subsection \<open>Where the code goes wrong\<close>

text \<open>an open sub-session that has a record in storage when the interval elapses, and cannot send the next one, is
  stuck: the failure raises an event that the waiting state does not know, so the record is neither stored nor
  lost, no timer is left, and nothing is ever sent again unless an answer comes that nobody owes.\<close>

theorem second_outage_wedges:
  assumes "fsm_state c = AST_OPEN" "fsm_running c" "\<not> ac_Backward c" "has_record co c" "collector_ok co" "cut_off env"
  shows "fsm_state (acct_Notify env co AEV_INT_EXPIRE c) = AST_PENDING_I \<and>
    (\<forall>B t. (silent_step B co)\<^sup>*\<^sup>* (acct_Notify env co AEV_INT_EXPIRE c) t \<longrightarrow>
       fsm_state t = AST_PENDING_I \<and> fsm_timers t = Map.empty \<and>
       routed (as_out t) = routed (as_out (acct_Notify env co AEV_INT_EXPIRE c)))"
proof -
  let ?p = "(CancelAllTimer (c\<lparr>fsm_state := AST_PENDING_I\<rparr>))\<lparr>ac_RecordType := RECTYPE_INTERIM\<rparr>"
  have n: "acct_Notify env co AEV_INT_EXPIRE c = acct_TxACR env co ?p"
    using acct_client_entry [of c AEV_INT_EXPIRE AST_PENDING_I ACA_InterimTimeout] assms(1,2)
    by (simp add: acct_Notify_def acct_act_def acct_client_entries)
  obtain m s1 where 1: "acct_record env co ?p = (m, s1)" by fastforce
  have "\<not> ac_Backward ?p" using assms(3) by (simp add: acct_frames)
  from acct_record_all(6) [OF 1 assms(5) this] obtain x
    where s1: "s1 = ?p\<lparr>ac_RecordNumber := ac_RecordNumber ?p + 1, cc_records := x\<rparr>" "has_record co s1 = has_record co ?p"
    by blast
  obtain s2 where 2: "sess_TxDelivery env m s1 = (Some False, s2)"
    using cut_off_fails [OF assms(6), of m s1] by (cases "sess_TxDelivery env m s1") simp
  have r: "same_rest s1 s2" using TxDelivery_rest [of s1 env m] 2 by simp
  have "has_record co s2 = has_record co s1"
    using more_client [of s2 s1] r by (simp add: same_rest_def has_record_def)
  then have f: "fts_event co s2 = AEV_FTS" using s1(2) assms(4) by (simp add: fts_event_def has_record_def acct_frames)
  have q: "fsm_state s2 = AST_PENDING_I" "fsm_running s2" "fsm_timers s2 = Map.empty" "\<not> ac_Backward s1"
    using same_restD(1-3) [OF r] assms(2,3) by (simp_all add: s1(1) acct_frames)
  have "acct_Notify0 co AEV_FTS s2 = s2"
    by (rule acct_client_wild) (simp add: q(1) acct_client_entries entry_key_def)
  then have e: "acct_Notify env co AEV_INT_EXPIRE c = acct_Failed s2" using n 1 2 f q(4) by (simp add: acct_TxACR_def)
  have c: "fsm_state (acct_Failed s2) = AST_PENDING_I" "fsm_running (acct_Failed s2)" "fsm_timers (acct_Failed s2) = Map.empty"
    using q by (simp_all add: acct_Failed_def acct_frames)
  have "waits_as (acct_Failed s2) t" if "(silent_step B co)\<^sup>*\<^sup>* (acct_Failed s2) t" for B t
    by (rule waits_closed [OF that]) (simp_all add: c acct_pending_def)
  then show ?thesis unfolding e waits_as_def c(1) by blast
qed

text \<open>A server session without space for a start record answers that it is out of space and releases itself, and
  has stored nothing; the server demands that service be granted only with accounting delivered
  (DELIVER-AND-GRANT), and the client takes just that value for a reason to open the session. It arms the timer of the
  session, whose event an open session does not know: no interim record will ever be sent.\<close>

theorem out_of_space_grants:
  fixes s :: "'d acct_server"
  assumes "requests c acr" "fsm_state c = AST_PENDING_S" "fsm_running c" "\<not> has_record co c" "ac_RecordType c = RECTYPE_START"
    and "fsm_state s = AST_IDLE" "fsm_running s" "sc_stateful s" "\<not> ac_Backward s" "\<not> server_has_space st s"
    "keeps_answers st" "knows_session env' (as_SessionId c) s" "reachable_net env'"
    "ac_Realtime s = neg_Set REALTIME_DELIVER_AND_GRANT"
  shows "\<exists>s1 aca c2 sid n.
    acct_server_RxRequest env' st acr s = s1 \<and> as_out s1 = as_out s @ [Routed aca, CbFailed n, DbRemove sid, ForDeletion] \<and>
    GetU32 (m_acl aca) AVPNAME_RESULTCODE = Some AAA_OUT_OF_SPACE \<and> \<not> fsm_running s1 \<and>
    acct_RxAnswer env co aca c = c2 \<and> fsm_state c2 = AST_OPEN \<and>
    ng_value (ac_Realtime c2) = REALTIME_DELIVER_AND_GRANT \<and>
    fsm_timers c2 = [TIMER_TYPE_SESSION \<mapsto> (AEV_SESSION_TOUT, unat (ng_value (as_SessionTimeout c)))] \<and>
    acct_Notify env co AEV_SESSION_TOUT c2 = c2"
proof -
  have m: "is_acct acr" "GetStr (m_acl acr) AVPNAME_SESSIONID = Some (session_string (as_SessionId c))"
    "GetEnumU (m_acl acr) AVPNAME_ACCTREC_TYPE = Some RECTYPE_START"
    using assms(1,5) by (simp_all add: requests_def GetEnumU_def)
  obtain sid where 1: "acct_server_RxRequest env' st acr s =
      acct_server_process env' st acr (acct_server_read env' acr (s\<lparr>as_SessionId := sid\<rparr>))"
    by (rule acct_server_reads [OF m(1,2) assms(12)])
  let ?r = "(acct_server_read env' acr (s\<lparr>as_SessionId := sid\<rparr>))\<lparr>fsm_state := AST_IDLE\<rparr>"
  have r: "acct_server_RxRequest env' st acr s = acct_server_act env' st ASA_OutOfSpace ?r" "\<not> ac_Backward ?r"
    "as_out ?r = as_out s" "as_SessionId ?r = sid" "ac_RecordType ?r = RECTYPE_START"
    "ac_Realtime ?r = neg_Set REALTIME_DELIVER_AND_GRANT"
    using 1 assms(6-10,14) acct_server_entry [of "acct_server_read env' acr (s\<lparr>as_SessionId := sid\<rparr>)" AEV_RX_ACR_NO_BUF AST_IDLE ASA_OutOfSpace]
    by (simp_all add: acct_server_process_def acct_server_Notify_def acct_frames acct_server_entries
        server_has_space_def acct_server_read_attrs m settle_def neg_Set_def)
  obtain aca t where t: "acct_TxACA env' st AAA_OUT_OF_SPACE ?r = (Some True, t)" "as_out t = as_out ?r @ [Routed aca]"
    "answers AAA_OUT_OF_SPACE ?r aca" "as_SessionId t = as_SessionId ?r"
    using acct_TxACA_answers [of st ?r env'] assms(11,13) r(2) by blast
  let ?s1 = "acct_server_Reset (acct_server_Failed t)"
  have s1: "acct_server_RxRequest env' st acr s = ?s1" using r(1) t(1) by (simp add: and_then_def)
  let ?c = "acct_dictate (m_acl aca) (snd (sess_MsgIdRx aca c))"
  have a: "is_acct aca" "GetU32 (m_acl aca) AVPNAME_RESULTCODE = Some AAA_OUT_OF_SPACE"
    "GetEnumU (m_acl aca) AVPNAME_ACCTREC_TYPE = Some RECTYPE_START"
    "GetEnumU (m_acl aca) AVPNAME_ACCTREALTIME = Some REALTIME_DELIVER_AND_GRANT"
    using t(3) r(5,6) by (simp_all add: answers_def GetEnumU_def neg_Set_def)
  have "MsgResult aca \<noteq> RCODE_SUCCESS" using a(2) by (simp add: MsgResult_def ResultCode_def InterpretedResultCode_def)
  moreover have c: "fsm_state ?c = AST_PENDING_S" "fsm_running ?c" "as_SessionTimeout ?c = as_SessionTimeout c"
    "ac_RecordType ?c = RECTYPE_START" "ng_value (ac_Realtime ?c) = REALTIME_DELIVER_AND_GRANT"
    using assms(2,3) by (simp_all add: acct_dictate_def acct_frames a opt_assign_def neg_assign_def)
  moreover have "\<not> has_record co ?c"
    using more_client [OF MsgIdRx_rests(9), of aca c] assms(4) by (simp add: has_record_def acct_dictate_def)
  ultimately have c2: "acct_RxAnswer env co aca c = acct_Failed (acct_StartIntTimer (?c\<lparr>fsm_state := AST_OPEN\<rparr>))"
    using a(1) acct_client_entry [of ?c AEV_RX_ACA_FAIL_AND_GAL AST_OPEN ACA_StartIntTimer]
    by (simp add: acct_RxAnswer_def Let_def acct_Notify_def acct_act_def aca_fail_event_def acct_client_entries)
  let ?c2 = "acct_Failed (acct_StartIntTimer (?c\<lparr>fsm_state := AST_OPEN\<rparr>))"
  have d: "fsm_state ?c2 = AST_OPEN" "ng_value (ac_Realtime ?c2) = REALTIME_DELIVER_AND_GRANT"
    "fsm_timers ?c2 = [TIMER_TYPE_SESSION \<mapsto> (AEV_SESSION_TOUT, unat (ng_value (as_SessionTimeout c)))]"
    using c by (simp_all add: acct_Failed_def acct_StartIntTimer_def Let_def acct_frames)
  have "acct_Notify env co AEV_SESSION_TOUT ?c2 = ?c2"
    by (rule acct_client_wild) (simp add: d(1) acct_client_entries entry_key_def)
  with s1 c2 d show ?thesis
    by (intro exI [of _ ?s1] exI [of _ aca] exI [of _ ?c2] exI [of _ sid] exI [of _ "sint (ac_RecordNumber t)"])
      (simp add: acct_frames t r a)
qed

text \<open>The stop record of a session whose server has already let it go (its supervision timer fired, and a new
  session takes the record) is not answered, and its client waits for good.\<close>

theorem late_stop_unanswered:
  assumes "requests c acr" "ac_RecordType c = RECTYPE_STOP" "fsm_state c = AST_PENDING_L" "fsm_running c" "fsm_timers c = Map.empty"
    and "fsm_state s = AST_IDLE" "serves st s" "knows_session env' (as_SessionId c) s"
  shows "sent s (acct_server_RxRequest env' st acr s) = [] \<and> fsm_state (acct_server_RxRequest env' st acr s) = AST_IDLE \<and>
    fsm_timers (acct_server_RxRequest env' st acr s) = fsm_timers s \<and>
    (\<forall>B t. (silent_step B co)\<^sup>*\<^sup>* c t \<longrightarrow> fsm_state t = AST_PENDING_L \<and> routed (as_out t) = routed (as_out c))"
proof -
  have "acr_event (ac_RecordType c) = Some AEV_RX_ACR_STOP_OK" using assms(2) by (simp add: acr_event_def)
  have m: "is_acct acr" "GetStr (m_acl acr) AVPNAME_SESSIONID = Some (session_string (as_SessionId c))"
    "GetEnumU (m_acl acr) AVPNAME_ACCTREC_TYPE = Some RECTYPE_STOP"
    using assms(1,2) by (simp_all add: requests_def GetEnumU_def)
  obtain sid where 1: "acct_server_RxRequest env' st acr s =
      acct_server_process env' st acr (acct_server_read env' acr (s\<lparr>as_SessionId := sid\<rparr>))"
    by (rule acct_server_reads [OF m(1,2) assms(8)])
  let ?r = "(acct_server_read env' acr (s\<lparr>as_SessionId := sid\<rparr>))\<lparr>as_PendingMsg := Some acr\<rparr>"
  have "acct_server_Notify env' st AEV_RX_ACR_STOP_OK ?r = ?r"
    by (rule acct_server_wild) (simp_all add: acct_frames assms(6) acct_server_entries entry_key_def)
  then have r: "acct_server_RxRequest env' st acr s = ?r"
    using 1 assms(7) by (simp add: acct_server_process_def serves_def acct_frames acct_server_read_attrs m acr_event_def
        server_has_space_def)
  have "waits_as c t" if "(silent_step B co)\<^sup>*\<^sup>* c t" for B t
    by (rule waits_closed [OF that]) (simp_all add: assms(3-5) acct_pending_def)
  then have w: "\<forall>B t. (silent_step B co)\<^sup>*\<^sup>* c t \<longrightarrow> fsm_state t = AST_PENDING_L \<and> routed (as_out t) = routed (as_out c)"
    unfolding waits_as_def assms(3) by blast
  have "sent s ?r = []" "fsm_state ?r = AST_IDLE" "fsm_timers ?r = fsm_timers s"
    by (simp_all add: sent_def acct_frames assms(6))
  then show ?thesis using w unfolding r by blast
qed

text \<open>The number a sub-session has before it is registered is not initialised. When it happens to be one that the
  parent knows, the new sub-session is not registered: it has no session identifier, what comes for its number
  goes to the other one, and when it is destroyed the other one is removed.\<close>

theorem unregistered_subsession_hijacks:
  assumes "ap_SubSessionMap p k = Some r'" "new_acct_client env r junk k x p = (c, p')"
  shows "p' = p \<and> as_SessionId c = empty_session_id \<and> ac_SubSessionId c = k \<and>
    (\<forall>m. GetU64 (m_acl m) AVPNAME_ACCTSUBSID = Some (ac_SubSessionId c) \<longrightarrow> acct_lookup p' m = Some r') \<and>
    ap_SubSessionMap (snd (delete_acct_client c p')) k = None"
  using assms
  by (auto simp: new_acct_client_def RegisterSubSession_def Let_def fsm_Start_def new_acct_session_def
      acct_session.defs acct_lookup_def delete_acct_client_def RemoveSubSession_def)

text \<open>A stateful server session that is sent a one-time record stores and answers it, and stays: idle, running, without a
  timer, in the session database; nothing in the code will ever let it go.\<close>

theorem one_time_session_stays:
  assumes "requests c m" "knows_session env (as_SessionId c) s" "serves st s" "ac_RecordType c = RECTYPE_EVENT"
    "fsm_state s = AST_IDLE" "reachable_net env" "fsm_timers s = Map.empty"
  shows "\<exists>aca. as_out (acct_server_RxRequest env st m s) =
      as_out s @ [RecordStored (m_acl m) 1 (sint (ac_RecordNumber c)), Routed aca, CbSuccess] \<and>
    fsm_state (acct_server_RxRequest env st m s) = AST_IDLE \<and> fsm_running (acct_server_RxRequest env st m s)"
proof -
  have f: "acr_event (ac_RecordType c) = Some AEV_RX_ACR_EV_OK"
    "FsmEntry (fsm_state s) (Some AEV_RX_ACR_EV_OK) AST_IDLE ASA_RxACR \<in> set acct_server_table"
    using assms(4,5) by (simp_all add: acr_event_def acct_server_entries)
  obtain r where r: "acct_server_RxRequest env st m s = acct_server_act env st ASA_RxACR r" "as_PendingMsg r = Some m"
    "fsm_state r = AST_IDLE" "fsm_running r" "as_out r = as_out s" "ac_RecordNumber r = ac_RecordNumber c"
    "ac_RecordType r = ac_RecordType c" "\<not> ac_Backward r"
    by (rule acct_server_takes [OF assms(1-3) f]) blast
  let ?s = "server_store st m (r\<lparr>as_PendingMsg := None\<rparr>)"
  have "\<not> ac_Backward ?s" "keeps_answers st" using r(8) assms(3) by (simp_all add: acct_frames serves_def)
  then obtain aca t where t: "acct_TxACA env st AAA_SUCCESS ?s = (Some True, t)" "as_out t = as_out ?s @ [Routed aca]"
    "same_machine ?s t"
    using acct_TxACA_answers [of st ?s env] assms(6) by blast
  have "acct_server_RxRequest env st m s = s_emit CbSuccess t"
    using r(1,2) t(1) by (simp add: take_pending_def and_then_def)
  with r(3-7) t(2,3) assms(4) show ?thesis by (intro exI [of _ aca]) (simp add: acct_frames same_machine_def)
qed

subsection \<open>Witnesses\<close>

definition demo_aenv :: aenv where
  "demo_aenv = \<lparr>se_cfg = demo_cfg, se_lp64 = True, se_SetSessionTimeout = Some, se_SetDestHost = None,
     se_SetDestRealm = Some ''net'', se_SetUsername = Some ''user'', se_route = (\<lambda>m. Some True), se_db_Add = (\<lambda>x. x),
     ae_sessionTm = 30, ae_recIntervalTm = 5, ae_realtime = REALTIME_GRANT_AND_STORE, ae_SetRealTimeRequired = None,
     ae_SetInterimInterval = Some 9, ae_SetRadiusAcctSessionId = None, ae_SetMultiSessionId = None\<rparr>"

text \<open>A collector that keeps the types of its records, and a storage with room for a given number of records.\<close>

definition demo_collector :: "int list collector" where
  "demo_collector = \<lparr>co_GenerateRecord = (\<lambda>a t n c. (a @ [(''Event-Timestamp'', [AvpU32 7])], c)),
     co_IsLastRecordInStorage = (\<lambda>c. c \<noteq> []), co_IsStorageSpaceAvailable = (\<lambda>c. True),
     co_StoreLastRecord = (\<lambda>t c. c @ [t]), co_DeleteLastRecord = (\<lambda>t c. butlast c)\<rparr>"

definition demo_storage :: "nat storage" where
  "demo_storage = \<lparr>st_IsSpaceAvailableOnDevice = (\<lambda>d. 0 < d), st_StoreRecord = (\<lambda>a t n d. d - 1),
     st_UpdateAcctResponse = (\<lambda>m d. (m, d))\<rparr>"

definition demo_aparent :: "nat acct_parent" where
  "demo_aparent = \<lparr>ap_SessionId = \<lparr>si_counter = \<lparr>sc_High = 1, sc_Low = 2\<rparr>, si_DiameterId = ''a.net'', si_OptionalVal = ''x''\<rparr>,
     ap_ApplicationId = 3, ap_SubSessionId = 7, ap_SubSessionMap = [7 \<mapsto> 0]\<rparr>"

definition demo_client :: "int list acct_client" where
  "demo_client = fst (new_acct_client demo_aenv (1 :: nat) (\<lambda>_. 0) 0 [] demo_aparent)"

definition demo_server :: "nat \<Rightarrow> nat acct_server" where
  "demo_server d = (new_acct_server demo_aenv 3 True (\<lambda>_. 0) 0 d)\<lparr>as_SessionId := ap_SessionId demo_aparent\<rparr>"

lemmas demo_acct_defs = demo_client_def new_acct_client_def RegisterSubSession_def new_acct_session_def acct_session.defs
  demo_server_def new_acct_server_def fsm_Start_def demo_aparent_def

lemma GetAvp_append_first:
  "search a k \<noteq> None \<Longrightarrow> GetAvp (a @ b) k i = GetAvp a k i"
  "search a k = None \<Longrightarrow> search b k = None \<Longrightarrow> GetAvp (a @ b) k i = GetAvp a k i"
  by (induction a k rule: search.induct) (auto simp: GetAvp_def split: if_splits)

lemma demo_collector_ok: "collector_ok demo_collector" "keeps_numbers demo_collector"
proof -
  have "GetAvp (a @ [(''Event-Timestamp'', [AvpU32 7])]) k i = GetAvp a k i" if "k \<in> request_names" for a k i
    using that by (cases "search a k") (auto simp: GetAvp_append_first)
  then show "collector_ok demo_collector" "keeps_numbers demo_collector"
    by (simp_all add: collector_ok_def keeps_numbers_def demo_collector_def GetU32_def)
qed

lemma demo_env_facts: "se_SetDestRealm demo_aenv \<noteq> None" "reachable_net demo_aenv" "keeps_answers demo_storage"
  by (simp_all add: demo_aenv_def reachable_net_def keeps_answers_def demo_storage_def)

lemma demo_space: "st_IsSpaceAvailableOnDevice demo_storage d \<longleftrightarrow> 0 < d"
  by (simp add: demo_storage_def)

lemma demo_sessions:
  "fsm_state demo_client = AST_IDLE" "fsm_running demo_client" "\<not> ac_Backward demo_client"
  "\<not> has_record demo_collector demo_client" "fsm_timers demo_client = Map.empty" "fsm_state (demo_server d) = AST_IDLE"
  "0 < d \<Longrightarrow> serves demo_storage (demo_server d)" "knows_session env sid (demo_server d)"
  "fsm_timers (demo_server d) = Map.empty" "fsm_running (demo_server d)"
  by (simp_all add: demo_acct_defs has_record_def demo_collector_def serves_def demo_env_facts server_has_space_def
      demo_space knows_session_def Let_def)

lemma acr_msg_requests: "requests s (acr_msg env s)"
  using acr_msg_avps [of env s] acr_all_avps [of env s]
  by (simp add: requests_def GetU32_def GetEnum_def GetU64_def recnum_def)
    (simp add: acr_msg_def SessionId_Set_def AddAvp_def add_avp_def GetStr_def GetAvp_def)

theorem acct_start_exchange_witness:
  "\<exists>c1 acr s1 aca c2.
    acct_Begin demo_aenv demo_collector False demo_client = c1 \<and> sent demo_client c1 = [acr] \<and>
    acct_server_RxRequest demo_aenv demo_storage acr (demo_server 5) = s1 \<and>
    as_out s1 = as_out (demo_server 5) @ [RecordStored (m_acl acr) 2 (sint (ac_RecordNumber demo_client + 1)), Routed aca, CbSuccess] \<and>
    acct_RxAnswer demo_aenv demo_collector aca c1 = c2 \<and> as_out c2 = as_out c1 @ [CbSuccess] \<and>
    fsm_state s1 = AST_OPEN \<and> fsm_state c2 = AST_OPEN \<and>
    fsm_timers s1 = [TIMER_TYPE_SESSION \<mapsto> (AEV_SESSION_TOUT, unat (ng_value (as_SessionTimeout (demo_server 5))))] \<and>
    fsm_timers c2 = [TIMER_TYPE_INTERVAL \<mapsto> (AEV_INT_EXPIRE, unat (ng_value (ac_Interim s1)))] \<and>
    ng_value (ac_Realtime c2) = ng_value (ac_Realtime s1)"
  by (rule acct_start_exchange) (simp_all add: demo_sessions demo_env_facts(2) demo_collector_ok, simp add: demo_aenv_def)

definition demo_acct_open :: "int list acct_client" where
  "demo_acct_open = demo_client\<lparr>fsm_state := AST_OPEN, ac_RecordNumber := 4\<rparr>"

lemma demo_open_facts:
  "fsm_state demo_acct_open = AST_OPEN" "fsm_running demo_acct_open" "\<not> ac_Backward demo_acct_open"
  "\<not> has_record demo_collector demo_acct_open" "serves demo_storage ((demo_server 5)\<lparr>fsm_state := AST_OPEN\<rparr>)"
  "knows_session env sid ((demo_server 5)\<lparr>fsm_state := AST_OPEN\<rparr>)"
  by (simp_all add: demo_acct_open_def demo_acct_defs has_record_def demo_collector_def serves_def demo_env_facts
      server_has_space_def demo_space knows_session_def Let_def)

theorem acct_stop_exchange_witness:
  "\<exists>c1 acr s1 aca c2 sid.
    acct_End demo_aenv demo_collector demo_acct_open = c1 \<and> sent demo_acct_open c1 = [acr] \<and>
    acct_server_RxRequest demo_aenv demo_storage acr ((demo_server 5)\<lparr>fsm_state := AST_OPEN\<rparr>) = s1 \<and>
    as_out s1 = as_out ((demo_server 5)\<lparr>fsm_state := AST_OPEN\<rparr>) @
      [RecordStored (m_acl acr) 4 (sint (ac_RecordNumber demo_acct_open + 1)), Routed aca, CbSuccess, DbRemove sid, ForDeletion] \<and>
    acct_RxAnswer demo_aenv demo_collector aca c1 = c2 \<and> as_out c2 = as_out c1 @ [CbSuccess] \<and>
    \<not> fsm_running s1 \<and> fsm_timers s1 = Map.empty \<and> fsm_state c2 = AST_IDLE \<and> fsm_timers c2 = Map.empty"
  by (rule acct_stop_exchange) (simp_all add: demo_open_facts demo_env_facts(2) demo_collector_ok, simp add: demo_aenv_def)

lemma demo_reach:
  "acct_reach (\<lambda>e. e = demo_aenv) (\<lambda>_. False) (\<lambda>_. True) demo_collector
     (acct_Begin demo_aenv demo_collector False demo_client)"
  unfolding demo_client_def by (intro acct_reach.step [OF acct_reach.init acct_step.Begin]) simp_all

lemma demo_begin_state: "fsm_state (acct_Begin demo_aenv demo_collector False demo_client) = AST_PENDING_S"
proof -
  let ?b = "(acct_attributes demo_aenv demo_client)\<lparr>ac_RecordType := RECTYPE_START\<rparr>"
  have a: "acct_attributes demo_aenv demo_client = demo_client\<lparr>ac_Interim := neg_assign 9 (ac_Interim demo_client)\<rparr>"
    by (simp add: acct_attributes_def demo_aenv_def opt_assign_def)
  let ?p = "CancelAllTimer (?b\<lparr>fsm_state := AST_PENDING_S\<rparr>)"
  have "acct_Begin demo_aenv demo_collector False demo_client = acct_TxACR demo_aenv demo_collector ?p"
    using demo_sessions(1,2,4) acct_act_TxACR [of ?b AEV_REQUEST_ACCESS AST_PENDING_S]
    by (simp add: acct_Begin_def Let_def acct_client_entries a has_record_def)
  moreover obtain acr t where "acct_TxACR demo_aenv demo_collector ?p = t" "same_machine ?p t"
    by (rule acct_TxACR_sent [OF demo_collector_ok(1) _ demo_env_facts(1,2), of ?p])
      (simp add: acct_frames demo_sessions)
  ultimately show ?thesis by (simp add: same_machine_def acct_frames)
qed

theorem acct_client_timers_witness:
  "fsm_timers (acct_Begin demo_aenv demo_collector False demo_client) = Map.empty"
  using acct_client_timers [OF demo_reach] by (simp add: demo_begin_state)

theorem acct_record_numbers_witness:
  "List.map recnum (acrs (acct_Begin demo_aenv demo_collector False demo_client)) =
     List.map (\<lambda>i. Some (of_nat i)) [1..<Suc (length (acrs (acct_Begin demo_aenv demo_collector False demo_client)))] \<and>
   ac_RecordNumber (acct_Begin demo_aenv demo_collector False demo_client) =
     of_nat (length (acrs (acct_Begin demo_aenv demo_collector False demo_client)))"
  by (rule acct_record_numbers [OF demo_reach demo_collector_ok(2)]) (use demo_env_facts(1) in simp_all)

theorem acct_pending_waits_witness:
  "fsm_state (acct_End demo_aenv demo_collector (acct_Begin demo_aenv demo_collector False demo_client)) = AST_PENDING_S"
proof -
  have "(silent_step (\<lambda>e. e = demo_aenv) demo_collector)\<^sup>*\<^sup>* (acct_Begin demo_aenv demo_collector False demo_client)
      (acct_End demo_aenv demo_collector (acct_Begin demo_aenv demo_collector False demo_client))"
    by (intro r_into_rtranclp acct_step.End) simp
  from acct_pending_waits [OF demo_reach _ this] show ?thesis by (simp add: demo_begin_state)
qed

lemma demo_server_reach:
  "acct_server_reach (\<lambda>e. e = demo_aenv) (\<lambda>_. False) demo_storage
     (acct_server_RxRequest demo_aenv demo_storage m (new_acct_server demo_aenv 3 True (\<lambda>_. 0) 0 5))"
  by (rule acct_server_reach.step [OF acct_server_reach.init acct_server_step.Request]) simp_all

theorem acct_server_supervised_witness:
  "fsm_state (acct_server_RxRequest demo_aenv demo_storage (acr_msg demo_aenv demo_client)
     (new_acct_server demo_aenv 3 True (\<lambda>_. 0) 0 5)) \<in> {AST_IDLE, AST_OPEN}"
  using acct_server_supervised [OF demo_server_reach] by (simp add: demo_aenv_def)

theorem second_outage_wedges_witness:
  "fsm_state (acct_Notify (demo_aenv\<lparr>se_route := \<lambda>_. Some False\<rparr>) demo_collector AEV_INT_EXPIRE
     (demo_acct_open\<lparr>cc_records := [2]\<rparr>)) = AST_PENDING_I"
  by (rule second_outage_wedges [THEN conjunct1])
    (simp_all add: demo_open_facts demo_collector_ok cut_off_def has_record_def, simp add: demo_collector_def)

definition demo_acct_pending :: "acct_st \<Rightarrow> u32 \<Rightarrow> int list acct_client" where
  "demo_acct_pending q ty = demo_client\<lparr>fsm_state := q, ac_RecordType := ty\<rparr>"

lemma demo_pending_facts:
  "fsm_state (demo_acct_pending q ty) = q" "fsm_running (demo_acct_pending q ty)" "ac_RecordType (demo_acct_pending q ty) = ty"
  "\<not> has_record demo_collector (demo_acct_pending q ty)" "fsm_timers (demo_acct_pending q ty) = Map.empty"
  using demo_sessions(4) by (simp_all add: demo_acct_pending_def demo_sessions has_record_def)

theorem out_of_space_grants_witness:
  "\<exists>s1 aca c2 sid n.
    acct_server_RxRequest demo_aenv demo_storage (acr_msg demo_aenv (demo_acct_pending AST_PENDING_S RECTYPE_START)) (demo_server 0) = s1 \<and>
    as_out s1 = as_out (demo_server 0) @ [Routed aca, CbFailed n, DbRemove sid, ForDeletion] \<and>
    GetU32 (m_acl aca) AVPNAME_RESULTCODE = Some AAA_OUT_OF_SPACE \<and> \<not> fsm_running s1 \<and>
    acct_RxAnswer demo_aenv demo_collector aca (demo_acct_pending AST_PENDING_S RECTYPE_START) = c2 \<and> fsm_state c2 = AST_OPEN \<and>
    ng_value (ac_Realtime c2) = REALTIME_DELIVER_AND_GRANT \<and>
    fsm_timers c2 = [TIMER_TYPE_SESSION \<mapsto>
      (AEV_SESSION_TOUT, unat (ng_value (as_SessionTimeout (demo_acct_pending AST_PENDING_S RECTYPE_START))))] \<and>
    acct_Notify demo_aenv demo_collector AEV_SESSION_TOUT c2 = c2"
  by (rule out_of_space_grants [OF acr_msg_requests])
    (simp_all add: demo_pending_facts demo_sessions demo_env_facts(2,3), simp_all add: demo_acct_defs server_has_space_def
      demo_storage_def Let_def)

theorem late_stop_unanswered_witness:
  "sent (demo_server 5) (acct_server_RxRequest demo_aenv demo_storage
     (acr_msg demo_aenv (demo_acct_pending AST_PENDING_L RECTYPE_STOP)) (demo_server 5)) = []"
  by (rule late_stop_unanswered [OF acr_msg_requests, THEN conjunct1]) (simp_all add: demo_pending_facts demo_sessions)

theorem unregistered_subsession_hijacks_witness:
  "snd (new_acct_client demo_aenv 1 (\<lambda>_. 0) 7 ([] :: int list) demo_aparent) = demo_aparent \<and>
   ap_SubSessionMap (snd (delete_acct_client (fst (new_acct_client demo_aenv 1 (\<lambda>_. 0) 7 ([] :: int list) demo_aparent)) demo_aparent)) 7 = None"
proof -
  have k: "ap_SubSessionMap demo_aparent 7 = Some 0" by (simp add: demo_aparent_def)
  obtain c p' where n: "new_acct_client demo_aenv 1 (\<lambda>_. 0) 7 ([] :: int list) demo_aparent = (c, p')" by fastforce
  from unregistered_subsession_hijacks [OF k n] have "p' = demo_aparent"
    "ap_SubSessionMap (snd (delete_acct_client c p')) 7 = None" by blast+
  with n show ?thesis by simp
qed

theorem one_time_session_stays_witness:
  "fsm_running (acct_server_RxRequest demo_aenv demo_storage
     (acr_msg demo_aenv (demo_acct_pending AST_PENDING_E RECTYPE_EVENT)) (demo_server 5))"
  using one_time_session_stays [OF acr_msg_requests, of demo_aenv "demo_acct_pending AST_PENDING_E RECTYPE_EVENT" "demo_server 5" demo_storage demo_aenv]
  by (simp add: demo_pending_facts demo_sessions demo_env_facts(2))

theorem acct_answer_backed_witness:
  "\<exists>m a n. as_out (acct_server_RxRequest demo_aenv demo_storage (acr_msg demo_aenv (demo_acct_pending AST_PENDING_S RECTYPE_START))
       (new_acct_server demo_aenv 3 True (\<lambda>_. 0) 0 5)) ! 1 = Routed m \<and>
     as_out (acct_server_RxRequest demo_aenv demo_storage (acr_msg demo_aenv (demo_acct_pending AST_PENDING_S RECTYPE_START))
       (new_acct_server demo_aenv 3 True (\<lambda>_. 0) 0 5)) ! 0 =
       RecordStored a (the (GetEnum (m_acl m) AVPNAME_ACCTREC_TYPE)) n"
proof -
  let ?s = "new_acct_server demo_aenv 3 True (\<lambda>_. 0) 0 5 :: nat acct_server"
  let ?c = "demo_acct_pending AST_PENDING_S RECTYPE_START"
  let ?sid = "ap_SessionId demo_aparent"
  have "fst (SessionId_Get True (SessionId_Set ?sid []) empty_session_id)"
    by (subst Get_parts) (simp_all add: demo_aparent_def session_string_def decimal_less)
  then have k: "knows_session demo_aenv (as_SessionId ?c) ?s"
    by (simp add: knows_session_def demo_acct_pending_def demo_acct_defs Let_def) (simp add: demo_aenv_def)
  have v: "serves demo_storage ?s" "fsm_state ?s = AST_IDLE" "as_out ?s = []"
    using demo_sessions(7) [of 5] by (simp_all add: serves_def demo_acct_defs server_has_space_def Let_def)
  have f: "acr_event (ac_RecordType ?c) = Some AEV_RX_ACR_START_OK"
    "FsmEntry (fsm_state ?s) (Some AEV_RX_ACR_START_OK) AST_OPEN ASA_Start \<in> set acct_server_table"
    by (simp_all add: acr_event_def acct_server_entries demo_pending_facts v(2))
  obtain aca and r t :: "nat acct_server" and a n where t:
    "acct_server_RxRequest demo_aenv demo_storage (acr_msg demo_aenv ?c) ?s = t" "answers AAA_SUCCESS r aca"
    "as_out t = [RecordStored a 2 n, Routed aca, CbSuccess]"
    by (rule acct_server_supervises [OF acr_msg_requests k v(1) f demo_env_facts(2)])
      (simp add: v(3) demo_pending_facts)
  have "is_ack aca" using t(2) by (simp add: is_ack_def answers_def)
  with acct_answer_backed [OF demo_server_reach demo_env_facts(3), of 1 "acr_msg demo_aenv ?c" aca] t(1,3)
  show ?thesis by auto
qed

end
