(* ===== verification/Avp_Types.thy ===== *)
theory Avp_Types
  imports Parser_Headers C_Text
begin

text \<open>
  What the parsers of AVP values work on: the types of AVPs and the entries of a container
  (\<open>include/aaa_parser_defs.h\<close>, \<open>aaa_parser_api.h\<close>, \<open>libdiamparser/include/diameter_parser.h\<close>), the dictionary with
  its qualified lists and grouped AVPs (\<open>include/aaa_dictionary_api.h\<close>, \<open>libdiamparser/include/aaa_comlist.h\<close>,
  \<open>aaa_g_avplist.h\<close>, \<open>src/aaa_avplist.cxx\<close>), errors, and the buffer a message is written into.

  A parser is an explicit function on the state it changes. Its result is \<open>None\<close> when the code leaves the bytes it was
  given, or does not come back; \<open>Some (s, None)\<close> when it returns with the state \<open>s\<close>; \<open>Some (s, Some e)\<close> when it throws
  \<open>e\<close> and the state has become \<open>s\<close>.
\<close>

unbundle bit_operations_syntax

subsection \<open>Types and entries\<close>

datatype avp_type =
    DATA_TYPE | STRING_TYPE | ADDRESS_TYPE | INTEGER32_TYPE | INTEGER64_TYPE | UINTEGER32_TYPE | UINTEGER64_TYPE
  | UTF8_STRING_TYPE | ENUM_TYPE | DIAMID_TYPE | DIAMURI_TYPE | GROUPED_TYPE | TIME_TYPE | IPFILTER_RULE_TYPE
  | CUSTOM_TYPE

abbreviation (input) TRANSPORT_PROTO_TCP :: int where "TRANSPORT_PROTO_TCP \<equiv> 0"
abbreviation (input) TRANSPORT_PROTO_SCTP :: int where "TRANSPORT_PROTO_SCTP \<equiv> 1"
abbreviation (input) TRANSPORT_PROTO_UDP :: int where "TRANSPORT_PROTO_UDP \<equiv> - 1"
abbreviation (input) PROTO_DIAMETER :: int where "PROTO_DIAMETER \<equiv> 0"
abbreviation (input) PROTO_RADIUS :: int where "PROTO_RADIUS \<equiv> 1"
abbreviation (input) PROTO_TACACSPLUS :: int where "PROTO_TACACSPLUS \<equiv> - 1"
abbreviation (input) SCHEME_AAA :: int where "SCHEME_AAA \<equiv> 0"
abbreviation (input) SCHEME_AAAS :: int where "SCHEME_AAAS \<equiv> 1"

record diameter_uri =
  uri_fqdn :: string
  uri_port :: "16 word"
  uri_transport :: int
  uri_protocol :: int
  uri_scheme :: int

abbreviation (input) ACTION_PERMIT :: byte where "ACTION_PERMIT \<equiv> 0"
abbreviation (input) ACTION_DENY :: byte where "ACTION_DENY \<equiv> 1"
abbreviation (input) DIRECTION_IN :: byte where "DIRECTION_IN \<equiv> 0"
abbreviation (input) DIRECTION_OUT :: byte where "DIRECTION_OUT \<equiv> 1"
abbreviation (input) SRCDST_EXACT :: byte where "SRCDST_EXACT \<equiv> 0"
abbreviation (input) SRCDST_MASK :: byte where "SRCDST_MASK \<equiv> 1"
abbreviation (input) SRCDST_ANY :: byte where "SRCDST_ANY \<equiv> 2"
abbreviation (input) SRCDST_ASSIGNED :: byte where "SRCDST_ASSIGNED \<equiv> 3"

record src_dst =
  sd_modifier :: bool
  sd_representation :: byte
  sd_ipno :: string
  sd_bits :: byte
  sd_ports :: "(16 word \<times> 16 word) list"

record ipfilter_rule =
  fr_action :: byte
  fr_dir :: byte
  fr_proto :: byte
  fr_src :: src_dst
  fr_dst :: src_dst
  fr_frag :: bool
  fr_ipOptions :: "int list"
  fr_tcpOptions :: "int list"
  fr_established :: bool
  fr_setup :: bool
  fr_tcpFlags :: "int list"
  fr_icmpTypes :: "(byte \<times> byte) list"

text \<open>The container entries, one constructor for each class that is an \<open>AAATypeSpecificAvpContainerEntry\<close>; classes
  that serve several types carry theirs.\<close>

datatype avp_entry =
    Int32Entry avp_type u32
  | Int64Entry avp_type "64 word"
  | StrEntry avp_type string
  | AddrEntry "16 word" string
  | UriEntry diameter_uri
  | FilterEntry ipfilter_rule
  | GroupEntry "(string \<times> avp_entry list) list"

text \<open>\<open>AAAAvpContainerList\<close>: containers in order, each with its name and its entries.\<close>

type_synonym containers = "(string \<times> avp_entry list) list"

fun dataType :: "avp_entry \<Rightarrow> avp_type" where
  "dataType (Int32Entry t _) = t"
| "dataType (Int64Entry t _) = t"
| "dataType (StrEntry t _) = t"
| "dataType (AddrEntry _ _) = ADDRESS_TYPE"
| "dataType (UriEntry _) = DIAMURI_TYPE"
| "dataType (FilterEntry _) = IPFILTER_RULE_TYPE"
| "dataType (GroupEntry _) = GROUPED_TYPE"

fun find_container :: "containers \<Rightarrow> string \<Rightarrow> avp_entry list option" where
  "find_container [] n = None"
| "find_container ((m, es) # cs) n = (if m = n then Some es else find_container cs n)"

subsection \<open>Errors\<close>

datatype parse_bug =
    MISSING_CONTAINER | TOO_MUCH_AVP_ENTRIES | TOO_LESS_AVP_ENTRIES | PROHIBITED_CONTAINER | INVALID_CONTAINER_PARAM
  | INVALID_CONTAINER_CONTENTS | UNSUPPORTED_FUNCTIONALITY | INVALID_PARSER_USAGE | MISSING_AVP_DICTIONARY_ENTRY
  | MISSING_AVP_VALUE_PARSER

datatype parse_error = NormalError u32 | BugError parse_bug

type_synonym 's parsed = "('s \<times> parse_error option) option"

definition returns :: "'s \<Rightarrow> 's parsed" where
  "returns s = Some (s, None)"

definition throws :: "'s \<Rightarrow> parse_error \<Rightarrow> 's parsed" where
  "throws s e = Some (s, Some e)"

text \<open>The next statement runs when the one before returned.\<close>

definition seq :: "'s parsed \<Rightarrow> ('s \<Rightarrow> 's parsed) \<Rightarrow> 's parsed" where
  "seq r f = (case r of None \<Rightarrow> None | Some (s, Some e) \<Rightarrow> Some (s, Some e) | Some (s, None) \<Rightarrow> f s)"

subsection \<open>The dictionary\<close>

record avp_dict = dict_entry +
  d_name :: string
  d_type :: avp_type

record qualified_avp =
  q_avp :: avp_dict
  q_min :: nat
  q_max :: nat

record dictionary =
  avp_f :: "qualified_avp list"
  avp_r :: "qualified_avp list"
  avp_o :: "qualified_avp list"

text \<open>The singletons: the list of all AVPs, the grouped ones under their code and vendor. \<open>te_spirit\<close> is the parser
  generator, see below.\<close>

fun search_avp :: "avp_dict list \<Rightarrow> string \<Rightarrow> avp_dict option" where
  "search_avp [] n = None"
| "search_avp (d # ds) n = (if d_name d = n then Some d else search_avp ds n)"

fun search_group :: "((u32 \<times> u32) \<times> dictionary) list \<Rightarrow> u32 \<Rightarrow> u32 \<Rightarrow> dictionary option" where
  "search_group [] c v = None"
| "search_group ((cv, g) # gs) c v = (if cv = (c, v) then Some g else search_group gs c v)"

text \<open>\<open>DiameterAvpTypeList::registerDefaultTypes\<close>: the smallest size of a value of a type.\<close>

fun type_min_size :: "avp_type \<Rightarrow> u32 option" where
  "type_min_size CUSTOM_TYPE = None"
| "type_min_size INTEGER32_TYPE = Some 4"
| "type_min_size UINTEGER32_TYPE = Some 4"
| "type_min_size ENUM_TYPE = Some 4"
| "type_min_size TIME_TYPE = Some 4"
| "type_min_size INTEGER64_TYPE = Some 8"
| "type_min_size UINTEGER64_TYPE = Some 8"
| "type_min_size _ = Some 0"

text \<open>\<open>getMinSize\<close>: the group's definition may hold groups; \<open>n\<close> bounds the depth. The sum over the fixed AVPs is
  overwritten by that over the required ones.\<close>

definition sum_sizes :: "(avp_dict \<Rightarrow> (parse_bug + u32) option) \<Rightarrow> qualified_avp list \<Rightarrow> (parse_bug + u32) option" where
  "sum_sizes f qs =
     foldl (\<lambda>acc q. case acc of
              Some (Inr t) \<Rightarrow>
                (case f (q_avp q) of
                   Some (Inr m) \<Rightarrow> Some (Inr (t + m * of_nat (q_min q)))
                 | r \<Rightarrow> r)
            | r \<Rightarrow> r)
       (Some (Inr 0)) qs"

fun getMinSize :: "((u32 \<times> u32) \<times> dictionary) list \<Rightarrow> nat \<Rightarrow> avp_dict \<Rightarrow> (parse_bug + u32) option" where
  "getMinSize gs 0 d = None"
| "getMinSize gs (Suc n) d =
     (case type_min_size (d_type d) of
        None \<Rightarrow> Some (Inl MISSING_AVP_VALUE_PARSER)
      | Some m \<Rightarrow>
          let own = m + 8 + (if d_vendor d \<noteq> 0 then 4 else 0) in
          if d_type d = GROUPED_TYPE
          then (case search_group gs (d_code d) (d_vendor d) of
                  None \<Rightarrow> Some (Inl MISSING_AVP_DICTIONARY_ENTRY)
                | Some g \<Rightarrow>
                    (case sum_sizes (getMinSize gs n) (avp_f g) of
                       Some (Inr _) \<Rightarrow>
                         (case sum_sizes (getMinSize gs n) (avp_r g) of
                            Some (Inr t) \<Rightarrow> Some (Inr (t + own))
                          | r \<Rightarrow> r)
                     | r \<Rightarrow> r))
          else Some (Inr own))"

text \<open>\<open>DiameterErrorCode::set(type, code, dict)\<close> computes an AVP of the smallest size before it is thrown, and throws
  what that throws. The octets of this AVP are left out: nothing looks at them.\<close>

definition throws_avp ::
  "((u32 \<times> u32) \<times> dictionary) list \<Rightarrow> nat \<Rightarrow> 's \<Rightarrow> u32 \<Rightarrow> avp_dict \<Rightarrow> 's parsed" where
  "throws_avp gs n s code d =
     (case getMinSize gs n d of
        None \<Rightarrow> None
      | Some (Inl b) \<Rightarrow> throws s (BugError b)
      | Some (Inr _) \<Rightarrow> throws s (NormalError code))"

subsection \<open>Bytes\<close>

definition char_of_byte :: "byte \<Rightarrow> char" where
  "char_of_byte b = char_of (unat b)"

definition byte_of_char :: "char \<Rightarrow> byte" where
  "byte_of_char ch = of_nat (of_char ch)"

lemma byte_of_char_of_byte [simp]: "byte_of_char (char_of_byte b) = b"
proof -
  have "unat b < 256" using unsigned_less [of b] by simp
  then show ?thesis by (simp add: byte_of_char_def char_of_byte_def)
qed

lemma char_of_byte_of_char [simp]: "char_of_byte (byte_of_char ch) = ch"
proof -
  have "(of_char ch :: nat) < 256" by (simp add: of_char_def)
  then show ?thesis by (simp add: byte_of_char_def char_of_byte_def unat_of_nat)
qed

definition str_of_bytes :: "byte list \<Rightarrow> string" where
  "str_of_bytes = map char_of_byte"

definition bytes_of_str :: "string \<Rightarrow> byte list" where
  "bytes_of_str = map byte_of_char"

lemma str_of_bytes_of_str [simp]: "str_of_bytes (bytes_of_str s) = s"
  by (simp add: str_of_bytes_def bytes_of_str_def comp_def)

lemma bytes_of_str_of_bytes [simp]: "bytes_of_str (str_of_bytes s) = s"
  by (simp add: str_of_bytes_def bytes_of_str_def comp_def)

lemma length_bytes_of_str [simp]: "length (bytes_of_str s) = length s" "length (str_of_bytes bs) = length bs"
  by (simp_all add: bytes_of_str_def str_of_bytes_def)

text \<open>\<open>AAA_HTON_64\<close> exchanges the halves and swaps each.\<close>

definition bytes_of64 :: "64 word \<Rightarrow> byte list" where
  "bytes_of64 w = bytes_of32 (ucast (drop_bit 32 w)) @ bytes_of32 (ucast w)"

definition read64 :: "byte list \<Rightarrow> 64 word" where
  "read64 bs = push_bit 32 (ucast (read32 bs)) OR ucast (read32 (drop 4 bs))"

lemma length_bytes_of64 [simp]: "length (bytes_of64 w) = 8"
  by (simp add: bytes_of64_def)

lemma read64_bytes_of64 [simp]: "read64 (bytes_of64 w @ rest) = w"
proof -
  have "push_bit 32 (ucast (ucast (drop_bit 32 w) :: u32)) OR ucast (ucast w :: u32) = w"
    by (rule bit_word_eqI) (auto simp: bit_simps)
  then show ?thesis by (simp add: read64_def bytes_of64_def)
qed

definition bytes_of16 :: "16 word \<Rightarrow> byte list" where
  "bytes_of16 w = [ucast (drop_bit 8 w), ucast w]"

definition read16 :: "byte list \<Rightarrow> 16 word" where
  "read16 bs = push_bit 8 (ucast (bs ! 0)) OR ucast (bs ! 1)"

lemma read16_bytes_of16 [simp]: "read16 (bytes_of16 w @ rest) = w"
proof -
  have "push_bit 8 (ucast (ucast (drop_bit 8 w) :: byte)) OR ucast (ucast w :: byte) = w"
    by (rule bit_word_eqI) (auto simp: bit_simps)
  then show ?thesis by (simp add: read16_def bytes_of16_def)
qed

lemma length_bytes_of16 [simp]: "length (bytes_of16 w) = 2"
  by (simp add: bytes_of16_def)

subsection \<open>The buffer a message is written into\<close>

text \<open>\<open>AAAMessageBlock\<close> as a writer sees it: the size of the block and the bytes in front of \<open>wr_ptr\<close>. What is behind
  it is zero: the payload parser clears it, and a writer only moves forward, but for the header of an AVP, which is
  written once more over itself. The padding of an AVP may move \<open>wr_ptr\<close> past the end.\<close>

record wbuf =
  wb_size :: nat
  wb_out :: "byte list"

text \<open>\<open>size + base - wr_ptr < n\<close> is computed in \<open>size_t\<close>: past the end there is always room.\<close>

definition wb_room :: "wbuf \<Rightarrow> nat \<Rightarrow> bool" where
  "wb_room b n \<longleftrightarrow> wb_size b < length (wb_out b) \<or> n \<le> wb_size b - length (wb_out b)"

definition wb_put :: "byte list \<Rightarrow> wbuf \<Rightarrow> wbuf option" where
  "wb_put bs b =
     (if bs = [] \<or> length (wb_out b) + length bs \<le> wb_size b then Some (b\<lparr>wb_out := wb_out b @ bs\<rparr>) else None)"

text \<open>Writing a value, with the check in front of it.\<close>

definition write_value :: "byte list \<Rightarrow> wbuf \<Rightarrow> wbuf parsed" where
  "write_value bs b =
     (if \<not> wb_room b (length bs) then throws b (NormalError AAA_OUT_OF_SPACE)
      else case wb_put bs b of None \<Rightarrow> None | Some b' \<Rightarrow> returns b')"

text \<open>\<open>wr_ptr(base + adjust_word_boundary(wr_ptr - base))\<close>.\<close>

definition padded :: "wbuf \<Rightarrow> nat" where
  "padded b = unat (adjust_word_boundary (of_nat (length (wb_out b))))"

definition wb_pad :: "wbuf \<Rightarrow> wbuf" where
  "wb_pad b = b\<lparr>wb_out := take (padded b) (wb_out b) @ replicate (padded b - length (wb_out b)) 0\<rparr>"

end
