(* ===== verification/Avp_Grammar.thy ===== *)
theory Avp_Grammar
  imports Avp_Types
begin

text \<open>
  The grammars of \<open>libdiamparser/include/aaa_parser_avpvalue.h\<close>: identities, URIs and IP filter rules. They are written
  for Boost.Spirit, so they stand here as data, with the operators the code uses, and the parser that runs them is an
  argument of the value parsers. It is given a grammar and a text, skips white space, and answers whether the whole text
  was taken and which semantic actions ran, in their order, with the text or the number each was given. What the
  actions do to the value is code of the repository and defined here.
\<close>

subsection \<open>Grammars\<close>

datatype side = Src | Dst

datatype int_list = IpOptions | TcpOptions | TcpFlags

text \<open>The semantic actions: functors with the field they refer to. \<open>KwTmp\<close> is the variable \<open>tmp\<close>.\<close>

datatype sem =
    SchemeFunctor | TransportFunctor | ProtocolFunctor | FqdnFunctor | AssignPort
  | KwAction | KwDir | KwTmp | KwRepresentation side
  | AssignProto | AssignBits side | IPAddressFunctor side | ModifierFunctor side
  | PortRange1 side | PortRange2 side
  | FragFunctor | EstablishedFunctor | SetupFunctor | IntListFunctor int_list int
  | IcmpRange1 | IcmpRange2

datatype matched = MText string | MNum int

datatype gram =
    ChP char
  | StrP string
  | AlphaP
  | AlnumP
  | DigitP
  | UIntP nat nat "nat option"
  | IntP
  | LimitD int int gram
  | Seq gram gram
  | Alt gram gram
  | Star gram
  | Plus gram
  | Opt gram
  | ListP gram gram
  | On gram sem

type_synonym spirit = "gram \<Rightarrow> string \<Rightarrow> bool \<times> (sem \<times> matched) list"

fun seqs :: "gram list \<Rightarrow> gram" where
  "seqs [] = StrP []"
| "seqs [g] = g"
| "seqs (g # gs) = Seq g (seqs gs)"

fun alts :: "gram list \<Rightarrow> gram" where
  "alts [] = StrP []"
| "alts [g] = g"
| "alts (g # gs) = Alt g (alts gs)"

abbreviation uint_p :: gram where "uint_p \<equiv> UIntP 10 1 None"
abbreviation uint3_p :: gram where "uint3_p \<equiv> UIntP 10 1 (Some 3)"
abbreviation hex4_p :: gram where "hex4_p \<equiv> UIntP 16 1 (Some 4)"

subsection \<open>Identities\<close>

definition diameterName :: gram where
  "diameterName = Seq AlphaP (Star (Alt AlnumP (ChP (CHR ''-''))))"

definition diameterDname :: gram where
  "diameterDname = Seq DigitP (Plus (Alt AlnumP (ChP (CHR ''-''))))"

definition label :: gram where
  "label = Alt diameterName diameterDname"

definition DiamidentGrammar :: gram where
  "DiamidentGrammar = Seq label (Star (Seq (ChP (CHR ''.'')) label))"

subsection \<open>URIs\<close>

definition uri_transport_g :: gram where
  "uri_transport_g = Seq (StrP '';transport='') (On (alts [StrP ''tcp'', StrP ''sctp'', StrP ''udp'']) TransportFunctor)"

definition uri_protocol_g :: gram where
  "uri_protocol_g =
     Seq (StrP '';protocol='') (On (alts [StrP ''diameter'', StrP ''radius'', StrP ''tacacs+'']) ProtocolFunctor)"

definition DiamuriGrammar :: gram where
  "DiamuriGrammar =
     seqs [On (Alt (StrP ''aaa'') (StrP ''aaas'')) SchemeFunctor, StrP ''://'',
           On (Seq label (Star (Seq (ChP (CHR ''.'')) label))) FqdnFunctor,
           Opt (Seq (StrP '':'') (On IntP AssignPort)), Opt uri_transport_g, Opt uri_protocol_g]"

text \<open>The functors leave a field alone when the text is none they know. \<open>ProtocolFunctor\<close> writes the transport.\<close>

fun uri_action :: "sem \<times> matched \<Rightarrow> diameter_uri \<Rightarrow> diameter_uri" where
  "uri_action (SchemeFunctor, MText t) u = u\<lparr>uri_scheme := if t = ''aaa'' then SCHEME_AAA else SCHEME_AAAS\<rparr>"
| "uri_action (TransportFunctor, MText t) u =
     (if t = ''tcp'' then u\<lparr>uri_transport := TRANSPORT_PROTO_TCP\<rparr>
      else if t = ''udp'' then u\<lparr>uri_transport := TRANSPORT_PROTO_UDP\<rparr>
      else if t = ''sctp'' then u\<lparr>uri_transport := TRANSPORT_PROTO_SCTP\<rparr> else u)"
| "uri_action (ProtocolFunctor, MText t) u =
     (if t = ''diameter'' then u\<lparr>uri_transport := PROTO_DIAMETER\<rparr>
      else if t = ''radius'' then u\<lparr>uri_transport := PROTO_RADIUS\<rparr>
      else if t = ''tacacs+'' then u\<lparr>uri_transport := PROTO_TACACSPLUS\<rparr> else u)"
| "uri_action (FqdnFunctor, MText t) u = u\<lparr>uri_fqdn := t\<rparr>"
| "uri_action (AssignPort, MNum n) u = u\<lparr>uri_port := of_int n\<rparr>"
| "uri_action _ u = u"

subsection \<open>IP filter rules\<close>

definition ipv4_dotted_form :: gram where
  "ipv4_dotted_form =
     (let octet = LimitD 0 255 uint3_p; dot = ChP (CHR ''.'')
      in seqs [octet, dot, octet, dot, octet, dot, octet])"

definition ipv6_canonical_form :: gram where
  "ipv6_canonical_form = Plus (Alt hex4_p (StrP ''::''))"

definition ports_g :: "side \<Rightarrow> gram" where
  "ports_g sd =
     ListP (Seq (On uint_p (PortRange1 sd)) (Opt (Seq (ChP (CHR ''-'')) (On uint_p (PortRange2 sd))))) (ChP (CHR '',''))"

definition endpoint_g :: "side \<Rightarrow> gram" where
  "endpoint_g sd =
     seqs [Opt (On (ChP (CHR ''!'')) (ModifierFunctor sd)),
           Alt (On (Alt (StrP ''any'') (StrP ''assigned'')) (KwRepresentation sd))
             (Seq (On (Alt ipv4_dotted_form ipv6_canonical_form) (IPAddressFunctor sd))
               (Opt (Seq (On (ChP (CHR ''/'')) (KwRepresentation sd)) (LimitD 0 128 (On uint3_p (AssignBits sd)))))),
           Opt (ports_g sd)]"

text \<open>An option with its negation, \<open>('!' >> "x")[-n] | "x"[n]\<close>, and a list of options.\<close>

definition option_g :: "int_list \<Rightarrow> string \<Rightarrow> int \<Rightarrow> gram" where
  "option_g l w n = Alt (On (Seq (ChP (CHR ''!'')) (StrP w)) (IntListFunctor l (- n))) (On (StrP w) (IntListFunctor l n))"

definition options_g :: "string \<Rightarrow> int_list \<Rightarrow> (string \<times> int) list \<Rightarrow> gram" where
  "options_g kw l opts = Seq (StrP kw) (ListP (alts (map (\<lambda>(w, n). option_g l w n) opts)) (ChP (CHR '','')))"

definition ip_option_names :: "(string \<times> int) list" where
  "ip_option_names = [(''ssrr'', 1), (''lsrr'', 2), (''rr'', 3), (''ts'', 4)]"

definition tcp_option_names :: "(string \<times> int) list" where
  "tcp_option_names = [(''mss'', 1), (''window'', 2), (''sack'', 3), (''ts'', 4), (''cc'', 5)]"

definition tcp_flag_names :: "(string \<times> int) list" where
  "tcp_flag_names = [(''fin'', 1), (''syn'', 2), (''rst'', 3), (''psh'', 4), (''ack'', 5), (''urg'', 6)]"

definition icmptypes_g :: gram where
  "icmptypes_g =
     ListP (Seq (On uint_p IcmpRange1) (Opt (Seq (ChP (CHR ''-'')) (On uint_p IcmpRange2)))) (ChP (CHR '',''))"

definition rule_options_g :: gram where
  "rule_options_g =
     Plus (alts [On (StrP ''frag'') FragFunctor, options_g ''ipoptions'' IpOptions ip_option_names,
                 options_g ''tcpoptions'' TcpOptions tcp_option_names, On (StrP ''established'') EstablishedFunctor,
                 On (StrP ''setup'') SetupFunctor, options_g ''tcpflags'' TcpFlags tcp_flag_names, icmptypes_g])"

definition IPFilterRuleGrammar :: gram where
  "IPFilterRuleGrammar =
     seqs [On (Alt (StrP ''permit'') (StrP ''deny'')) KwAction, On (Alt (StrP ''in'') (StrP ''out'')) KwDir,
           Alt (On (StrP ''ip'') KwTmp) (LimitD 0 255 (On uint3_p AssignProto)),
           On (StrP ''from'') KwTmp, endpoint_g Src, On (StrP ''to'') KwTmp, endpoint_g Dst, Opt rule_options_g]"

text \<open>\<open>KeywordFunctor\<close>: the value for a keyword, if it has one.\<close>

definition keyword_value :: "string \<Rightarrow> byte option" where
  "keyword_value t =
     (if t = ''permit'' then Some ACTION_PERMIT else if t = ''deny'' then Some ACTION_DENY
      else if t = ''in'' then Some DIRECTION_IN else if t = ''out'' then Some DIRECTION_OUT
      else if t = ''any'' then Some SRCDST_ANY else if t = ''assigned'' then Some SRCDST_ASSIGNED
      else if t = ''/'' then Some SRCDST_MASK else None)"

definition on_side :: "side \<Rightarrow> (src_dst \<Rightarrow> src_dst) \<Rightarrow> ipfilter_rule \<Rightarrow> ipfilter_rule" where
  "on_side sd f r = (case sd of Src \<Rightarrow> r\<lparr>fr_src := f (fr_src r)\<rparr> | Dst \<Rightarrow> r\<lparr>fr_dst := f (fr_dst r)\<rparr>)"

definition set_last :: "'b \<Rightarrow> ('a \<times> 'b) list \<Rightarrow> ('a \<times> 'b) list" where
  "set_last y xs = (if xs = [] then [] else butlast xs @ [(fst (last xs), y)])"

definition push_int :: "int_list \<Rightarrow> int \<Rightarrow> ipfilter_rule \<Rightarrow> ipfilter_rule" where
  "push_int l v r =
     (case l of
        IpOptions \<Rightarrow> r\<lparr>fr_ipOptions := fr_ipOptions r @ [v]\<rparr>
      | TcpOptions \<Rightarrow> r\<lparr>fr_tcpOptions := fr_tcpOptions r @ [v]\<rparr>
      | TcpFlags \<Rightarrow> r\<lparr>fr_tcpFlags := fr_tcpFlags r @ [v]\<rparr>)"

text \<open>\<open>KwTmp\<close> writes a local variable of the grammar's constructor, which is gone by then; nothing reads it.\<close>

fun filter_action :: "sem \<times> matched \<Rightarrow> ipfilter_rule \<Rightarrow> ipfilter_rule" where
  "filter_action (KwAction, MText t) r = (case keyword_value t of None \<Rightarrow> r | Some v \<Rightarrow> r\<lparr>fr_action := v\<rparr>)"
| "filter_action (KwDir, MText t) r = (case keyword_value t of None \<Rightarrow> r | Some v \<Rightarrow> r\<lparr>fr_dir := v\<rparr>)"
| "filter_action (KwRepresentation sd, MText t) r =
     (case keyword_value t of None \<Rightarrow> r | Some v \<Rightarrow> on_side sd (\<lambda>x. x\<lparr>sd_representation := v\<rparr>) r)"
| "filter_action (AssignProto, MNum n) r = r\<lparr>fr_proto := of_int n\<rparr>"
| "filter_action (AssignBits sd, MNum n) r = on_side sd (\<lambda>x. x\<lparr>sd_bits := of_int n\<rparr>) r"
| "filter_action (IPAddressFunctor sd, MText t) r = on_side sd (\<lambda>x. x\<lparr>sd_ipno := t\<rparr>) r"
| "filter_action (ModifierFunctor sd, _) r = on_side sd (\<lambda>x. x\<lparr>sd_modifier := False\<rparr>) r"
| "filter_action (PortRange1 sd, MNum n) r = on_side sd (\<lambda>x. x\<lparr>sd_ports := sd_ports x @ [(of_int n, of_int n)]\<rparr>) r"
| "filter_action (PortRange2 sd, MNum n) r = on_side sd (\<lambda>x. x\<lparr>sd_ports := set_last (of_int n) (sd_ports x)\<rparr>) r"
| "filter_action (FragFunctor, _) r = r\<lparr>fr_frag := True\<rparr>"
| "filter_action (EstablishedFunctor, _) r = r\<lparr>fr_established := True\<rparr>"
| "filter_action (SetupFunctor, _) r = r\<lparr>fr_setup := True\<rparr>"
| "filter_action (IntListFunctor l v, _) r = push_int l v r"
| "filter_action (IcmpRange1, MNum n) r = r\<lparr>fr_icmpTypes := fr_icmpTypes r @ [(of_int n, of_int n)]\<rparr>"
| "filter_action (IcmpRange2, MNum n) r = r\<lparr>fr_icmpTypes := set_last (of_int n) (fr_icmpTypes r)\<rparr>"
| "filter_action _ r = r"

subsection \<open>The operators as Boost.Spirit documents them\<close>

text \<open>A parser that follows the documentation: the first alternative that matches is taken, repetition takes as much
  as it can, there is no way back into either; single characters, literals and numbers skip the white space in front
  of them. It serves as an instance of the argument.\<close>

type_synonym hit = "(sem \<times> matched) list \<times> (int option \<times> string) option"

definition skip_p :: "string \<Rightarrow> string" where
  "skip_p = dropWhile is_space"

definition is_alpha :: "char \<Rightarrow> bool" where
  "is_alpha ch \<longleftrightarrow> (let n = (of_char ch :: int) in 65 \<le> n \<and> n \<le> 90 \<or> 97 \<le> n \<and> n \<le> 122)"

definition one_char :: "(char \<Rightarrow> bool) \<Rightarrow> string \<Rightarrow> hit" where
  "one_char P s = ([], case skip_p s of [] \<Rightarrow> None | x # t \<Rightarrow> if P x then Some (None, t) else None)"

definition hex_val :: "char \<Rightarrow> int option" where
  "hex_val ch =
     (let n = of_char ch in
      if 48 \<le> n \<and> n \<le> 57 then Some (n - 48) else if 65 \<le> n \<and> n \<le> 70 then Some (n - 55)
      else if 97 \<le> n \<and> n \<le> 102 then Some (n - 87) else None)"

definition radix_digit :: "nat \<Rightarrow> char \<Rightarrow> bool" where
  "radix_digit r ch \<longleftrightarrow> (case hex_val ch of None \<Rightarrow> False | Some v \<Rightarrow> v < int r)"

definition radix_val :: "nat \<Rightarrow> string \<Rightarrow> int" where
  "radix_val r s = foldl (\<lambda>a ch. int r * a + (case hex_val ch of None \<Rightarrow> 0 | Some v \<Rightarrow> v)) 0 s"

definition unsigned_hit :: "nat \<Rightarrow> nat \<Rightarrow> nat option \<Rightarrow> string \<Rightarrow> hit" where
  "unsigned_hit r mn mx s =
     (let t = skip_p s; all = takeWhile (radix_digit r) t;
          ds = (case mx of None \<Rightarrow> all | Some k \<Rightarrow> take k all)
      in ([], if mn \<le> length ds \<and> radix_val r ds < 2 ^ 32
              then Some (Some (radix_val r ds), drop (length ds) t) else None))"

definition signed_hit :: "string \<Rightarrow> hit" where
  "signed_hit s =
     (let t = skip_p s;
          (neg, u) = (case t of [] \<Rightarrow> (False, t)
                      | x # t' \<Rightarrow> if x = CHR ''-'' then (True, t') else if x = CHR ''+'' then (False, t') else (False, t));
          ds = takeWhile is_digit u; n = radix_val 10 ds; v = (if neg then - n else n)
      in ([], if ds \<noteq> [] \<and> - (2 ^ 31) \<le> v \<and> v < 2 ^ 31 then Some (Some v, drop (length ds) u) else None))"

definition then_hit :: "hit \<Rightarrow> (string \<Rightarrow> hit) \<Rightarrow> hit" where
  "then_hit h f =
     (case h of (a, None) \<Rightarrow> (a, None) | (a, Some (_, t)) \<Rightarrow> (case f t of (b, None) \<Rightarrow> (a @ b, None)
        | (b, Some (_, u)) \<Rightarrow> (a @ b, Some (None, u))))"

definition else_hit :: "hit \<Rightarrow> (unit \<Rightarrow> hit) \<Rightarrow> hit" where
  "else_hit h f = (case h of (a, None) \<Rightarrow> (case f () of (b, r) \<Rightarrow> (a @ b, r)) | (a, Some r) \<Rightarrow> (a, Some r))"

text \<open>At most \<open>k\<close> times; a turn that takes nothing is the last.\<close>

fun repeat_hit :: "nat \<Rightarrow> (string \<Rightarrow> hit) \<Rightarrow> string \<Rightarrow> hit" where
  "repeat_hit 0 f s = ([], Some (None, s))"
| "repeat_hit (Suc k) f s =
     (case f s of
        (a, None) \<Rightarrow> (a, Some (None, s))
      | (a, Some (_, t)) \<Rightarrow>
          if length t < length s then (case repeat_hit k f t of (b, r) \<Rightarrow> (a @ b, r)) else (a, Some (None, t)))"

fun run_gram :: "gram \<Rightarrow> string \<Rightarrow> hit" where
  "run_gram (ChP ch) s = one_char (\<lambda>x. x = ch) s"
| "run_gram (StrP w) s =
     ([], if take (length w) (skip_p s) = w then Some (None, drop (length w) (skip_p s)) else None)"
| "run_gram AlphaP s = one_char is_alpha s"
| "run_gram AlnumP s = one_char (\<lambda>x. is_alpha x \<or> is_digit x) s"
| "run_gram DigitP s = one_char is_digit s"
| "run_gram (UIntP r mn mx) s = unsigned_hit r mn mx s"
| "run_gram IntP s = signed_hit s"
| "run_gram (LimitD lo hi g) s =
     (case run_gram g s of
        (a, Some (Some v, t)) \<Rightarrow> (a, if lo \<le> v \<and> v \<le> hi then Some (Some v, t) else None)
      | (a, r) \<Rightarrow> (a, r))"
| "run_gram (Seq g h) s = then_hit (run_gram g s) (run_gram h)"
| "run_gram (Alt g h) s = else_hit (run_gram g s) (\<lambda>u. run_gram h s)"
| "run_gram (Star g) s = repeat_hit (Suc (length s)) (run_gram g) s"
| "run_gram (Plus g) s = then_hit (run_gram g s) (\<lambda>t. repeat_hit (Suc (length t)) (run_gram g) t)"
| "run_gram (Opt g) s = else_hit (run_gram g s) (\<lambda>u. ([], Some (None, s)))"
| "run_gram (ListP g h) s =
     then_hit (run_gram g s) (\<lambda>t. repeat_hit (Suc (length t)) (\<lambda>u. then_hit (run_gram h u) (run_gram g)) t)"
| "run_gram (On g x) s =
     (case run_gram g s of
        (a, None) \<Rightarrow> (a, None)
      | (a, Some (v, t)) \<Rightarrow>
          (a @ [(x, case v of Some n \<Rightarrow> MNum n
                    | None \<Rightarrow> MText (take (length (skip_p s) - length t) (skip_p s)))], Some (v, t)))"

definition documented_spirit :: spirit where
  "documented_spirit g s = (case run_gram g s of (a, Some (_, [])) \<Rightarrow> (True, a) | (a, _) \<Rightarrow> (False, a))"

end
