(* ===== verification/Avp_Values.thy ===== *)
theory Avp_Values
  imports Avp_Grammar
begin

text \<open>
  The parsers of AVP values, \<open>libdiamparser/include/aaa_parser_avpvalue.h\<close>, one for each type and direction. Reading,
  a parser is given the bytes of the value and the entry it fills; writing, the entry and the buffer. The parser of a
  group is given the parser of a list of AVPs. \<open>char\<close> is signed, as on the machines the code is built for.
\<close>

text \<open>The dictionaries, the parser generator, and what the fields of an object hold that nothing has initialised.\<close>

record avp_env =
  te_avps :: "avp_dict list"
  te_groups :: "((u32 \<times> u32) \<times> dictionary) list"
  te_spirit :: spirit
  te_uri0 :: diameter_uri
  te_filter0 :: ipfilter_rule

subsection \<open>The check of UTF-8 strings\<close>

text \<open>\<open>UTF8Checker\<close> (\<open>include/aaa_parser_defs.h\<close>). The loop that counts the leading bits tests \<open>b && 0x40\<close>, the logical
  and, and does not shift.\<close>

fun utf8_count :: "nat \<Rightarrow> byte \<Rightarrow> nat" where
  "utf8_count 0 b = 0"
| "utf8_count (Suc k) b = (if b \<noteq> 0 \<and> (0x40 :: byte) \<noteq> 0 then Suc (utf8_count k b) else 0)"

text \<open>The octets that have to follow; a signed \<open>char\<close> is shifted as an \<open>int\<close>.\<close>

fun utf8_tail :: "nat \<Rightarrow> byte list \<Rightarrow> byte list option" where
  "utf8_tail 0 bs = Some bs"
| "utf8_tail (Suc j) [] = None"
| "utf8_tail (Suc j) (c # bs) = (if sint c div 2 ^ 6 \<noteq> 2 then None else utf8_tail j bs)"

lemma utf8_tail_length: "utf8_tail n bs = Some bs' \<Longrightarrow> length bs' \<le> length bs"
  by (induction n bs rule: utf8_tail.induct) (auto split: if_splits)

function (sequential) UTF8Checker :: "bool \<Rightarrow> byte list \<Rightarrow> bool" where
  "UTF8Checker nullCheck [] = True"
| "UTF8Checker nullCheck (b # bs) =
     (if b = 0 \<and> nullCheck then False
      else if b \<noteq> 0 \<and> drop_bit 7 b = 0 then UTF8Checker nullCheck bs
      else if drop_bit 1 b = 0x76 then False
      else let n = utf8_count 5 (push_bit 1 b) in
        if n = 0 then False
        else case utf8_tail n bs of None \<Rightarrow> False | Some bs' \<Rightarrow> UTF8Checker nullCheck bs')"
  by pat_completeness auto
termination by (relation "measure (length \<circ> snd)") (auto dest!: utf8_tail_length)

subsection \<open>Texts\<close>

definition scheme_text :: "diameter_uri \<Rightarrow> string" where
  "scheme_text u = (if uri_scheme u = SCHEME_AAA then ''aaa://'' else ''aaas://'')"

definition uri_text :: "diameter_uri \<Rightarrow> string" where
  "uri_text u =
     scheme_text u @ uri_fqdn u @ '':'' @ decimal (unat (uri_port u)) @
     '';transport='' @ (if uri_transport u = TRANSPORT_PROTO_TCP then ''tcp'' else ''sctp'') @
     '';protocol='' @ (if uri_protocol u = PROTO_DIAMETER then ''diameter'' else ''radius'')"

text \<open>\<open>sprintf\<close> into an array of \<open>cap\<close> characters, which the code does not check.\<close>

definition sprintf_to :: "nat \<Rightarrow> string \<Rightarrow> string option" where
  "sprintf_to cap s = (if length s < cap then Some s else None)"

fun commas :: "string list \<Rightarrow> string" where
  "commas [] = []"
| "commas [s] = s"
| "commas (s # ss) = s @ '','' @ commas ss"

definition u16_text :: "16 word \<Rightarrow> string" where
  "u16_text w = decimal (unat w)"

definition port_text :: "(16 word \<times> 16 word) \<Rightarrow> string" where
  "port_text p = (if fst p = snd p then u16_text (fst p) else u16_text (fst p) @ ''-'' @ u16_text (snd p))"

definition endpoint_text :: "src_dst \<Rightarrow> string" where
  "endpoint_text x =
     (if sd_modifier x then [] else ''!'') @
     (if sd_representation x = SRCDST_ANY then ''any ''
      else if sd_representation x = SRCDST_ASSIGNED then ''assigned ''
      else sd_ipno x @
           (if sd_representation x = SRCDST_MASK then ''/'' @ decimal (unat (sd_bits x)) else []) @ '' '') @
     (if sd_ports x = [] then [] else commas (map port_text (sd_ports x)) @ '' '')"

definition option_name :: "(string \<times> int) list \<Rightarrow> int \<Rightarrow> string" where
  "option_name names n = (case find (\<lambda>(w, k). k = n) names of None \<Rightarrow> [] | Some (w, _) \<Rightarrow> w)"

definition options_text :: "(string \<times> int) list \<Rightarrow> int list \<Rightarrow> string" where
  "options_text names l = commas (map (\<lambda>n. if n < 0 then ''!'' @ option_name names (- n) else option_name names n) l)"

text \<open>An \<open>AAAInt8\<close> is a signed \<open>char\<close>, printed with \<open>%u\<close>.\<close>

definition icmp_text :: "byte \<times> byte \<Rightarrow> string option" where
  "icmp_text p =
     (let t = (\<lambda>b. decimal (unat (scast b :: u32)))
      in sprintf_to 8 (if fst p = snd p then t (fst p) else t (fst p) @ ''-'' @ t (snd p)))"

fun opt_all :: "'a option list \<Rightarrow> 'a list option" where
  "opt_all [] = Some []"
| "opt_all (None # xs) = None"
| "opt_all (Some x # xs) = (case opt_all xs of None \<Rightarrow> None | Some ys \<Rightarrow> Some (x # ys))"

definition filter_text :: "ipfilter_rule \<Rightarrow> string option" where
  "filter_text r =
     (case if fr_proto r = 0 then Some ''ip '' else sprintf_to 4 (decimal (unat (fr_proto r)) @ '' '') of
        None \<Rightarrow> None
      | Some proto \<Rightarrow>
          (case opt_all (map icmp_text (fr_icmpTypes r)) of
             None \<Rightarrow> None
           | Some types \<Rightarrow> Some (
               (if fr_action r = ACTION_PERMIT then ''permit '' else ''deny '') @
               (if fr_dir r = DIRECTION_IN then ''in '' else ''out '') @ proto @
               ''from '' @ endpoint_text (fr_src r) @ ''to '' @ endpoint_text (fr_dst r) @
               (if fr_frag r then '' frag'' else []) @
               (if fr_ipOptions r = [] then [] else '' ipoptions'') @ options_text ip_option_names (fr_ipOptions r) @
               (if fr_tcpOptions r = [] then [] else '' tcpoptions '') @ options_text tcp_option_names (fr_tcpOptions r) @
               (if fr_established r then '' established'' else []) @ (if fr_setup r then '' setup'' else []) @
               (if fr_tcpFlags r = [] then [] else '' tcpflags'') @ options_text tcp_flag_names (fr_tcpFlags r) @
               (if types = [] then [] else '' icmptypes'') @ commas types)))"

subsection \<open>Reading\<close>

definition prohibited :: "'s \<Rightarrow> 's parsed" where
  "prohibited s = throws s (BugError PROHIBITED_CONTAINER)"

definition fails_with :: "avp_env \<Rightarrow> nat \<Rightarrow> 's \<Rightarrow> u32 \<Rightarrow> avp_dict \<Rightarrow> 's parsed" where
  "fails_with env n s code d = throws_avp (te_groups env) n s code d"

fun retype :: "avp_type \<Rightarrow> avp_entry \<Rightarrow> avp_entry" where
  "retype t (StrEntry _ s) = StrEntry t s"
| "retype t e = e"

fun entry_str :: "avp_entry \<Rightarrow> string" where
  "entry_str (StrEntry _ s) = s"
| "entry_str _ = []"

text \<open>The base parser runs with the entry's type changed, which is restored however it ends.\<close>

definition with_type :: "avp_type \<Rightarrow> (avp_entry \<Rightarrow> avp_entry parsed) \<Rightarrow> avp_entry \<Rightarrow> avp_entry parsed" where
  "with_type t p e = map_option (\<lambda>(e', x). (retype (dataType e) e', x)) (p (retype t e))"

definition Any_toApp :: "byte list \<Rightarrow> avp_entry \<Rightarrow> avp_entry parsed" where
  "Any_toApp bs e =
     (if dataType e = DATA_TYPE then returns (StrEntry DATA_TYPE (str_of_bytes bs)) else prohibited e)"

definition Integer32_types :: "avp_type list" where
  "Integer32_types = [INTEGER32_TYPE, UINTEGER32_TYPE, ENUM_TYPE, TIME_TYPE]"

definition Integer32_toApp :: "byte list \<Rightarrow> avp_entry \<Rightarrow> avp_entry parsed" where
  "Integer32_toApp bs e =
     (if dataType e \<in> set Integer32_types
      then if length bs < 4 then None else returns (Int32Entry (dataType e) (read32 bs))
      else prohibited e)"

definition Integer64_types :: "avp_type list" where
  "Integer64_types = [INTEGER64_TYPE, UINTEGER64_TYPE]"

definition Integer64_toApp :: "byte list \<Rightarrow> avp_entry \<Rightarrow> avp_entry parsed" where
  "Integer64_toApp bs e =
     (if dataType e \<in> set Integer64_types
      then if length bs < 8 then None else returns (Int64Entry (dataType e) (read64 bs))
      else prohibited e)"

definition Octetstring_toApp :: "byte list \<Rightarrow> avp_entry \<Rightarrow> avp_entry parsed" where
  "Octetstring_toApp bs e =
     (if dataType e = STRING_TYPE then returns (StrEntry STRING_TYPE (str_of_bytes bs)) else prohibited e)"

definition Utf8string_toApp :: "avp_env \<Rightarrow> nat \<Rightarrow> avp_dict \<Rightarrow> byte list \<Rightarrow> avp_entry \<Rightarrow> avp_entry parsed" where
  "Utf8string_toApp env n d bs e =
     (if dataType e \<noteq> UTF8_STRING_TYPE then prohibited e
      else seq (with_type STRING_TYPE (Octetstring_toApp bs) e)
             (\<lambda>e. if UTF8Checker False (bytes_of_str (entry_str e)) then returns e
                  else fails_with env n e AAA_INVALID_AVP_VALUE d))"

definition Diamident_toApp :: "avp_env \<Rightarrow> nat \<Rightarrow> avp_dict \<Rightarrow> byte list \<Rightarrow> avp_entry \<Rightarrow> avp_entry parsed" where
  "Diamident_toApp env n d bs e =
     (if dataType e \<noteq> DIAMID_TYPE then prohibited e
      else seq (with_type UTF8_STRING_TYPE (Utf8string_toApp env n d bs) e)
             (\<lambda>e. if fst (te_spirit env DiamidentGrammar (entry_str e)) then returns e
                  else fails_with env n e AAA_INVALID_AVP_VALUE d))"

text \<open>A parser of a value with a structure reads the string into an entry of its own. \<open>std::string::assign\<close> from
  position 2 of a shorter string throws what nobody catches.\<close>

definition via_string :: "avp_entry parsed \<Rightarrow> avp_entry \<Rightarrow> (string \<Rightarrow> avp_entry parsed) \<Rightarrow> avp_entry parsed" where
  "via_string r e f =
     (case r of None \<Rightarrow> None | Some (_, Some x) \<Rightarrow> throws e x | Some (e2, None) \<Rightarrow> f (entry_str e2))"

definition Address_toApp :: "byte list \<Rightarrow> avp_entry \<Rightarrow> avp_entry parsed" where
  "Address_toApp bs e =
     (if dataType e \<noteq> ADDRESS_TYPE then prohibited e
      else via_string (Octetstring_toApp bs (StrEntry STRING_TYPE [])) e
             (\<lambda>s. if length s < 2 then None else returns (AddrEntry (read16 (bytes_of_str s)) (drop 2 s))))"

definition Diamuri_toApp :: "avp_env \<Rightarrow> nat \<Rightarrow> avp_dict \<Rightarrow> byte list \<Rightarrow> avp_entry \<Rightarrow> avp_entry parsed" where
  "Diamuri_toApp env n d bs e =
     (if dataType e \<noteq> DIAMURI_TYPE then prohibited e
      else via_string (Utf8string_toApp env n d bs (StrEntry UTF8_STRING_TYPE [])) e
             (\<lambda>s. case te_spirit env DiamuriGrammar s of
                    (full, acts) \<Rightarrow>
                      if full
                      then returns (UriEntry (fold uri_action acts
                             ((te_uri0 env)\<lparr>uri_protocol := TRANSPORT_PROTO_TCP, uri_transport := PROTO_DIAMETER\<rparr>)))
                      else fails_with env n e AAA_INVALID_AVP_VALUE d))"

definition filter_defaults :: "ipfilter_rule \<Rightarrow> ipfilter_rule" where
  "filter_defaults r =
     r\<lparr>fr_proto := 0, fr_src := (fr_src r)\<lparr>sd_modifier := True, sd_representation := SRCDST_EXACT\<rparr>,
       fr_dst := (fr_dst r)\<lparr>sd_modifier := True, sd_representation := SRCDST_EXACT\<rparr>,
       fr_frag := False, fr_established := False, fr_setup := False\<rparr>"

definition IPFilterRule_toApp :: "avp_env \<Rightarrow> nat \<Rightarrow> avp_dict \<Rightarrow> byte list \<Rightarrow> avp_entry \<Rightarrow> avp_entry parsed" where
  "IPFilterRule_toApp env n d bs e =
     (if dataType e \<noteq> IPFILTER_RULE_TYPE then prohibited e
      else via_string (Utf8string_toApp env n d bs (StrEntry UTF8_STRING_TYPE [])) e
             (\<lambda>s. case te_spirit env IPFilterRuleGrammar s of
                    (full, acts) \<Rightarrow>
                      if full then returns (FilterEntry (fold filter_action acts (filter_defaults (te_filter0 env))))
                      else fails_with env n e AAA_INVALID_AVP_VALUE d))"

text \<open>\<open>list_toApp g bs cs\<close> parses the AVPs \<open>bs\<close> into the containers \<open>cs\<close>.\<close>

definition Grouped_toApp ::
  "avp_env \<Rightarrow> nat \<Rightarrow> (dictionary \<Rightarrow> byte list \<Rightarrow> containers \<Rightarrow> containers parsed) \<Rightarrow> avp_dict \<Rightarrow> byte list \<Rightarrow>
     avp_entry \<Rightarrow> avp_entry parsed" where
  "Grouped_toApp env n list_toApp d bs e =
     (case e of
        GroupEntry cs \<Rightarrow>
          (case search_group (te_groups env) (d_code d) (d_vendor d) of
             None \<Rightarrow> fails_with env n e AAA_AVP_UNSUPPORTED d
           | Some g \<Rightarrow> map_option (\<lambda>(cs', x). (GroupEntry cs', x)) (list_toApp g bs cs))
      | _ \<Rightarrow> prohibited e)"

text \<open>\<open>createAvpValueParser\<close> and the call: the type of the dictionary chooses the parser.\<close>

definition value_toApp ::
  "avp_env \<Rightarrow> nat \<Rightarrow> (dictionary \<Rightarrow> byte list \<Rightarrow> containers \<Rightarrow> containers parsed) \<Rightarrow> avp_dict \<Rightarrow> byte list \<Rightarrow>
     avp_entry \<Rightarrow> avp_entry parsed" where
  "value_toApp env n list_toApp d bs e =
     (case d_type d of
        DATA_TYPE \<Rightarrow> Any_toApp bs e
      | INTEGER32_TYPE \<Rightarrow> Integer32_toApp bs e
      | UINTEGER32_TYPE \<Rightarrow> Integer32_toApp bs e
      | ENUM_TYPE \<Rightarrow> Integer32_toApp bs e
      | TIME_TYPE \<Rightarrow> Integer32_toApp bs e
      | INTEGER64_TYPE \<Rightarrow> Integer64_toApp bs e
      | UINTEGER64_TYPE \<Rightarrow> Integer64_toApp bs e
      | STRING_TYPE \<Rightarrow> Octetstring_toApp bs e
      | UTF8_STRING_TYPE \<Rightarrow> Utf8string_toApp env n d bs e
      | DIAMID_TYPE \<Rightarrow> Diamident_toApp env n d bs e
      | DIAMURI_TYPE \<Rightarrow> Diamuri_toApp env n d bs e
      | IPFILTER_RULE_TYPE \<Rightarrow> IPFilterRule_toApp env n d bs e
      | ADDRESS_TYPE \<Rightarrow> Address_toApp bs e
      | GROUPED_TYPE \<Rightarrow> Grouped_toApp env n list_toApp d bs e
      | CUSTOM_TYPE \<Rightarrow> throws e (BugError MISSING_AVP_DICTIONARY_ENTRY))"

text \<open>\<open>DiameterAvpContainerEntryManager::acquire\<close>. Of a type that is not registered it throws an \<open>AAAErrorCode\<close>, which
  the handlers for \<open>DiameterErrorCode\<close> do not catch. The numbers of a new entry are set before anybody reads them.\<close>

fun acquire :: "avp_env \<Rightarrow> avp_type \<Rightarrow> avp_entry option" where
  "acquire env CUSTOM_TYPE = None"
| "acquire env ADDRESS_TYPE = Some (AddrEntry 0 [])"
| "acquire env DIAMURI_TYPE = Some (UriEntry ((te_uri0 env)\<lparr>uri_fqdn := []\<rparr>))"
| "acquire env IPFILTER_RULE_TYPE = Some (FilterEntry (te_filter0 env))"
| "acquire env GROUPED_TYPE = Some (GroupEntry [])"
| "acquire env t = Some (if t \<in> set Integer32_types then Int32Entry t 0
                         else if t \<in> set Integer64_types then Int64Entry t 0 else StrEntry t [])"

subsection \<open>Writing\<close>

definition Any_toRaw :: "avp_entry \<Rightarrow> wbuf \<Rightarrow> wbuf parsed" where
  "Any_toRaw e b = (if dataType e = DATA_TYPE then write_value (bytes_of_str (entry_str e)) b else prohibited b)"

definition Integer32_toRaw :: "avp_entry \<Rightarrow> wbuf \<Rightarrow> wbuf parsed" where
  "Integer32_toRaw e b =
     (case e of
        Int32Entry t w \<Rightarrow> if t \<in> set Integer32_types then write_value (bytes_of32 w) b else prohibited b
      | _ \<Rightarrow> prohibited b)"

definition Integer64_toRaw :: "avp_entry \<Rightarrow> wbuf \<Rightarrow> wbuf parsed" where
  "Integer64_toRaw e b =
     (case e of
        Int64Entry t w \<Rightarrow> if t \<in> set Integer64_types then write_value (bytes_of64 w) b else prohibited b
      | _ \<Rightarrow> prohibited b)"

definition Octetstring_toRaw :: "avp_entry \<Rightarrow> wbuf \<Rightarrow> wbuf parsed" where
  "Octetstring_toRaw e b = (if dataType e = STRING_TYPE then write_value (bytes_of_str (entry_str e)) b else prohibited b)"

definition Utf8string_toRaw :: "avp_entry \<Rightarrow> wbuf \<Rightarrow> wbuf parsed" where
  "Utf8string_toRaw e b =
     (if dataType e \<noteq> UTF8_STRING_TYPE then prohibited b
      else if \<not> UTF8Checker False (bytes_of_str (entry_str e)) then throws b (BugError INVALID_CONTAINER_CONTENTS)
      else Octetstring_toRaw (retype STRING_TYPE e) b)"

definition Diamident_toRaw :: "avp_env \<Rightarrow> nat \<Rightarrow> avp_dict \<Rightarrow> avp_entry \<Rightarrow> wbuf \<Rightarrow> wbuf parsed" where
  "Diamident_toRaw env n d e b =
     (if dataType e \<noteq> DIAMID_TYPE then prohibited b
      else if \<not> fst (te_spirit env DiamidentGrammar (entry_str e)) then fails_with env n b AAA_INVALID_AVP_VALUE d
      else Utf8string_toRaw (retype UTF8_STRING_TYPE e) b)"

definition Address_toRaw :: "avp_entry \<Rightarrow> wbuf \<Rightarrow> wbuf parsed" where
  "Address_toRaw e b =
     (case e of
        AddrEntry t s \<Rightarrow> Octetstring_toRaw (StrEntry STRING_TYPE (str_of_bytes (bytes_of16 t) @ s)) b
      | _ \<Rightarrow> prohibited b)"

definition Diamuri_toRaw :: "avp_entry \<Rightarrow> wbuf \<Rightarrow> wbuf parsed" where
  "Diamuri_toRaw e b =
     (case e of UriEntry u \<Rightarrow> Utf8string_toRaw (StrEntry UTF8_STRING_TYPE (uri_text u)) b | _ \<Rightarrow> prohibited b)"

definition IPFilterRule_toRaw :: "avp_env \<Rightarrow> nat \<Rightarrow> avp_dict \<Rightarrow> avp_entry \<Rightarrow> wbuf \<Rightarrow> wbuf parsed" where
  "IPFilterRule_toRaw env n d e b =
     (case e of
        FilterEntry r \<Rightarrow>
          (case filter_text r of
             None \<Rightarrow> None
           | Some s \<Rightarrow>
               if \<not> fst (te_spirit env IPFilterRuleGrammar s) then fails_with env n b AAA_INVALID_AVP_VALUE d
               else Utf8string_toRaw (StrEntry UTF8_STRING_TYPE s) b)
      | _ \<Rightarrow> prohibited b)"

definition Grouped_toRaw ::
  "avp_env \<Rightarrow> nat \<Rightarrow> (dictionary \<Rightarrow> containers \<Rightarrow> wbuf \<Rightarrow> wbuf parsed) \<Rightarrow> avp_dict \<Rightarrow> avp_entry \<Rightarrow> wbuf \<Rightarrow> wbuf parsed" where
  "Grouped_toRaw env n list_toRaw d e b =
     (case e of
        GroupEntry cs \<Rightarrow>
          (case search_group (te_groups env) (d_code d) (d_vendor d) of
             None \<Rightarrow> fails_with env n b AAA_AVP_UNSUPPORTED d
           | Some g \<Rightarrow> list_toRaw g cs b)
      | _ \<Rightarrow> prohibited b)"

definition value_toRaw ::
  "avp_env \<Rightarrow> nat \<Rightarrow> (dictionary \<Rightarrow> containers \<Rightarrow> wbuf \<Rightarrow> wbuf parsed) \<Rightarrow> avp_dict \<Rightarrow> avp_entry \<Rightarrow> wbuf \<Rightarrow> wbuf parsed" where
  "value_toRaw env n list_toRaw d e b =
     (case d_type d of
        DATA_TYPE \<Rightarrow> Any_toRaw e b
      | INTEGER32_TYPE \<Rightarrow> Integer32_toRaw e b
      | UINTEGER32_TYPE \<Rightarrow> Integer32_toRaw e b
      | ENUM_TYPE \<Rightarrow> Integer32_toRaw e b
      | TIME_TYPE \<Rightarrow> Integer32_toRaw e b
      | INTEGER64_TYPE \<Rightarrow> Integer64_toRaw e b
      | UINTEGER64_TYPE \<Rightarrow> Integer64_toRaw e b
      | STRING_TYPE \<Rightarrow> Octetstring_toRaw e b
      | UTF8_STRING_TYPE \<Rightarrow> Utf8string_toRaw e b
      | DIAMID_TYPE \<Rightarrow> Diamident_toRaw env n d e b
      | DIAMURI_TYPE \<Rightarrow> Diamuri_toRaw e b
      | IPFILTER_RULE_TYPE \<Rightarrow> IPFilterRule_toRaw env n d e b
      | ADDRESS_TYPE \<Rightarrow> Address_toRaw e b
      | GROUPED_TYPE \<Rightarrow> Grouped_toRaw env n list_toRaw d e b
      | CUSTOM_TYPE \<Rightarrow> throws b (BugError MISSING_AVP_DICTIONARY_ENTRY))"

end
