(* ===== verification/Avp_Parser.thy ===== *)
theory Avp_Parser
  imports Avp_Values
begin

text \<open>
  AVPs and lists of AVPs: \<open>DiameterAvpParser\<close> of \<open>libdiamparser/src/aaa_parser_avp.cxx\<close>, \<open>QualifiedAvpListParser\<close> of
  \<open>aaa_parser_q_avplist.cxx\<close> in both directions, with a dictionary and without. A group is parsed by the parser of
  its list of AVPs; \<open>n\<close> bounds how deep groups may lie in each other, and 0 stands for a recursion that goes on.
\<close>

subsection \<open>Reading\<close>

lemma avp_header_takes_one:
  "avp_header_parseRawToApp ty d ahl = (Inr h, ahl') \<Longrightarrow> length ahl' < length ahl"
  by (fastforce simp: avp_header_parseRawToApp_def split: list.splits if_splits option.splits dest: take_first_SomeD)

text \<open>\<open>DiameterAvpParser::parseRawToApp\<close>: all AVPs of the entry \<open>d\<close> that are among the headers, and the headers that are
  left. The list ends when no more is found; that the first is not found is an error. \<open>bs\<close> are the bytes the headers
  point into.\<close>

definition no_more ::
  "avp_env \<Rightarrow> nat \<Rightarrow> avp_dict \<Rightarrow> bool \<Rightarrow> avp_entry list \<times> avp_hdr list \<Rightarrow> (avp_entry list \<times> avp_hdr list) parsed" where
  "no_more env n d found s =
     (let r = fails_with env n s AAA_MISSING_AVP d
      in if found \<and> r = throws s (NormalError AAA_MISSING_AVP) then returns s else r)"

definition value_bytes :: "avp_dict \<Rightarrow> avp_hdr \<Rightarrow> byte list \<Rightarrow> byte list option" where
  "value_bytes d h bs =
     (if unat (a_length h) < dict_hdr_len d then None
      else Some (take (unat (a_length h) - dict_hdr_len d) (drop (a_off h) bs)))"

function avp_toApp ::
  "avp_env \<Rightarrow> nat \<Rightarrow> (dictionary \<Rightarrow> byte list \<Rightarrow> containers \<Rightarrow> containers parsed) \<Rightarrow> byte list \<Rightarrow> avp_parse_type \<Rightarrow>
     avp_dict \<Rightarrow> bool \<Rightarrow> avp_entry list \<Rightarrow> avp_hdr list \<Rightarrow> (avp_entry list \<times> avp_hdr list) parsed" where
  "avp_toApp env n list_toApp bs pt d found es ahl =
     (case avp_header_parseRawToApp pt d ahl of
        (Inl AvpMissing, ahl') \<Rightarrow> no_more env n d found (es, ahl')
      | (Inl AvpInvalidBits, ahl') \<Rightarrow> fails_with env n (es, ahl') AAA_INVALID_AVP_BITS d
      | (Inl AvpParserBug, ahl') \<Rightarrow> throws (es, ahl') (BugError INVALID_CONTAINER_PARAM)
      | (Inr h, ahl') \<Rightarrow>
          (case (acquire env (d_type d), value_bytes d h bs) of
             (Some e, Some v) \<Rightarrow>
               (case value_toApp env n list_toApp d v e of
                  None \<Rightarrow> None
                | Some (e', Some x) \<Rightarrow> throws (es @ [e'], ahl') x
                | Some (e', None) \<Rightarrow> avp_toApp env n list_toApp bs pt d True (es @ [e']) ahl')
           | _ \<Rightarrow> None))"
  by pat_completeness auto
termination
  by (relation "measure (\<lambda>(env, n, f, bs, pt, d, found, es, ahl). length ahl)")
    (auto dest: avp_header_takes_one [OF sym])

declare avp_toApp.simps [simp del]

text \<open>\<open>parseRawToAppWithDict\<close>: the fixed, required and optional AVPs of the dictionary in turn. An error of a missing
  AVP, wherever it comes from, is none for an entry that is optional or may occur no times.\<close>

definition dict_items :: "dictionary \<Rightarrow> (avp_parse_type \<times> qualified_avp) list" where
  "dict_items g =
     map (Pair TYPE_FIXED_HEAD) (avp_f g) @ map (Pair TYPE_REQUIRED) (avp_r g) @ map (Pair TYPE_OPTIONAL) (avp_o g)"

definition item_toApp ::
  "avp_env \<Rightarrow> nat \<Rightarrow> (dictionary \<Rightarrow> byte list \<Rightarrow> containers \<Rightarrow> containers parsed) \<Rightarrow> byte list \<Rightarrow>
     avp_parse_type \<times> qualified_avp \<Rightarrow> containers \<times> avp_hdr list \<Rightarrow> (containers \<times> avp_hdr list) parsed" where
  "item_toApp env n list_toApp bs item s =
     (let (pt, q) = item; (cs, ahl) = s; d = q_avp q in
      case avp_toApp env n list_toApp bs pt d False [] ahl of
        None \<Rightarrow> None
      | Some ((es, ahl'), Some x) \<Rightarrow>
          if x = NormalError AAA_MISSING_AVP \<and> (pt = TYPE_OPTIONAL \<or> q_min q = 0)
          then returns (cs, ahl') else throws (cs, ahl') x
      | Some ((es, ahl'), None) \<Rightarrow>
          if length es < q_min q then fails_with env n (cs, ahl') AAA_MISSING_AVP d
          else if q_max q < length es then fails_with env n (cs, ahl') AAA_AVP_OCCURS_TOO_MANY_TIMES d
          else returns (cs @ [(d_name d, es)], ahl'))"

fun steps :: "('a \<Rightarrow> 's \<Rightarrow> 's parsed) \<Rightarrow> 'a list \<Rightarrow> 's \<Rightarrow> 's parsed" where
  "steps f [] s = returns s"
| "steps f (x # xs) s = seq (f x s) (steps f xs)"

text \<open>\<open>parseRawToAppWithoutDict\<close>: the containers are the caller's, and their names are looked up among all AVPs. When
  there is none the code rethrows where nothing has been thrown, which ends the program.\<close>

definition named_toApp ::
  "avp_env \<Rightarrow> nat \<Rightarrow> (dictionary \<Rightarrow> byte list \<Rightarrow> containers \<Rightarrow> containers parsed) \<Rightarrow> byte list \<Rightarrow>
     string \<times> avp_entry list \<Rightarrow> containers \<times> avp_hdr list \<Rightarrow> (containers \<times> avp_hdr list) parsed" where
  "named_toApp env n list_toApp bs c s =
     (let (name, es) = c; (cs, ahl) = s in
      case search_avp (te_avps env) name of
        None \<Rightarrow> None
      | Some d \<Rightarrow>
          (case avp_toApp env n list_toApp bs TYPE_OPTIONAL d False es ahl of
             None \<Rightarrow> None
           | Some ((es', ahl'), Some x) \<Rightarrow>
               if x = NormalError AAA_MISSING_AVP then returns (cs @ [(name, es')], ahl')
               else throws (cs @ [(name, es')], ahl') x
           | Some ((es', ahl'), None) \<Rightarrow> returns (cs @ [(name, es')], ahl')))"

text \<open>\<open>QualifiedAvpListParser::parseRawToApp\<close>. Headers that no entry has taken are left and forgotten.\<close>

definition scan_avps :: "byte list \<Rightarrow> containers \<Rightarrow> (avp_hdr list \<Rightarrow> (containers \<times> avp_hdr list) parsed) \<Rightarrow> containers parsed" where
  "scan_avps bs cs f =
     (case avp_headers 0 bs of
        None \<Rightarrow> None
      | Some (Inl code) \<Rightarrow> throws cs (NormalError code)
      | Some (Inr ahl) \<Rightarrow> map_option (\<lambda>((cs', _), x). (cs', x)) (f ahl))"

fun list_toApp :: "avp_env \<Rightarrow> nat \<Rightarrow> dictionary \<Rightarrow> byte list \<Rightarrow> containers \<Rightarrow> containers parsed" where
  "list_toApp env 0 g bs cs = None"
| "list_toApp env (Suc n) g bs cs =
     scan_avps bs cs (\<lambda>ahl. steps (item_toApp env (Suc n) (list_toApp env n) bs) (dict_items g) (cs, ahl))"

definition QualifiedAvpList_toApp ::
  "avp_env \<Rightarrow> nat \<Rightarrow> dictionary option \<Rightarrow> byte list \<Rightarrow> containers \<Rightarrow> containers parsed" where
  "QualifiedAvpList_toApp env n dict bs cs =
     (case dict of
        Some g \<Rightarrow> list_toApp env n g bs cs
      | None \<Rightarrow> scan_avps bs cs (\<lambda>ahl. steps (named_toApp env n (list_toApp env n) bs) cs ([], ahl)))"

subsection \<open>Writing\<close>

definition avp_header_toRaw :: "avp_dict \<Rightarrow> avp_hdr \<Rightarrow> wbuf \<Rightarrow> wbuf parsed" where
  "avp_header_toRaw d h b =
     (if \<not> wb_room b (dict_hdr_len d) then throws b (BugError INVALID_PARSER_USAGE)
      else case wb_put (write_avp_hdr h) b of None \<Rightarrow> None | Some b' \<Rightarrow> returns b')"

definition new_avp_hdr :: "avp_dict \<Rightarrow> avp_hdr" where
  "new_avp_hdr d =
     \<lparr>a_code = d_code d, a_v = d_vend d, a_m = d_mand d, a_p = d_encr d, a_length = 0, a_vendor = d_vendor d, a_off = 0\<rparr>"

text \<open>The header once more, over the bytes at \<open>p\<close>, now with the length; then to the word boundary. The length has 24
  bits, so for a longer AVP \<open>p\<close> is not where it began.\<close>

definition finish_avp :: "avp_dict \<Rightarrow> nat \<Rightarrow> wbuf \<Rightarrow> wbuf parsed" where
  "finish_avp d start b =
     (let wr = length (wb_out b);
          len = mask24 (of_nat (wr - start));
          p = wr - unat len;
          h = (new_avp_hdr d)\<lparr>a_length := len\<rparr>;
          hb = write_avp_hdr h;
          b' = b\<lparr>wb_out := take p (wb_out b)\<rparr>
      in if \<not> wb_room b' (dict_hdr_len d) then throws b' (BugError INVALID_PARSER_USAGE)
         else if wb_size b < p + length hb then None
         else returns (b\<lparr>wb_out :=
                let o' = take p (wb_out b) @ hb @ drop (p + length hb) (wb_out b)
                in take (padded b) o' @ replicate (padded b - length o') 0\<rparr>))"

definition entry_toRaw ::
  "avp_env \<Rightarrow> nat \<Rightarrow> (dictionary \<Rightarrow> containers \<Rightarrow> wbuf \<Rightarrow> wbuf parsed) \<Rightarrow> avp_dict \<Rightarrow> avp_entry \<Rightarrow> wbuf \<Rightarrow> wbuf parsed" where
  "entry_toRaw env n list_toRaw d e b =
     seq (avp_header_toRaw d (new_avp_hdr d) b)
       (\<lambda>b1. seq (value_toRaw env n list_toRaw d e b1) (finish_avp d (length (wb_out b))))"

definition any_toRaw ::
  "avp_env \<Rightarrow> nat \<Rightarrow> (dictionary \<Rightarrow> containers \<Rightarrow> wbuf \<Rightarrow> wbuf parsed) \<Rightarrow> avp_dict \<Rightarrow> avp_entry \<Rightarrow> wbuf \<Rightarrow> wbuf parsed" where
  "any_toRaw env n list_toRaw d e b =
     seq (value_toRaw env n list_toRaw d e b)
       (\<lambda>b. if padded b \<le> wb_size b then returns (wb_pad b) else throws b (NormalError AAA_OUT_OF_SPACE))"

text \<open>\<open>DiameterAvpParser::parseAppToRaw\<close>.\<close>

definition avp_toRaw ::
  "avp_env \<Rightarrow> nat \<Rightarrow> (dictionary \<Rightarrow> containers \<Rightarrow> wbuf \<Rightarrow> wbuf parsed) \<Rightarrow> avp_dict \<Rightarrow> avp_entry list \<Rightarrow> wbuf \<Rightarrow> wbuf parsed" where
  "avp_toRaw env n list_toRaw d es b =
     (if d_type d = DATA_TYPE then steps (any_toRaw env n list_toRaw d) es b
      else steps (entry_toRaw env n list_toRaw d) es b)"

text \<open>\<open>parseAppToRawWithDict\<close> and \<open>parseAppToRawWithoutDict\<close>: containers that the dictionary does not name are not
  written.\<close>

definition item_toRaw ::
  "avp_env \<Rightarrow> nat \<Rightarrow> (dictionary \<Rightarrow> containers \<Rightarrow> wbuf \<Rightarrow> wbuf parsed) \<Rightarrow> containers \<Rightarrow>
     avp_parse_type \<times> qualified_avp \<Rightarrow> wbuf \<Rightarrow> wbuf parsed" where
  "item_toRaw env n list_toRaw cs item b =
     (let (pt, q) = item in
      case find_container cs (d_name (q_avp q)) of
        None \<Rightarrow>
          if 0 < q_min q \<and> 0 < q_max q \<and> pt \<noteq> TYPE_OPTIONAL then throws b (BugError MISSING_CONTAINER) else returns b
      | Some es \<Rightarrow>
          if q_max q = 0 then throws b (BugError PROHIBITED_CONTAINER)
          else if length es < q_min q then throws b (BugError TOO_LESS_AVP_ENTRIES)
          else if q_max q < length es then throws b (BugError TOO_MUCH_AVP_ENTRIES)
          else if es = [] then returns b
          else avp_toRaw env n list_toRaw (q_avp q) es b)"

definition named_toRaw ::
  "avp_env \<Rightarrow> nat \<Rightarrow> (dictionary \<Rightarrow> containers \<Rightarrow> wbuf \<Rightarrow> wbuf parsed) \<Rightarrow> string \<times> avp_entry list \<Rightarrow> wbuf \<Rightarrow> wbuf parsed" where
  "named_toRaw env n list_toRaw c b =
     (let (name, es) = c in
      case search_avp (te_avps env) name of
        None \<Rightarrow> None
      | Some d \<Rightarrow> if es = [] then returns b else avp_toRaw env n list_toRaw d es b)"

fun list_toRaw :: "avp_env \<Rightarrow> nat \<Rightarrow> dictionary \<Rightarrow> containers \<Rightarrow> wbuf \<Rightarrow> wbuf parsed" where
  "list_toRaw env 0 g cs b = None"
| "list_toRaw env (Suc n) g cs b = steps (item_toRaw env (Suc n) (list_toRaw env n) cs) (dict_items g) b"

definition QualifiedAvpList_toRaw ::
  "avp_env \<Rightarrow> nat \<Rightarrow> dictionary option \<Rightarrow> containers \<Rightarrow> wbuf \<Rightarrow> wbuf parsed" where
  "QualifiedAvpList_toRaw env n dict cs b =
     (case dict of
        Some g \<Rightarrow> list_toRaw env n g cs b
      | None \<Rightarrow> steps (named_toRaw env n (list_toRaw env n)) cs b)"

end
