(* ===== verification/Avp_Value_Props.thy ===== *)
theory Avp_Value_Props
  imports Avp_Parser
begin

text \<open>
  Properties of the value parsers: which strings pass for UTF-8, that a value is read back from what is written for
  it, and which are not.
\<close>

lemmas parsed_defs = returns_def throws_def seq_def prohibited_def

lemma seq_simps [simp]:
  "seq (returns s) f = f s" "seq (throws s e) f = throws s e" "seq None f = None"
  "returns s = returns t \<longleftrightarrow> s = t" "throws s e \<noteq> returns t" "returns t \<noteq> throws s e"
  "throws s e = throws t x \<longleftrightarrow> s = t \<and> e = x" "returns s \<noteq> None" "throws s e \<noteq> None" "None \<noteq> returns s" "None \<noteq> throws s e"
  by (auto simp: parsed_defs)

subsection \<open>UTF-8\<close>

lemma utf8_tail_Suc: "utf8_tail (Suc j) bs = None"
proof (cases bs)
  case (Cons c cs)
  have "sint c < 2 ^ 7" "- (2 ^ 7) \<le> sint c" using sint_lt [of c] sint_ge [of c] by simp_all
  then have "sint c div 2 ^ 6 \<noteq> 2" by auto
  with Cons show ?thesis by simp
qed simp

lemma utf8_count_5: "utf8_count 5 b = (if b = 0 then 0 else 5)"
proof -
  have "(0x40 :: byte) \<noteq> 0" by simp
  then show ?thesis by (simp add: numeral_eq_Suc del: zero_neq_numeral numeral_eq_iff)
qed

definition ascii :: "byte list \<Rightarrow> bool" where
  "ascii bs \<longleftrightarrow> list_all (\<lambda>b. b \<noteq> 0 \<and> b < 0x80) bs"

lemma drop_bit_7_zero: "drop_bit 7 (b :: byte) = 0 \<longleftrightarrow> b < 0x80"
proof -
  have "drop_bit 7 b = 0 \<longleftrightarrow> unat b div 2 ^ 7 = 0"
    by (simp add: drop_bit_eq_div word_unat_eq_iff unat_div)
  also have "\<dots> \<longleftrightarrow> b < 0x80" by (auto simp: word_less_nat_alt)
  finally show ?thesis .
qed

theorem UTF8Checker_ascii: "UTF8Checker nullCheck bs \<longleftrightarrow> ascii bs"
proof (induction nullCheck bs rule: UTF8Checker.induct)
  case (1 nullCheck)
  then show ?case by (simp add: ascii_def)
next
  case (2 nullCheck b bs)
  let ?n = "utf8_count 5 (push_bit 1 b)"
  have t: "?n \<noteq> 0 \<Longrightarrow> utf8_tail ?n bs = None"
    using utf8_tail_Suc by (cases ?n) auto
  show ?case
  proof (cases "b \<noteq> 0 \<and> drop_bit 7 b = 0")
    case True
    with 2 have "UTF8Checker nullCheck bs \<longleftrightarrow> ascii bs" by blast
    with True show ?thesis by (simp add: ascii_def drop_bit_7_zero)
  next
    case False
    then have "\<not> ascii (b # bs)" by (auto simp: ascii_def drop_bit_7_zero)
    moreover have "\<not> UTF8Checker nullCheck (b # bs)"
      using False t by (cases "?n = 0") (auto simp: Let_def)
    ultimately show ?thesis by blast
  qed
qed

subsection \<open>A value is read back\<close>

text \<open>The bytes written for an entry that is no group, and when it is one the dictionary's type can carry.\<close>

definition plain_bytes :: "avp_entry \<Rightarrow> byte list" where
  "plain_bytes e =
     (case e of
        Int32Entry t w \<Rightarrow> bytes_of32 w
      | Int64Entry t w \<Rightarrow> bytes_of64 w
      | StrEntry t s \<Rightarrow> bytes_of_str s
      | AddrEntry t s \<Rightarrow> bytes_of16 t @ bytes_of_str s
      | UriEntry u \<Rightarrow> bytes_of_str (uri_text u)
      | FilterEntry r \<Rightarrow> bytes_of_str (case filter_text r of None \<Rightarrow> [] | Some s \<Rightarrow> s)
      | GroupEntry cs \<Rightarrow> [])"

definition uri_returns :: "avp_env \<Rightarrow> diameter_uri \<Rightarrow> bool" where
  "uri_returns env u \<longleftrightarrow>
     (case te_spirit env DiamuriGrammar (uri_text u) of
        (full, acts) \<Rightarrow> full \<and> fold uri_action acts
          ((te_uri0 env)\<lparr>uri_protocol := TRANSPORT_PROTO_TCP, uri_transport := PROTO_DIAMETER\<rparr>) = u)"

definition rule_returns :: "avp_env \<Rightarrow> ipfilter_rule \<Rightarrow> string \<Rightarrow> bool" where
  "rule_returns env r s \<longleftrightarrow>
     (case te_spirit env IPFilterRuleGrammar s of
        (full, acts) \<Rightarrow> full \<and> fold filter_action acts (filter_defaults (te_filter0 env)) = r)"

definition plain_ok :: "avp_env \<Rightarrow> avp_type \<Rightarrow> avp_entry \<Rightarrow> bool" where
  "plain_ok env ty e \<longleftrightarrow> dataType e = ty \<and>
     (case e of
        Int32Entry t w \<Rightarrow> t \<in> set Integer32_types
      | Int64Entry t w \<Rightarrow> t \<in> set Integer64_types
      | StrEntry t s \<Rightarrow>
          t \<in> {DATA_TYPE, STRING_TYPE} \<or>
          t \<in> {UTF8_STRING_TYPE, DIAMID_TYPE} \<and> ascii (bytes_of_str s) \<and>
            (t = DIAMID_TYPE \<longrightarrow> fst (te_spirit env DiamidentGrammar s))
      | AddrEntry t s \<Rightarrow> True
      | UriEntry u \<Rightarrow> ascii (bytes_of_str (uri_text u)) \<and> uri_returns env u
      | FilterEntry r \<Rightarrow>
          (case filter_text r of None \<Rightarrow> False | Some s \<Rightarrow> ascii (bytes_of_str s) \<and> rule_returns env r s)
      | GroupEntry cs \<Rightarrow> False)"

named_theorems value_simps \<open>the parsers of values, unfolded\<close>

lemmas parser_defs [value_simps] =
  Any_toApp_def Integer32_toApp_def Integer64_toApp_def Octetstring_toApp_def Utf8string_toApp_def
  Diamident_toApp_def Address_toApp_def Diamuri_toApp_def IPFilterRule_toApp_def with_type_def
  Any_toRaw_def Integer32_toRaw_def Integer64_toRaw_def Octetstring_toRaw_def Utf8string_toRaw_def
  Diamident_toRaw_def Address_toRaw_def Diamuri_toRaw_def IPFilterRule_toRaw_def UTF8Checker_ascii
  Integer32_types_def Integer64_types_def

lemma map_option_parsed [simp]:
  "map_option (\<lambda>(s, x). (g s, x)) (returns t) = returns (g t)"
  "map_option (\<lambda>(s, x). (g s, x)) (throws t e) = throws (g t) e"
  by (simp_all add: parsed_defs)

lemma via_string_simps [simp]:
  "via_string (returns e2) e f = f (entry_str e2)" "via_string (throws e2 x) e f = throws e x"
  by (simp_all add: via_string_def parsed_defs)

lemma bytes_of_str_append [simp]: "bytes_of_str (s @ t) = bytes_of_str s @ bytes_of_str t"
  "str_of_bytes (bs @ cs) = str_of_bytes bs @ str_of_bytes cs"
  by (simp_all add: bytes_of_str_def str_of_bytes_def)

lemma drop_bytes [simp]: "length bs = k \<Longrightarrow> drop k (str_of_bytes bs @ s) = s"
  by simp

lemma read_at_end [simp]: "read32 (bytes_of32 w) = w" "read64 (bytes_of64 v) = v"
  using read32_bytes_of32 [of w "[]"] read64_bytes_of64 [of v "[]"] by simp_all

text \<open>Writing a value that fits its type is writing its bytes.\<close>

lemma plain_toRaw:
  assumes "plain_ok env (d_type d) e"
  shows "value_toRaw env n lt d e b = write_value (plain_bytes e) b"
  using assms
  by (cases e)
    (auto simp: plain_ok_def value_toRaw_def plain_bytes_def value_simps rule_returns_def
      split: option.splits prod.splits)

lemma plain_toApp:
  assumes "plain_ok env (d_type d) e" "acquire env (d_type d) = Some e0"
  shows "value_toApp env n lt d (plain_bytes e) e0 = returns e"
proof (cases e)
  case (UriEntry u)
  with assms show ?thesis
    by (auto simp: plain_ok_def value_toApp_def plain_bytes_def value_simps uri_returns_def)
next
  case (FilterEntry r)
  with assms show ?thesis
    by (auto simp: plain_ok_def value_toApp_def plain_bytes_def value_simps rule_returns_def
        split: option.splits)
qed (use assms in \<open>auto simp: plain_ok_def value_toApp_def plain_bytes_def value_simps\<close>)

subsection \<open>What is not read back\<close>

text \<open>The functors of the code leave the port, name and scheme of a URI as they were, but the protocol is written over the
  transport and is itself lost.\<close>

definition uri_events :: "diameter_uri \<Rightarrow> (sem \<times> matched) list" where
  "uri_events u =
     [(SchemeFunctor, MText (if uri_scheme u = SCHEME_AAA then ''aaa'' else ''aaas'')),
      (FqdnFunctor, MText (uri_fqdn u)), (AssignPort, MNum (int (unat (uri_port u)))),
      (TransportFunctor, MText (if uri_transport u = TRANSPORT_PROTO_TCP then ''tcp'' else ''sctp'')),
      (ProtocolFunctor, MText (if uri_protocol u = PROTO_DIAMETER then ''diameter'' else ''radius''))]"

text \<open>a URI that is written and read again, by a parser generator that reports the parts of its text in their order,
  has its name and its port, but its transport is made of its protocol (a Diameter URI comes back with TCP, a RADIUS one
  with SCTP) and its protocol is always Diameter.\<close>

theorem uri_transport_lost:
  assumes "ascii (bytes_of_str (uri_text u))"
    and "te_spirit env DiamuriGrammar (uri_text u) = (True, uri_events u)"
  shows "Diamuri_toApp env n d (bytes_of_str (uri_text u)) (UriEntry u0) = returns (UriEntry
           \<lparr>uri_fqdn = uri_fqdn u, uri_port = uri_port u,
            uri_transport = (if uri_protocol u = PROTO_DIAMETER then TRANSPORT_PROTO_TCP else TRANSPORT_PROTO_SCTP),
            uri_protocol = PROTO_DIAMETER,
            uri_scheme = (if uri_scheme u = SCHEME_AAA then SCHEME_AAA else SCHEME_AAAS)\<rparr>)"
  using assms by (cases "te_uri0 env") (simp add: value_simps uri_events_def)

definition demo_uri :: diameter_uri where
  "demo_uri = \<lparr>uri_fqdn = ''a.b'', uri_port = 3868, uri_transport = TRANSPORT_PROTO_SCTP, uri_protocol = PROTO_DIAMETER,
     uri_scheme = SCHEME_AAA\<rparr>"

definition demo_src_dst :: src_dst where
  "demo_src_dst = \<lparr>sd_modifier = True, sd_representation = SRCDST_EXACT, sd_ipno = [], sd_bits = 0, sd_ports = []\<rparr>"

definition demo_avp_env :: avp_env where
  "demo_avp_env =
     \<lparr>te_avps = [], te_groups = [], te_spirit = documented_spirit,
      te_uri0 = \<lparr>uri_fqdn = [], uri_port = 0, uri_transport = 0, uri_protocol = 0, uri_scheme = 0\<rparr>,
      te_filter0 = \<lparr>fr_action = 0, fr_dir = 0, fr_proto = 0, fr_src = demo_src_dst, fr_dst = demo_src_dst,
        fr_frag = False, fr_ipOptions = [], fr_tcpOptions = [], fr_established = False, fr_setup = False,
        fr_tcpFlags = [], fr_icmpTypes = []\<rparr>\<rparr>"

definition demo_uri_avp :: avp_dict where
  "demo_uri_avp = \<lparr>d_code = 292, d_vendor = 0, d_mand = True, d_vend = False, d_encr = False,
     d_name = ''Redirect-Host'', d_type = DIAMURI_TYPE\<rparr>"

lemma uri_text_demo: "uri_text demo_uri = ''aaa://a.b:3868;transport=sctp;protocol=diameter''"
  by (simp add: uri_text_def scheme_text_def demo_uri_def decimal_less decimal_ge, simp add: char_of_def bit_0)

lemma spirit_demo: "documented_spirit DiamuriGrammar ''aaa://a.b:3868;transport=sctp;protocol=diameter'' =
    (True, [(SchemeFunctor, MText ''aaa''), (FqdnFunctor, MText ''a.b''), (AssignPort, MNum 3868),
            (TransportFunctor, MText ''sctp''), (ProtocolFunctor, MText ''diameter'')])"
  by code_simp

theorem uri_transport_lost_witness:
  "Diamuri_toApp demo_avp_env 1 demo_uri_avp (bytes_of_str (uri_text demo_uri)) (UriEntry demo_uri) =
     returns (UriEntry (demo_uri\<lparr>uri_transport := TRANSPORT_PROTO_TCP\<rparr>))"
proof -
  have "ascii (bytes_of_str (uri_text demo_uri))"
    unfolding uri_text_demo by (simp add: ascii_def bytes_of_str_def byte_of_char_def)
  moreover have "te_spirit demo_avp_env DiamuriGrammar (uri_text demo_uri) = (True, uri_events demo_uri)"
    unfolding uri_text_demo by (simp add: demo_avp_env_def spirit_demo uri_events_def demo_uri_def)
  ultimately show ?thesis
    using uri_transport_lost [of demo_uri demo_avp_env 1 demo_uri_avp demo_uri] by (simp add: demo_uri_def)
qed

text \<open>Alternatives are tried in order and not again, so the text after ''aaa'' decides: what starts with ''aaas'' is no
  URI for the code, which writes such URIs.\<close>

lemma fails_with_known:
  "d_type d \<noteq> GROUPED_TYPE \<Longrightarrow> d_type d \<noteq> CUSTOM_TYPE \<Longrightarrow> fails_with env (Suc n) s code d = throws s (NormalError code)"
  by (cases "d_type d") (simp_all add: fails_with_def throws_avp_def Let_def)

theorem aaas_uri_rejected:
  assumes "te_spirit env = documented_spirit" "ascii (bytes_of_str s)" "d_type d = DIAMURI_TYPE"
  shows "Diamuri_toApp env (Suc n) d (bytes_of_str (''aaas://'' @ s)) (UriEntry u0) =
           throws (UriEntry u0) (NormalError AAA_INVALID_AVP_VALUE)"
proof -
  have a: "ascii (bytes_of_str (''aaas://'' @ s))"
    using assms(2) by (simp add: ascii_def bytes_of_str_def byte_of_char_def)
  have "\<not> fst (documented_spirit DiamuriGrammar (''aaas://'' @ s))"
    by (simp add: documented_spirit_def DiamuriGrammar_def skip_p_def is_space_def then_hit_def else_hit_def)
  with a show ?thesis
    using assms fails_with_known [of d env n "UriEntry u0" AAA_INVALID_AVP_VALUE]
    by (simp add: value_simps split: prod.splits) (metis fst_conv)
qed

theorem aaas_uri_rejected_witness:
  "Diamuri_toApp demo_avp_env 1 demo_uri_avp (bytes_of_str ''aaas://a.b'') (UriEntry demo_uri) =
     throws (UriEntry demo_uri) (NormalError AAA_INVALID_AVP_VALUE)"
proof -
  have "ascii (bytes_of_str ''a.b'')" by (simp add: ascii_def bytes_of_str_def byte_of_char_def)
  then show ?thesis
    using aaas_uri_rejected [of demo_avp_env "''a.b''" demo_uri_avp 0 demo_uri]
    by (simp add: demo_avp_env_def demo_uri_avp_def)
qed

text \<open>A group without a definition: the error that says so needs the smallest size of the group, which is not known
  either, so a bug of the program is reported for what the peer has sent.\<close>

theorem unknown_group_is_a_bug:
  assumes "search_group (te_groups env) (d_code d) (d_vendor d) = None" "d_type d = GROUPED_TYPE"
  shows "Grouped_toApp env (Suc n) lt d bs (GroupEntry cs) =
           throws (GroupEntry cs) (BugError MISSING_AVP_DICTIONARY_ENTRY)"
  using assms by (simp add: Grouped_toApp_def fails_with_def throws_avp_def)

theorem unknown_group_is_a_bug_witness:
  "Grouped_toApp demo_avp_env 1 (\<lambda>g bs cs. None) (demo_uri_avp\<lparr>d_type := GROUPED_TYPE\<rparr>) [] (GroupEntry []) =
     throws (GroupEntry []) (BugError MISSING_AVP_DICTIONARY_ENTRY)"
  using unknown_group_is_a_bug [of demo_avp_env "demo_uri_avp\<lparr>d_type := GROUPED_TYPE\<rparr>" 0 "\<lambda>g bs cs. None" "[]" "[]"]
  by (simp add: demo_avp_env_def demo_uri_avp_def)

end
