(* ===== verification/Avp_Codec.thy ===== *)
theory Avp_Codec
  imports Avp_Value_Props
begin

text \<open>
  What the writer of a list of AVPs has to produce, as a function without buffer, pointers and errors; what can be
  written; and the containers a reader makes of it. The writer implements the function, the reader inverts it.
\<close>

subsection \<open>The encoding\<close>

definition avp_hdr_for :: "avp_dict \<Rightarrow> nat \<Rightarrow> avp_hdr" where
  "avp_hdr_for d n = (new_avp_hdr d)\<lparr>a_length := of_nat (dict_hdr_len d + n)\<rparr>"

definition entry_bytes :: "avp_env \<Rightarrow> (dictionary \<Rightarrow> containers \<Rightarrow> byte list) \<Rightarrow> avp_dict \<Rightarrow> avp_entry \<Rightarrow> byte list" where
  "entry_bytes env le d e =
     (case e of
        GroupEntry cs \<Rightarrow> (case search_group (te_groups env) (d_code d) (d_vendor d) of None \<Rightarrow> [] | Some g \<Rightarrow> le g cs)
      | _ \<Rightarrow> plain_bytes e)"

text \<open>An entry as the header and the value of an AVP. A wildcard entry holds both.\<close>

definition entry_avp ::
  "avp_env \<Rightarrow> (dictionary \<Rightarrow> containers \<Rightarrow> byte list) \<Rightarrow> avp_dict \<Rightarrow> avp_entry \<Rightarrow> avp_hdr \<times> byte list" where
  "entry_avp env le d e =
     (if d_type d = DATA_TYPE
      then let bs = bytes_of_str (entry_str e); h = avp_hdr_at 0 bs in (h, drop (avp_hdr_size h) bs)
      else let v = entry_bytes env le d e in (avp_hdr_for d (length v), v))"

definition item_entries :: "containers \<Rightarrow> qualified_avp \<Rightarrow> avp_entry list" where
  "item_entries cs q = (case find_container cs (d_name (q_avp q)) of None \<Rightarrow> [] | Some es \<Rightarrow> es)"

definition item_avps ::
  "avp_env \<Rightarrow> (dictionary \<Rightarrow> containers \<Rightarrow> byte list) \<Rightarrow> containers \<Rightarrow> avp_parse_type \<times> qualified_avp \<Rightarrow>
     (avp_hdr \<times> byte list) list" where
  "item_avps env le cs x = map (entry_avp env le (q_avp (snd x))) (item_entries cs (snd x))"

fun list_bytes :: "avp_env \<Rightarrow> nat \<Rightarrow> dictionary \<Rightarrow> containers \<Rightarrow> byte list" where
  "list_bytes env 0 g cs = []"
| "list_bytes env (Suc n) g cs =
     write_avps (concat (map (item_avps env (list_bytes env n) cs) (dict_items g)))"

subsection \<open>The containers in the order of the dictionary\<close>

definition canon_entry :: "avp_env \<Rightarrow> (dictionary \<Rightarrow> containers \<Rightarrow> containers) \<Rightarrow> avp_dict \<Rightarrow> avp_entry \<Rightarrow> avp_entry" where
  "canon_entry env ca d e =
     (case e of
        GroupEntry cs \<Rightarrow>
          (case search_group (te_groups env) (d_code d) (d_vendor d) of None \<Rightarrow> e | Some g \<Rightarrow> GroupEntry (ca g cs))
      | _ \<Rightarrow> e)"

definition canon_item ::
  "avp_env \<Rightarrow> (dictionary \<Rightarrow> containers \<Rightarrow> containers) \<Rightarrow> containers \<Rightarrow> avp_parse_type \<times> qualified_avp \<Rightarrow> containers" where
  "canon_item env ca cs x =
     (let q = snd x; es = item_entries cs q
      in if es = [] then [] else [(d_name (q_avp q), map (canon_entry env ca (q_avp q)) es)])"

fun canon :: "avp_env \<Rightarrow> nat \<Rightarrow> dictionary \<Rightarrow> containers \<Rightarrow> containers" where
  "canon env 0 g cs = []"
| "canon env (Suc n) g cs = concat (map (canon_item env (canon env n) cs) (dict_items g))"

text \<open>One container of the result: that of a name the dictionary has, when it is there and not empty, entry for entry.
  Groups are ordered by their own definitions; all else is as it was.\<close>

definition comes_back :: "avp_env \<Rightarrow> nat \<Rightarrow> dictionary \<Rightarrow> containers \<Rightarrow> string \<Rightarrow> avp_entry list option" where
  "comes_back env n g cs name =
     (case find (\<lambda>x. d_name (q_avp (snd x)) = name) (dict_items g) of
        None \<Rightarrow> None
      | Some x \<Rightarrow>
          (case find_container cs name of
             None \<Rightarrow> None
           | Some es \<Rightarrow> if es = [] then None else Some (map (canon_entry env (canon env (n - 1)) (q_avp (snd x))) es)))"

lemma find_canon_items:
  "find_container (concat (map (canon_item env ca cs) its)) name =
     (case find (\<lambda>x. d_name (q_avp (snd x)) = name) its of
        None \<Rightarrow> None
      | Some x \<Rightarrow>
          (case find_container cs name of
             None \<Rightarrow> None
           | Some es \<Rightarrow> if es = [] then None else Some (map (canon_entry env ca (q_avp (snd x))) es)))"
proof (induction its)
  case (Cons x its)
  then show ?case
    by (auto simp: canon_item_def item_entries_def Let_def split: option.splits)
qed simp

lemma find_canon: "find_container (canon env (Suc n) g cs) name = comes_back env (Suc n) g cs name"
  unfolding comes_back_def canon.simps find_canon_items diff_Suc_1 ..

subsection \<open>What can be written and read\<close>

text \<open>A dictionary item takes its container from the list by its name; a container that no item names is not looked at,
  so it may hold anything: it is not written.\<close>

text \<open>An entry of the dictionary takes a header. No AVP may be one that an earlier entry would take.\<close>

definition takes :: "avp_parse_type \<Rightarrow> avp_dict \<Rightarrow> avp_hdr \<Rightarrow> bool" where
  "takes pt d h \<longleftrightarrow> (if pt = TYPE_FIXED_HEAD then a_code h = d_code d else dict_match d h)"

fun unmixed :: "(avp_parse_type \<times> qualified_avp \<Rightarrow> (avp_hdr \<times> byte list) list) \<Rightarrow> (avp_parse_type \<times> qualified_avp) list \<Rightarrow> bool" where
  "unmixed f [] \<longleftrightarrow> True"
| "unmixed f (x # xs) \<longleftrightarrow>
     list_all (\<lambda>y. list_all (\<lambda>hv. \<not> takes (fst x) (q_avp (snd x)) (fst hv)) (f y)) xs \<and> unmixed f xs"

definition sized :: "avp_env \<Rightarrow> nat \<Rightarrow> avp_dict \<Rightarrow> bool" where
  "sized env n d \<longleftrightarrow> (case getMinSize (te_groups env) n d of Some (Inr w) \<Rightarrow> True | _ \<Rightarrow> False)"

definition entry_ok ::
  "avp_env \<Rightarrow> (dictionary \<Rightarrow> containers \<Rightarrow> bool) \<Rightarrow> (dictionary \<Rightarrow> containers \<Rightarrow> byte list) \<Rightarrow> avp_dict \<Rightarrow> avp_entry \<Rightarrow> bool" where
  "entry_ok env lo le d e \<longleftrightarrow>
     (let (h, v) = entry_avp env le d e in
      avp_fits h v \<and>
      (if d_type d = DATA_TYPE
       then d_code d = 0 \<and> e = StrEntry DATA_TYPE (str_of_bytes (write_avp_hdr h @ v))
       else d_code d \<noteq> 0 \<and>
         (case e of
            GroupEntry cs \<Rightarrow> d_type d = GROUPED_TYPE \<and>
              (case search_group (te_groups env) (d_code d) (d_vendor d) of None \<Rightarrow> False | Some g \<Rightarrow> lo g cs)
          | _ \<Rightarrow> plain_ok env (d_type d) e)))"

definition item_ok ::
  "avp_env \<Rightarrow> nat \<Rightarrow> (dictionary \<Rightarrow> containers \<Rightarrow> bool) \<Rightarrow> (dictionary \<Rightarrow> containers \<Rightarrow> byte list) \<Rightarrow> containers \<Rightarrow>
     avp_parse_type \<times> qualified_avp \<Rightarrow> bool" where
  "item_ok env n lo le cs x \<longleftrightarrow>
     (let (pt, q) = x; d = q_avp q in
      sized env n d \<and> (pt = TYPE_FIXED_HEAD \<longrightarrow> d_code d \<noteq> 0) \<and>
      (case find_container cs (d_name d) of
         None \<Rightarrow> pt = TYPE_OPTIONAL \<or> q_min q = 0
       | Some es \<Rightarrow> q_max q \<noteq> 0 \<and> q_min q \<le> length es \<and> length es \<le> q_max q \<and> list_all (entry_ok env lo le d) es))"

fun encodable :: "avp_env \<Rightarrow> nat \<Rightarrow> dictionary \<Rightarrow> containers \<Rightarrow> bool" where
  "encodable env 0 g cs \<longleftrightarrow> False"
| "encodable env (Suc n) g cs \<longleftrightarrow>
     list_all (item_ok env (Suc n) (encodable env n) (list_bytes env n) cs) (dict_items g) \<and>
     unmixed (item_avps env (list_bytes env n) cs) (dict_items g)"

subsection \<open>The reader inverts the encoding\<close>

lemma write_avps_append: "write_avps (xs @ ys) = write_avps xs @ write_avps ys"
  by (induction xs rule: write_avps.induct) auto

lemma at_offsets_append:
  "\<forall>(h, v) \<in> set xs. avp_fits h v \<Longrightarrow>
     at_offsets off (xs @ ys) = at_offsets off xs @ at_offsets (off + length (write_avps xs)) ys"
proof (induction xs arbitrary: off rule: write_avps.induct)
  case (2 h v avps)
  then have "unat (a_length h) = avp_hdr_size h + length v" by (simp add: avp_fits_def)
  with 2 show ?case by (simp add: add.assoc)
qed simp

lemma set_at_offsets: "h' \<in> set (at_offsets off xs) \<Longrightarrow> \<exists>(h, v) \<in> set xs. \<exists>k. h' = h\<lparr>a_off := k\<rparr>"
  by (induction off xs rule: at_offsets.induct) auto

lemma takes_off [simp]: "takes pt d (h\<lparr>a_off := k\<rparr>) = takes pt d h"
  by (simp add: takes_def dict_match_def)

lemma fails_with_sized: "sized env n d \<Longrightarrow> fails_with env n s code d = throws s (NormalError code)"
  by (auto simp: sized_def fails_with_def throws_avp_def split: option.splits sum.splits)

text \<open>The header the dictionary gives, which it also takes.\<close>

definition own_hdr :: "avp_dict \<Rightarrow> avp_hdr \<Rightarrow> bool" where
  "own_hdr d h \<longleftrightarrow> d_code d = 0 \<or>
     a_code h = d_code d \<and> a_v h = d_vend d \<and> a_vendor h = d_vendor d \<and> a_m h = d_mand d \<and> a_p h = d_encr d"

lemma header_takes_head:
  "own_hdr d h \<Longrightarrow> (pt = TYPE_FIXED_HEAD \<Longrightarrow> d_code d \<noteq> 0) \<Longrightarrow>
     avp_header_parseRawToApp pt d (h\<lparr>a_off := k\<rparr> # t) = (Inr (h\<lparr>a_off := k + dict_hdr_len d\<rparr>), t)"
  by (auto simp: avp_header_parseRawToApp_def own_hdr_def dict_match_def checkFlags_def word_gt_0)

lemma header_takes_none:
  "\<forall>h \<in> set ahl. \<not> takes pt d h \<Longrightarrow> (pt = TYPE_FIXED_HEAD \<Longrightarrow> d_code d \<noteq> 0) \<Longrightarrow>
     avp_header_parseRawToApp pt d ahl = (Inl AvpMissing, ahl)"
proof (cases "pt = TYPE_FIXED_HEAD")
  case True
  assume "\<forall>h \<in> set ahl. \<not> takes pt d h" "pt = TYPE_FIXED_HEAD \<Longrightarrow> d_code d \<noteq> 0"
  with True show ?thesis by (cases ahl) (auto simp: avp_header_parseRawToApp_def takes_def)
next
  case False
  assume "\<forall>h \<in> set ahl. \<not> takes pt d h"
  with False have "take_first (dict_match d) ahl = None" by (simp add: takes_def take_first_None_iff)
  with False show ?thesis by (auto simp: avp_header_parseRawToApp_def split: list.splits)
qed

text \<open>The bytes an entry finds behind its header, the wildcard with it.\<close>

definition own_bytes :: "avp_dict \<Rightarrow> avp_hdr \<Rightarrow> byte list \<Rightarrow> byte list" where
  "own_bytes d h v = (if d_code d = 0 then write_avp_hdr h @ v else v)"

lemma value_bytes_write:
  assumes "avp_fits h v" "own_hdr d h"
  shows "value_bytes d (h\<lparr>a_off := length pre + dict_hdr_len d\<rparr>) (pre @ write_avp_hdr h @ v @ post) =
           Some (own_bytes d h v)"
proof -
  have l: "avp_hdr_size h + length v = unat (a_length h)" using assms(1) by (simp add: avp_fits_def)
  have s: "d_code d \<noteq> 0 \<Longrightarrow> dict_hdr_len d = avp_hdr_size h" "d_code d = 0 \<Longrightarrow> dict_hdr_len d = 0"
    using assms(2) by (auto simp: own_hdr_def dict_hdr_len_def avp_hdr_size_def)
  show ?thesis
    by (cases "d_code d = 0") (use l s in \<open>auto simp: value_bytes_def own_bytes_def\<close>)
qed

lemma avp_toApp_run:
  assumes "acquire env (d_type d) = Some e0" "sized env n d" "pt = TYPE_FIXED_HEAD \<Longrightarrow> d_code d \<noteq> 0"
    and "\<And>e. e \<in> set es \<Longrightarrow> avp_fits (fst (A e)) (snd (A e)) \<and> own_hdr d (fst (A e)) \<and>
          value_toApp env n lt d (own_bytes d (fst (A e)) (snd (A e))) e0 = returns (C e)"
    and "\<forall>h \<in> set rest. \<not> takes pt d h"
    and "bs = pre @ write_avps (map A es) @ post"
  shows "avp_toApp env n lt bs pt d found acc (at_offsets (length pre) (map A es) @ rest) =
     (if es = [] \<and> \<not> found then throws (acc, rest) (NormalError AAA_MISSING_AVP)
      else returns (acc @ map C es, rest))"
  using assms(4,6)
proof (induction es arbitrary: pre found acc)
  case Nil
  show ?case
    using header_takes_none [OF assms(5,3)]
    by (simp add: avp_toApp.simps no_more_def Let_def fails_with_sized [OF assms(2)])
next
  case (Cons e es)
  obtain h v where A: "A e = (h, v)" by (cases "A e")
  have e: "avp_fits h v" "own_hdr d h" "value_toApp env n lt d (own_bytes d h v) e0 = returns (C e)"
    using Cons.prems(1) [of e] A by auto
  let ?blk = "write_avp_hdr h @ v @ replicate (pad_len (unat (a_length h))) 0"
  have bs: "bs = (pre @ ?blk) @ write_avps (map A es) @ post" using Cons.prems(2) A by simp
  have l: "avp_hdr_size h + length v = unat (a_length h)" using e(1) by (simp add: avp_fits_def)
  have off: "length (pre @ ?blk) = length pre + unat (a_length h) + pad_len (unat (a_length h))"
    using l by simp
  have IH: "avp_toApp env n lt bs pt d True (acc @ [C e]) (at_offsets (length (pre @ ?blk)) (map A es) @ rest) =
      returns ((acc @ [C e]) @ map C es, rest)"
    using Cons.IH [OF _ bs, of True "acc @ [C e]"] Cons.prems(1) by simp
  have v: "value_bytes d (h\<lparr>a_off := length pre + dict_hdr_len d\<rparr>) bs = Some (own_bytes d h v)"
    using value_bytes_write [OF e(1,2), of pre "replicate (pad_len (unat (a_length h))) 0 @ write_avps (map A es) @ post"]
      bs by simp
  have hd: "avp_header_parseRawToApp pt d (at_offsets (length pre) (map A (e # es)) @ rest) =
      (Inr (h\<lparr>a_off := length pre + dict_hdr_len d\<rparr>),
       at_offsets (length pre + unat (a_length h) + pad_len (unat (a_length h))) (map A es) @ rest)"
    using header_takes_head [OF e(2) assms(3)] A by simp
  show ?case
    using IH [unfolded off] hd v e(3) assms(1) by (subst avp_toApp.simps) (simp add: returns_def)
qed

text \<open>An entry that fits is given back, with the groups in it in the dictionary's order.\<close>

lemma acquire_known: "acquire env t = None \<longleftrightarrow> t = CUSTOM_TYPE"
  by (cases t) auto

lemma plain_not_custom: "plain_ok env t e \<Longrightarrow> t \<noteq> CUSTOM_TYPE \<and> t \<noteq> GROUPED_TYPE"
  by (cases e) (auto simp: plain_ok_def Integer32_types_def Integer64_types_def)

lemma canon_entry_plain: "plain_ok env t e \<Longrightarrow> canon_entry env ca d e = e"
  by (cases e) (auto simp: plain_ok_def canon_entry_def)

lemma entry_ok_own:
  assumes "entry_ok env lo le d e"
  shows "avp_fits (fst (entry_avp env le d e)) (snd (entry_avp env le d e))"
    and "own_hdr d (fst (entry_avp env le d e))"
  using assms
  by (auto simp: entry_ok_def own_hdr_def entry_avp_def avp_hdr_for_def new_avp_hdr_def Let_def split: if_splits)

lemma entry_ok_read:
  assumes "entry_ok env lo le d e" "acquire env (d_type d) = Some e0"
    and "\<And>g cs. lo g cs \<Longrightarrow> lt g (le g cs) [] = returns (ca g cs)"
  shows "value_toApp env n lt d (own_bytes d (fst (entry_avp env le d e)) (snd (entry_avp env le d e))) e0 =
           returns (canon_entry env ca d e)"
proof (cases "d_type d = DATA_TYPE")
  case True
  with assms(1,2) show ?thesis
    by (auto simp: entry_ok_def own_bytes_def value_toApp_def value_simps canon_entry_def Let_def)
next
  case False
  with assms(1) have c: "d_code d \<noteq> 0" by (auto simp: entry_ok_def Let_def split: if_splits)
  show ?thesis
  proof (cases e)
    case (GroupEntry cs)
    with assms(1) False obtain g where g: "d_type d = GROUPED_TYPE" "lo g cs"
      "search_group (te_groups env) (d_code d) (d_vendor d) = Some g"
      by (auto simp: entry_ok_def Let_def split: option.splits)
    moreover have "e0 = GroupEntry []" using assms(2) g(1) by simp
    ultimately show ?thesis using assms(3) c False GroupEntry
      by (simp add: own_bytes_def entry_avp_def entry_bytes_def value_toApp_def Grouped_toApp_def canon_entry_def Let_def)
  qed (use assms(1,2) c False plain_toApp [of env d e e0 n lt] canon_entry_plain [of env "d_type d" e ca d] in
    \<open>auto simp: own_bytes_def entry_ok_def entry_avp_def entry_bytes_def Let_def\<close>)
qed

lemma find_container_entries:
  "item_ok env n lo le cs x \<Longrightarrow> e \<in> set (item_entries cs (snd x)) \<Longrightarrow> entry_ok env lo le (q_avp (snd x)) e"
  by (cases x; cases "find_container cs (d_name (q_avp (snd x)))")
    (auto simp: item_ok_def item_entries_def list_all_iff Let_def)

lemma entry_ok_not_custom: "entry_ok env lo le d e \<Longrightarrow> d_type d \<noteq> CUSTOM_TYPE"
  using plain_not_custom [of env "d_type d" e]
  by (cases e) (auto simp: entry_ok_def Let_def split: if_splits)

text \<open>One item of the dictionary.\<close>

lemma item_toApp_run:
  assumes "item_ok env n lo le cs x"
    and "\<And>g cs. lo g cs \<Longrightarrow> lt g (le g cs) [] = returns (ca g cs)"
    and "\<forall>h \<in> set rest. \<not> takes (fst x) (q_avp (snd x)) h"
    and "bs = pre @ write_avps (item_avps env le cs x) @ post"
  shows "item_toApp env n lt bs x (acc, at_offsets (length pre) (item_avps env le cs x) @ rest) =
           returns (acc @ canon_item env ca cs x, rest)"
proof -
  obtain pt q where x: "x = (pt, q)" by (cases x)
  let ?d = "q_avp q" and ?es = "item_entries cs q" and ?A = "entry_avp env le (q_avp q)"
  have i: "sized env n ?d" "pt = TYPE_FIXED_HEAD \<Longrightarrow> d_code ?d \<noteq> 0"
    using assms(1) x by (auto simp: item_ok_def Let_def)
  have ok: "entry_ok env lo le ?d e" if "e \<in> set ?es" for e
    using find_container_entries [OF assms(1)] that x by simp
  have len: "?es = [] \<Longrightarrow> pt = TYPE_OPTIONAL \<or> q_min q = 0" "?es \<noteq> [] \<Longrightarrow> q_min q \<le> length ?es \<and> length ?es \<le> q_max q"
    using assms(1) x by (auto simp: item_ok_def item_entries_def Let_def split: option.splits)
  have run: "avp_toApp env n lt bs pt ?d False [] (at_offsets (length pre) (map ?A ?es) @ rest) =
     (if ?es = [] then throws ([], rest) (NormalError AAA_MISSING_AVP)
      else returns (map (canon_entry env ca ?d) ?es, rest))"
  proof (cases "?es = []")
    case True
    then show ?thesis
      using header_takes_none [of rest pt ?d] assms(3) x i(2)
      by (simp add: avp_toApp.simps no_more_def Let_def fails_with_sized [OF i(1)])
  next
    case False
    then obtain e0 where e0: "acquire env (d_type ?d) = Some e0"
      using ok entry_ok_not_custom acquire_known by (metis hd_in_set not_None_eq)
    have "avp_fits (fst (?A e)) (snd (?A e)) \<and> own_hdr ?d (fst (?A e)) \<and>
        value_toApp env n lt ?d (own_bytes ?d (fst (?A e)) (snd (?A e))) e0 = returns (canon_entry env ca ?d e)"
      if "e \<in> set ?es" for e
      using entry_ok_own [OF ok [OF that]] entry_ok_read [of env lo le ?d e e0 lt ca n] ok [OF that] e0 assms(2) by blast
    then show ?thesis
      using avp_toApp_run [of env ?d e0 n pt ?es ?A lt "canon_entry env ca ?d" rest bs pre post False "[]"]
        e0 i assms(3,4) x False by (simp add: item_avps_def)
  qed
  then show ?thesis using len
    by (auto simp: x item_toApp_def item_avps_def canon_item_def Let_def returns_def throws_def)
qed

text \<open>All of them.\<close>

lemma map_option_scanned [simp]:
  "map_option (\<lambda>((s, _), x). (s, x)) (returns (t, u)) = returns t"
  "map_option (\<lambda>((s, _), x). (s, x)) (throws (t, u) e) = throws t e"
  by (simp_all add: returns_def throws_def)

lemma item_avps_fit:
  "item_ok env n lo le cs x \<Longrightarrow> \<forall>(h, v) \<in> set (item_avps env le cs x). avp_fits h v"
proof -
  assume x: "item_ok env n lo le cs x"
  have "avp_fits (fst (entry_avp env le (q_avp (snd x)) e)) (snd (entry_avp env le (q_avp (snd x)) e))"
    if "e \<in> set (item_entries cs (snd x))" for e
    by (rule entry_ok_own(1) [OF find_container_entries [OF x that]])
  then show ?thesis by (auto simp: item_avps_def split: prod.splits) (metis fst_conv snd_conv)
qed

lemma steps_items_run:
  assumes "list_all (item_ok env n lo le cs) its" "unmixed (item_avps env le cs) its"
    and "\<And>g cs. lo g cs \<Longrightarrow> lt g (le g cs) [] = returns (ca g cs)"
    and "bs = pre @ write_avps (concat (map (item_avps env le cs) its))"
  shows "steps (item_toApp env n lt bs) its (acc, at_offsets (length pre) (concat (map (item_avps env le cs) its))) =
           returns (acc @ concat (map (canon_item env ca cs) its), [])"
  using assms(1,2,4)
proof (induction its arbitrary: pre acc)
  case (Cons x its)
  let ?f = "item_avps env le cs"
  let ?rest = "concat (map ?f its)"
  have x: "item_ok env n lo le cs x" using Cons.prems(1) by simp
  have off: "at_offsets (length pre) (concat (map ?f (x # its))) =
      at_offsets (length pre) (?f x) @ at_offsets (length (pre @ write_avps (?f x))) ?rest"
    using at_offsets_append [OF item_avps_fit [OF x]] by simp
  have "\<forall>h \<in> set (at_offsets (length (pre @ write_avps (?f x))) ?rest). \<not> takes (fst x) (q_avp (snd x)) h"
    using Cons.prems(2) set_at_offsets by (fastforce simp: list_all_iff)
  then have "item_toApp env n lt bs x (acc, at_offsets (length pre) (concat (map ?f (x # its)))) =
      returns (acc @ canon_item env ca cs x, at_offsets (length (pre @ write_avps (?f x))) ?rest)"
    unfolding off using Cons.prems(3) x assms(3)
    by (intro item_toApp_run [of env n lo le cs x lt ca _ _ pre "write_avps ?rest"]) (auto simp: write_avps_append)
  moreover have "steps (item_toApp env n lt bs) its
      (acc @ canon_item env ca cs x, at_offsets (length (pre @ write_avps (?f x))) ?rest) =
      returns ((acc @ canon_item env ca cs x) @ concat (map (canon_item env ca cs) its), [])"
    using Cons.prems by (intro Cons.IH) (auto simp: write_avps_append)
  ultimately show ?case by simp
qed simp

theorem list_toApp_inverts:
  "encodable env n g cs \<Longrightarrow> list_toApp env n g (list_bytes env n g cs) [] = returns (canon env n g cs)"
proof (induction n arbitrary: g cs)
  case (Suc n)
  let ?f = "item_avps env (list_bytes env n) cs"
  let ?all = "concat (map ?f (dict_items g))"
  have ok: "list_all (item_ok env (Suc n) (encodable env n) (list_bytes env n) cs) (dict_items g)" "unmixed ?f (dict_items g)"
    using Suc.prems by simp_all
  have "\<forall>(h, v) \<in> set ?all. avp_fits h v"
    using ok(1) item_avps_fit by (fastforce simp: list_all_iff)
  then have hs: "avp_headers 0 (write_avps ?all) = Some (Inr (at_offsets 0 ?all))"
    using avp_headers_write [of ?all "[]"] by simp
  have "steps (item_toApp env (Suc n) (list_toApp env n) (write_avps ?all)) (dict_items g) ([], at_offsets 0 ?all) =
      returns (concat (map (canon_item env (canon env n) cs) (dict_items g)), [])"
    using steps_items_run [OF ok, of "list_toApp env n" "canon env n" "write_avps ?all" "[]" "[]"] Suc.IH by simp
  then show ?case by (simp add: scan_avps_def hs)
qed simp

end
