(* ===== verification/Avp_Write.thy ===== *)
theory Avp_Write
  imports Avp_Codec
begin

text \<open>
  The writer of lists of AVPs implements the encoding of \<open>Avp_Codec\<close>: into a buffer with room for it, from a word
  boundary on, it writes exactly those bytes. A buffer that is shorter is left alone where it ends.
\<close>

subsection \<open>Writing with room\<close>

definition extend :: "wbuf \<Rightarrow> byte list \<Rightarrow> wbuf" where
  "extend b bs = b\<lparr>wb_out := wb_out b @ bs\<rparr>"

definition fits :: "byte list \<Rightarrow> wbuf \<Rightarrow> bool" where
  "fits bs b \<longleftrightarrow> 4 dvd length (wb_out b) \<and> length (wb_out b) + length bs \<le> wb_size b \<and> wb_size b < 2 ^ 24"

lemma extend_simps [simp]:
  "wb_size (extend b bs) = wb_size b" "wb_out (extend b bs) = wb_out b @ bs" "extend b [] = b"
  "extend (extend b bs) cs = extend b (bs @ cs)" "extend b bs = extend b cs \<longleftrightarrow> bs = cs"
  by (cases b; simp add: extend_def)+

lemma write_value_fits:
  "length (wb_out b) + length bs \<le> wb_size b \<Longrightarrow> write_value bs b = returns (extend b bs)"
  by (auto simp: write_value_def wb_room_def wb_put_def extend_def)

lemma steps_extend:
  assumes "\<And>x b. x \<in> set xs \<Longrightarrow> fits (F x) b \<Longrightarrow> f x b = returns (extend b (F x))"
    and "\<And>x. x \<in> set xs \<Longrightarrow> 4 dvd length (F x)"
    and "fits (concat (map F xs)) b"
  shows "steps f xs b = returns (extend b (concat (map F xs)))"
  using assms
proof (induction xs arbitrary: b)
  case (Cons x xs)
  then have "f x b = returns (extend b (F x))" by (auto simp: fits_def)
  moreover have "steps f xs (extend b (F x)) = returns (extend (extend b (F x)) (concat (map F xs)))"
    using Cons.prems by (intro Cons.IH) (auto simp: fits_def)
  ultimately show ?case by simp
qed simp

subsection \<open>The padding\<close>

lemma pad_len_dvd: "0 < n \<Longrightarrow> 4 dvd n + pad_len n"
proof -
  assume "0 < n"
  then have "n + pad_len n = ((n - 1) div 4 + 1) * 4" unfolding pad_len_def by presburger
  then show ?thesis by simp
qed

lemma padded_length:
  assumes "length (wb_out b) = m + n" "4 dvd m" "0 < n" "m + n < 2 ^ 24"
  shows "padded b = m + n + pad_len n"
proof -
  have "unat (of_nat (m + n) :: u32) = m + n" using assms(4) by (simp add: unat_of_nat del: of_nat_add)
  then have "padded b = ((m + n - 1) div 4 + 1) * 4"
    unfolding padded_def assms(1) using assms(3,4) by (subst adjust_word_boundary_unat) auto
  moreover obtain k where k: "m = 4 * k" using assms(2) by blast
  moreover have "m + n - 1 = (n - 1) + k * 4" using k assms(3) by simp
  then have "(m + n - 1) div 4 = (n - 1) div 4 + k" by (simp only: div_mult_self3)
  moreover have "n \<le> ((n - 1) div 4 + 1) * 4" by presburger
  ultimately show ?thesis unfolding pad_len_def by simp
qed

lemma write_avps_dvd: "\<forall>(h, v) \<in> set xs. avp_fits h v \<Longrightarrow> 4 dvd length (write_avps xs)"
proof (induction xs rule: write_avps.induct)
  case (2 h v avps)
  then have "avp_hdr_size h + length v = unat (a_length h)" "0 < unat (a_length h)"
    by (auto simp: avp_fits_def avp_hdr_size_def split: if_splits)
  then have "length (write_avps ((h, v) # avps)) =
      (unat (a_length h) + pad_len (unat (a_length h))) + length (write_avps avps)" by simp
  moreover have "4 dvd length (write_avps avps)" using 2 by simp
  ultimately show ?case using dvd_add pad_len_dvd [OF \<open>0 < unat (a_length h)\<close>] by metis
qed simp

subsection \<open>One AVP\<close>

lemma new_avp_hdr_size:
  "d_code d \<noteq> 0 \<Longrightarrow> length (write_avp_hdr ((new_avp_hdr d)\<lparr>a_length := l\<rparr>)) = dict_hdr_len d"
  "d_code d \<noteq> 0 \<Longrightarrow> length (write_avp_hdr (new_avp_hdr d)) = dict_hdr_len d"
  by (simp_all add: new_avp_hdr_def avp_hdr_size_def dict_hdr_len_def)

lemma avp_header_toRaw_fits:
  assumes "d_code d \<noteq> 0" "length (wb_out b) + dict_hdr_len d \<le> wb_size b"
  shows "avp_header_toRaw d (new_avp_hdr d) b = returns (extend b (write_avp_hdr (new_avp_hdr d)))"
  using assms new_avp_hdr_size(2) [OF assms(1)]
  by (auto simp: avp_header_toRaw_def wb_room_def wb_put_def extend_def)

lemma dict_hdr_len_pos: "d_code d \<noteq> 0 \<Longrightarrow> 8 \<le> dict_hdr_len d \<and> 4 dvd dict_hdr_len d"
  by (simp add: dict_hdr_len_def)

lemma finish_avp_fits:
  assumes "d_code d \<noteq> 0" "4 dvd length (wb_out b)" "length (wb_out b) + (dict_hdr_len d + length v) \<le> wb_size b"
    and "wb_size b < 2 ^ 24" "avp_fits (avp_hdr_for d (length v)) v"
  shows "finish_avp d (length (wb_out b)) (extend b (write_avp_hdr (new_avp_hdr d) @ v)) =
           returns (extend b (write_avps [(avp_hdr_for d (length v), v)]))"
proof -
  let ?b = "extend b (write_avp_hdr (new_avp_hdr d) @ v)" and ?h = "avp_hdr_for d (length v)"
  let ?n = "dict_hdr_len d + length v" and ?m = "length (wb_out b)"
  have l: "unat (a_length ?h) = ?n" "?n < 2 ^ 24"
    using assms(5) new_avp_hdr_size(1) [OF assms(1)] by (auto simp: avp_fits_def avp_hdr_for_def)
  have hl: "length (write_avp_hdr ?h) = dict_hdr_len d" "length (write_avp_hdr (new_avp_hdr d)) = dict_hdr_len d"
    using new_avp_hdr_size [OF assms(1)] by (simp_all add: avp_hdr_for_def)
  have wr: "length (wb_out ?b) = ?m + ?n" using hl by simp
  have len: "mask24 (of_nat (?m + ?n - ?m)) = (of_nat ?n :: u32)"
    using l(2) by (simp add: mask24_id word_less_nat_alt unat_of_nat del: of_nat_add)
  have u: "unat (of_nat ?n :: u32) = ?n" using l(2) by (simp add: unat_of_nat del: of_nat_add)
  note room = assms(2-4)
  have pad: "padded ?b = ?m + ?n + pad_len ?n"
    using room dict_hdr_len_pos [OF assms(1)] by (intro padded_length [OF wr]) auto
  have "(new_avp_hdr d)\<lparr>a_length := of_nat ?n\<rparr> = ?h" by (simp add: avp_hdr_for_def)
  then show ?thesis
    unfolding finish_avp_def Let_def wr len u
    using room hl l(1) pad
    by (auto simp: wb_room_def extend_def)
qed

lemma entry_toRaw_fits:
  assumes "entry_ok env lo le d e" "d_type d \<noteq> DATA_TYPE" "fits (write_avps [entry_avp env le d e]) b"
    and "\<And>g cs b. lo g cs \<Longrightarrow> fits (le g cs) b \<Longrightarrow> lr g cs b = returns (extend b (le g cs))"
  shows "entry_toRaw env n lr d e b = returns (extend b (write_avps [entry_avp env le d e]))"
proof -
  let ?v = "entry_bytes env le d e"
  have A: "entry_avp env le d e = (avp_hdr_for d (length ?v), ?v)"
    using assms(2) by (simp add: entry_avp_def Let_def)
  have ok: "avp_fits (avp_hdr_for d (length ?v)) ?v" "d_code d \<noteq> 0"
    using assms(1,2) A by (auto simp: entry_ok_def Let_def)
  have hl: "length (write_avp_hdr (avp_hdr_for d (length ?v))) = dict_hdr_len d"
    using new_avp_hdr_size [OF ok(2)] by (simp add: avp_hdr_for_def)
  let ?b1 = "extend b (write_avp_hdr (new_avp_hdr d))"
  have fits1: "fits ?v ?b1"
    using assms(3) hl new_avp_hdr_size(2) [OF ok(2)] dict_hdr_len_pos [OF ok(2)] A by (auto simp: fits_def)
  have hdr: "avp_header_toRaw d (new_avp_hdr d) b = returns ?b1"
    using assms(3) hl A by (intro avp_header_toRaw_fits [OF ok(2)]) (auto simp: fits_def)
  have val: "value_toRaw env n lr d e ?b1 = returns (extend ?b1 ?v)"
  proof (cases e)
    case (GroupEntry cs)
    with assms(1,2) obtain g where g: "d_type d = GROUPED_TYPE" "lo g cs"
      "search_group (te_groups env) (d_code d) (d_vendor d) = Some g"
      by (auto simp: entry_ok_def Let_def split: option.splits)
    with GroupEntry fits1 assms(4) show ?thesis
      by (simp add: value_toRaw_def Grouped_toRaw_def entry_bytes_def)
  qed (use assms(1,2) plain_toRaw [of env d e n lr ?b1] write_value_fits [of ?b1 "plain_bytes e"] fits1 in
    \<open>auto simp: entry_ok_def entry_bytes_def fits_def Let_def\<close>)
  show ?thesis
    using hdr val finish_avp_fits [OF ok(2) _ _ _ ok(1), of b] assms(3) A hl
    by (simp add: entry_toRaw_def fits_def)
qed

lemma any_toRaw_fits:
  assumes "entry_ok env lo le d e" "d_type d = DATA_TYPE" "fits (write_avps [entry_avp env le d e]) b"
  shows "any_toRaw env n lr d e b = returns (extend b (write_avps [entry_avp env le d e]))"
proof -
  obtain h v where A: "entry_avp env le d e = (h, v)" by (cases "entry_avp env le d e")
  have ok: "avp_fits h v" "e = StrEntry DATA_TYPE (str_of_bytes (write_avp_hdr h @ v))"
    using assms(1,2) A by (auto simp: entry_ok_def)
  let ?n = "unat (a_length h)" and ?b = "extend b (write_avp_hdr h @ v)"
  have l: "avp_hdr_size h + length v = ?n" "0 < ?n"
    using ok(1) by (auto simp: avp_fits_def avp_hdr_size_def split: if_splits)
  have room: "length (wb_out b) + ?n + pad_len ?n \<le> wb_size b" "4 dvd length (wb_out b)" "wb_size b < 2 ^ 24"
    using assms(3) A l(1) by (auto simp: fits_def)
  have wr: "length (wb_out ?b) = length (wb_out b) + ?n" using l(1) by simp
  have pad: "padded ?b = length (wb_out b) + ?n + pad_len ?n"
    using room l(2) by (intro padded_length [OF wr]) auto
  have "value_toRaw env n lr d e b = returns ?b"
    using assms(2) ok(2) room l(1) by (simp add: value_toRaw_def value_simps write_value_fits)
  moreover have "wb_pad ?b = extend b (write_avps [(h, v)])"
    unfolding wb_pad_def pad wr using l(1) by (simp add: extend_def)
  ultimately show ?thesis using pad room(1) A by (simp add: any_toRaw_def)
qed

subsection \<open>Lists of AVPs\<close>

lemma write_avps_concat: "concat (map (\<lambda>x. write_avps (f x)) xs) = write_avps (concat (map f xs))"
  by (induction xs) (auto simp: write_avps_append)

lemma entry_ok_type: "entry_ok env lo le d e \<Longrightarrow> avp_fits (fst (entry_avp env le d e)) (snd (entry_avp env le d e))"
  by (rule entry_ok_own(1))

lemma avp_toRaw_fits:
  assumes "\<And>e. e \<in> set es \<Longrightarrow> entry_ok env lo le d e" "fits (write_avps (map (entry_avp env le d) es)) b"
    and "\<And>g cs b. lo g cs \<Longrightarrow> fits (le g cs) b \<Longrightarrow> lr g cs b = returns (extend b (le g cs))"
  shows "avp_toRaw env n lr d es b = returns (extend b (write_avps (map (entry_avp env le d) es)))"
proof -
  let ?F = "\<lambda>e. write_avps [entry_avp env le d e]"
  have F: "concat (map ?F es) = write_avps (map (entry_avp env le d) es)"
    using write_avps_concat [of "\<lambda>e. [entry_avp env le d e]" es] by simp
  have dvd: "4 dvd length (?F e)" if "e \<in> set es" for e
    using entry_ok_own(1) [OF assms(1) [OF that]] by (intro write_avps_dvd) (auto split: prod.splits)
  show ?thesis
  proof (cases "d_type d = DATA_TYPE")
    case True
    then show ?thesis
      using steps_extend [of es ?F "any_toRaw env n lr d" b] any_toRaw_fits [OF assms(1) True] dvd assms(2) F
      by (simp add: avp_toRaw_def)
  next
    case False
    have "entry_toRaw env n lr d e b' = returns (extend b' (?F e))" if "e \<in> set es" "fits (?F e) b'" for e b'
      by (rule entry_toRaw_fits [OF assms(1) [OF that(1)] False that(2) assms(3)])
    with False show ?thesis
      using steps_extend [of es ?F "entry_toRaw env n lr d" b] dvd assms(2) F
      by (simp add: avp_toRaw_def)
  qed
qed

lemma item_toRaw_fits:
  assumes "item_ok env n lo le cs x" "fits (write_avps (item_avps env le cs x)) b"
    and "\<And>g cs b. lo g cs \<Longrightarrow> fits (le g cs) b \<Longrightarrow> lr g cs b = returns (extend b (le g cs))"
  shows "item_toRaw env n lr cs x b = returns (extend b (write_avps (item_avps env le cs x)))"
proof -
  obtain pt q where x: "x = (pt, q)" by (cases x)
  show ?thesis
  proof (cases "find_container cs (d_name (q_avp q))")
    case None
    with assms(1) x show ?thesis
      by (auto simp: item_ok_def item_toRaw_def item_avps_def item_entries_def Let_def)
  next
    case (Some es)
    then have es: "item_entries cs q = es" by (simp add: item_entries_def)
    have len: "q_max q \<noteq> 0" "q_min q \<le> length es" "length es \<le> q_max q"
      using assms(1) x Some by (auto simp: item_ok_def Let_def)
    have "avp_toRaw env n lr (q_avp q) es b = returns (extend b (write_avps (map (entry_avp env le (q_avp q)) es)))"
      using find_container_entries [OF assms(1)] assms(2,3) x es
      by (intro avp_toRaw_fits [of _ _ lo]) (auto simp: item_avps_def)
    with Some len es x show ?thesis by (auto simp: item_toRaw_def item_avps_def)
  qed
qed

theorem list_toRaw_writes:
  "encodable env n g cs \<Longrightarrow> fits (list_bytes env n g cs) b \<Longrightarrow>
     list_toRaw env n g cs b = returns (extend b (list_bytes env n g cs))"
proof (induction n arbitrary: g cs b)
  case (Suc n)
  let ?f = "item_avps env (list_bytes env n) cs"
  have ok: "item_ok env (Suc n) (encodable env n) (list_bytes env n) cs x" if "x \<in> set (dict_items g)" for x
    using Suc.prems(1) that by (simp add: list_all_iff)
  have c: "concat (map (\<lambda>x. write_avps (?f x)) (dict_items g)) = list_bytes env (Suc n) g cs"
    by (simp add: write_avps_concat)
  have "steps (item_toRaw env (Suc n) (list_toRaw env n) cs) (dict_items g) b =
      returns (extend b (concat (map (\<lambda>x. write_avps (?f x)) (dict_items g))))"
  proof (rule steps_extend)
    show "item_toRaw env (Suc n) (list_toRaw env n) cs x b' = returns (extend b' (write_avps (?f x)))"
      if "x \<in> set (dict_items g)" "fits (write_avps (?f x)) b'" for x b'
      using item_toRaw_fits [OF ok [OF that(1)] that(2)] Suc.IH by blast
    show "4 dvd length (write_avps (?f x))" if "x \<in> set (dict_items g)" for x
      using item_avps_fit [OF ok [OF that]] by (rule write_avps_dvd)
    show "fits (concat (map (\<lambda>x. write_avps (?f x)) (dict_items g))) b" using Suc.prems(2) c by simp
  qed
  then show ?case by (simp only: list_toRaw.simps c)
qed simp


subsection \<open>Witness\<close>

definition demo_avp :: "u32 \<Rightarrow> string \<Rightarrow> avp_type \<Rightarrow> avp_dict" where
  "demo_avp c nm t = \<lparr>d_code = c, d_vendor = 0, d_mand = True, d_vend = False, d_encr = False, d_name = nm, d_type = t\<rparr>"

definition demo_q :: "avp_dict \<Rightarrow> nat \<Rightarrow> nat \<Rightarrow> qualified_avp" where
  "demo_q d mn mx = \<lparr>q_avp = d, q_min = mn, q_max = mx\<rparr>"

definition demo_group :: dictionary where
  "demo_group = \<lparr>avp_f = [], avp_r = [demo_q (demo_avp 266 ''Vendor-Id'' UINTEGER32_TYPE) 1 1],
     avp_o = [demo_q (demo_avp 258 ''Auth-Application-Id'' UINTEGER32_TYPE) 0 1]\<rparr>"

definition demo_dictionary :: dictionary where
  "demo_dictionary = \<lparr>avp_f = [demo_q (demo_avp 263 ''Session-Id'' UTF8_STRING_TYPE) 1 1],
     avp_r = [demo_q (demo_avp 264 ''Origin-Host'' DIAMID_TYPE) 1 1],
     avp_o = [demo_q (demo_avp 260 ''Vendor-Specific-Application-Id'' GROUPED_TYPE) 0 65535,
              demo_q ((demo_avp 0 ''AVP'' DATA_TYPE)\<lparr>d_mand := False\<rparr>) 0 65535]\<rparr>"

definition demo_list_env :: avp_env where
  "demo_list_env = demo_avp_env\<lparr>te_groups := [((260, 0), demo_group)]\<rparr>"

definition demo_containers :: containers where
  "demo_containers =
     [(''Vendor-Specific-Application-Id'',
         [GroupEntry [(''Auth-Application-Id'', [Int32Entry UINTEGER32_TYPE 4]), (''Vendor-Id'', [Int32Entry UINTEGER32_TYPE 9])]]),
      (''Origin-Host'', [StrEntry DIAMID_TYPE ''a.b'']),
      (''Session-Id'', [StrEntry UTF8_STRING_TYPE ''s'']),
      (''AVP'', [StrEntry DATA_TYPE (str_of_bytes [0, 0, 1, 44, 0, 0, 0, 9, 7])])]"

lemma spirit_identity: "documented_spirit DiamidentGrammar ''a.b'' = (True, [])"
  by code_simp

lemmas demo_avp_defs = demo_dictionary_def demo_group_def demo_q_def demo_avp_def demo_containers_def dict_items_def

lemma demo_group_bytes:
  "list_bytes demo_list_env 1 demo_group
     [(''Auth-Application-Id'', [Int32Entry UINTEGER32_TYPE 4]), (''Vendor-Id'', [Int32Entry UINTEGER32_TYPE 9])] =
   [0, 0, 1, 10, 64, 0, 0, 12, 0, 0, 0, 9, 0, 0, 1, 2, 64, 0, 0, 12, 0, 0, 0, 4]"
  by (simp add: demo_avp_defs item_avps_def item_entries_def entry_avp_def entry_bytes_def plain_bytes_def avp_hdr_for_def
      new_avp_hdr_def dict_hdr_len_def write_avp_hdr_def bytes_of32_def byte_of_def avp_flag_byte_def mask24_def pad_len_def
      One_nat_def)

lemmas codec_defs = item_avps_def item_entries_def entry_avp_def entry_bytes_def plain_bytes_def avp_hdr_for_def
  new_avp_hdr_def dict_hdr_len_def write_avp_hdr_def bytes_of32_def byte_of_def avp_flag_byte_def mask24_def pad_len_def

lemma demo_group_encodable:
  "encodable demo_list_env 1 demo_group
     [(''Auth-Application-Id'', [Int32Entry UINTEGER32_TYPE 4]), (''Vendor-Id'', [Int32Entry UINTEGER32_TYPE 9])]"
  by (simp add: demo_avp_defs codec_defs item_ok_def entry_ok_def sized_def avp_fits_def avp_hdr_size_def plain_ok_def
      Integer32_types_def takes_def dict_match_def One_nat_def)

lemma demo_wildcard_avp:
  "entry_avp env le ((demo_avp 0 ''AVP'' DATA_TYPE)\<lparr>d_mand := False\<rparr>) (StrEntry DATA_TYPE (str_of_bytes [0, 0, 1, 44, 0, 0, 0, 9, 7])) =
     (\<lparr>a_code = 300, a_v = False, a_m = False, a_p = False, a_length = 9, a_vendor = 0, a_off = 0\<rparr>, [7])"
  by (simp add: entry_avp_def demo_avp_def avp_hdr_at_def read32_def be32_def mask24_def avp_hdr_size_def Let_def)

lemma demo_plain_avps:
  "entry_avp env le (demo_avp 263 nm UTF8_STRING_TYPE) (StrEntry UTF8_STRING_TYPE ''s'') =
     (\<lparr>a_code = 263, a_v = False, a_m = True, a_p = False, a_length = 9, a_vendor = 0, a_off = 0\<rparr>, [115])"
  "entry_avp env le (demo_avp 264 nm DIAMID_TYPE) (StrEntry DIAMID_TYPE ''a.b'') =
     (\<lparr>a_code = 264, a_v = False, a_m = True, a_p = False, a_length = 11, a_vendor = 0, a_off = 0\<rparr>, [97, 46, 98])"
  by (simp_all add: entry_avp_def demo_avp_def entry_bytes_def plain_bytes_def avp_hdr_for_def new_avp_hdr_def
      dict_hdr_len_def bytes_of_str_def byte_of_char_def)

lemma demo_group_avp:
  "entry_avp demo_list_env (list_bytes demo_list_env 1) (demo_avp 260 nm GROUPED_TYPE)
     (GroupEntry [(''Auth-Application-Id'', [Int32Entry UINTEGER32_TYPE 4]), (''Vendor-Id'', [Int32Entry UINTEGER32_TYPE 9])]) =
     (\<lparr>a_code = 260, a_v = False, a_m = True, a_p = False, a_length = 32, a_vendor = 0, a_off = 0\<rparr>,
      [0, 0, 1, 10, 64, 0, 0, 12, 0, 0, 0, 9, 0, 0, 1, 2, 64, 0, 0, 12, 0, 0, 0, 4])"
proof -
  have "search_group (te_groups demo_list_env) 260 0 = Some demo_group" by (simp add: demo_list_env_def)
  then show ?thesis
    by (simp add: entry_avp_def demo_avp_def entry_bytes_def demo_group_bytes avp_hdr_for_def new_avp_hdr_def
        dict_hdr_len_def del: One_nat_def list_bytes.simps)
qed

definition demo_block :: "nat \<Rightarrow> (avp_hdr \<times> byte list) list" where
  "demo_block i = item_avps demo_list_env (list_bytes demo_list_env 1) demo_containers (dict_items demo_dictionary ! i)"

lemma demo_avp_simps [simp]:
  "d_name (demo_avp c nm t) = nm" "d_type (demo_avp c nm t) = t" "d_code (demo_avp c nm t) = c"
  "d_vendor (demo_avp c nm t) = 0"
  by (simp_all add: demo_avp_def)

lemma demo_blocks:
  "demo_block 0 = [(\<lparr>a_code = 263, a_v = False, a_m = True, a_p = False, a_length = 9, a_vendor = 0, a_off = 0\<rparr>, [115])]"
  "demo_block (Suc 0) =
     [(\<lparr>a_code = 264, a_v = False, a_m = True, a_p = False, a_length = 11, a_vendor = 0, a_off = 0\<rparr>, [97, 46, 98])]"
  "demo_block 2 = [(\<lparr>a_code = 260, a_v = False, a_m = True, a_p = False, a_length = 32, a_vendor = 0, a_off = 0\<rparr>,
      [0, 0, 1, 10, 64, 0, 0, 12, 0, 0, 0, 9, 0, 0, 1, 2, 64, 0, 0, 12, 0, 0, 0, 4])]"
  "demo_block 3 = [(\<lparr>a_code = 300, a_v = False, a_m = False, a_p = False, a_length = 9, a_vendor = 0, a_off = 0\<rparr>, [7])]"
  by (simp_all add: demo_block_def item_avps_def item_entries_def dict_items_def demo_dictionary_def demo_q_def
      demo_containers_def demo_plain_avps demo_wildcard_avp demo_group_avp del: list_bytes.simps One_nat_def)

lemma demo_items: "dict_items demo_dictionary = map ((!) (dict_items demo_dictionary)) [0, 1, 2, 3]"
  by (simp add: dict_items_def demo_dictionary_def)

lemma demo_all_blocks:
  "map (item_avps demo_list_env (list_bytes demo_list_env 1) demo_containers) (dict_items demo_dictionary) =
     map demo_block [0, 1, 2, 3]"
  by (subst demo_items) (simp add: demo_block_def del: list_bytes.simps One_nat_def)

lemma replicate_3: "replicate 3 x = [x, x, x]"
  by (simp add: numeral_3_eq_3)

lemma demo_list_bytes:
  "list_bytes demo_list_env (Suc 1) demo_dictionary demo_containers =
    [0, 0, 1, 7, 64, 0, 0, 9, 115, 0, 0, 0, 0, 0, 1, 8, 64, 0, 0, 11, 97, 46, 98, 0, 0, 0, 1, 4, 64, 0, 0, 32,
     0, 0, 1, 10, 64, 0, 0, 12, 0, 0, 0, 9, 0, 0, 1, 2, 64, 0, 0, 12, 0, 0, 0, 4, 0, 0, 1, 44, 0, 0, 0, 9, 7, 0, 0, 0]"
  by (subst list_bytes.simps, subst demo_all_blocks)
    (simp add: demo_blocks write_avp_hdr_def bytes_of32_def byte_of_def avp_flag_byte_def mask24_def pad_len_def
      replicate_3 del: list_bytes.simps)

lemma demo_ascii: "ascii (bytes_of_str ''s'')" "ascii (bytes_of_str ''a.b'')"
  by (simp_all add: ascii_def bytes_of_str_def byte_of_char_def)

lemma demo_wildcard_hdr:
  "write_avp_hdr \<lparr>a_code = 300, a_v = False, a_m = False, a_p = False, a_length = 9, a_vendor = 0, a_off = 0\<rparr> =
     [0, 0, 1, 44, 0, 0, 0, 9]"
  by (simp add: write_avp_hdr_def bytes_of32_def byte_of_def avp_flag_byte_def mask24_def)

lemma demo_entries_ok:
  "entry_ok demo_list_env (encodable demo_list_env 1) (list_bytes demo_list_env 1) (demo_avp 263 nm UTF8_STRING_TYPE)
     (StrEntry UTF8_STRING_TYPE ''s'')"
  "entry_ok demo_list_env (encodable demo_list_env 1) (list_bytes demo_list_env 1) (demo_avp 264 nm DIAMID_TYPE)
     (StrEntry DIAMID_TYPE ''a.b'')"
  "entry_ok demo_list_env (encodable demo_list_env 1) (list_bytes demo_list_env 1) (demo_avp 260 nm GROUPED_TYPE)
     (GroupEntry [(''Auth-Application-Id'', [Int32Entry UINTEGER32_TYPE 4]), (''Vendor-Id'', [Int32Entry UINTEGER32_TYPE 9])])"
  "entry_ok demo_list_env (encodable demo_list_env 1) (list_bytes demo_list_env 1) ((demo_avp 0 ''AVP'' DATA_TYPE)\<lparr>d_mand := False\<rparr>)
     (StrEntry DATA_TYPE (str_of_bytes [0, 0, 1, 44, 0, 0, 0, 9, 7]))"
proof -
  have g: "search_group (te_groups demo_list_env) 260 0 = Some demo_group" by (simp add: demo_list_env_def)
  have s: "te_spirit demo_list_env = documented_spirit" by (simp add: demo_list_env_def demo_avp_env_def)
  show "entry_ok demo_list_env (encodable demo_list_env 1) (list_bytes demo_list_env 1) (demo_avp 263 nm UTF8_STRING_TYPE)
     (StrEntry UTF8_STRING_TYPE ''s'')"
    by (simp add: entry_ok_def demo_plain_avps avp_fits_def avp_hdr_size_def plain_ok_def demo_ascii
        del: list_bytes.simps encodable.simps One_nat_def)
  show "entry_ok demo_list_env (encodable demo_list_env 1) (list_bytes demo_list_env 1) (demo_avp 264 nm DIAMID_TYPE)
     (StrEntry DIAMID_TYPE ''a.b'')"
    by (simp add: entry_ok_def demo_plain_avps avp_fits_def avp_hdr_size_def plain_ok_def demo_ascii s spirit_identity del: list_bytes.simps encodable.simps One_nat_def)
  show "entry_ok demo_list_env (encodable demo_list_env 1) (list_bytes demo_list_env 1) (demo_avp 260 nm GROUPED_TYPE)
     (GroupEntry [(''Auth-Application-Id'', [Int32Entry UINTEGER32_TYPE 4]), (''Vendor-Id'', [Int32Entry UINTEGER32_TYPE 9])])"
    using demo_group_encodable
    by (simp add: entry_ok_def demo_group_avp avp_fits_def avp_hdr_size_def g del: list_bytes.simps encodable.simps One_nat_def)
  show "entry_ok demo_list_env (encodable demo_list_env 1) (list_bytes demo_list_env 1) ((demo_avp 0 ''AVP'' DATA_TYPE)\<lparr>d_mand := False\<rparr>)
     (StrEntry DATA_TYPE (str_of_bytes [0, 0, 1, 44, 0, 0, 0, 9, 7]))"
    by (simp add: entry_ok_def demo_wildcard_avp avp_fits_def avp_hdr_size_def demo_wildcard_hdr
        del: list_bytes.simps encodable.simps One_nat_def bytes_of_str_append)
qed

lemma demo_sized:
  "sized demo_list_env (Suc (Suc 0)) (demo_avp 263 nm UTF8_STRING_TYPE)"
  "sized demo_list_env (Suc (Suc 0)) (demo_avp 264 nm DIAMID_TYPE)"
  "sized demo_list_env (Suc (Suc 0)) (demo_avp 260 nm GROUPED_TYPE)"
  "sized demo_list_env (Suc (Suc 0)) ((demo_avp 0 nm DATA_TYPE)\<lparr>d_mand := False\<rparr>)"
  by (simp_all add: sized_def demo_list_env_def Let_def sum_sizes_def demo_group_def demo_q_def)

lemma demo_items_ok:
  "list_all (item_ok demo_list_env (Suc 1) (encodable demo_list_env 1) (list_bytes demo_list_env 1) demo_containers)
     (dict_items demo_dictionary)"
  using demo_entries_ok
  by (simp add: dict_items_def demo_dictionary_def demo_q_def item_ok_def demo_sized demo_containers_def
      del: list_bytes.simps encodable.simps)

lemma demo_nth:
  "fst (dict_items demo_dictionary ! 0) = TYPE_FIXED_HEAD" "fst (dict_items demo_dictionary ! Suc 0) = TYPE_REQUIRED"
  "fst (dict_items demo_dictionary ! 2) = TYPE_OPTIONAL"
  "q_avp (snd (dict_items demo_dictionary ! 0)) = demo_avp 263 AVPNAME_SESSIONID UTF8_STRING_TYPE"
  "q_avp (snd (dict_items demo_dictionary ! Suc 0)) = demo_avp 264 AVPNAME_ORIGINHOST DIAMID_TYPE"
  "q_avp (snd (dict_items demo_dictionary ! 2)) = demo_avp 260 AVPNAME_VENDORAPPID GROUPED_TYPE"
  by (simp_all add: dict_items_def demo_dictionary_def demo_q_def)

lemma demo_unmixed:
  "unmixed (item_avps demo_list_env (list_bytes demo_list_env 1) demo_containers) (dict_items demo_dictionary)"
  by (subst demo_items)
    (simp add: demo_block_def [symmetric] demo_blocks demo_nth takes_def dict_match_def del: list_bytes.simps One_nat_def,
     simp add: demo_blocks demo_nth takes_def dict_match_def)

lemma demo_encodable: "encodable demo_list_env (Suc 1) demo_dictionary demo_containers"
  unfolding encodable.simps using demo_items_ok demo_unmixed by blast

lemma demo_canon:
  "canon demo_list_env (Suc 1) demo_dictionary demo_containers =
     [(''Session-Id'', [StrEntry UTF8_STRING_TYPE ''s'']),
      (''Origin-Host'', [StrEntry DIAMID_TYPE ''a.b'']),
      (''Vendor-Specific-Application-Id'',
         [GroupEntry [(''Vendor-Id'', [Int32Entry UINTEGER32_TYPE 9]), (''Auth-Application-Id'', [Int32Entry UINTEGER32_TYPE 4])]]),
      (''AVP'', [StrEntry DATA_TYPE (str_of_bytes [0, 0, 1, 44, 0, 0, 0, 9, 7])])]"
  by (simp add: demo_avp_defs canon_item_def item_entries_def canon_entry_def demo_list_env_def)

definition demo_wbuf :: wbuf where
  "demo_wbuf = \<lparr>wb_size = 100, wb_out = replicate 20 0\<rparr>"


end
