(* ===== verification/Avp_Props.thy ===== *)
theory Avp_Props
  imports Avp_Write
begin

text \<open>
  Properties of the parser of AVP lists over all inputs: what it lets through has the shape the dictionary asks for,
  and which malformed groups it drops without a word.
\<close>

subsection \<open>What is read conforms to the dictionary\<close>

definition entry_typed :: "avp_env \<Rightarrow> (dictionary \<Rightarrow> containers \<Rightarrow> bool) \<Rightarrow> avp_dict \<Rightarrow> avp_entry \<Rightarrow> bool" where
  "entry_typed env lo d e \<longleftrightarrow> dataType e = d_type d \<and>
     (case e of
        Int32Entry t w \<Rightarrow> t \<in> set Integer32_types
      | Int64Entry t w \<Rightarrow> t \<in> set Integer64_types
      | StrEntry t s \<Rightarrow> t \<in> {DATA_TYPE, STRING_TYPE} \<or>
          ascii (bytes_of_str s) \<and> (t = UTF8_STRING_TYPE \<or> t = DIAMID_TYPE \<and> fst (te_spirit env DiamidentGrammar s))
      | GroupEntry cs \<Rightarrow>
          (case search_group (te_groups env) (d_code d) (d_vendor d) of None \<Rightarrow> False | Some g \<Rightarrow> lo g cs)
      | _ \<Rightarrow> True)"

text \<open>Every container is one the dictionary names, with as many entries as it allows, at least one, of its type; and
  the AVPs it requires are there.\<close>

definition container_typed ::
  "avp_env \<Rightarrow> (dictionary \<Rightarrow> containers \<Rightarrow> bool) \<Rightarrow> dictionary \<Rightarrow> string \<times> avp_entry list \<Rightarrow> bool" where
  "container_typed env lo g c \<longleftrightarrow>
     list_ex (\<lambda>(pt, q). fst c = d_name (q_avp q) \<and> snd c \<noteq> [] \<and> q_min q \<le> length (snd c) \<and> length (snd c) \<le> q_max q \<and>
                list_all (entry_typed env lo (q_avp q)) (snd c)) (dict_items g)"

definition has_required :: "dictionary \<Rightarrow> containers \<Rightarrow> bool" where
  "has_required g cs \<longleftrightarrow>
     list_all (\<lambda>(pt, q). pt \<noteq> TYPE_OPTIONAL \<and> 0 < q_min q \<longrightarrow> d_name (q_avp q) \<in> set (map fst cs)) (dict_items g)"

fun conforms :: "avp_env \<Rightarrow> nat \<Rightarrow> dictionary \<Rightarrow> containers \<Rightarrow> bool" where
  "conforms env 0 g cs \<longleftrightarrow> False"
| "conforms env (Suc n) g cs \<longleftrightarrow> list_all (container_typed env (conforms env n) g) cs \<and> has_required g cs"

lemma seq_returns: "seq r f = returns s \<longleftrightarrow> (\<exists>t. r = returns t \<and> f t = returns s)"
  by (auto simp: parsed_defs split: option.splits prod.splits)

lemma fails_with_not_returns [simp]: "fails_with env n s code d \<noteq> returns t"
  by (auto simp: fails_with_def throws_avp_def split: option.splits sum.splits)

lemma prohibited_not_returns [simp]: "prohibited s \<noteq> returns t"
  by (simp add: prohibited_def)

lemma map_option_returns: "map_option (\<lambda>(s, x). (g s, x)) r = returns t \<longleftrightarrow> (\<exists>s. r = returns s \<and> t = g s)"
  by (auto simp: returns_def)

lemma via_string_returns: "via_string r e f = returns t \<longleftrightarrow> (\<exists>e2. r = returns e2 \<and> f (entry_str e2) = returns t)"
  by (auto simp: via_string_def parsed_defs split: option.splits prod.splits)

lemma value_toApp_typed:
  assumes "value_toApp env n lt d bs e0 = returns e" "acquire env (d_type d) = Some e0"
    and "\<And>g bs cs. lt g bs [] = returns cs \<Longrightarrow> lo g cs"
  shows "entry_typed env lo d e"
proof (cases "d_type d")
  case GROUPED_TYPE
  with assms(2) have "e0 = GroupEntry []" by simp
  with GROUPED_TYPE assms(1,3) show ?thesis
    by (auto simp: value_toApp_def Grouped_toApp_def entry_typed_def map_option_returns split: option.splits)
qed (use assms in \<open>auto simp: value_toApp_def value_simps entry_typed_def seq_returns map_option_returns
      via_string_returns split: if_splits prod.splits\<close>)

lemma avp_toApp_typed:
  "(\<forall>g bs cs. lt g bs [] = returns cs \<longrightarrow> lo g cs) \<Longrightarrow> avp_toApp env n lt bs pt d found acc ahl = returns (es, ahl') \<Longrightarrow>
     \<exists>es'. es = acc @ es' \<and> (\<forall>e \<in> set es'. entry_typed env lo d e) \<and> (found \<or> es' \<noteq> [])"
proof (induction env n lt bs pt d found acc ahl rule: avp_toApp.induct)
  case (1 env n lt bs pt d found acc ahl)
  show ?case
  proof (cases "avp_header_parseRawToApp pt d ahl")
    case (Pair r ahl1)
    show ?thesis
    proof (cases r)
      case (Inl x)
      with Pair "1.prems"(2) show ?thesis
        by (cases x) (auto simp: avp_toApp.simps [of env n lt bs pt d found acc ahl] no_more_def Let_def split: if_splits)
    next
      case (Inr h)
      with Pair "1.prems"(2) obtain e0 v e where e: "acquire env (d_type d) = Some e0" "value_bytes d h bs = Some v"
        "value_toApp env n lt d v e0 = returns e" "avp_toApp env n lt bs pt d True (acc @ [e]) ahl1 = returns (es, ahl')"
        by (auto simp: avp_toApp.simps [of env n lt bs pt d found acc ahl] returns_def throws_def
            split: option.splits prod.splits)
      from e(4) obtain es' where "es = (acc @ [e]) @ es'" "\<forall>e \<in> set es'. entry_typed env lo d e"
        using "1.IH" [OF Pair [symmetric] Inr, of "Some e0" "Some v" e0 v "(e, None)" e None] e(1-3) "1.prems"(1)
        by (auto simp: returns_def)
      moreover have "entry_typed env lo d e" using value_toApp_typed [OF e(3,1)] "1.prems"(1) by blast
      ultimately show ?thesis by auto
    qed
  qed
qed

lemma item_toApp_typed:
  assumes "\<forall>g bs cs. lt g bs [] = returns cs \<longrightarrow> lo g cs" "item_toApp env n lt bs (pt, q) (cs, ahl) = returns (cs', ahl')"
  shows "cs' = cs \<and> (pt = TYPE_OPTIONAL \<or> q_min q = 0) \<or>
    (\<exists>es. cs' = cs @ [(d_name (q_avp q), es)] \<and> es \<noteq> [] \<and> q_min q \<le> length es \<and> length es \<le> q_max q \<and>
       list_all (entry_typed env lo (q_avp q)) es)"
proof (cases "avp_toApp env n lt bs pt (q_avp q) False [] ahl")
  case (Some r)
  obtain es ahl1 x where r: "r = ((es, ahl1), x)" by (cases r) auto
  show ?thesis
  proof (cases x)
    case None
    with Some r have "avp_toApp env n lt bs pt (q_avp q) False [] ahl = returns (es, ahl1)" by (simp add: returns_def)
    from avp_toApp_typed [OF assms(1) this] have "\<forall>e \<in> set es. entry_typed env lo (q_avp q) e" "es \<noteq> []" by auto
    with assms(2) Some r None show ?thesis
      by (auto simp: item_toApp_def Let_def list_all_iff split: if_splits)
  qed (use assms(2) Some r in \<open>auto simp: item_toApp_def Let_def split: if_splits\<close>)
qed (use assms(2) in \<open>simp add: item_toApp_def\<close>)

lemma steps_items_typed:
  assumes "\<forall>g bs cs. lt g bs [] = returns cs \<longrightarrow> lo g cs"
  shows "set its \<subseteq> set (dict_items g) \<Longrightarrow> steps (item_toApp env n lt bs) its (cs, ahl) = returns (cs', ahl') \<Longrightarrow>
    list_all (container_typed env lo g) cs \<Longrightarrow>
    list_all (container_typed env lo g) cs' \<and> set (map fst cs) \<subseteq> set (map fst cs') \<and>
    (\<forall>(pt, q) \<in> set its. pt \<noteq> TYPE_OPTIONAL \<and> 0 < q_min q \<longrightarrow> d_name (q_avp q) \<in> set (map fst cs'))"
proof (induction its arbitrary: cs ahl)
  case (Cons x its)
  obtain pt q where x: "x = (pt, q)" by (cases x)
  from Cons.prems(2) x obtain c1 a1 where s: "item_toApp env n lt bs (pt, q) (cs, ahl) = returns (c1, a1)"
    "steps (item_toApp env n lt bs) its (c1, a1) = returns (cs', ahl')"
    by (auto simp: seq_returns)
  have q: "(pt, q) \<in> set (dict_items g)" using Cons.prems(1) x by simp
  have new: "container_typed env lo g (d_name (q_avp q), es)"
    if "es \<noteq> []" "q_min q \<le> length es" "length es \<le> q_max q" "list_all (entry_typed env lo (q_avp q)) es" for es
    using that q by (auto simp: container_typed_def list_ex_iff intro!: bexI [of _ "(pt, q)"])
  from item_toApp_typed [OF assms s(1)] have c1: "list_all (container_typed env lo g) c1"
    "set (map fst cs) \<subseteq> set (map fst c1)" "pt \<noteq> TYPE_OPTIONAL \<and> 0 < q_min q \<longrightarrow> d_name (q_avp q) \<in> set (map fst c1)"
    using Cons.prems(3) new by auto
  have "set its \<subseteq> set (dict_items g)" using Cons.prems(1) by simp
  note IH = Cons.IH [OF this s(2) c1(1)]
  have "set (map fst cs) \<subseteq> set (map fst cs')" using c1(2) IH by (meson subset_trans)
  moreover have "pt \<noteq> TYPE_OPTIONAL \<and> 0 < q_min q \<longrightarrow> d_name (q_avp q) \<in> set (map fst cs')"
    using c1(3) IH by (meson subsetD)
  ultimately show ?case using IH x by simp
qed simp

text \<open>C5: whatever bytes come in, a list of AVPs that is parsed without an error conforms to its dictionary: every container
  is named by the dictionary, has between the least and the greatest number of entries, each of the dictionary's type (a
  string that has to be one is UTF-8, an identity has the form of one, a group conforms to its own definition), and no AVP
  that is required is missing.\<close>

theorem parsed_conforms:
  "list_toApp env n g bs [] = returns cs \<Longrightarrow> conforms env n g cs"
proof (induction n arbitrary: g bs cs)
  case (Suc n)
  from Suc.prems obtain ahl rest where
    "steps (item_toApp env (Suc n) (list_toApp env n) bs) (dict_items g) ([], ahl) = returns (cs, rest)"
    by (auto simp: scan_avps_def returns_def throws_def split: option.splits sum.splits)
  from steps_items_typed [OF _ subset_refl this, of "conforms env n"] Suc.IH show ?case
    by (auto simp: has_required_def list_all_iff)
qed simp

theorem parsed_conforms_witness:
  "conforms demo_list_env (Suc 1) demo_dictionary (canon demo_list_env (Suc 1) demo_dictionary demo_containers)"
  by (rule parsed_conforms [OF list_toApp_inverts [OF demo_encodable]])

subsection \<open>A malformed group that is dropped\<close>

text \<open>C40: when an optional group arrives without an AVP that its definition requires, nobody is told: the error of the
  missing member is taken for the absence of the group, the message is accepted without the group, and its bytes are gone.\<close>

theorem malformed_group_dropped:
  assumes "d_type (q_avp q) = GROUPED_TYPE" "search_group (te_groups env) (d_code (q_avp q)) (d_vendor (q_avp q)) = Some g"
    and "avp_header_parseRawToApp TYPE_OPTIONAL (q_avp q) ahl = (Inr h, ahl')" "value_bytes (q_avp q) h bs = Some v"
    and "list_toApp env n g v [] = throws part (NormalError AAA_MISSING_AVP)"
  shows "item_toApp env n' (list_toApp env n) bs (TYPE_OPTIONAL, q) (cs, ahl) = returns (cs, ahl')"
proof -
  have "value_toApp env n' (list_toApp env n) (q_avp q) v (GroupEntry []) =
      throws (GroupEntry part) (NormalError AAA_MISSING_AVP)"
    using assms(1,2,5) by (simp add: value_toApp_def Grouped_toApp_def)
  then have "avp_toApp env n' (list_toApp env n) bs TYPE_OPTIONAL (q_avp q) False [] ahl =
      throws ([GroupEntry part], ahl') (NormalError AAA_MISSING_AVP)"
    using assms(1,3,4) by (simp add: avp_toApp.simps throws_def)
  then show ?thesis by (simp add: item_toApp_def throws_def)
qed

theorem malformed_group_dropped_witness:
  "item_toApp demo_list_env (Suc 1) (list_toApp demo_list_env 1) [0, 0, 1, 4, 64, 0, 0, 8]
     (TYPE_OPTIONAL, demo_q (demo_avp 260 ''Vendor-Specific-Application-Id'' GROUPED_TYPE) 0 1)
     ([], [\<lparr>a_code = 260, a_v = False, a_m = True, a_p = False, a_length = 8, a_vendor = 0, a_off = 0\<rparr>]) = returns ([], [])"
proof (rule malformed_group_dropped [where g = demo_group and v = "[]" and part = "[]"
      and h = "\<lparr>a_code = 260, a_v = False, a_m = True, a_p = False, a_length = 8, a_vendor = 0, a_off = 8\<rparr>"])
  show "list_toApp demo_list_env 1 demo_group [] [] = throws [] (NormalError AAA_MISSING_AVP)"
    by (simp add: scan_avps_def avp_headers.simps demo_avp_defs item_toApp_def avp_toApp.simps avp_header_parseRawToApp_def
        no_more_def fails_with_def throws_avp_def Let_def throws_def seq_def)
qed (simp_all add: demo_q_def demo_list_env_def avp_header_parseRawToApp_def dict_match_def demo_avp_def checkFlags_def
    dict_hdr_len_def value_bytes_def)

subsection \<open>The writer stays in its buffer\<close>

text \<open>What the writer can handle without leaving the program: groups of bounded depth, and no filter rule whose numbers
  do not fit the arrays they are printed into.\<close>

definition entry_writable :: "avp_env \<Rightarrow> (dictionary \<Rightarrow> containers \<Rightarrow> bool) \<Rightarrow> avp_dict \<Rightarrow> avp_entry \<Rightarrow> bool" where
  "entry_writable env lo d e \<longleftrightarrow>
     (case e of
        FilterEntry r \<Rightarrow> filter_text r \<noteq> None
      | GroupEntry cs \<Rightarrow>
          (case search_group (te_groups env) (d_code d) (d_vendor d) of None \<Rightarrow> True | Some g \<Rightarrow> lo g cs)
      | _ \<Rightarrow> True)"

fun writable :: "avp_env \<Rightarrow> nat \<Rightarrow> dictionary \<Rightarrow> containers \<Rightarrow> bool" where
  "writable env 0 g cs \<longleftrightarrow> False"
| "writable env (Suc n) g cs \<longleftrightarrow>
     list_all (\<lambda>(pt, q). getMinSize (te_groups env) (Suc n) (q_avp q) \<noteq> None \<and>
         (d_code (q_avp q) = 0 \<longrightarrow> d_type (q_avp q) = DATA_TYPE) \<and>
         list_all (entry_writable env (writable env n) (q_avp q)) (item_entries cs q)) (dict_items g)"

text \<open>A run that ends with the buffer's size as it was, within it, and at least \<open>m\<close> bytes written if it returns.\<close>

definition contained :: "nat \<Rightarrow> nat \<Rightarrow> wbuf parsed \<Rightarrow> bool" where
  "contained sz m r \<longleftrightarrow>
     (\<exists>b x. r = Some (b, x) \<and> wb_size b = sz \<and> length (wb_out b) \<le> sz \<and> (x = None \<longrightarrow> m \<le> length (wb_out b)))"

lemma contained_simps [simp]:
  "contained sz m (returns b) \<longleftrightarrow> wb_size b = sz \<and> length (wb_out b) \<le> sz \<and> m \<le> length (wb_out b)"
  "contained sz m (throws b e) \<longleftrightarrow> wb_size b = sz \<and> length (wb_out b) \<le> sz"
  "contained sz m (prohibited b) \<longleftrightarrow> wb_size b = sz \<and> length (wb_out b) \<le> sz"
  "\<not> contained sz m None"
  by (auto simp: contained_def parsed_defs)

lemma contained_seq:
  assumes "contained sz m r"
    and "\<And>b. r = returns b \<Longrightarrow> wb_size b = sz \<Longrightarrow> length (wb_out b) \<le> sz \<Longrightarrow> m \<le> length (wb_out b) \<Longrightarrow> contained sz m' (f b)"
  shows "contained sz m' (seq r f)"
proof -
  from assms(1) obtain b x where r: "r = Some (b, x)" "wb_size b = sz" "length (wb_out b) \<le> sz"
    "x = None \<longrightarrow> m \<le> length (wb_out b)" by (auto simp: contained_def)
  show ?thesis
  proof (cases x)
    case None
    with r have rb: "r = returns b" by (simp add: returns_def)
    have "contained sz m' (f b)" using assms(2) [OF rb] r None by simp
    then show ?thesis unfolding rb by simp
  next
    case (Some e)
    with r have rb: "r = throws b e" by (simp add: throws_def)
    show ?thesis unfolding rb using r(2,3) by simp
  qed
qed

lemma contained_steps:
  assumes "\<And>x b. x \<in> set xs \<Longrightarrow> wb_size b = sz \<Longrightarrow> length (wb_out b) \<le> sz \<Longrightarrow> contained sz (length (wb_out b)) (f x b)"
  shows "wb_size b = sz \<Longrightarrow> length (wb_out b) \<le> sz \<Longrightarrow> m \<le> length (wb_out b) \<Longrightarrow> contained sz m (steps f xs b)"
  using assms
proof (induction xs arbitrary: b)
  case (Cons x xs)
  show ?case unfolding steps.simps
  proof (rule contained_seq)
    show "contained sz (length (wb_out b)) (f x b)" using Cons.prems by simp
    show "contained sz m (steps f xs b')"
      if "wb_size b' = sz" "length (wb_out b') \<le> sz" "length (wb_out b) \<le> length (wb_out b')" for b'
      using that Cons.prems by (intro Cons.IH) auto
  qed
qed simp

lemma write_value_contained:
  "wb_size b = sz \<Longrightarrow> length (wb_out b) \<le> sz \<Longrightarrow> contained sz (length (wb_out b)) (write_value bs b)"
  by (auto simp: write_value_def wb_room_def wb_put_def)

lemma fails_with_contained:
  "getMinSize (te_groups env) n d \<noteq> None \<Longrightarrow> wb_size b = sz \<Longrightarrow> length (wb_out b) \<le> sz \<Longrightarrow>
     contained sz m (fails_with env n b code d)"
  by (auto simp: fails_with_def throws_avp_def split: option.splits sum.splits)

lemma value_toRaw_contained:
  assumes "entry_writable env lo d e" "getMinSize (te_groups env) n d \<noteq> None" "wb_size b = sz" "length (wb_out b) \<le> sz"
    and "\<And>g cs. lo g cs \<Longrightarrow> contained sz (length (wb_out b)) (lr g cs b)"
  shows "contained sz (length (wb_out b)) (value_toRaw env n lr d e b)"
proof -
  have w: "contained sz (length (wb_out b)) (write_value bs b)" for bs
    by (rule write_value_contained [OF assms(3,4)])
  have f: "contained sz (length (wb_out b)) (fails_with env n b code d)" for code
    by (rule fails_with_contained [OF assms(2-4)])
  show ?thesis
  proof (cases "d_type d")
    case GROUPED_TYPE
    with assms(1,3,4,5) f show ?thesis
      by (cases e) (auto simp: value_toRaw_def Grouped_toRaw_def entry_writable_def split: option.splits)
  next
    case IPFILTER_RULE_TYPE
    with assms(1,3,4) f w show ?thesis
      by (cases e) (auto simp: value_toRaw_def value_simps entry_writable_def)
  qed (use assms(3,4) f w in \<open>auto simp: value_toRaw_def value_simps split: avp_entry.splits\<close>)
qed

lemma header_contained:
  assumes "d_code d \<noteq> 0" "wb_size b = sz" "length (wb_out b) \<le> sz"
  shows "contained sz (length (wb_out b) + dict_hdr_len d) (avp_header_toRaw d (new_avp_hdr d) b)"
  using assms new_avp_hdr_size(2) [OF assms(1)] by (auto simp: avp_header_toRaw_def wb_room_def wb_put_def)

lemma adjust_0: "adjust_word_boundary 0 = 0"
  by code_simp

lemma padded_bounds:
  assumes "length (wb_out b) \<le> sz" "4 dvd sz" "sz < 2 ^ 24"
  shows "length (wb_out b) \<le> padded b" "padded b \<le> sz"
proof -
  let ?n = "length (wb_out b)"
  have u: "unat (of_nat ?n :: u32) = ?n" using assms(1,3) by (simp add: unat_of_nat)
  have "?n \<le> padded b \<and> padded b \<le> sz"
  proof (cases "?n = 0")
    case True
    then show ?thesis by (simp add: padded_def adjust_0)
  next
    case False
    then have p: "padded b = ((?n - 1) div 4 + 1) * 4"
      using u assms(1,3) unfolding padded_def by (subst adjust_word_boundary_unat) auto
    obtain k where k: "sz = 4 * k" using assms(2) by blast
    have "?n - 1 < k * 4" using False assms(1) k by linarith
    then have "(?n - 1) div 4 < k" by (rule less_mult_imp_div_less)
    moreover have "?n \<le> ((?n - 1) div 4 + 1) * 4" by presburger
    ultimately show ?thesis using p k by simp
  qed
  then show "?n \<le> padded b" "padded b \<le> sz" by simp_all
qed

lemma finish_avp_contained:
  assumes "d_code d \<noteq> 0" "wb_size b = sz" "length (wb_out b) \<le> sz" "start + dict_hdr_len d \<le> length (wb_out b)"
    and "4 dvd sz" "sz < 2 ^ 24"
  shows "contained sz start (finish_avp d start b)"
proof -
  let ?wr = "length (wb_out b)"
  have "unat (of_nat (?wr - start) :: u32) = ?wr - start" using assms(3,6) by (simp add: unat_of_nat)
  moreover from this have "mask24 (of_nat (?wr - start)) = (of_nat (?wr - start) :: u32)"
    using assms(3,6) by (simp add: mask24_id word_less_nat_alt)
  ultimately have p: "?wr - unat (mask24 (of_nat (?wr - start))) = start" using assms(4) by simp
  note hl = new_avp_hdr_size(1) [OF assms(1)]
  have pad: "?wr \<le> padded b" "padded b \<le> sz" using padded_bounds [OF assms(3,5,6)] by simp_all
  have "start + dict_hdr_len d \<le> sz" using assms(3,4) by simp
  then show ?thesis
    unfolding finish_avp_def Let_def p hl using assms(2,3,4) pad hl by (auto simp: wb_room_def min_def)
qed

lemma entry_toRaw_contained:
  assumes "entry_writable env lo d e" "getMinSize (te_groups env) n d \<noteq> None" "d_code d \<noteq> 0"
    and "wb_size b = sz" "length (wb_out b) \<le> sz" "4 dvd sz" "sz < 2 ^ 24"
    and "\<And>g cs b. lo g cs \<Longrightarrow> wb_size b = sz \<Longrightarrow> length (wb_out b) \<le> sz \<Longrightarrow> contained sz (length (wb_out b)) (lr g cs b)"
  shows "contained sz (length (wb_out b)) (entry_toRaw env n lr d e b)"
  unfolding entry_toRaw_def
proof (rule contained_seq [OF header_contained [OF assms(3-5)]])
  fix b1 :: wbuf
  assume b1: "wb_size b1 = sz" "length (wb_out b1) \<le> sz" "length (wb_out b) + dict_hdr_len d \<le> length (wb_out b1)"
  show "contained sz (length (wb_out b)) (seq (value_toRaw env n lr d e b1) (finish_avp d (length (wb_out b))))"
  proof (rule contained_seq [OF value_toRaw_contained [OF assms(1,2) b1(1,2)]])
    show "contained sz (length (wb_out b1)) (lr g cs b1)" if "lo g cs" for g cs
      using assms(8) [OF that b1(1,2)] .
    show "contained sz (length (wb_out b)) (finish_avp d (length (wb_out b)) b2)"
      if "wb_size b2 = sz" "length (wb_out b2) \<le> sz" "length (wb_out b1) \<le> length (wb_out b2)" for b2 :: wbuf
      using that b1(3) by (intro finish_avp_contained [OF assms(3)] assms(6,7)) auto
  qed
qed

lemma any_toRaw_contained:
  assumes "entry_writable env lo d e" "getMinSize (te_groups env) n d \<noteq> None"
    and "wb_size b = sz" "length (wb_out b) \<le> sz" "4 dvd sz" "sz < 2 ^ 24"
    and "\<And>g cs b. lo g cs \<Longrightarrow> wb_size b = sz \<Longrightarrow> length (wb_out b) \<le> sz \<Longrightarrow> contained sz (length (wb_out b)) (lr g cs b)"
  shows "contained sz (length (wb_out b)) (any_toRaw env n lr d e b)"
  unfolding any_toRaw_def
proof (rule contained_seq [OF value_toRaw_contained [OF assms(1-4)]])
  show "contained sz (length (wb_out b)) (lr g cs b)" if "lo g cs" for g cs
    using assms(7) [OF that assms(3,4)] .
  show "contained sz (length (wb_out b))
      (if padded b2 \<le> wb_size b2 then returns (wb_pad b2) else throws b2 (NormalError AAA_OUT_OF_SPACE))"
    if "wb_size b2 = sz" "length (wb_out b2) \<le> sz" "length (wb_out b) \<le> length (wb_out b2)" for b2 :: wbuf
    using that padded_bounds [OF that(2) assms(5,6)] by (auto simp: wb_pad_def min_def)
qed

theorem list_toRaw_contained:
  assumes "4 dvd sz" "sz < 2 ^ 24"
  shows "writable env n g cs \<Longrightarrow> wb_size b = sz \<Longrightarrow> length (wb_out b) \<le> sz \<Longrightarrow>
           contained sz (length (wb_out b)) (list_toRaw env n g cs b)"
proof (induction n arbitrary: g cs b)
  case (Suc n)
  have item: "contained sz (length (wb_out b')) (item_toRaw env (Suc n) (list_toRaw env n) cs x b')"
    if x: "x \<in> set (dict_items g)" and b': "wb_size b' = sz" "length (wb_out b') \<le> sz" for x b'
  proof -
    obtain pt q where q: "x = (pt, q)" by (cases x)
    from Suc.prems(1) x q have w: "getMinSize (te_groups env) (Suc n) (q_avp q) \<noteq> None"
      "d_code (q_avp q) = 0 \<longrightarrow> d_type (q_avp q) = DATA_TYPE"
      "\<forall>e \<in> set (item_entries cs q). entry_writable env (writable env n) (q_avp q) e"
      by (auto simp: list_all_iff simp del: getMinSize.simps)
    have "contained sz (length (wb_out b')) (avp_toRaw env (Suc n) (list_toRaw env n) (q_avp q) es b')"
      if "set es \<subseteq> set (item_entries cs q)" for es
      unfolding avp_toRaw_def
      using that w b' assms Suc.IH
      by (auto intro!: contained_steps entry_toRaw_contained any_toRaw_contained simp del: getMinSize.simps)
    then show ?thesis
      using b' by (auto simp: q item_toRaw_def item_entries_def split: option.splits)
  qed
  then show ?case
    using Suc.prems(2,3) by (auto intro!: contained_steps)
qed simp

text \<open>C10: writing stays in the buffer, if the buffer's size is a multiple of four below 2 ^ 24, the writer starts inside it,
  the groups of the dictionary have a bounded depth, only the wildcard type has the code 0, and no filter rule has numbers
  that overflow the arrays they are printed into (\<open>filter_protocol_overflows\<close> is a rule that does; it is no matter of the
  buffer). However little room there is, and whether or not the containers fit the dictionary, the writer ends, with a
  result or an error, the buffer has its size, and every byte it has written lies in it.\<close>

theorem writer_stays_in_buffer:
  assumes "writable env n g cs" "4 dvd wb_size b" "wb_size b < 2 ^ 24" "length (wb_out b) \<le> wb_size b"
  shows "\<exists>b' x. list_toRaw env n g cs b = Some (b', x) \<and> wb_size b' = wb_size b \<and> length (wb_out b') \<le> wb_size b"
  using list_toRaw_contained [OF assms(2,3,1) refl assms(4)] by (auto simp: contained_def)

lemma demo_writable: "writable demo_list_env (Suc 1) demo_dictionary demo_containers"
proof -
  have g: "search_group (te_groups demo_list_env) 260 0 = Some demo_group" by (simp add: demo_list_env_def)
  have "writable demo_list_env 1 demo_group
      [(''Auth-Application-Id'', [Int32Entry UINTEGER32_TYPE 4]), (''Vendor-Id'', [Int32Entry UINTEGER32_TYPE 9])]"
    by (simp add: demo_avp_defs entry_writable_def item_entries_def)
  moreover have "sized env m d \<Longrightarrow> \<exists>y. getMinSize (te_groups env) m d = Some y" for env m d
    by (auto simp: sized_def split: option.splits)
  ultimately show ?thesis
    using g demo_sized unfolding writable.simps
    by (simp add: dict_items_def demo_dictionary_def demo_q_def demo_containers_def entry_writable_def item_entries_def
        del: getMinSize.simps writable.simps)
qed

theorem writer_stays_in_buffer_witness:
  "\<exists>b' x. list_toRaw demo_list_env (Suc 1) demo_dictionary demo_containers \<lparr>wb_size = 32, wb_out = replicate 20 0\<rparr> = Some (b', x) \<and>
     wb_size b' = 32 \<and> length (wb_out b') \<le> 32"
  using writer_stays_in_buffer [OF demo_writable, of "\<lparr>wb_size = 32, wb_out = replicate 20 0\<rparr>"] by simp

text \<open>With another size the padding of an AVP may pass the end, and the check in front of the next, which subtracts in
  \<open>size_t\<close>, lets it through.\<close>

theorem odd_buffer_overrun:
  assumes "d_type d = STRING_TYPE" "d_code d \<noteq> 0" "d_vend d \<or> d_vendor d = 0" "4 dvd length (wb_out b)"
    and "wb_size b = length (wb_out b) + dict_hdr_len d + length s" "\<not> 4 dvd length s" "wb_size b < 2 ^ 24"
  shows "avp_toRaw env n lr d [StrEntry STRING_TYPE s, e] b = None"
proof -
  let ?v = "bytes_of_str s"
  let ?h = "avp_hdr_for d (length ?v)"
  have n: "dict_hdr_len d + length s < 2 ^ 24" using assms(5,7) by simp
  then have "unat (of_nat (dict_hdr_len d + length s) :: u32) = dict_hdr_len d + length s"
    by (simp add: unat_of_nat del: of_nat_add)
  with n assms(2,3) have fit: "avp_fits ?h ?v"
    using new_avp_hdr_size [OF assms(2)] by (simp add: avp_fits_def avp_hdr_for_def) (simp add: new_avp_hdr_def)
  let ?b = "extend b (write_avps [(?h, ?v)])"
  have hdr: "avp_header_toRaw d (new_avp_hdr d) b = returns (extend b (write_avp_hdr (new_avp_hdr d)))"
    using assms(5) by (intro avp_header_toRaw_fits [OF assms(2)]) simp
  have val: "value_toRaw env n lr d (StrEntry STRING_TYPE s) (extend b (write_avp_hdr (new_avp_hdr d))) =
      returns (extend b (write_avp_hdr (new_avp_hdr d) @ ?v))"
    using assms(1,5) new_avp_hdr_size(2) [OF assms(2)]
    by (simp add: value_toRaw_def value_simps write_value_fits)
  have "finish_avp d (length (wb_out b)) (extend b (write_avp_hdr (new_avp_hdr d) @ ?v)) = returns ?b"
    using assms(5,7) by (intro finish_avp_fits [OF assms(2,4) _ _ fit]) auto
  with hdr val have one: "entry_toRaw env n lr d (StrEntry STRING_TYPE s) b = returns ?b" by (simp add: entry_toRaw_def)
  have hl: "length (write_avp_hdr ?h) = dict_hdr_len d" "unat (a_length ?h) = dict_hdr_len d + length s"
    using new_avp_hdr_size [OF assms(2)] fit by (simp_all add: avp_hdr_for_def avp_fits_def)
  have "\<not> 4 dvd dict_hdr_len d + length s" using assms(6) dict_hdr_len_pos [OF assms(2)] by (simp add: dvd_add_right_iff)
  moreover have "4 dvd (dict_hdr_len d + length s) + pad_len (dict_hdr_len d + length s)"
    using dict_hdr_len_pos [OF assms(2)] by (intro pad_len_dvd) simp
  ultimately have "0 < pad_len (dict_hdr_len d + length s)" by (metis add_0_right gr0I)
  then have past: "wb_size ?b < length (wb_out ?b)" using hl assms(5) by simp
  have ne: "write_avp_hdr (new_avp_hdr d) \<noteq> []"
    using new_avp_hdr_size(2) [OF assms(2)] dict_hdr_len_pos [OF assms(2)] by (metis list.size(3) not_numeral_le_zero)
  have "avp_header_toRaw d (new_avp_hdr d) ?b = None"
    using past ne by (auto simp: avp_header_toRaw_def wb_room_def wb_put_def)
  then show ?thesis using one assms(1) by (simp add: avp_toRaw_def entry_toRaw_def)
qed

theorem odd_buffer_overrun_witness:
  "avp_toRaw demo_avp_env 1 (\<lambda>g cs b. None) (demo_avp 25 ''Class'' STRING_TYPE)
     [StrEntry STRING_TYPE ''x'', StrEntry STRING_TYPE ''y''] \<lparr>wb_size = 29, wb_out = replicate 20 0\<rparr> = None"
  by (rule odd_buffer_overrun) (simp_all add: dict_hdr_len_def demo_avp_def)

text \<open>The number of a protocol is printed into four characters, with a blank and the terminating zero.\<close>

lemma decimal_length_3: "100 \<le> n \<Longrightarrow> 3 \<le> length (decimal n)"
proof -
  assume n: "100 \<le> n"
  have "decimal (n div 10 div 10) \<noteq> []" using decimal_digits by blast
  then have "1 \<le> length (decimal (n div 10 div 10))" by (simp add: Suc_le_eq)
  with n show ?thesis by (simp add: decimal_ge)
qed

theorem filter_protocol_overflows:
  assumes "100 \<le> fr_proto r"
  shows "IPFilterRule_toRaw env n d (FilterEntry r) b = None"
proof -
  have "100 \<le> unat (fr_proto r)" using assms by (simp add: word_le_nat_alt)
  from decimal_length_3 [OF this] have "sprintf_to 4 (decimal (unat (fr_proto r)) @ '' '') = None"
    by (simp add: sprintf_to_def)
  moreover have "fr_proto r \<noteq> 0" using assms by (auto simp: word_le_nat_alt)
  ultimately show ?thesis by (simp add: IPFilterRule_toRaw_def filter_text_def)
qed

theorem filter_protocol_overflows_witness:
  "IPFilterRule_toRaw demo_avp_env 1 demo_uri_avp (FilterEntry ((te_filter0 demo_avp_env)\<lparr>fr_proto := 132\<rparr>))
     \<lparr>wb_size = 1000, wb_out = []\<rparr> = None"
  by (rule filter_protocol_overflows) simp

end
