(* ===== verification/Tx_Collector.thy ===== *)
theory Tx_Collector
  imports Rx_Collector Avp_Props
begin

text \<open>
  \<open>DiameterTxMsgCollector\<close> of \<open>libdiameter/include/aaa_transport_collector.h\<close> and \<open>src/aaa_transport_collector.cxx\<close>: messages
  are queued, a thread of the collector serialises them one by one into a buffer, which grows by whole blocks when the
  payload does not fit, and hands the bytes to the connection. With the receiving collector of \<open>Rx_Collector\<close>, whose
  payload parser is now that of \<open>Avp_Parser\<close>, this closes the way of a message from the containers of the sender to
  those of the receiver.
\<close>

subsection \<open>State and environment\<close>

text \<open>A message with the containers an application filled. \<open>tv_dict\<close> gives the AVP lists of a command, \<open>tv_unit\<close> is
  the configured \<open>rx_buffer_size\<close>, \<open>tv_io\<close> the result of \<open>Diameter_IO_Base::Send\<close>; \<open>tv_depth\<close> bounds the depth of groups.\<close>

record app_msg =
  am_hdr :: msg_hdr
  am_acl :: containers

record tx_env =
  tv_cmds :: "command list"
  tv_dict :: "command \<Rightarrow> dictionary"
  tv_avps :: avp_env
  tv_depth :: nat
  tv_unit :: nat
  tv_io :: "string \<Rightarrow> byte list \<Rightarrow> int"

text \<open>\<open>tx_buf\<close> is the size of \<open>m_Buffer\<close>; \<open>tx_sent\<close> lists what was handed to the connections.\<close>

record txc =
  tx_buf :: nat
  tx_blocks :: nat
  tx_queue :: "(app_msg \<times> string) list"
  tx_sent :: "(string \<times> byte list) list"

definition new_txc :: "tx_env \<Rightarrow> txc" where
  "new_txc env = \<lparr>tx_buf = tv_unit env, tx_blocks = 1, tx_queue = [], tx_sent = []\<rparr>"

subsection \<open>Sending\<close>

datatype tx_round = TxReady "byte list" | TxGrow | TxFail

text \<open>One turn of the loop of \<open>SafeSend\<close>. The header is written twice, the second time with the length. \<open>None\<close>: the
  bytes leave the buffer.\<close>

definition tx_write :: "tx_env \<Rightarrow> nat \<Rightarrow> app_msg \<Rightarrow> tx_round option" where
  "tx_write env sz m =
     (case header_parseAppToRaw PARSE_STRICT (tv_cmds env) (am_hdr m) of
        Inl e \<Rightarrow> Some TxFail
      | Inr (hb, com) \<Rightarrow>
          if sz < length hb then None
          else (case QualifiedAvpList_toRaw (tv_avps env) (tv_depth env) (map_option (tv_dict env) com) (am_acl m)
                       \<lparr>wb_size = sz, wb_out = hb\<rparr> of
                  None \<Rightarrow> None
                | Some (b, Some (NormalError code)) \<Rightarrow> Some (if code = AAA_OUT_OF_SPACE then TxGrow else TxFail)
                | Some (b, Some (BugError e)) \<Rightarrow> Some TxFail
                | Some (b, None) \<Rightarrow>
                    let h = (am_hdr m)\<lparr>h_length := mask24 (of_nat (length (wb_out b)))\<rparr> in
                    (case header_parseAppToRaw PARSE_STRICT (tv_cmds env) h of
                       Inl e \<Rightarrow> Some TxFail
                     | Inr (hb', _) \<Rightarrow>
                         if sz < unat (h_length h) then None
                         else Some (TxReady (take (unat (h_length h)) (hb' @ drop 20 (wb_out b)))))))"

text \<open>The block count is never taken back.\<close>

function SafeSend :: "tx_env \<Rightarrow> app_msg \<Rightarrow> string \<Rightarrow> txc \<Rightarrow> (txc \<times> int) option" where
  "SafeSend env m io s =
     (case tx_write env (tx_buf s) m of
        None \<Rightarrow> None
      | Some TxFail \<Rightarrow> Some (s, - 1)
      | Some TxGrow \<Rightarrow>
          if tx_blocks s < 10
          then SafeSend env m io (s\<lparr>tx_blocks := tx_blocks s + 1, tx_buf := tv_unit env * (tx_blocks s + 1)\<rparr>)
          else Some (s, - 1)
      | Some (TxReady bs) \<Rightarrow> Some (s\<lparr>tx_sent := tx_sent s @ [(io, bs)]\<rparr>, tv_io env io bs))"
  by pat_completeness auto
termination
  by (relation "measure (\<lambda>(env, m, io, s). 10 - tx_blocks s)") auto

declare SafeSend.simps [simp del]

text \<open>\<open>Send\<close> puts a message into the queue; \<open>svc\<close>, woken up, empties it and does not look at results.\<close>

definition tx_Send :: "app_msg \<Rightarrow> string \<Rightarrow> txc \<Rightarrow> txc" where
  "tx_Send m io s = s\<lparr>tx_queue := tx_queue s @ [(m, io)]\<rparr>"

fun tx_drain :: "tx_env \<Rightarrow> (app_msg \<times> string) list \<Rightarrow> txc \<Rightarrow> txc option" where
  "tx_drain env [] s = Some s"
| "tx_drain env ((m, io) # q) s =
     (case SafeSend env m io (s\<lparr>tx_queue := q\<rparr>) of None \<Rightarrow> None | Some (s', _) \<Rightarrow> tx_drain env q s')"

definition tx_svc :: "tx_env \<Rightarrow> txc \<Rightarrow> txc option" where
  "tx_svc env s = tx_drain env (tx_queue s) s"

subsection \<open>The receiver\<close>

text \<open>What the modules behind the collector see of an entry. They never ask for a filter rule.\<close>

fun view_entry :: "avp_entry \<Rightarrow> avp_value" where
  "view_entry (Int32Entry t w) = (if t = ENUM_TYPE \<or> t = INTEGER32_TYPE then AvpEnum (sint w) else AvpU32 w)"
| "view_entry (Int64Entry t w) = AvpU64 w"
| "view_entry (StrEntry t s) = AvpStr s"
| "view_entry (AddrEntry t s) = AvpAddr (uint t) s"
| "view_entry (UriEntry u) = AvpUri (uri_fqdn u)"
| "view_entry (FilterEntry r) = AvpStr []"
| "view_entry (GroupEntry cs) = AvpGroup (map (\<lambda>(n, es). (n, map view_entry es)) cs)"

definition view :: "containers \<Rightarrow> acl" where
  "view cs = map (\<lambda>(n, es). (n, map view_entry es)) cs"

text \<open>The call of \<open>DiameterMsgPayloadParser::parseRawToApp\<close>. What follows a read outside the bytes is not modelled; it
  stands here as the error of the parser's own.\<close>

definition payload_parser :: "tx_env \<Rightarrow> command option \<Rightarrow> byte list \<Rightarrow> payload_result" where
  "payload_parser env com bs =
     (case QualifiedAvpList_toApp (tv_avps env) (tv_depth env) (map_option (tv_dict env) com) bs [] of
        None \<Rightarrow> PayloadBug
      | Some (cs, None) \<Rightarrow> PayloadOk (view cs)
      | Some (cs, Some (NormalError code)) \<Rightarrow> PayloadError code
      | Some (cs, Some (BugError e)) \<Rightarrow> PayloadBug)"

definition rx_of :: "tx_env \<Rightarrow> (nat \<Rightarrow> bool) \<Rightarrow> string \<Rightarrow> string \<Rightarrow> rx_env" where
  "rx_of env alloc identity realm =
     \<lparr>e_cmds = tv_cmds env, e_payload = payload_parser env, e_realloc = alloc, e_identity = identity, e_realm = realm\<rparr>"

subsection \<open>What is sent\<close>

definition tx_command :: "tx_env \<Rightarrow> app_msg \<Rightarrow> command option" where
  "tx_command env m = (case check_command AAA_INVALID_HDR_BITS (tv_cmds env) (am_hdr m) of Inl e \<Rightarrow> None | Inr c \<Rightarrow> Some c)"

definition tx_payload :: "tx_env \<Rightarrow> app_msg \<Rightarrow> byte list" where
  "tx_payload env m =
     (case tx_command env m of None \<Rightarrow> [] | Some c \<Rightarrow> list_bytes (tv_avps env) (tv_depth env) (tv_dict env c) (am_acl m))"

definition final_hdr :: "tx_env \<Rightarrow> app_msg \<Rightarrow> msg_hdr" where
  "final_hdr env m = (am_hdr m)\<lparr>h_length := of_nat (20 + length (tx_payload env m))\<rparr>"

definition tx_frame :: "tx_env \<Rightarrow> app_msg \<Rightarrow> byte list" where
  "tx_frame env m = write_header (final_hdr env m) @ tx_payload env m"

text \<open>A message of a known command with fields in their widths, AVPs the dictionary of the command can encode, and at
  least one of them.\<close>

definition sendable :: "tx_env \<Rightarrow> app_msg \<Rightarrow> bool" where
  "sendable env m \<longleftrightarrow> h_ver (am_hdr m) < 2 ^ 8 \<and> h_code (am_hdr m) < 2 ^ 24 \<and> tx_payload env m \<noteq> [] \<and>
     (case tx_command env m of
        None \<Rightarrow> False
      | Some c \<Rightarrow> encodable (tv_avps env) (tv_depth env) (tv_dict env c) (am_acl m))"

text \<open>And what arrives: the header with the length, the containers in the order of the dictionary.\<close>

definition received :: "tx_env \<Rightarrow> app_msg \<Rightarrow> msg" where
  "received env m =
     \<lparr>m_hdr = final_hdr env m,
      m_acl = (case tx_command env m of
                 None \<Rightarrow> [] | Some c \<Rightarrow> view (canon (tv_avps env) (tv_depth env) (tv_dict env c) (am_acl m)))\<rparr>"

lemma check_command_length [simp]: "check_command b cmds (h\<lparr>h_length := l\<rparr>) = check_command b cmds h"
  by (simp add: check_command_def cong: option.case_cong if_cong)

lemma sendable_command:
  assumes "sendable env m"
  obtains c where "tx_command env m = Some c" "check_command b (tv_cmds env) (am_hdr m) = Inr c"
    "encodable (tv_avps env) (tv_depth env) (tv_dict env c) (am_acl m)"
    "tx_payload env m = list_bytes (tv_avps env) (tv_depth env) (tv_dict env c) (am_acl m)"
proof -
  from assms obtain c where c: "tx_command env m = Some c"
    "encodable (tv_avps env) (tv_depth env) (tv_dict env c) (am_acl m)"
    by (auto simp: sendable_def split: option.splits)
  then have "check_command AAA_INVALID_HDR_BITS (tv_cmds env) (am_hdr m) = Inr c"
    by (auto simp: tx_command_def split: sum.splits)
  then have "check_command b (tv_cmds env) (am_hdr m) = Inr c" by (rule check_command_Inr)
  with c that show thesis by (simp add: tx_payload_def)
qed

lemma length_tx_frame: "length (tx_frame env m) = 20 + length (tx_payload env m)"
  by (simp add: tx_frame_def)

lemma final_length:
  assumes "length (tx_frame env m) < 2 ^ 24"
  shows "unat (h_length (final_hdr env m)) = length (tx_frame env m)"
    and "mask24 (of_nat (length (tx_frame env m))) = h_length (final_hdr env m)"
proof -
  have u: "unat (of_nat (length (tx_frame env m)) :: u32) = length (tx_frame env m)"
    using assms by (simp add: unat_of_nat take_bit_nat_eq_self_iff)
  then show "unat (h_length (final_hdr env m)) = length (tx_frame env m)"
    by (simp add: final_hdr_def length_tx_frame del: of_nat_add)
  have "(of_nat (length (tx_frame env m)) :: u32) < 2 ^ 24" using u assms by (simp add: word_less_nat_alt)
  then have "mask24 (of_nat (length (tx_frame env m))) = (of_nat (length (tx_frame env m)) :: u32)" by (rule mask24_id)
  then show "mask24 (of_nat (length (tx_frame env m))) = h_length (final_hdr env m)"
    by (simp add: final_hdr_def length_tx_frame del: of_nat_add)
qed

lemma tx_write_ready:
  assumes "sendable env m" "length (tx_frame env m) \<le> sz" "sz < 2 ^ 24"
  shows "tx_write env sz m = Some (TxReady (tx_frame env m))"
proof -
  from assms(1) obtain c where c: "check_command AAA_INVALID_HDR_BITS (tv_cmds env) (am_hdr m) = Inr c"
    "encodable (tv_avps env) (tv_depth env) (tv_dict env c) (am_acl m)"
    "tx_payload env m = list_bytes (tv_avps env) (tv_depth env) (tv_dict env c) (am_acl m)"
    by (rule sendable_command)
  let ?b = "\<lparr>wb_size = sz, wb_out = write_header (am_hdr m)\<rparr>"
  have "fits (list_bytes (tv_avps env) (tv_depth env) (tv_dict env c) (am_acl m)) ?b"
    using assms(2,3) by (simp add: fits_def length_tx_frame flip: c(3))
  from list_toRaw_writes [OF c(2) this]
  have w: "QualifiedAvpList_toRaw (tv_avps env) (tv_depth env) (Some (tv_dict env c)) (am_acl m) ?b =
      returns (Avp_Write.extend ?b (tx_payload env m))"
    by (simp add: QualifiedAvpList_toRaw_def c(3))
  have n: "length (tx_frame env m) < 2 ^ 24" using assms by simp
  have "mask24 (of_nat (length (write_header (am_hdr m) @ tx_payload env m))) = h_length (final_hdr env m)"
    using final_length(2) [OF n] by (simp add: length_tx_frame)
  moreover have "(am_hdr m)\<lparr>h_length := h_length (final_hdr env m)\<rparr> = final_hdr env m" by (simp add: final_hdr_def)
  moreover have "drop 20 (write_header (am_hdr m) @ tx_payload env m) = tx_payload env m" by simp
  moreover have "header_parseAppToRaw PARSE_STRICT (tv_cmds env) (final_hdr env m) = Inr (write_header (final_hdr env m), Some c)"
    using c(1) by (simp add: header_parseAppToRaw_def final_hdr_def)
  ultimately show ?thesis
    using w c(1) assms(2) final_length(1) [OF n]
    by (simp add: tx_write_def header_parseAppToRaw_def returns_def length_tx_frame)
      (simp add: tx_frame_def)
qed

subsection \<open>From containers to containers\<close>

lemma frame_received:
  assumes "sendable env m" "length (tx_frame env m) < 2 ^ 24" "rx = rx_of env alloc identity realm"
  shows "good_frame rx (tx_frame env m)" and "frame_msg rx (tx_frame env m) = received env m"
proof -
  from assms(1) obtain c where c: "tx_command env m = Some c"
    "check_command AAA_INVALID_BIT_IN_HEADER (tv_cmds env) (am_hdr m) = Inr c"
    "encodable (tv_avps env) (tv_depth env) (tv_dict env c) (am_acl m)"
    "tx_payload env m = list_bytes (tv_avps env) (tv_depth env) (tv_dict env c) (am_acl m)"
    by (rule sendable_command)
  have len: "unat (h_length (final_hdr env m)) = length (tx_frame env m)" by (rule final_length(1) [OF assms(2)])
  have "hdr_fits (final_hdr env m)"
    using assms(1,2) len by (simp add: hdr_fits_def sendable_def word_less_nat_alt) (simp add: final_hdr_def)
  then have hdr: "read_header (tx_frame env m) = final_hdr env m" by (simp add: tx_frame_def read_write_header)
  have com: "check_command AAA_INVALID_BIT_IN_HEADER (tv_cmds env) (final_hdr env m) = Inr c"
    using c(2) by (simp add: final_hdr_def)
  have pl: "payload_parser env (Some c) (drop 20 (tx_frame env m)) =
      PayloadOk (view (canon (tv_avps env) (tv_depth env) (tv_dict env c) (am_acl m)))"
    using list_toApp_inverts [OF c(3)]
    by (simp add: payload_parser_def tx_frame_def QualifiedAvpList_toApp_def c(4) returns_def)
  have ne: "20 < length (tx_frame env m)" using assms(1) by (simp add: length_tx_frame sendable_def)
  show "good_frame rx (tx_frame env m)"
    using hdr com pl ne len by (simp add: good_frame_def assms(3) rx_of_def)
  show "frame_msg rx (tx_frame env m) = received env m"
    using hdr com pl c(1) by (simp add: frame_msg_def assms(3) rx_of_def received_def)
qed

lemma SafeSend_ready:
  assumes "sendable env m" "length (tx_frame env m) \<le> tx_buf s" "tx_buf s < 2 ^ 24"
  shows "SafeSend env m io s = Some (s\<lparr>tx_sent := tx_sent s @ [(io, tx_frame env m)]\<rparr>, tv_io env io (tx_frame env m))"
  using tx_write_ready [OF assms] by (subst SafeSend.simps) simp

lemma tx_drain_ready:
  assumes "\<forall>m \<in> set ms. sendable env m \<and> length (tx_frame env m) \<le> tx_buf s" "tx_buf s < 2 ^ 24"
  shows "\<exists>s'. tx_drain env (map (\<lambda>m. (m, io)) ms) s = Some s' \<and>
           tx_sent s' = tx_sent s @ map (\<lambda>m. (io, tx_frame env m)) ms"
  using assms
proof (induction ms arbitrary: s)
  case (Cons m ms)
  let ?q = "map (\<lambda>m. (m, io)) ms"
  let ?s = "s\<lparr>tx_queue := ?q, tx_sent := tx_sent s @ [(io, tx_frame env m)]\<rparr>"
  have "SafeSend env m io (s\<lparr>tx_queue := ?q\<rparr>) = Some (?s, tv_io env io (tx_frame env m))"
    using Cons.prems by (subst SafeSend_ready) auto
  then have "tx_drain env (map (\<lambda>m. (m, io)) (m # ms)) s = tx_drain env ?q ?s" by simp
  moreover have "\<exists>s'. tx_drain env ?q ?s = Some s' \<and> tx_sent s' = tx_sent ?s @ map (\<lambda>m. (io, tx_frame env m)) ms"
    using Cons.prems by (intro Cons.IH) auto
  ultimately show ?case by auto
qed simp


subsection \<open>The growing buffer\<close>

text \<open>The configuration keeps \<open>rx_buffer_size\<close> between 2048 and 10240.\<close>

definition tx_ok :: "tx_env \<Rightarrow> txc \<Rightarrow> bool" where
  "tx_ok env s \<longleftrightarrow> tx_buf s = tv_unit env * tx_blocks s \<and> 1 \<le> tx_blocks s \<and> tx_blocks s \<le> 10"

definition tx_config :: "tx_env \<Rightarrow> bool" where
  "tx_config env \<longleftrightarrow> 4 dvd tv_unit env \<and> 2048 \<le> tv_unit env \<and> tv_unit env \<le> 10240"

text \<open>A message whose version and code have their widths and, if its command is known, whose containers are writable: the
  groups of the dictionary have a bounded depth, only the wildcard type has the code 0, and no filter rule has numbers that
  overflow the arrays they are printed into. The AVPs may be wrong otherwise, too many, too few or of other types.\<close>

definition presentable :: "tx_env \<Rightarrow> app_msg \<Rightarrow> bool" where
  "presentable env m \<longleftrightarrow> h_ver (am_hdr m) < 2 ^ 8 \<and> h_code (am_hdr m) < 2 ^ 24 \<and>
     (case tx_command env m of
        None \<Rightarrow> True | Some c \<Rightarrow> writable (tv_avps env) (tv_depth env) (tv_dict env c) (am_acl m))"

definition whole_message :: "nat \<Rightarrow> byte list \<Rightarrow> bool" where
  "whole_message sz bs \<longleftrightarrow> 20 \<le> length bs \<and> length bs \<le> sz \<and> unat (h_length (read_header bs)) = length bs"

lemma tx_ok_bounds: "tx_ok env s \<Longrightarrow> tx_config env \<Longrightarrow> 20 \<le> tx_buf s \<and> tx_buf s < 2 ^ 24 \<and> 4 dvd tx_buf s"
proof -
  assume a: "tx_ok env s" "tx_config env"
  have "20 \<le> tv_unit env * 1" using a by (simp add: tx_config_def)
  also have "tv_unit env * 1 \<le> tv_unit env * tx_blocks s" using a by (intro mult_le_mono) (auto simp: tx_ok_def)
  finally have "20 \<le> tv_unit env * tx_blocks s" .
  moreover have "tv_unit env * tx_blocks s \<le> 10240 * 10"
    using a by (intro mult_le_mono) (auto simp: tx_ok_def tx_config_def)
  ultimately show ?thesis using a by (auto simp: tx_ok_def tx_config_def)
qed

lemma tx_write_contained:
  assumes "presentable env m" "20 \<le> sz" "sz < 2 ^ 24" "4 dvd sz"
  shows "\<exists>r. tx_write env sz m = Some r \<and> (\<forall>bs. r = TxReady bs \<longrightarrow> whole_message sz bs)"
proof (cases "check_command AAA_INVALID_HDR_BITS (tv_cmds env) (am_hdr m)")
  case (Inl e)
  then show ?thesis by (simp add: tx_write_def header_parseAppToRaw_def)
next
  case (Inr c)
  let ?b = "\<lparr>wb_size = sz, wb_out = write_header (am_hdr m)\<rparr>"
  have "writable (tv_avps env) (tv_depth env) (tv_dict env c) (am_acl m)"
    using assms(1) Inr by (simp add: presentable_def tx_command_def)
  then have "contained sz (length (wb_out ?b)) (list_toRaw (tv_avps env) (tv_depth env) (tv_dict env c) (am_acl m) ?b)"
    using assms(2-4) by (intro list_toRaw_contained) auto
  then obtain b x where w: "list_toRaw (tv_avps env) (tv_depth env) (tv_dict env c) (am_acl m) ?b = Some (b, x)"
    "length (wb_out b) \<le> sz" "x = None \<longrightarrow> 20 \<le> length (wb_out b)"
    by (auto simp: contained_def)
  show ?thesis
  proof (cases x)
    case (Some e)
    with w Inr assms(2) show ?thesis
      by (cases e) (auto simp: tx_write_def header_parseAppToRaw_def QualifiedAvpList_toRaw_def)
  next
    case None
    let ?n = "length (wb_out b)" and ?h = "(am_hdr m)\<lparr>h_length := mask24 (of_nat (length (wb_out b)))\<rparr>"
    have n: "?n < 2 ^ 24" "20 \<le> ?n" using w None assms(3) by auto
    have u: "unat (of_nat ?n :: u32) = ?n" using n by (simp add: unat_of_nat take_bit_nat_eq_self_iff)
    then have lt: "(of_nat ?n :: u32) < 2 ^ 24" using n by (simp add: word_less_nat_alt)
    then have len: "h_length ?h = of_nat ?n" by (simp add: mask24_id)
    let ?bs = "write_header ?h @ drop 20 (wb_out b)"
    have "hdr_fits ?h" using assms(1) len lt by (simp add: hdr_fits_def presentable_def)
    then have "read_header ?bs = ?h" by (rule read_write_header)
    then have "whole_message sz ?bs" using len u n w(2) by (simp add: whole_message_def)
    moreover have "tx_write env sz m = Some (TxReady ?bs)"
      using w None Inr assms(2) len u
      by (simp add: tx_write_def header_parseAppToRaw_def QualifiedAvpList_toRaw_def)
    ultimately show ?thesis by simp
  qed
qed

text \<open>C8: sending ends within the buffer, if the configured block is a multiple of four between 2048 and 10240 bytes (an odd
  one is overrun, \<open>odd_buffer_overrun\<close>), the buffer is of one to ten blocks, and the message has a version and a code of
  their widths and writable containers (a filter rule whose numbers are too long is printed past its array,
  \<open>filter_protocol_overflows\<close>). \<open>SafeSend\<close> returns after at most ten rounds; the buffer it leaves is a whole number of
  blocks, at most ten and never fewer than before; and either it has failed and nothing was handed to the connection, or
  exactly one message was, that lies in the buffer and whose header states its length.\<close>

theorem SafeSend_ends:
  assumes "tx_ok env s" "tx_config env" "presentable env m"
  shows "\<exists>s' r. SafeSend env m io s = Some (s', r) \<and> tx_ok env s' \<and> tx_blocks s \<le> tx_blocks s' \<and>
    (tx_sent s' = tx_sent s \<and> r = - 1 \<or>
     (\<exists>bs. tx_sent s' = tx_sent s @ [(io, bs)] \<and> r = tv_io env io bs \<and> whole_message (tx_buf s') bs))"
  using assms
proof (induction env m io s rule: SafeSend.induct)
  case (1 env m io s)
  from tx_write_contained [OF "1.prems"(3)] tx_ok_bounds [OF "1.prems"(1,2)] obtain r where
    r: "tx_write env (tx_buf s) m = Some r" "\<forall>bs. r = TxReady bs \<longrightarrow> whole_message (tx_buf s) bs" by blast
  show ?case
  proof (cases r)
    case (TxReady bs)
    with r "1.prems"(1) show ?thesis by (simp add: SafeSend.simps [of env m io s] tx_ok_def)
  next
    case TxFail
    with r "1.prems"(1) show ?thesis by (simp add: SafeSend.simps [of env m io s])
  next
    case TxGrow
    let ?s = "s\<lparr>tx_blocks := tx_blocks s + 1, tx_buf := tv_unit env * (tx_blocks s + 1)\<rparr>"
    show ?thesis
    proof (cases "tx_blocks s < 10")
      case True
      have ok: "tx_ok env ?s" using "1.prems"(1) True by (simp add: tx_ok_def)
      have "SafeSend env m io s = SafeSend env m io ?s" using r(1) TxGrow True by (simp add: SafeSend.simps [of env m io s])
      moreover note "1.IH" [OF r(1) TxGrow True ok "1.prems"(2,3)]
      ultimately show ?thesis by fastforce
    next
      case False
      with r TxGrow "1.prems"(1) show ?thesis by (simp add: SafeSend.simps [of env m io s])
    qed
  qed
qed

text \<open>The buffer grows for a value that does not fit. A header that does not fit is reported as the caller's mistake,
  and the message is given up, although a larger buffer would have taken it.\<close>

lemma steps_append: "steps f (xs @ ys) s = seq (steps f xs s) (steps f ys)"
  by (induction xs arbitrary: s) (auto simp: seq_def returns_def split: option.splits prod.splits)

lemma straddling_header:
  assumes "item_ok env n lo le cs y" "item_entries cs (snd y) \<noteq> []" "d_type (q_avp (snd y)) \<noteq> DATA_TYPE"
    and "length (wb_out b) \<le> wb_size b" "wb_size b < length (wb_out b) + dict_hdr_len (q_avp (snd y))"
  shows "item_toRaw env n lr cs y b = throws b (BugError INVALID_PARSER_USAGE)"
proof -
  obtain pt q where y: "y = (pt, q)" by (cases y)
  from assms(2) obtain e es where es: "find_container cs (d_name (q_avp q)) = Some (e # es)"
    by (cases "item_entries cs q") (auto simp: y item_entries_def split: option.splits)
  have "avp_header_toRaw (q_avp q) (new_avp_hdr (q_avp q)) b = throws b (BugError INVALID_PARSER_USAGE)"
    using assms(4,5) by (auto simp: y avp_header_toRaw_def wb_room_def)
  then show ?thesis
    using assms(1,3) es by (auto simp: y item_toRaw_def item_ok_def avp_toRaw_def entry_toRaw_def seq_def throws_def Let_def)
qed

theorem straddling_header_refused:
  assumes "sendable env m" "tx_command env m = Some c" "tv_depth env = Suc n"
    and "dict_items (tv_dict env c) = xs @ y # ys"
    and "pre = concat (map (\<lambda>x. write_avps (item_avps (tv_avps env) (list_bytes (tv_avps env) n) (am_acl m) x)) xs)"
    and "item_entries (am_acl m) (snd y) \<noteq> []" "d_type (q_avp (snd y)) \<noteq> DATA_TYPE"
    and "20 + length pre \<le> tx_buf s" "tx_buf s < 20 + length pre + dict_hdr_len (q_avp (snd y))" "tx_buf s < 2 ^ 24"
  shows "SafeSend env m io s = Some (s, - 1) \<and>
    (\<forall>sz. length (tx_frame env m) \<le> sz \<and> sz < 2 ^ 24 \<longrightarrow> tx_write env sz m = Some (TxReady (tx_frame env m)))"
proof -
  from assms(1,2) have com: "check_command AAA_INVALID_HDR_BITS (tv_cmds env) (am_hdr m) = Inr c"
    by (auto simp: tx_command_def split: sum.splits)
  let ?e = "tv_avps env" and ?cs = "am_acl m" and ?b = "\<lparr>wb_size = tx_buf s, wb_out = write_header (am_hdr m)\<rparr>"
  let ?f = "item_avps ?e (list_bytes ?e n) ?cs" and ?it = "item_toRaw ?e (Suc n) (list_toRaw ?e n) ?cs"
  have "encodable ?e (Suc n) (tv_dict env c) ?cs" using assms(1-3) by (simp add: sendable_def)
  then have ok: "item_ok ?e (Suc n) (encodable ?e n) (list_bytes ?e n) ?cs x" if "x \<in> set (xs @ y # ys)" for x
    using that by (auto simp: list_all_iff assms(4))
  have "steps ?it xs ?b = returns (Avp_Write.extend ?b (concat (map (\<lambda>x. write_avps (?f x)) xs)))"
  proof (rule steps_extend)
    show "?it x b' = returns (Avp_Write.extend b' (write_avps (?f x)))"
      if "x \<in> set xs" "fits (write_avps (?f x)) b'" for x b'
      using that ok by (intro item_toRaw_fits list_toRaw_writes) auto
    show "4 dvd length (write_avps (?f x))" if "x \<in> set xs" for x
      using that by (intro write_avps_dvd item_avps_fit [OF ok]) simp
    show "fits (concat (map (\<lambda>x. write_avps (?f x)) xs)) ?b"
      using assms(8,10) by (simp add: fits_def flip: assms(5))
  qed
  then have pre: "steps ?it xs ?b = returns (Avp_Write.extend ?b pre)" by (simp add: assms(5))
  have "?it y (Avp_Write.extend ?b pre) = throws (Avp_Write.extend ?b pre) (BugError INVALID_PARSER_USAGE)"
    using ok [of y] assms(6-9) by (intro straddling_header) auto
  with pre have "list_toRaw ?e (Suc n) (tv_dict env c) ?cs ?b = throws (Avp_Write.extend ?b pre) (BugError INVALID_PARSER_USAGE)"
    by (simp add: assms(4) steps_append seq_def returns_def throws_def)
  with com assms(3,8) have "tx_write env (tx_buf s) m = Some TxFail"
    by (simp add: tx_write_def header_parseAppToRaw_def QualifiedAvpList_toRaw_def throws_def)
  then have "SafeSend env m io s = Some (s, - 1)" by (simp add: SafeSend.simps [of env m io s])
  then show ?thesis using tx_write_ready [OF assms(1)] by blast
qed

subsection \<open>A concrete connection\<close>

definition demo_tx_env :: tx_env where
  "demo_tx_env = \<lparr>tv_cmds = demo_cmds, tv_dict = (\<lambda>c. demo_dictionary), tv_avps = demo_list_env, tv_depth = Suc 1,
     tv_unit = 2048, tv_io = (\<lambda>io bs. int (length bs))\<rparr>"

definition demo_app_msg :: app_msg where
  "demo_app_msg = \<lparr>am_hdr = demo_hdr, am_acl = demo_containers\<rparr>"

lemma demo_tx_command [simp]: "tx_command demo_tx_env demo_app_msg = Some (hd demo_cmds)"
  by (simp add: tx_command_def demo_tx_env_def demo_app_msg_def check_command_def demo_cmds_def demo_hdr_def zero_hdr_def)

lemma demo_tx_env_simps [simp]:
  "tv_dict demo_tx_env c = demo_dictionary" "tv_avps demo_tx_env = demo_list_env" "tv_depth demo_tx_env = Suc 1"
  "tv_unit demo_tx_env = 2048"
  by (simp_all add: demo_tx_env_def)

lemma demo_app_msg_simps [simp]: "am_acl demo_app_msg = demo_containers" "am_hdr demo_app_msg = demo_hdr"
  by (simp_all add: demo_app_msg_def)

lemma demo_tx_payload:
  "tx_payload demo_tx_env demo_app_msg = list_bytes demo_list_env (Suc 1) demo_dictionary demo_containers"
  by (simp add: tx_payload_def del: list_bytes.simps One_nat_def)

lemma demo_tx_frame: "length (tx_frame demo_tx_env demo_app_msg) = 88"
  by (simp only: length_tx_frame demo_tx_payload demo_list_bytes) simp

lemma demo_sendable: "sendable demo_tx_env demo_app_msg"
proof -
  have "tx_payload demo_tx_env demo_app_msg \<noteq> []" by (simp only: demo_tx_payload demo_list_bytes) simp
  then show ?thesis
    using demo_encodable
    by (simp add: sendable_def del: encodable.simps One_nat_def) (simp add: demo_hdr_def zero_hdr_def)
qed


theorem SafeSend_ends_witness:
  "\<exists>s' r. SafeSend demo_tx_env demo_app_msg ''peer'' (new_txc demo_tx_env) = Some (s', r) \<and> tx_ok demo_tx_env s' \<and>
    tx_blocks (new_txc demo_tx_env) \<le> tx_blocks s' \<and>
    (tx_sent s' = tx_sent (new_txc demo_tx_env) \<and> r = - 1 \<or>
     (\<exists>bs. tx_sent s' = tx_sent (new_txc demo_tx_env) @ [(''peer'', bs)] \<and> r = tv_io demo_tx_env ''peer'' bs \<and>
        whole_message (tx_buf s') bs))"
proof (rule SafeSend_ends)
  show "presentable demo_tx_env demo_app_msg"
    using demo_writable by (simp add: presentable_def del: writable.simps One_nat_def) (simp add: demo_hdr_def zero_hdr_def)
qed (simp_all add: tx_ok_def tx_config_def new_txc_def)

theorem straddling_header_refused_witness:
  "SafeSend demo_tx_env demo_app_msg ''peer'' ((new_txc demo_tx_env)\<lparr>tx_buf := 36\<rparr>) =
     Some ((new_txc demo_tx_env)\<lparr>tx_buf := 36\<rparr>, - 1) \<and>
   (\<forall>sz. length (tx_frame demo_tx_env demo_app_msg) \<le> sz \<and> sz < 2 ^ 24 \<longrightarrow>
      tx_write demo_tx_env sz demo_app_msg = Some (TxReady (tx_frame demo_tx_env demo_app_msg)))"
proof (rule straddling_header_refused [OF demo_sendable demo_tx_command])
  show "tv_depth demo_tx_env = Suc 1" by simp
  show "dict_items (tv_dict demo_tx_env (hd demo_cmds)) =
      [dict_items demo_dictionary ! 0] @ (dict_items demo_dictionary ! 1) # drop 2 (dict_items demo_dictionary)"
    by (simp add: dict_items_def demo_dictionary_def)
  have b: "write_avps (item_avps demo_list_env (list_bytes demo_list_env 1) demo_containers (dict_items demo_dictionary ! 0)) =
      write_avps (demo_block 0)"
    by (simp only: demo_block_def)
  then have len: "length (write_avps (item_avps demo_list_env (list_bytes demo_list_env 1) demo_containers
      (dict_items demo_dictionary ! 0))) = 12"
    by (simp only: demo_blocks(1)) (simp add: avp_hdr_size_def pad_len_def)
  let ?pre = "concat (map (\<lambda>x. write_avps (item_avps (tv_avps demo_tx_env) (list_bytes (tv_avps demo_tx_env) 1)
      (am_acl demo_app_msg) x)) [dict_items demo_dictionary ! 0])"
  show "?pre = ?pre" ..
  show "20 + length ?pre \<le> tx_buf ((new_txc demo_tx_env)\<lparr>tx_buf := 36\<rparr>)"
    "tx_buf ((new_txc demo_tx_env)\<lparr>tx_buf := 36\<rparr>) < 20 + length ?pre + dict_hdr_len (q_avp (snd (dict_items demo_dictionary ! 1)))"
    using len by (simp_all add: dict_items_def demo_dictionary_def demo_q_def demo_avp_def dict_hdr_len_def del: One_nat_def)
qed (simp_all add: item_entries_def demo_containers_def dict_items_def demo_dictionary_def demo_q_def)

end
