(* ===== verification/Eap_Types.thy ===== *)
theory Eap_Types
  imports Avp_Values
begin

text \<open>
  The data of the EAP library (\<open>libeap/include/eap.hxx\<close>) and the parsers of its packets
  (\<open>libeap/include/eap_parser.hxx\<close>). A message block is the memory that was allocated and its two pointers as
  offsets. \<open>ntohs\<close> is that of a little-endian host. An octet string is a list of bytes.
\<close>

unbundle bit_operations_syntax

subsection \<open>Types of EAP\<close>

type_synonym u16 = "16 word"

datatype eap_type = EapTy (ty_type: byte) (ty_vendorId: u16) (ty_vendorType: u16)

text \<open>The two constructors, for legacy and for vendor-specific types.\<close>

definition EapType :: "byte \<Rightarrow> eap_type" where
  "EapType t = EapTy t 0 0"

definition EapTypeV :: "u16 \<Rightarrow> u16 \<Rightarrow> eap_type" where
  "EapTypeV vid vty = EapTy 254 vid vty"

text \<open>\<open>EapType(0,0)\<close> in \<open>IsVSE\<close> is the vendor-specific constructor.\<close>

definition IsVSE :: "eap_type \<Rightarrow> bool" where
  "IsVSE t \<longleftrightarrow> ty_type t = 254 \<and> t \<noteq> EapTypeV 0 0"

definition list_IsVSE :: "eap_type list \<Rightarrow> bool" where
  "list_IsVSE ts = list_ex IsVSE ts"

abbreviation (input) Request :: byte where "Request \<equiv> 1"
abbreviation (input) Response :: byte where "Response \<equiv> 2"
abbreviation (input) Success :: byte where "Success \<equiv> 3"
abbreviation (input) Failure :: byte where "Failure \<equiv> 4"

datatype EapRole = Peer | Authenticator

record eap_header =
  eh_code :: byte
  eh_identifier :: byte
  eh_length :: u16

record md5_challenge =
  md_value :: "byte list"
  md_name :: "byte list"

subsection \<open>Message blocks\<close>

text \<open>The write pointer is wherever it was put last, past the memory too. Memory reads as zero until it is written.\<close>

record mblk =
  mb_mem :: "byte list"
  mb_rd :: nat
  mb_wr :: nat

definition mb_Acquire :: "nat \<Rightarrow> mblk" where
  "mb_Acquire n = \<lparr>mb_mem = replicate n 0, mb_rd = 0, mb_wr = 0\<rparr>"

text \<open>A message that has come in: memory of the message's size.\<close>

definition mb_of :: "byte list \<Rightarrow> mblk" where
  "mb_of bs = \<lparr>mb_mem = bs, mb_rd = 0, mb_wr = length bs\<rparr>"

text \<open>What a callback is handed: the bytes up to the write pointer.\<close>

definition mb_bytes :: "mblk \<Rightarrow> byte list" where
  "mb_bytes b = take (mb_wr b) (mb_mem b)"

definition overwrite :: "nat \<Rightarrow> byte list \<Rightarrow> byte list \<Rightarrow> byte list" where
  "overwrite i bs mem = take i mem @ bs @ drop (i + length bs) mem"

text \<open>\<open>ACE_Message_Block::copy\<close>: without room for all of it nothing is written and the result, which no parser looks
  at, is \<open>-1\<close>.\<close>

definition mb_copy :: "byte list \<Rightarrow> mblk \<Rightarrow> mblk" where
  "mb_copy bs b =
     (if mb_wr b + length bs \<le> length (mb_mem b)
      then b\<lparr>mb_mem := overwrite (mb_wr b) bs (mb_mem b), mb_wr := mb_wr b + length bs\<rparr>
      else b)"

text \<open>\<open>length()\<close>, and the memory from the read pointer on, \<open>n\<close> bytes of it; \<open>None\<close> when the block has not so many.\<close>

definition mb_length :: "mblk \<Rightarrow> nat" where
  "mb_length b = mb_wr b - mb_rd b"

definition mb_read :: "nat \<Rightarrow> mblk \<Rightarrow> byte list option" where
  "mb_read n b =
     (if mb_rd b + n \<le> length (mb_mem b) then Some (take n (drop (mb_rd b) (mb_mem b))) else None)"

subsection \<open>Results of a parser\<close>

text \<open>\<open>Wild\<close>: the parser reads outside the memory of the block.\<close>

datatype 'a parse = Parsed 'a | Thrown | Wild

text \<open>16-bit words in memory, high byte first, as the wire has them.\<close>

definition be16 :: "byte \<Rightarrow> byte \<Rightarrow> u16" where
  "be16 a b = (push_bit 8 (ucast a) OR ucast b)"

definition hi8 :: "u16 \<Rightarrow> byte" where "hi8 w = ucast (drop_bit 8 w)"
definition lo8 :: "u16 \<Rightarrow> byte" where "lo8 w = ucast w"

text \<open>\<open>ntohs\<close> and \<open>htons\<close> of a little-endian host.\<close>

definition ntohs :: "u16 \<Rightarrow> u16" where
  "ntohs w = be16 (lo8 w) (hi8 w)"

text \<open>The bytes of a 16-bit variable in the memory of a little-endian host.\<close>

definition mem16 :: "u16 \<Rightarrow> byte list" where
  "mem16 w = [lo8 w, hi8 w]"

lemma be16_hi_lo [simp]: "be16 (hi8 w) (lo8 w) = w"
  unfolding be16_def hi8_def lo8_def
  by (rule bit_word_eqI) (auto simp: bit_simps)

lemma hi8_be16 [simp]: "hi8 (be16 a b) = a" and lo8_be16 [simp]: "lo8 (be16 a b) = b"
  unfolding be16_def hi8_def lo8_def
  by (rule bit_word_eqI, auto simp: bit_simps dest: bit_imp_le_length)+

lemma ntohs_ntohs [simp]: "ntohs (ntohs w) = w"
  by (simp add: ntohs_def)

subsection \<open>The header\<close>

text \<open>\<open>EapHeaderParser\<close>. Reading, the write pointer is put where the length field says.\<close>

definition Header_toApp :: "mblk \<Rightarrow> (eap_header \<times> mblk) parse" where
  "Header_toApp b =
     (case mb_read 4 (b\<lparr>mb_rd := 0\<rparr>) of
        Some [c, i, l1, l0] \<Rightarrow>
          Parsed (\<lparr>eh_code = c, eh_identifier = i, eh_length = be16 l1 l0\<rparr>,
                  b\<lparr>mb_rd := 4, mb_wr := unat (be16 l1 l0)\<rparr>)
      | _ \<Rightarrow> Wild)"

definition Header_toRaw :: "eap_header \<Rightarrow> mblk \<Rightarrow> mblk parse" where
  "Header_toRaw h b =
     (if length (mb_mem b) < 4 then Wild
      else Parsed (b\<lparr>mb_mem := overwrite 0 [eh_code h, eh_identifier h, hi8 (eh_length h), lo8 (eh_length h)] (mb_mem b),
                     mb_wr := 4\<rparr>))"

subsection \<open>Requests and responses\<close>

text \<open>
  \<open>EapRequestParser\<close>. For a vendor-specific type the code applies \<open>&&\<close> where it means \<open>&\<close>, and reads one \<open>char\<close> for
  each of the two 16-bit fields; it writes four bytes of two variables that have two. What stands behind the variables
  is \<open>junk\<close>.
\<close>

definition Request_toApp :: "mblk \<Rightarrow> (eap_type \<times> mblk) parse" where
  "Request_toApp b0 =
     (let b = b0\<lparr>mb_rd := 4\<rparr>
      in case mb_read 1 b of
           Some [t] \<Rightarrow>
             if t = 254
             then let vid = (if (scast t :: u16) \<noteq> 0 then 1 else 0); b' = b\<lparr>mb_rd := 8\<rparr>
                  in case mb_read 1 b' of
                       Some [v] \<Rightarrow> Parsed (EapTypeV (ntohs vid) (ntohs (scast v)), b')
                     | _ \<Rightarrow> Wild
             else Parsed (EapType t, b\<lparr>mb_rd := 5\<rparr>)
         | _ \<Rightarrow> Wild)"

definition Request_toRaw :: "byte list \<times> byte list \<Rightarrow> eap_type \<Rightarrow> mblk \<Rightarrow> mblk" where
  "Request_toRaw junk t b0 =
     (let b = b0\<lparr>mb_wr := 4\<rparr>
      in if ty_type t \<noteq> 254 then mb_copy [ty_type t] b
         else let vid = ntohs (if ty_vendorId t \<noteq> 0 then 1 else 0); vty = ntohs (ty_vendorType t)
              in mb_copy (take 4 (mem16 vty @ snd junk)) (mb_copy (take 4 (mem16 vid @ fst junk)) b))"

subsection \<open>Nak\<close>

datatype nak_type = LegacyNak | ExtendedNak

text \<open>
  \<open>EapNakParser\<close>. Reading, the legacy loop runs over the list it appends to: over an empty list not at all, over
  another for ever, through the memory of the block and on. The extended loop runs while \<open>!msg->end()\<close>, a pointer.
\<close>

definition Nak_toApp :: "nak_type option \<Rightarrow> eap_type list \<Rightarrow> mblk \<Rightarrow> (eap_type list \<times> mblk) parse" where
  "Nak_toApp d ts b =
     (if d = None \<or> d = Some LegacyNak then (if ts = [] then Parsed (ts, b) else Wild)
      else Parsed (ts, b))"

text \<open>The 32-bit variables of the extended format hold the result of \<open>ntohs\<close>.\<close>

definition nak_vendor :: "eap_type \<Rightarrow> byte list" where
  "nak_vendor t = mem16 (ntohs (if ty_vendorId t \<noteq> 0 then 1 else 0)) @ [0, 0]"

definition nak_entry :: "eap_type \<Rightarrow> mblk \<Rightarrow> mblk" where
  "nak_entry t b =
     (let t' = (if ty_type t \<noteq> 254 then EapTypeV 0 (ucast (ty_type t)) else t)
      in mb_copy (mem16 (ntohs (ty_vendorType t')) @ [0, 0]) (mb_copy (nak_vendor t') b))"

definition Nak_toRaw :: "nak_type option \<Rightarrow> eap_type list \<Rightarrow> mblk \<Rightarrow> mblk" where
  "Nak_toRaw d ts b0 =
     (let b = Request_toRaw ([], []) (EapType 3) b0
      in if d = None \<or> d = Some LegacyNak then foldl (\<lambda>b t. mb_copy [ty_type t] b) b ts
         else foldl (\<lambda>b t. nak_entry t b)
                (mb_copy (mem16 (ntohs 3) @ [0, 0]) (mb_copy [0, 0, 0, 0] b)) ts)"

subsection \<open>Identity and notification\<close>

text \<open>
  What is between the two pointers, which the length field decides: before the read pointer it is a difference of
  \<open>size_t\<close> that wraps around.
\<close>

definition rest_size :: "mblk \<Rightarrow> nat" where
  "rest_size b = (if mb_rd b \<le> mb_wr b then mb_wr b - mb_rd b else 2 ^ 64 + mb_wr b - mb_rd b)"

text \<open>
  Whether \<open>UTF8Checker\<close>, given a string that goes on past these bytes, fails at one of them. A lead octet is followed by
  five others for it, of which the first one fails; it has to be there.
\<close>

fun utf8_stops :: "byte list \<Rightarrow> bool" where
  "utf8_stops [] = False"
| "utf8_stops (b # bs) =
     (if b \<noteq> 0 \<and> drop_bit 7 b = 0 then utf8_stops bs
      else if drop_bit 1 b = 0x76 \<or> utf8_count 5 (push_bit 1 b) = 0 then True
      else bs \<noteq> [])"

text \<open>The check of the string reads until it is through or has failed; past the end of the memory it is \<open>Wild\<close>.\<close>

definition text_toApp :: "mblk \<Rightarrow> (byte list \<times> mblk) parse" where
  "text_toApp b =
     (let n = rest_size b; avail = drop (mb_rd b) (mb_mem b)
      in if n \<le> length avail
         then (if UTF8Checker False (take n avail) then Parsed (take n avail, b\<lparr>mb_rd := length (mb_mem b)\<rparr>) else Thrown)
         else if utf8_stops avail then Thrown else Wild)"

definition text_toRaw :: "byte \<Rightarrow> byte list \<Rightarrow> mblk \<Rightarrow> mblk parse" where
  "text_toRaw t bs b0 =
     (let b = Request_toRaw ([], []) (EapType t) b0
      in if UTF8Checker True bs then Parsed (mb_copy bs b) else Thrown)"

definition Identity_toApp :: "mblk \<Rightarrow> (byte list \<times> mblk) parse" where
  "Identity_toApp b = text_toApp b"

definition Identity_toRaw :: "byte list \<Rightarrow> mblk \<Rightarrow> mblk parse" where
  "Identity_toRaw bs b = text_toRaw 1 bs b"

definition Notification_toApp :: "mblk \<Rightarrow> (byte list \<times> mblk) parse" where
  "Notification_toApp b = text_toApp b"

definition Notification_toRaw :: "byte list \<Rightarrow> mblk \<Rightarrow> mblk parse" where
  "Notification_toRaw bs b = text_toRaw 2 bs b"

subsection \<open>MD5-Challenge\<close>

text \<open>
  \<open>EapRequestMD5ChallengeParser\<close>. The value's size is believed; the length of the name is what is left of the contents,
  as a signed 16-bit number, and a negative one makes \<open>assign\<close> throw.
\<close>

definition MD5_toApp :: "mblk \<Rightarrow> (md5_challenge \<times> mblk) parse" where
  "MD5_toApp b =
     (case mb_read 1 b of
        Some [vs] \<Rightarrow>
          (let b1 = b\<lparr>mb_rd := mb_rd b + 1\<rparr>
           in case mb_read (unat vs) b1 of
                None \<Rightarrow> Wild
              | Some val \<Rightarrow>
                  let b2 = b1\<lparr>mb_rd := mb_rd b1 + unat vs\<rparr>;
                      n = sint (word_of_int (int (mb_wr b) - int (mb_rd b) - (int (unat vs) + 1)) :: u16)
                  in if vs = 0 then Thrown
                     else if n < 0 then Thrown
                     else (case mb_read (nat n) b2 of
                             None \<Rightarrow> Wild
                           | Some name \<Rightarrow>
                               Parsed (\<lparr>md_value = val, md_name = name\<rparr>, b2\<lparr>mb_rd := mb_rd b2 + nat n\<rparr>)))
      | _ \<Rightarrow> Wild)"

definition MD5_toRaw :: "md5_challenge \<Rightarrow> mblk \<Rightarrow> mblk parse" where
  "MD5_toRaw c b0 =
     (let b = Request_toRaw ([], []) (EapType 4) b0; vs = (of_nat (length (md_value c)) :: byte)
      in if vs = 0 then Thrown
         else Parsed (mb_copy (md_name c) (mb_copy (take (unat vs) (md_value c)) (mb_copy [vs] b))))"

subsection \<open>Composing a packet\<close>

text \<open>
  The lines every action that sends a packet has: the header goes in front of the payload, with the length of the block
  as it stands, and the write pointer is put to the end.
\<close>

definition compose_pdu :: "byte \<Rightarrow> byte \<Rightarrow> mblk \<Rightarrow> mblk parse" where
  "compose_pdu code i b =
     (let len = (of_nat (mb_length b) :: u16)
      in case Header_toRaw \<lparr>eh_code = code, eh_identifier = i, eh_length = len\<rparr> b of
           Parsed b' \<Rightarrow> Parsed (b'\<lparr>mb_wr := unat len\<rparr>)
         | _ \<Rightarrow> Wild)"

text \<open>A packet of four bytes, for \<open>Success\<close> and \<open>Failure\<close>.\<close>

definition final_pdu :: "byte \<Rightarrow> byte \<Rightarrow> mblk" where
  "final_pdu code i =
     (case Header_toRaw \<lparr>eh_code = code, eh_identifier = i, eh_length = 4\<rparr> (mb_Acquire 4) of
        Parsed b \<Rightarrow> b | _ \<Rightarrow> mb_Acquire 4)"

subsection \<open>What is written is read back\<close>

text \<open>The bytes of a request or response with a legacy type.\<close>

definition packet :: "byte \<Rightarrow> byte \<Rightarrow> byte \<Rightarrow> byte list \<Rightarrow> byte list" where
  "packet code i t body =
     (let len = (of_nat (5 + length body) :: u16) in [code, i, hi8 len, lo8 len, t] @ body)"

lemma overwrite_here: "overwrite (length xs) ys (xs @ zs) = xs @ ys @ drop (length ys) zs"
  by (simp add: overwrite_def)

lemma utf8_stops_sound: "utf8_stops bs \<Longrightarrow> \<not> UTF8Checker False (bs @ cs)"
proof (induction bs rule: utf8_stops.induct)
  case 1
  then show ?case by simp
next
  case (2 b bs)
  have tail: "utf8_tail n (c # cs) = None" if "0 < n" for n c cs
  proof (cases n)
    case 0
    with that show ?thesis by simp
  next
    case (Suc m)
    have "sint c < 2 ^ 7" "- (2 ^ 7) \<le> sint c" using sint_lt [of c] sint_ge [of c] by simp_all
    then have "sint c div 2 ^ 6 \<noteq> 2" by simp
    with Suc show ?thesis by simp
  qed
  show ?case
  proof (cases "b \<noteq> 0 \<and> drop_bit 7 b = 0")
    case True
    with 2 show ?thesis by (simp add: drop_bit_eq_div)
  next
    case False
    with 2 show ?thesis
      by (cases bs) (auto simp: Let_def tail split: option.splits if_splits)
  qed
qed

lemma Request_legacy: "t \<noteq> 254 \<Longrightarrow> Request_toRaw j (EapType t) b = mb_copy [t] (b\<lparr>mb_wr := 4\<rparr>)"
  by (simp add: Request_toRaw_def EapType_def Let_def)

lemma typed_block:
  assumes "t \<noteq> 254" "n = 5 + length bs"
  shows "mb_copy bs (Request_toRaw j (EapType t) (mb_Acquire n))
           = \<lparr>mb_mem = [0, 0, 0, 0, t] @ bs, mb_rd = 0, mb_wr = 5 + length bs\<rparr>"
  using assms
  by (simp add: Request_toRaw_def EapType_def mb_copy_def mb_Acquire_def overwrite_def Let_def
      numeral_eq_Suc replicate_append_same)

lemma unat16: "n < 2 ^ 16 \<Longrightarrow> unat (of_nat n :: u16) = n"
  by (simp add: unsigned_of_nat take_bit_nat_eq_self)

lemma unat16_plus: "n < 65531 \<Longrightarrow> unat (5 + of_nat n :: u16) = 5 + n"
  using unat16 [of "5 + n"] by simp

lemma mb_copy_here:
  assumes "length ys \<le> length zs"
  shows "mb_copy ys \<lparr>mb_mem = xs @ zs, mb_rd = r, mb_wr = length xs\<rparr>
           = \<lparr>mb_mem = xs @ ys @ drop (length ys) zs, mb_rd = r, mb_wr = length xs + length ys\<rparr>"
  using assms by (simp add: mb_copy_def overwrite_here)

lemma compose_typed:
  assumes "length body + 5 < 2 ^ 16"
  shows "compose_pdu code i \<lparr>mb_mem = [0, 0, 0, 0, t] @ body, mb_rd = 0, mb_wr = 5 + length body\<rparr>
           = Parsed \<lparr>mb_mem = packet code i t body, mb_rd = 0, mb_wr = length (packet code i t body)\<rparr>"
  using assms
  by (simp add: compose_pdu_def Header_toRaw_def mb_length_def packet_def overwrite_def Let_def
      unat16_plus)

lemma packet_length [simp]: "length (packet code i t body) = 5 + length body"
  by (simp add: packet_def Let_def)

lemma Header_of_packet:
  assumes "length body + 5 < 2 ^ 16"
  shows "Header_toApp (mb_of (packet code i t body))
           = Parsed (\<lparr>eh_code = code, eh_identifier = i, eh_length = of_nat (5 + length body)\<rparr>,
                     \<lparr>mb_mem = packet code i t body, mb_rd = 4, mb_wr = 5 + length body\<rparr>)"
  using assms
  by (simp add: Header_toApp_def mb_read_def mb_of_def packet_def Let_def
      unat16_plus)

lemma Request_of_packet:
  assumes "t \<noteq> 254"
  shows "Request_toApp (b\<lparr>mb_mem := packet code i t body\<rparr>) =
           Parsed (EapType t, b\<lparr>mb_mem := packet code i t body, mb_rd := 5\<rparr>)"
  using assms
  by (cases b) (simp add: Request_toApp_def mb_read_def packet_def Let_def)

lemma text_of_packet:
  assumes "UTF8Checker False body"
  shows "text_toApp \<lparr>mb_mem = packet code i t body, mb_rd = 5, mb_wr = 5 + length body\<rparr> =
           Parsed (body, \<lparr>mb_mem = packet code i t body, mb_rd = 5 + length body, mb_wr = 5 + length body\<rparr>)"
  using assms
  by (simp add: text_toApp_def rest_size_def packet_def Let_def)

definition md5_ok :: "md5_challenge \<Rightarrow> bool" where
  "md5_ok c \<longleftrightarrow> 0 < length (md_value c) \<and> length (md_value c) < 256 \<and> length (md_name c) < 2 ^ 15"

definition md5_body :: "md5_challenge \<Rightarrow> byte list" where
  "md5_body c = of_nat (length (md_value c)) # md_value c @ md_name c"

lemma md5_written:
  assumes "md5_ok c" "n = 6 + length (md_value c) + length (md_name c)"
  shows "MD5_toRaw c (mb_Acquire n)
           = Parsed \<lparr>mb_mem = [0, 0, 0, 0, 4] @ md5_body c, mb_rd = 0, mb_wr = 5 + length (md5_body c)\<rparr>"
proof -
  have vs: "unat (of_nat (length (md_value c)) :: byte) = length (md_value c)"
    using assms by (simp add: md5_ok_def unsigned_of_nat take_bit_nat_eq_self)
  then have "(of_nat (length (md_value c)) :: byte) \<noteq> 0"
    using assms by (metis md5_ok_def less_nat_zero_code unat_0)
  let ?v = "md_value c" and ?n = "md_name c"
  have 1: "Request_toRaw ([], []) (EapType 4) (mb_Acquire n)
      = \<lparr>mb_mem = [0, 0, 0, 0, 4] @ replicate (1 + length ?v + length ?n) 0, mb_rd = 0, mb_wr = length [0, 0, 0, 0, 4 :: byte]\<rparr>"
  proof -
    have "replicate n (0 :: byte) = [0, 0, 0, 0] @ replicate (2 + length ?v + length ?n) 0"
      using assms(2) by (simp add: eval_nat_numeral)
    then show ?thesis
      using mb_copy_here [of "[4]" "replicate (2 + length ?v + length ?n) 0" "[0, 0, 0, 0]" 0]
      by (simp add: Request_legacy mb_Acquire_def) (simp add: eval_nat_numeral)
  qed
  have 2: "mb_copy [w] \<lparr>mb_mem = [0, 0, 0, 0, 4] @ replicate (1 + length ?v + length ?n) 0, mb_rd = 0,
        mb_wr = length [0, 0, 0, 0, 4 :: byte]\<rparr>
      = \<lparr>mb_mem = [0, 0, 0, 0, 4, w] @ replicate (length ?v + length ?n) 0, mb_rd = 0,
         mb_wr = length [0, 0, 0, 0, 4, w]\<rparr>" for w
    by (subst mb_copy_here) simp_all
  have 3: "mb_copy ?v \<lparr>mb_mem = [0, 0, 0, 0, 4, w] @ replicate (length ?v + length ?n) 0, mb_rd = 0,
        mb_wr = length [0, 0, 0, 0, 4, w]\<rparr>
      = \<lparr>mb_mem = ([0, 0, 0, 0, 4, w] @ ?v) @ replicate (length ?n) 0, mb_rd = 0,
         mb_wr = length ([0, 0, 0, 0, 4, w] @ ?v)\<rparr>" for w
    by (subst mb_copy_here) simp_all
  have 4: "mb_copy ?n \<lparr>mb_mem = ([0, 0, 0, 0, 4, w] @ ?v) @ replicate (length ?n) 0, mb_rd = 0,
        mb_wr = length ([0, 0, 0, 0, 4, w] @ ?v)\<rparr>
      = \<lparr>mb_mem = [0, 0, 0, 0, 4, w] @ ?v @ ?n, mb_rd = 0, mb_wr = 6 + length ?v + length ?n\<rparr>" for w
    by (subst mb_copy_here) simp_all
  show ?thesis
    using \<open>(of_nat (length ?v) :: byte) \<noteq> 0\<close> vs
    unfolding MD5_toRaw_def Let_def 1 vs take_all [OF order_refl] 2 3 4
    by (simp add: md5_body_def)
qed

lemma drop6: "drop (6 + n) (a # b # c # d # e # f # xs) = drop n xs"
  by (simp add: numeral_eq_Suc)

lemma md5_of_packet:
  assumes "md5_ok c"
  shows "MD5_toApp \<lparr>mb_mem = packet code i 4 (md5_body c), mb_rd = 5, mb_wr = 5 + length (md5_body c)\<rparr> =
           Parsed (c, \<lparr>mb_mem = packet code i 4 (md5_body c), mb_rd = 5 + length (md5_body c),
                       mb_wr = 5 + length (md5_body c)\<rparr>)"
proof -
  have vs: "unat (of_nat (length (md_value c)) :: byte) = length (md_value c)"
    using assms by (simp add: md5_ok_def unsigned_of_nat take_bit_nat_eq_self)
  then have nz: "(of_nat (length (md_value c)) :: byte) \<noteq> 0"
    using assms by (metis md5_ok_def less_nat_zero_code unat_0)
  have nl: "sint (word_of_int (int (length (md_name c))) :: u16) = int (length (md_name c))"
    using assms by (simp add: md5_ok_def signed_of_nat signed_take_bit_int_eq_self)
  show ?thesis using vs nz nl
    by (cases c) (simp add: MD5_toApp_def mb_read_def packet_def md5_body_def Let_def drop6)
qed

end
