(* ===== verification/Eap_Policy.thy ===== *)
theory Eap_Policy
  imports Eap_Types
begin

text \<open>
  The authentication policy, \<open>libeap/include/eap_policy.hxx\<close> and \<open>libeap/eapcore/eap_policy.cxx\<close>: elements that point
  to the element to go on with after a success and after a failure. The leaves are two singletons. The continued
  elements of an application are a store indexed by number.
\<close>

subsection \<open>Elements\<close>

datatype peref = PNull | PSucc | PFail | PElem nat

datatype policy_switch = PolicyOnSuccess | PolicyOnFailure

record pe_node =
  pe_onSuccess :: peref
  pe_onFailure :: peref
  pe_method :: eap_type

text \<open>The constructor of \<open>EapContinuedPolicyElement\<close>.\<close>

definition new_pe :: "eap_type \<Rightarrow> pe_node" where
  "new_pe t = \<lparr>pe_onSuccess = PSucc, pe_onFailure = PFail, pe_method = t\<rparr>"

definition next_of :: "policy_switch \<Rightarrow> pe_node \<Rightarrow> peref" where
  "next_of sw e = (if sw = PolicyOnSuccess then pe_onSuccess e else pe_onFailure e)"

definition AddContinuedPolicyElement :: "peref \<Rightarrow> policy_switch \<Rightarrow> pe_node \<Rightarrow> pe_node" where
  "AddContinuedPolicyElement p sw e =
     (if sw = PolicyOnSuccess then e\<lparr>pe_onSuccess := p\<rparr> else e\<lparr>pe_onFailure := p\<rparr>)"

definition AddSuccessPolicyElement :: "policy_switch \<Rightarrow> pe_node \<Rightarrow> pe_node" where
  "AddSuccessPolicyElement sw e =
     (if sw = PolicyOnSuccess then e\<lparr>pe_onSuccess := PSucc\<rparr> else e\<lparr>pe_onFailure := PSucc\<rparr>)"

text \<open>What is added is the instance of \<open>EapSuccessPolicyElement_S\<close>.\<close>

definition AddFailurePolicyElement :: "pe_node \<Rightarrow> pe_node" where
  "AddFailurePolicyElement e = e\<lparr>pe_onFailure := PSucc\<rparr>"

subsection \<open>The policy of a session\<close>

record policy =
  po_elems :: "nat \<Rightarrow> pe_node"
  po_initial :: peref
  po_current :: peref
  po_inner :: eap_type

text \<open>\<open>None\<close>: a null pointer is read.\<close>

definition NextPolicyElement :: "policy_switch \<Rightarrow> policy \<Rightarrow> peref option" where
  "NextPolicyElement sw p =
     (case po_current p of
        PNull \<Rightarrow> None
      | PSucc \<Rightarrow> Some PNull
      | PFail \<Rightarrow> Some PNull
      | PElem i \<Rightarrow> Some (next_of sw (po_elems p i)))"

definition Allow :: "eap_type \<Rightarrow> policy \<Rightarrow> bool" where
  "Allow t p =
     (if t = EapType 2 then True
      else case po_current p of
             PNull \<Rightarrow> False
           | PSucc \<Rightarrow> True
           | PFail \<Rightarrow> False
           | PElem i \<Rightarrow> pe_method (po_elems p i) = t)"

definition IsSatisfied :: "policy \<Rightarrow> bool" where
  "IsSatisfied p = (case po_current p of PSucc \<Rightarrow> True | _ \<Rightarrow> False)"

text \<open>\<open>None\<close> is the exception \<open>NoCurrentMethod\<close>.\<close>

definition policy_method :: "policy \<Rightarrow> eap_type option" where
  "policy_method p = (case po_current p of PElem i \<Rightarrow> Some (pe_method (po_elems p i)) | _ \<Rightarrow> None)"

definition Update :: "policy_switch \<Rightarrow> policy \<Rightarrow> policy" where
  "Update sw p =
     (case po_current p of
        PElem i \<Rightarrow> p\<lparr>po_current := next_of sw (po_elems p i)\<rparr>
      | _ \<Rightarrow> p)"

subsection \<open>Going on after a Nak\<close>

text \<open>
  \<open>Update(EapTypeList&)\<close>. After a step the element reached is taken for a continued one: the method type of a leaf, or
  through a null pointer, is outside the object (\<open>Wild\<close>). Over a cycle of failure branches the loop need not end, so
  the function is partial.
\<close>

partial_function (option) Update_types :: "eap_type list \<Rightarrow> policy \<Rightarrow> policy parse option" where
  "Update_types ts p =
     (case po_current p of
        PElem i \<Rightarrow>
          let p' = Update PolicyOnFailure p
          in if ts = [] then Some (Parsed p')
             else (case po_current p' of
                     PElem j \<Rightarrow> if pe_method (po_elems p' j) \<in> set ts then Some (Parsed p') else Update_types ts p'
                   | _ \<Rightarrow> Some Wild)
      | _ \<Rightarrow> Some (Parsed p))"

declare Update_types.simps [code]

subsection \<open>The list of a Nak\<close>

text \<open>
  \<open>MakeTypeList\<close> with three arguments calls the one with two for the branches, with a pointer for its second
  argument; that one starts at the current element again. The calls nest at most three deep, which is the number the
  public function gives.
\<close>

fun make_list :: "nat \<Rightarrow> policy \<Rightarrow> eap_type list \<Rightarrow> bool \<Rightarrow> eap_type list" where
  "make_list 0 p ts v = ts"
| "make_list (Suc n) p ts v =
     (let ts' = (case po_current p of
        PElem i \<Rightarrow>
          let e = po_elems p i;
              t = (if \<not> v \<and> IsVSE (pe_method e) then EapType 254 else pe_method e)
          in if t \<in> set ts then ts
             else make_list n p (make_list n p (ts @ [t]) (pe_onSuccess e \<noteq> PNull)) (pe_onFailure e \<noteq> PNull)
      | _ \<Rightarrow> ts)
      in if ts' = [] then [EapType 0] else ts')"

definition MakeTypeList :: "bool \<Rightarrow> policy \<Rightarrow> eap_type list" where
  "MakeTypeList v p = make_list 3 p [] v"

subsection \<open>What the operations do\<close>

lemma Update_leaf [simp]: "po_current p \<in> {PNull, PSucc, PFail} \<Longrightarrow> Update sw p = p"
  by (auto simp: Update_def)

lemma Update_elem [simp]:
  "po_current p = PElem i \<Longrightarrow> Update sw p = p\<lparr>po_current := next_of sw (po_elems p i)\<rparr>"
  by (simp add: Update_def)

lemma Update_keeps [simp]:
  "po_elems (Update sw p) = po_elems p" "po_initial (Update sw p) = po_initial p" "po_inner (Update sw p) = po_inner p"
  by (simp_all add: Update_def split: peref.split)

lemma Update_types_Nil:
  "Update_types [] p = Some (Parsed (Update PolicyOnFailure p))"
  by (subst Update_types.simps) (simp add: Let_def Update_def split: peref.split)

text \<open>With a list that is not empty, the element it stops at has one of the types, and it stops nowhere else: a chain
  of failure branches that ends in a leaf leads outside the objects.\<close>

lemma Update_types_stops:
  "Update_types ts p = Some r \<Longrightarrow> ts \<noteq> [] \<longrightarrow> (\<exists>i. po_current p = PElem i) \<longrightarrow>
     (case r of Parsed p' \<Rightarrow> \<exists>j. po_current p' = PElem j \<and> pe_method (po_elems p' j) \<in> set ts | _ \<Rightarrow> True)"
proof (induction rule: Update_types.raw_induct [rotated, consumes 1])
  case (1 f ts p r)
  then show ?case
    by (auto simp: Let_def split: peref.splits if_splits)
qed

lemma Update_types_matches:
  "Update_types ts p = Some (Parsed p') \<Longrightarrow> ts \<noteq> [] \<Longrightarrow> po_current p = PElem i \<Longrightarrow>
     \<exists>j. po_current p' = PElem j \<and> pe_method (po_elems p' j) \<in> set ts"
  using Update_types_stops [of ts p "Parsed p'"] by simp

text \<open>
  The list has the current element's type only, and twice when it is vendor-specific and the request was not. What the
  branches of the policy allow never gets into it.
\<close>

lemma MakeTypeList_elem:
  assumes "po_current p = PElem i"
  shows "MakeTypeList v p =
           (let e = po_elems p i; t = pe_method e
            in if IsVSE t \<and> \<not> v \<and> (pe_onSuccess e \<noteq> PNull \<or> pe_onFailure e \<noteq> PNull) then [EapType 254, t]
               else if IsVSE t \<and> v \<and> (pe_onSuccess e = PNull \<or> pe_onFailure e = PNull) then [t, EapType 254]
               else if IsVSE t \<and> \<not> v then [EapType 254]
               else [t])"
proof -
  have "IsVSE t \<Longrightarrow> t \<noteq> EapType 254" for t
    by (auto simp: IsVSE_def EapType_def EapTypeV_def)
  then have ne: "IsVSE (pe_method (po_elems p i)) \<Longrightarrow> pe_method (po_elems p i) \<noteq> EapType 254"
    "IsVSE (pe_method (po_elems p i)) \<Longrightarrow> EapType 254 \<noteq> pe_method (po_elems p i)" by metis+
  show ?thesis
    using assms ne
    by (cases "IsVSE (pe_method (po_elems p i))"; cases v; cases "pe_onSuccess (po_elems p i) = PNull";
        cases "pe_onFailure (po_elems p i) = PNull")
      (simp_all add: MakeTypeList_def numeral_3_eq_3 Let_def)
qed

lemma MakeTypeList_leaf: "po_current p \<in> {PNull, PSucc, PFail} \<Longrightarrow> MakeTypeList v p = [EapType 0]"
  by (auto simp: MakeTypeList_def numeral_3_eq_3)

lemma make_list_depth:
  "make_list (Suc (Suc (Suc n))) p [] v = make_list 3 p [] v"
proof (cases "po_current p")
  case (PElem i)
  have "IsVSE t \<Longrightarrow> t \<noteq> EapType 254" for t
    by (auto simp: IsVSE_def EapType_def EapTypeV_def)
  then have ne: "IsVSE (pe_method (po_elems p i)) \<Longrightarrow> pe_method (po_elems p i) \<noteq> EapType 254"
    "IsVSE (pe_method (po_elems p i)) \<Longrightarrow> EapType 254 \<noteq> pe_method (po_elems p i)" by metis+
  show ?thesis
    using PElem ne
    by (cases n; cases "IsVSE (pe_method (po_elems p i))"; cases v; cases "pe_onSuccess (po_elems p i) = PNull";
        cases "pe_onFailure (po_elems p i) = PNull")
      (simp_all add: numeral_3_eq_3 Let_def)
qed (simp_all add: numeral_3_eq_3)

end
