(* ===== verification/Eap_Fsm.thy ===== *)
theory Eap_Fsm
  imports Framework_Fsm Eap_Policy
begin

text \<open>
  What the machines of the EAP library share, \<open>libeap/include/eap_fsm.hxx\<close>, \<open>libeap/eapcore/eap_fsm.cxx\<close> and
  \<open>libeap/include/eap_method_registrar.hxx\<close>: the job multiplexor, the switch machine with the machine of the method
  that is running, and the way events go between the two. The group job a session belongs to is running, so
  \<open>Schedule\<close> does not fail; it serves the multiplexor once for each \<open>Schedule\<close>.
\<close>

subsection \<open>Records\<close>

datatype job = JobSwitch | JobMethod nat

text \<open>The two pointers to a method machine that a switch machine has.\<close>

datatype slot = OuterMethod | InnerMethod

text \<open>An \<open>Event\<close> call in tail position: every action of the library that calls \<open>Event\<close> returns after it.\<close>

datatype ('e, 'me) raise = RSwitch 'e | RMethod slot 'me

text \<open>
  \<open>Blocked\<close>: the thread sleeps in \<open>dequeue_head\<close> of an empty queue, inside the action of the state the machine is in; it
  goes on with the action once another thread has put a message there. \<open>Looping\<close>: a walk over the policy goes round for
  ever. \<open>Crashed\<close>: a null or dangling pointer was used, memory outside a message was read, or an exception left the
  action. One thread serves a session: while it sleeps nothing else of the session is served.
\<close>

datatype health = Alive | Blocked | Looping | Crashed

text \<open>The callbacks of the application, with the bytes they are given.\<close>

datatype eap_out =
    OutSend "byte list"
  | OutSuccessMsg "byte list"
  | OutFailureMsg "byte list"
  | OutSuccess
  | OutFailure
  | OutAbort
  | OutNotification "byte list"
  | OutForward "byte list option"

text \<open>\<open>EapMethodStateMachine\<close>. The number stands for the address of the object.\<close>

record ('ms, 'me) eap_method = "('ms, 'me) fsm" +
  em_id :: nat
  em_events :: "'me list"
  em_isDone :: bool
  em_keyData :: "byte list"

record ('s, 'e, 'me, 'mm) eap_switch = "('s, 'e) fsm" +
  sw_events :: "'e list"
  sw_mux :: "job list"
  sw_raised :: "('e, 'me) raise option"
  sw_health :: health
  sw_out :: "eap_out list"
  sw_currentMethod :: eap_type
  sw_tx :: "mblk option"
  sw_rx :: "mblk option"
  sw_rxQueue :: "mblk list"
  sw_id :: byte
  sw_peerIdentity :: "byte list"
  sw_authIdentity :: "byte list"
  sw_policy :: policy
  sw_method :: "'mm option"
  sw_inner :: "'mm option"
  sw_discard :: nat
  sw_keyAvailable :: bool
  sw_keyData :: "byte list"
  sw_next :: nat

type_synonym ('s, 'e, 'ms, 'me, 'y, 'z) switch =
  "('s, 'e, 'me, ('ms, 'me, 'y) eap_method_scheme, 'z) eap_switch_scheme"

subsection \<open>Small steps of an action\<close>

definition sw_Event :: "'e \<Rightarrow> ('s, 'e, 'me, 'mm, 'z) eap_switch_scheme \<Rightarrow> ('s, 'e, 'me, 'mm, 'z) eap_switch_scheme" where
  "sw_Event ev s = s\<lparr>sw_raised := Some (RSwitch ev)\<rparr>"

definition m_Event :: "slot \<Rightarrow> 'me \<Rightarrow> ('s, 'e, 'me, 'mm, 'z) eap_switch_scheme \<Rightarrow> ('s, 'e, 'me, 'mm, 'z) eap_switch_scheme" where
  "m_Event sl ev s = s\<lparr>sw_raised := Some (RMethod sl ev)\<rparr>"

definition crash :: "('s, 'e, 'me, 'mm, 'z) eap_switch_scheme \<Rightarrow> ('s, 'e, 'me, 'mm, 'z) eap_switch_scheme" where
  "crash s = s\<lparr>sw_health := Crashed\<rparr>"

definition block :: "('s, 'e, 'me, 'mm, 'z) eap_switch_scheme \<Rightarrow> ('s, 'e, 'me, 'mm, 'z) eap_switch_scheme" where
  "block s = s\<lparr>sw_health := Blocked\<rparr>"

definition loop :: "('s, 'e, 'me, 'mm, 'z) eap_switch_scheme \<Rightarrow> ('s, 'e, 'me, 'mm, 'z) eap_switch_scheme" where
  "loop s = s\<lparr>sw_health := Looping\<rparr>"

definition wake :: "('s, 'e, 'me, 'mm, 'z) eap_switch_scheme \<Rightarrow> ('s, 'e, 'me, 'mm, 'z) eap_switch_scheme" where
  "wake s = s\<lparr>sw_health := Alive\<rparr>"

definition callback :: "eap_out \<Rightarrow> ('s, 'e, 'me, 'mm, 'z) eap_switch_scheme \<Rightarrow> ('s, 'e, 'me, 'mm, 'z) eap_switch_scheme" where
  "callback o' s = s\<lparr>sw_out := sw_out s @ [o']\<rparr>"

text \<open>\<open>EapStateMachine::Notify\<close> of the switch machine: the event is queued, the machine scheduled to the multiplexor.\<close>

definition sw_Notify :: "'e \<Rightarrow> ('s, 'e, 'me, 'mm, 'z) eap_switch_scheme \<Rightarrow> ('s, 'e, 'me, 'mm, 'z) eap_switch_scheme" where
  "sw_Notify ev s = s\<lparr>sw_events := sw_events s @ [ev], sw_mux := sw_mux s @ [JobSwitch]\<rparr>"

definition method_at :: "slot \<Rightarrow> ('s, 'e, 'me, 'mm, 'z) eap_switch_scheme \<Rightarrow> 'mm option" where
  "method_at sl s = (case sl of OuterMethod \<Rightarrow> sw_method s | InnerMethod \<Rightarrow> sw_inner s)"

definition put_method :: "slot \<Rightarrow> 'mm \<Rightarrow> ('s, 'e, 'me, 'mm, 'z) eap_switch_scheme \<Rightarrow> ('s, 'e, 'me, 'mm, 'z) eap_switch_scheme" where
  "put_method sl m s =
     (case sl of OuterMethod \<Rightarrow> s\<lparr>sw_method := Some m\<rparr> | InnerMethod \<Rightarrow> s\<lparr>sw_inner := Some m\<rparr>)"

text \<open>A block that uses a method machine through its pointer.\<close>

definition with_method ::
  "slot \<Rightarrow> ('mm \<Rightarrow> ('s, 'e, 'me, 'mm, 'z) eap_switch_scheme \<Rightarrow> ('s, 'e, 'me, 'mm, 'z) eap_switch_scheme)
   \<Rightarrow> ('s, 'e, 'me, 'mm, 'z) eap_switch_scheme \<Rightarrow> ('s, 'e, 'me, 'mm, 'z) eap_switch_scheme" where
  "with_method sl f s = (case method_at sl s of None \<Rightarrow> crash s | Some m \<Rightarrow> f m s)"

text \<open>\<open>MethodStateMachine().Notify(ev)\<close>.\<close>

definition m_Notify ::
  "slot \<Rightarrow> 'me \<Rightarrow> ('s, 'e, 'me, ('ms, 'me, 'y) eap_method_scheme, 'z) eap_switch_scheme
   \<Rightarrow> ('s, 'e, 'me, ('ms, 'me, 'y) eap_method_scheme, 'z) eap_switch_scheme" where
  "m_Notify sl ev =
     with_method sl (\<lambda>m s. (put_method sl (m\<lparr>em_events := em_events m @ [ev]\<rparr>) s)
                              \<lparr>sw_mux := sw_mux s @ [JobMethod (em_id m)]\<rparr>)"

text \<open>\<open>MethodStateMachine().Start()\<close>, which the core methods leave to the state machine of the framework.\<close>

definition m_Start ::
  "slot \<Rightarrow> 'ms \<Rightarrow> ('s, 'e, 'me, ('ms, 'me, 'y) eap_method_scheme, 'z) eap_switch_scheme
   \<Rightarrow> ('s, 'e, 'me, ('ms, 'me, 'y) eap_method_scheme, 'z) eap_switch_scheme" where
  "m_Start sl initial = with_method sl (\<lambda>m. put_method sl (fsm_Start initial m))"

subsection \<open>The registrar of methods\<close>

text \<open>The table of methods: type, role, and what the creator makes.\<close>

fun find_creator :: "(eap_type \<times> EapRole \<times> 'c) list \<Rightarrow> eap_type \<Rightarrow> EapRole \<Rightarrow> 'c option" where
  "find_creator [] t r = None"
| "find_creator ((t', r', c) # es) t r = (if t' = t \<and> r' = r then Some c else find_creator es t r)"

definition DeleteMethodStateMachine ::
  "('s, 'e, 'me, 'mm, 'z) eap_switch_scheme \<Rightarrow> ('s, 'e, 'me, 'mm, 'z) eap_switch_scheme" where
  "DeleteMethodStateMachine s =
     (case sw_method s of
        None \<Rightarrow> s
      | Some m \<Rightarrow> s\<lparr>sw_method := None, sw_currentMethod := EapType 0\<rparr>)"

text \<open>\<open>CreateMethodStateMachine\<close>; \<open>new\<close> makes the object at an address.\<close>

definition CreateMethodStateMachine ::
  "(eap_type \<times> EapRole \<times> 'c) list \<Rightarrow> ('c \<Rightarrow> nat \<Rightarrow> 'mm) \<Rightarrow> eap_type \<Rightarrow> EapRole \<Rightarrow> eap_type
   \<Rightarrow> ('s, 'e, 'me, 'mm, 'z) eap_switch_scheme \<Rightarrow> ('s, 'e, 'me, 'mm, 'z) eap_switch_scheme" where
  "CreateMethodStateMachine tbl new t role innerType s =
     (case find_creator tbl t role of
        None \<Rightarrow> callback OutAbort s
      | Some c \<Rightarrow>
          let s1 = s\<lparr>sw_method := Some (new c (sw_next s)), sw_next := sw_next s + 1\<rparr>
          in if innerType = EapType 0 then s1
             else (case find_creator tbl innerType role of
                     None \<Rightarrow> callback OutAbort s1
                   | Some c' \<Rightarrow> s1\<lparr>sw_inner := Some (new c' (sw_next s1)), sw_next := sw_next s1 + 1\<rparr>))"

subsection \<open>Running events\<close>

text \<open>The \<open>Event\<close> of a method machine, whose actions work on the switch machine too.\<close>

definition method_Event ::
  "(('ms, 'me, 'y) eap_method_scheme \<Rightarrow> ('ms, 'me, 'ma) fsm_entry list)
   \<Rightarrow> ('ma \<Rightarrow> slot \<Rightarrow> ('s, 'e, 'ms, 'me, 'y, 'z) switch \<Rightarrow> ('s, 'e, 'ms, 'me, 'y, 'z) switch)
   \<Rightarrow> slot \<Rightarrow> 'me \<Rightarrow> ('s, 'e, 'ms, 'me, 'y, 'z) switch \<Rightarrow> ('s, 'e, 'ms, 'me, 'y, 'z) switch" where
  "method_Event tbl act sl ev =
     with_method sl (\<lambda>m s.
       if \<not> fsm_running m then s
       else case FindStateTableEntry (tbl m) (fsm_state m) ev of
              None \<Rightarrow> s
            | Some e \<Rightarrow> act (entryAction e) sl (put_method sl (m\<lparr>fsm_state := nextState e\<rparr>) s))"

text \<open>
  The calls of \<open>Event\<close> that follow from one event. The number bounds how many; the theories of the machines show the
  number they give is enough for every state.
\<close>

fun settle ::
  "('e \<Rightarrow> ('s, 'e, 'me, 'mm, 'z) eap_switch_scheme \<Rightarrow> ('s, 'e, 'me, 'mm, 'z) eap_switch_scheme)
   \<Rightarrow> (slot \<Rightarrow> 'me \<Rightarrow> ('s, 'e, 'me, 'mm, 'z) eap_switch_scheme \<Rightarrow> ('s, 'e, 'me, 'mm, 'z) eap_switch_scheme)
   \<Rightarrow> nat \<Rightarrow> ('s, 'e, 'me, 'mm, 'z) eap_switch_scheme \<Rightarrow> ('s, 'e, 'me, 'mm, 'z) eap_switch_scheme" where
  "settle sstep mstep 0 s = s"
| "settle sstep mstep (Suc n) s =
     (if sw_health s \<noteq> Alive then s
      else case sw_raised s of
             None \<Rightarrow> s
           | Some (RSwitch e) \<Rightarrow> settle sstep mstep n (sstep e (s\<lparr>sw_raised := None\<rparr>))
           | Some (RMethod sl e) \<Rightarrow> settle sstep mstep n (mstep sl e (s\<lparr>sw_raised := None\<rparr>)))"

text \<open>No step of a chain is left to do: no event has been raised, or an action has not come back.\<close>

definition at_rest :: "('s, 'e, 'me, 'mm, 'z) eap_switch_scheme \<Rightarrow> bool" where
  "at_rest s \<longleftrightarrow> sw_health s \<noteq> Alive \<or> sw_raised s = None"

text \<open>Where the object at an address is. One that was deleted is nowhere.\<close>

definition slot_of :: "nat \<Rightarrow> ('s, 'e, 'ms, 'me, 'y, 'z) switch \<Rightarrow> slot option" where
  "slot_of i s =
     (if map_option em_id (sw_method s) = Some i then Some OuterMethod
      else if map_option em_id (sw_inner s) = Some i then Some InnerMethod
      else None)"

text \<open>
  \<open>EapJobMultiplexor::Serve\<close> with the \<open>Serve\<close> of the machine it calls, up to the event that is then to be run. There is
  an event for each job; without one nothing is run.
\<close>

definition serve_next :: "('s, 'e, 'ms, 'me, 'y, 'z) switch \<Rightarrow> ('s, 'e, 'ms, 'me, 'y, 'z) switch" where
  "serve_next s =
     (case sw_mux s of
        [] \<Rightarrow> s
      | JobSwitch # q \<Rightarrow>
          (case sw_events s of
             [] \<Rightarrow> s\<lparr>sw_mux := q\<rparr>
           | e # es \<Rightarrow> sw_Event e (s\<lparr>sw_mux := q, sw_events := es\<rparr>))
      | JobMethod i # q \<Rightarrow>
          (case slot_of i s of
             None \<Rightarrow> crash (s\<lparr>sw_mux := q\<rparr>)
           | Some sl \<Rightarrow>
               with_method sl (\<lambda>m s'.
                 case em_events m of
                   [] \<Rightarrow> s'
                 | e # es \<Rightarrow> m_Event sl e (put_method sl (m\<lparr>em_events := es\<rparr>) s')) (s\<lparr>sw_mux := q\<rparr>)))"

text \<open>\<open>EapStateMachine::Stop\<close> with the \<open>Flush\<close> of the multiplexor: the jobs go, the events stay.\<close>

definition sw_Stop :: "('s, 'e, 'me, 'mm, 'z) eap_switch_scheme \<Rightarrow> ('s, 'e, 'me, 'mm, 'z) eap_switch_scheme" where
  "sw_Stop s = (fsm_Stop s)\<lparr>sw_mux := []\<rparr>"

text \<open>\<open>Receive\<close>, and a timer the reactor fires.\<close>

definition sw_Receive ::
  "'e \<Rightarrow> mblk \<Rightarrow> ('s, 'e, 'me, 'mm, 'z) eap_switch_scheme \<Rightarrow> ('s, 'e, 'me, 'mm, 'z) eap_switch_scheme" where
  "sw_Receive rxMsg b s = sw_Notify rxMsg (s\<lparr>sw_rxQueue := sw_rxQueue s @ [b]\<rparr>)"

definition sw_Timeout :: "int \<Rightarrow> ('s, 'e, 'me, 'mm, 'z) eap_switch_scheme \<Rightarrow> ('s, 'e, 'me, 'mm, 'z) eap_switch_scheme" where
  "sw_Timeout ty s = (case fsm_timers s ty of None \<Rightarrow> s | Some (ev, sec) \<Rightarrow> sw_Notify ev s)"

subsection \<open>Running to rest\<close>

text \<open>
  The contract that makes a chain of events end: a rank of states that raise an event, which every step lowers.
\<close>

locale eap_chains =
  fixes sstep :: "'e \<Rightarrow> ('s, 'e, 'me, 'mm, 'z) eap_switch_scheme \<Rightarrow> ('s, 'e, 'me, 'mm, 'z) eap_switch_scheme"
    and mstep :: "slot \<Rightarrow> 'me \<Rightarrow> ('s, 'e, 'me, 'mm, 'z) eap_switch_scheme \<Rightarrow> ('s, 'e, 'me, 'mm, 'z) eap_switch_scheme"
    and rank :: "('s, 'e, 'me, 'mm, 'z) eap_switch_scheme \<Rightarrow> nat"
    and good :: "('s, 'e, 'me, 'mm, 'z) eap_switch_scheme \<Rightarrow> bool"
  assumes sstep_lowers:
    "good s \<Longrightarrow> sw_health s = Alive \<Longrightarrow> sw_raised s = Some (RSwitch e) \<Longrightarrow>
       at_rest (sstep e (s\<lparr>sw_raised := None\<rparr>)) \<or> rank (sstep e (s\<lparr>sw_raised := None\<rparr>)) < rank s"
    and mstep_lowers:
    "good s \<Longrightarrow> sw_health s = Alive \<Longrightarrow> sw_raised s = Some (RMethod sl me) \<Longrightarrow>
       at_rest (mstep sl me (s\<lparr>sw_raised := None\<rparr>)) \<or> rank (mstep sl me (s\<lparr>sw_raised := None\<rparr>)) < rank s"
    and sstep_good: "good s \<Longrightarrow> sw_raised s = Some (RSwitch e) \<Longrightarrow> good (sstep e (s\<lparr>sw_raised := None\<rparr>))"
    and mstep_good: "good s \<Longrightarrow> sw_raised s = Some (RMethod sl me) \<Longrightarrow> good (mstep sl me (s\<lparr>sw_raised := None\<rparr>))"
begin

lemma settle_rests: "good s \<Longrightarrow> rank s < n \<or> at_rest s \<Longrightarrow> at_rest (settle sstep mstep n s)"
proof (induction n arbitrary: s)
  case 0
  then show ?case by simp
next
  case (Suc n)
  show ?case
  proof (cases "sw_health s = Alive \<and> sw_raised s \<noteq> None")
    case False
    then show ?thesis by (auto simp: at_rest_def)
  next
    case True
    then have r: "rank s < Suc n" using Suc.prems by (auto simp: at_rest_def)
    from True obtain x where x: "sw_raised s = Some x" by auto
    show ?thesis
    proof (cases x)
      case (RSwitch e)
      with sstep_lowers [of s e] True x Suc.prems(1) r sstep_good [of s e]
        Suc.IH [of "sstep e (s\<lparr>sw_raised := None\<rparr>)"]
      show ?thesis by auto
    next
      case (RMethod sl me)
      with mstep_lowers [of s sl me] True x Suc.prems(1) r mstep_good [of s sl me]
        Suc.IH [of "mstep sl me (s\<lparr>sw_raised := None\<rparr>)"]
      show ?thesis by auto
    qed
  qed
qed

end

text \<open>An invariant that both kinds of step keep is kept by the whole chain.\<close>

locale eap_steps_keep =
  fixes sstep :: "'e \<Rightarrow> ('s, 'e, 'me, 'mm, 'z) eap_switch_scheme \<Rightarrow> ('s, 'e, 'me, 'mm, 'z) eap_switch_scheme"
    and mstep :: "slot \<Rightarrow> 'me \<Rightarrow> ('s, 'e, 'me, 'mm, 'z) eap_switch_scheme \<Rightarrow> ('s, 'e, 'me, 'mm, 'z) eap_switch_scheme"
    and inv :: "('s, 'e, 'me, 'mm, 'z) eap_switch_scheme \<Rightarrow> bool"
  assumes sstep_keeps:
    "inv s \<Longrightarrow> sw_health s = Alive \<Longrightarrow> sw_raised s = Some (RSwitch e) \<Longrightarrow> inv (sstep e (s\<lparr>sw_raised := None\<rparr>))"
    and mstep_keeps:
    "inv s \<Longrightarrow> sw_health s = Alive \<Longrightarrow> sw_raised s = Some (RMethod sl me) \<Longrightarrow> inv (mstep sl me (s\<lparr>sw_raised := None\<rparr>))"
begin

lemma settle_keeps: "inv s \<Longrightarrow> inv (settle sstep mstep n s)"
  by (induction n arbitrary: s) (auto split: option.split raise.split intro: sstep_keeps mstep_keeps)

end

lemma settle_enough: "at_rest (settle sstep mstep n s) \<Longrightarrow> settle sstep mstep (n + k) s = settle sstep mstep n s"
proof (induction n arbitrary: s)
  case 0
  then show ?case by (cases k) (auto simp: at_rest_def)
next
  case (Suc n)
  then show ?case by (auto split: option.splits raise.splits)
qed

subsection \<open>What an action does\<close>

text \<open>\<open>calm s0 s\<close>: on the way from \<open>s0\<close> nothing has been raised. \<open>does evs s0 s\<close>: at the end of it one of the events at most.\<close>

definition calm ::
  "('s, 'e, 'me, 'mm, 'z) eap_switch_scheme \<Rightarrow> ('s, 'e, 'me, 'mm, 'z) eap_switch_scheme \<Rightarrow> bool" where
  "calm s0 s \<longleftrightarrow>
     sw_raised s = None \<and> fsm_state s = fsm_state s0 \<and> fsm_running s = fsm_running s0 \<and>
     length (sw_rxQueue s) \<le> length (sw_rxQueue s0)"

definition does ::
  "'e list \<Rightarrow> ('s, 'e, 'me, 'mm, 'z) eap_switch_scheme \<Rightarrow> ('s, 'e, 'me, 'mm, 'z) eap_switch_scheme \<Rightarrow> bool" where
  "does evs s0 s \<longleftrightarrow>
     (at_rest s \<or> (\<exists>ev \<in> set evs. sw_raised s = Some (RSwitch ev))) \<and>
     fsm_state s = fsm_state s0 \<and> fsm_running s = fsm_running s0 \<and>
     length (sw_rxQueue s) \<le> length (sw_rxQueue s0)"

named_theorems does_intros \<open>what an action does, from its parts\<close>

lemma calm_refl: "sw_raised s = None \<Longrightarrow> calm s s"
  by (simp add: calm_def)

lemma calm_put [simp]:
  "calm s0 (callback o' s) = calm s0 s" "calm s0 (sw_Notify ev s) = calm s0 s"
  "calm s0 (put_method sl m s) = calm s0 s" "calm s0 (CancelTimer ty s) = calm s0 s"
  "calm s0 (ScheduleTimer e n ty s) = calm s0 s"
  by (auto simp: calm_def callback_def sw_Notify_def put_method_def CancelTimer_def ScheduleTimer_def split: slot.split)

lemma calm_update [simp]:
  "calm s0 (s\<lparr>sw_rx := a\<rparr>) = calm s0 s" "calm s0 (s\<lparr>sw_tx := a\<rparr>) = calm s0 s" "calm s0 (s\<lparr>sw_id := b\<rparr>) = calm s0 s"
  "calm s0 (s\<lparr>sw_policy := d\<rparr>) = calm s0 s"
  "calm s0 (s\<lparr>sw_currentMethod := e\<rparr>) = calm s0 s" "calm s0 (s\<lparr>sw_discard := n\<rparr>) = calm s0 s"
  "calm s0 (s\<lparr>sw_method := m\<rparr>) = calm s0 s" "calm s0 (s\<lparr>sw_inner := m\<rparr>) = calm s0 s"
  "calm s0 (s\<lparr>sw_next := n\<rparr>) = calm s0 s" "calm s0 (s\<lparr>sw_mux := q\<rparr>) = calm s0 s"
  "calm s0 (s\<lparr>sw_keyData := k\<rparr>) = calm s0 s" "calm s0 (s\<lparr>sw_keyAvailable := ka\<rparr>) = calm s0 s"
  "calm s0 (s\<lparr>sw_peerIdentity := k\<rparr>) = calm s0 s" "calm s0 (s\<lparr>sw_authIdentity := k\<rparr>) = calm s0 s"
  by (simp_all add: calm_def)

lemma calm_dequeue [does_intros]: "calm s0 s \<Longrightarrow> length q \<le> length (sw_rxQueue s) \<Longrightarrow> calm s0 (s\<lparr>sw_rxQueue := q\<rparr>)"
  by (simp add: calm_def)

lemma does_basic [does_intros]:
  "calm s0 s \<Longrightarrow> does evs s0 (crash s)"
  "calm s0 s \<Longrightarrow> does evs s0 (block s)"
  "calm s0 s \<Longrightarrow> does evs s0 (loop s)"
  "calm s0 s \<Longrightarrow> ev \<in> set evs \<Longrightarrow> does evs s0 (sw_Event ev s)"
  by (auto simp: calm_def does_def crash_def block_def loop_def sw_Event_def at_rest_def)

lemma does_calm: "calm s0 s \<Longrightarrow> does evs s0 s"
  by (auto simp: calm_def does_def at_rest_def)

lemma does_Notify [does_intros]: "calm s0 s \<Longrightarrow> does evs s0 (sw_Notify ev s)"
  by (rule does_calm) simp

lemma does_with_method [does_intros]:
  "calm s0 s \<Longrightarrow> (\<And>m. calm s0 s \<Longrightarrow> does evs s0 (g m s)) \<Longrightarrow> does evs s0 (with_method sl g s)"
  by (auto simp: with_method_def split: option.split intro: does_basic)

lemma does_m_Notify [does_intros]: "calm s0 s \<Longrightarrow> does evs s0 (m_Notify sl ev s)"
  unfolding m_Notify_def by (intro does_with_method does_calm) auto

lemma m_Start_calm: "calm s0 s \<Longrightarrow> calm s0 (m_Start sl i s)"
  by (auto simp: m_Start_def with_method_def crash_def calm_def put_method_def split: option.split slot.split)

lemma create_calm: "calm s0 s \<Longrightarrow> calm s0 (CreateMethodStateMachine tbl new t r inner s)"
  by (auto simp: CreateMethodStateMachine_def Let_def split: option.split)

lemma delete_calm [simp]: "calm s0 (DeleteMethodStateMachine s) = calm s0 s"
  by (auto simp: DeleteMethodStateMachine_def split: option.split)

end
