(* ===== verification/Eap_Auth.thy ===== *)
theory Eap_Auth
  imports Eap_Fsm
begin

text \<open>
  The authenticators of the EAP library: \<open>libeap/include/eap_authfsm.hxx\<close>, \<open>libeap/eapcore/eap_authfsm.cxx\<close> and the
  state tables of \<open>eap_standalone_authfsm.cxx\<close>, \<open>eap_backend_authfsm.cxx\<close> and \<open>eap_passthrough_authfsm.cxx\<close>, with the
  methods Identity (\<open>eap_identity.cxx\<close>), Notification (\<open>eap_notification.cxx\<close>) and MD5-Challenge (\<open>eap_md5.cxx\<close>).
  The three authenticators share their actions but for a few lines; \<open>au_kind\<close> says which one a machine is.
\<close>

subsection \<open>State\<close>

datatype auth_st =
    StBegin | StDisabled | StInitialize | StPickUpMethod | StSelectAction | StProposeMethod | StIdle | StIntegrityCheck
  | StMethodRequest | StMethodResponse | StSendRequest | StNak | StRetransmit | StDiscard | StSuccess | StFailure
  | StTimeoutFailure | StReceived | StTunnelEstablished | StWaitTunnelProcess
  | StInitializePassthrough | StAaaRequest | StAaaIdle | StAaaResponse | StIdle2 | StReceived2 | StSuccess2 | StFailure2
  | StSendRequest2 | StDiscard2 | StRetransmit2 | StTimeoutFailure2

text \<open>The pass-through table has enumerators of its own that are called \<open>EvSgAaaSuccess\<close> and \<open>EvSgAaaFailure\<close> like
  the events from the application; they are \<open>EvPtAaaSuccess\<close> and \<open>EvPtAaaFailure\<close> here.\<close>

datatype auth_ev =
    EvRxMsg | EvSgPortEnabled | EvSgValidResp | EvSgInvalidResp | EvSgEndMethod | EvSgRestart
  | EvSgAaaContinue | EvSgAaaSuccess | EvSgAaaFailure | EvSgTunnelEstablished | EvSgInnerEap
  | EvUCT | EvSgPolicySat | EvSgPolicyNotSat_EndSess | EvRxMethodResp | EvRxNak | EvTo
  | EvSgMaxRetransmission | EvElse | EvSgNoMethod | EvRxNonResp
  | EvSgPassthrough | EvSgPickUpInit | EvSgNoPickUpInit | EvRxAaaEapReq | EvPtAaaSuccess | EvPtAaaFailure | EvSgDiscard

datatype am_st = MStInitialize | MStCheckPickUpInit | MStWaitResponse | MStProcessResponse | MStSuccess | MStFailure

datatype am_ev =
    EvSgIntegrityCheck | EvSgTunnelProcess | MEvSuccess | MEvFailure | MEvFailure_MoreTrial | MEvFailure_NoMoreTrial
  | MEvPickUpInit | MEvNoPickUpInit

text \<open>What a creator of the registrar makes for the role of authenticator.\<close>

datatype auth_creator = AuthIdentity | AuthNotification | AuthMD5

record auth_method = "(am_st, am_ev) eap_method" +
  am_kind :: auth_creator
  am_nTrial :: u32
  am_passphrase :: "byte list"
  am_myName :: "byte list"
  am_peerName :: "byte list"
  am_value :: "byte list"

datatype auth_kind = StandAlone | Backend | PassThrough

datatype auth_mstate = PROPOSED | CONT | END

record eap_auth = "(auth_st, auth_ev, am_ev, auth_method) eap_switch" +
  au_kind :: auth_kind
  au_retransmissionCount :: u16
  au_maxRetransmissionCount :: u16
  au_retransmissionInterval :: u16
  au_notification :: "byte list"
  au_needInitialRequest :: bool
  au_methodState :: auth_mstate
  au_aaaQueue :: "mblk list"
  au_nrand :: nat

text \<open>
  What is outside: the registrar, MD5 and the \<open>n\<close>-th call of \<open>RAND_bytes\<close> (\<open>None\<close> when it fails), and the
  application's callbacks: the passphrase it sets for a peer's name, whether it accepts an identity, and the name a
  method object gets.
\<close>

record auth_env =
  ae_methods :: "(eap_type \<times> EapRole \<times> auth_creator) list"
  ae_MD5 :: "byte list \<Rightarrow> byte list"
  ae_random :: "nat \<Rightarrow> byte list option"
  ae_passphrase :: "byte list \<Rightarrow> byte list"
  ae_identity_ok :: "byte list \<Rightarrow> bool"
  ae_myName :: "byte list"

text \<open>\<open>registerDefaultMethods\<close>, and the constants.\<close>

definition default_methods :: "(eap_type \<times> EapRole \<times> auth_creator) list" where
  "default_methods = [(EapType 2, Authenticator, AuthNotification)]"

definition maxTrial :: u32 where "maxTrial = 3"
definition defaultMaxRetransmissionCount :: u16 where "defaultMaxRetransmissionCount = 3"
definition defaultRetransmissionInterval :: u16 where "defaultRetransmissionInterval = 3"

definition new_auth_method :: "auth_env \<Rightarrow> auth_creator \<Rightarrow> nat \<Rightarrow> auth_method" where
  "new_auth_method env c i =
     \<lparr>fsm_state = MStInitialize, fsm_running = False, fsm_timers = Map.empty, em_id = i, em_events = [],
      em_isDone = False, em_keyData = [], am_kind = c, am_nTrial = 0, am_passphrase = [],
      am_myName = ae_myName env, am_peerName = [], am_value = []\<rparr>"

subsection \<open>Methods\<close>

definition a_put :: "slot \<Rightarrow> (auth_method \<Rightarrow> auth_method) \<Rightarrow> eap_auth \<Rightarrow> eap_auth" where
  "a_put sl f = with_method sl (\<lambda>m. put_method sl (f m))"

text \<open>The end of a method, the same for the three but for the event that reports a failure: the policy goes on,
  the method is done, the switch machine is notified.\<close>

definition method_ends :: "policy_switch \<Rightarrow> auth_ev \<Rightarrow> slot \<Rightarrow> eap_auth \<Rightarrow> eap_auth" where
  "method_ends sw ev sl s =
     sw_Notify ev (a_put sl (\<lambda>m. m\<lparr>em_isDone := True\<rparr>) (s\<lparr>sw_policy := Update sw (sw_policy s)\<rparr>))"

definition with_rx :: "(mblk \<Rightarrow> eap_auth \<Rightarrow> eap_auth) \<Rightarrow> eap_auth \<Rightarrow> eap_auth" where
  "with_rx f s = (case sw_rx s of None \<Rightarrow> crash s | Some b \<Rightarrow> f b s)"

definition with_tx :: "(mblk \<Rightarrow> eap_auth \<Rightarrow> eap_auth) \<Rightarrow> eap_auth \<Rightarrow> eap_auth" where
  "with_tx f s = (case sw_tx s of None \<Rightarrow> crash s | Some b \<Rightarrow> f b s)"

text \<open>Identity.\<close>

definition id_CheckPickUpInit :: "slot \<Rightarrow> eap_auth \<Rightarrow> eap_auth" where
  "id_CheckPickUpInit sl s =
     m_Event sl (if au_kind s = Backend \<and> \<not> au_needInitialRequest s then MEvPickUpInit else MEvNoPickUpInit) s"

definition id_retry :: "slot \<Rightarrow> eap_auth \<Rightarrow> eap_auth" where
  "id_retry sl =
     with_method sl (\<lambda>m s.
       m_Event sl (if am_nTrial m < maxTrial then MEvFailure_MoreTrial else MEvFailure_NoMoreTrial)
         (put_method sl (m\<lparr>am_nTrial := am_nTrial m + 1\<rparr>) s))"

definition id_DoIntegrityCheck :: "auth_env \<Rightarrow> slot \<Rightarrow> eap_auth \<Rightarrow> eap_auth" where
  "id_DoIntegrityCheck env sl =
     with_rx (\<lambda>b s.
       case Identity_toApp b of
         Wild \<Rightarrow> crash s
       | Thrown \<Rightarrow> id_retry sl s
       | Parsed (who, b') \<Rightarrow>
           let s' = s\<lparr>sw_rx := Some b', sw_peerIdentity := who\<rparr>
           in if ae_identity_ok env who then m_Event sl MEvSuccess s' else id_retry sl s')"

definition id_PrepareRequest :: "eap_auth \<Rightarrow> eap_auth" where
  "id_PrepareRequest s =
     sw_Notify EvSgValidResp (s\<lparr>sw_tx := Some (Request_toRaw ([], []) (EapType 1) (mb_Acquire 5))\<rparr>)"

text \<open>Notification.\<close>

definition no_DoIntegrityCheck :: "slot \<Rightarrow> eap_auth \<Rightarrow> eap_auth" where
  "no_DoIntegrityCheck sl =
     with_rx (\<lambda>b s.
       case Notification_toApp b of
         Wild \<Rightarrow> crash s
       | Thrown \<Rightarrow> m_Event sl MEvFailure s
       | Parsed (text, b') \<Rightarrow> m_Event sl MEvSuccess (s\<lparr>sw_rx := Some b'\<rparr>))"

definition no_ends :: "policy_switch \<Rightarrow> auth_ev \<Rightarrow> slot \<Rightarrow> eap_auth \<Rightarrow> eap_auth" where
  "no_ends sw ev sl s = method_ends sw ev sl (s\<lparr>sw_tx := None\<rparr>)"

definition no_PrepareRequest :: "eap_auth \<Rightarrow> eap_auth" where
  "no_PrepareRequest s =
     (case Notification_toRaw (au_notification s) (mb_Acquire (5 + length (au_notification s))) of
        Parsed b \<Rightarrow> sw_Notify EvSgValidResp (s\<lparr>sw_tx := Some b\<rparr>)
      | _ \<Rightarrow> sw_Notify EvSgInvalidResp s)"

text \<open>MD5-Challenge. The response is over the identifier, the passphrase and the challenge.\<close>

definition md5_raw :: "byte \<Rightarrow> byte list \<Rightarrow> byte list \<Rightarrow> byte list" where
  "md5_raw i pass chal = i # pass @ chal"

definition md5_DoIntegrityCheck :: "auth_env \<Rightarrow> slot \<Rightarrow> eap_auth \<Rightarrow> eap_auth" where
  "md5_DoIntegrityCheck env sl =
     with_rx (\<lambda>b s.
       case MD5_toApp b of
         Wild \<Rightarrow> crash s
       | Thrown \<Rightarrow> m_Event sl MEvFailure s
       | Parsed (c, b') \<Rightarrow>
           with_method sl (\<lambda>m s.
             let pass = ae_passphrase env (md_name c);
                 s' = put_method sl (m\<lparr>am_peerName := md_name c, am_passphrase := pass\<rparr>) s
             in if pass = [] then m_Event sl MEvFailure s'
                else if ae_MD5 env (md5_raw (sw_id s) pass (am_value m)) = md_value c
                then m_Event sl MEvSuccess s'
                else m_Event sl MEvFailure s') (s\<lparr>sw_rx := Some b'\<rparr>))"

definition md5_PrepareRequest :: "auth_env \<Rightarrow> slot \<Rightarrow> eap_auth \<Rightarrow> eap_auth" where
  "md5_PrepareRequest env sl s0 =
     (let s = s0\<lparr>au_nrand := au_nrand s0 + 1\<rparr>
      in case ae_random env (au_nrand s0) of
           None \<Rightarrow> s
         | Some chal \<Rightarrow>
             with_method sl (\<lambda>m s.
               let s1 = put_method sl (m\<lparr>am_value := chal\<rparr>) s
               in case MD5_toRaw \<lparr>md_value = chal, md_name = am_myName m\<rparr>
                         (mb_Acquire (5 + length chal + 1 + length (am_myName m))) of
                    Parsed b \<Rightarrow> sw_Notify EvSgValidResp (s1\<lparr>sw_tx := Some b\<rparr>)
                  | _ \<Rightarrow> crash s1) s)"

datatype am_ac =
    IdCheckPickUpInit | IdDoIntegrityCheck | IdNotifySuccess | IdNotifyFailure | IdPrepareRequest
  | NoDoIntegrityCheck | NoNotifySuccess | NoNotifyFailure | NoPrepareRequest
  | MdDoIntegrityCheck | MdNotifySuccess | MdNotifyFailure | MdPrepareRequest
  | AmNull

fun am_act :: "auth_env \<Rightarrow> am_ac \<Rightarrow> slot \<Rightarrow> eap_auth \<Rightarrow> eap_auth" where
  "am_act env IdCheckPickUpInit sl s = id_CheckPickUpInit sl s"
| "am_act env IdDoIntegrityCheck sl s = id_DoIntegrityCheck env sl s"
| "am_act env IdNotifySuccess sl s = method_ends PolicyOnSuccess EvSgValidResp sl s"
| "am_act env IdNotifyFailure sl s = method_ends PolicyOnFailure EvSgInvalidResp sl s"
| "am_act env IdPrepareRequest sl s = id_PrepareRequest s"
| "am_act env NoDoIntegrityCheck sl s = no_DoIntegrityCheck sl s"
| "am_act env NoNotifySuccess sl s = no_ends PolicyOnSuccess EvSgValidResp sl s"
| "am_act env NoNotifyFailure sl s = no_ends PolicyOnFailure EvSgInvalidResp sl s"
| "am_act env NoPrepareRequest sl s = no_PrepareRequest s"
| "am_act env MdDoIntegrityCheck sl s = md5_DoIntegrityCheck env sl s"
| "am_act env MdNotifySuccess sl s = method_ends PolicyOnSuccess EvSgValidResp sl s"
| "am_act env MdNotifyFailure sl s = method_ends PolicyOnFailure EvSgValidResp sl s"
| "am_act env MdPrepareRequest sl s = md5_PrepareRequest env sl s"
| "am_act env AmNull sl s = s"

type_synonym am_entry = "(am_st, am_ev, am_ac) fsm_entry"

definition identity_cmds :: "am_entry list" where
  "identity_cmds =
     [FsmEntry MStInitialize (Some EvSgIntegrityCheck) MStCheckPickUpInit IdCheckPickUpInit,
      FsmEntry MStCheckPickUpInit (Some MEvPickUpInit) MStProcessResponse IdDoIntegrityCheck,
      FsmEntry MStCheckPickUpInit (Some MEvNoPickUpInit) MStWaitResponse IdPrepareRequest,
      FsmEntry MStWaitResponse (Some EvSgIntegrityCheck) MStProcessResponse IdDoIntegrityCheck,
      FsmEntry MStProcessResponse (Some MEvSuccess) MStSuccess IdNotifySuccess,
      FsmEntry MStProcessResponse (Some MEvFailure_MoreTrial) MStWaitResponse IdPrepareRequest,
      FsmEntry MStProcessResponse (Some MEvFailure_NoMoreTrial) MStFailure IdNotifyFailure,
      FsmEntry MStSuccess None MStSuccess AmNull,
      FsmEntry MStFailure None MStFailure AmNull]"

definition notification_cmds :: "am_entry list" where
  "notification_cmds =
     [FsmEntry MStInitialize (Some EvSgIntegrityCheck) MStWaitResponse NoPrepareRequest,
      FsmEntry MStWaitResponse (Some EvSgIntegrityCheck) MStProcessResponse NoDoIntegrityCheck,
      FsmEntry MStProcessResponse (Some MEvSuccess) MStSuccess NoNotifySuccess,
      FsmEntry MStProcessResponse (Some MEvFailure) MStFailure NoNotifyFailure,
      FsmEntry MStSuccess None MStSuccess AmNull,
      FsmEntry MStFailure None MStFailure AmNull]"

definition md5_cmds :: "am_entry list" where
  "md5_cmds =
     [FsmEntry MStInitialize (Some EvSgIntegrityCheck) MStWaitResponse MdPrepareRequest,
      FsmEntry MStWaitResponse (Some EvSgIntegrityCheck) MStProcessResponse MdDoIntegrityCheck,
      FsmEntry MStProcessResponse (Some MEvSuccess) MStSuccess MdNotifySuccess,
      FsmEntry MStProcessResponse (Some MEvFailure) MStFailure MdNotifyFailure,
      FsmEntry MStSuccess None MStSuccess AmNull,
      FsmEntry MStFailure None MStFailure AmNull]"

fun am_cmds :: "auth_creator \<Rightarrow> am_entry list" where
  "am_cmds AuthIdentity = identity_cmds"
| "am_cmds AuthNotification = notification_cmds"
| "am_cmds AuthMD5 = md5_cmds"

definition am_table :: "auth_creator \<Rightarrow> am_entry list" where
  "am_table c = (case build_from [] (am_cmds c) of Inl _ \<Rightarrow> [] | Inr t \<Rightarrow> t)"

lemma am_tables_built: "build_from [] (am_cmds c) = Inr (am_table c)"
  by (cases c)
    (simp_all add: am_table_def identity_cmds_def notification_cmds_def md5_cmds_def AddStateTableEntry_def
      AddWildcardStateTableEntry_def FindStateTableEntry_def)

interpretation am_st: state_table "am_cmds c" "am_table c" for c
  by unfold_locales (rule am_tables_built)

subsection \<open>Decisions\<close>

datatype auth_decision = DecisionSuccess | DecisionFailure | DecisionContinue | DecisionPassthrough

text \<open>The virtual function, with the version of the pass-through authenticator.\<close>

definition Decision :: "eap_auth \<Rightarrow> auth_decision" where
  "Decision s =
     (if au_kind s = PassThrough
      then (if policy_method (sw_policy s) = None then DecisionPassthrough else DecisionContinue)
      else if IsSatisfied (sw_policy s) then DecisionSuccess
      else if policy_method (sw_policy s) = None then DecisionFailure
      else DecisionContinue)"

subsection \<open>Actions of the switch machines\<close>

definition reset_retransmission :: "eap_auth \<Rightarrow> eap_auth" where
  "reset_retransmission s = (CancelTimer 0 s)\<lparr>au_retransmissionCount := 0\<rparr>"

definition make_key_available :: "eap_auth \<Rightarrow> eap_auth" where
  "make_key_available s = (if sw_keyData s \<noteq> [] then s\<lparr>sw_keyAvailable := True\<rparr> else s)"

definition au_Initialize :: "eap_auth \<Rightarrow> eap_auth" where
  "au_Initialize s = sw_Event EvUCT (s\<lparr>sw_id := 0\<rparr>)"

text \<open>Reading a packet's header and, in a response, its type, on the block that is at \<open>rxMessage\<close>.\<close>

definition rx_header :: "(eap_header \<Rightarrow> eap_auth \<Rightarrow> eap_auth) \<Rightarrow> eap_auth \<Rightarrow> eap_auth" where
  "rx_header f =
     with_rx (\<lambda>b s. case Header_toApp b of Parsed (h, b') \<Rightarrow> f h (s\<lparr>sw_rx := Some b'\<rparr>) | _ \<Rightarrow> crash s)"

definition rx_type :: "(eap_type \<Rightarrow> eap_auth \<Rightarrow> eap_auth) \<Rightarrow> eap_auth \<Rightarrow> eap_auth" where
  "rx_type f =
     with_rx (\<lambda>b s. case Request_toApp b of Parsed (t, b') \<Rightarrow> f t (s\<lparr>sw_rx := Some b'\<rparr>) | _ \<Rightarrow> crash s)"

definition au_BackendInitialize :: "eap_auth \<Rightarrow> eap_auth" where
  "au_BackendInitialize s0 =
     (let s = s0\<lparr>sw_id := 0\<rparr>
      in if sw_rx s = None then sw_Event EvElse s
         else rx_header (\<lambda>h s.
           if eh_code h \<noteq> Response then sw_Event EvRxNonResp s
           else rx_type (\<lambda>t s.
             case policy_method (sw_policy s) of
               None \<Rightarrow> crash s
             | Some pm \<Rightarrow>
                 if pm \<noteq> t then sw_Event EvRxNonResp s
                 else sw_Event (if t = EapType 3 then EvRxNak else EvElse) (s\<lparr>sw_currentMethod := t\<rparr>))
             (s\<lparr>sw_id := eh_identifier h\<rparr>)) s)"

text \<open>\<open>SupportPickUp\<close> of the policy.\<close>

definition SupportPickUp :: "eap_type \<Rightarrow> bool" where
  "SupportPickUp t \<longleftrightarrow> t = EapType 1"

definition create_and_start :: "auth_env \<Rightarrow> eap_type \<Rightarrow> eap_auth \<Rightarrow> eap_auth" where
  "create_and_start env t s =
     m_Start OuterMethod MStInitialize
       (CreateMethodStateMachine (ae_methods env) (new_auth_method env) t Authenticator (po_inner (sw_policy s)) s)"

definition au_PickUpMethod :: "auth_env \<Rightarrow> eap_auth \<Rightarrow> eap_auth" where
  "au_PickUpMethod env s =
     (case policy_method (sw_policy s) of
        None \<Rightarrow> crash s
      | Some t \<Rightarrow>
          if SupportPickUp t then sw_Event EvElse (create_and_start env t (s\<lparr>sw_currentMethod := t\<rparr>))
          else sw_Event EvSgNoMethod s)"

text \<open>The stand-alone table compares with \<open>EapType(1)\<close> twice; the other two have \<open>EapType(2)\<close> the second time.\<close>

definition au_ProposeMethod :: "auth_env \<Rightarrow> eap_auth \<Rightarrow> eap_auth" where
  "au_ProposeMethod env s =
     (case policy_method (sw_policy s) of
        None \<Rightarrow> crash s
      | Some t \<Rightarrow>
          let s1 = create_and_start env t ((DeleteMethodStateMachine s)\<lparr>sw_currentMethod := t\<rparr>);
              cont = (t = EapType 1 \<or> (au_kind s \<noteq> StandAlone \<and> t = EapType 2))
          in if sw_health s1 \<noteq> Alive then s1
             else m_Notify OuterMethod EvSgIntegrityCheck
                    (s1\<lparr>au_methodState := (if cont then CONT else PROPOSED)\<rparr>))"

definition au_BuildRequest :: "eap_auth \<Rightarrow> eap_auth" where
  "au_BuildRequest =
     with_method OuterMethod (\<lambda>m s.
       with_tx (\<lambda>b s.
         case compose_pdu Request (sw_id s) b of
           Parsed b' \<Rightarrow> sw_Event EvUCT (s\<lparr>sw_tx := Some b'\<rparr>)
         | _ \<Rightarrow> crash s) (s\<lparr>sw_id := sw_id s + 1\<rparr>))"

definition au_SendRequest :: "eap_auth \<Rightarrow> eap_auth" where
  "au_SendRequest s0 =
     (let s = (reset_retransmission s0)\<lparr>au_retransmissionCount := 1\<rparr>;
          s1 = (if au_retransmissionInterval s \<noteq> 0
                then ScheduleTimer EvTo (unat (au_retransmissionInterval s)) 0 s else s)
      in with_tx (\<lambda>b s. callback (OutSend (mb_bytes b)) s) (sw_Notify EvUCT s1))"

definition au_Retransmit :: "eap_auth \<Rightarrow> eap_auth" where
  "au_Retransmit s =
     (if au_retransmissionCount s < au_maxRetransmissionCount s
      then with_tx (\<lambda>b s. callback (OutSend (mb_bytes b)) s)
             (sw_Notify EvElse (s\<lparr>au_retransmissionCount := au_retransmissionCount s + 1\<rparr>))
      else sw_Event EvSgMaxRetransmission (CancelTimer 0 s))"

definition au_DoIntegrityCheck :: "eap_auth \<Rightarrow> eap_auth" where
  "au_DoIntegrityCheck s = m_Notify OuterMethod EvSgIntegrityCheck s"

text \<open>The stand-alone authenticator takes the key of the method only when there is one.\<close>

definition au_MethodResponse :: "eap_auth \<Rightarrow> eap_auth" where
  "au_MethodResponse =
     with_method OuterMethod (\<lambda>m s.
       if em_isDone m
       then sw_Event EvSgEndMethod
              (s\<lparr>sw_keyData := (if au_kind s = StandAlone \<and> em_keyData m = [] then sw_keyData s else em_keyData m),
                 au_methodState := END\<rparr>)
       else sw_Event EvElse (s\<lparr>au_methodState := CONT\<rparr>))"

definition au_DoPolicyCheck :: "eap_auth \<Rightarrow> eap_auth" where
  "au_DoPolicyCheck s =
     sw_Event (case Decision s of
         DecisionSuccess \<Rightarrow> EvSgPolicySat
       | DecisionFailure \<Rightarrow> EvSgPolicyNotSat_EndSess
       | DecisionPassthrough \<Rightarrow> EvSgPassthrough
       | DecisionContinue \<Rightarrow> EvElse) s"

definition au_SendSuccess :: "eap_auth \<Rightarrow> eap_auth" where
  "au_SendSuccess s =
     callback (OutSuccessMsg (mb_bytes (final_pdu Success (sw_id s)))) (make_key_available (reset_retransmission s))"

definition au_SendFailure :: "eap_auth \<Rightarrow> eap_auth" where
  "au_SendFailure s =
     callback (OutFailureMsg (mb_bytes (final_pdu Failure (sw_id s)))) (reset_retransmission s)"

definition au_Discard :: "eap_auth \<Rightarrow> eap_auth" where
  "au_Discard s = sw_Event EvUCT (s\<lparr>sw_discard := sw_discard s + 1\<rparr>)"

text \<open>A message is taken off the queue and dropped; the pass-through authenticator raises an event too.\<close>

definition au_drop :: "eap_auth \<Rightarrow> eap_auth" where
  "au_drop s =
     (case sw_rxQueue s of
        [] \<Rightarrow> block s
      | b # q \<Rightarrow> if au_kind s = PassThrough then sw_Event EvUCT (s\<lparr>sw_rxQueue := q\<rparr>) else s\<lparr>sw_rxQueue := q\<rparr>)"

definition au_Discard2 :: "eap_auth \<Rightarrow> eap_auth" where
  "au_Discard2 s = au_drop (s\<lparr>sw_discard := sw_discard s + 1\<rparr>)"

definition au_Discard3 :: "eap_auth \<Rightarrow> eap_auth" where
  "au_Discard3 s = (case au_aaaQueue s of [] \<Rightarrow> block s | b # q \<Rightarrow> s\<lparr>au_aaaQueue := q\<rparr>)"

definition au_ResetMethod :: "eap_auth \<Rightarrow> eap_auth" where
  "au_ResetMethod =
     with_rx (\<lambda>b s.
       case Nak_toApp None [] b of
         Parsed (types, b') \<Rightarrow>
           (case Update_types types (sw_policy s) of
              Some (Parsed p) \<Rightarrow> sw_Event EvUCT (s\<lparr>sw_rx := None, sw_policy := p\<rparr>)
            | Some _ \<Rightarrow> crash s
            | None \<Rightarrow> loop s)
       | _ \<Rightarrow> crash s)"

text \<open>The head of \<open>AcReceiveMsg\<close> and \<open>AcReceiveMsg2\<close>: a message that is no response to the current request is dropped,
  with an event through the queue.\<close>

definition au_dequeue :: "(eap_auth \<Rightarrow> eap_auth) \<Rightarrow> eap_auth \<Rightarrow> eap_auth" where
  "au_dequeue f s =
     (case sw_rxQueue s of
        [] \<Rightarrow> block s
      | b # q \<Rightarrow>
          rx_header (\<lambda>h s.
            if eh_code h \<noteq> Response \<or> eh_identifier h \<noteq> sw_id s
            then sw_Notify EvElse (s\<lparr>sw_rx := None\<rparr>)
            else f s) (s\<lparr>sw_rxQueue := q, sw_rx := Some b\<rparr>))"

definition au_ReceiveMsg :: "eap_auth \<Rightarrow> eap_auth" where
  "au_ReceiveMsg =
     au_dequeue (rx_type (\<lambda>t s.
       let pt = (au_kind s = PassThrough \<and> Decision s = DecisionPassthrough)
       in if t = EapType 3 \<and> \<not> pt
          then (if au_methodState s = PROPOSED then sw_Event EvRxNak s
                else sw_Event EvElse (s\<lparr>sw_rx := None\<rparr>))
          else if t \<noteq> sw_currentMethod s \<and> \<not> pt then sw_Event EvElse (s\<lparr>sw_rx := None\<rparr>)
          else sw_Event EvRxMethodResp s))"

definition au_ReceiveMsg2 :: "eap_auth \<Rightarrow> eap_auth" where
  "au_ReceiveMsg2 = au_dequeue (sw_Event EvRxMethodResp)"

text \<open>Tunnels. No core method raises the events that lead here.\<close>

definition au_WaitTunnelProcess :: "eap_auth \<Rightarrow> eap_auth" where
  "au_WaitTunnelProcess =
     with_method OuterMethod (\<lambda>m s.
       with_tx (\<lambda>b s.
         case compose_pdu Request (sw_id s) b of
           Parsed b' \<Rightarrow> m_Notify OuterMethod EvSgTunnelProcess (s\<lparr>sw_tx := Some b'\<rparr>)
         | _ \<Rightarrow> crash s) (s\<lparr>sw_id := sw_id s + 1\<rparr>))"

definition au_NotifyInnerEap :: "eap_auth \<Rightarrow> eap_auth" where
  "au_NotifyInnerEap s = m_Notify InnerMethod EvSgIntegrityCheck s"

definition au_TunnelEstablished :: "eap_auth \<Rightarrow> eap_auth" where
  "au_TunnelEstablished s = au_NotifyInnerEap (m_Start InnerMethod MStInitialize s)"

text \<open>Pass-through.\<close>

definition au_PickUpInitCheck :: "eap_auth \<Rightarrow> eap_auth" where
  "au_PickUpInitCheck s = sw_Event (if sw_rx s = None then EvSgNoPickUpInit else EvSgPickUpInit) s"

definition au_UCT :: "eap_auth \<Rightarrow> eap_auth" where
  "au_UCT s = sw_Event EvUCT s"

definition au_DoIntegrityCheck2 :: "eap_auth \<Rightarrow> eap_auth" where
  "au_DoIntegrityCheck2 s = callback (OutForward (map_option mb_bytes (sw_rx s))) s"

text \<open>A packet from the backend: taken off, and kept for sending when it has the code. Without a packet the code differs
  between the three actions; that case is the last argument.\<close>

definition au_from_AAA :: "byte \<Rightarrow> auth_ev \<Rightarrow> (eap_auth \<Rightarrow> eap_auth) \<Rightarrow> eap_auth \<Rightarrow> eap_auth" where
  "au_from_AAA code ev none s =
     (case au_aaaQueue s of
        [] \<Rightarrow> none (s\<lparr>sw_tx := None\<rparr>)
      | b # q \<Rightarrow>
          (case Header_toApp b of
             Parsed (h, b') \<Rightarrow>
               if eh_code h \<noteq> code then sw_Event EvSgDiscard (s\<lparr>au_aaaQueue := q\<rparr>)
               else sw_Event ev (s\<lparr>au_aaaQueue := q, sw_id := eh_identifier h, sw_tx := Some b'\<rparr>)
           | _ \<Rightarrow> crash (s\<lparr>au_aaaQueue := q\<rparr>)))"

definition au_AaaContinue :: "eap_auth \<Rightarrow> eap_auth" where
  "au_AaaContinue s = au_from_AAA Request EvRxAaaEapReq (callback OutAbort) s"

definition au_AaaSuccess :: "eap_auth \<Rightarrow> eap_auth" where
  "au_AaaSuccess s = au_from_AAA Success EvPtAaaSuccess (sw_Event EvPtAaaSuccess) s"

definition au_AaaFailure :: "eap_auth \<Rightarrow> eap_auth" where
  "au_AaaFailure s = au_from_AAA Failure EvPtAaaFailure (sw_Event EvPtAaaFailure) s"

definition au_CompleteWithFailure :: "eap_auth \<Rightarrow> eap_auth" where
  "au_CompleteWithFailure s =
     (let s1 = reset_retransmission s
      in case sw_tx s of
           Some b \<Rightarrow> (callback (OutFailureMsg (mb_bytes b)) s1)\<lparr>sw_tx := None\<rparr>
         | None \<Rightarrow> callback OutFailure s1)"

definition au_CompleteWithSuccess :: "eap_auth \<Rightarrow> eap_auth" where
  "au_CompleteWithSuccess s =
     (let s1 = make_key_available (reset_retransmission s)
      in case sw_tx s of
           Some b \<Rightarrow> (callback (OutSuccessMsg (mb_bytes b)) s1)\<lparr>sw_tx := None\<rparr>
         | None \<Rightarrow> callback OutSuccess s1)"

subsection \<open>State tables\<close>

datatype auth_ac =
    AcDisable | AcInitialize | AcBackendInitialize | AcPickUpMethod | AcProposeMethod | AcBuildRequest | AcMethodResponse
  | AcSendSuccess | AcSendFailure | AcSendRequest | AcDoIntegrityCheck | AcDoPolicyCheck | AcDiscard | AcDiscard2
  | AcDiscard3 | AcResetMethod | AcRetransmit | AcReceiveMsg | AcReceiveMsg2 | AcTunnelEstablished
  | AcWaitTunnelProcess | AcNotifyInnerEap | AcPickUpInitCheck | AcAaaRequest | AcDoIntegrityCheck2 | AcPrepareRequest
  | AcAaaContinue | AcAaaSuccess | AcAaaFailure | AcCompletePassthroughWithSuccess
  | AcCompletePassthroughWithFailure | AcNull

fun auth_act :: "auth_env \<Rightarrow> auth_ac \<Rightarrow> eap_auth \<Rightarrow> eap_auth" where
  "auth_act env AcDisable s = sw_Event EvSgPortEnabled s"
| "auth_act env AcInitialize s = au_Initialize s"
| "auth_act env AcBackendInitialize s = au_BackendInitialize s"
| "auth_act env AcPickUpMethod s = au_PickUpMethod env s"
| "auth_act env AcProposeMethod s = au_ProposeMethod env s"
| "auth_act env AcBuildRequest s = au_BuildRequest s"
| "auth_act env AcMethodResponse s = au_MethodResponse s"
| "auth_act env AcSendSuccess s = au_SendSuccess s"
| "auth_act env AcSendFailure s = au_SendFailure s"
| "auth_act env AcSendRequest s = au_SendRequest s"
| "auth_act env AcDoIntegrityCheck s = au_DoIntegrityCheck s"
| "auth_act env AcDoPolicyCheck s = au_DoPolicyCheck s"
| "auth_act env AcDiscard s = au_Discard s"
| "auth_act env AcDiscard2 s = au_Discard2 s"
| "auth_act env AcDiscard3 s = au_Discard3 s"
| "auth_act env AcResetMethod s = au_ResetMethod s"
| "auth_act env AcRetransmit s = au_Retransmit s"
| "auth_act env AcReceiveMsg s = au_ReceiveMsg s"
| "auth_act env AcReceiveMsg2 s = au_ReceiveMsg2 s"
| "auth_act env AcTunnelEstablished s = au_TunnelEstablished s"
| "auth_act env AcWaitTunnelProcess s = au_WaitTunnelProcess s"
| "auth_act env AcNotifyInnerEap s = au_NotifyInnerEap s"
| "auth_act env AcPickUpInitCheck s = au_PickUpInitCheck s"
| "auth_act env AcAaaRequest s = au_UCT s"
| "auth_act env AcDoIntegrityCheck2 s = au_DoIntegrityCheck2 s"
| "auth_act env AcPrepareRequest s = au_UCT s"
| "auth_act env AcAaaContinue s = au_AaaContinue s"
| "auth_act env AcAaaSuccess s = au_AaaSuccess s"
| "auth_act env AcAaaFailure s = au_AaaFailure s"
| "auth_act env AcCompletePassthroughWithSuccess s = au_CompleteWithSuccess s"
| "auth_act env AcCompletePassthroughWithFailure s = au_CompleteWithFailure s"
| "auth_act env AcNull s = s"

type_synonym auth_entry = "(auth_st, auth_ev, auth_ac) fsm_entry"

definition standalone_cmds :: "auth_entry list" where
  "standalone_cmds =
     [FsmEntry StBegin (Some EvSgRestart) StDisabled AcDisable,
      FsmEntry StDisabled (Some EvSgPortEnabled) StInitialize AcInitialize,
      FsmEntry StInitialize (Some EvUCT) StSelectAction AcDoPolicyCheck,
      FsmEntry StSelectAction (Some EvSgPolicySat) StSuccess AcSendSuccess,
      FsmEntry StSelectAction (Some EvSgPolicyNotSat_EndSess) StFailure AcSendFailure,
      FsmEntry StSelectAction (Some EvElse) StProposeMethod AcProposeMethod,
      FsmEntry StProposeMethod (Some EvSgValidResp) StMethodRequest AcBuildRequest,
      FsmEntry StMethodRequest (Some EvUCT) StSendRequest AcSendRequest,
      FsmEntry StIntegrityCheck (Some EvSgValidResp) StMethodResponse AcMethodResponse,
      FsmEntry StIntegrityCheck (Some EvSgInvalidResp) StDiscard AcDiscard,
      FsmEntry StIntegrityCheck (Some EvSgTunnelEstablished) StTunnelEstablished AcTunnelEstablished,
      FsmEntry StTunnelEstablished (Some EvSgValidResp) StWaitTunnelProcess AcWaitTunnelProcess,
      FsmEntry StWaitTunnelProcess (Some EvSgValidResp) StMethodResponse AcMethodResponse,
      FsmEntry StIntegrityCheck (Some EvSgInnerEap) StTunnelEstablished AcNotifyInnerEap,
      FsmEntry StIntegrityCheck (Some EvRxMsg) StIntegrityCheck AcDiscard2,
      FsmEntry StIntegrityCheck None StIntegrityCheck AcNull,
      FsmEntry StMethodResponse (Some EvSgEndMethod) StSelectAction AcDoPolicyCheck,
      FsmEntry StMethodResponse (Some EvElse) StMethodRequest AcBuildRequest,
      FsmEntry StSendRequest (Some EvUCT) StIdle AcNull,
      FsmEntry StIdle (Some EvTo) StRetransmit AcRetransmit,
      FsmEntry StIdle (Some EvRxMsg) StReceived AcReceiveMsg,
      FsmEntry StReceived (Some EvRxMethodResp) StIntegrityCheck AcDoIntegrityCheck,
      FsmEntry StReceived (Some EvRxNak) StNak AcResetMethod,
      FsmEntry StReceived (Some EvElse) StDiscard AcDiscard,
      FsmEntry StRetransmit (Some EvSgMaxRetransmission) StTimeoutFailure AcNull,
      FsmEntry StRetransmit (Some EvElse) StIdle AcNull,
      FsmEntry StNak (Some EvUCT) StSelectAction AcDoPolicyCheck,
      FsmEntry StDiscard (Some EvUCT) StIdle AcNull,
      FsmEntry StSuccess (Some EvRxMsg) StSuccess AcDiscard2,
      FsmEntry StSuccess None StSuccess AcNull,
      FsmEntry StFailure (Some EvRxMsg) StFailure AcDiscard2,
      FsmEntry StFailure None StFailure AcNull]"

definition backend_cmds :: "auth_entry list" where
  "backend_cmds =
     [FsmEntry StBegin (Some EvSgRestart) StDisabled AcDisable,
      FsmEntry StDisabled (Some EvSgPortEnabled) StInitialize AcBackendInitialize,
      FsmEntry StInitialize (Some EvRxNonResp) StSelectAction AcDoPolicyCheck,
      FsmEntry StInitialize (Some EvElse) StPickUpMethod AcPickUpMethod,
      FsmEntry StPickUpMethod (Some EvSgNoMethod) StSelectAction AcDoPolicyCheck,
      FsmEntry StPickUpMethod (Some EvElse) StIntegrityCheck AcDoIntegrityCheck,
      FsmEntry StInitialize (Some EvRxNak) StNak AcResetMethod,
      FsmEntry StSelectAction (Some EvSgPolicySat) StSuccess AcSendSuccess,
      FsmEntry StSelectAction (Some EvSgPolicyNotSat_EndSess) StFailure AcSendFailure,
      FsmEntry StSelectAction (Some EvElse) StProposeMethod AcProposeMethod,
      FsmEntry StProposeMethod (Some EvSgValidResp) StMethodRequest AcBuildRequest,
      FsmEntry StMethodRequest (Some EvUCT) StSendRequest AcSendRequest,
      FsmEntry StIntegrityCheck (Some EvSgValidResp) StMethodResponse AcMethodResponse,
      FsmEntry StIntegrityCheck (Some EvSgInvalidResp) StDiscard AcDiscard,
      FsmEntry StIntegrityCheck (Some EvRxMsg) StIntegrityCheck AcDiscard2,
      FsmEntry StMethodResponse (Some EvSgEndMethod) StSelectAction AcDoPolicyCheck,
      FsmEntry StMethodResponse (Some EvElse) StMethodRequest AcBuildRequest,
      FsmEntry StSendRequest (Some EvUCT) StIdle AcNull,
      FsmEntry StIdle (Some EvTo) StRetransmit AcRetransmit,
      FsmEntry StIdle (Some EvRxMsg) StReceived AcReceiveMsg,
      FsmEntry StReceived (Some EvRxMethodResp) StIntegrityCheck AcDoIntegrityCheck,
      FsmEntry StReceived (Some EvRxNak) StNak AcResetMethod,
      FsmEntry StReceived (Some EvElse) StDiscard AcDiscard,
      FsmEntry StRetransmit (Some EvSgMaxRetransmission) StTimeoutFailure AcNull,
      FsmEntry StRetransmit (Some EvElse) StIdle AcNull,
      FsmEntry StNak (Some EvUCT) StSelectAction AcDoPolicyCheck,
      FsmEntry StDiscard (Some EvUCT) StIdle AcNull,
      FsmEntry StSuccess (Some EvRxMsg) StSuccess AcDiscard2,
      FsmEntry StSuccess None StSuccess AcNull,
      FsmEntry StFailure (Some EvRxMsg) StFailure AcDiscard2,
      FsmEntry StFailure None StFailure AcNull,
      FsmEntry StIntegrityCheck (Some EvSgTunnelEstablished) StTunnelEstablished AcTunnelEstablished,
      FsmEntry StTunnelEstablished (Some EvSgValidResp) StWaitTunnelProcess AcWaitTunnelProcess,
      FsmEntry StWaitTunnelProcess (Some EvSgValidResp) StMethodResponse AcMethodResponse,
      FsmEntry StIntegrityCheck (Some EvSgInnerEap) StTunnelEstablished AcNotifyInnerEap]"

definition passthrough_cmds :: "auth_entry list" where
  "passthrough_cmds =
     [FsmEntry StBegin (Some EvSgRestart) StDisabled AcDisable,
      FsmEntry StDisabled (Some EvSgPortEnabled) StInitialize AcInitialize,
      FsmEntry StInitialize (Some EvUCT) StSelectAction AcDoPolicyCheck,
      FsmEntry StSelectAction (Some EvSgPolicySat) StSuccess AcSendSuccess,
      FsmEntry StSelectAction (Some EvSgPolicyNotSat_EndSess) StFailure AcSendFailure,
      FsmEntry StSelectAction (Some EvElse) StProposeMethod AcProposeMethod,
      FsmEntry StSelectAction (Some EvSgPassthrough) StInitializePassthrough AcPickUpInitCheck,
      FsmEntry StProposeMethod (Some EvSgValidResp) StMethodRequest AcBuildRequest,
      FsmEntry StMethodRequest (Some EvUCT) StSendRequest AcSendRequest,
      FsmEntry StIntegrityCheck (Some EvSgValidResp) StMethodResponse AcMethodResponse,
      FsmEntry StIntegrityCheck (Some EvSgInvalidResp) StDiscard AcDiscard,
      FsmEntry StIntegrityCheck (Some EvRxMsg) StIntegrityCheck AcDiscard2,
      FsmEntry StMethodResponse (Some EvSgEndMethod) StSelectAction AcDoPolicyCheck,
      FsmEntry StMethodResponse (Some EvElse) StMethodRequest AcBuildRequest,
      FsmEntry StSendRequest (Some EvUCT) StIdle AcNull,
      FsmEntry StIdle (Some EvTo) StRetransmit AcRetransmit,
      FsmEntry StIdle (Some EvRxMsg) StReceived AcReceiveMsg,
      FsmEntry StReceived (Some EvRxMethodResp) StIntegrityCheck AcDoIntegrityCheck,
      FsmEntry StReceived (Some EvRxNak) StNak AcResetMethod,
      FsmEntry StReceived (Some EvElse) StDiscard AcDiscard,
      FsmEntry StRetransmit (Some EvSgMaxRetransmission) StTimeoutFailure AcNull,
      FsmEntry StRetransmit (Some EvElse) StIdle AcNull,
      FsmEntry StNak (Some EvUCT) StSelectAction AcDoPolicyCheck,
      FsmEntry StDiscard (Some EvUCT) StIdle AcNull,
      FsmEntry StSuccess (Some EvRxMsg) StSuccess AcDiscard2,
      FsmEntry StSuccess None StSuccess AcNull,
      FsmEntry StFailure (Some EvRxMsg) StFailure AcDiscard2,
      FsmEntry StFailure None StFailure AcNull,
      FsmEntry StInitializePassthrough (Some EvSgPickUpInit) StAaaRequest AcAaaRequest,
      FsmEntry StInitializePassthrough (Some EvSgNoPickUpInit) StAaaIdle AcDoIntegrityCheck2,
      FsmEntry StAaaRequest (Some EvUCT) StAaaIdle AcDoIntegrityCheck2,
      FsmEntry StAaaIdle (Some EvRxAaaEapReq) StAaaResponse AcPrepareRequest,
      FsmEntry StAaaIdle (Some EvPtAaaSuccess) StSuccess2 AcCompletePassthroughWithSuccess,
      FsmEntry StAaaIdle (Some EvPtAaaFailure) StFailure2 AcCompletePassthroughWithFailure,
      FsmEntry StAaaIdle (Some EvSgAaaContinue) StAaaIdle AcAaaContinue,
      FsmEntry StAaaIdle (Some EvSgAaaSuccess) StAaaIdle AcAaaSuccess,
      FsmEntry StAaaIdle (Some EvSgAaaFailure) StAaaIdle AcAaaFailure,
      FsmEntry StAaaIdle (Some EvSgDiscard) StDiscard2 AcDiscard3,
      FsmEntry StAaaIdle None StAaaIdle AcNull,
      FsmEntry StDiscard2 (Some EvUCT) StIdle2 AcNull,
      FsmEntry StReceived2 (Some EvRxMethodResp) StAaaRequest AcAaaRequest,
      FsmEntry StReceived2 (Some EvElse) StDiscard2 AcDiscard,
      FsmEntry StIdle2 (Some EvRxMsg) StReceived2 AcReceiveMsg2,
      FsmEntry StIdle2 (Some EvSgAaaContinue) StIdle2 AcDiscard3,
      FsmEntry StIdle2 (Some EvTo) StRetransmit2 AcRetransmit,
      FsmEntry StIdle2 None StIdle2 AcNull,
      FsmEntry StAaaResponse (Some EvUCT) StSendRequest2 AcSendRequest,
      FsmEntry StSendRequest2 (Some EvUCT) StIdle2 AcNull,
      FsmEntry StSuccess2 (Some EvSgAaaContinue) StSuccess2 AcDiscard3,
      FsmEntry StSuccess2 None StSuccess2 AcNull,
      FsmEntry StFailure2 (Some EvSgAaaContinue) StFailure2 AcDiscard3,
      FsmEntry StFailure2 None StFailure2 AcNull,
      FsmEntry StRetransmit2 (Some EvSgMaxRetransmission) StTimeoutFailure2 AcNull,
      FsmEntry StRetransmit2 (Some EvElse) StIdle2 AcNull]"

fun auth_cmds :: "auth_kind \<Rightarrow> auth_entry list" where
  "auth_cmds StandAlone = standalone_cmds"
| "auth_cmds Backend = backend_cmds"
| "auth_cmds PassThrough = passthrough_cmds"

definition auth_table :: "auth_kind \<Rightarrow> auth_entry list" where
  "auth_table k = (case build_from [] (auth_cmds k) of Inl _ \<Rightarrow> [] | Inr t \<Rightarrow> t)"

lemma auth_tables_built: "build_from [] (auth_cmds k) = Inr (auth_table k)"
  by (cases k)
    (simp_all add: auth_table_def standalone_cmds_def backend_cmds_def passthrough_cmds_def AddStateTableEntry_def
      AddWildcardStateTableEntry_def FindStateTableEntry_def)

interpretation auth_st: state_table "auth_cmds k" "auth_table k" for k
  by unfold_locales (rule auth_tables_built)

subsection \<open>Operations of an authenticator\<close>

definition auth_sstep :: "auth_env \<Rightarrow> auth_ev \<Rightarrow> eap_auth \<Rightarrow> eap_auth" where
  "auth_sstep env ev s = fsm_Event (auth_table (au_kind s)) (auth_act env) s ev"

definition auth_mstep :: "auth_env \<Rightarrow> slot \<Rightarrow> am_ev \<Rightarrow> eap_auth \<Rightarrow> eap_auth" where
  "auth_mstep env = method_Event (\<lambda>m. am_table (am_kind m)) (am_act env)"

text \<open>No event starts a chain of more than eight (\<open>Eap_Chains\<close>).\<close>

definition auth_settle :: "auth_env \<Rightarrow> eap_auth \<Rightarrow> eap_auth" where
  "auth_settle env s = settle (auth_sstep env) (auth_mstep env) 8 s"

text \<open>What is left of the action in which a thread sleeps, by the state the action belongs to, and whether it has woken.\<close>

definition auth_resume :: "eap_auth \<Rightarrow> eap_auth" where
  "auth_resume s =
     (if fsm_state s = StReceived then au_ReceiveMsg s
      else if fsm_state s = StReceived2 then au_ReceiveMsg2 s
      else if fsm_state s \<in> {StIntegrityCheck, StSuccess, StFailure} then au_drop s
      else au_Discard3 s)"

definition auth_woken :: "eap_auth \<Rightarrow> bool" where
  "auth_woken s \<longleftrightarrow>
     (if fsm_state s \<in> {StReceived, StReceived2, StIntegrityCheck, StSuccess, StFailure} then sw_rxQueue s \<noteq> []
      else au_aaaQueue s \<noteq> [])"

text \<open>The multiplexor serves the next job; a thread that slept goes on first.\<close>

definition auth_Serve :: "auth_env \<Rightarrow> eap_auth \<Rightarrow> eap_auth" where
  "auth_Serve env s =
     (case sw_health s of
        Alive \<Rightarrow> auth_settle env (serve_next s)
      | Blocked \<Rightarrow> if auth_woken s then auth_settle env (auth_resume (wake s)) else s
      | _ \<Rightarrow> s)"

definition auth_Receive :: "mblk \<Rightarrow> eap_auth \<Rightarrow> eap_auth" where
  "auth_Receive b s = sw_Receive EvRxMsg b s"

definition auth_Timeout :: "int \<Rightarrow> eap_auth \<Rightarrow> eap_auth" where
  "auth_Timeout ty s = sw_Timeout ty s"

text \<open>The constructors. A backend does not retransmit.\<close>

definition new_auth :: "auth_kind \<Rightarrow> policy \<Rightarrow> auth_mstate \<Rightarrow> eap_auth" where
  "new_auth k p mst0 =
     \<lparr>fsm_state = StBegin, fsm_running = False, fsm_timers = Map.empty,
      sw_events = [], sw_mux = [], sw_raised = None, sw_health = Alive, sw_out = [], sw_currentMethod = EapType 0,
      sw_tx = None, sw_rx = None, sw_rxQueue = [], sw_id = 0, sw_peerIdentity = [], sw_authIdentity = [],
      sw_policy = p, sw_method = None, sw_inner = None, sw_discard = 0, sw_keyAvailable = False, sw_keyData = [],
      sw_next = 0,
      au_kind = k, au_retransmissionCount = 0, au_maxRetransmissionCount = defaultMaxRetransmissionCount,
      au_retransmissionInterval = (if k = Backend then 0 else defaultRetransmissionInterval),
      au_notification = [], au_needInitialRequest = True, au_methodState = mst0, au_aaaQueue = [], au_nrand = 0\<rparr>"

text \<open>\<open>Start\<close>: only the stand-alone authenticator deletes the method of an earlier run.\<close>

definition auth_Start :: "eap_auth \<Rightarrow> eap_auth" where
  "auth_Start s0 =
     (let s = s0\<lparr>sw_policy := (sw_policy s0)\<lparr>po_current := po_initial (sw_policy s0)\<rparr>\<rparr>;
          s1 = (if au_kind s = StandAlone then DeleteMethodStateMachine s else s)
      in sw_Notify EvSgRestart ((fsm_Start StBegin s1)\<lparr>sw_keyData := [], sw_keyAvailable := False\<rparr>))"

text \<open>\<open>EapBackendAuthSwitchStateMachine::Start(AAAMessageBlock*)\<close>.\<close>

definition backend_Start_with :: "mblk option \<Rightarrow> eap_auth \<Rightarrow> eap_auth" where
  "backend_Start_with msg s0 =
     (let s = s0\<lparr>sw_policy := (sw_policy s0)\<lparr>po_current := po_initial (sw_policy s0)\<rparr>\<rparr>;
          s1 = (case msg of None \<Rightarrow> s | Some b \<Rightarrow> s\<lparr>sw_rx := Some b\<rparr>)
      in sw_Notify EvSgRestart (fsm_Start StBegin s1))"

text \<open>The messages of the AAA side for a pass-through authenticator; \<open>None\<close> is the exception.\<close>

definition AAA_Continue :: "mblk option \<Rightarrow> eap_auth \<Rightarrow> eap_auth option" where
  "AAA_Continue msg s =
     (if Decision s \<noteq> DecisionPassthrough then None
      else case msg of
             None \<Rightarrow> None
           | Some b \<Rightarrow> Some (sw_Notify EvSgAaaContinue (s\<lparr>au_aaaQueue := au_aaaQueue s @ [b]\<rparr>)))"

definition AAA_Success :: "mblk option \<Rightarrow> byte list option \<Rightarrow> eap_auth \<Rightarrow> eap_auth option" where
  "AAA_Success msg key s =
     (if Decision s \<noteq> DecisionPassthrough then None
      else let s1 = (case key of None \<Rightarrow> s | Some k \<Rightarrow> s\<lparr>sw_keyData := k\<rparr>);
               s2 = (case msg of None \<Rightarrow> s1 | Some b \<Rightarrow> s1\<lparr>au_aaaQueue := au_aaaQueue s1 @ [b]\<rparr>)
           in Some (sw_Notify EvSgAaaSuccess s2))"

definition AAA_Failure :: "mblk option \<Rightarrow> eap_auth \<Rightarrow> eap_auth option" where
  "AAA_Failure msg s =
     (if Decision s \<noteq> DecisionPassthrough then None
      else Some (sw_Notify EvSgAaaFailure
                   (case msg of None \<Rightarrow> s | Some b \<Rightarrow> s\<lparr>au_aaaQueue := au_aaaQueue s @ [b]\<rparr>)))"

subsection \<open>Runs\<close>

text \<open>What can happen to an authenticator after its start, with the messages it has received, newest first.\<close>

inductive auth_run :: "auth_env \<Rightarrow> eap_auth \<Rightarrow> mblk list \<Rightarrow> eap_auth \<Rightarrow> bool" for env s0 where
  run_start: "auth_run env s0 [] (auth_Start s0)"
| run_start_with: "au_kind s0 = Backend \<Longrightarrow> auth_run env s0 [] (backend_Start_with msg s0)"
| run_receive: "auth_run env s0 tr s \<Longrightarrow> auth_run env s0 (b # tr) (auth_Receive b s)"
| run_timeout: "auth_run env s0 tr s \<Longrightarrow> auth_run env s0 tr (auth_Timeout ty s)"
| run_serve: "auth_run env s0 tr s \<Longrightarrow> auth_run env s0 tr (auth_Serve env s)"

end
