(* ===== verification/Eap_Peer.thy ===== *)
theory Eap_Peer
  imports Eap_Fsm
begin

text \<open>
  The EAP peer: \<open>libeap/include/eap_peerfsm.hxx\<close> and \<open>libeap/eapcore/eap_peerfsm.cxx\<close>, with the peer's side of
  MD5-Challenge (\<open>eap_md5.cxx\<close>). Identity and notification requests the switch machine answers itself.
\<close>

subsection \<open>State\<close>

datatype ep_st =
    EpDisabled | EpInitialize | EpIdle | EpReceived | EpMethod | EpGetMethod | EpDiscard | EpRetransmit
  | EpSendResponse | EpIdentity | EpNotification | EpSuccess | EpFailure | EpTunnelEstablished | EpWaitTunnelProcess

datatype ep_ev =
    PvRxMsg | PvSgPortEnabled | PvSgValidReq | PvSgInvalidReq | PvSgTunnelEstablished
  | PvUCT | PvSgNewMethod | PvSgContMethod | PvSgEnterMethod | PvSgNoEnterMethod | PvSgSuccess | PvSgFailure
  | PvSgRetransmit | PvSgUserInputFinished | PvSgNotificationOutputFinished | PvRxNotification | PvRxIdentity
  | PvElse | PvTo | PvToCheckIdentity

datatype pm_st = PmInitialize | PmProcessRequest | PmSuccess

datatype pm_ev = PmIntegrityCheck | PmTunnelProcess | PmAccept | PmReject

datatype peer_creator = PeerMD5

record peer_method = "(pm_st, pm_ev) eap_method" +
  pm_passphrase :: "byte list"
  pm_myName :: "byte list"
  pm_peerName :: "byte list"
  pm_value :: "byte list"

datatype ep_decision = FAIL | COND_SUCC | UNCOND_SUCC

datatype ep_mstate = MNone | MInit | MCont | MMayCont | MDone

record eap_peer = "(ep_st, ep_ev, pm_ev, peer_method) eap_switch" +
  ep_lastIdentifier :: byte
  ep_lastIdValidity :: bool
  ep_authPeriod :: u16
  ep_receivedFirst :: bool
  ep_notificationAllowed :: bool
  ep_notificationStr :: "byte list"
  ep_reqMethod :: eap_type
  ep_future :: "byte list option"
  ep_identityTimer :: int
  ep_decision :: ep_decision
  ep_methodState :: ep_mstate

text \<open>Outside: the registrar, MD5, the passphrase and the name the application sets, and the identity when the task that
  asks for it has it at once.\<close>

record peer_env =
  pe_methods :: "(eap_type \<times> EapRole \<times> peer_creator) list"
  pe_MD5 :: "byte list \<Rightarrow> byte list"
  pe_passphrase :: "byte list"
  pe_myName :: "byte list"
  pe_identity_now :: "byte list option"

definition defaultAuthPeriod :: u16 where "defaultAuthPeriod = 10"

definition new_peer_method :: "peer_env \<Rightarrow> peer_creator \<Rightarrow> nat \<Rightarrow> peer_method" where
  "new_peer_method env c i =
     \<lparr>fsm_state = PmInitialize, fsm_running = False, fsm_timers = Map.empty, em_id = i, em_events = [],
      em_isDone = False, em_keyData = [], pm_passphrase = [], pm_myName = pe_myName env, pm_peerName = [],
      pm_value = []\<rparr>"

subsection \<open>The method MD5-Challenge\<close>

definition with_req :: "(mblk \<Rightarrow> eap_peer \<Rightarrow> eap_peer) \<Rightarrow> eap_peer \<Rightarrow> eap_peer" where
  "with_req f s = (case sw_rx s of None \<Rightarrow> crash s | Some b \<Rightarrow> f b s)"

definition with_resp :: "(mblk \<Rightarrow> eap_peer \<Rightarrow> eap_peer) \<Rightarrow> eap_peer \<Rightarrow> eap_peer" where
  "with_resp f s = (case sw_tx s of None \<Rightarrow> crash s | Some b \<Rightarrow> f b s)"

definition pm_DoIntegrityCheck :: "peer_env \<Rightarrow> slot \<Rightarrow> eap_peer \<Rightarrow> eap_peer" where
  "pm_DoIntegrityCheck env sl =
     with_req (\<lambda>b s.
       case MD5_toApp b of
         Wild \<Rightarrow> crash s
       | Thrown \<Rightarrow> m_Event sl PmReject s
       | Parsed (c, b') \<Rightarrow>
           with_method sl (\<lambda>m s.
             let pass = pe_passphrase env; m1 = m\<lparr>pm_passphrase := pass\<rparr>
             in if pass = [] then m_Event sl PmReject (put_method sl m1 s)
                else m_Event sl PmAccept
                       (put_method sl (m1\<lparr>pm_peerName := md_name c,
                          pm_value := pe_MD5 env (sw_id s # pass @ md_value c)\<rparr>) s)) (s\<lparr>sw_rx := Some b'\<rparr>))"

definition pm_NotifySuccess :: "slot \<Rightarrow> eap_peer \<Rightarrow> eap_peer" where
  "pm_NotifySuccess sl =
     with_method sl (\<lambda>m s.
       case MD5_toRaw \<lparr>md_value = pm_value m, md_name = pm_myName m\<rparr>
              (mb_Acquire (5 + length (pm_value m) + 1 + length (pm_myName m))) of
         Parsed b \<Rightarrow>
           sw_Event PvSgValidReq
             (put_method sl (m\<lparr>em_isDone := True\<rparr>) (s\<lparr>sw_tx := Some b, ep_decision := UNCOND_SUCC\<rparr>))
       | _ \<Rightarrow> crash s)"

definition pm_NotifyInvalid :: "slot \<Rightarrow> eap_peer \<Rightarrow> eap_peer" where
  "pm_NotifyInvalid sl =
     with_method sl (\<lambda>m s. sw_Event PvSgInvalidReq (put_method sl (m\<lparr>em_isDone := True\<rparr>) s))"

datatype pm_ac = PmDoIntegrityCheck | PmNotifySuccess | PmNotifyInvalid | PmNull

fun pm_act :: "peer_env \<Rightarrow> pm_ac \<Rightarrow> slot \<Rightarrow> eap_peer \<Rightarrow> eap_peer" where
  "pm_act env PmDoIntegrityCheck sl s = pm_DoIntegrityCheck env sl s"
| "pm_act env PmNotifySuccess sl s = pm_NotifySuccess sl s"
| "pm_act env PmNotifyInvalid sl s = pm_NotifyInvalid sl s"
| "pm_act env PmNull sl s = s"

definition pm_cmds :: "(pm_st, pm_ev, pm_ac) fsm_entry list" where
  "pm_cmds =
     [FsmEntry PmInitialize (Some PmIntegrityCheck) PmProcessRequest PmDoIntegrityCheck,
      FsmEntry PmProcessRequest (Some PmReject) PmInitialize PmNotifyInvalid,
      FsmEntry PmProcessRequest (Some PmAccept) PmSuccess PmNotifySuccess,
      FsmEntry PmSuccess None PmSuccess PmNull]"

definition pm_table :: "(pm_st, pm_ev, pm_ac) fsm_entry list" where
  "pm_table = (case build_from [] pm_cmds of Inl _ \<Rightarrow> [] | Inr t \<Rightarrow> t)"

lemma pm_table_built: "build_from [] pm_cmds = Inr pm_table"
  by (simp add: pm_table_def pm_cmds_def AddStateTableEntry_def AddWildcardStateTableEntry_def
      FindStateTableEntry_def)

interpretation pm_st: state_table pm_cmds pm_table
  by unfold_locales (rule pm_table_built)

subsection \<open>Actions of the peer\<close>

definition ep_SendResp :: "eap_peer \<Rightarrow> eap_peer" where
  "ep_SendResp s = with_resp (\<lambda>b s. callback (OutSend (mb_bytes b)) s) (sw_Notify PvUCT s)"

definition ep_Initialize :: "eap_peer \<Rightarrow> eap_peer" where
  "ep_Initialize s = sw_Event PvUCT (s\<lparr>ep_notificationAllowed := True, ep_methodState := MNone\<rparr>)"

definition ep_Retransmit :: "eap_peer \<Rightarrow> eap_peer" where
  "ep_Retransmit s = sw_Event PvUCT (ep_SendResp s)"

definition ep_CheckTimeoutCondition :: "eap_peer \<Rightarrow> eap_peer" where
  "ep_CheckTimeoutCondition s =
     sw_Event (if IsSatisfied (sw_policy s) \<and> ep_decision s = COND_SUCC then PvSgSuccess else PvSgFailure) s"

definition ep_SendSuccess :: "eap_peer \<Rightarrow> eap_peer" where
  "ep_SendSuccess s0 =
     (let s = CancelTimer 0 s0
      in callback OutSuccess (if sw_keyData s \<noteq> [] then s\<lparr>sw_keyAvailable := True\<rparr> else s))"

definition ep_SendFailure :: "eap_peer \<Rightarrow> eap_peer" where
  "ep_SendFailure s = callback OutFailure (CancelTimer 0 s)"

text \<open>The key of the method is looked at once the method has left \<open>INIT\<close>.\<close>

definition ep_BuildResp :: "eap_peer \<Rightarrow> eap_peer" where
  "ep_BuildResp =
     with_resp (\<lambda>b s.
       case compose_pdu Response (sw_id s) b of
         Parsed b' \<Rightarrow>
           (let s1 = s\<lparr>sw_tx := Some b', ep_lastIdValidity := True, ep_lastIdentifier := sw_id s\<rparr>
            in if ep_methodState s1 = MNone \<or> ep_methodState s1 = MInit then ep_SendResp s1
               else with_method OuterMethod (\<lambda>m s.
                      ep_SendResp (if em_keyData m \<noteq> [] then s\<lparr>sw_keyData := em_keyData m\<rparr> else s)) s1)
       | _ \<Rightarrow> crash s)"

definition ep_DoIntegrityCheck :: "eap_peer \<Rightarrow> eap_peer" where
  "ep_DoIntegrityCheck s = m_Notify OuterMethod PmIntegrityCheck s"

definition ep_DoPolicyCheck :: "peer_env \<Rightarrow> eap_peer \<Rightarrow> eap_peer" where
  "ep_DoPolicyCheck env s =
     (let t = ep_reqMethod s;
          allow = (if t = EapType 1 then sw_currentMethod s = EapType 0 else Allow t (sw_policy s))
      in if allow
         then sw_Event PvSgEnterMethod
                (m_Start OuterMethod PmInitialize
                  ((CreateMethodStateMachine (pe_methods env) (new_peer_method env) t Peer (po_inner (sw_policy s))
                     (DeleteMethodStateMachine (s\<lparr>sw_currentMethod := t\<rparr>)))\<lparr>ep_methodState := MInit\<rparr>))
         else sw_Event PvSgNoEnterMethod s)"

definition ep_Discard :: "eap_peer \<Rightarrow> eap_peer" where
  "ep_Discard s = sw_Event PvUCT (s\<lparr>sw_discard := sw_discard s + 1\<rparr>)"

text \<open>The Nak: the block has room for the header and the list, the type byte is not counted.\<close>

definition ep_BuildNak :: "eap_peer \<Rightarrow> eap_peer" where
  "ep_BuildNak s =
     (let types = MakeTypeList (IsVSE (sw_currentMethod s)) (sw_policy s);
          extended = list_IsVSE types;
          n = (if extended then 8 * length types else length types);
          b = Nak_toRaw (Some (if extended then ExtendedNak else LegacyNak)) types (mb_Acquire (4 + n))
      in case compose_pdu Response (sw_id s) b of
           Parsed b' \<Rightarrow> ep_SendResp (s\<lparr>sw_tx := Some b', ep_lastIdValidity := True\<rparr>)
         | _ \<Rightarrow> crash s)"

definition ep_ParseNotification :: "eap_peer \<Rightarrow> eap_peer" where
  "ep_ParseNotification =
     with_req (\<lambda>b s.
       case Notification_toApp b of
         Wild \<Rightarrow> crash s
       | Thrown \<Rightarrow> sw_Event PvElse s
       | Parsed (text, b') \<Rightarrow>
           sw_Event PvSgNotificationOutputFinished
             (callback (OutNotification text) (s\<lparr>sw_rx := Some b', ep_notificationStr := text\<rparr>)))"

definition ep_BuildNotification :: "eap_peer \<Rightarrow> eap_peer" where
  "ep_BuildNotification s =
     sw_Event PvUCT (s\<lparr>sw_tx := Some (Request_toRaw ([], []) (EapType 2) (mb_Acquire 5))\<rparr>)"

text \<open>The identity comes from a task; a timer of a tenth of a second asks whether it is there (its period is 0 here).\<close>

definition ep_have_identity :: "byte list \<Rightarrow> eap_peer \<Rightarrow> eap_peer" where
  "ep_have_identity who s = sw_Notify PvSgUserInputFinished (s\<lparr>sw_peerIdentity := who\<rparr>)"

definition ep_ParseIdentity :: "peer_env \<Rightarrow> eap_peer \<Rightarrow> eap_peer" where
  "ep_ParseIdentity env =
     with_req (\<lambda>b s.
       case Identity_toApp b of
         Wild \<Rightarrow> crash s
       | Thrown \<Rightarrow> sw_Event PvElse s
       | Parsed (text, b') \<Rightarrow>
           (let s1 = s\<lparr>sw_rx := Some b', sw_authIdentity := text, ep_future := pe_identity_now env\<rparr>
            in case ep_future s1 of
                 Some who \<Rightarrow> ep_have_identity who s1
               | None \<Rightarrow> ScheduleTimer PvToCheckIdentity 0 (ep_identityTimer s1) s1))"

definition ep_CheckIdentity :: "eap_peer \<Rightarrow> eap_peer" where
  "ep_CheckIdentity s0 =
     (let s = CancelTimer (ep_identityTimer s0) s0
      in case ep_future s of
           Some who \<Rightarrow> CancelTimer (ep_identityTimer s) (ep_have_identity who s)
         | None \<Rightarrow> ScheduleTimer PvToCheckIdentity 0 (ep_identityTimer s) s)"

definition ep_BuildIdentity :: "eap_peer \<Rightarrow> eap_peer" where
  "ep_BuildIdentity s =
     (case Identity_toRaw (sw_peerIdentity s) (mb_Acquire (5 + length (sw_peerIdentity s))) of
        Parsed b \<Rightarrow> sw_Event PvUCT (s\<lparr>sw_tx := Some b, ep_lastIdValidity := True\<rparr>)
      | _ \<Rightarrow> sw_Event PvElse s)"

definition ep_StartTimer :: "eap_peer \<Rightarrow> eap_peer" where
  "ep_StartTimer s = ScheduleTimer PvTo (unat (ep_authPeriod s)) 0 s"

definition ep_CheckRxQueue :: "eap_peer \<Rightarrow> eap_peer" where
  "ep_CheckRxQueue s = (if sw_rxQueue s \<noteq> [] then sw_Event PvRxMsg s else s)"

definition ep_CheckSuccessCondition :: "eap_peer \<Rightarrow> eap_peer" where
  "ep_CheckSuccessCondition s =
     sw_Event (if ep_decision s \<noteq> FAIL then PvSgSuccess
               else if ep_methodState s \<noteq> MCont then PvSgFailure
               else PvElse) s"

definition ep_CheckFailureCondition :: "eap_peer \<Rightarrow> eap_peer" where
  "ep_CheckFailureCondition s =
     sw_Event (if ep_methodState s \<noteq> MCont \<and> ep_decision s \<noteq> UNCOND_SUCC then PvSgFailure else PvElse) s"

definition ep_ParseRequest :: "eap_peer \<Rightarrow> eap_peer" where
  "ep_ParseRequest =
     with_req (\<lambda>b s.
       case Request_toApp b of
         Parsed (t, b') \<Rightarrow>
           (let s1 = s\<lparr>sw_rx := Some b', ep_reqMethod := t\<rparr>
            in if t = EapType 2
               then (if \<not> ep_notificationAllowed s1 then sw_Event PvElse s1
                     else sw_Event PvRxNotification (s1\<lparr>sw_currentMethod := t\<rparr>))
               else if sw_currentMethod s1 = EapType 0 \<and> t = EapType 1 then sw_Event PvRxIdentity s1
               else if sw_currentMethod s1 = EapType 0 then sw_Event PvSgNewMethod s1
               else if t = sw_currentMethod s1 \<and> ep_methodState s1 \<noteq> MDone then sw_Event PvSgContMethod s1
               else sw_Event PvElse s1)
       | _ \<Rightarrow> crash s)"

definition ep_ReceiveMsg :: "eap_peer \<Rightarrow> eap_peer" where
  "ep_ReceiveMsg s0 =
     (case sw_rxQueue s0 of
        [] \<Rightarrow> block s0
      | b # q \<Rightarrow>
          (case Header_toApp b of
             Parsed (h, b') \<Rightarrow>
               (let s = s0\<lparr>sw_rxQueue := q, sw_rx := Some b'\<rparr>
                in if eh_code h \<noteq> Request \<and> eh_code h \<noteq> Success \<and> eh_code h \<noteq> Failure then sw_Event PvElse s
                   else if eh_code h = Request
                   then (if ep_receivedFirst s \<and> eh_identifier h = ep_lastIdentifier s
                         then sw_Event (if ep_lastIdValidity s then PvSgRetransmit else PvElse) s
                         else ep_ParseRequest (s\<lparr>sw_id := eh_identifier h, ep_receivedFirst := True\<rparr>))
                   else if eh_code h = Success then ep_CheckSuccessCondition s
                   else ep_CheckFailureCondition s)
           | _ \<Rightarrow> crash (s0\<lparr>sw_rxQueue := q, sw_rx := Some b\<rparr>)))"

definition ep_TunnelEstablished :: "eap_peer \<Rightarrow> eap_peer" where
  "ep_TunnelEstablished s = m_Notify InnerMethod PmIntegrityCheck (m_Start InnerMethod PmInitialize s)"

definition ep_WaitTunnelProcess :: "eap_peer \<Rightarrow> eap_peer" where
  "ep_WaitTunnelProcess =
     with_resp (\<lambda>b s.
       case compose_pdu Response (sw_id s) b of
         Parsed b' \<Rightarrow> m_Notify OuterMethod PmTunnelProcess (s\<lparr>sw_tx := Some b'\<rparr>)
       | _ \<Rightarrow> crash s)"

subsection \<open>State table\<close>

datatype ep_ac =
    EpacInitialize | EpacRetransmit | EpacCheckTimeoutCondition | EpacSendSuccess | EpacSendFailure | EpacBuildResp
  | EpacDoIntegrityCheck | EpacDoPolicyCheck | EpacDiscard | EpacBuildNak | EpacParseNotification
  | EpacBuildNotification | EpacParseIdentity | EpacBuildIdentity | EpacStartTimer | EpacCheckRxQueue
  | EpacReceiveMsg | EpacCheckIdentity | EpacTunnelEstablished | EpacWaitTunnelProcess | EpacNull

fun ep_act :: "peer_env \<Rightarrow> ep_ac \<Rightarrow> eap_peer \<Rightarrow> eap_peer" where
  "ep_act env EpacInitialize s = ep_Initialize s"
| "ep_act env EpacRetransmit s = ep_Retransmit s"
| "ep_act env EpacCheckTimeoutCondition s = ep_CheckTimeoutCondition s"
| "ep_act env EpacSendSuccess s = ep_SendSuccess s"
| "ep_act env EpacSendFailure s = ep_SendFailure s"
| "ep_act env EpacBuildResp s = ep_BuildResp s"
| "ep_act env EpacDoIntegrityCheck s = ep_DoIntegrityCheck s"
| "ep_act env EpacDoPolicyCheck s = ep_DoPolicyCheck env s"
| "ep_act env EpacDiscard s = ep_Discard s"
| "ep_act env EpacBuildNak s = ep_BuildNak s"
| "ep_act env EpacParseNotification s = ep_ParseNotification s"
| "ep_act env EpacBuildNotification s = ep_BuildNotification s"
| "ep_act env EpacParseIdentity s = ep_ParseIdentity env s"
| "ep_act env EpacBuildIdentity s = ep_BuildIdentity s"
| "ep_act env EpacStartTimer s = ep_StartTimer s"
| "ep_act env EpacCheckRxQueue s = ep_CheckRxQueue s"
| "ep_act env EpacReceiveMsg s = ep_ReceiveMsg s"
| "ep_act env EpacCheckIdentity s = ep_CheckIdentity s"
| "ep_act env EpacTunnelEstablished s = ep_TunnelEstablished s"
| "ep_act env EpacWaitTunnelProcess s = ep_WaitTunnelProcess s"
| "ep_act env EpacNull s = s"

definition ep_cmds :: "(ep_st, ep_ev, ep_ac) fsm_entry list" where
  "ep_cmds =
     [FsmEntry EpDisabled (Some PvSgPortEnabled) EpInitialize EpacInitialize,
      FsmEntry EpInitialize (Some PvUCT) EpIdle EpacStartTimer,
      FsmEntry EpIdle (Some PvRxMsg) EpReceived EpacReceiveMsg,
      FsmEntry EpIdle (Some PvTo) EpIdle EpacCheckTimeoutCondition,
      FsmEntry EpIdle (Some PvSgSuccess) EpSuccess EpacSendSuccess,
      FsmEntry EpIdle (Some PvSgFailure) EpFailure EpacSendFailure,
      FsmEntry EpReceived (Some PvSgSuccess) EpSuccess EpacSendSuccess,
      FsmEntry EpReceived (Some PvSgFailure) EpFailure EpacSendFailure,
      FsmEntry EpReceived (Some PvSgRetransmit) EpRetransmit EpacRetransmit,
      FsmEntry EpReceived (Some PvSgContMethod) EpMethod EpacDoIntegrityCheck,
      FsmEntry EpReceived (Some PvSgNewMethod) EpGetMethod EpacDoPolicyCheck,
      FsmEntry EpReceived (Some PvRxNotification) EpNotification EpacParseNotification,
      FsmEntry EpReceived (Some PvRxIdentity) EpIdentity EpacParseIdentity,
      FsmEntry EpReceived (Some PvElse) EpDiscard EpacDiscard,
      FsmEntry EpIdentity (Some PvSgUserInputFinished) EpIdentity EpacBuildIdentity,
      FsmEntry EpIdentity (Some PvUCT) EpSendResponse EpacBuildResp,
      FsmEntry EpIdentity (Some PvTo) EpFailure EpacSendFailure,
      FsmEntry EpIdentity (Some PvToCheckIdentity) EpIdentity EpacCheckIdentity,
      FsmEntry EpIdentity None EpIdentity EpacNull,
      FsmEntry EpNotification (Some PvSgNotificationOutputFinished) EpNotification EpacBuildNotification,
      FsmEntry EpNotification (Some PvUCT) EpSendResponse EpacBuildResp,
      FsmEntry EpNotification (Some PvTo) EpFailure EpacSendFailure,
      FsmEntry EpNotification (Some PvElse) EpDiscard EpacDiscard,
      FsmEntry EpNotification None EpIdentity EpacNull,
      FsmEntry EpGetMethod (Some PvSgEnterMethod) EpMethod EpacDoIntegrityCheck,
      FsmEntry EpGetMethod (Some PvSgNoEnterMethod) EpSendResponse EpacBuildNak,
      FsmEntry EpGetMethod None EpGetMethod EpacNull,
      FsmEntry EpMethod (Some PvSgValidReq) EpSendResponse EpacBuildResp,
      FsmEntry EpMethod (Some PvSgInvalidReq) EpDiscard EpacDiscard,
      FsmEntry EpMethod (Some PvSgFailure) EpFailure EpacSendFailure,
      FsmEntry EpMethod (Some PvSgTunnelEstablished) EpTunnelEstablished EpacTunnelEstablished,
      FsmEntry EpTunnelEstablished (Some PvSgValidReq) EpWaitTunnelProcess EpacWaitTunnelProcess,
      FsmEntry EpWaitTunnelProcess (Some PvSgValidReq) EpSendResponse EpacBuildResp,
      FsmEntry EpMethod (Some PvTo) EpMethod EpacCheckTimeoutCondition,
      FsmEntry EpMethod (Some PvSgSuccess) EpSuccess EpacSendSuccess,
      FsmEntry EpMethod None EpMethod EpacNull,
      FsmEntry EpDiscard (Some PvUCT) EpIdle EpacCheckRxQueue,
      FsmEntry EpSuccess (Some PvRxMsg) EpSuccess EpacReceiveMsg,
      FsmEntry EpSuccess None EpSuccess EpacNull,
      FsmEntry EpFailure (Some PvRxMsg) EpFailure EpacReceiveMsg,
      FsmEntry EpFailure None EpFailure EpacNull,
      FsmEntry EpRetransmit (Some PvUCT) EpSendResponse EpacNull,
      FsmEntry EpSendResponse (Some PvUCT) EpIdle EpacCheckRxQueue]"

definition ep_table :: "(ep_st, ep_ev, ep_ac) fsm_entry list" where
  "ep_table = (case build_from [] ep_cmds of Inl _ \<Rightarrow> [] | Inr t \<Rightarrow> t)"

lemma ep_table_built: "build_from [] ep_cmds = Inr ep_table"
  by (simp add: ep_table_def ep_cmds_def AddStateTableEntry_def AddWildcardStateTableEntry_def
      FindStateTableEntry_def)

interpretation ep_st: state_table ep_cmds ep_table
  by unfold_locales (rule ep_table_built)

subsection \<open>Operations of a peer\<close>

definition ep_sstep :: "peer_env \<Rightarrow> ep_ev \<Rightarrow> eap_peer \<Rightarrow> eap_peer" where
  "ep_sstep env ev s = fsm_Event ep_table (ep_act env) s ev"

definition ep_mstep :: "peer_env \<Rightarrow> slot \<Rightarrow> pm_ev \<Rightarrow> eap_peer \<Rightarrow> eap_peer" where
  "ep_mstep env = method_Event (\<lambda>m. pm_table) (pm_act env)"

text \<open>A message that is discarded makes way for the next one in the same chain, so the bound depends on the queue.\<close>

definition ep_settle :: "peer_env \<Rightarrow> eap_peer \<Rightarrow> eap_peer" where
  "ep_settle env s = settle (ep_sstep env) (ep_mstep env) (8 + 5 * length (sw_rxQueue s)) s"

text \<open>A peer sleeps in \<open>AcReceiveMsg\<close> only, which has then done nothing yet.\<close>

definition peer_Serve_next :: "peer_env \<Rightarrow> eap_peer \<Rightarrow> eap_peer" where
  "peer_Serve_next env s =
     (case sw_health s of
        Alive \<Rightarrow> ep_settle env (serve_next s)
      | Blocked \<Rightarrow> if sw_rxQueue s \<noteq> [] then ep_settle env (ep_ReceiveMsg (wake s)) else s
      | _ \<Rightarrow> s)"

definition ep_Receive :: "mblk \<Rightarrow> eap_peer \<Rightarrow> eap_peer" where
  "ep_Receive b s = sw_Receive PvRxMsg b s"

definition ep_Timeout :: "int \<Rightarrow> eap_peer \<Rightarrow> eap_peer" where
  "ep_Timeout ty s = sw_Timeout ty s"

text \<open>The task has the user's input.\<close>

definition ep_identity_ready :: "byte list \<Rightarrow> eap_peer \<Rightarrow> eap_peer" where
  "ep_identity_ready who s = s\<lparr>ep_future := Some who\<rparr>"

text \<open>What the constructor leaves uninitialised is given: the last identifier, the decision and the state of the method.\<close>

definition new_eap_peer :: "policy \<Rightarrow> int \<Rightarrow> byte \<Rightarrow> ep_decision \<Rightarrow> ep_mstate \<Rightarrow> eap_peer" where
  "new_eap_peer p ty i0 d0 m0 =
     \<lparr>fsm_state = EpDisabled, fsm_running = False, fsm_timers = Map.empty,
      sw_events = [], sw_mux = [], sw_raised = None, sw_health = Alive, sw_out = [], sw_currentMethod = EapType 0,
      sw_tx = None, sw_rx = None, sw_rxQueue = [], sw_id = 0, sw_peerIdentity = [], sw_authIdentity = [],
      sw_policy = p, sw_method = None, sw_inner = None, sw_discard = 0, sw_keyAvailable = False, sw_keyData = [],
      sw_next = 0,
      ep_lastIdentifier = i0, ep_lastIdValidity = False, ep_authPeriod = defaultAuthPeriod, ep_receivedFirst = False,
      ep_notificationAllowed = False, ep_notificationStr = [], ep_reqMethod = EapType 0, ep_future = None,
      ep_identityTimer = ty, ep_decision = d0, ep_methodState = m0\<rparr>"

definition ep_Start :: "eap_peer \<Rightarrow> eap_peer" where
  "ep_Start s0 =
     (let s1 = DeleteMethodStateMachine (s0\<lparr>sw_policy := (sw_policy s0)\<lparr>po_current := po_initial (sw_policy s0)\<rparr>\<rparr>)
      in sw_Notify PvSgPortEnabled
           ((fsm_Start EpDisabled s1)\<lparr>ep_lastIdValidity := False, sw_id := 0, sw_currentMethod := EapType 0,
              sw_keyAvailable := False, sw_keyData := []\<rparr>))"

inductive peer_run :: "peer_env \<Rightarrow> eap_peer \<Rightarrow> mblk list \<Rightarrow> eap_peer \<Rightarrow> bool" for env s0 where
  prun_start: "peer_run env s0 [] (ep_Start s0)"
| prun_receive: "peer_run env s0 tr s \<Longrightarrow> peer_run env s0 (b # tr) (ep_Receive b s)"
| prun_timeout: "peer_run env s0 tr s \<Longrightarrow> peer_run env s0 tr (ep_Timeout ty s)"
| prun_identity: "peer_run env s0 tr s \<Longrightarrow> peer_run env s0 tr (ep_identity_ready who s)"
| prun_serve: "peer_run env s0 tr s \<Longrightarrow> peer_run env s0 tr (peer_Serve_next env s)"

end
