(* ===== verification/Eap_Chains.thy ===== *)
theory Eap_Chains
  imports Eap_Auth Eap_Peer
begin

text \<open>
  Every event an EAP machine is given is dealt with in a bounded chain of \<open>Event\<close> calls: the events each action can
  raise, a rank of states and events that the tables lower, and the instances of \<open>eap_chains\<close>.
\<close>

subsection \<open>What the actions of an authenticator raise\<close>

fun auth_raises :: "auth_ac \<Rightarrow> auth_ev list" where
  "auth_raises AcDisable = [EvSgPortEnabled]"
| "auth_raises AcInitialize = [EvUCT]"
| "auth_raises AcBackendInitialize = [EvElse, EvRxNonResp, EvRxNak]"
| "auth_raises AcPickUpMethod = [EvElse, EvSgNoMethod]"
| "auth_raises AcBuildRequest = [EvUCT]"
| "auth_raises AcMethodResponse = [EvSgEndMethod, EvElse]"
| "auth_raises AcDoPolicyCheck = [EvSgPolicySat, EvSgPolicyNotSat_EndSess, EvSgPassthrough, EvElse]"
| "auth_raises AcDiscard = [EvUCT]"
| "auth_raises AcDiscard2 = [EvUCT]"
| "auth_raises AcResetMethod = [EvUCT]"
| "auth_raises AcRetransmit = [EvSgMaxRetransmission]"
| "auth_raises AcReceiveMsg = [EvRxNak, EvElse, EvRxMethodResp]"
| "auth_raises AcReceiveMsg2 = [EvRxMethodResp]"
| "auth_raises AcPickUpInitCheck = [EvSgNoPickUpInit, EvSgPickUpInit]"
| "auth_raises AcAaaRequest = [EvUCT]"
| "auth_raises AcPrepareRequest = [EvUCT]"
| "auth_raises AcAaaContinue = [EvSgDiscard, EvRxAaaEapReq]"
| "auth_raises AcAaaSuccess = [EvSgDiscard, EvPtAaaSuccess]"
| "auth_raises AcAaaFailure = [EvSgDiscard, EvPtAaaFailure]"
| "auth_raises _ = []"

lemma auth_calm [simp]:
  fixes s :: eap_auth
  shows "calm s0 (s\<lparr>au_methodState := ms\<rparr>) = calm s0 s" "calm s0 (s\<lparr>au_retransmissionCount := r\<rparr>) = calm s0 s"
    "calm s0 (s\<lparr>au_aaaQueue := c\<rparr>) = calm s0 s" "calm s0 (s\<lparr>au_nrand := n\<rparr>) = calm s0 s"
    "calm s0 (reset_retransmission s) = calm s0 s" "calm s0 (make_key_available s) = calm s0 s"
  by (auto simp: calm_def reset_retransmission_def make_key_available_def CancelTimer_def)

lemma auth_does_with [does_intros]:
  "calm s0 s \<Longrightarrow> (\<And>b. calm s0 s \<Longrightarrow> does evs s0 (f b s)) \<Longrightarrow> does evs s0 (with_rx f s)"
  "calm s0 s \<Longrightarrow> (\<And>b. calm s0 s \<Longrightarrow> does evs s0 (f b s)) \<Longrightarrow> does evs s0 (with_tx f s)"
  by (auto simp: with_rx_def with_tx_def split: option.split intro: does_basic)

lemma auth_does_rx [does_intros]:
  "calm s0 s \<Longrightarrow> (\<And>h b. does evs s0 (f h (s\<lparr>sw_rx := Some b\<rparr>))) \<Longrightarrow> does evs s0 (rx_header f s)"
  "calm s0 s \<Longrightarrow> (\<And>t b. does evs s0 (g t (s\<lparr>sw_rx := Some b\<rparr>))) \<Longrightarrow> does evs s0 (rx_type g s)"
  unfolding rx_header_def rx_type_def
  by (intro auth_does_with; auto split: parse.split intro: does_basic)+

lemma create_and_start_calm [simp]: "calm s0 s \<Longrightarrow> calm s0 (create_and_start env t s)"
  unfolding create_and_start_def by (intro m_Start_calm create_calm)

lemma auth_act_does: "calm s0 s \<Longrightarrow> does (auth_raises a) s0 (auth_act env a s)"
proof (cases a)
  case AcProposeMethod
  moreover assume "calm s0 s"
  ultimately show ?thesis
    by (auto simp: au_ProposeMethod_def Let_def split: option.split intro!: does_intros intro: does_calm)
qed (auto simp: au_Initialize_def au_BackendInitialize_def au_PickUpMethod_def
    au_BuildRequest_def au_SendRequest_def au_Retransmit_def au_DoIntegrityCheck_def au_MethodResponse_def
    au_DoPolicyCheck_def au_SendSuccess_def au_SendFailure_def au_Discard_def au_drop_def au_Discard2_def au_Discard3_def
    au_ResetMethod_def au_dequeue_def au_ReceiveMsg_def au_ReceiveMsg2_def au_WaitTunnelProcess_def
    au_NotifyInnerEap_def au_TunnelEstablished_def au_PickUpInitCheck_def au_UCT_def au_DoIntegrityCheck2_def
    au_from_AAA_def au_AaaContinue_def au_AaaSuccess_def au_AaaFailure_def au_CompleteWithFailure_def
    au_CompleteWithSuccess_def Let_def
    split: option.split list.split parse.split auth_decision.split
    intro!: does_intros intro: does_calm m_Start_calm)

subsection \<open>The rank\<close>

fun auth_rank :: "auth_st \<Rightarrow> auth_ev \<Rightarrow> nat" where
  "auth_rank StBegin ev = 7"
| "auth_rank StDisabled ev = 6"
| "auth_rank StInitialize ev = 5"
| "auth_rank StPickUpMethod ev = 4"
| "auth_rank StNak ev = 4"
| "auth_rank StMethodResponse ev = 4"
| "auth_rank StSelectAction ev = 3"
| "auth_rank StInitializePassthrough ev = 2"
| "auth_rank StAaaRequest ev = 1"
| "auth_rank StIdle ev = 6"
| "auth_rank StReceived ev = 5"
| "auth_rank StIntegrityCheck ev = (if ev = EvUCT then 0 else 5)"
| "auth_rank StWaitTunnelProcess ev = 5"
| "auth_rank StProposeMethod ev = 2"
| "auth_rank StMethodRequest ev = 1"
| "auth_rank StDiscard ev = 1"
| "auth_rank StRetransmit ev = 1"
| "auth_rank StSuccess ev = (if ev = EvUCT then 0 else 1)"
| "auth_rank StFailure ev = (if ev = EvUCT then 0 else 1)"
| "auth_rank StAaaIdle ev = (if ev \<in> {EvRxAaaEapReq, EvPtAaaSuccess, EvPtAaaFailure, EvSgDiscard} then 2 else 3)"
| "auth_rank StAaaResponse ev = 1"
| "auth_rank StIdle2 ev = 3"
| "auth_rank StReceived2 ev = 2"
| "auth_rank StDiscard2 ev = 1"
| "auth_rank StRetransmit2 ev = 1"
| "auth_rank _ ev = 0"

text \<open>A wildcard entry does nothing, and any other entry lowers the rank with every event its action can raise.\<close>

definition lowers :: "auth_entry \<Rightarrow> bool" where
  "lowers e \<longleftrightarrow>
     (case entryEvent e of
        None \<Rightarrow> auth_raises (entryAction e) = []
      | Some ev \<Rightarrow>
          list_all (\<lambda>ev'. auth_rank (nextState e) ev' < auth_rank (prevState e) ev) (auth_raises (entryAction e)))"

lemma auth_cmds_lower: "list_all lowers (auth_cmds k)"
  by (cases k) (simp_all add: standalone_cmds_def backend_cmds_def passthrough_cmds_def lowers_def)

lemma auth_rank_less: "auth_rank st ev < 8"
  by (cases st) auto

fun am_rank :: "am_ev \<Rightarrow> nat" where
  "am_rank EvSgIntegrityCheck = 3"
| "am_rank EvSgTunnelProcess = 3"
| "am_rank MEvPickUpInit = 2"
| "am_rank MEvNoPickUpInit = 2"
| "am_rank _ = 1"

definition chain_rank :: "eap_auth \<Rightarrow> nat" where
  "chain_rank s =
     (case sw_raised s of
        None \<Rightarrow> 0
      | Some (RSwitch ev) \<Rightarrow> auth_rank (fsm_state s) ev
      | Some (RMethod sl me) \<Rightarrow> am_rank me)"

lemma auth_sstep_lowers:
  assumes "sw_raised s = Some (RSwitch ev)"
  shows "at_rest (auth_sstep env ev (s\<lparr>sw_raised := None\<rparr>)) \<or>
         chain_rank (auth_sstep env ev (s\<lparr>sw_raised := None\<rparr>)) < chain_rank s"
proof (cases "FindStateTableEntry (auth_table (au_kind s)) (fsm_state s) ev")
  case None
  then show ?thesis by (simp add: auth_sstep_def fsm_Event_def at_rest_def)
next
  case (Some e)
  let ?s = "s\<lparr>sw_raised := None, fsm_state := nextState e\<rparr>"
  from Some have e: "e \<in> set (auth_cmds (au_kind s))" "prevState e = fsm_state s"
    "entryEvent e = Some ev \<or> entryEvent e = None"
    using auth_st.lookup_iff [of "au_kind s"] auth_st.entries_are_calls [of "au_kind s"] by auto
  then have l: "lowers e" using auth_cmds_lower by (auto simp: list_all_iff)
  have "does (auth_raises (entryAction e)) ?s (auth_act env (entryAction e) ?s)"
    by (rule auth_act_does) (simp add: calm_def)
  with l e assms Some show ?thesis
    by (cases "fsm_running s")
      (auto simp: auth_sstep_def fsm_Event_def does_def lowers_def chain_rank_def at_rest_def list_all_iff
        split: option.splits)
qed

subsection \<open>Methods\<close>

definition m_does :: "am_ev list \<Rightarrow> eap_auth \<Rightarrow> bool" where
  "m_does evs s \<longleftrightarrow> at_rest s \<or> (\<exists>sl. \<exists>me \<in> set evs. sw_raised s = Some (RMethod sl me))"

fun am_raises :: "am_ac \<Rightarrow> am_ev list" where
  "am_raises IdCheckPickUpInit = [MEvPickUpInit, MEvNoPickUpInit]"
| "am_raises IdDoIntegrityCheck = [MEvSuccess, MEvFailure_MoreTrial, MEvFailure_NoMoreTrial]"
| "am_raises NoDoIntegrityCheck = [MEvSuccess, MEvFailure]"
| "am_raises MdDoIntegrityCheck = [MEvSuccess, MEvFailure]"
| "am_raises _ = []"

lemma am_act_does: "sw_raised s = None \<Longrightarrow> m_does (am_raises a) (am_act env a sl s)"
  by (cases a)
    (auto simp: m_does_def a_put_def method_ends_def with_rx_def id_CheckPickUpInit_def id_retry_def
      id_DoIntegrityCheck_def id_PrepareRequest_def no_DoIntegrityCheck_def no_ends_def no_PrepareRequest_def
      md5_DoIntegrityCheck_def md5_PrepareRequest_def with_method_def m_Event_def crash_def at_rest_def sw_Notify_def
      put_method_def Let_def
      split: option.split parse.split slot.split)

definition am_lowers :: "am_entry \<Rightarrow> bool" where
  "am_lowers e \<longleftrightarrow>
     (case entryEvent e of
        None \<Rightarrow> am_raises (entryAction e) = []
      | Some ev \<Rightarrow> list_all (\<lambda>ev'. am_rank ev' < am_rank ev) (am_raises (entryAction e)))"

lemma am_cmds_lower: "list_all am_lowers (am_cmds c)"
  by (cases c) (simp_all add: identity_cmds_def notification_cmds_def md5_cmds_def am_lowers_def)

lemma auth_mstep_lowers:
  assumes "sw_raised s = Some (RMethod sl ev)"
  shows "at_rest (auth_mstep env sl ev (s\<lparr>sw_raised := None\<rparr>)) \<or>
         chain_rank (auth_mstep env sl ev (s\<lparr>sw_raised := None\<rparr>)) < chain_rank s"
proof (cases "method_at sl s")
  case None
  then show ?thesis
    by (simp add: auth_mstep_def method_Event_def with_method_def method_at_def at_rest_def crash_def split: slot.splits)
next
  case (Some m)
  then have m: "method_at sl (s\<lparr>sw_raised := None\<rparr>) = Some m" by (simp add: method_at_def split: slot.splits)
  show ?thesis
  proof (cases "fsm_running m \<and> FindStateTableEntry (am_table (am_kind m)) (fsm_state m) ev \<noteq> None")
    case False
    with m show ?thesis
      by (auto simp: auth_mstep_def method_Event_def with_method_def at_rest_def)
  next
    case True
    then obtain e where r: "fsm_running m" and f: "FindStateTableEntry (am_table (am_kind m)) (fsm_state m) ev = Some e"
      by auto
    then have e: "e \<in> set (am_cmds (am_kind m))" "entryEvent e = Some ev \<or> entryEvent e = None"
      using am_st.lookup_iff [of "am_kind m"] am_st.entries_are_calls [of "am_kind m"] by auto
    then have l: "am_lowers e" using am_cmds_lower by (auto simp: list_all_iff)
    let ?s = "put_method sl (m\<lparr>fsm_state := nextState e\<rparr>) (s\<lparr>sw_raised := None\<rparr>)"
    have "m_does (am_raises (entryAction e)) (am_act env (entryAction e) sl ?s)"
      by (rule am_act_does) (simp add: put_method_def split: slot.split)
    with l e assms m r f show ?thesis
      by (auto simp: auth_mstep_def method_Event_def with_method_def m_does_def am_lowers_def chain_rank_def at_rest_def
          list_all_iff split: option.splits)
  qed
qed

interpretation auth_chains: eap_chains "auth_sstep env" "auth_mstep env" chain_rank "\<lambda>_. True" for env
  by unfold_locales (use auth_sstep_lowers auth_mstep_lowers in auto)

lemma chain_rank_less: "chain_rank s < 8"
proof -
  have "am_rank me < 8" for me by (cases me) auto
  then show ?thesis using auth_rank_less by (auto simp: chain_rank_def split: option.split raise.split)
qed

lemma auth_settle_rests: "at_rest (auth_settle env s)"
  unfolding auth_settle_def by (rule auth_chains.settle_rests) (simp_all add: chain_rank_less)

lemma auth_settle_enough: "settle (auth_sstep env) (auth_mstep env) (8 + k) s = auth_settle env s"
  using settle_enough auth_settle_rests unfolding auth_settle_def by blast

subsection \<open>What the actions of a peer raise\<close>

fun ep_raises :: "ep_ac \<Rightarrow> ep_ev list" where
  "ep_raises EpacInitialize = [PvUCT]"
| "ep_raises EpacRetransmit = [PvUCT]"
| "ep_raises EpacCheckTimeoutCondition = [PvSgSuccess, PvSgFailure]"
| "ep_raises EpacDoPolicyCheck = [PvSgEnterMethod, PvSgNoEnterMethod]"
| "ep_raises EpacDiscard = [PvUCT]"
| "ep_raises EpacParseNotification = [PvElse, PvSgNotificationOutputFinished]"
| "ep_raises EpacBuildNotification = [PvUCT]"
| "ep_raises EpacParseIdentity = [PvElse]"
| "ep_raises EpacBuildIdentity = [PvUCT, PvElse]"
| "ep_raises EpacCheckRxQueue = [PvRxMsg]"
| "ep_raises EpacReceiveMsg =
     [PvElse, PvSgRetransmit, PvSgSuccess, PvSgFailure, PvRxNotification, PvRxIdentity, PvSgNewMethod, PvSgContMethod]"
| "ep_raises _ = []"

lemma peer_calm [simp]:
  fixes s :: eap_peer
  shows "calm s0 (s\<lparr>ep_lastIdentifier := a\<rparr>) = calm s0 s" "calm s0 (s\<lparr>ep_lastIdValidity := b\<rparr>) = calm s0 s"
    "calm s0 (s\<lparr>ep_receivedFirst := b\<rparr>) = calm s0 s" "calm s0 (s\<lparr>ep_notificationAllowed := b\<rparr>) = calm s0 s"
    "calm s0 (s\<lparr>ep_notificationStr := c\<rparr>) = calm s0 s" "calm s0 (s\<lparr>ep_reqMethod := t\<rparr>) = calm s0 s"
    "calm s0 (s\<lparr>ep_future := f\<rparr>) = calm s0 s" "calm s0 (s\<lparr>ep_decision := d\<rparr>) = calm s0 s"
    "calm s0 (s\<lparr>ep_methodState := ms\<rparr>) = calm s0 s"
  by (simp_all add: calm_def)

lemma peer_does_with [does_intros]:
  "calm s0 s \<Longrightarrow> (\<And>b. calm s0 s \<Longrightarrow> does evs s0 (f b s)) \<Longrightarrow> does evs s0 (with_req f s)"
  "calm s0 s \<Longrightarrow> (\<And>b. calm s0 s \<Longrightarrow> does evs s0 (f b s)) \<Longrightarrow> does evs s0 (with_resp f s)"
  by (auto simp: with_req_def with_resp_def split: option.split intro: does_basic)

lemma SendResp_does [does_intros]: "calm s0 s \<Longrightarrow> does evs s0 (ep_SendResp s)"
  unfolding ep_SendResp_def by (auto intro!: does_intros intro: does_calm)

lemma SendResp_calm: "calm s0 s \<Longrightarrow> calm s0 (ep_SendResp s)"
  by (auto simp: ep_SendResp_def with_resp_def crash_def callback_def sw_Notify_def calm_def split: option.split)

lemma have_identity_does [does_intros]: "calm s0 s \<Longrightarrow> does evs s0 (ep_have_identity who s)"
  by (auto simp: ep_have_identity_def intro: does_intros)

lemma Schedule_does [does_intros]: "calm s0 s \<Longrightarrow> does evs s0 (ScheduleTimer e n ty s)"
  by (rule does_calm) simp

lemma DoPolicyCheck_does: "calm s0 s \<Longrightarrow> does [PvSgEnterMethod, PvSgNoEnterMethod] s0 (ep_DoPolicyCheck env s)"
  by (auto simp: ep_DoPolicyCheck_def Let_def intro!: does_intros m_Start_calm create_calm)

lemma ep_act_does: "a \<noteq> EpacReceiveMsg \<Longrightarrow> calm s0 s \<Longrightarrow> does (ep_raises a) s0 (ep_act env a s)"
  by (cases a)
    (auto simp: ep_Initialize_def ep_Retransmit_def ep_CheckTimeoutCondition_def ep_SendSuccess_def ep_SendFailure_def
      ep_BuildResp_def ep_DoIntegrityCheck_def ep_Discard_def ep_BuildNak_def
      ep_ParseNotification_def ep_BuildNotification_def ep_ParseIdentity_def ep_BuildIdentity_def ep_StartTimer_def
      ep_CheckRxQueue_def ep_CheckIdentity_def ep_have_identity_def ep_TunnelEstablished_def ep_WaitTunnelProcess_def Let_def
      split: option.split parse.split
      intro!: does_intros intro: does_calm m_Start_calm SendResp_calm DoPolicyCheck_does)

lemma ep_ReceiveMsg_does:
  assumes "sw_rxQueue s = b # q" "sw_raised s = None"
  shows "does (ep_raises EpacReceiveMsg) (s\<lparr>sw_rxQueue := q\<rparr>) (ep_ReceiveMsg s)"
proof -
  have c: "calm (s\<lparr>sw_rxQueue := q\<rparr>) (s\<lparr>sw_rxQueue := q\<rparr>)" using assms by (simp add: calm_def)
  show ?thesis
    by (auto simp: ep_ReceiveMsg_def ep_ParseRequest_def ep_CheckSuccessCondition_def ep_CheckFailureCondition_def
        assms(1) c Let_def split: parse.split intro!: does_intros)
qed

fun ep_rank :: "ep_st \<Rightarrow> ep_ev \<Rightarrow> nat" where
  "ep_rank EpDisabled ev = 2"
| "ep_rank EpInitialize ev = 1"
| "ep_rank EpIdle ev = (if ev = PvTo then 1 else 0)"
| "ep_rank EpReceived ev = 3"
| "ep_rank EpMethod ev = (if ev = PvTo then 3 else 2)"
| "ep_rank EpGetMethod ev = 1"
| "ep_rank EpDiscard ev = 1"
| "ep_rank EpRetransmit ev = 1"
| "ep_rank EpSendResponse ev = 1"
| "ep_rank EpIdentity ev = (if ev = PvSgUserInputFinished then 2 else 1)"
| "ep_rank EpNotification ev = (if ev = PvUCT then 1 else 2)"
| "ep_rank _ ev = 0"

text \<open>An entry either lowers the rank, or takes a message off the queue, which is worth five.\<close>

definition ep_lowers :: "(ep_st, ep_ev, ep_ac) fsm_entry \<Rightarrow> bool" where
  "ep_lowers e \<longleftrightarrow>
     (case entryEvent e of
        None \<Rightarrow> ep_raises (entryAction e) = []
      | Some ev \<Rightarrow>
          list_all (\<lambda>ev'. ep_rank (nextState e) ev' <
                          ep_rank (prevState e) ev + (if entryAction e = EpacReceiveMsg then 5 else 0))
            (ep_raises (entryAction e)))"

lemma ep_cmds_lower: "list_all ep_lowers ep_cmds"
  by (simp add: ep_cmds_def ep_lowers_def)

fun pm_rank :: "pm_ev \<Rightarrow> nat" where
  "pm_rank PmIntegrityCheck = 5"
| "pm_rank PmTunnelProcess = 5"
| "pm_rank _ = 4"

definition peer_rank :: "eap_peer \<Rightarrow> nat" where
  "peer_rank s = 5 * length (sw_rxQueue s) +
     (case sw_raised s of
        None \<Rightarrow> 0
      | Some (RSwitch ev) \<Rightarrow> ep_rank (fsm_state s) ev
      | Some (RMethod sl me) \<Rightarrow> pm_rank me)"

lemma ep_rank_less: "ep_rank st ev < 4"
  by (cases st) auto

lemma ep_sstep_lowers:
  assumes "sw_raised s = Some (RSwitch ev)"
  shows "at_rest (ep_sstep env ev (s\<lparr>sw_raised := None\<rparr>)) \<or>
         peer_rank (ep_sstep env ev (s\<lparr>sw_raised := None\<rparr>)) < peer_rank s"
proof (cases "FindStateTableEntry ep_table (fsm_state s) ev")
  case None
  then show ?thesis by (simp add: ep_sstep_def fsm_Event_def at_rest_def)
next
  case (Some e)
  let ?s = "s\<lparr>sw_raised := None, fsm_state := nextState e\<rparr>"
  from Some have e: "e \<in> set ep_cmds" "prevState e = fsm_state s" "entryEvent e = Some ev \<or> entryEvent e = None"
    using ep_st.lookup_iff ep_st.entries_are_calls by auto
  then have l: "ep_lowers e" using ep_cmds_lower by (auto simp: list_all_iff)
  show ?thesis
  proof (cases "fsm_running s")
    case False
    then show ?thesis by (simp add: ep_sstep_def fsm_Event_def at_rest_def)
  next
    case True
    with Some have step: "ep_sstep env ev (s\<lparr>sw_raised := None\<rparr>) = ep_act env (entryAction e) ?s"
      by (simp add: ep_sstep_def fsm_Event_def)
    show ?thesis
    proof (cases "entryAction e = EpacReceiveMsg")
      case False
      have "does (ep_raises (entryAction e)) ?s (ep_act env (entryAction e) ?s)"
        by (rule ep_act_does) (simp_all add: calm_def False)
      with l e assms False show ?thesis unfolding step
        by (auto simp: does_def ep_lowers_def peer_rank_def list_all_iff split: option.splits)
    next
      case recv: True
      show ?thesis
      proof (cases "sw_rxQueue s")
        case Nil
        then show ?thesis unfolding step recv by (simp add: ep_ReceiveMsg_def block_def at_rest_def)
      next
        case (Cons b q)
        then have "does (ep_raises EpacReceiveMsg) (?s\<lparr>sw_rxQueue := q\<rparr>) (ep_ReceiveMsg ?s)"
          by (intro ep_ReceiveMsg_does) simp_all
        with l e assms recv Cons show ?thesis unfolding step
          by (auto simp: does_def ep_lowers_def peer_rank_def list_all_iff split: option.splits)
      qed
    qed
  qed
qed

definition pm_does :: "eap_peer \<Rightarrow> eap_peer \<Rightarrow> bool" where
  "pm_does s0 s \<longleftrightarrow>
     length (sw_rxQueue s) \<le> length (sw_rxQueue s0) \<and>
     (at_rest s \<or> (\<exists>sl. sw_raised s = Some (RMethod sl PmAccept) \<or> sw_raised s = Some (RMethod sl PmReject)) \<or>
      (\<exists>ev. sw_raised s = Some (RSwitch ev)))"

lemma pm_act_does:
  "sw_raised s = None \<Longrightarrow> pm_does s (pm_act env a sl s) \<and>
     (a \<noteq> PmDoIntegrityCheck \<longrightarrow> at_rest (pm_act env a sl s) \<or> (\<exists>ev. sw_raised (pm_act env a sl s) = Some (RSwitch ev)))"
  by (cases a)
    (auto simp: pm_does_def pm_DoIntegrityCheck_def pm_NotifySuccess_def pm_NotifyInvalid_def with_req_def
      with_method_def m_Event_def sw_Event_def crash_def at_rest_def put_method_def Let_def
      split: option.split parse.split slot.split)

lemma ep_mstep_lowers:
  assumes "sw_raised s = Some (RMethod sl ev)"
  shows "at_rest (ep_mstep env sl ev (s\<lparr>sw_raised := None\<rparr>)) \<or>
         peer_rank (ep_mstep env sl ev (s\<lparr>sw_raised := None\<rparr>)) < peer_rank s"
proof (cases "method_at sl s")
  case None
  then show ?thesis
    by (simp add: ep_mstep_def method_Event_def with_method_def method_at_def at_rest_def crash_def split: slot.splits)
next
  case (Some m)
  then have m: "method_at sl (s\<lparr>sw_raised := None\<rparr>) = Some m" by (simp add: method_at_def split: slot.splits)
  show ?thesis
  proof (cases "fsm_running m \<and> FindStateTableEntry pm_table (fsm_state m) ev \<noteq> None")
    case False
    with m show ?thesis
      by (auto simp: ep_mstep_def method_Event_def with_method_def at_rest_def)
  next
    case True
    then obtain e where r: "fsm_running m" and f: "FindStateTableEntry pm_table (fsm_state m) ev = Some e"
      by auto
    then have e: "e \<in> set pm_cmds" "entryEvent e = Some ev \<or> entryEvent e = None"
      using pm_st.lookup_iff pm_st.entries_are_calls by auto
    let ?s = "put_method sl (m\<lparr>fsm_state := nextState e\<rparr>) (s\<lparr>sw_raised := None\<rparr>)"
    have "sw_raised ?s = None" "sw_rxQueue ?s = sw_rxQueue s" by (simp_all add: put_method_def split: slot.split)
    note d = pm_act_does [OF this(1), of env "entryAction e" sl] this(2)
    have "ep_mstep env sl ev (s\<lparr>sw_raised := None\<rparr>) = pm_act env (entryAction e) sl ?s"
      using m r f by (simp add: ep_mstep_def method_Event_def with_method_def)
    moreover have "entryAction e = PmDoIntegrityCheck \<Longrightarrow> ev = PmIntegrityCheck" using e by (auto simp: pm_cmds_def)
    moreover have lt: "ep_rank st ev' < pm_rank ev" for st ev'
      using ep_rank_less [of st ev'] by (cases ev) simp_all
    ultimately show ?thesis
      using d assms
      by (cases "entryAction e = PmDoIntegrityCheck")
        (auto simp: pm_does_def peer_rank_def intro!: add_le_less_mono)
  qed
qed

interpretation peer_chains: eap_chains "ep_sstep env" "ep_mstep env" peer_rank "\<lambda>_. True" for env
  by unfold_locales (use ep_sstep_lowers ep_mstep_lowers in auto)

lemma ep_settle_rests: "at_rest (ep_settle env s)"
proof -
  have "pm_rank me < 8" for me by (cases me) simp_all
  moreover have "ep_rank st ev < 8" for st ev using ep_rank_less [of st ev] by simp
  ultimately have "peer_rank s < 8 + 5 * length (sw_rxQueue s)"
    by (auto simp: peer_rank_def split: option.split raise.split)
  then show ?thesis unfolding ep_settle_def by (intro peer_chains.settle_rests) simp_all
qed

lemma ep_settle_enough:
  "settle (ep_sstep env) (ep_mstep env) (8 + 5 * length (sw_rxQueue s) + k) s = ep_settle env s"
  using settle_enough ep_settle_rests unfolding ep_settle_def by blast

end
