(* ===== verification/Eap_Exchange.thy ===== *)
theory Eap_Exchange
  imports Eap_Chains
begin

text \<open>
  An MD5-Challenge conversation from end to end: how the machines run, what a stand-alone authenticator and a peer do
  with the packets of one, and that a peer with the right passphrase is accepted.
\<close>

named_theorems eap_run \<open>equations that run the machines of an EAP session\<close>

subsection \<open>Running the machines\<close>

lemma auth_settle_rest [eap_run]: "at_rest s \<Longrightarrow> auth_settle env s = s"
proof -
  assume r: "at_rest s"
  have "settle (auth_sstep env) (auth_mstep env) (0 + 8) s = settle (auth_sstep env) (auth_mstep env) 0 s"
    using r by (intro settle_enough) simp
  then show ?thesis by (simp add: auth_settle_def)
qed

lemma auth_settle_unfold: "auth_settle env s = settle (auth_sstep env) (auth_mstep env) (Suc 8) s"
  using auth_settle_enough [of env 1 s] by simp

lemma auth_settle_switch [eap_run]:
  "sw_health s = Alive \<Longrightarrow> sw_raised s = Some (RSwitch e) \<Longrightarrow>
     auth_settle env s = auth_settle env (auth_sstep env e (s\<lparr>sw_raised := None\<rparr>))"
  unfolding auth_settle_unfold [of env s] settle.simps(2) by (simp add: auth_settle_def)

lemma auth_settle_method [eap_run]:
  "sw_health s = Alive \<Longrightarrow> sw_raised s = Some (RMethod sl e) \<Longrightarrow>
     auth_settle env s = auth_settle env (auth_mstep env sl e (s\<lparr>sw_raised := None\<rparr>))"
  unfolding auth_settle_unfold [of env s] settle.simps(2) by (simp add: auth_settle_def)

lemma ep_settle_rest [eap_run]: "at_rest s \<Longrightarrow> ep_settle env s = s"
proof -
  assume r: "at_rest s"
  have "settle (ep_sstep env) (ep_mstep env) (0 + (8 + 5 * length (sw_rxQueue s))) s = settle (ep_sstep env) (ep_mstep env) 0 s"
    using r by (intro settle_enough) simp
  then show ?thesis by (simp add: ep_settle_def)
qed

lemma ep_settle_any: "at_rest (settle (ep_sstep env) (ep_mstep env) n s) \<Longrightarrow> settle (ep_sstep env) (ep_mstep env) n s = ep_settle env s"
  by (metis add.commute ep_settle_enough settle_enough)

lemma ep_settle_switch [eap_run]:
  assumes "sw_health s = Alive" "sw_raised s = Some (RSwitch e)"
  shows "ep_settle env s = ep_settle env (ep_sstep env e (s\<lparr>sw_raised := None\<rparr>))"
proof -
  let ?n = "8 + 5 * length (sw_rxQueue s)" and ?s = "ep_sstep env e (s\<lparr>sw_raised := None\<rparr>)"
  have e: "settle (ep_sstep env) (ep_mstep env) (Suc ?n) s = settle (ep_sstep env) (ep_mstep env) ?n ?s"
    unfolding settle.simps(2) using assms by simp
  have "settle (ep_sstep env) (ep_mstep env) (Suc ?n) s = ep_settle env s"
    using ep_settle_enough [of env s 1] by simp
  with e ep_settle_rests [of env s] show ?thesis using ep_settle_any [of env ?n ?s] by simp
qed

lemma ep_settle_method [eap_run]:
  assumes "sw_health s = Alive" "sw_raised s = Some (RMethod sl e)"
  shows "ep_settle env s = ep_settle env (ep_mstep env sl e (s\<lparr>sw_raised := None\<rparr>))"
proof -
  let ?n = "8 + 5 * length (sw_rxQueue s)" and ?s = "ep_mstep env sl e (s\<lparr>sw_raised := None\<rparr>)"
  have e: "settle (ep_sstep env) (ep_mstep env) (Suc ?n) s = settle (ep_sstep env) (ep_mstep env) ?n ?s"
    unfolding settle.simps(2) using assms by simp
  have "settle (ep_sstep env) (ep_mstep env) (Suc ?n) s = ep_settle env s"
    using ep_settle_enough [of env s 1] by simp
  with e ep_settle_rests [of env s] show ?thesis using ep_settle_any [of env ?n ?s] by simp
qed

lemma auth_table_cmds: "auth_table k = auth_cmds k" "am_table c = am_cmds c" "ep_table = ep_cmds" "pm_table = pm_cmds"
  using auth_st.entries_are_calls am_st.entries_are_calls ep_st.entries_are_calls pm_st.entries_are_calls by simp_all

lemmas eap_lookup = auth_table_cmds FindStateTableEntry_def standalone_cmds_def identity_cmds_def notification_cmds_def
  md5_cmds_def ep_cmds_def pm_cmds_def

lemmas eap_steps [eap_run] = auth_sstep_def auth_mstep_def ep_sstep_def ep_mstep_def fsm_Event_def method_Event_def
  auth_Serve_def peer_Serve_next_def serve_next_def slot_of_def auth_Receive_def ep_Receive_def sw_Receive_def
  auth_Timeout_def ep_Timeout_def sw_Timeout_def
  sw_Event_def m_Event_def crash_def block_def wake_def callback_def sw_Notify_def with_method_def
  put_method_def method_at_def m_Notify_def m_Start_def fsm_Start_def at_rest_def a_put_def

subsection \<open>The authenticator asks\<close>

text \<open>Waiting for the response to a challenge, with nothing else to do.\<close>

definition awaits :: "auth_env \<Rightarrow> byte list \<Rightarrow> auth_method \<Rightarrow> eap_auth \<Rightarrow> bool" where
  "awaits env chal m s \<longleftrightarrow>
     au_kind s = StandAlone \<and> fsm_state s = StIdle \<and> fsm_running s \<and> sw_health s = Alive \<and> sw_raised s = None \<and>
     sw_events s = [] \<and> sw_mux s = [] \<and> sw_rxQueue s = [] \<and>
     sw_currentMethod s = EapType 4 \<and> au_methodState s = PROPOSED \<and>
     sw_method s = Some m \<and> am_kind m = AuthMD5 \<and> fsm_state m = MStWaitResponse \<and> fsm_running m \<and>
     em_events m = [] \<and> am_value m = chal"

definition md5_policy :: "policy \<Rightarrow> bool" where
  "md5_policy p \<longleftrightarrow> (\<exists>i. po_initial p = PElem i \<and> pe_method (po_elems p i) = EapType 4) \<and> po_inner p = EapType 0"

lemma md5_challenge_block:
  assumes "length chal = 16" "length name < 2 ^ 15"
  shows "MD5_toRaw \<lparr>md_value = chal, md_name = name\<rparr> (mb_Acquire (5 + length chal + 1 + length name)) =
    Parsed \<lparr>mb_mem = [0, 0, 0, 0, 4] @ md5_body \<lparr>md_value = chal, md_name = name\<rparr>, mb_rd = 0,
            mb_wr = 5 + length (md5_body \<lparr>md_value = chal, md_name = name\<rparr>)\<rparr>"
  using assms by (intro md5_written) (auto simp: md5_ok_def)



lemma EapType_eq [simp]: "EapType a = EapType b \<longleftrightarrow> a = b"
  by (simp add: EapType_def)

lemmas auth_eval = eap_run eap_lookup au_Initialize_def au_DoPolicyCheck_def Decision_def IsSatisfied_def
  policy_method_def au_ProposeMethod_def create_and_start_def CreateMethodStateMachine_def
  DeleteMethodStateMachine_def new_auth_method_def au_BuildRequest_def with_tx_def with_rx_def
  au_SendRequest_def reset_retransmission_def make_key_available_def CancelTimer_def ScheduleTimer_def
  md5_PrepareRequest_def md5_DoIntegrityCheck_def method_ends_def au_ReceiveMsg_def au_dequeue_def rx_header_def
  rx_type_def au_DoIntegrityCheck_def au_MethodResponse_def au_SendSuccess_def au_SendFailure_def

lemma funpow4: "(f ^^ 4) x = f (f (f (f x)))" and funpow2: "(f ^^ 2) x = f (f x)" and funpow3: "(f ^^ 3) x = f (f (f x))"
  by (simp_all add: eval_nat_numeral)

lemma auth_asks:
  fixes p :: policy
  assumes p: "md5_policy p"
    and c: "find_creator (ae_methods env) (EapType 4) Authenticator = Some AuthMD5"
    and r: "ae_random env 0 = Some chal" "length chal = 16" "length (ae_myName env) < 2 ^ 15"
  shows "\<exists>m. let s = (auth_Serve env ^^ 4) (auth_Start (new_auth StandAlone p ms)) in
    awaits env chal m s \<and> sw_id s = 1 \<and> po_current (sw_policy s) = po_initial p \<and> po_elems (sw_policy s) = po_elems p \<and>
    sw_out s = [OutSend (packet 1 1 4 (md5_body \<lparr>md_value = chal, md_name = ae_myName env\<rparr>))]"
proof -
  obtain i where i: "po_initial p = PElem i" "pe_method (po_elems p i) = EapType 4" "po_inner p = EapType 0"
    using p by (auto simp: md5_policy_def)
  let ?body = "md5_body \<lparr>md_value = chal, md_name = ae_myName env\<rparr>"
  have b: "length ?body + 5 < 2 ^ 16" using r by (simp add: md5_body_def)
  note blk = md5_challenge_block [OF r(2,3)] compose_typed [OF b, of 1 1 4]
  let ?s0 = "new_auth StandAlone (p\<lparr>po_current := PElem i\<rparr>) ms"
  let ?m = "(new_auth_method env AuthMD5 0)\<lparr>fsm_running := True\<rparr>"
  let ?m2 = "?m\<lparr>fsm_state := MStWaitResponse, am_value := chal\<rparr>"
  let ?s1 = "?s0\<lparr>fsm_running := True, fsm_state := StProposeMethod, sw_mux := [JobMethod 0], sw_next := 1,
    sw_currentMethod := EapType 4, au_methodState := PROPOSED, sw_method := Some (?m\<lparr>em_events := [EvSgIntegrityCheck]\<rparr>)\<rparr>"
  let ?s2 = "?s1\<lparr>sw_mux := [JobSwitch], sw_events := [EvSgValidResp], au_nrand := 1, sw_method := Some ?m2,
    sw_tx := Some \<lparr>mb_mem = [0, 0, 0, 0, 4] @ ?body, mb_rd = 0, mb_wr = 5 + length ?body\<rparr>\<rparr>"
  let ?pkt = "packet 1 1 4 ?body"
  let ?s3 = "?s2\<lparr>fsm_state := StSendRequest, sw_events := [EvUCT], sw_id := 1, au_retransmissionCount := 1,
    fsm_timers := [0 \<mapsto> (EvTo, 3)], sw_tx := Some \<lparr>mb_mem = ?pkt, mb_rd = 0, mb_wr = length ?pkt\<rparr>,
    sw_out := [OutSend ?pkt]\<rparr>"
  have 1: "auth_Serve env (auth_Start (new_auth StandAlone p ms)) = ?s1"
    using c i by (simp add: auth_Start_def new_auth_def auth_eval Let_def)
  have 2: "auth_Serve env ?s1 = ?s2"
    using r(1) blk(1) by (simp add: new_auth_def auth_eval Let_def)
  have 3: "auth_Serve env ?s2 = ?s3"
    using blk(2) by (simp add: new_auth_def auth_eval Let_def mb_bytes_def defaultRetransmissionInterval_def)
  have 4: "auth_Serve env ?s3 = ?s3\<lparr>fsm_state := StIdle, sw_events := [], sw_mux := []\<rparr>"
    by (simp add: new_auth_def auth_eval Let_def)
  show ?thesis using i unfolding funpow4 1 2 3 4
    by (intro exI [of _ ?m2]) (simp add: awaits_def new_auth_def new_auth_method_def Let_def)
qed

subsection \<open>The authenticator judges\<close>

text \<open>A response as a message block, and what the authenticator sends for it. A policy may be \<open>lax\<close>: satisfied by
  the failure too.\<close>

lemma auth_judges:
  assumes w: "awaits env chal m s" and p: "po_current (sw_policy s) = PElem i"
    "pe_method (po_elems (sw_policy s) i) = EapType 4" "pe_onSuccess (po_elems (sw_policy s) i) = PSucc"
    "pe_onFailure (po_elems (sw_policy s) i) = (if lax then PSucc else PFail)"
    and c: "md5_ok c" "length (md5_body c) + 5 < 2 ^ 16"
  shows "let s' = (auth_Serve env ^^ 3) (auth_Receive (mb_of (packet 2 (sw_id s) 4 (md5_body c))) s);
             pass = ae_passphrase env (md_name c);
             ok = (lax \<or> pass \<noteq> [] \<and> ae_MD5 env (md5_raw (sw_id s) pass chal) = md_value c)
         in sw_out s' = sw_out s @ [if ok then OutSuccessMsg (mb_bytes (final_pdu 3 (sw_id s)))
                                    else OutFailureMsg (mb_bytes (final_pdu 4 (sw_id s)))] \<and>
            fsm_state s' = (if ok then StSuccess else StFailure) \<and> sw_health s' = Alive"
proof -
  let ?b = "mb_of (packet 2 (sw_id s) 4 (md5_body c))" and ?n = "5 + length (md5_body c)"
  let ?rx = "\<lambda>r. \<lparr>mb_mem = packet 2 (sw_id s) 4 (md5_body c), mb_rd = r, mb_wr = ?n\<rparr>"
  let ?pass = "ae_passphrase env (md_name c)"
  let ?ok = "?pass \<noteq> [] \<and> ae_MD5 env (md5_raw (sw_id s) ?pass chal) = md_value c"
  note st = w [unfolded awaits_def]
  have req: "Request_toApp (?rx 4) = Parsed (EapType 4, ?rx 5)"
    using Request_of_packet [where t = 4 and b = "?rx 4" and code = 2 and i = "sw_id s" and body = "md5_body c"] by simp
  note hdr = Header_of_packet [OF c(2), of 2 "sw_id s" 4] and md5 = md5_of_packet [OF c(1), of 2 "sw_id s"]
  let ?s1 = "s\<lparr>fsm_state := StIntegrityCheck, sw_mux := [JobMethod (em_id m)], sw_rx := Some (?rx 5),
    sw_method := Some (m\<lparr>em_events := [EvSgIntegrityCheck]\<rparr>)\<rparr>"
  have 1: "auth_Serve env (auth_Receive ?b s) = ?s1"
    using st hdr req p by (cases s) (simp add: auth_eval Let_def)
  let ?m2 = "m\<lparr>em_events := [], am_peerName := md_name c, am_passphrase := ?pass, em_isDone := True,
    fsm_state := (if ?ok then MStSuccess else MStFailure)\<rparr>"
  let ?go = "lax \<or> ?ok"
  let ?rxd = "\<lparr>mb_mem = packet 2 (sw_id s) 4 (md5_body c), mb_rd = ?n, mb_wr = ?n\<rparr>"
  let ?s2 = "?s1\<lparr>sw_mux := [JobSwitch], sw_events := [EvSgValidResp], sw_rx := Some ?rxd, sw_method := Some ?m2,
    sw_policy := (sw_policy s)\<lparr>po_current := (if ?go then PSucc else PFail)\<rparr>\<rparr>"
  have 2: "auth_Serve env ?s1 = ?s2"
    using st md5 p by (cases s; cases m) (auto simp: auth_eval Let_def next_of_def)
  show ?thesis
    using st p unfolding funpow3 1 2
    by (cases ?go) (simp_all add: auth_eval Let_def)
qed
end
