(* ===== verification/Eap_Answer.thy ===== *)
theory Eap_Answer
  imports Eap_Exchange
begin

text \<open>The peer's part of the conversation: from its start to its answer, and what it makes of the result.\<close>

lemmas peer_eval = eap_run eap_lookup ep_Initialize_def ep_StartTimer_def ep_ReceiveMsg_def ep_ParseRequest_def
  with_req_def with_resp_def ep_DoPolicyCheck_def CreateMethodStateMachine_def DeleteMethodStateMachine_def
  new_peer_method_def ep_DoIntegrityCheck_def pm_DoIntegrityCheck_def pm_NotifySuccess_def pm_NotifyInvalid_def
  ep_BuildResp_def ep_SendResp_def ep_CheckRxQueue_def ep_CheckSuccessCondition_def ep_CheckFailureCondition_def
  ep_SendSuccess_def ep_SendFailure_def ep_Discard_def ep_CheckTimeoutCondition_def CancelTimer_def ScheduleTimer_def

definition listens :: "eap_peer \<Rightarrow> bool" where
  "listens s \<longleftrightarrow>
     fsm_state s = EpIdle \<and> fsm_running s \<and> sw_health s = Alive \<and> sw_raised s = None \<and>
     sw_events s = [] \<and> sw_mux s = [] \<and> sw_rxQueue s = []"

lemma peer_starts:
  "let s = peer_Serve_next env (ep_Start (new_eap_peer p ty i0 d0 m0))
   in listens s \<and> sw_currentMethod s = EapType 0 \<and> sw_method s = None \<and> \<not> ep_receivedFirst s \<and>
      sw_policy s = p\<lparr>po_current := po_initial p\<rparr> \<and> ep_decision s = d0 \<and> sw_out s = [] \<and> sw_keyData s = []"
  by (simp add: ep_Start_def new_eap_peer_def peer_eval Let_def listens_def)

text \<open>A request that is new to the peer.\<close>

definition fresh_id :: "byte \<Rightarrow> eap_peer \<Rightarrow> bool" where
  "fresh_id i s \<longleftrightarrow> \<not> ep_receivedFirst s \<or> i \<noteq> ep_lastIdentifier s"

lemma peer_answers:
  assumes w: "listens s" and n: "sw_currentMethod s = EapType 0" "sw_method s = None" "fresh_id i s"
    and p: "Allow (EapType 4) (sw_policy s)" "po_inner (sw_policy s) = EapType 0"
    and e: "find_creator (pe_methods env) (EapType 4) Peer = Some PeerMD5" "pe_passphrase env \<noteq> []"
      "length (pe_MD5 env (md5_raw i (pe_passphrase env) (md_value c))) = 16" "length (pe_myName env) < 2 ^ 15"
    and c: "md5_ok c" "length (md5_body c) + 5 < 2 ^ 16"
  shows "let s' = (peer_Serve_next env ^^ 3) (ep_Receive (mb_of (packet 1 i 4 (md5_body c))) s);
             r = \<lparr>md_value = pe_MD5 env (md5_raw i (pe_passphrase env) (md_value c)), md_name = pe_myName env\<rparr>
         in listens s' \<and> sw_out s' = sw_out s @ [OutSend (packet 2 i 4 (md5_body r))] \<and>
            ep_decision s' = UNCOND_SUCC \<and> ep_lastIdentifier s' = i \<and> sw_keyData s' = sw_keyData s"
proof -
  let ?n = "5 + length (md5_body c)"
  let ?pkt = "packet 1 i 4 (md5_body c)"
  let ?b = "mb_of ?pkt"
  let ?rx = "\<lambda>r. \<lparr>mb_mem = ?pkt, mb_rd = r, mb_wr = ?n\<rparr>"
  let ?pass = "pe_passphrase env"
  let ?val = "pe_MD5 env (md5_raw i ?pass (md_value c))"
  let ?r = "\<lparr>md_value = ?val, md_name = pe_myName env\<rparr>"
  let ?body = "md5_body ?r"
  let ?resp = "packet 2 i 4 ?body"
  note st = w [unfolded listens_def]
  have req: "Request_toApp (?rx 4) = Parsed (EapType 4, ?rx 5)"
    using Request_of_packet [where t = 4 and b = "?rx 4" and code = 1 and i = i and body = "md5_body c"] by simp
  note hdr = Header_of_packet [OF c(2), of 1 i 4] and md5 = md5_of_packet [OF c(1), of 1 i]
  have l: "length ?body + 5 < 2 ^ 16" using e by (simp add: md5_body_def)
  note blk = md5_challenge_block [OF e(3,4)] compose_typed [OF l, of 2 i 4]
  let ?m = "(new_peer_method env PeerMD5 (sw_next s))\<lparr>fsm_running := True\<rparr>"
  let ?s1 = "s\<lparr>fsm_state := EpMethod, sw_mux := [JobMethod (sw_next s)], sw_rx := Some (?rx 5), sw_next := sw_next s + 1,
    sw_id := i, ep_receivedFirst := True, ep_reqMethod := EapType 4, sw_currentMethod := EapType 4,
    ep_methodState := MInit, sw_method := Some (?m\<lparr>em_events := [PmIntegrityCheck]\<rparr>)\<rparr>"
  have 1: "peer_Serve_next env (ep_Receive ?b s) = ?s1"
    using st hdr req p n e by (cases s) (auto simp: peer_eval Let_def fresh_id_def)
  let ?m2 = "?m\<lparr>fsm_state := PmSuccess, pm_passphrase := ?pass, pm_peerName := md_name c, pm_value := ?val,
    em_isDone := True\<rparr>"
  let ?s2 = "?s1\<lparr>fsm_state := EpSendResponse, sw_mux := [JobSwitch], sw_events := [PvUCT], sw_method := Some ?m2,
    sw_rx := Some (?rx ?n), ep_decision := UNCOND_SUCC,
    sw_tx := Some \<lparr>mb_mem = ?resp, mb_rd = 0, mb_wr = length ?resp\<rparr>, ep_lastIdValidity := True,
    ep_lastIdentifier := i, sw_out := sw_out s @ [OutSend ?resp]\<rparr>"
  have 2: "peer_Serve_next env ?s1 = ?s2"
    using st md5 blk e by (cases s) (simp add: peer_eval Let_def md5_raw_def mb_bytes_def)
  show ?thesis
    using st unfolding funpow3 1 2
    by (simp add: peer_eval Let_def listens_def)
qed

text \<open>What a Success does to a peer that has answered, and to one that has not.\<close>

lemma final_bytes: "mb_bytes (final_pdu code i) = [code, i, 0, 4]"
proof -
  have "hi8 4 = 0" "lo8 4 = 4" "unat (4 :: u16) = 4" "replicate 4 (0 :: byte) = [0, 0, 0, 0]"
    by code_simp+
  then show ?thesis
    by (simp add: final_pdu_def Header_toRaw_def mb_Acquire_def mb_bytes_def overwrite_def)
qed

lemma final_header:
  "Header_toApp (mb_of (mb_bytes (final_pdu code i))) =
     Parsed (\<lparr>eh_code = code, eh_identifier = i, eh_length = 4\<rparr>, \<lparr>mb_mem = [code, i, 0, 4], mb_rd = 4, mb_wr = 4\<rparr>)"
proof -
  have "be16 0 4 = 4" "unat (4 :: u16) = 4" by code_simp+
  then show ?thesis by (simp add: final_bytes mb_of_def Header_toApp_def mb_read_def)
qed

lemma peer_concludes:
  assumes w: "listens s" "ep_decision s \<noteq> FAIL"
  shows "let s' = peer_Serve_next env (ep_Receive (mb_of (mb_bytes (final_pdu 3 i))) s)
         in sw_out s' = sw_out s @ [OutSuccess] \<and> fsm_state s' = EpSuccess \<and> sw_health s' = Alive"
  using w final_header [of 3 i]
  by (cases s) (simp add: peer_eval Let_def listens_def)

end
