(* ===== verification/Eap_Ready.thy ===== *)
theory Eap_Ready
  imports Eap_Chains
begin

text \<open>
  Why the thread that serves a stand-alone or a backend authenticator does not fall asleep: there are never more events of
  received messages under way than messages in the queue, and only such an event leads to an action that takes one off.
\<close>

subsection \<open>The invariant\<close>

definition timers_ok :: "(int \<Rightarrow> (auth_ev \<times> nat) option) \<Rightarrow> bool" where
  "timers_ok timers \<longleftrightarrow> (\<forall>ty. \<forall>e \<in> set_option (timers ty). fst e = EvTo)"

text \<open>Events of received messages that wait or are being handled.\<close>

definition rx_events :: "eap_auth \<Rightarrow> nat" where
  "rx_events s = length (filter (\<lambda>ev. ev = EvRxMsg) (sw_events s)) + (if sw_raised s = Some (RSwitch EvRxMsg) then 1 else 0)"

definition ready :: "eap_auth \<Rightarrow> bool" where
  "ready s \<longleftrightarrow>
     au_kind s \<noteq> PassThrough \<and> sw_health s \<noteq> Blocked \<and> sw_health s \<noteq> Looping \<and> timers_ok (fsm_timers s) \<and>
     rx_events s \<le> length (sw_rxQueue s)"

text \<open>The same on the way through an action, which has raised nothing so far.\<close>

definition going :: "eap_auth \<Rightarrow> bool" where
  "going s \<longleftrightarrow> ready s \<and> sw_raised s = None"

named_theorems ready_intros \<open>an action keeps the invariant, from its parts\<close>

lemma going_set [simp]:
  "going (s\<lparr>fsm_state := st\<rparr>) = going s" "going (s\<lparr>sw_id := i\<rparr>) = going s" "going (s\<lparr>sw_tx := b\<rparr>) = going s"
  "going (s\<lparr>sw_rx := b\<rparr>) = going s" "going (s\<lparr>sw_policy := p\<rparr>) = going s" "going (s\<lparr>sw_currentMethod := t\<rparr>) = going s"
  "going (s\<lparr>sw_method := m\<rparr>) = going s" "going (s\<lparr>sw_inner := m\<rparr>) = going s" "going (s\<lparr>sw_next := n\<rparr>) = going s"
  "going (s\<lparr>sw_discard := n\<rparr>) = going s" "going (s\<lparr>sw_mux := q\<rparr>) = going s" "going (s\<lparr>sw_keyData := k\<rparr>) = going s"
  "going (s\<lparr>sw_keyAvailable := ka\<rparr>) = going s" "going (s\<lparr>sw_peerIdentity := k\<rparr>) = going s"
  "going (s\<lparr>au_methodState := ms\<rparr>) = going s" "going (s\<lparr>au_retransmissionCount := r\<rparr>) = going s"
  "going (s\<lparr>au_nrand := n\<rparr>) = going s" "going (callback o' s) = going s" "going (put_method sl mm s) = going s"
  by (auto simp: going_def ready_def rx_events_def callback_def put_method_def split: slot.split)

lemma going_calls [ready_intros]:
  "going s \<Longrightarrow> going (crash s)" "going s \<Longrightarrow> ev \<noteq> EvRxMsg \<Longrightarrow> going (sw_Notify ev s)"
  "going s \<Longrightarrow> going (CancelTimer ty s)" "going s \<Longrightarrow> going (ScheduleTimer EvTo sec ty s)"
  by (auto simp: going_def ready_def rx_events_def timers_ok_def crash_def sw_Notify_def CancelTimer_def ScheduleTimer_def)

lemma going_ready: "going s \<Longrightarrow> ready s" by (simp add: going_def)

lemma ready_raise [ready_intros]:
  "going s \<Longrightarrow> ev \<noteq> EvRxMsg \<Longrightarrow> ready (sw_Event ev s)" "going s \<Longrightarrow> ready (m_Event sl me s)" "going s \<Longrightarrow> ready (crash s)"
    "going s \<Longrightarrow> ev \<noteq> EvRxMsg \<Longrightarrow> ready (sw_Notify ev s)"
  by (auto simp: going_def ready_def rx_events_def sw_Event_def m_Event_def crash_def sw_Notify_def)

lemma ready_with [ready_intros]:
  "going s \<Longrightarrow> (\<And>m. going s \<Longrightarrow> ready (f m s)) \<Longrightarrow> ready (with_method sl f s)"
  "going s \<Longrightarrow> (\<And>b. going s \<Longrightarrow> ready (g b s)) \<Longrightarrow> ready (with_rx g s)"
  "going s \<Longrightarrow> (\<And>b. going s \<Longrightarrow> ready (g b s)) \<Longrightarrow> ready (with_tx g s)"
  by (auto simp: with_method_def with_rx_def with_tx_def split: option.split intro: ready_intros)

lemma ready_read [ready_intros]:
  "going s \<Longrightarrow> (\<And>h b. ready (f h (s\<lparr>sw_rx := Some b\<rparr>))) \<Longrightarrow> ready (rx_header f s)"
  "going s \<Longrightarrow> (\<And>t b. ready (g t (s\<lparr>sw_rx := Some b\<rparr>))) \<Longrightarrow> ready (rx_type g s)"
  unfolding rx_header_def rx_type_def
  by (intro ready_with; auto split: parse.split intro: ready_intros)+

lemma going_methods [ready_intros]:
  "going s \<Longrightarrow> going (m_Notify sl me s)" "going s \<Longrightarrow> going (m_Start sl i s)"
  "going s \<Longrightarrow> going (CreateMethodStateMachine tbl new t r inner s)" "going s \<Longrightarrow> going (DeleteMethodStateMachine s)"
  "going s \<Longrightarrow> going (reset_retransmission s)" "going s \<Longrightarrow> going (make_key_available s)"
  by (auto simp: m_Notify_def m_Start_def with_method_def CreateMethodStateMachine_def DeleteMethodStateMachine_def
      reset_retransmission_def make_key_available_def Let_def split: option.split intro: going_calls)

lemma ready_m_Notify [ready_intros]: "going s \<Longrightarrow> ready (m_Notify sl me s)"
  by (intro going_ready going_methods)

lemma going_create [ready_intros]: "going s \<Longrightarrow> going (create_and_start env t s)"
  unfolding create_and_start_def by (intro going_methods)

subsection \<open>Actions that take nothing off the queue\<close>

definition takes :: "auth_ac set" where
  "takes = {AcReceiveMsg, AcReceiveMsg2, AcDiscard2, AcDiscard3}"

definition passthrough_only :: "auth_ac set" where
  "passthrough_only = {AcAaaContinue, AcAaaSuccess, AcAaaFailure}"

lemma other_actions_ready:
  assumes "going s" "a \<notin> takes" "a \<notin> passthrough_only"
  shows "ready (auth_act env a s)"
  using assms
  by (cases a)
    (auto simp: takes_def passthrough_only_def au_Initialize_def au_BackendInitialize_def au_PickUpMethod_def
      au_ProposeMethod_def au_BuildRequest_def au_SendRequest_def au_Retransmit_def au_DoIntegrityCheck_def
      au_MethodResponse_def au_DoPolicyCheck_def au_SendSuccess_def au_SendFailure_def au_Discard_def au_ResetMethod_def
      au_WaitTunnelProcess_def au_NotifyInnerEap_def au_TunnelEstablished_def au_PickUpInitCheck_def au_UCT_def
      au_DoIntegrityCheck2_def au_CompleteWithFailure_def au_CompleteWithSuccess_def Nak_toApp_def Update_types_Nil Let_def
      split: option.split parse.split auth_decision.split
      intro!: ready_intros intro: going_ready)

subsection \<open>Actions that take a message\<close>

lemma taken_ready:
  assumes "going s" "rx_events s < length (sw_rxQueue s)" "sw_rxQueue s = b # q"
  shows "going (s\<lparr>sw_rxQueue := q\<rparr>)"
  using assms by (simp add: going_def ready_def rx_events_def)

lemma taking_actions_ready:
  assumes "going s" "rx_events s < length (sw_rxQueue s)" "a \<in> takes" "a \<noteq> AcDiscard3"
  shows "ready (auth_act env a s)"
proof -
  obtain b q where q: "sw_rxQueue s = b # q" using assms(2) by (cases "sw_rxQueue s") auto
  note g = taken_ready [OF assms(1,2) q]
  have d: "going (s\<lparr>sw_discard := n, sw_rxQueue := q\<rparr>)" for n
    using taken_ready [of "s\<lparr>sw_discard := n\<rparr>" b q] assms(1,2) q by (simp add: rx_events_def)
  have "au_kind s \<noteq> PassThrough" using assms(1) by (simp add: going_def ready_def)
  with g d q assms(3,4) going_ready show ?thesis
    by (auto simp: takes_def au_ReceiveMsg_def au_ReceiveMsg2_def au_Discard2_def au_drop_def au_dequeue_def Let_def
        intro!: ready_intros)
qed

subsection \<open>Steps\<close>

text \<open>Only the event of a received message leads to an action that takes one.\<close>

definition takes_for_message :: "auth_entry \<Rightarrow> bool" where
  "takes_for_message e \<longleftrightarrow>
     entryAction e \<notin> passthrough_only \<and> entryAction e \<noteq> AcDiscard3 \<and>
     (entryAction e \<in> takes \<longrightarrow> entryEvent e = Some EvRxMsg)"

lemma cmds_take: "k \<noteq> PassThrough \<Longrightarrow> list_all takes_for_message (auth_cmds k)"
  by (cases k) (simp_all add: standalone_cmds_def backend_cmds_def takes_for_message_def takes_def passthrough_only_def)

lemma sstep_ready:
  assumes "ready s" "sw_raised s = Some (RSwitch ev)"
  shows "ready (auth_sstep env ev (s\<lparr>sw_raised := None\<rparr>))"
proof -
  have g: "going (s\<lparr>sw_raised := None\<rparr>)"
    using assms(1) by (auto simp: going_def ready_def rx_events_def split: if_splits)
  have k: "au_kind s \<noteq> PassThrough" using assms(1) by (simp add: ready_def)
  show ?thesis
  proof (cases "fsm_running s \<and> FindStateTableEntry (auth_table (au_kind s)) (fsm_state s) ev \<noteq> None")
    case False
    with g show ?thesis by (auto simp: auth_sstep_def fsm_Event_def intro: going_ready)
  next
    case True
    then obtain e where e: "FindStateTableEntry (auth_table (au_kind s)) (fsm_state s) ev = Some e" by auto
    then have "e \<in> set (auth_cmds (au_kind s))" and ev: "entryEvent e = Some ev \<or> entryEvent e = None"
      using auth_st.lookup_iff [of "au_kind s"] auth_st.entries_are_calls [of "au_kind s"] by auto
    then have t: "takes_for_message e" using cmds_take [OF k] by (auto simp: list_all_iff)
    let ?t = "s\<lparr>sw_raised := None, fsm_state := nextState e\<rparr>"
    have step: "auth_sstep env ev (s\<lparr>sw_raised := None\<rparr>) = auth_act env (entryAction e) ?t"
      using True e by (simp add: auth_sstep_def fsm_Event_def)
    have gt: "going ?t" using g going_set(1) [where s = "s\<lparr>sw_raised := None\<rparr>"] by simp
    show ?thesis
    proof (cases "entryAction e \<in> takes")
      case False
      with t gt show ?thesis unfolding step by (intro other_actions_ready) (simp_all add: takes_for_message_def)
    next
      case True
      with t ev have "ev = EvRxMsg" by (auto simp: takes_for_message_def)
      with assms have "rx_events ?t < length (sw_rxQueue ?t)" by (simp add: ready_def rx_events_def)
      with t gt True show ?thesis unfolding step by (intro taking_actions_ready) (simp_all add: takes_for_message_def)
    qed
  qed
qed

lemma a_put_going [ready_intros]: "going s \<Longrightarrow> going (a_put sl f s)"
  by (auto simp: a_put_def with_method_def split: option.split intro: ready_intros)

lemma ends_going [ready_intros]:
  "going s \<Longrightarrow> ev \<noteq> EvRxMsg \<Longrightarrow> going (method_ends sw ev sl s)" "going s \<Longrightarrow> ev \<noteq> EvRxMsg \<Longrightarrow> going (no_ends sw ev sl s)"
  by (auto simp: method_ends_def no_ends_def intro!: ready_intros)

lemma am_act_ready: "going s \<Longrightarrow> ready (am_act env a sl s)"
  by (cases a)
    (auto simp: id_CheckPickUpInit_def id_retry_def id_DoIntegrityCheck_def id_PrepareRequest_def no_DoIntegrityCheck_def
      no_PrepareRequest_def md5_DoIntegrityCheck_def md5_PrepareRequest_def Let_def
      split: option.split parse.split intro!: ready_intros intro: going_ready ready_intros)

lemma mstep_ready:
  assumes "ready s" "sw_raised s = Some (RMethod sl me)"
  shows "ready (auth_mstep env sl me (s\<lparr>sw_raised := None\<rparr>))"
proof -
  have g: "going (s\<lparr>sw_raised := None\<rparr>)"
    using assms by (auto simp: going_def ready_def rx_events_def)
  then show ?thesis
    unfolding auth_mstep_def method_Event_def
    by (intro ready_intros) (auto split: option.split intro: going_ready am_act_ready)
qed

interpretation auth_ready: eap_steps_keep "auth_sstep env" "auth_mstep env" ready for env
  by unfold_locales (auto intro: sstep_ready mstep_ready)

subsection \<open>Runs\<close>

lemma notify_ready: "ready s \<Longrightarrow> ev \<noteq> EvRxMsg \<Longrightarrow> ready (sw_Notify ev s)"
  by (simp add: ready_def rx_events_def sw_Notify_def)

lemma serve_next_ready:
  assumes "ready s" "sw_raised s = None"
  shows "ready (serve_next s)"
proof -
  have g: "going s" using assms by (simp add: going_def)
  have "ready (sw_Event e (s\<lparr>sw_mux := q, sw_events := es\<rparr>))" if "sw_events s = e # es" for e es q
    using assms that by (auto simp: ready_def rx_events_def sw_Event_def split: if_splits)
  moreover have "going (s\<lparr>sw_mux := q\<rparr>)" "ready (s\<lparr>sw_mux := q\<rparr>)" for q
    using g going_ready [of "s\<lparr>sw_mux := q\<rparr>"] by simp_all
  ultimately show ?thesis
    using assms(1) unfolding serve_next_def
    by (auto split: list.split job.split option.split intro!: ready_intros intro: going_ready)
qed

lemma run_ready:
  assumes "auth_run env (new_auth k p ms) tr s" "k \<noteq> PassThrough"
  shows "ready s \<and> at_rest s"
  using assms(1)
proof induction
  case run_start
  show ?case using assms(2)
    by (auto simp: auth_Start_def new_auth_def DeleteMethodStateMachine_def fsm_Start_def sw_Notify_def Let_def ready_def
        rx_events_def timers_ok_def at_rest_def)
next
  case (run_start_with msg)
  show ?case using assms(2)
    by (auto simp: backend_Start_with_def new_auth_def fsm_Start_def sw_Notify_def Let_def ready_def
        rx_events_def timers_ok_def at_rest_def split: option.split)
next
  case (run_receive tr s b)
  then show ?case
    by (auto simp: auth_Receive_def sw_Receive_def sw_Notify_def ready_def rx_events_def at_rest_def)
next
  case (run_timeout tr s ty)
  show ?case
  proof (cases "fsm_timers s ty")
    case None
    with run_timeout.IH show ?thesis by (simp add: auth_Timeout_def sw_Timeout_def)
  next
    case (Some e)
    with run_timeout.IH have "fst e = EvTo" by (auto simp: ready_def timers_ok_def)
    with Some run_timeout.IH show ?thesis
      by (cases e) (auto simp: auth_Timeout_def sw_Timeout_def at_rest_def intro: notify_ready, simp_all add: sw_Notify_def)
  qed
next
  case (run_serve tr s)
  show ?case
  proof (cases "sw_health s = Alive")
    case True
    with run_serve.IH have "ready (serve_next s)" by (intro serve_next_ready) (auto simp: at_rest_def)
    then have "ready (auth_settle env (serve_next s))"
      unfolding auth_settle_def by (rule auth_ready.settle_keeps)
    with True show ?thesis by (simp add: auth_Serve_def auth_settle_rests)
  next
    case False
    with run_serve.IH show ?thesis by (cases "sw_health s") (auto simp: auth_Serve_def ready_def)
  qed
qed

end
