(* ===== verification/Eap_Auth_Inv.thy ===== *)
theory Eap_Auth_Inv
  imports Eap_Ready
begin

text \<open>
  What a Success of a stand-alone authenticator stands for. When success is only reached in the policy by the success
  of MD5-Challenge, it is sent only after a message has been received that answers a challenge of this session, with the
  identifier of the request it answers and the passphrase of the name it gives. The invariant follows the turn to act,
  which the switch machine and the method machine pass to each other through their queues.
\<close>

subsection \<open>The answer to a challenge\<close>

definition right_response :: "auth_env \<Rightarrow> byte list \<Rightarrow> mblk \<Rightarrow> bool" where
  "right_response env chal b =
     (case Header_toApp b of
        Parsed (h, b1) \<Rightarrow>
          eh_code h = Response \<and>
          (case Request_toApp b1 of
             Parsed (t, b2) \<Rightarrow>
               t = EapType 4 \<and>
               (case MD5_toApp b2 of
                  Parsed (c, b3) \<Rightarrow>
                    ae_passphrase env (md_name c) \<noteq> [] \<and>
                    md_value c = ae_MD5 env (md5_raw (eh_identifier h) (ae_passphrase env (md_name c)) chal)
                | _ \<Rightarrow> False)
           | _ \<Rightarrow> False)
      | _ \<Rightarrow> False)"

text \<open>Some message answers one of the first \<open>n\<close> challenges.\<close>

definition proved :: "auth_env \<Rightarrow> mblk list \<Rightarrow> nat \<Rightarrow> bool" where
  "proved env tr n \<longleftrightarrow> (\<exists>b \<in> set tr. \<exists>k < n. \<exists>chal. ae_random env k = Some chal \<and> right_response env chal b)"

text \<open>A policy that is satisfied by the success of MD5-Challenge only.\<close>

definition guarded :: "policy \<Rightarrow> bool" where
  "guarded p \<longleftrightarrow>
     po_inner p = EapType 0 \<and> po_initial p \<noteq> PSucc \<and>
     (\<forall>i. pe_onFailure (po_elems p i) \<noteq> PSucc \<and>
          (pe_onSuccess (po_elems p i) = PSucc \<longrightarrow> pe_method (po_elems p i) = EapType 4))"

subsection \<open>The invariant\<close>

text \<open>The turn is with the method when it has an event to serve, with the switch machine when the method has reported.\<close>

definition queued :: "auth_ev set" where
  "queued = {EvRxMsg, EvTo, EvSgRestart, EvSgValidResp, EvSgInvalidResp, EvUCT, EvElse}"

fun reports :: "auth_ev \<Rightarrow> bool" where
  "reports EvSgValidResp = True"
| "reports EvSgInvalidResp = True"
| "reports _ = False"

definition waits_for_method :: "auth_st \<Rightarrow> bool" where
  "waits_for_method st \<longleftrightarrow> st = StProposeMethod \<or> st = StIntegrityCheck"

type_synonym auth_raise = "(auth_ev, am_ev) raise option"

definition m_events :: "auth_method option \<Rightarrow> am_ev list" where
  "m_events om = (case om of None \<Rightarrow> [] | Some m \<Rightarrow> em_events m)"

definition checks :: "auth_raise \<Rightarrow> auth_method option \<Rightarrow> bool" where
  "checks r om \<longleftrightarrow> m_events om \<noteq> [] \<or> r = Some (RMethod OuterMethod EvSgIntegrityCheck)"

definition reported :: "auth_ev list \<Rightarrow> auth_raise \<Rightarrow> nat" where
  "reported evs r = length (filter reports evs) + (case r of Some (RSwitch ev) \<Rightarrow> (if reports ev then 1 else 0) | _ \<Rightarrow> 0)"

definition asked :: "auth_raise \<Rightarrow> auth_method option \<Rightarrow> nat" where
  "asked r om = length (m_events om) + (case r of Some (RMethod sl me) \<Rightarrow> 1 | _ \<Rightarrow> 0)"

text \<open>The parts of the invariant, over the fields they are about.\<close>

definition frame_ok ::
  "policy \<Rightarrow> mblk list \<Rightarrow> bool \<Rightarrow> policy \<Rightarrow> auth_method option \<Rightarrow> mblk list \<Rightarrow> (int \<Rightarrow> (auth_ev \<times> nat) option)
   \<Rightarrow> auth_ev list \<Rightarrow> bool" where
  "frame_ok p tr run pol inner q timers evs \<longleftrightarrow>
     run \<and> po_elems pol = po_elems p \<and> po_inner pol = EapType 0 \<and> inner = None \<and> set q \<subseteq> set tr \<and>
     timers_ok timers \<and> set evs \<subseteq> queued"

definition raise_ok :: "auth_st \<Rightarrow> auth_raise \<Rightarrow> peref \<Rightarrow> bool" where
  "raise_ok st r cur \<longleftrightarrow>
     st \<noteq> StTunnelEstablished \<and> st \<noteq> StWaitTunnelProcess \<and>
     (st = StNak \<longrightarrow> r = Some (RSwitch EvUCT)) \<and>
     (st = StSelectAction \<longrightarrow>
        r \<in> {Some (RSwitch EvSgPolicySat), Some (RSwitch EvSgPolicyNotSat_EndSess), Some (RSwitch EvElse)}) \<and>
     (r = Some (RSwitch EvSgPolicySat) \<longrightarrow> cur = PSucc) \<and>
     r \<noteq> Some (RSwitch EvSgTunnelEstablished) \<and> r \<noteq> Some (RSwitch EvSgInnerEap) \<and>
     (\<forall>sl me. r = Some (RMethod sl me) \<longrightarrow> sl = OuterMethod)"

definition token_ok :: "auth_st \<Rightarrow> auth_ev list \<Rightarrow> auth_raise \<Rightarrow> auth_method option \<Rightarrow> bool" where
  "token_ok st evs r om \<longleftrightarrow> asked r om + reported evs r \<le> (if waits_for_method st then 1 else 0)"

text \<open>The message at \<open>rxMessage\<close>, as \<open>AcReceiveMsg\<close> leaves it.\<close>

definition rx_checked :: "mblk list \<Rightarrow> byte \<Rightarrow> eap_type \<Rightarrow> mblk option \<Rightarrow> bool" where
  "rx_checked tr i t rx \<longleftrightarrow>
     (\<exists>b \<in> set tr. \<exists>h b1 b2. Header_toApp b = Parsed (h, b1) \<and> eh_code h = Response \<and> eh_identifier h = i \<and>
        Request_toApp b1 = Parsed (t, b2) \<and> rx = Some b2)"

definition rx_ok :: "mblk list \<Rightarrow> auth_st \<Rightarrow> auth_raise \<Rightarrow> auth_method option \<Rightarrow> byte \<Rightarrow> eap_type \<Rightarrow> mblk option \<Rightarrow> bool" where
  "rx_ok tr st r om i t rx \<longleftrightarrow>
     (r = Some (RSwitch EvRxMethodResp) \<or> st = StIntegrityCheck \<and> checks r om \<longrightarrow> rx_checked tr i t rx)"

definition base_ok :: "auth_method option \<Rightarrow> bool" where
  "base_ok om \<longleftrightarrow> (\<forall>m. om = Some m \<longrightarrow> fsm_running m \<and> set (em_events m) \<subseteq> {EvSgIntegrityCheck})"

text \<open>A method machine that has not ended is the one for the current element of the policy, but for the states between
  a step of the policy and the next method, and the final ones.\<close>

definition unlinked :: "auth_st \<Rightarrow> bool" where
  "unlinked st \<longleftrightarrow> st = StNak \<or> st = StSelectAction \<or> st = StSuccess \<or> st = StFailure"

definition link_ok :: "auth_env \<Rightarrow> policy \<Rightarrow> eap_type \<Rightarrow> auth_method option \<Rightarrow> bool" where
  "link_ok env pol t om \<longleftrightarrow>
     (\<forall>m. om = Some m \<longrightarrow> fsm_state m \<noteq> MStSuccess \<longrightarrow> fsm_state m \<noteq> MStFailure \<longrightarrow>
        (\<exists>i. po_current pol = PElem i \<and> t = pe_method (po_elems pol i) \<and>
             find_creator (ae_methods env) t Authenticator = Some (am_kind m)))"

definition init_ok :: "auth_st \<Rightarrow> auth_raise \<Rightarrow> auth_method option \<Rightarrow> bool" where
  "init_ok st r om \<longleftrightarrow>
     (\<forall>m. om = Some m \<longrightarrow>
        (fsm_state m = MStInitialize \<longrightarrow> st = StProposeMethod \<and> checks r om) \<and>
        (st = StProposeMethod \<longrightarrow> checks r om \<longrightarrow> fsm_state m = MStInitialize))"

definition chal_ok :: "auth_env \<Rightarrow> auth_st \<Rightarrow> auth_ev list \<Rightarrow> auth_raise \<Rightarrow> nat \<Rightarrow> auth_method option \<Rightarrow> bool" where
  "chal_ok env st evs r n om \<longleftrightarrow>
     (\<forall>m. om = Some m \<longrightarrow> am_kind m = AuthMD5 \<longrightarrow> fsm_state m = MStWaitResponse \<or> fsm_state m = MStProcessResponse \<longrightarrow>
        (st = StProposeMethod \<longrightarrow> reported evs r \<noteq> 0) \<longrightarrow>
        (\<exists>k < n. ae_random env k = Some (am_value m)))"

definition sure_ok :: "auth_env \<Rightarrow> mblk list \<Rightarrow> auth_raise \<Rightarrow> eap_type \<Rightarrow> nat \<Rightarrow> auth_method option \<Rightarrow> bool" where
  "sure_ok env tr r t n om \<longleftrightarrow>
     (\<forall>m sl. om = Some m \<longrightarrow> am_kind m = AuthMD5 \<longrightarrow> t = EapType 4 \<longrightarrow> r = Some (RMethod sl MEvSuccess) \<longrightarrow>
        proved env tr n)"

definition kept :: "auth_env \<Rightarrow> policy \<Rightarrow> mblk list \<Rightarrow> eap_auth \<Rightarrow> bool" where
  "kept env p tr s \<longleftrightarrow>
     au_kind s = StandAlone \<and>
     frame_ok p tr (fsm_running s) (sw_policy s) (sw_inner s) (sw_rxQueue s) (fsm_timers s) (sw_events s) \<and>
     raise_ok (fsm_state s) (sw_raised s) (po_current (sw_policy s)) \<and>
     token_ok (fsm_state s) (sw_events s) (sw_raised s) (sw_method s) \<and>
     rx_ok tr (fsm_state s) (sw_raised s) (sw_method s) (sw_id s) (sw_currentMethod s) (sw_rx s) \<and>
     base_ok (sw_method s) \<and>
     (\<not> unlinked (fsm_state s) \<longrightarrow> link_ok env (sw_policy s) (sw_currentMethod s) (sw_method s)) \<and>
     init_ok (fsm_state s) (sw_raised s) (sw_method s) \<and>
     chal_ok env (fsm_state s) (sw_events s) (sw_raised s) (au_nrand s) (sw_method s) \<and>
     sure_ok env tr (sw_raised s) (sw_currentMethod s) (au_nrand s) (sw_method s)"

text \<open>Success is the state of the policy, or has been sent.\<close>

definition won :: "peref \<Rightarrow> eap_out list \<Rightarrow> bool" where
  "won cur out \<longleftrightarrow> cur = PSucc \<or> (\<exists>pk. OutSuccessMsg pk \<in> set out)"

definition auth_safe :: "auth_env \<Rightarrow> policy \<Rightarrow> mblk list \<Rightarrow> eap_auth \<Rightarrow> bool" where
  "auth_safe env p tr s \<longleftrightarrow>
     (won (po_current (sw_policy s)) (sw_out s) \<longrightarrow> proved env tr (au_nrand s)) \<and>
     (sw_health s = Alive \<longrightarrow> kept env p tr s)"

lemmas safe_defs = frame_ok_def raise_ok_def token_ok_def rx_ok_def base_ok_def link_ok_def init_ok_def chal_ok_def
  sure_ok_def

lemma proved_more: "proved env tr n \<Longrightarrow> proved env (b # tr) n" "proved env tr n \<Longrightarrow> proved env tr (Suc n)"
  by (auto simp: proved_def intro: less_SucI)

subsection \<open>Steps of the switch machine\<close>

text \<open>The switch machine has the turn: nothing is asked of the method, and it has reported nothing.\<close>

definition quiet_ok :: "auth_env \<Rightarrow> nat \<Rightarrow> auth_ev list \<Rightarrow> auth_method option \<Rightarrow> bool" where
  "quiet_ok env n evs om \<longleftrightarrow>
     filter reports evs = [] \<and>
     (\<forall>m. om = Some m \<longrightarrow> em_events m = [] \<and> fsm_running m \<and> fsm_state m \<noteq> MStInitialize \<and>
        (am_kind m = AuthMD5 \<longrightarrow> fsm_state m = MStWaitResponse \<or> fsm_state m = MStProcessResponse \<longrightarrow>
           (\<exists>k < n. ae_random env k = Some (am_value m))))"

definition switch_turn :: "auth_env \<Rightarrow> policy \<Rightarrow> mblk list \<Rightarrow> eap_auth \<Rightarrow> bool" where
  "switch_turn env p tr s \<longleftrightarrow>
     (won (po_current (sw_policy s)) (sw_out s) \<longrightarrow> proved env tr (au_nrand s)) \<and>
     au_kind s = StandAlone \<and>
     frame_ok p tr (fsm_running s) (sw_policy s) (sw_inner s) (sw_rxQueue s) (fsm_timers s) (sw_events s) \<and>
     quiet_ok env (au_nrand s) (sw_events s) (sw_method s)"

lemma quiet_if:
  assumes "token_ok st evs (Some (RSwitch ev)) om" "\<not> waits_for_method st \<or> reports ev"
    and "base_ok om" "init_ok st (Some (RSwitch ev)) om" "chal_ok env st evs (Some (RSwitch ev)) n om"
  shows "quiet_ok env n evs om"
proof -
  have t: "m_events om = []" "filter reports evs = []"
    using assms(1,2) by (auto simp: token_ok_def asked_def reported_def split: if_splits)
  have w: "st = StProposeMethod \<longrightarrow> reported evs (Some (RSwitch ev)) \<noteq> 0"
    using assms(2) by (auto simp: waits_for_method_def reported_def)
  show ?thesis
  proof (cases om)
    case None
    with t show ?thesis by (simp add: quiet_ok_def)
  next
    case (Some m)
    have "\<not> checks (Some (RSwitch ev)) om" using t by (simp add: checks_def)
    with assms(4) Some have "fsm_state m \<noteq> MStInitialize" by (auto simp: init_ok_def)
    with t w assms(3,5) Some show ?thesis
      by (simp add: quiet_ok_def m_events_def base_ok_def chal_ok_def)
  qed
qed

lemma switch_turn_if:
  "auth_safe env p tr s \<Longrightarrow> sw_health s = Alive \<Longrightarrow> sw_raised s = Some (RSwitch ev) \<Longrightarrow>
     \<not> waits_for_method (fsm_state s) \<or> reports ev \<Longrightarrow> switch_turn env p tr s"
  unfolding auth_safe_def kept_def switch_turn_def using quiet_if by metis

text \<open>The turn stays with the switch machine.\<close>

definition raises_ok :: "auth_env \<Rightarrow> mblk list \<Rightarrow> eap_auth \<Rightarrow> bool" where
  "raises_ok env tr s \<longleftrightarrow>
     raise_ok (fsm_state s) (sw_raised s) (po_current (sw_policy s)) \<and>
     (\<forall>sl me. sw_raised s \<noteq> Some (RMethod sl me)) \<and>
     (\<forall>ev. sw_raised s = Some (RSwitch ev) \<longrightarrow> \<not> reports ev) \<and>
     (sw_raised s = Some (RSwitch EvRxMethodResp) \<longrightarrow> rx_checked tr (sw_id s) (sw_currentMethod s) (sw_rx s)) \<and>
     (\<not> unlinked (fsm_state s) \<longrightarrow> link_ok env (sw_policy s) (sw_currentMethod s) (sw_method s))"

lemma quiet_then:
  assumes "quiet_ok env n evs om" "\<forall>sl me. r \<noteq> Some (RMethod sl me)" "\<forall>ev. r = Some (RSwitch ev) \<longrightarrow> \<not> reports ev"
  shows "token_ok st evs r om" "base_ok om" "init_ok st r om" "chal_ok env st evs r n om" "sure_ok env tr r t n om"
    "\<not> checks r om"
proof -
  have r: "reported evs r = 0" "m_events om = []" "asked r om = 0"
    using assms by (auto simp: reported_def quiet_ok_def m_events_def asked_def split: option.splits raise.splits)
  show "\<not> checks r om" using r assms(2) by (simp add: checks_def)
  then show "init_ok st r om" using assms(1) by (auto simp: init_ok_def quiet_ok_def)
  show "token_ok st evs r om" using r by (simp add: token_ok_def)
  show "base_ok om" using assms(1) by (auto simp: base_ok_def quiet_ok_def)
  show "chal_ok env st evs r n om" using assms(1) r by (auto simp: chal_ok_def quiet_ok_def)
  show "sure_ok env tr r t n om" using assms(2) by (auto simp: sure_ok_def)
qed

lemma switch_turn_then:
  assumes "switch_turn env p tr s" "raises_ok env tr s"
  shows "auth_safe env p tr s"
  using assms quiet_then [of env "au_nrand s" "sw_events s" "sw_method s" "sw_raised s"]
  unfolding auth_safe_def kept_def switch_turn_def raises_ok_def rx_ok_def by simp

lemma switch_turn_set [simp]:
  "switch_turn env p tr (s\<lparr>sw_raised := r\<rparr>) = switch_turn env p tr s"
  "switch_turn env p tr (s\<lparr>fsm_state := st\<rparr>) = switch_turn env p tr s"
  "switch_turn env p tr (s\<lparr>sw_id := i\<rparr>) = switch_turn env p tr s"
  "switch_turn env p tr (s\<lparr>sw_tx := b\<rparr>) = switch_turn env p tr s"
  "switch_turn env p tr (s\<lparr>sw_rx := b\<rparr>) = switch_turn env p tr s"
  "switch_turn env p tr (s\<lparr>sw_keyData := kd\<rparr>) = switch_turn env p tr s"
  "switch_turn env p tr (s\<lparr>sw_discard := n\<rparr>) = switch_turn env p tr s"
  "switch_turn env p tr (s\<lparr>au_methodState := ms\<rparr>) = switch_turn env p tr s"
  "switch_turn env p tr (s\<lparr>au_retransmissionCount := c\<rparr>) = switch_turn env p tr s"
  "switch_turn env p tr (sw_Event ev s) = switch_turn env p tr s"
  by (simp_all add: switch_turn_def sw_Event_def)

lemma switch_turn_dequeue [simp]:
  "switch_turn env p tr s \<Longrightarrow> sw_rxQueue s = b # q \<Longrightarrow> switch_turn env p tr (s\<lparr>sw_rxQueue := q\<rparr>)"
  by (simp add: switch_turn_def frame_ok_def)

lemma switch_turn_timers [simp]:
  "switch_turn env p tr s \<Longrightarrow> switch_turn env p tr (CancelTimer ty s)"
  "switch_turn env p tr s \<Longrightarrow> switch_turn env p tr (ScheduleTimer EvTo sec ty s)"
  by (auto simp: switch_turn_def frame_ok_def timers_ok_def CancelTimer_def ScheduleTimer_def)

lemma switch_turn_calls [simp]:
  "switch_turn env p tr s \<Longrightarrow> ev \<in> queued \<Longrightarrow> \<not> reports ev \<Longrightarrow> switch_turn env p tr (sw_Notify ev s)"
  "switch_turn env p tr s \<Longrightarrow> (\<forall>pk. o' \<noteq> OutSuccessMsg pk) \<Longrightarrow> switch_turn env p tr (callback o' s)"
  by (auto simp: switch_turn_def sw_Notify_def callback_def frame_ok_def quiet_ok_def won_def)

lemma switch_turn_stuck [simp]:
  "switch_turn env p tr s \<Longrightarrow> auth_safe env p tr (crash s)" "switch_turn env p tr s \<Longrightarrow> auth_safe env p tr (block s)"
  by (simp_all add: switch_turn_def auth_safe_def crash_def block_def)

text \<open>What the small steps leave alone.\<close>

lemma small_steps [simp]:
  fixes s :: eap_auth
  shows
    "sw_raised (callback o' s) = sw_raised s" "fsm_state (callback o' s) = fsm_state s" "sw_policy (callback o' s) = sw_policy s" "sw_currentMethod (callback o' s) = sw_currentMethod s" "sw_method (callback o' s) = sw_method s" "sw_health (callback o' s) = sw_health s"
    "sw_raised (sw_Notify ev s) = sw_raised s" "fsm_state (sw_Notify ev s) = fsm_state s" "sw_policy (sw_Notify ev s) = sw_policy s" "sw_currentMethod (sw_Notify ev s) = sw_currentMethod s" "sw_method (sw_Notify ev s) = sw_method s" "sw_health (sw_Notify ev s) = sw_health s"
    "sw_raised (CancelTimer ty s) = sw_raised s" "fsm_state (CancelTimer ty s) = fsm_state s" "sw_policy (CancelTimer ty s) = sw_policy s" "sw_currentMethod (CancelTimer ty s) = sw_currentMethod s" "sw_method (CancelTimer ty s) = sw_method s" "sw_health (CancelTimer ty s) = sw_health s"
    "sw_raised (ScheduleTimer ev sec ty s) = sw_raised s" "fsm_state (ScheduleTimer ev sec ty s) = fsm_state s" "sw_policy (ScheduleTimer ev sec ty s) = sw_policy s" "sw_currentMethod (ScheduleTimer ev sec ty s) = sw_currentMethod s" "sw_method (ScheduleTimer ev sec ty s) = sw_method s" "sw_health (ScheduleTimer ev sec ty s) = sw_health s"
  by (simp_all add: callback_def sw_Notify_def CancelTimer_def ScheduleTimer_def)

lemma with_method_turn:
  "switch_turn env p tr s \<Longrightarrow> (\<And>m. auth_safe env p tr (f m s)) \<Longrightarrow> auth_safe env p tr (with_method sl f s)"
  "switch_turn env p tr s \<Longrightarrow> (\<And>b. auth_safe env p tr (g b s)) \<Longrightarrow> auth_safe env p tr (with_rx g s)"
  "switch_turn env p tr s \<Longrightarrow> (\<And>b. auth_safe env p tr (g b s)) \<Longrightarrow> auth_safe env p tr (with_tx g s)"
  by (simp_all add: with_method_def with_rx_def with_tx_def split: option.split)

text \<open>An event that is raised, and none.\<close>

lemma raise_safe:
  assumes "switch_turn env p tr s"
    and "ev \<notin> {EvSgValidResp, EvSgInvalidResp, EvSgPolicySat, EvSgTunnelEstablished, EvSgInnerEap, EvRxMethodResp}"
    and "fsm_state s \<notin> {StNak, StSelectAction, StTunnelEstablished, StWaitTunnelProcess}"
    and "\<not> unlinked (fsm_state s) \<longrightarrow> link_ok env (sw_policy s) (sw_currentMethod s) (sw_method s)"
  shows "auth_safe env p tr (sw_Event ev s)"
proof (rule switch_turn_then)
  show "raises_ok env tr (sw_Event ev s)"
    using assms by (cases ev) (simp_all add: raises_ok_def raise_ok_def sw_Event_def)
qed (simp add: assms)

lemma rest_safe:
  assumes "switch_turn env p tr s" "sw_raised s = None"
    and "fsm_state s \<notin> {StNak, StSelectAction, StTunnelEstablished, StWaitTunnelProcess}"
    and "\<not> unlinked (fsm_state s) \<longrightarrow> link_ok env (sw_policy s) (sw_currentMethod s) (sw_method s)"
  shows "auth_safe env p tr s"
  by (rule switch_turn_then) (use assms in \<open>simp_all add: raises_ok_def raise_ok_def\<close>)

text \<open>The actions, on a state that has just been entered.\<close>

definition entered :: "auth_env \<Rightarrow> policy \<Rightarrow> mblk list \<Rightarrow> eap_auth \<Rightarrow> bool" where
  "entered env p tr s \<longleftrightarrow>
     switch_turn env p tr s \<and> sw_raised s = None \<and> sw_health s = Alive \<and>
     (\<not> unlinked (fsm_state s) \<longrightarrow> fsm_state s \<noteq> StProposeMethod \<longrightarrow> link_ok env (sw_policy s) (sw_currentMethod s) (sw_method s))"

lemma raise_actions_safe:
  assumes "entered env p tr s" "fsm_state s \<in> {StDisabled, StInitialize, StMethodRequest, StMethodResponse, StDiscard}"
    "a \<in> {AcDisable, AcInitialize, AcBuildRequest, AcMethodResponse, AcDiscard}"
  shows "auth_safe env p tr (auth_act env a s)"
  using assms
  by (auto simp: entered_def unlinked_def au_Initialize_def au_BuildRequest_def au_MethodResponse_def au_Discard_def
      split: parse.split intro!: with_method_turn raise_safe)

lemma send_actions_safe:
  assumes "entered env p tr s" "fsm_state s \<in> {StSendRequest, StRetransmit}" "a \<in> {AcSendRequest, AcRetransmit}"
  shows "auth_safe env p tr (auth_act env a s)"
proof -
  have rest: "auth_safe env p tr (callback (OutSend x) (sw_Notify ev s'))"
    if "switch_turn env p tr s'" "sw_raised s' = None" "fsm_state s' \<in> {StSendRequest, StRetransmit}" "ev \<in> {EvUCT, EvElse}"
      "link_ok env (sw_policy s') (sw_currentMethod s') (sw_method s')" for s' x ev
    using that by (intro rest_safe) (auto simp: queued_def)
  show ?thesis
    using assms
    by (auto simp: entered_def unlinked_def au_SendRequest_def au_Retransmit_def reset_retransmission_def Let_def queued_def
        intro!: with_method_turn rest raise_safe)
qed

lemma policy_check_safe:
  assumes "entered env p tr s" "fsm_state s = StSelectAction"
  shows "auth_safe env p tr (au_DoPolicyCheck s)"
proof (rule switch_turn_then)
  have k: "au_kind s = StandAlone" using assms by (simp add: entered_def switch_turn_def)
  show "switch_turn env p tr (au_DoPolicyCheck s)" using assms by (simp add: entered_def au_DoPolicyCheck_def)
  show "raises_ok env tr (au_DoPolicyCheck s)"
    using assms k
    by (cases "po_current (sw_policy s)")
      (simp_all add: au_DoPolicyCheck_def Decision_def IsSatisfied_def policy_method_def unlinked_def raises_ok_def
        raise_ok_def sw_Event_def)
qed

text \<open>Success is sent when the policy has it.\<close>

lemma final_actions_safe:
  assumes "switch_turn env p tr s" "sw_raised s = None"
  shows "fsm_state s = StSuccess \<Longrightarrow> po_current (sw_policy s) = PSucc \<Longrightarrow> auth_safe env p tr (au_SendSuccess s)"
    and "fsm_state s = StFailure \<Longrightarrow> auth_safe env p tr (au_SendFailure s)"
proof -
  assume "fsm_state s = StSuccess" "po_current (sw_policy s) = PSucc"
  then show "auth_safe env p tr (au_SendSuccess s)"
    using assms
    by (intro switch_turn_then)
      (auto simp: au_SendSuccess_def make_key_available_def reset_retransmission_def switch_turn_def won_def
        unlinked_def frame_ok_def timers_ok_def CancelTimer_def callback_def raises_ok_def raise_ok_def split: if_splits)
next
  assume "fsm_state s = StFailure"
  then show "auth_safe env p tr (au_SendFailure s)"
    using assms by (intro rest_safe) (simp_all add: au_SendFailure_def unlinked_def reset_retransmission_def)
qed

text \<open>A new method is asked first.\<close>

lemma propose_safe:
  assumes "entered env p tr s" "fsm_state s = StProposeMethod"
  shows "auth_safe env p tr (au_ProposeMethod env s)"
proof (cases "policy_method (sw_policy s)")
  case None
  with assms show ?thesis by (simp add: au_ProposeMethod_def entered_def)
next
  case (Some t)
  then obtain i where i: "po_current (sw_policy s) = PElem i" "pe_method (po_elems (sw_policy s) i) = t"
    by (auto simp: policy_method_def split: peref.splits)
  have s: "switch_turn env p tr s" "sw_raised s = None" using assms by (simp_all add: entered_def)
  let ?s = "(DeleteMethodStateMachine s)\<lparr>sw_currentMethod := t\<rparr>"
  have d: "?s = s\<lparr>sw_method := None, sw_currentMethod := t\<rparr>"
    by (cases s) (simp add: DeleteMethodStateMachine_def split: option.split)
  have inner: "po_inner (sw_policy s) = EapType 0" using s(1) by (simp add: switch_turn_def frame_ok_def)
  show ?thesis
  proof (cases "find_creator (ae_methods env) t Authenticator")
    case None
    then have "sw_health (au_ProposeMethod env s) = Crashed \<and> au_nrand (au_ProposeMethod env s) = au_nrand s \<and>
        sw_policy (au_ProposeMethod env s) = sw_policy s \<and> sw_out (au_ProposeMethod env s) = sw_out s @ [OutAbort]"
      unfolding au_ProposeMethod_def \<open>policy_method (sw_policy s) = Some t\<close> option.case Let_def d
      by (simp add: create_and_start_def CreateMethodStateMachine_def m_Start_def with_method_def method_at_def
          callback_def crash_def)
    with s(1) show ?thesis by (auto simp: auth_safe_def switch_turn_def won_def)
  next
    case (Some c)
    have r: "au_ProposeMethod env s = s\<lparr>sw_method := Some ((new_auth_method env c (sw_next s))\<lparr>fsm_running := True,
          em_events := [EvSgIntegrityCheck]\<rparr>), sw_currentMethod := t, sw_next := sw_next s + 1,
        au_methodState := (if t = EapType 1 \<or> au_kind s \<noteq> StandAlone \<and> t = EapType 2 then CONT else PROPOSED),
        sw_mux := sw_mux s @ [JobMethod (sw_next s)]\<rparr>"
      using assms(1) Some inner
      unfolding au_ProposeMethod_def \<open>policy_method (sw_policy s) = Some t\<close> option.case Let_def d
      by (simp add: create_and_start_def CreateMethodStateMachine_def m_Start_def m_Notify_def with_method_def
          method_at_def put_method_def fsm_Start_def new_auth_method_def entered_def)
    note f = s(1) [unfolded switch_turn_def]
    have q: "filter reports (sw_events s) = []" using f by (simp add: quiet_ok_def)
    let ?m = "(new_auth_method env c (sw_next s))\<lparr>fsm_running := True, em_events := [EvSgIntegrityCheck]\<rparr>"
    have "raise_ok StProposeMethod None (po_current (sw_policy s))" "rx_ok tr StProposeMethod None (Some ?m) j t rx"
      "base_ok (Some ?m)" "init_ok StProposeMethod None (Some ?m)" "sure_ok env tr None t n (Some ?m)"
      "chal_ok env StProposeMethod (sw_events s) None n (Some ?m)"
      for n j rx
      by (simp_all add: raise_ok_def rx_ok_def base_ok_def init_ok_def sure_ok_def chal_ok_def checks_def m_events_def
          new_auth_method_def)
    moreover have "token_ok StProposeMethod (sw_events s) None (Some ?m)"
      using q by (simp add: token_ok_def asked_def reported_def m_events_def waits_for_method_def)
    moreover have "link_ok env (sw_policy s) t (Some ?m)"
      using i Some by (simp add: link_ok_def new_auth_method_def)
    ultimately show ?thesis
      using f s(2) assms(2) unfolding r by (simp add: auth_safe_def kept_def)
  qed
qed

text \<open>A response is looked at, and handed to the method.\<close>

lemma nak_safe:
  assumes "switch_turn env p tr s" "sw_raised s = None" "fsm_state s = StNak" "guarded p"
  shows "auth_safe env p tr (au_ResetMethod s)"
proof -
  let ?s = "\<lambda>b p'. sw_Event EvUCT (s\<lparr>sw_rx := b, sw_policy := p'\<rparr>)"
  have "auth_safe env p tr (?s b (Update PolicyOnFailure (sw_policy s)))" for b
  proof (rule switch_turn_then)
    have e: "po_elems (sw_policy s) = po_elems p" using assms(1) by (simp add: switch_turn_def frame_ok_def)
    have g: "\<And>i. pe_onFailure (po_elems p i) \<noteq> PSucc" using assms(4) by (simp add: guarded_def)
    have "po_current (Update PolicyOnFailure (sw_policy s)) = PSucc \<Longrightarrow> po_current (sw_policy s) = PSucc"
      using e g by (cases "po_current (sw_policy s)") (simp_all add: next_of_def)
    then have "won (po_current (Update PolicyOnFailure (sw_policy s))) (sw_out s) \<longrightarrow> proved env tr (au_nrand s)"
      using assms(1) unfolding won_def switch_turn_def by blast
    then show "switch_turn env p tr (?s b (Update PolicyOnFailure (sw_policy s)))"
      using assms(1) by (simp add: switch_turn_def sw_Event_def frame_ok_def)
    show "raises_ok env tr (?s b (Update PolicyOnFailure (sw_policy s)))"
      using assms(3) by (simp add: raises_ok_def raise_ok_def unlinked_def sw_Event_def)
  qed
  then show ?thesis
    using assms(1) unfolding au_ResetMethod_def
    by (intro with_method_turn) (simp_all add: Nak_toApp_def Update_types_Nil)
qed

lemma receive_safe:
  assumes "entered env p tr s" "fsm_state s = StReceived"
  shows "auth_safe env p tr (au_ReceiveMsg s)"
proof (cases "sw_rxQueue s")
  case Nil
  with assms show ?thesis by (simp add: au_ReceiveMsg_def au_dequeue_def entered_def)
next
  case (Cons b q)
  have t: "switch_turn env p tr s" "sw_raised s = None" "au_kind s = StandAlone"
    "link_ok env (sw_policy s) (sw_currentMethod s) (sw_method s)" "b \<in> set tr"
    using assms Cons by (simp_all add: entered_def switch_turn_def frame_ok_def unlinked_def)
  show ?thesis
  proof (cases "Header_toApp b")
    case (Parsed hb)
    obtain h b1 where h: "hb = (h, b1)" by (cases hb)
    show ?thesis
    proof (cases "eh_code h = Response \<and> eh_identifier h = sw_id s")
      case False
      have "auth_safe env p tr (sw_Notify EvElse (s\<lparr>sw_rxQueue := q, sw_rx := None\<rparr>))"
        using t assms Cons by (intro rest_safe) (simp_all add: queued_def unlinked_def)
      with False Cons Parsed h show ?thesis
        by (simp add: au_ReceiveMsg_def au_dequeue_def rx_header_def with_rx_def)
    next
      case True
      let ?s = "\<lambda>b. s\<lparr>sw_rxQueue := q, sw_rx := b\<rparr>"
      have e: "auth_safe env p tr (sw_Event ev (?s b))" if "ev = EvElse \<or> ev = EvRxNak" for ev b
        using that t assms Cons by (intro raise_safe) (auto simp: unlinked_def)
      show ?thesis
      proof (cases "Request_toApp b1")
        case P: (Parsed tb)
        obtain ty b2 where tb: "tb = (ty, b2)" by (cases tb)
        have c: "auth_safe env p tr (sw_Event EvRxMethodResp (?s (Some b2)))" if "ty = sw_currentMethod s"
        proof (rule switch_turn_then)
          have "rx_checked tr (sw_id s) (sw_currentMethod s) (Some b2)"
            unfolding rx_checked_def using t(5) Parsed h True P tb that by blast
          then show "raises_ok env tr (sw_Event EvRxMethodResp (?s (Some b2)))"
            using t assms(2) by (simp add: raises_ok_def raise_ok_def unlinked_def sw_Event_def)
        qed (use t Cons in simp)
        from e c show ?thesis
          using t(3) True Cons Parsed h P tb
          by (simp add: au_ReceiveMsg_def au_dequeue_def rx_header_def rx_type_def with_rx_def Let_def)
      qed (use t Cons Parsed h True in
          \<open>simp_all add: au_ReceiveMsg_def au_dequeue_def rx_header_def rx_type_def with_rx_def\<close>)
    qed
  qed (use t Cons in \<open>simp_all add: au_ReceiveMsg_def au_dequeue_def rx_header_def with_rx_def\<close>)
qed

lemma check_safe:
  assumes "entered env p tr s" "fsm_state s = StIntegrityCheck"
    "rx_checked tr (sw_id s) (sw_currentMethod s) (sw_rx s)"
  shows "auth_safe env p tr (au_DoIntegrityCheck s)"
proof (cases "sw_method s")
  case None
  with assms show ?thesis
    by (simp add: au_DoIntegrityCheck_def m_Notify_def with_method_def method_at_def entered_def)
next
  case (Some m)
  have t: "switch_turn env p tr s" "sw_raised s = None"
    "link_ok env (sw_policy s) (sw_currentMethod s) (sw_method s)"
    using assms by (simp_all add: entered_def unlinked_def)
  let ?m = "m\<lparr>em_events := em_events m @ [EvSgIntegrityCheck]\<rparr>"
  have r: "au_DoIntegrityCheck s = s\<lparr>sw_method := Some ?m, sw_mux := sw_mux s @ [JobMethod (em_id m)]\<rparr>"
    using Some by (simp add: au_DoIntegrityCheck_def m_Notify_def with_method_def method_at_def put_method_def)
  have q: "quiet_ok env (au_nrand s) (sw_events s) (Some m)" using t(1) Some by (simp add: switch_turn_def)
  have "token_ok StIntegrityCheck (sw_events s) None (Some ?m)" "base_ok (Some ?m)"
    "init_ok StIntegrityCheck None (Some ?m)" "chal_ok env StIntegrityCheck (sw_events s) None (au_nrand s) (Some ?m)"
    "sure_ok env tr None t' (au_nrand s) (Some ?m)" "raise_ok StIntegrityCheck None (po_current (sw_policy s))"
    for t'
    using q by (simp_all add: quiet_ok_def token_ok_def base_ok_def init_ok_def chal_ok_def sure_ok_def raise_ok_def
        waits_for_method_def asked_def reported_def m_events_def)
  moreover have "rx_ok tr StIntegrityCheck None (Some ?m) (sw_id s) (sw_currentMethod s) (sw_rx s)"
    using assms(3) by (simp add: rx_ok_def)
  moreover have "link_ok env (sw_policy s) (sw_currentMethod s) (Some ?m)"
    using t(3) Some by (simp add: link_ok_def)
  ultimately show ?thesis
    using t assms(2) unfolding r by (simp add: auth_safe_def kept_def switch_turn_def)
qed

text \<open>While the method has the turn, a message is dropped at most.\<close>

lemma ignored_safe:
  assumes "auth_safe env p tr s" "sw_health s = Alive" "sw_raised s = Some (RSwitch ev)"
    "fsm_state s \<noteq> StNak" "fsm_state s \<noteq> StSelectAction"
  shows "auth_safe env p tr (s\<lparr>sw_raised := None\<rparr>)"
proof -
  let ?r = "Some (RSwitch ev)" and ?om = "sw_method s" and ?st = "fsm_state s"
  note k = assms(1,2) [unfolded auth_safe_def kept_def assms(3)]
  have c: "checks None ?om = checks ?r ?om" "asked None ?om = asked ?r ?om"
    "reported (sw_events s) None \<le> reported (sw_events s) ?r"
    by (simp_all add: checks_def asked_def reported_def)
  have k': "raise_ok ?st ?r (po_current (sw_policy s))" "token_ok ?st (sw_events s) ?r ?om"
    "rx_ok tr ?st ?r ?om (sw_id s) (sw_currentMethod s) (sw_rx s)" "init_ok ?st ?r ?om"
    "chal_ok env ?st (sw_events s) ?r (au_nrand s) ?om" using k by simp_all
  have "raise_ok ?st None (po_current (sw_policy s))" using k'(1) assms(4,5) by (simp add: raise_ok_def)
  moreover have "token_ok ?st (sw_events s) None ?om"
    using k'(2) c(3) unfolding token_ok_def c(2) by linarith
  moreover have "rx_ok tr ?st None ?om (sw_id s) (sw_currentMethod s) (sw_rx s)"
    using k'(3) c(1) by (simp add: rx_ok_def)
  moreover have "init_ok ?st None ?om" using k'(4) unfolding init_ok_def c(1) .
  moreover have "chal_ok env ?st (sw_events s) None (au_nrand s) ?om"
  proof -
    have "reported (sw_events s) None \<noteq> 0 \<Longrightarrow> reported (sw_events s) ?r \<noteq> 0" using c(3) by linarith
    then show ?thesis using k'(5) unfolding chal_ok_def by metis
  qed
  moreover have "sure_ok env tr None (sw_currentMethod s) (au_nrand s) ?om" by (simp add: sure_ok_def)
  ultimately show ?thesis using k by (simp add: auth_safe_def kept_def)
qed

lemma drop_safe:
  assumes "auth_safe env p tr s" "sw_raised s = None"
  shows "auth_safe env p tr (au_Discard2 s)"
proof (cases "sw_rxQueue s")
  case Nil
  with assms show ?thesis by (simp add: au_Discard2_def au_drop_def Let_def block_def auth_safe_def)
next
  case (Cons b q)
  with assms show ?thesis
    by (cases "au_kind s") (auto simp: au_Discard2_def au_drop_def Let_def auth_safe_def kept_def frame_ok_def sw_Event_def)
qed

text \<open>Where the table of a stand-alone authenticator leads, action by action.\<close>

fun enters :: "auth_ac \<Rightarrow> auth_st list" where
  "enters AcDisable = [StDisabled]"
| "enters AcInitialize = [StInitialize]"
| "enters AcDoPolicyCheck = [StSelectAction]"
| "enters AcSendSuccess = [StSuccess]"
| "enters AcSendFailure = [StFailure]"
| "enters AcProposeMethod = [StProposeMethod]"
| "enters AcBuildRequest = [StMethodRequest]"
| "enters AcSendRequest = [StSendRequest]"
| "enters AcMethodResponse = [StMethodResponse]"
| "enters AcDiscard = [StDiscard]"
| "enters AcRetransmit = [StRetransmit]"
| "enters AcReceiveMsg = [StReceived]"
| "enters AcDoIntegrityCheck = [StIntegrityCheck]"
| "enters AcResetMethod = [StNak]"
| "enters AcNull = [StIdle, StTimeoutFailure]"
| "enters _ = []"

definition stays :: "auth_entry \<Rightarrow> bool" where
  "stays e \<longleftrightarrow> nextState e = prevState e \<and> prevState e \<in> {StIntegrityCheck, StSuccess, StFailure} \<and>
     (entryAction e = AcNull \<or> entryAction e = AcDiscard2)"

definition moves :: "auth_entry \<Rightarrow> bool" where
  "moves e \<longleftrightarrow>
     nextState e \<in> set (enters (entryAction e)) \<and>
     (unlinked (prevState e) \<longrightarrow> unlinked (nextState e) \<or> nextState e = StProposeMethod) \<and>
     (case entryEvent e of
        None \<Rightarrow> False
      | Some ev \<Rightarrow>
          (waits_for_method (prevState e) \<longrightarrow> reports ev) \<and>
          (entryAction e = AcSendSuccess \<longrightarrow> ev = EvSgPolicySat) \<and>
          (entryAction e = AcDoIntegrityCheck \<longrightarrow> ev = EvRxMethodResp))"

definition tunnels :: "auth_entry \<Rightarrow> bool" where
  "tunnels e \<longleftrightarrow>
     entryEvent e = Some EvSgTunnelEstablished \<or> entryEvent e = Some EvSgInnerEap \<or>
     prevState e = StTunnelEstablished \<or> prevState e = StWaitTunnelProcess"

lemma standalone_entries: "e \<in> set standalone_cmds \<Longrightarrow> stays e \<or> moves e \<or> tunnels e"
proof -
  have "list_all (\<lambda>e. stays e \<or> moves e \<or> tunnels e) standalone_cmds"
    by (simp add: standalone_cmds_def stays_def moves_def tunnels_def unlinked_def waits_for_method_def)
  then show "e \<in> set standalone_cmds \<Longrightarrow> ?thesis" by (simp add: list_all_iff)
qed

lemma moves_safe:
  assumes "moves e" "entered env p tr s" "fsm_state s = nextState e" "guarded p"
    and "entryAction e = AcSendSuccess \<Longrightarrow> po_current (sw_policy s) = PSucc"
    and "entryAction e = AcDoIntegrityCheck \<Longrightarrow> rx_checked tr (sw_id s) (sw_currentMethod s) (sw_rx s)"
  shows "auth_safe env p tr (auth_act env (entryAction e) s)"
proof -
  have m: "fsm_state s \<in> set (enters (entryAction e))" using assms(1,3) by (simp add: moves_def)
  note t = assms(2) [unfolded entered_def]
  show ?thesis
  proof (cases "entryAction e")
    case AcNull
    with m t show ?thesis by (auto simp: unlinked_def intro!: rest_safe)
  next
    case AcResetMethod
    with m t assms(4) show ?thesis by (simp add: nak_safe)
  next
    case AcSendSuccess
    with m t assms(5) show ?thesis by (simp add: final_actions_safe)
  next
    case AcSendFailure
    with m t show ?thesis by (simp add: final_actions_safe)
  qed (use m assms(2,6) raise_actions_safe [OF assms(2), of "entryAction e"]
        send_actions_safe [OF assms(2), of "entryAction e"] in
      \<open>simp_all add: policy_check_safe propose_safe receive_safe check_safe\<close>)
qed

lemma sstep_safe:
  assumes "auth_safe env p tr s" "sw_health s = Alive" "sw_raised s = Some (RSwitch ev)" "guarded p"
  shows "auth_safe env p tr (auth_sstep env ev (s\<lparr>sw_raised := None\<rparr>))"
proof -
  note k = assms(1,2) [unfolded auth_safe_def kept_def assms(3)]
  have kd: "au_kind s = StandAlone" and run: "fsm_running s" and ro: "raise_ok (fsm_state s) (Some (RSwitch ev)) (po_current (sw_policy s))"
    and rx: "ev = EvRxMethodResp \<Longrightarrow> rx_checked tr (sw_id s) (sw_currentMethod s) (sw_rx s)"
    and lk: "\<not> unlinked (fsm_state s) \<Longrightarrow> link_ok env (sw_policy s) (sw_currentMethod s) (sw_method s)"
    using k by (simp_all add: frame_ok_def rx_ok_def)
  have nf: "fsm_state s \<noteq> StNak \<and> fsm_state s \<noteq> StSelectAction"
    if "FindStateTableEntry (auth_table StandAlone) (fsm_state s) ev = None"
    using that ro by (auto simp: raise_ok_def auth_st.entries_are_calls standalone_cmds_def FindStateTableEntry_def)
  show ?thesis
  proof (cases "FindStateTableEntry (auth_table StandAlone) (fsm_state s) ev")
    case None
    with nf ignored_safe [OF assms(1-3)] kd show ?thesis by (simp add: auth_sstep_def fsm_Event_def)
  next
    case (Some e)
    let ?s = "s\<lparr>sw_raised := None, fsm_state := nextState e\<rparr>"
    from Some have e: "e \<in> set standalone_cmds" "prevState e = fsm_state s" "entryEvent e = Some ev \<or> entryEvent e = None"
      using auth_st.lookup_iff [of StandAlone] auth_st.entries_are_calls [of StandAlone] by auto
    have step: "auth_sstep env ev (s\<lparr>sw_raised := None\<rparr>) = auth_act env (entryAction e) ?s"
      using Some kd run by (simp add: auth_sstep_def fsm_Event_def)
    from standalone_entries [OF e(1)] consider "stays e" | "moves e" | "tunnels e" by blast
    then show ?thesis
    proof cases
      case 1
      then have s: "?s = s\<lparr>sw_raised := None\<rparr>" and n: "fsm_state s \<noteq> StNak" "fsm_state s \<noteq> StSelectAction"
        using e(2) by (cases s; auto simp: stays_def)+
      have "auth_safe env p tr (s\<lparr>sw_raised := None\<rparr>)" using ignored_safe [OF assms(1-3) n] .
      with 1 show ?thesis unfolding step s by (auto simp: stays_def drop_safe)
    next
      case 2
      then have m: "entryEvent e = Some ev" "\<not> waits_for_method (fsm_state s) \<or> reports ev"
        "unlinked (fsm_state s) \<longrightarrow> unlinked (nextState e) \<or> nextState e = StProposeMethod"
        "entryAction e = AcSendSuccess \<longrightarrow> ev = EvSgPolicySat" "entryAction e = AcDoIntegrityCheck \<longrightarrow> ev = EvRxMethodResp"
        using e(2,3) by (auto simp: moves_def split: option.splits)
      have "entered env p tr ?s"
        using switch_turn_if [OF assms(1-3) m(2)] m(3) lk assms(2) by (auto simp: entered_def)
      then show ?thesis
        unfolding step using 2 assms(4) m(4,5) ro rx
        by (intro moves_safe) (auto simp: raise_ok_def)
    next
      case 3
      with e ro show ?thesis by (auto simp: tunnels_def raise_ok_def)
    qed
  qed
qed

subsection \<open>Steps of the method machines\<close>

definition method_turn :: "auth_env \<Rightarrow> policy \<Rightarrow> mblk list \<Rightarrow> auth_method \<Rightarrow> eap_auth \<Rightarrow> bool" where
  "method_turn env p tr m s \<longleftrightarrow>
     (won (po_current (sw_policy s)) (sw_out s) \<longrightarrow> proved env tr (au_nrand s)) \<and> au_kind s = StandAlone \<and>
     frame_ok p tr (fsm_running s) (sw_policy s) (sw_inner s) (sw_rxQueue s) (fsm_timers s) (sw_events s) \<and>
     sw_method s = Some m \<and> em_events m = [] \<and> fsm_running m \<and> fsm_state m \<noteq> MStInitialize \<and>
     filter reports (sw_events s) = [] \<and> waits_for_method (fsm_state s) \<and> sw_raised s = None"

definition challenged :: "auth_env \<Rightarrow> nat \<Rightarrow> auth_method \<Rightarrow> bool" where
  "challenged env n m \<longleftrightarrow>
     (am_kind m = AuthMD5 \<longrightarrow> fsm_state m = MStWaitResponse \<or> fsm_state m = MStProcessResponse \<longrightarrow>
        (\<exists>k < n. ae_random env k = Some (am_value m)))"

text \<open>A method raises an event of its own, is through without a word, or reports.\<close>

lemma method_parts:
  assumes "method_turn env p tr m s" "r = None \<or> (\<exists>me. r = Some (RMethod OuterMethod me) \<and> me \<noteq> EvSgIntegrityCheck)"
  shows "raise_ok (fsm_state s) r (po_current (sw_policy s))" "token_ok (fsm_state s) (sw_events s) r (Some m)"
    "rx_ok tr (fsm_state s) r (Some m) i t rx" "base_ok (Some m)" "init_ok (fsm_state s) r (Some m)"
    "\<not> unlinked (fsm_state s)"
    "(fsm_state s = StIntegrityCheck \<longrightarrow> challenged env (au_nrand s) m) \<Longrightarrow>
       chal_ok env (fsm_state s) (sw_events s) r (au_nrand s) (Some m)"
  using assms
  by (auto simp: method_turn_def raise_ok_def token_ok_def rx_ok_def base_ok_def init_ok_def chal_ok_def challenged_def
      asked_def reported_def m_events_def checks_def waits_for_method_def unlinked_def)

lemma method_rests:
  assumes "method_turn env p tr m s" "link_ok env (sw_policy s) (sw_currentMethod s) (Some m)"
    "fsm_state s = StIntegrityCheck \<longrightarrow> challenged env (au_nrand s) m"
  shows "auth_safe env p tr s"
  using assms method_parts [OF assms(1), of None]
  unfolding auth_safe_def kept_def by (simp add: method_turn_def sure_ok_def)

lemma method_raises:
  assumes "method_turn env p tr m s" "link_ok env (sw_policy s) (sw_currentMethod s) (Some m)"
    "fsm_state s = StIntegrityCheck \<longrightarrow> challenged env (au_nrand s) m" "me \<noteq> EvSgIntegrityCheck"
    "am_kind m = AuthMD5 \<Longrightarrow> sw_currentMethod s = EapType 4 \<Longrightarrow> me = MEvSuccess \<Longrightarrow> proved env tr (au_nrand s)"
  shows "auth_safe env p tr (m_Event OuterMethod me s)"
  using assms method_parts [OF assms(1), of "Some (RMethod OuterMethod me)"]
  unfolding auth_safe_def kept_def by (simp add: method_turn_def sure_ok_def m_Event_def)

lemma method_reports:
  assumes "method_turn env p tr m s" "link_ok env (sw_policy s) (sw_currentMethod s) (Some m)"
    "challenged env (au_nrand s) m" "reports ev"
  shows "auth_safe env p tr (sw_Notify ev s)"
proof -
  have q: "ev \<in> queued" using assms(4) by (cases ev) (simp_all add: queued_def)
  note t = assms(1) [unfolded method_turn_def]
  have "token_ok (fsm_state s) (sw_events s @ [ev]) None (Some m)" "chal_ok env st (sw_events s @ [ev]) None (au_nrand s) (Some m)"
    for st
    using t assms(3,4)
    by (simp_all add: token_ok_def asked_def reported_def m_events_def chal_ok_def challenged_def)
  moreover have "frame_ok p tr (fsm_running s) (sw_policy s) (sw_inner s) (sw_rxQueue s) (fsm_timers s) (sw_events s @ [ev])"
    using t q by (simp add: frame_ok_def)
  ultimately show ?thesis
    using t assms(2) method_parts(1,3-6) [OF assms(1), of None]
    by (simp add: auth_safe_def kept_def sw_Notify_def sure_ok_def)
qed

lemma method_stuck:
  "method_turn env p tr m s \<Longrightarrow> auth_safe env p tr (crash s)"
  by (simp add: method_turn_def auth_safe_def crash_def)

lemma method_turn_set [simp]:
  "method_turn env p tr m (s\<lparr>sw_tx := b\<rparr>) = method_turn env p tr m s"
  "method_turn env p tr m (s\<lparr>sw_rx := b\<rparr>) = method_turn env p tr m s"
  "method_turn env p tr m (s\<lparr>sw_peerIdentity := w\<rparr>) = method_turn env p tr m s"
  "method_turn env p tr m s \<Longrightarrow> method_turn env p tr m (s\<lparr>au_nrand := Suc (au_nrand s)\<rparr>)"
  by (simp_all add: method_turn_def proved_more(2))

lemma method_turn_put:
  "method_turn env p tr m s \<Longrightarrow> em_events m' = [] \<Longrightarrow> fsm_running m' \<Longrightarrow> fsm_state m' \<noteq> MStInitialize \<Longrightarrow>
     method_turn env p tr m' (s\<lparr>sw_method := Some m'\<rparr>)"
  by (simp add: method_turn_def)

lemma method_turn_at [simp]: "method_turn env p tr m s \<Longrightarrow> method_at OuterMethod s = Some m"
  by (simp add: method_turn_def method_at_def)

text \<open>A method ends: its success satisfies the policy only if it is MD5-Challenge.\<close>

lemma ends_safe:
  assumes "method_turn env p tr m s" "fsm_state m = MStSuccess \<or> fsm_state m = MStFailure" "guarded p" "reports ev"
    and c: "find_creator (ae_methods env) (EapType 4) Authenticator = Some AuthMD5"
    and l: "po_current (sw_policy s) = PElem i" "sw_currentMethod s = pe_method (po_elems (sw_policy s) i)"
      "find_creator (ae_methods env) (sw_currentMethod s) Authenticator = Some (am_kind m)"
    and ok: "sw = PolicyOnSuccess \<Longrightarrow> am_kind m = AuthMD5 \<Longrightarrow> sw_currentMethod s = EapType 4 \<Longrightarrow> proved env tr (au_nrand s)"
  shows "auth_safe env p tr (method_ends sw ev OuterMethod s)"
proof -
  let ?m = "m\<lparr>em_isDone := True\<rparr>"
  let ?p = "Update sw (sw_policy s)"
  let ?s = "s\<lparr>sw_policy := ?p, sw_method := Some ?m\<rparr>"
  have r: "method_ends sw ev OuterMethod s = sw_Notify ev ?s"
    using assms(1) by (simp add: method_ends_def a_put_def with_method_def method_at_def put_method_def method_turn_def)
  have e: "po_elems (sw_policy s) = po_elems p" "fsm_running m" "em_events m = []" "fsm_state m \<noteq> MStInitialize"
    using assms(1) by (simp_all add: method_turn_def frame_ok_def)
  have g: "\<And>i. pe_onFailure (po_elems p i) \<noteq> PSucc"
      "\<And>i. pe_onSuccess (po_elems p i) = PSucc \<Longrightarrow> pe_method (po_elems p i) = EapType 4"
    using assms(3) by (simp_all add: guarded_def)
  have "po_current ?p = PSucc \<Longrightarrow> proved env tr (au_nrand s)"
  proof -
    assume "po_current ?p = PSucc"
    then have n: "next_of sw (po_elems p i) = PSucc" using l(1) e(1) by simp
    then have sw: "sw = PolicyOnSuccess" using g(1) by (auto simp: next_of_def split: if_splits)
    with n have "pe_method (po_elems p i) = EapType 4" using g(2) by (simp add: next_of_def)
    with l e(1) c ok sw show ?thesis by simp
  qed
  then have w: "won (po_current ?p) (sw_out s) \<longrightarrow> proved env tr (au_nrand s)"
    using assms(1) unfolding won_def method_turn_def by blast
  show ?thesis unfolding r
  proof (rule method_reports)
    show "method_turn env p tr ?m ?s"
      using assms(1) w e unfolding method_turn_def frame_ok_def by simp
  qed (use assms(2,4) in \<open>auto simp: link_ok_def challenged_def\<close>)
qed

lemma plain_reports:
  assumes "method_turn env p tr m s" "link_ok env (sw_policy s) (sw_currentMethod s) (Some m)" "am_kind m \<noteq> AuthMD5"
  shows "auth_safe env p tr (id_PrepareRequest s)" "auth_safe env p tr (no_PrepareRequest s)"
  using assms
  by (auto simp: id_PrepareRequest_def no_PrepareRequest_def challenged_def split: parse.split
      intro!: method_reports)

lemma plain_raises:
  assumes t: "method_turn env p tr m s" "link_ok env (sw_policy s) (sw_currentMethod s) (Some m)" "am_kind m \<noteq> AuthMD5"
  shows "auth_safe env p tr (id_CheckPickUpInit OuterMethod s)" "auth_safe env p tr (id_DoIntegrityCheck env OuterMethod s)"
    "auth_safe env p tr (no_DoIntegrityCheck OuterMethod s)"
proof -
  have ev: "auth_safe env p tr (m_Event OuterMethod me s')"
    if "method_turn env p tr m' s'" "link_ok env (sw_policy s') (sw_currentMethod s') (Some m')" "am_kind m' \<noteq> AuthMD5"
      "me \<noteq> EvSgIntegrityCheck" for me s' m'
    using that by (intro method_raises) (auto simp: challenged_def)
  have retry: "auth_safe env p tr (id_retry OuterMethod s')"
    if "method_turn env p tr m s'" "link_ok env (sw_policy s') (sw_currentMethod s') (Some m)" for s'
  proof -
    let ?m = "m\<lparr>am_nTrial := am_nTrial m + 1\<rparr>"
    have "method_turn env p tr ?m (s'\<lparr>sw_method := Some ?m\<rparr>)"
      using that(1) by (intro method_turn_put [OF that(1)]) (simp_all add: method_turn_def)
    moreover have "id_retry OuterMethod s' =
        m_Event OuterMethod (if am_nTrial m < maxTrial then MEvFailure_MoreTrial else MEvFailure_NoMoreTrial)
          (s'\<lparr>sw_method := Some ?m\<rparr>)"
      using that(1) by (simp add: id_retry_def with_method_def put_method_def)
    ultimately show ?thesis
      using ev [of ?m "s'\<lparr>sw_method := Some ?m\<rparr>"] that(2) t(3) by (simp add: link_ok_def)
  qed
  show "auth_safe env p tr (id_CheckPickUpInit OuterMethod s)"
    using t by (simp add: id_CheckPickUpInit_def ev)
  show "auth_safe env p tr (id_DoIntegrityCheck env OuterMethod s)"
    "auth_safe env p tr (no_DoIntegrityCheck OuterMethod s)"
    using t
    by (auto simp: id_DoIntegrityCheck_def no_DoIntegrityCheck_def with_rx_def Let_def split: option.split parse.split
        intro!: ev retry method_stuck)
qed

lemma md5_prepares:
  assumes t: "method_turn env p tr m s" "link_ok env (sw_policy s) (sw_currentMethod s) (Some m)"
    and st: "fsm_state s = StProposeMethod"
  shows "auth_safe env p tr (md5_PrepareRequest env OuterMethod s)"
proof (cases "ae_random env (au_nrand s)")
  case None
  have "auth_safe env p tr (s\<lparr>au_nrand := Suc (au_nrand s)\<rparr>)"
    using t st by (intro method_rests [where m = m]) simp_all
  with None show ?thesis by (simp add: md5_PrepareRequest_def Let_def)
next
  case (Some chal)
  let ?m = "m\<lparr>am_value := chal\<rparr>"
  let ?s = "s\<lparr>au_nrand := Suc (au_nrand s), sw_method := Some ?m\<rparr>"
  have m: "method_turn env p tr ?m ?s"
    using method_turn_put [OF method_turn_set(4) [OF t(1)], of ?m] t(1) by (simp add: method_turn_def)
  have "auth_safe env p tr (sw_Notify EvSgValidResp (?s\<lparr>sw_tx := Some b\<rparr>))" for b
    using m t(2) Some
    by (intro method_reports [where m = ?m]) (auto simp: link_ok_def challenged_def)
  moreover have "auth_safe env p tr (crash ?s)" by (rule method_stuck [OF m])
  ultimately show ?thesis
    using t(1) Some
    by (simp add: md5_PrepareRequest_def Let_def with_method_def method_at_def put_method_def method_turn_def
        split: parse.split)
qed

lemma md5_checks:
  assumes t: "method_turn env p tr m s" "link_ok env (sw_policy s) (sw_currentMethod s) (Some m)"
    and c: "challenged env (au_nrand s) m" "fsm_state m = MStProcessResponse" "am_kind m = AuthMD5"
    and rx: "rx_checked tr (sw_id s) (sw_currentMethod s) (sw_rx s)"
  shows "auth_safe env p tr (md5_DoIntegrityCheck env OuterMethod s)"
proof -
  obtain b h b1 b2 where b: "b \<in> set tr" "Header_toApp b = Parsed (h, b1)" "eh_code h = Response" "eh_identifier h = sw_id s"
    "Request_toApp b1 = Parsed (sw_currentMethod s, b2)" "sw_rx s = Some b2"
    using rx unfolding rx_checked_def by blast
  obtain k where k: "k < au_nrand s" "ae_random env k = Some (am_value m)"
    using c by (auto simp: challenged_def)
  have ev: "auth_safe env p tr (m_Event OuterMethod me s')"
    if "method_turn env p tr m' s'" "link_ok env (sw_policy s') (sw_currentMethod s') (Some m')"
      "challenged env (au_nrand s') m'" "me = MEvFailure \<or> me = MEvSuccess"
      "me = MEvSuccess \<Longrightarrow> sw_currentMethod s' = EapType 4 \<Longrightarrow> proved env tr (au_nrand s')" for me s' m'
    using that by (intro method_raises) auto
  show ?thesis
  proof (cases "MD5_toApp b2")
    case Wild
    with t b show ?thesis by (simp add: md5_DoIntegrityCheck_def with_rx_def method_stuck)
  next
    case Thrown
    then show ?thesis using t b ev [OF t c(1), of MEvFailure] by (simp add: md5_DoIntegrityCheck_def with_rx_def)
  next
    case (Parsed cb)
    obtain ch b3 where cb: "cb = (ch, b3)" by (cases cb)
    let ?pass = "ae_passphrase env (md_name ch)"
    let ?m = "m\<lparr>am_peerName := md_name ch, am_passphrase := ?pass\<rparr>"
    let ?s = "s\<lparr>sw_rx := Some b3, sw_method := Some ?m\<rparr>"
    let ?ok = "?pass \<noteq> [] \<and> ae_MD5 env (md5_raw (sw_id s) ?pass (am_value m)) = md_value ch"
    have r: "md5_DoIntegrityCheck env OuterMethod s = m_Event OuterMethod (if ?ok then MEvSuccess else MEvFailure) ?s"
      using t(1) b(6) Parsed cb
      by (simp add: md5_DoIntegrityCheck_def with_rx_def with_method_def method_at_def put_method_def Let_def
          method_turn_def)
    have m: "method_turn env p tr ?m ?s"
      using t(1) by (simp add: method_turn_def)
    have ok: "proved env tr (au_nrand s)" if "?ok" "sw_currentMethod s = EapType 4"
    proof -
      have "right_response env (am_value m) b"
        using b Parsed cb that by (simp add: right_response_def)
      with b(1) k show ?thesis unfolding proved_def by blast
    qed
    have "link_ok env (sw_policy ?s) (sw_currentMethod ?s) (Some ?m)" "challenged env (au_nrand ?s) ?m"
      using t(2) c(1) by (simp_all add: link_ok_def challenged_def)
    then show ?thesis unfolding r using ok by (intro ev [OF m]) (auto split: if_splits)
  qed
qed

lemma mstep_safe:
  assumes "auth_safe env p tr s" "sw_health s = Alive" "sw_raised s = Some (RMethod sl me)" "guarded p"
    and c: "find_creator (ae_methods env) (EapType 4) Authenticator = Some AuthMD5"
  shows "auth_safe env p tr (auth_mstep env sl me (s\<lparr>sw_raised := None\<rparr>))"
proof (cases "sw_method s")
  note k = assms(1,2) [unfolded auth_safe_def kept_def assms(3)]
  have sl: "sl = OuterMethod" using k by (simp add: raise_ok_def)
  case None
  with sl k show ?thesis
    by (simp add: auth_mstep_def method_Event_def with_method_def method_at_def auth_safe_def crash_def)
next
  note k = assms(1,2) [unfolded auth_safe_def kept_def assms(3)]
  have sl: "sl = OuterMethod" using k by (simp add: raise_ok_def)
  case (Some m)
  let ?s = "s\<lparr>sw_raised := None\<rparr>" and ?r = "Some (RMethod sl me)"
  have "token_ok (fsm_state s) (sw_events s) ?r (Some m)" using k Some by simp
  then have tok: "waits_for_method (fsm_state s)" "em_events m = []" "filter reports (sw_events s) = []"
    by (auto simp: token_ok_def asked_def reported_def m_events_def split: if_splits)
  then have nu: "\<not> unlinked (fsm_state s)" by (auto simp: waits_for_method_def unlinked_def)
  have run: "fsm_running m" using k Some by (simp add: base_ok_def)
  have init: "fsm_state m = MStInitialize \<Longrightarrow> fsm_state s = StProposeMethod \<and> me = EvSgIntegrityCheck"
      "fsm_state s = StProposeMethod \<Longrightarrow> me = EvSgIntegrityCheck \<Longrightarrow> fsm_state m = MStInitialize"
    using k Some tok(2) sl by (auto simp: init_ok_def checks_def m_events_def)
  have link: "link_ok env (sw_policy s) (sw_currentMethod s) (Some m)" using k Some nu by simp
  have chal: "challenged env (au_nrand s) m" if "fsm_state s = StIntegrityCheck"
    using k Some that by (auto simp: chal_ok_def challenged_def)
  have rx: "rx_checked tr (sw_id s) (sw_currentMethod s) (sw_rx s)" if "fsm_state s = StIntegrityCheck" "me = EvSgIntegrityCheck"
    using k Some that sl by (simp add: rx_ok_def checks_def)
  have sure: "am_kind m = AuthMD5 \<Longrightarrow> sw_currentMethod s = EapType 4 \<Longrightarrow> me = MEvSuccess \<Longrightarrow> proved env tr (au_nrand s)"
    using k Some by (simp add: sure_ok_def)
  have turn: "method_turn env p tr m' (?s\<lparr>sw_method := Some m'\<rparr>)"
    if "fsm_state m' \<noteq> MStInitialize" "em_events m' = []" "fsm_running m'" for m'
    using k tok that by (simp add: method_turn_def)
  show ?thesis
  proof (cases "FindStateTableEntry (am_table (am_kind m)) (fsm_state m) me")
    case None
    then have "fsm_state m \<noteq> MStInitialize"
      using init(1) by (cases "am_kind m") (auto simp: am_st.entries_are_calls FindStateTableEntry_def identity_cmds_def
          notification_cmds_def md5_cmds_def)
    then have "auth_safe env p tr (?s\<lparr>sw_method := Some m\<rparr>)"
      using tok run link chal by (intro method_rests [OF turn]) (auto simp: link_ok_def)
    then show ?thesis
      using None Some sl by (cases s) (simp add: auth_mstep_def method_Event_def with_method_def method_at_def)
  next
    case F: (Some e)
    let ?m = "m\<lparr>fsm_state := nextState e\<rparr>"
    let ?t = "?s\<lparr>sw_method := Some ?m\<rparr>"
    have step: "auth_mstep env sl me ?s = am_act env (entryAction e) OuterMethod ?t"
      using F Some sl run by (simp add: auth_mstep_def method_Event_def with_method_def method_at_def put_method_def)
    from F have e: "e \<in> set (am_cmds (am_kind m))" "prevState e = fsm_state m" "entryEvent e = Some me \<or> entryEvent e = None"
      using am_st.lookup_iff [of "am_kind m"] am_st.entries_are_calls [of "am_kind m"] by auto
    have t: "method_turn env p tr ?m ?t" if "nextState e \<noteq> MStInitialize"
      using that tok run by (intro turn) simp_all
    have lk: "link_ok env (sw_policy ?t) (sw_currentMethod ?t) (Some ?m)"
      if "fsm_state m \<noteq> MStSuccess" "fsm_state m \<noteq> MStFailure"
      using link that by (simp add: link_ok_def)
    have ends: "auth_safe env p tr (method_ends sw ev OuterMethod ?t)" "auth_safe env p tr (no_ends sw ev OuterMethod ?t)"
      if "fsm_state m \<notin> {MStSuccess, MStFailure}" "nextState e \<in> {MStSuccess, MStFailure}" "reports ev"
        "sw = PolicyOnFailure \<or> me = MEvSuccess" for sw ev
    proof -
      note live = that(1)
      obtain i where "po_current (sw_policy s) = PElem i" "sw_currentMethod s = pe_method (po_elems (sw_policy s) i)"
        "find_creator (ae_methods env) (sw_currentMethod s) Authenticator = Some (am_kind m)"
        using link live unfolding link_ok_def by auto
      then show "auth_safe env p tr (method_ends sw ev OuterMethod ?t)" "auth_safe env p tr (no_ends sw ev OuterMethod ?t)"
        using that t sure assms(4) c unfolding no_ends_def by (intro ends_safe [where m = ?m and i = i]; auto)+
    qed
    show ?thesis
    proof (cases "am_kind m = AuthMD5")
      case True
      with e have "e \<in> set md5_cmds" by simp
      then consider
          "e = FsmEntry MStInitialize (Some EvSgIntegrityCheck) MStWaitResponse MdPrepareRequest"
        | "e = FsmEntry MStWaitResponse (Some EvSgIntegrityCheck) MStProcessResponse MdDoIntegrityCheck"
        | "e = FsmEntry MStProcessResponse (Some MEvSuccess) MStSuccess MdNotifySuccess"
        | "e = FsmEntry MStProcessResponse (Some MEvFailure) MStFailure MdNotifyFailure"
        | "nextState e \<in> {MStSuccess, MStFailure}" "entryAction e = AmNull"
        unfolding md5_cmds_def by auto
      then show ?thesis
      proof cases
        case 1
        with e init t lk show ?thesis unfolding step by (simp add: md5_prepares)
      next
        case 2
        with e have m: "fsm_state m = MStWaitResponse" "me = EvSgIntegrityCheck" by simp_all
        with init tok(1) have st: "fsm_state s = StIntegrityCheck" by (auto simp: waits_for_method_def)
        then have "challenged env (au_nrand s) ?m" using chal [OF st] True m(1) 2 by (simp add: challenged_def)
        with 2 m t lk rx [OF st] True show ?thesis unfolding step by (simp add: md5_checks)
      next
        case 3
        with e ends show ?thesis unfolding step by simp
      next
        case 4
        with e have "fsm_state m \<notin> {MStSuccess, MStFailure}" "nextState e \<in> {MStSuccess, MStFailure}" by auto
        from ends(1) [OF this, of EvSgValidResp PolicyOnFailure] 4 show ?thesis unfolding step by simp
      next
        case 5
        then have "link_ok env (sw_policy ?t) (sw_currentMethod ?t) (Some ?m)" "challenged env (au_nrand ?t) ?m"
          by (auto simp: link_ok_def challenged_def)
        with 5 t show ?thesis unfolding step by (auto intro: method_rests)
      qed
    next
      case False
      with e have "e \<in> set identity_cmds \<union> set notification_cmds" by (cases "am_kind m") auto
      then consider
          "nextState e \<in> {MStCheckPickUpInit, MStProcessResponse, MStWaitResponse}" "prevState e \<notin> {MStSuccess, MStFailure}"
          "entryAction e \<in> {IdCheckPickUpInit, IdDoIntegrityCheck, IdPrepareRequest, NoDoIntegrityCheck, NoPrepareRequest}"
        | "prevState e = MStProcessResponse" "entryEvent e = Some MEvSuccess" "nextState e = MStSuccess"
          "entryAction e \<in> {IdNotifySuccess, NoNotifySuccess}"
        | "prevState e = MStProcessResponse" "nextState e = MStFailure" "entryAction e \<in> {IdNotifyFailure, NoNotifyFailure}"
        | "nextState e \<in> {MStSuccess, MStFailure}" "entryAction e = AmNull"
        unfolding identity_cmds_def notification_cmds_def by auto
      then show ?thesis
      proof cases
        case 1
        with e(2) t lk have p: "method_turn env p tr ?m ?t" "link_ok env (sw_policy ?t) (sw_currentMethod ?t) (Some ?m)"
          "am_kind ?m \<noteq> AuthMD5" using False by auto
        from 1(3) plain_reports [OF p] plain_raises [OF p] show ?thesis unfolding step by auto
      next
        case 2
        with e ends show ?thesis unfolding step by auto
      next
        case 3
        with e(2) ends show ?thesis unfolding step by auto
      next
        case 4
        then have "link_ok env (sw_policy ?t) (sw_currentMethod ?t) (Some ?m)" "challenged env (au_nrand ?t) ?m"
          by (auto simp: link_ok_def challenged_def)
        with 4 t show ?thesis unfolding step by (auto intro: method_rests)
      qed
    qed
  qed
qed

subsection \<open>Runs\<close>

interpretation auth_safe: eap_steps_keep "auth_sstep env" "auth_mstep env"
  "\<lambda>s. guarded p \<and> find_creator (ae_methods env) (EapType 4) Authenticator = Some AuthMD5 \<and> auth_safe env p tr s"
  for env p tr
  by unfold_locales (auto intro: sstep_safe mstep_safe)

text \<open>Between two calls of \<open>Serve\<close> nothing is raised.\<close>

definition run_safe :: "auth_env \<Rightarrow> policy \<Rightarrow> mblk list \<Rightarrow> eap_auth \<Rightarrow> bool" where
  "run_safe env p tr s \<longleftrightarrow> auth_safe env p tr s \<and> at_rest s"

lemma notify_safe:
  assumes "run_safe env p tr s" "ev \<in> queued" "\<not> reports ev"
  shows "run_safe env p tr (sw_Notify ev s)"
proof (cases "sw_health s = Alive")
  case False
  with assms show ?thesis by (simp add: run_safe_def auth_safe_def at_rest_def sw_Notify_def)
next
  case True
  with assms(1) have k: "kept env p tr s" "sw_raised s = None" by (auto simp: run_safe_def auth_safe_def at_rest_def)
  have "reported (sw_events s @ [ev]) None = reported (sw_events s) None"
    using assms(3) by (simp add: reported_def)
  with k assms(2) have "kept env p tr (sw_Notify ev s)"
    by (simp add: kept_def sw_Notify_def frame_ok_def token_ok_def chal_ok_def)
  with assms(1) k show ?thesis by (simp add: run_safe_def auth_safe_def at_rest_def sw_Notify_def)
qed

lemma auth_safe_more:
  assumes "auth_safe env p tr s"
  shows "auth_safe env p (b # tr) (s\<lparr>sw_rxQueue := sw_rxQueue s @ [b]\<rparr>)"
proof -
  have "kept env p (b # tr) (s\<lparr>sw_rxQueue := sw_rxQueue s @ [b]\<rparr>)" if "kept env p tr s"
  proof -
    note k = that [unfolded kept_def]
    have "rx_ok (b # tr) st r om i t rx" if "rx_ok tr st r om i t rx" for st r om i t rx
      using that unfolding rx_ok_def rx_checked_def by auto
    moreover have "sure_ok env (b # tr) r t n om" if "sure_ok env tr r t n om" for r t n om
      using that proved_more(1) unfolding sure_ok_def by blast
    moreover have "frame_ok p (b # tr) ru pol inner (q @ [b]) ti evs" if "frame_ok p tr ru pol inner q ti evs" for ru pol inner q ti evs
      using that unfolding frame_ok_def by auto
    ultimately show ?thesis using k unfolding kept_def by simp
  qed
  with assms proved_more(1) show ?thesis by (simp add: auth_safe_def)
qed

lemma taken_parts:
  "token_ok st es (Some (RSwitch ev)) om = token_ok st (ev # es) None om"
  "init_ok st (Some (RSwitch ev)) om = init_ok st None om"
  "chal_ok env st es (Some (RSwitch ev)) n om = chal_ok env st (ev # es) None n om"
  "ev \<noteq> EvRxMethodResp \<Longrightarrow> rx_ok tr st (Some (RSwitch ev)) om i t rx = rx_ok tr st None om i t rx"
  "sure_ok env tr (Some (RSwitch ev)) t n om = sure_ok env tr None t n om"
proof -
  have r: "reported es (Some (RSwitch ev)) = reported (ev # es) None" "asked (Some (RSwitch ev)) om = asked None om"
    "checks (Some (RSwitch ev)) om = checks None om"
    by (simp_all add: reported_def asked_def checks_def)
  show "token_ok st es (Some (RSwitch ev)) om = token_ok st (ev # es) None om" by (simp only: token_ok_def r)
  show "init_ok st (Some (RSwitch ev)) om = init_ok st None om" by (simp only: init_ok_def r)
  show "chal_ok env st es (Some (RSwitch ev)) n om = chal_ok env st (ev # es) None n om" by (simp only: chal_ok_def r)
  show "ev \<noteq> EvRxMethodResp \<Longrightarrow> rx_ok tr st (Some (RSwitch ev)) om i t rx = rx_ok tr st None om i t rx"
    by (simp add: rx_ok_def r)
  show "sure_ok env tr (Some (RSwitch ev)) t n om = sure_ok env tr None t n om" by (simp add: sure_ok_def)
qed

lemma serve_safe:
  assumes "run_safe env p tr s" "guarded p" "find_creator (ae_methods env) (EapType 4) Authenticator = Some AuthMD5"
    "ready s"
  shows "run_safe env p tr (auth_Serve env s)"
proof (cases "sw_health s = Alive")
  case False
  with assms(1,4) show ?thesis by (cases "sw_health s") (simp_all add: auth_Serve_def ready_def)
next
  case True
  with assms(1) have a: "auth_safe env p tr s" and k: "kept env p tr s" and r: "sw_raised s = None"
    by (auto simp: run_safe_def auth_safe_def at_rest_def)
  have st: "fsm_state s \<noteq> StNak" "fsm_state s \<noteq> StSelectAction" using k r by (auto simp: kept_def raise_ok_def)
  have inner: "sw_inner s = None" using k by (simp add: kept_def frame_ok_def)
  have mux: "auth_safe env p tr (s\<lparr>sw_mux := q\<rparr>)" for q
    using a by (simp add: auth_safe_def kept_def)
  have "auth_safe env p tr (serve_next s)"
  proof (cases "sw_mux s")
    case Nil
    with a show ?thesis by (simp add: serve_next_def)
  next
    case (Cons j q)
    show ?thesis
    proof (cases j)
      case JobSwitch
      show ?thesis
      proof (cases "sw_events s")
        case Nil
        with Cons JobSwitch mux show ?thesis by (simp add: serve_next_def)
      next
        case E: (Cons ev es)
        have q: "ev \<in> queued" using k E by (simp add: kept_def frame_ok_def)
        note k' = k [unfolded kept_def r E]
        have "raise_ok (fsm_state s) (Some (RSwitch ev)) (po_current (sw_policy s))" "ev \<noteq> EvRxMethodResp"
          using k' st q by (auto simp: raise_ok_def queued_def)
        moreover have "frame_ok p tr (fsm_running s) (sw_policy s) (sw_inner s) (sw_rxQueue s) (fsm_timers s) es"
          using k' by (simp add: frame_ok_def)
        ultimately have "kept env p tr (sw_Event ev (s\<lparr>sw_mux := q, sw_events := es\<rparr>))"
          using k' by (simp add: kept_def sw_Event_def taken_parts)
        with a have "auth_safe env p tr (sw_Event ev (s\<lparr>sw_mux := q, sw_events := es\<rparr>))"
          by (simp add: auth_safe_def sw_Event_def)
        with Cons JobSwitch E show ?thesis by (simp add: serve_next_def)
      qed
    next
      case (JobMethod i)
      show ?thesis
      proof (cases "slot_of i s")
        case None
        with Cons JobMethod a show ?thesis by (simp add: serve_next_def crash_def auth_safe_def)
      next
        case (Some sl)
        then obtain m where m: "sw_method s = Some m" and sl: "sl = OuterMethod"
          using inner by (auto simp: slot_of_def split: if_splits)
        show ?thesis
        proof (cases "em_events m")
          case Nil
          with Cons JobMethod Some m sl mux show ?thesis by (simp add: serve_next_def with_method_def method_at_def)
        next
          case E: (Cons me es)
          note k' = k [unfolded kept_def r m]
          let ?m = "m\<lparr>em_events := es\<rparr>" and ?r = "Some (RMethod OuterMethod me)"
          have "token_ok (fsm_state s) (sw_events s) None (Some m)" "base_ok (Some m)" using k' by simp_all
          with E have e: "es = []" "me = EvSgIntegrityCheck" "fsm_running m"
            by (auto simp: token_ok_def asked_def m_events_def base_ok_def split: if_splits)
          have c: "checks ?r (Some ?m)" "checks None (Some m)" using E e by (simp_all add: checks_def m_events_def)
          have "reported (sw_events s) ?r = reported (sw_events s) None" "asked ?r (Some ?m) = asked None (Some m)"
            using E e by (simp_all add: reported_def asked_def m_events_def)
          moreover have "raise_ok (fsm_state s) ?r (po_current (sw_policy s))"
            using k' st by (simp add: raise_ok_def)
          ultimately have "kept env p tr (m_Event OuterMethod me (s\<lparr>sw_mux := q, sw_method := Some ?m\<rparr>))"
            using k' e c
            by (simp add: kept_def m_Event_def token_ok_def rx_ok_def base_ok_def link_ok_def init_ok_def chal_ok_def
                sure_ok_def)
          with a have "auth_safe env p tr (m_Event OuterMethod me (s\<lparr>sw_mux := q, sw_method := Some ?m\<rparr>))"
            by (simp add: auth_safe_def m_Event_def)
          with Cons JobMethod Some sl m E show ?thesis
            by (simp add: serve_next_def with_method_def method_at_def put_method_def)
        qed
      qed
    qed
  qed
  then have "auth_safe env p tr (auth_settle env (serve_next s))"
    using auth_safe.settle_keeps [of p env tr "serve_next s"] assms(2,3) by (simp add: auth_settle_def)
  with True show ?thesis by (simp add: auth_Serve_def run_safe_def auth_settle_rests)
qed

lemma start_safe:
  assumes "guarded p"
  shows "run_safe env p [] (auth_Start (new_auth StandAlone p ms))"
proof -
  have "auth_Start (new_auth StandAlone p ms) =
      (new_auth StandAlone (p\<lparr>po_current := po_initial p\<rparr>) ms)\<lparr>fsm_running := True,
        sw_events := [EvSgRestart], sw_mux := [JobSwitch]\<rparr>"
    by (simp add: auth_Start_def new_auth_def DeleteMethodStateMachine_def fsm_Start_def sw_Notify_def Let_def)
  with assms show ?thesis
    by (simp add: run_safe_def auth_safe_def won_def guarded_def kept_def safe_defs timers_ok_def queued_def new_auth_def
        at_rest_def asked_def reported_def m_events_def waits_for_method_def)
qed

lemma run_is_safe:
  assumes "auth_run env (new_auth StandAlone p ms) tr s" "guarded p"
    "find_creator (ae_methods env) (EapType 4) Authenticator = Some AuthMD5"
  shows "run_safe env p tr s"
  using assms(1)
proof induction
  case run_start
  show ?case using start_safe [OF assms(2)] .
next
  case (run_start_with msg)
  then show ?case by (simp add: new_auth_def)
next
  case (run_receive tr s b)
  have "run_safe env p (b # tr) (s\<lparr>sw_rxQueue := sw_rxQueue s @ [b]\<rparr>)"
    using run_receive.IH auth_safe_more [of env p tr s b] by (simp add: run_safe_def at_rest_def)
  then show ?case by (simp add: auth_Receive_def sw_Receive_def notify_safe queued_def)
next
  case (run_timeout tr s ty)
  show ?case
  proof (cases "fsm_timers s ty")
    case None
    with run_timeout.IH show ?thesis by (simp add: auth_Timeout_def sw_Timeout_def)
  next
    case (Some e)
    show ?thesis
    proof (cases "sw_health s = Alive")
      case True
      with run_timeout.IH Some have "fst e = EvTo"
        by (auto simp: run_safe_def auth_safe_def kept_def frame_ok_def timers_ok_def)
      with Some run_timeout.IH show ?thesis
        by (cases e) (simp add: auth_Timeout_def sw_Timeout_def notify_safe queued_def)
    next
      case False
      with run_timeout.IH Some show ?thesis
        by (cases e) (simp add: auth_Timeout_def sw_Timeout_def sw_Notify_def run_safe_def auth_safe_def at_rest_def)
    qed
  qed
next
  case (run_serve tr s)
  moreover have "ready s" using run_ready [OF run_serve.hyps] by simp
  ultimately show ?case using serve_safe assms(2,3) by blast
qed

end
