(* ===== verification/Eap_Props.thy ===== *)
theory Eap_Props
  imports Eap_Answer Eap_Auth_Inv
begin

text \<open>
  Properties of the EAP library that hold whole runs of an authenticator and of a peer together, and of the two
  over one conversation.
\<close>

subsection \<open>Conversations\<close>

text \<open>What an authenticator or a peer sent last, as the other side receives it.\<close>

fun packet_of :: "eap_out \<Rightarrow> byte list" where
  "packet_of (OutSend bs) = bs"
| "packet_of (OutSuccessMsg bs) = bs"
| "packet_of (OutFailureMsg bs) = bs"
| "packet_of _ = []"

definition last_sent :: "('s, 'e, 'me, 'mm, 'z) eap_switch_scheme \<Rightarrow> mblk" where
  "last_sent s = mb_of (packet_of (last (sw_out s)))"

text \<open>A conversation of one challenge: what the authenticator and the peer are like after it.\<close>

definition md5_conversation :: "auth_env \<Rightarrow> peer_env \<Rightarrow> eap_auth \<Rightarrow> eap_peer \<Rightarrow> eap_auth \<times> eap_peer" where
  "md5_conversation aenv penv a p =
     (let a1 = (auth_Serve aenv ^^ 4) (auth_Start a);
          p1 = peer_Serve_next penv (ep_Start p);
          p2 = (peer_Serve_next penv ^^ 3) (ep_Receive (last_sent a1) p1);
          a2 = (auth_Serve aenv ^^ 3) (auth_Receive (last_sent p2) a1);
          p3 = peer_Serve_next penv (ep_Receive (last_sent a2) p2)
      in (a2, p3))"

text \<open>Two parties that are set up for MD5-Challenge.\<close>

definition md5_parties :: "auth_env \<Rightarrow> peer_env \<Rightarrow> policy \<Rightarrow> policy \<Rightarrow> byte list \<Rightarrow> bool" where
  "md5_parties aenv penv ap pp chal \<longleftrightarrow>
     md5_policy ap \<and>
     (case po_initial ap of
        PElem i \<Rightarrow> pe_onSuccess (po_elems ap i) = PSucc \<and> pe_onFailure (po_elems ap i) = PFail
      | _ \<Rightarrow> False) \<and>
     md5_policy pp \<and>
     find_creator (ae_methods aenv) (EapType 4) Authenticator = Some AuthMD5 \<and>
     find_creator (pe_methods penv) (EapType 4) Peer = Some PeerMD5 \<and>
     ae_random aenv 0 = Some chal \<and> length chal = 16 \<and> length (ae_myName aenv) < 2 ^ 15 \<and>
     pe_passphrase penv \<noteq> [] \<and> length (pe_myName penv) < 2 ^ 15 \<and>
     length (pe_MD5 penv (md5_raw 1 (pe_passphrase penv) chal)) = 16"

lemma md5_conversation_verdict:
  assumes w: "md5_parties aenv penv ap pp chal"
  shows "let (a, p) = md5_conversation aenv penv (new_auth StandAlone ap ms) (new_eap_peer pp ty i0 d0 m0);
             pass = ae_passphrase aenv (pe_myName penv);
             ok = (pass \<noteq> [] \<and> ae_MD5 aenv (md5_raw 1 pass chal) = pe_MD5 penv (md5_raw 1 (pe_passphrase penv) chal))
         in sw_out a = [OutSend (packet 1 1 4 (md5_body \<lparr>md_value = chal, md_name = ae_myName aenv\<rparr>)),
                        if ok then OutSuccessMsg [3, 1, 0, 4] else OutFailureMsg [4, 1, 0, 4]] \<and>
            (\<exists>p2. listens p2 \<and> ep_decision p2 = UNCOND_SUCC \<and> sw_keyData p2 = [] \<and>
                  p = peer_Serve_next penv (ep_Receive (mb_of [if ok then 3 else 4, 1, 0, 4]) p2))"
proof -
  have ap: "md5_policy ap" and pp: "md5_policy pp"
    and cr: "find_creator (ae_methods aenv) (EapType 4) Authenticator = Some AuthMD5"
      "find_creator (pe_methods penv) (EapType 4) Peer = Some PeerMD5"
    and ch: "ae_random aenv 0 = Some chal" "length chal = 16" "length (ae_myName aenv) < 2 ^ 15"
    and pe: "pe_passphrase penv \<noteq> []" "length (pe_myName penv) < 2 ^ 15"
      "length (pe_MD5 penv (md5_raw 1 (pe_passphrase penv) chal)) = 16"
    using w by (simp_all add: md5_parties_def)
  obtain i where i: "po_initial ap = PElem i" "pe_onSuccess (po_elems ap i) = PSucc" "pe_onFailure (po_elems ap i) = PFail"
      "pe_method (po_elems ap i) = EapType 4"
    using w ap by (auto simp: md5_parties_def md5_policy_def split: peref.splits)
  obtain j where j: "po_initial pp = PElem j" "pe_method (po_elems pp j) = EapType 4" "po_inner pp = EapType 0"
    using pp by (auto simp: md5_policy_def)
  let ?a1 = "(auth_Serve aenv ^^ 4) (auth_Start (new_auth StandAlone ap ms))"
  let ?c = "\<lparr>md_value = chal, md_name = ae_myName aenv\<rparr>"
  obtain m where a1: "awaits aenv chal m ?a1" "sw_id ?a1 = 1" "po_current (sw_policy ?a1) = PElem i"
      "po_elems (sw_policy ?a1) = po_elems ap" "sw_out ?a1 = [OutSend (packet 1 1 4 (md5_body ?c))]"
    using auth_asks [OF ap cr(1) ch] i(1) by (auto simp: Let_def)
  let ?p1 = "peer_Serve_next penv (ep_Start (new_eap_peer pp ty i0 d0 m0))"
  have p1: "listens ?p1" "sw_currentMethod ?p1 = EapType 0" "sw_method ?p1 = None" "fresh_id 1 ?p1"
      "sw_policy ?p1 = pp\<lparr>po_current := PElem j\<rparr>" "sw_keyData ?p1 = []"
    using peer_starts [of penv pp ty i0 d0 m0] j(1) by (simp_all add: Let_def fresh_id_def)
  have allow: "Allow (EapType 4) (sw_policy ?p1)" "po_inner (sw_policy ?p1) = EapType 0"
    using p1(5) j by (simp_all add: Allow_def)
  have c: "md5_ok ?c" "length (md5_body ?c) + 5 < 2 ^ 16"
    using ch by (simp_all add: md5_ok_def md5_body_def)
  let ?p2 = "(peer_Serve_next penv ^^ 3) (ep_Receive (mb_of (packet 1 1 4 (md5_body ?c))) ?p1)"
  let ?r = "\<lparr>md_value = pe_MD5 penv (md5_raw 1 (pe_passphrase penv) chal), md_name = pe_myName penv\<rparr>"
  have p2: "listens ?p2" "sw_out ?p2 = sw_out ?p1 @ [OutSend (packet 2 1 4 (md5_body ?r))]" "ep_decision ?p2 = UNCOND_SUCC"
      "sw_keyData ?p2 = []"
    using peer_answers [OF p1(1-4) allow cr(2) pe(1) _ pe(2) c] pe(3) p1(6) by (simp_all add: Let_def)
  have r: "md5_ok ?r" "length (md5_body ?r) + 5 < 2 ^ 16"
    using pe by (simp_all add: md5_ok_def md5_body_def)
  let ?a2 = "(auth_Serve aenv ^^ 3) (auth_Receive (mb_of (packet 2 1 4 (md5_body ?r))) ?a1)"
  let ?pass = "ae_passphrase aenv (pe_myName penv)"
  let ?ok = "?pass \<noteq> [] \<and> ae_MD5 aenv (md5_raw 1 ?pass chal) = pe_MD5 penv (md5_raw 1 (pe_passphrase penv) chal)"
  have a2: "sw_out ?a2 = sw_out ?a1 @ [if ?ok then OutSuccessMsg [3, 1, 0, 4] else OutFailureMsg [4, 1, 0, 4]]"
    using auth_judges [OF a1(1) a1(3), of False, OF _ _ _ r] a1(2,4) i by (simp add: Let_def final_bytes)
  let ?p3 = "peer_Serve_next penv (ep_Receive (mb_of [if ?ok then 3 else 4, 1, 0, 4]) ?p2)"
  have conv: "md5_conversation aenv penv (new_auth StandAlone ap ms) (new_eap_peer pp ty i0 d0 m0) = (?a2, ?p3)"
  proof -
    have "last_sent ?a1 = mb_of (packet 1 1 4 (md5_body ?c))" "last_sent ?p2 = mb_of (packet 2 1 4 (md5_body ?r))"
      using a1(5) p2(2) by (simp_all add: last_sent_def)
    moreover have "last_sent ?a2 = mb_of [if ?ok then 3 else 4, 1, 0, 4]"
      using a2 by (auto simp: last_sent_def)
    ultimately show ?thesis unfolding md5_conversation_def Let_def by presburger
  qed
  show ?thesis
    unfolding conv Let_def prod.case using a1(5) a2 p2 by (intro conjI exI [of _ ?p2]) simp_all
qed

text \<open>The authenticator's side of it is a run in which one message comes in.\<close>

lemma run_serves: "auth_run env s0 tr s \<Longrightarrow> auth_run env s0 tr ((auth_Serve env ^^ n) s)"
  by (induction n) (auto intro: auth_run.intros)

lemma conversation_run: "\<exists>b. auth_run aenv a [b] (fst (md5_conversation aenv penv a p))"
  unfolding md5_conversation_def Let_def fst_conv
  by (rule exI, rule run_serves, rule run_receive, rule run_serves, rule run_start)

subsection \<open>A Nak that says nothing\<close>

lemma nak_block:
  "Nak_toRaw (Some LegacyNak) [t] (mb_Acquire 5) = \<lparr>mb_mem = [0, 0, 0, 0, 3], mb_rd = 0, mb_wr = 5\<rparr>"
proof -
  have "replicate 5 (0 :: byte) = [0, 0, 0, 0, 0]" by code_simp
  then show ?thesis
    by (simp add: Nak_toRaw_def Request_legacy mb_Acquire_def mb_copy_def overwrite_def Let_def)
qed

lemma peer_naks:
  assumes "listens s" "sw_currentMethod s = EapType 0" "fresh_id i s" "t \<notin> {1, 2, 254}"
    and "po_current (sw_policy s) = PElem e" "pe_method (po_elems (sw_policy s) e) \<noteq> EapType t"
      "\<not> IsVSE (pe_method (po_elems (sw_policy s) e))" "length body + 5 < 2 ^ 16"
  shows "sw_out (peer_Serve_next env (ep_Receive (mb_of (packet 1 i t body)) s)) = sw_out s @ [OutSend [2, i, 0, 5, 3]]"
proof -
  let ?rx = "\<lambda>r. \<lparr>mb_mem = packet 1 i t body, mb_rd = r, mb_wr = 5 + length body\<rparr>"
  have req: "Request_toApp (?rx 4) = Parsed (EapType t, ?rx 5)"
    using Request_of_packet [where t = t and b = "?rx 4" and code = 1 and i = i and body = body] assms(4) by simp
  note hdr = Header_of_packet [OF assms(8), of 1 i t]
  have l: "MakeTypeList (IsVSE (EapType 0)) (sw_policy s) = [pe_method (po_elems (sw_policy s) e)]"
    using MakeTypeList_elem [OF assms(5)] assms(7) by (simp add: Let_def)
  have p: "compose_pdu 2 i \<lparr>mb_mem = [0, 0, 0, 0, 3], mb_rd = 0, mb_wr = 5\<rparr> =
      Parsed \<lparr>mb_mem = [2, i, 0, 5, 3], mb_rd = 0, mb_wr = 5\<rparr>"
  proof -
    have "packet 2 i 3 [] = [2, i, 0, 5, 3]" by (simp add: packet_def Let_def hi8_def lo8_def) code_simp?
    then show ?thesis using compose_typed [of "[]" 2 i 3] by simp
  qed
  show ?thesis
    using assms(1-7) hdr req nak_block l p
    by (cases s) (auto simp: listens_def peer_eval Let_def fresh_id_def Allow_def ep_BuildNak_def list_IsVSE_def mb_bytes_def)
qed

subsection \<open>A decision that is kept\<close>

lemma restart_keeps_decision:
  assumes "listens s"
  shows "let s' = peer_Serve_next env (ep_Start s)
         in listens s' \<and> ep_decision s' = ep_decision s \<and> sw_out s' = sw_out s \<and> sw_policy s' = (sw_policy s)\<lparr>po_current := po_initial (sw_policy s)\<rparr>"
  using assms
  by (cases s; cases "sw_method s") (simp_all add: ep_Start_def listens_def peer_eval Let_def)

subsection \<open>Transmissions of a request\<close>

text \<open>The retransmission timer fires, and the jobs that follow are served.\<close>

definition timer_fires :: "auth_env \<Rightarrow> eap_auth \<Rightarrow> eap_auth" where
  "timer_fires env s = (auth_Serve env ^^ 2) (auth_Timeout 0 s)"

definition request_sent :: "byte list \<Rightarrow> eap_auth \<Rightarrow> bool" where
  "request_sent pk s \<longleftrightarrow>
     fsm_state s = StIdle \<and> fsm_running s \<and> sw_health s = Alive \<and> sw_raised s = None \<and>
     sw_events s = [] \<and> sw_mux s = [] \<and> map_option fst (fsm_timers s 0) = Some EvTo \<and>
     map_option mb_bytes (sw_tx s) = Some pk"

text \<open>An authenticator that has built a request. The event with which the action that builds it ends leads to the action that
  sends it, and the event which that one leaves in the queue to the state that waits.\<close>

definition request_built :: "byte list \<Rightarrow> eap_auth \<Rightarrow> bool" where
  "request_built pk s \<longleftrightarrow>
     fsm_state s = StMethodRequest \<and> fsm_running s \<and> sw_health s = Alive \<and> sw_events s = [] \<and> sw_mux s = [] \<and>
     map_option mb_bytes (sw_tx s) = Some pk"

definition send_request :: "auth_env \<Rightarrow> eap_auth \<Rightarrow> eap_auth" where
  "send_request env s = auth_Serve env (auth_settle env (sw_Event EvUCT s))"

lemma auth_lookup:
  "FindStateTableEntry (auth_table k) StMethodRequest EvUCT = Some (FsmEntry StMethodRequest (Some EvUCT) StSendRequest AcSendRequest)"
  "FindStateTableEntry (auth_table k) StSendRequest EvUCT = Some (FsmEntry StSendRequest (Some EvUCT) StIdle AcNull)"
  "FindStateTableEntry (auth_table k) StIdle EvTo = Some (FsmEntry StIdle (Some EvTo) StRetransmit AcRetransmit)"
  "FindStateTableEntry (auth_table k) StRetransmit EvElse = Some (FsmEntry StRetransmit (Some EvElse) StIdle AcNull)"
  "FindStateTableEntry (auth_table k) StRetransmit EvSgMaxRetransmission =
     Some (FsmEntry StRetransmit (Some EvSgMaxRetransmission) StTimeoutFailure AcNull)"
  by (cases k;
      simp add: auth_table_cmds FindStateTableEntry_def standalone_cmds_def backend_cmds_def passthrough_cmds_def)+

lemmas timer_eval = eap_run auth_lookup au_SendRequest_def au_Retransmit_def reset_retransmission_def CancelTimer_def
  ScheduleTimer_def with_tx_def

lemma request_goes:
  assumes "request_built pk s" "au_retransmissionInterval s \<noteq> 0"
  shows "let s' = send_request env s
         in request_sent pk s' \<and> sw_out s' = sw_out s @ [OutSend pk] \<and> au_retransmissionCount s' = 1 \<and>
            au_maxRetransmissionCount s' = au_maxRetransmissionCount s"
proof -
  obtain b where b: "sw_tx s = Some b" "mb_bytes b = pk" using assms(1) by (auto simp: request_built_def)
  have 1: "auth_settle env (sw_Event EvUCT s) =
      s\<lparr>sw_raised := None, fsm_state := StSendRequest, sw_mux := [JobSwitch], sw_events := [EvUCT], au_retransmissionCount := 1,
        fsm_timers := (fsm_timers s)(0 \<mapsto> (EvTo, unat (au_retransmissionInterval s))), sw_out := sw_out s @ [OutSend pk]\<rparr>"
    using assms b by (cases s) (simp add: request_built_def timer_eval Let_def)
  show ?thesis
    using assms b unfolding send_request_def 1 by (simp add: request_built_def request_sent_def timer_eval Let_def)
qed

lemma timer_resends:
  assumes "request_sent pk s" "au_retransmissionCount s < au_maxRetransmissionCount s"
  shows "let s' = timer_fires env s
         in request_sent pk s' \<and> sw_out s' = sw_out s @ [OutSend pk] \<and>
            au_retransmissionCount s' = au_retransmissionCount s + 1 \<and>
            au_maxRetransmissionCount s' = au_maxRetransmissionCount s"
proof -
  obtain sec b where t: "fsm_timers s 0 = Some (EvTo, sec)" "sw_tx s = Some b" "mb_bytes b = pk"
    using assms(1) by (auto simp: request_sent_def)
  have 1: "auth_Serve env (auth_Timeout 0 s) =
      s\<lparr>fsm_state := StRetransmit, sw_mux := [JobSwitch], sw_events := [EvElse],
        au_retransmissionCount := au_retransmissionCount s + 1, sw_out := sw_out s @ [OutSend pk]\<rparr>"
    using assms t by (cases s) (simp add: request_sent_def timer_eval Let_def)
  show ?thesis
    using assms(1) t unfolding timer_fires_def funpow2 1
    by (simp add: request_sent_def timer_eval Let_def)
qed

text \<open>The application has given up: no timer, nothing to serve.\<close>

definition gave_up :: "eap_auth \<Rightarrow> bool" where
  "gave_up s \<longleftrightarrow>
     fsm_state s = StTimeoutFailure \<and> fsm_timers s 0 = None \<and> sw_mux s = [] \<and> sw_health s = Alive \<and> sw_raised s = None"

lemma timer_gives_up:
  assumes "request_sent pk s" "\<not> au_retransmissionCount s < au_maxRetransmissionCount s"
  shows "gave_up (timer_fires env s) \<and> sw_out (timer_fires env s) = sw_out s"
proof -
  obtain sec where t: "fsm_timers s 0 = Some (EvTo, sec)" using assms(1) by (auto simp: request_sent_def)
  have 1: "auth_Serve env (auth_Timeout 0 s) =
      s\<lparr>fsm_state := StTimeoutFailure, fsm_timers := (fsm_timers s)(0 := None)\<rparr>"
    using assms t by (cases s) (simp add: request_sent_def timer_eval Let_def)
  show ?thesis
    using assms(1) unfolding timer_fires_def funpow2 1
    by (simp add: request_sent_def gave_up_def timer_eval Let_def)
qed

lemma gave_up_stays: "gave_up s \<Longrightarrow> timer_fires env s = s"
  by (simp add: gave_up_def timer_fires_def funpow2 timer_eval)

lemma transmissions:
  "request_sent pk s \<Longrightarrow> unat (au_retransmissionCount s) + k \<le> unat (au_maxRetransmissionCount s) \<Longrightarrow>
     let s' = (timer_fires env ^^ k) s
     in request_sent pk s' \<and> sw_out s' = sw_out s @ replicate k (OutSend pk) \<and>
        unat (au_retransmissionCount s') = unat (au_retransmissionCount s) + k \<and>
        au_maxRetransmissionCount s' = au_maxRetransmissionCount s"
proof (induction k arbitrary: s)
  case 0
  then show ?case by (simp add: Let_def)
next
  case (Suc k)
  then have l: "au_retransmissionCount s < au_maxRetransmissionCount s" by (simp add: word_less_nat_alt)
  let ?s = "timer_fires env s"
  have s: "request_sent pk ?s" "sw_out ?s = sw_out s @ [OutSend pk]"
    "au_retransmissionCount ?s = au_retransmissionCount s + 1"
    "au_maxRetransmissionCount ?s = au_maxRetransmissionCount s"
    using timer_resends [OF Suc.prems(1) l, of env] by (simp_all add: Let_def)
  have n: "unat (au_retransmissionCount s + 1) = Suc (unat (au_retransmissionCount s))"
    using l by unat_arith
  then have "unat (au_retransmissionCount ?s) + k \<le> unat (au_maxRetransmissionCount ?s)" using s Suc.prems(2) by simp
  from Suc.IH [OF s(1) this] s(2-4) n show ?case
    by (simp add: funpow_Suc_right Let_def del: funpow.simps)
qed

lemma peer_keeps_listening:
  assumes "listens s" "ep_decision s = UNCOND_SUCC"
  shows "let s' = peer_Serve_next env (ep_Receive (mb_of [4, i, 0, 4]) s)
         in listens s' \<and> sw_out s' = sw_out s \<and> ep_decision s' = UNCOND_SUCC"
  using assms final_header [of 4 i]
  by (cases s) (simp add: final_bytes peer_eval Let_def listens_def)

lemma nak_read:
  "au_ResetMethod (s\<lparr>sw_rx := Some b\<rparr>) =
     sw_Event EvUCT (s\<lparr>sw_rx := None, sw_policy := Update PolicyOnFailure (sw_policy s)\<rparr>)"
  by (simp add: au_ResetMethod_def with_rx_def Nak_toApp_def Update_types_Nil)

subsection \<open>Two parties for the witnesses\<close>

text \<open>A function with values of 16 bytes in the place of MD5, and a generator that repeats itself.\<close>

definition sum16 :: "byte list \<Rightarrow> byte list" where
  "sum16 bs = take 16 (bs @ replicate 16 0)"

definition some_auth_env :: auth_env where
  "some_auth_env = \<lparr>ae_methods = [(EapType 4, Authenticator, AuthMD5)], ae_MD5 = sum16,
     ae_random = (\<lambda>n. Some (replicate 16 7)), ae_passphrase = (\<lambda>who. [1, 2, 3]), ae_identity_ok = (\<lambda>who. True),
     ae_myName = [65]\<rparr>"

definition some_peer_env :: peer_env where
  "some_peer_env = \<lparr>pe_methods = [(EapType 4, Peer, PeerMD5)], pe_MD5 = sum16, pe_passphrase = [1, 2, 3],
     pe_myName = [66], pe_identity_now = None\<rparr>"

definition some_policy :: policy where
  "some_policy = \<lparr>po_elems = (\<lambda>i. new_pe (EapType 4)), po_initial = PElem 0, po_current = PNull, po_inner = EapType 0\<rparr>"

lemmas some_defs = some_auth_env_def some_peer_env_def some_policy_def new_pe_def

lemma some_parties: "md5_parties some_auth_env some_peer_env some_policy some_policy (replicate 16 7)"
  by (simp add: md5_parties_def md5_policy_def some_defs sum16_def)

lemma some_peer_listens:
  "listens (peer_Serve_next some_peer_env (ep_Start (new_eap_peer some_policy 1 0 d0 MNone)))"
  using peer_starts [of some_peer_env some_policy 1 0 d0 MNone] by (simp add: Let_def)

subsection \<open>Properties\<close>

text \<open>C3: When the policy of a stand-alone authenticator is satisfied by the success of MD5-Challenge only, whatever
  messages come in and whatever timers fire, it sends a Success only after a message has been received that is a response
  of type MD5-Challenge to one of the challenges that this session drew: its value is MD5 of its identifier, the
  passphrase that the application gives for the name in it, and the challenge.\<close>

theorem success_answers_challenge:
  assumes "auth_run env (new_auth StandAlone p ms) tr s" "guarded p"
    and "find_creator (ae_methods env) (EapType 4) Authenticator = Some AuthMD5"
    and "OutSuccessMsg pk \<in> set (sw_out s)"
  shows "\<exists>b \<in> set tr. \<exists>k < au_nrand s. \<exists>chal. ae_random env k = Some chal \<and> right_response env chal b"
  using run_is_safe [OF assms(1-3)] assms(4) by (auto simp: run_safe_def auth_safe_def won_def proved_def)

theorem success_answers_challenge_witness:
  "\<exists>b s. auth_run some_auth_env (new_auth StandAlone some_policy END) [b] s \<and> OutSuccessMsg [3, 1, 0, 4] \<in> set (sw_out s) \<and>
     right_response some_auth_env (replicate 16 7) b"
proof -
  let ?a = "fst (md5_conversation some_auth_env some_peer_env (new_auth StandAlone some_policy END)
      (new_eap_peer some_policy 1 0 FAIL MNone))"
  obtain b where b: "auth_run some_auth_env (new_auth StandAlone some_policy END) [b] ?a"
    using conversation_run by blast
  have o: "OutSuccessMsg [3, 1, 0, 4] \<in> set (sw_out ?a)"
    using md5_conversation_verdict [OF some_parties, of END 1 0 FAIL MNone]
    by (auto simp: Let_def some_defs split: prod.splits)
  have "guarded some_policy" by (simp add: guarded_def some_defs)
  from success_answers_challenge [OF b this _ o] have "right_response some_auth_env (replicate 16 7) b"
    by (auto simp: some_defs)
  with b o show ?thesis by blast
qed

text \<open>C7: A stand-alone authenticator and a peer that are set up for MD5-Challenge, over a network that delivers what is
  sent. The authenticator ends with a Success exactly when its MD5 of the identifier, the passphrase for the peer's name
  and the challenge is what the peer computed with its own passphrase, and with a Failure otherwise. After the Success
  the peer has succeeded; the Failure it drops and goes on listening.\<close>

theorem md5_exchange:
  assumes "md5_parties aenv penv ap pp chal"
  shows "let (a, p) = md5_conversation aenv penv (new_auth StandAlone ap ms) (new_eap_peer pp ty i0 d0 m0);
             pass = ae_passphrase aenv (pe_myName penv);
             ok = (pass \<noteq> [] \<and> ae_MD5 aenv (md5_raw 1 pass chal) = pe_MD5 penv (md5_raw 1 (pe_passphrase penv) chal))
         in sw_out a = [OutSend (packet 1 1 4 (md5_body \<lparr>md_value = chal, md_name = ae_myName aenv\<rparr>)),
                        if ok then OutSuccessMsg [3, 1, 0, 4] else OutFailureMsg [4, 1, 0, 4]] \<and>
            (if ok then last (sw_out p) = OutSuccess \<and> fsm_state p = EpSuccess else listens p)"
proof -
  obtain a p where ap: "md5_conversation aenv penv (new_auth StandAlone ap ms) (new_eap_peer pp ty i0 d0 m0) = (a, p)"
    by fastforce
  let ?pass = "ae_passphrase aenv (pe_myName penv)"
  let ?ok = "?pass \<noteq> [] \<and> ae_MD5 aenv (md5_raw 1 ?pass chal) = pe_MD5 penv (md5_raw 1 (pe_passphrase penv) chal)"
  obtain p2 where p2: "listens p2" "ep_decision p2 = UNCOND_SUCC"
      "p = peer_Serve_next penv (ep_Receive (mb_of [if ?ok then 3 else 4, 1, 0, 4]) p2)"
    and a: "sw_out a = [OutSend (packet 1 1 4 (md5_body \<lparr>md_value = chal, md_name = ae_myName aenv\<rparr>)),
        if ?ok then OutSuccessMsg [3, 1, 0, 4] else OutFailureMsg [4, 1, 0, 4]]"
    using md5_conversation_verdict [OF assms, of ms ty i0 d0 m0] ap by (auto simp: Let_def)
  have "?ok \<Longrightarrow> last (sw_out p) = OutSuccess \<and> fsm_state p = EpSuccess"
    using peer_concludes [OF p2(1), of penv 1] p2 by (simp add: Let_def final_bytes)
  moreover have "\<not> ?ok \<Longrightarrow> listens p"
    using peer_keeps_listening [OF p2(1,2), of penv 1] p2(3) by (simp only: Let_def if_False)
  ultimately show ?thesis using a ap by (simp add: Let_def)
qed

theorem md5_exchange_witness:
  "last (sw_out (snd (md5_conversation some_auth_env some_peer_env (new_auth StandAlone some_policy END)
     (new_eap_peer some_policy 1 0 FAIL MNone)))) = OutSuccess"
  using md5_exchange [OF some_parties, of END 1 0 FAIL MNone]
  by (simp add: Let_def some_defs split: prod.splits)

text \<open>C9: every call of \<open>Event\<close> that is made for a stand-alone or a backend authenticator comes back. In every run, whatever
  messages come in, whatever timers fire and whatever jobs are served in between, the thread that serves it does not sleep
  in its queue of messages and does not walk its policy for ever, and after each of these steps no event of the chain is
  left to be dealt with; the one exception is an action that uses memory or a pointer it may not, which crashes.\<close>

theorem eap_events_end:
  assumes "auth_run env (new_auth k p ms) tr s" "k \<noteq> PassThrough"
  shows "sw_health s = Crashed \<or> sw_health s = Alive \<and> sw_raised s = None"
  using run_ready [OF assms] by (cases "sw_health s") (auto simp: ready_def at_rest_def)

theorem eap_events_end_witness:
  "let s = auth_Serve some_auth_env (auth_Start (new_auth StandAlone some_policy END))
   in sw_health s = Alive \<and> sw_raised s = None \<and> fsm_state s = StProposeMethod"
proof -
  let ?s = "auth_Serve some_auth_env (auth_Start (new_auth StandAlone some_policy END))"
  have "sw_health ?s \<noteq> Crashed \<and> fsm_state ?s = StProposeMethod"
    by (simp add: some_defs auth_Start_def new_auth_def auth_eval Let_def)
  moreover have "auth_run some_auth_env (new_auth StandAlone some_policy END) [] ?s"
    by (intro run_serve run_start)
  ultimately show ?thesis using eap_events_end [of some_auth_env StandAlone some_policy END "[]" ?s] by (simp add: Let_def)
qed

text \<open>C24: An MD5-Challenge packet that is built, with any code and identifier, and received by the other side is read back:
  the header, the type, and the value and the name as they were, up to the last byte.\<close>

theorem md5_packet_roundtrip:
  assumes "md5_ok c" "length (md_value c) + length (md_name c) + 6 < 2 ^ 16"
  shows "\<exists>b pk h b1 b2 b3.
     MD5_toRaw c (mb_Acquire (6 + length (md_value c) + length (md_name c))) = Parsed b \<and>
     compose_pdu code i b = Parsed pk \<and>
     Header_toApp (mb_of (mb_bytes pk)) = Parsed (h, b1) \<and>
     eh_code h = code \<and> eh_identifier h = i \<and> unat (eh_length h) = length (mb_bytes pk) \<and>
     Request_toApp b1 = Parsed (EapType 4, b2) \<and>
     MD5_toApp b2 = Parsed (c, b3) \<and> mb_rd b3 = length (mb_bytes pk)"
proof -
  let ?body = "md5_body c"
  have l: "length ?body + 5 < 2 ^ 16" using assms(2) by (simp add: md5_body_def)
  have req: "Request_toApp \<lparr>mb_mem = packet code i 4 ?body, mb_rd = 4, mb_wr = 5 + length ?body\<rparr> =
      Parsed (EapType 4, \<lparr>mb_mem = packet code i 4 ?body, mb_rd = 5, mb_wr = 5 + length ?body\<rparr>)"
    using Request_of_packet [where t = 4 and b = "\<lparr>mb_mem = [], mb_rd = 4, mb_wr = 5 + length ?body\<rparr>"
        and code = code and i = i and body = ?body] by simp
  have n: "unat (of_nat (5 + length ?body) :: u16) = 5 + length ?body"
    using l by (intro unat16) simp
  show ?thesis
    using md5_written [OF assms(1) refl] compose_typed [OF l, of code i 4] Header_of_packet [OF l, of code i 4] req n
      md5_of_packet [OF assms(1), of code i]
    by (simp add: mb_bytes_def)
qed

theorem md5_packet_roundtrip_witness:
  "\<exists>b. MD5_toRaw \<lparr>md_value = [1, 2, 3], md_name = [65]\<rparr> (mb_Acquire 10) = Parsed b"
  using md5_packet_roundtrip [of "\<lparr>md_value = [1, 2, 3], md_name = [65]\<rparr>"] by (auto simp: md5_ok_def)

text \<open>C25: a request that an authenticator of any of the three kinds has built, with a retransmission interval that is not 0 (with
  0, as a backend is made, no timer runs), is transmitted as often as the maximum says, but at least once, and no more. After it has been sent and the timer has fired \<open>n\<close> times, with nothing coming in, the same
  packet has gone out \<open>n + 1\<close> times, up to the larger of the maximum and 1; from then on the authenticator is in
  StTimeoutFailure with its timer cancelled, and the application has been told nothing.\<close>

theorem request_transmissions:
  assumes "request_built pk s" "au_retransmissionInterval s \<noteq> 0" "m = max 1 (unat (au_maxRetransmissionCount s))"
  shows "let s' = (timer_fires env ^^ n) (send_request env s)
         in sw_out s' = sw_out s @ replicate (min (n + 1) m) (OutSend pk) \<and>
            (if n < m then fsm_state s' = StIdle else fsm_state s' = StTimeoutFailure \<and> fsm_timers s' 0 = None)"
proof -
  let ?s = "send_request env s"
  have s: "request_sent pk ?s" "sw_out ?s = sw_out s @ [OutSend pk]" "au_retransmissionCount ?s = 1"
    "au_maxRetransmissionCount ?s = au_maxRetransmissionCount s"
    using request_goes [OF assms(1,2), of env] by (simp_all add: Let_def)
  have k: "request_sent pk ((timer_fires env ^^ k) ?s) \<and>
      sw_out ((timer_fires env ^^ k) ?s) = sw_out s @ replicate (k + 1) (OutSend pk) \<and>
      unat (au_retransmissionCount ((timer_fires env ^^ k) ?s)) = k + 1 \<and>
      au_maxRetransmissionCount ((timer_fires env ^^ k) ?s) = au_maxRetransmissionCount s" if "k < m" for k
  proof (cases "k = 0")
    case True
    with s show ?thesis by simp
  next
    case False
    with that assms(3) have "unat (au_retransmissionCount ?s) + k \<le> unat (au_maxRetransmissionCount ?s)"
      by (simp add: s(3,4) max_def split: if_splits)
    from transmissions [OF s(1) this, of env] s show ?thesis by (simp add: Let_def)
  qed
  have m: "0 < m" "unat (au_maxRetransmissionCount s) \<le> m" using assms(3) by auto
  let ?l = "(timer_fires env ^^ (m - 1)) ?s"
  have "m - 1 < m" using m by simp
  note l = k [OF this]
  have "\<not> au_retransmissionCount ?l < au_maxRetransmissionCount ?l"
    using l m by (simp add: word_less_nat_alt)
  with timer_gives_up [of pk ?l env] l have "gave_up (timer_fires env ?l) \<and> sw_out (timer_fires env ?l) = sw_out ?l" by blast
  moreover have "timer_fires env ?l = (timer_fires env ^^ m) ?s"
    using m(1) by (cases m) simp_all
  ultimately have u: "gave_up ((timer_fires env ^^ m) ?s)" "sw_out ((timer_fires env ^^ m) ?s) = sw_out ?l" by simp_all
  have stays: "(timer_fires env ^^ (j + m)) ?s = (timer_fires env ^^ m) ?s" for j
    using u(1) by (induction j) (simp_all add: gave_up_stays)
  show ?thesis
  proof (cases "n < m")
    case True
    with k [of n] show ?thesis by (simp add: Let_def request_sent_def min_def)
  next
    case False
    then have "(timer_fires env ^^ n) ?s = (timer_fires env ^^ m) ?s" using stays [of "n - m"] by simp
    with False u l m show ?thesis by (simp add: Let_def gave_up_def min_def)
  qed
qed

theorem request_transmissions_witness:
  "sw_out ((timer_fires some_auth_env ^^ 5) (send_request some_auth_env
     ((new_auth PassThrough some_policy END)\<lparr>fsm_state := StMethodRequest, fsm_running := True,
        sw_tx := Some (mb_of [1, 1, 0, 5, 1])\<rparr>))) =
   [OutSend [1, 1, 0, 5, 1], OutSend [1, 1, 0, 5, 1], OutSend [1, 1, 0, 5, 1]]"
proof -
  let ?s = "(new_auth PassThrough some_policy END)\<lparr>fsm_state := StMethodRequest, fsm_running := True,
      sw_tx := Some (mb_of [1, 1, 0, 5, 1])\<rparr>"
  have r: "request_built [1, 1, 0, 5, 1] ?s" by (simp add: request_built_def new_auth_def mb_of_def mb_bytes_def)
  have c: "au_retransmissionInterval ?s \<noteq> 0" "3 = max 1 (unat (au_maxRetransmissionCount ?s))" "sw_out ?s = []"
    by (simp_all add: new_auth_def defaultMaxRetransmissionCount_def defaultRetransmissionInterval_def)
  have n: "replicate (min (5 + 1) 3) (OutSend [1, 1, 0, 5, 1]) =
      [OutSend [1, 1, 0, 5, 1], OutSend [1, 1, 0, 5, 1], OutSend [1, 1, 0, 5, 1]]"
    by (simp add: eval_nat_numeral)
  from request_transmissions [OF r c(1,2), where env = some_auth_env and n = 5] show ?thesis
    unfolding n c(3) Let_def by (simp only: append_Nil)
qed

text \<open>C35: A peer that listens and gets two messages it discards before the first is served, where one thread serves the
  session: the event of the first message discards both, and in the event of the second the thread goes to sleep in an empty
  queue. While it sleeps the timeout of the session is not served. The next message wakes it and is taken at once, and
  when that one is discarded too, the event the message came with puts the thread to sleep again.\<close>

theorem two_discards_block:
  assumes "listens s" "Header_toApp b1 = Parsed (h1, c1)" "Header_toApp b2 = Parsed (h2, c2)" "Header_toApp b3 = Parsed (h3, c3)"
    "\<forall>h \<in> {h1, h2, h3}. eh_code h \<notin> {Request, Success, Failure}"
  shows "let s' = (peer_Serve_next env ^^ 2) (ep_Receive b2 (ep_Receive b1 s));
             s'' = peer_Serve_next env (ep_Receive b3 s')
         in sw_health s' = Blocked \<and> sw_discard s' = sw_discard s + 2 \<and>
            peer_Serve_next env (ep_Timeout ty s') = ep_Timeout ty s' \<and>
            sw_health s'' = Alive \<and> sw_discard s'' = sw_discard s + 3 \<and> sw_out s'' = sw_out s \<and>
            sw_health (peer_Serve_next env s'') = Blocked"
proof -
  let ?s1 = "s\<lparr>sw_rx := Some c2, sw_mux := [JobSwitch], sw_events := [PvRxMsg], sw_discard := sw_discard s + 2\<rparr>"
  let ?s2 = "s\<lparr>fsm_state := EpReceived, sw_rx := Some c2, sw_discard := sw_discard s + 2, sw_health := Blocked\<rparr>"
  let ?s3 = "s\<lparr>sw_rx := Some c3, sw_mux := [JobSwitch], sw_events := [PvRxMsg], sw_discard := sw_discard s + 3\<rparr>"
  note st = assms(1) [unfolded listens_def]
  have 1: "peer_Serve_next env (ep_Receive b2 (ep_Receive b1 s)) = ?s1"
    using st assms(2-5) by (cases s) (simp add: peer_eval Let_def)
  have 2: "peer_Serve_next env ?s1 = ?s2"
    using st by (cases s) (simp add: peer_eval Let_def)
  have 3: "peer_Serve_next env (ep_Receive b3 ?s2) = ?s3"
    using st assms(4,5) by (cases s) (simp add: peer_eval Let_def)
  have t: "peer_Serve_next env (ep_Timeout ty ?s2) = ep_Timeout ty ?s2"
    using st by (simp add: ep_Timeout_def sw_Timeout_def sw_Notify_def peer_Serve_next_def split: option.split)
  have 4: "sw_health (peer_Serve_next env ?s3) = Blocked"
    using st by (cases s) (simp add: peer_eval Let_def)
  show ?thesis unfolding funpow2 1 2 Let_def 3 t using st 4 by simp
qed

theorem two_discards_block_witness:
  "let b = mb_of [9, 0, 0, 4]; s = peer_Serve_next some_peer_env (ep_Start (new_eap_peer some_policy 1 0 FAIL MNone))
   in sw_health ((peer_Serve_next some_peer_env ^^ 2) (ep_Receive b (ep_Receive b s))) = Blocked"
proof -
  have "Header_toApp (mb_of [9, 0, 0, 4]) = Parsed (\<lparr>eh_code = 9, eh_identifier = 0, eh_length = be16 0 4\<rparr>,
      \<lparr>mb_mem = [9, 0, 0, 4], mb_rd = 4, mb_wr = unat (be16 0 4)\<rparr>)"
    by (simp add: Header_toApp_def mb_read_def mb_of_def)
  from two_discards_block [OF some_peer_listens this this this] show ?thesis by (simp add: Let_def)
qed

text \<open>C36: A peer that is in no method yet and gets a new request for a type other than Identity, Notification and the
  expanded type, which is not the type its policy asks for, while that is not vendor specific, refuses it by a Nak of five
  bytes that names no type, since the block it makes has no room for the list. And an authenticator that
  reads a Nak takes no type from it, whatever is in it, and goes on with the failure branch of its current element.\<close>

theorem nak_names_nothing:
  assumes "listens s" "sw_currentMethod s = EapType 0" "fresh_id i s" "t \<notin> {1, 2, 254}"
    and "po_current (sw_policy s) = PElem e" "pe_method (po_elems (sw_policy s) e) \<noteq> EapType t"
      "\<not> IsVSE (pe_method (po_elems (sw_policy s) e))" "length body + 5 < 2 ^ 16"
  shows "sw_out (peer_Serve_next penv (ep_Receive (mb_of (packet 1 i t body)) s)) = sw_out s @ [OutSend [2, i, 0, 5, 3]] \<and>
    au_ResetMethod (a\<lparr>sw_rx := Some b\<rparr>) =
      sw_Event EvUCT (a\<lparr>sw_rx := None, sw_policy := Update PolicyOnFailure (sw_policy a)\<rparr>)"
  using peer_naks [OF assms] nak_read by blast

theorem nak_names_nothing_witness:
  "let s = peer_Serve_next some_peer_env (ep_Start (new_eap_peer some_policy 1 0 FAIL MNone))
   in sw_out (peer_Serve_next some_peer_env (ep_Receive (mb_of (packet 1 7 13 [0])) s)) = [OutSend [2, 7, 0, 5, 3]]"
proof -
  let ?s = "peer_Serve_next some_peer_env (ep_Start (new_eap_peer some_policy 1 0 FAIL MNone))"
  have s: "listens ?s" "sw_currentMethod ?s = EapType 0" "fresh_id 7 ?s" "po_current (sw_policy ?s) = PElem 0" "sw_out ?s = []"
    "po_elems (sw_policy ?s) 0 = new_pe (EapType 4)"
    using peer_starts [of some_peer_env some_policy 1 0 FAIL MNone]
    by (simp_all add: Let_def fresh_id_def some_policy_def)
  have "\<not> IsVSE (EapType 4)" by (simp add: IsVSE_def EapType_def)
  with nak_names_nothing [OF s(1-3) _ s(4), of 13 "[0]" some_peer_env] s(5,6) show ?thesis
    by (simp add: Let_def new_pe_def)
qed

text \<open>C37: AddFailurePolicyElement installs the element of success: an authenticator whose current policy element was
  prepared with it answers any MD5-Challenge response to its challenge with a Success, whatever value is in it.\<close>

theorem failure_element_grants:
  assumes "awaits env chal m s" "po_current (sw_policy s) = PElem i"
    "po_elems (sw_policy s) i = AddFailurePolicyElement (new_pe (EapType 4))"
    and "md5_ok c" "length (md5_body c) + 5 < 2 ^ 16"
  shows "sw_out ((auth_Serve env ^^ 3) (auth_Receive (mb_of (packet 2 (sw_id s) 4 (md5_body c))) s)) =
           sw_out s @ [OutSuccessMsg [3, sw_id s, 0, 4]]"
  using auth_judges [OF assms(1,2) _ _ _ assms(4,5), of True] assms(3)
  by (simp add: AddFailurePolicyElement_def new_pe_def Let_def final_bytes)

theorem failure_element_grants_witness:
  "\<exists>s. sw_out ((auth_Serve some_auth_env ^^ 3) (auth_Receive (mb_of (packet 2 (sw_id s) 4 (md5_body \<lparr>md_value = [0], md_name = []\<rparr>))) s)) =
     sw_out s @ [OutSuccessMsg [3, sw_id s, 0, 4]]"
proof -
  let ?p = "some_policy\<lparr>po_elems := (\<lambda>i. AddFailurePolicyElement (new_pe (EapType 4)))\<rparr>"
  let ?s = "(auth_Serve some_auth_env ^^ 4) (auth_Start (new_auth StandAlone ?p END))"
  have p: "md5_policy ?p" by (simp add: md5_policy_def some_policy_def AddFailurePolicyElement_def new_pe_def)
  obtain m where m: "awaits some_auth_env (replicate 16 7) m ?s" "po_current (sw_policy ?s) = PElem 0"
    "po_elems (sw_policy ?s) = po_elems ?p"
    using auth_asks [OF p, of some_auth_env "replicate 16 7" END] by (auto simp: Let_def some_auth_env_def some_policy_def)
  have "md5_ok \<lparr>md_value = [0], md_name = []\<rparr>" "length (md5_body \<lparr>md_value = [0], md_name = []\<rparr>) + 5 < 2 ^ 16"
    by (simp_all add: md5_ok_def md5_body_def)
  from failure_element_grants [OF m(1,2) _ this] m(3) show ?thesis by auto
qed

text \<open>C38: A decision of the peer survives a restart. A peer that has once answered a challenge, and is started again,
  takes a Success that it receives before any request for the success of the new session.\<close>

theorem restarted_peer_trusts_success:
  assumes "listens s" "ep_decision s \<noteq> FAIL"
  shows "sw_out (peer_Serve_next env (ep_Receive (mb_of [3, i, 0, 4]) (peer_Serve_next env (ep_Start s)))) =
           sw_out s @ [OutSuccess]"
proof -
  let ?s = "peer_Serve_next env (ep_Start s)"
  have r: "listens ?s" "ep_decision ?s = ep_decision s" "sw_out ?s = sw_out s"
    using restart_keeps_decision [OF assms(1), of env] by (simp_all add: Let_def)
  show ?thesis
    using peer_concludes [OF r(1), of env i] assms(2) r(2,3) by (simp add: Let_def final_bytes)
qed

theorem restarted_peer_trusts_success_witness:
  "let s = peer_Serve_next some_peer_env (ep_Start (new_eap_peer some_policy 1 0 UNCOND_SUCC MNone))
   in sw_out (peer_Serve_next some_peer_env (ep_Receive (mb_of [3, 9, 0, 4]) (peer_Serve_next some_peer_env (ep_Start s)))) =
        [OutSuccess]"
  using restarted_peer_trusts_success [OF some_peer_listens, of UNCOND_SUCC some_peer_env 9]
    peer_starts [of some_peer_env some_policy 1 0 UNCOND_SUCC MNone]
  by (simp add: Let_def)

text \<open>C39: A pass-through authenticator that waits for the backend and is handed a packet that is no request: the action that
  finds this out takes the packet off the queue, and the one that is to discard it goes to sleep until there is another.\<close>

theorem passthrough_discard_blocks:
  assumes "au_kind s = PassThrough" "fsm_state s = StAaaIdle" "fsm_running s" "sw_health s = Alive" "sw_raised s = None"
    "sw_events s = []" "sw_mux s = []" "au_aaaQueue s = []" "policy_method (sw_policy s) = None"
    and "Header_toApp b = Parsed (h, c)" "eh_code h \<noteq> Request"
  shows "map_option (\<lambda>s'. sw_health (auth_Serve env s')) (AAA_Continue (Some b) s) = Some Blocked"
  using assms
  by (cases s) (simp add: AAA_Continue_def auth_eval passthrough_cmds_def au_AaaContinue_def au_from_AAA_def au_Discard3_def Let_def)

theorem passthrough_discard_blocks_witness:
  "map_option (\<lambda>s'. sw_health (auth_Serve some_auth_env s'))
     (AAA_Continue (Some (mb_of [2, 0, 0, 4]))
       ((new_auth PassThrough (some_policy\<lparr>po_current := PFail\<rparr>) END)\<lparr>fsm_state := StAaaIdle, fsm_running := True\<rparr>)) =
   Some Blocked"
proof -
  have "Header_toApp (mb_of [2, 0, 0, 4]) = Parsed (\<lparr>eh_code = 2, eh_identifier = 0, eh_length = be16 0 4\<rparr>,
      \<lparr>mb_mem = [2, 0, 0, 4], mb_rd = 4, mb_wr = unat (be16 0 4)\<rparr>)"
    by (simp add: Header_toApp_def mb_read_def mb_of_def)
  from passthrough_discard_blocks [OF _ _ _ _ _ _ _ _ _ this] show ?thesis
    by (simp add: new_auth_def policy_method_def)
qed

end
