(* ===== verification/Spec2Isabelle.thy ===== *)
theory Spec2Isabelle
  imports Framework_Fsm Framework_Queue Rx_Collector Peer_Props Router_Props Session_Id_Props Auth_Props Acct_Props Tx_Collector Eap_Props
begin

text \<open>
  A development about Open Diameter, the C++ implementation of the Diameter base protocol in
  \<open>src/cplusplus\<close>. It follows a message through a Diameter node: bytes of a connection become messages, messages
  are events of the state machine of a peer, what the peer does not take itself is routed, and sessions of applications
  sit on top of it. The EAP library, with which a node authenticates users, is a second stack beside it.

  Parts and theories, with the files under \<open>src/cplusplus\<close> they model:

  \<^item> \<open>Prelude\<close>: names of machine types, hints shared by the proofs.
  \<^item> \<open>Framework_Fsm\<close>, \<open>Framework_Queue\<close>, \<open>Framework_Containers\<close>, \<open>Ordered_Map\<close>: \<open>include/framework.h\<close>. State
    tables with wildcard entries and the machine that interprets them with its timers; the weighted priority
    queue of jobs and the protected queue; the protected map, as a function where only look-up matters and as the
    ordered list of its entries where the code walks it. The locale \<open>insert_store\<close> is the interface of a store whose
    insertion keeps what is there; it is interpreted on the map and on the ordered list.
  \<^item> \<open>Diameter_Msg\<close>: messages, the container lists of attribute-value pairs and the widgets that read and write
    them (\<open>include/aaa_parser_api.h\<close>, \<open>libdiamparser/include/diameter_parser.h\<close>), result codes and error answers
    (\<open>libdiameter/include/aaa_data_defs.h\<close>).
  \<^item> \<open>Parser_Headers\<close>: the message header in both directions, the list of AVP headers of a payload
    (\<open>libdiamparser/src/aaa_parser.cxx\<close>, \<open>aaa_avp_header.cxx\<close>, \<open>aaa_parser_avp.cxx\<close>).
  \<^item> \<open>Rx_Collector\<close>: the collector that cuts the byte stream into messages
    (\<open>libdiameter/src/aaa_transport_collector.cxx\<close>). The parser of a payload is a field of its environment.
  \<^item> \<open>C_Text\<close>: numbers as the C library reads and prints them.
  \<^item> \<open>Avp_Types\<close>, \<open>Avp_Grammar\<close>, \<open>Avp_Values\<close>, \<open>Avp_Parser\<close>: the typed entries of containers, the dictionary and its
    look-ups, the parsers of every type of value in both directions (\<open>libdiamparser/include/aaa_parser_avpvalue.h\<close>), an AVP
    with header and padding (\<open>src/aaa_parser_avp.cxx\<close>), the qualified lists of a command or a group
    (\<open>src/aaa_parser_q_avplist.cxx\<close>). A parser returns its state, throws an error, or, as \<open>None\<close>, leaves the bytes it was
    given. The grammars are data; Boost.Spirit, which runs them, is a parameter, with an instance for the documented
    semantics of the operators that occur. The depth \<open>n\<close> of a list bounds the nesting of groups; a dictionary whose groups
    hold themselves has no depth that is enough, and the code does not return on it.
    \<open>Avp_Codec\<close> and \<open>Avp_Write\<close> give the encoding as a function on containers, and show that the writer produces it and the
    reader inverts it; \<open>Avp_Value_Props\<close> and \<open>Avp_Props\<close> what single values suffer, that what is read conforms to the
    dictionary, and that writing stays in the buffer.
  \<^item> \<open>Tx_Collector\<close>: the transmitting collector with its growing buffer, and the way of messages from the containers of a
    sender over the bytes of a connection to the containers of the receiver.
  \<^item> \<open>Peer_Caps\<close>, \<open>Peer_Fsm\<close>, \<open>Peer_Entry\<close>, \<open>Peer_Props\<close>: capabilities exchange, election, the peer state machine
    with every action (\<open>libdiameter/src/aaa_peer_fsm.cxx\<close>), the upcalls of connections and the peer table
    (\<open>aaa_peer_table.cxx\<close>), and their properties over all reachable peers.
  \<^item> \<open>Route_Table\<close>, \<open>Msg_Router\<close>, \<open>Router_Inv\<close>, \<open>Router_Props\<close>: the realm routing table
    (\<open>libdiameter/src/aaa_route_table.cxx\<close>), the request and delivery chains with their pending requests, the
    redirect agent and retransmission (\<open>aaa_route_msg_router.cxx\<close>, \<open>include/aaa_route_framework.h\<close>), the handlers
    of \<open>aaa_session_msg_rx.cxx\<close>; an invariant of the pending requests over every step, and what routing does.
  \<^item> \<open>Session_Id\<close>, \<open>Session_Id_Props\<close>: session counters and Session-Id AVPs (\<open>aaa_session_attributes.cxx\<close>).
  \<^item> \<open>Session_Base\<close>, \<open>Auth_Client\<close>, \<open>Auth_Server\<close>: authorization sessions. Attributes, the application as an
    environment and the delivery to the router (\<open>include/aaa_session.h\<close>, \<open>aaa_session.inl\<close>); the state tables, actions,
    messages and session objects of the two sides (\<open>include/aaa_session_auth_client_fsm.h\<close>, \<open>aaa_session_client.cxx\<close>
    and the like). \<open>Session_Tx\<close> has what the delivery to the router does to a message and to a session; \<open>Auth_Inv\<close> has the invariants of both machines, as instances of the locale \<open>machine_invariant\<close> of
    \<open>Framework_Fsm\<close>; \<open>Auth_Props\<close> the exchanges between a client and a server (granting access, aborting,
    re-authorization), what a waiting session needs to end, and bounds of the negotiated values.
  \<^item> \<open>Acct_Base\<close>, \<open>Acct_Client\<close>, \<open>Acct_Server\<close>: accounting sessions. The attributes and AVPs the two sides share, the
    client's sub-sessions with their state table and the parent session that finds them
    (\<open>include/aaa_session_acct_client_fsm.h\<close>, \<open>aaa_session_client.inl\<close>), the server
    (\<open>include/aaa_session_acct_server_fsm.h\<close>, \<open>aaa_session_server.inl\<close>). The collector of records of a client and the
    storage of a server are the application's: records of functions over a state of their own, and the callbacks of the
    application are taken not to call the session again. \<open>Acct_Inv\<close> has the invariants of both machines, as instances
    of \<open>machine_invariant\<close>; \<open>Acct_Props\<close> the start and the stop of a session, the numbering of records, what stands
    behind a successful answer, which outages a session does not survive.
  \<^item> \<open>Eap_Types\<close>, \<open>Eap_Policy\<close>, \<open>Eap_Fsm\<close>: the EAP library (\<open>libeap\<close>). Message blocks with two pointers into a memory,
    and the packets in both directions (\<open>include/eap.hxx\<close>, \<open>include/eap_parser.hxx\<close>); the policy, a graph of elements in a
    store (\<open>eapcore/eap_policy.cxx\<close>); the session with its queue of jobs, the switch machine and the machine of the method
    that runs, and the events they hand to each other (\<open>include/eap_fsm.hxx\<close>, \<open>eapcore/eap_fsm.cxx\<close>).
    \<open>Eap_Auth\<close> has the stand-alone, backend and pass-through authenticators and the methods Identity, Notification and
    MD5-Challenge on their side (\<open>eapcore/eap_authfsm.cxx\<close>, \<open>eap_standalone_authfsm.cxx\<close> and the like, \<open>eap_md5.cxx\<close>);
    \<open>Eap_Peer\<close> the peer (\<open>eapcore/eap_peerfsm.cxx\<close>) with MD5-Challenge on its side. MD5, the generator of random
    numbers and the questions to the application are an environment.
    \<open>Eap_Chains\<close> shows that the chain of events an event sets off ends, as instances of the locale \<open>eap_chains\<close>;
    \<open>Eap_Exchange\<close> and \<open>Eap_Answer\<close> run one challenge and its answer on either side; \<open>Eap_Auth_Inv\<close> has an invariant of
    the stand-alone authenticator over every sequence of messages and timers, as an instance of the locale
    \<open>eap_steps_keep\<close>, and \<open>Eap_Ready\<close> another, that the thread which serves a stand-alone or backend authenticator never
    sleeps in an empty queue of messages; \<open>Eap_Props\<close> the properties: what a Success proves, a conversation of the two sides, retransmission,
    round trips, and where a session stops or grants too much.

  State is passed explicitly: a record per class, an operation is a function from record to record, with the return
  value beside it. Errors are values: \<open>None\<close>, a sum, or a result datatype. What leaves a component (a message on a
  connection, a call of the application, an entry for the garbage collector) is appended to a trace in its record, so that
  a theorem can say that nothing else happened. A read through a null pointer sets a fault flag. Identifiers and
  lengths are words of the width the code has.

  Fuel: only loops whose end is itself in question have it. The collector has a theorem that a fuel linear in the bytes
  is enough and one that no fuel is enough for a header of length 0; the walk of a retransmission ends with
  \<open>2 ^ 32 + 1\<close> steps because it goes up in keys of 32 bits (\<open>Msg_Router\<close> says what it takes the lock of the table to do,
  which the walk holds and its actions ask for again); the walk of the peer table ends when its entries differ;
  the transmitting collector ends after ten rounds without fuel. The chain of events of an EAP session has
  fuel 8, and on the peer 5 more for each message in its queue; \<open>Eap_Chains\<close> shows that it has then ended.

  Threads: a session of EAP is served by one thread, which may sleep in an empty queue of messages inside an action and goes
  on with it when another thread has put a message there; the weighted queue gives a result of its own to a caller
  that would sleep.

  Not modelled: sockets, locks and the interleaving of threads (ACE), XML configuration (Xerces), TLS and cryptography (OpenSSL), and with them
  the EAP methods TLS, FAST, Archie and GPSK; dialogs and test programs; the octets of a Failed-AVP, which the code computes
  and never sends; the session database, PANA, and the applications (credit control, EAP, Mobile IPv4, NASREQ) on top of
  the session library.
\<close>

end
